(* ===== verification/Js_Strings.thy ===== *)
theory Js_Strings
  imports Js_Prelude
begin

text \<open>
  JavaScript strings as lists of characters: \<open>split\<close> on one character, \<open>padStart\<close>, \<open>padEnd\<close>,
  \<open>trim\<close>, ASCII case conversion, removal of a character (\<open>replace\<close> with a global one-character
  pattern), and numerals in base 10 and 16 with the value they denote (\<open>BigInt(s)\<close> on a string
  of digits, \<open>n.toString(base)\<close>).
\<close>

section \<open>Splitting, padding, trimming\<close>

fun split_on :: "'a \<Rightarrow> 'a list \<Rightarrow> 'a list list" where
  "split_on c [] = [[]]"
| "split_on c (x # xs) =
     (if x = c then [] # split_on c xs
      else (case split_on c xs of [] \<Rightarrow> [[x]] | y # ys \<Rightarrow> (x # y) # ys))"

lemma split_on_not_Nil [simp]: "split_on c xs \<noteq> []"
  by (induction xs) (auto split: list.splits)

lemma split_on_none: "c \<notin> set xs \<Longrightarrow> split_on c xs = [xs]"
  by (induction xs) auto

lemma split_on_append: "c \<notin> set xs \<Longrightarrow> split_on c (xs @ c # ys) = xs # split_on c ys"
  by (induction xs) auto

lemma split_on_two_iff:
  "split_on c s = [a, b] \<longleftrightarrow> s = a @ c # b \<and> c \<notin> set a \<and> c \<notin> set b"
proof
  have single: "split_on c s = [b] \<Longrightarrow> s = b \<and> c \<notin> set b" for s b
    by (induction s arbitrary: b) (auto split: if_splits list.splits)
  show "split_on c s = [a, b] \<Longrightarrow> s = a @ c # b \<and> c \<notin> set a \<and> c \<notin> set b"
    by (induction s arbitrary: a) (auto split: if_splits list.splits dest: single)
next
  assume "s = a @ c # b \<and> c \<notin> set a \<and> c \<notin> set b"
  then show "split_on c s = [a, b]"
    by (simp add: split_on_append split_on_none)
qed

definition padStart :: "nat \<Rightarrow> char \<Rightarrow> string \<Rightarrow> string" where
  "padStart n c s = replicate (n - length s) c @ s"

definition padEnd :: "nat \<Rightarrow> char \<Rightarrow> string \<Rightarrow> string" where
  "padEnd n c s = s @ replicate (n - length s) c"

lemma length_padStart [simp, str_simps]: "length (padStart n c s) = max n (length s)"
  by (auto simp: padStart_def)

lemma length_padEnd [simp, str_simps]: "length (padEnd n c s) = max n (length s)"
  by (auto simp: padEnd_def)

lemma set_padStart: "set (padStart n c s) \<subseteq> insert c (set s)"
  by (auto simp: padStart_def)

definition remove_char :: "char \<Rightarrow> string \<Rightarrow> string" where
  "remove_char c s = filter (\<lambda>x. x \<noteq> c) s"

lemma remove_char_append [simp, str_simps]:
  "remove_char c (s @ t) = remove_char c s @ remove_char c t"
  by (simp add: remove_char_def)

lemma remove_char_id: "c \<notin> set s \<Longrightarrow> remove_char c s = s"
  by (auto simp: remove_char_def filter_id_conv)

text \<open>The white space \<open>trim\<close> removes, among the characters with codes below 256.\<close>

definition isSpace :: "char \<Rightarrow> bool" where
  "isSpace c = (let n = (of_char c :: nat) in (9 \<le> n \<and> n \<le> 13) \<or> n = 32 \<or> n = 160)"

definition trim :: "string \<Rightarrow> string" where
  "trim s = rev (dropWhile isSpace (rev (dropWhile isSpace s)))"

lemma trim_id: "(\<forall>c \<in> set s. \<not> isSpace c) \<Longrightarrow> trim s = s"
proof -
  assume h: "\<forall>c \<in> set s. \<not> isSpace c"
  have drop: "dropWhile isSpace xs = xs" if "\<forall>c \<in> set xs. \<not> isSpace c" for xs
    using that by (cases xs) auto
  with h show ?thesis by (simp add: trim_def drop [of s] drop [of "rev s"])
qed

definition lower_char :: "char \<Rightarrow> char" where
  "lower_char c = (let n = (of_char c :: nat) in if 65 \<le> n \<and> n \<le> 90 then char_of (n + 32) else c)"

definition upper_char :: "char \<Rightarrow> char" where
  "upper_char c = (let n = (of_char c :: nat) in if 97 \<le> n \<and> n \<le> 122 then char_of (n - 32) else c)"

definition toLowerCase :: "string \<Rightarrow> string" where
  "toLowerCase s = map lower_char s"

definition toUpperCase :: "string \<Rightarrow> string" where
  "toUpperCase s = map upper_char s"

lemma length_toCase [simp, str_simps]:
  "length (toLowerCase s) = length s" "length (toUpperCase s) = length s"
  by (simp_all add: toLowerCase_def toUpperCase_def)

definition startsWith :: "string \<Rightarrow> string \<Rightarrow> bool" where
  "startsWith s p = (take (length p) s = p)"

section \<open>Numerals\<close>

fun digits_of :: "nat \<Rightarrow> nat \<Rightarrow> nat list" where
  "digits_of b n = (if b < 2 \<or> n < b then [n] else digits_of b (n div b) @ [n mod b])"

declare digits_of.simps [simp del]

definition digits_val :: "nat \<Rightarrow> nat list \<Rightarrow> nat" where
  "digits_val b ds = foldl (\<lambda>a d. a * b + d) 0 ds"

lemma foldl_base:
  "foldl (\<lambda>a d. a * b + d) (x::nat) ds = x * b ^ length ds + foldl (\<lambda>a d. a * b + d) 0 ds"
proof (induction ds arbitrary: x)
  case (Cons d ds)
  have "foldl (\<lambda>a d. a * b + d) x (d # ds)
      = (x * b + d) * b ^ length ds + foldl (\<lambda>a d. a * b + d) 0 ds"
    using Cons.IH [of "x * b + d"] by simp
  also have "\<dots> = x * b ^ length (d # ds) + (d * b ^ length ds + foldl (\<lambda>a d. a * b + d) 0 ds)"
    by (simp add: algebra_simps)
  also have "d * b ^ length ds + foldl (\<lambda>a d. a * b + d) 0 ds = foldl (\<lambda>a d. a * b + d) 0 (d # ds)"
    using Cons.IH [of d] by simp
  finally show ?case .
qed simp

lemma digits_val_append:
  "digits_val b (xs @ ys) = digits_val b xs * b ^ length ys + digits_val b ys"
  unfolding digits_val_def foldl_append by (rule foldl_base)

lemma digits_val_simps [simp, str_simps]:
  "digits_val b [] = 0" "digits_val b [d] = d"
  by (simp_all add: digits_val_def)

lemma digits_val_zeros [simp]: "digits_val b (replicate n 0 @ ds) = digits_val b ds"
proof -
  have "digits_val b (replicate n 0) = 0"
    by (induction n) (simp_all add: digits_val_def)
  then show ?thesis by (simp add: digits_val_append)
qed

lemma digits_val_digits_of: "digits_val b (digits_of b n) = n"
proof (induction b n rule: digits_of.induct)
  case (1 b n)
  then show ?case by (subst digits_of.simps) (auto simp: digits_val_append)
qed

lemma digits_of_bound: "2 \<le> b \<Longrightarrow> d \<in> set (digits_of b n) \<Longrightarrow> d < b"
proof (induction b n rule: digits_of.induct)
  case (1 b n)
  then show ?case by (subst (asm) (2) digits_of.simps) (auto split: if_splits)
qed

lemma digits_of_not_Nil [simp]: "digits_of b n \<noteq> []"
  by (subst digits_of.simps) simp

lemma digits_of_length: "2 \<le> b \<Longrightarrow> 0 < w \<Longrightarrow> n < b ^ w \<Longrightarrow> length (digits_of b n) \<le> w"
proof (induction w arbitrary: n)
  case (Suc w)
  show ?case
  proof (cases "n < b")
    case True
    then show ?thesis by (subst digits_of.simps) simp
  next
    case False
    with Suc.prems have "n div b < b ^ w" and "0 < w"
      by (auto simp: less_mult_imp_div_less mult.commute intro!: gr0I)
    with Suc.IH Suc.prems have "length (digits_of b (n div b)) \<le> w" by simp
    then show ?thesis by (subst digits_of.simps) simp
  qed
qed simp

definition digit_char :: "nat \<Rightarrow> char" where
  "digit_char d = char_of (if d < 10 then 48 + d else 87 + d)"

definition isDigit :: "char \<Rightarrow> bool" where
  "isDigit c = (let n = (of_char c :: nat) in 48 \<le> n \<and> n \<le> 57)"

definition hexval :: "char \<Rightarrow> nat option" where
  "hexval c = (let n = (of_char c :: nat) in
     if 48 \<le> n \<and> n \<le> 57 then Some (n - 48)
     else if 97 \<le> n \<and> n \<le> 102 then Some (n - 87)
     else if 65 \<le> n \<and> n \<le> 70 then Some (n - 55) else None)"

definition isHex :: "char \<Rightarrow> bool" where
  "isHex c = (hexval c \<noteq> None)"

definition digit_value :: "char \<Rightarrow> nat" where
  "digit_value c = of_char c - 48"

lemma digit_char_eval [str_simps]:
  "digit_char 0 = CHR ''0''" "digit_char (Suc 0) = CHR ''1''" "digit_char 2 = CHR ''2''"
  "digit_char 3 = CHR ''3''" "digit_char 4 = CHR ''4''" "digit_char 5 = CHR ''5''"
  "digit_char 6 = CHR ''6''" "digit_char 7 = CHR ''7''" "digit_char 8 = CHR ''8''"
  "digit_char 9 = CHR ''9''" "digit_char 10 = CHR ''a''" "digit_char 11 = CHR ''b''"
  "digit_char 12 = CHR ''c''" "digit_char 13 = CHR ''d''" "digit_char 14 = CHR ''e''"
  "digit_char 15 = CHR ''f''"
  by code_simp+

lemma of_digit_char: "d < 16 \<Longrightarrow> (of_char (digit_char d) :: nat) = (if d < 10 then 48 + d else 87 + d)"
  by (simp add: digit_char_def of_char_of)

lemma hexval_digit_char [simp]: "d < 16 \<Longrightarrow> hexval (digit_char d) = Some d"
  by (simp add: hexval_def of_digit_char)

lemma hexval_bound: "hexval c = Some d \<Longrightarrow> d < 16"
  by (auto simp: hexval_def Let_def split: if_splits)

lemma isDigit_digit_char [simp]: "d < 10 \<Longrightarrow> isDigit (digit_char d)"
  by (simp add: isDigit_def of_digit_char)

lemma isHex_digit_char [simp]: "d < 16 \<Longrightarrow> isHex (digit_char d)"
  by (simp add: isHex_def)

lemma digit_value_digit_char [simp]: "d < 10 \<Longrightarrow> digit_value (digit_char d) = d"
  by (simp add: digit_value_def of_digit_char)

lemma isDigit_not_dot: "isDigit c \<Longrightarrow> c \<noteq> CHR ''.''"
  by (auto simp: isDigit_def)

lemma isDigit_not_space: "isDigit c \<Longrightarrow> \<not> isSpace c"
  by (auto simp: isDigit_def isSpace_def Let_def)

lemma isDigit_isHex: "isDigit c \<Longrightarrow> isHex c"
  by (auto simp: isDigit_def isHex_def hexval_def Let_def)

text \<open>\<open>/^\d+$/\<close> and \<open>/^[0-9a-fA-F]+$/\<close>.\<close>

definition all_digits :: "string \<Rightarrow> bool" where
  "all_digits s = (s \<noteq> [] \<and> list_all isDigit s)"

definition all_hex :: "string \<Rightarrow> bool" where
  "all_hex s = (s \<noteq> [] \<and> list_all isHex s)"

definition dec_of_nat :: "nat \<Rightarrow> string" where
  "dec_of_nat n = map digit_char (digits_of 10 n)"

definition hex_of_nat :: "nat \<Rightarrow> string" where
  "hex_of_nat n = map digit_char (digits_of 16 n)"

definition dec_of_int :: "int \<Rightarrow> string" where
  "dec_of_int i = (if i < 0 then CHR ''-'' # dec_of_nat (nat (- i)) else dec_of_nat (nat i))"

definition nat_of_dec :: "string \<Rightarrow> nat" where
  "nat_of_dec s = digits_val 10 (map digit_value s)"

lemma all_digits_dec_of_nat [simp]: "all_digits (dec_of_nat n)"
  by (auto simp: all_digits_def dec_of_nat_def list_all_iff intro!: isDigit_digit_char
      dest: digits_of_bound [rotated])

lemma map_digit_value: "(\<forall>d \<in> set ds. d < 10) \<Longrightarrow> map (digit_value \<circ> digit_char) ds = ds"
  by (induction ds) simp_all

lemma digits_of_10: "\<forall>d \<in> set (digits_of 10 n). d < 10"
  using digits_of_bound [of 10] by auto

lemma nat_of_dec_of_nat [simp]: "nat_of_dec (dec_of_nat n) = n"
  by (simp add: nat_of_dec_def dec_of_nat_def map_digit_value [OF digits_of_10] digits_val_digits_of)

lemma nat_of_dec_zeros [simp]: "nat_of_dec (replicate k (CHR ''0'') @ s) = nat_of_dec s"
  by (simp add: nat_of_dec_def digit_value_def)

lemma nat_of_dec_padStart [simp]: "nat_of_dec (padStart k (CHR ''0'') s) = nat_of_dec s"
  by (simp add: padStart_def)

lemma dec_of_nat_inj: "dec_of_nat m = dec_of_nat n \<longleftrightarrow> m = n"
  by (metis nat_of_dec_of_nat)

lemma all_hex_hex_of_nat [simp]: "list_all isHex (hex_of_nat n)"
  by (auto simp: hex_of_nat_def list_all_iff intro!: isHex_digit_char dest: digits_of_bound [rotated])

text \<open>
  \<open>BigInt(s)\<close> on a string: white space around the literal is ignored, the empty string is zero, a
  prefix \<open>0x\<close>, \<open>0o\<close> or \<open>0b\<close> selects the base of an unsigned literal, a decimal literal may have a
  sign. \<open>None\<close> is the \<open>SyntaxError\<close>.
\<close>

definition digits_in_base :: "nat \<Rightarrow> string \<Rightarrow> int option" where
  "digits_in_base b s =
     (if s \<noteq> [] \<and> list_all (\<lambda>c. case hexval c of None \<Rightarrow> False | Some d \<Rightarrow> d < b) s
      then Some (int (digits_val b (map (\<lambda>c. the (hexval c)) s))) else None)"

definition parseBigInt :: "string \<Rightarrow> int option" where
  "parseBigInt s =
     (let t = trim s; p = take 2 t in
      if t = [] then Some 0
      else if p = ''0x'' \<or> p = ''0X'' then digits_in_base 16 (drop 2 t)
      else if p = ''0o'' \<or> p = ''0O'' then digits_in_base 8 (drop 2 t)
      else if p = ''0b'' \<or> p = ''0B'' then digits_in_base 2 (drop 2 t)
      else if hd t = CHR ''-'' then map_option uminus (digits_in_base 10 (tl t))
      else if hd t = CHR ''+'' then digits_in_base 10 (tl t)
      else digits_in_base 10 t)"

lemma isDigit_hexval: "isDigit c \<Longrightarrow> hexval c = Some (digit_value c) \<and> digit_value c < 10"
  by (auto simp: isDigit_def hexval_def digit_value_def Let_def)

lemma digits_in_base_10: "all_digits s \<Longrightarrow> digits_in_base 10 s = Some (int (nat_of_dec s))"
proof -
  assume "all_digits s"
  then have d: "s \<noteq> []" "\<And>c. c \<in> set s \<Longrightarrow> hexval c = Some (digit_value c) \<and> digit_value c < 10"
    using isDigit_hexval by (auto simp: all_digits_def list_all_iff)
  then have "map (\<lambda>c. the (hexval c)) s = map digit_value s" by (auto intro: map_cong)
  then show ?thesis using d(1) d(2) by (simp add: digits_in_base_def nat_of_dec_def list_all_iff del: map_eq_conv)
qed

lemma isDigit_letter [simp]:
  "\<not> isDigit CHR ''x''" "\<not> isDigit CHR ''X''" "\<not> isDigit CHR ''o''" "\<not> isDigit CHR ''O''"
  "\<not> isDigit CHR ''b''" "\<not> isDigit CHR ''B''" "\<not> isDigit CHR ''-''" "\<not> isDigit CHR ''+''"
  by (simp_all add: isDigit_def)

lemma parseBigInt_digits: "all_digits s \<Longrightarrow> parseBigInt s = Some (int (nat_of_dec s))"
proof -
  assume s: "all_digits s"
  then have t: "trim s = s" by (intro trim_id) (auto simp: all_digits_def list_all_iff dest: isDigit_not_space)
  have "take 2 s = [a, b] \<Longrightarrow> isDigit b" for a b
    using s by (cases s; cases "tl s") (auto simp: all_digits_def)
  then have "take 2 s \<noteq> [a, b]" if "\<not> isDigit b" for a b using that by blast
  moreover have "isDigit (hd s)" using s by (cases s) (auto simp: all_digits_def)
  then have "hd s \<noteq> CHR ''-''" "hd s \<noteq> CHR ''+''" by auto
  moreover have "s \<noteq> []" using s by (simp add: all_digits_def)
  ultimately show ?thesis by (simp add: parseBigInt_def t Let_def digits_in_base_10 [OF s])
qed

end
