(* ===== verification/Js_Bytes.thy ===== *)
theory Js_Bytes
  imports Js_Strings
begin

unbundle bit_operations_syntax

text \<open>
  Byte buffers (\<open>Buffer\<close> and \<open>Uint8Array\<close>) as lists of 8-bit words: the bounds-checked
  big-endian reads, clamped \<open>subarray\<close>, hexadecimal encoding and the decoding of Node's
  \<open>Buffer.from(s, "hex")\<close> (which stops at the first pair that is not hexadecimal), and the
  locales of an encoder with its decoder that the codecs of the program instantiate.
\<close>

type_synonym byte = "8 word"
type_synonym bytes = "8 word list"

section \<open>Big-endian integers\<close>

definition be_nat :: "bytes \<Rightarrow> nat" where
  "be_nat bs = digits_val 256 (map unat bs)"

fun be_bytes :: "nat \<Rightarrow> nat \<Rightarrow> bytes" where
  "be_bytes 0 n = []"
| "be_bytes (Suc w) n = be_bytes w (n div 256) @ [word_of_nat n]"

lemma length_be_bytes [simp]: "length (be_bytes w n) = w"
  by (induction w arbitrary: n) simp_all

lemma be_bytes_2: "be_bytes 2 n = [word_of_nat (n div 256), word_of_nat n]"
  by (simp add: numeral_2_eq_2)

lemma be_bytes_1: "be_bytes 1 n = [word_of_nat n]"
  by simp

lemma be_nat_simps [simp]: "be_nat [] = 0" "be_nat [b] = unat b"
  by (simp_all add: be_nat_def)

lemma be_nat_append: "be_nat (xs @ ys) = be_nat xs * 256 ^ length ys + be_nat ys"
  by (simp add: be_nat_def digits_val_append)

lemma unat_byte_bound [simp]: "unat (b :: byte) < 256"
  by (rule order_less_le_trans [OF unsigned_less]) simp

lemma be_nat_bound: "be_nat bs < 256 ^ length bs"
proof (induction bs rule: rev_induct)
  case (snoc b bs)
  have "be_nat (bs @ [b]) = be_nat bs * 256 + unat b" by (simp add: be_nat_append)
  also have "\<dots> < (be_nat bs + 1) * 256" using unat_byte_bound [of b] by simp
  also have "\<dots> \<le> 256 ^ length bs * 256" using snoc by (intro mult_right_mono) auto
  finally show ?case by simp
qed simp

lemma be_nat_be_bytes: "be_nat (be_bytes w n) = n mod 256 ^ w"
proof (induction w arbitrary: n)
  case (Suc w)
  have "be_nat (be_bytes (Suc w) n) = (n div 256 mod 256 ^ w) * 256 + n mod 256"
    by (simp add: be_nat_append Suc unsigned_of_nat take_bit_eq_mod)
  also have "\<dots> = n mod (256 * 256 ^ w)"
    by (simp add: mod_mult2_eq mult.commute)
  finally show ?case by simp
qed simp

lemma be_nat_be_bytes_id: "n < 256 ^ w \<Longrightarrow> be_nat (be_bytes w n) = n"
  by (simp add: be_nat_be_bytes)

lemma byte_256 [simp]: "(x :: byte) * 256 = 0"
proof -
  have "(256 :: byte) = 0" by simp
  then show ?thesis by (simp only: mult_zero_right)
qed

lemma be_bytes_be_nat: "be_bytes (length bs) (be_nat bs) = bs"
proof (induction bs rule: rev_induct)
  case (snoc b bs)
  have "be_nat (bs @ [b]) div 256 = be_nat bs"
    using unat_byte_bound [of b] by (simp add: be_nat_append)
  moreover have "(word_of_nat (be_nat (bs @ [b])) :: 8 word) = b"
    by (simp add: be_nat_append)
  ultimately show ?case using snoc by simp
qed simp

section \<open>Reads\<close>

datatype read_error = ERR_OUT_OF_RANGE

definition subarray :: "bytes \<Rightarrow> nat \<Rightarrow> nat \<Rightarrow> bytes" where
  "subarray buf a b = take (b - a) (drop a buf)"

definition readUIntBE :: "nat \<Rightarrow> bytes \<Rightarrow> nat \<Rightarrow> read_error + nat" where
  "readUIntBE w buf offset =
     (if offset + w \<le> length buf then Inr (be_nat (subarray buf offset (offset + w)))
      else Inl ERR_OUT_OF_RANGE)"

lemma subarray_whole: "subarray (xs @ ys @ zs) (length xs) (length xs + length ys) = ys"
  by (simp add: subarray_def)

lemma subarray_at:
  "a = length xs \<Longrightarrow> b = length xs + length ys \<Longrightarrow> subarray (xs @ ys @ zs) a b = ys"
  by (simp add: subarray_def)

lemma length_subarray: "length (subarray buf a b) = min (b - a) (length buf - a)"
  by (simp add: subarray_def)

lemma readUIntBE_Inr: "offset + w \<le> length buf \<Longrightarrow>
  readUIntBE w buf offset = Inr (be_nat (subarray buf offset (offset + w)))"
  by (simp add: readUIntBE_def)

lemma readUIntBE_bound: "readUIntBE w buf offset = Inr n \<Longrightarrow> n < 256 ^ w"
  using be_nat_bound [of "subarray buf offset (offset + w)"]
  by (auto simp: readUIntBE_def length_subarray split: if_splits)

section \<open>Hexadecimal\<close>

definition hex_byte :: "byte \<Rightarrow> string" where
  "hex_byte b = [digit_char (unat b div 16), digit_char (unat b mod 16)]"

definition toHex :: "bytes \<Rightarrow> string" where
  "toHex bs = concat (map hex_byte bs)"

fun fromHex :: "string \<Rightarrow> bytes" where
  "fromHex (a # b # s) =
     (case (hexval a, hexval b) of
        (Some x, Some y) \<Rightarrow> word_of_nat (16 * x + y) # fromHex s
      | _ \<Rightarrow> [])"
| "fromHex _ = []"

lemma unat_byte_div [simp]: "unat (b :: byte) div 16 < 16"
  using unat_byte_bound [of b] by (simp add: less_mult_imp_div_less)

lemma toHex_simps [simp]: "toHex [] = []" "toHex (b # bs) = hex_byte b @ toHex bs"
  "toHex (bs @ cs) = toHex bs @ toHex cs"
  by (simp_all add: toHex_def)

lemma length_toHex [simp]: "length (toHex bs) = 2 * length bs"
  by (induction bs) (simp_all add: hex_byte_def)

lemma fromHex_toHex [simp]: "fromHex (toHex bs) = bs"
  by (induction bs) (simp_all add: hex_byte_def)

lemma fromHex_toHex_append: "fromHex (toHex bs @ s) = bs @ fromHex s"
  by (induction bs) (simp_all add: hex_byte_def)

lemma list_all_isHex_toHex [simp]: "list_all isHex (toHex bs)"
  by (induction bs) (simp_all add: hex_byte_def)

lemma length_fromHex:
  "list_all isHex s \<Longrightarrow> length (fromHex s) = length s div 2"
  by (induction s rule: fromHex.induct) (auto simp: isHex_def split: option.splits)

lemma length_fromHex_le: "length (fromHex s) \<le> length s div 2"
  by (induction s rule: fromHex.induct) (auto split: option.splits)

lemma fromHex_append:
  "list_all isHex s \<Longrightarrow> even (length s) \<Longrightarrow> fromHex (s @ t) = fromHex s @ fromHex t"
  by (induction s rule: fromHex.induct) (auto simp: isHex_def split: option.splits)

lemma toHex_inj: "toHex xs = toHex ys \<longleftrightarrow> xs = ys"
  by (metis fromHex_toHex)

section \<open>Encoders and decoders\<close>

text \<open>
  The law a pair of encoder and decoder of the program promises: what was encoded decodes to
  itself. Encoders may throw; the law speaks of the values they accept.
\<close>

locale codec =
  fixes enc :: "'a \<Rightarrow> 'e + 'b"
    and dec :: "'b \<Rightarrow> 'f + 'a"
  assumes dec_enc: "enc x = Inr b \<Longrightarrow> dec b = Inr x"
begin

lemma enc_injective: "enc x = Inr b \<Longrightarrow> enc y = Inr b \<Longrightarrow> x = y"
  by (metis dec_enc sum.inject(2))

lemma enc_list_injective: "mapR enc xs = Inr bs \<Longrightarrow> mapR enc ys = Inr bs \<Longrightarrow> xs = ys"
proof (induction xs arbitrary: ys bs)
  case Nil
  then show ?case by (auto dest: mapR_length)
next
  case (Cons x xs)
  then obtain b cs where b: "enc x = Inr b" "mapR enc xs = Inr cs" "bs = b # cs"
    by (auto simp: andThen_eq_Inr)
  with Cons.prems obtain y zs where "ys = y # zs" "enc y = Inr b" "mapR enc zs = Inr cs"
    by (cases ys) (auto simp: andThen_eq_Inr)
  with b Cons.IH show ?case by (auto intro: enc_injective)
qed

lemma dec_mapR: "mapR enc xs = Inr bs \<Longrightarrow> mapR dec bs = Inr xs"
  by (auto simp: mapR_Inr_iff list_all2_conv_all_nth dest: dec_enc)

end

text \<open>An encoder into a fixed number of bytes; encodings can then be concatenated.\<close>

locale fixed_codec = codec enc dec
  for enc :: "'a \<Rightarrow> 'e + bytes" and dec :: "bytes \<Rightarrow> 'f + 'a" +
  fixes width :: nat
  assumes enc_width: "enc x = Inr b \<Longrightarrow> length b = width"
begin

lemma dec_prefix: "enc x = Inr b \<Longrightarrow> dec (take width (b @ rest)) = Inr x"
  by (simp add: enc_width dec_enc)

lemma append_injective:
  "enc x = Inr b \<Longrightarrow> enc y = Inr c \<Longrightarrow> b @ r = c @ s \<Longrightarrow> x = y \<and> r = s"
  using enc_width [of x b] enc_width [of y c] by (auto intro: enc_injective)

end

definition encodeUIntBE :: "nat \<Rightarrow> nat \<Rightarrow> unit + bytes" where
  "encodeUIntBE w n = (if n < 256 ^ w then Inr (be_bytes w n) else Inl ())"

interpretation uint_be: fixed_codec "encodeUIntBE w" "\<lambda>b. readUIntBE w b 0" w for w
  by unfold_locales
    (auto simp: encodeUIntBE_def readUIntBE_def subarray_def be_nat_be_bytes_id split: if_splits)

interpretation hex_codec: codec "\<lambda>b. Inr (toHex b) :: unit + string" "\<lambda>s. Inr (fromHex s) :: unit + bytes"
  by unfold_locales auto

end
