(* ===== verification/Trimmed_Amount.thy ===== *)
theory Trimmed_Amount
  imports Js_Bytes
begin

text \<open>
  Amounts trimmed to a number of decimals, \<open>sdk/definitions/src/trimmedAmount.ts\<close>: the packed
  72-bit form the contracts store (64 bits of amount above 8 bits of decimals) and the change of
  decimals. Amounts are \<open>bigint\<close>s, here \<open>int\<close>; decimals are integral numbers.
\<close>

section \<open>Definitions\<close>

record trimmed_amount =
  ta_amount :: int
  ta_decimals :: int

datatype amount_error = DecimalsOutOfRange | AmountOutOfRange

definition decodeTrimmedAmount :: "int \<Rightarrow> trimmed_amount" where
  "decodeTrimmedAmount encoded =
     (let decimals = encoded AND 255;
          amount = drop_bit 8 encoded
      in \<lparr>ta_amount = amount, ta_decimals = decimals\<rparr>)"

definition encodeTrimmedAmount :: "trimmed_amount \<Rightarrow> amount_error + int" where
  "encodeTrimmedAmount trimmed =
     (let amount = ta_amount trimmed; decimals = ta_decimals trimmed
      in if decimals < 0 \<or> decimals > 255 then Inl DecimalsOutOfRange
         else if amount < 0 \<or> amount \<ge> push_bit 64 1 then Inl AmountOutOfRange
         else Inr (push_bit 8 amount OR decimals))"

text \<open>Division of \<open>bigint\<close>s truncates towards zero.\<close>

definition bigint_div :: "int \<Rightarrow> int \<Rightarrow> int" where
  "bigint_div a b = sgn a * sgn b * (\<bar>a\<bar> div \<bar>b\<bar>)"

definition scale :: "int \<Rightarrow> int \<Rightarrow> int \<Rightarrow> int" where
  "scale amount fromDecimals toDecimals =
     (if fromDecimals = toDecimals then amount
      else if fromDecimals > toDecimals
      then bigint_div amount (10 ^ nat (fromDecimals - toDecimals))
      else amount * 10 ^ nat (toDecimals - fromDecimals))"

definition untrim :: "trimmed_amount \<Rightarrow> int \<Rightarrow> int" where
  "untrim trimmed toDecimals = scale (ta_amount trimmed) (ta_decimals trimmed) toDecimals"

section \<open>The packed form\<close>

lemma and_255: "(e :: int) AND 255 = e mod 256"
  using take_bit_eq_mask [of 8 e] by (simp add: take_bit_eq_mod mask_eq_exp_minus_1)

lemma pack_or: "0 \<le> d \<Longrightarrow> d \<le> 255 \<Longrightarrow> a * 256 OR d = 256 * a + (d :: int)"
proof -
  assume d: "0 \<le> d" "d \<le> 255"
  have "push_bit 8 a AND d = 0"
  proof -
    have "d = take_bit 8 d" using d by (simp add: take_bit_eq_mod)
    then have "push_bit 8 a AND d = take_bit 8 (push_bit 8 a) AND d"
      by (metis and.assoc take_bit_eq_mask and.commute)
    then show ?thesis by (simp add: take_bit_push_bit)
  qed
  then have "push_bit 8 a OR d = push_bit 8 a + d"
    using disjunctive_add by (metis plus_and_or add_0)
  then show ?thesis by (simp add: push_bit_eq_mult)
qed

lemma decode_def': "decodeTrimmedAmount e = \<lparr>ta_amount = e div 256, ta_decimals = e mod 256\<rparr>"
  by (simp add: decodeTrimmedAmount_def and_255 drop_bit_eq_div)

lemma encode_def':
  "encodeTrimmedAmount t =
     (if ta_decimals t < 0 \<or> ta_decimals t > 255 then Inl DecimalsOutOfRange
      else if ta_amount t < 0 \<or> ta_amount t \<ge> 2 ^ 64 then Inl AmountOutOfRange
      else Inr (256 * ta_amount t + ta_decimals t))"
  by (simp add: encodeTrimmedAmount_def pack_or push_bit_eq_mult)

lemma decode_encode: "encodeTrimmedAmount t = Inr e \<Longrightarrow> decodeTrimmedAmount e = t"
  by (cases t) (auto simp: encode_def' decode_def' split: if_splits)

interpretation trimmed_codec: codec encodeTrimmedAmount "\<lambda>e. Inr (decodeTrimmedAmount e) :: unit + trimmed_amount"
  by unfold_locales (simp add: decode_encode)

text \<open>
  C36. Packing is a bijection between the trimmed amounts in range and the unsigned 72-bit
  integers: an amount encodes to \<open>e\<close> exactly when \<open>e\<close> fits in 72 bits and decodes to it, so
  nothing is lost either way and every amount or number of decimals out of range is refused.
\<close>

theorem trimmed_pack_bijection:
  "encodeTrimmedAmount t = Inr e \<longleftrightarrow> 0 \<le> e \<and> e < 2 ^ 72 \<and> decodeTrimmedAmount e = t"
proof
  assume "encodeTrimmedAmount t = Inr e"
  then show "0 \<le> e \<and> e < 2 ^ 72 \<and> decodeTrimmedAmount e = t"
    by (auto simp: encode_def' decode_encode split: if_splits)
next
  assume "0 \<le> e \<and> e < 2 ^ 72 \<and> decodeTrimmedAmount e = t"
  then show "encodeTrimmedAmount t = Inr e"
    by (auto simp: encode_def' decode_def' zdiv_mono1 split: if_splits)
qed

section \<open>Changing the number of decimals\<close>

lemma bigint_div_nonneg: "0 \<le> a \<Longrightarrow> 0 < b \<Longrightarrow> bigint_div a b = a div b"
  by (cases "a = 0") (simp_all add: bigint_div_def)

lemma scale_nonneg: "0 \<le> a \<Longrightarrow> 0 \<le> scale a f t"
  by (simp add: scale_def bigint_div_nonneg pos_imp_zdiv_nonneg_iff)

lemma scale_up: "f \<le> t \<Longrightarrow> scale a f t = a * 10 ^ nat (t - f)"
  by (simp add: scale_def)

lemma scale_down: "t \<le> f \<Longrightarrow> 0 \<le> a \<Longrightarrow> scale a f t = a div 10 ^ nat (f - t)"
  by (simp add: scale_def bigint_div_nonneg)

lemma scale_mono: "0 \<le> a \<Longrightarrow> a \<le> b \<Longrightarrow> scale a f t \<le> scale b f t"
  by (cases "f \<le> t") (simp_all add: scale_up scale_down mult_right_mono zdiv_mono1)

text \<open>
  Scaling there and back never creates value: the result is the amount less the remainder
  that the coarser number of decimals cannot represent (the dust), and exactly the amount when
  scaling goes to at least as many decimals.
\<close>

theorem scale_there_and_back:
  assumes "0 \<le> a"
  shows "scale (scale a f t) t f = (if f \<le> t then a else a - a mod 10 ^ nat (f - t))"
proof (cases "f \<le> t")
  case True
  then have "scale (a * 10 ^ nat (t - f)) t f = a"
    using assms by (simp add: scale_down)
  with True show ?thesis by (simp add: scale_up)
next
  case False
  then show ?thesis
    using assms by (simp add: scale_up scale_down minus_mod_eq_div_mult)
qed

theorem scale_there_and_back_witness:
  "scale (scale 123456789 10 8) 8 10 = 123456700"
  using scale_there_and_back [of 123456789 10 8] by simp

end
