(* ===== verification/Js_Numbers.thy ===== *)
theory Js_Numbers
  imports Js_Bytes
begin

text \<open>
  The \<open>number\<close> type where the sources test it: not a number, the infinities, and the finite
  values as rationals. A numeral is rounded to the nearest double (ties to even), a bitwise
  operator sees the value modulo \<open>2 ^ 32\<close>, as a signed 32-bit integer. The two zeros are one value.
\<close>

datatype js_number = NaN | Infty bool | Finite rat

definition jsInt :: "int \<Rightarrow> js_number" where
  "jsInt i = Finite (of_int i)"

definition isInteger :: "js_number \<Rightarrow> bool" where
  "isInteger n = (case n of Finite q \<Rightarrow> of_int \<lfloor>q\<rfloor> = q | _ \<Rightarrow> False)"

text \<open>\<open>n < k\<close> and \<open>n > k\<close> for an integer constant; every comparison with NaN is false.\<close>

definition ltInt :: "js_number \<Rightarrow> int \<Rightarrow> bool" where
  "ltInt n k = (case n of NaN \<Rightarrow> False | Infty neg \<Rightarrow> neg | Finite q \<Rightarrow> q < of_int k)"

definition gtInt :: "js_number \<Rightarrow> int \<Rightarrow> bool" where
  "gtInt n k = (case n of NaN \<Rightarrow> False | Infty neg \<Rightarrow> \<not> neg | Finite q \<Rightarrow> of_int k < q)"

definition toNat :: "js_number \<Rightarrow> nat" where
  "toNat n = (case n of Finite q \<Rightarrow> nat \<lfloor>q\<rfloor> | _ \<Rightarrow> 0)"

definition uint_range :: "js_number \<Rightarrow> int \<Rightarrow> bool" where
  "uint_range n k \<longleftrightarrow> \<not> (\<not> isInteger n \<or> ltInt n 0 \<or> gtInt n k)"

lemma uint_range_iff: "uint_range n k \<longleftrightarrow> (\<exists>i. 0 \<le> i \<and> i \<le> k \<and> n = jsInt i)"
proof (cases n)
  case (Finite q)
  show ?thesis
  proof
    assume "uint_range n k"
    then have q: "of_int \<lfloor>q\<rfloor> = q" "\<not> q < 0" "\<not> of_int k < q"
      using Finite by (simp_all add: uint_range_def isInteger_def ltInt_def gtInt_def)
    then have "0 \<le> \<lfloor>q\<rfloor>" by simp
    moreover from q have "\<lfloor>q\<rfloor> \<le> k" by (metis floor_of_int linorder_not_less floor_mono)
    ultimately show "\<exists>i. 0 \<le> i \<and> i \<le> k \<and> n = jsInt i" using q(1) Finite by (metis jsInt_def)
  qed (auto simp: Finite uint_range_def isInteger_def ltInt_def gtInt_def jsInt_def)
qed (auto simp: uint_range_def isInteger_def jsInt_def)

lemma toNat_jsInt [simp]: "toNat (jsInt i) = nat i"
  by (simp add: toNat_def jsInt_def)

text \<open>\<open>===\<close> and \<open><=\<close> on numbers.\<close>

fun numEq :: "js_number \<Rightarrow> js_number \<Rightarrow> bool" where
  "numEq (Finite p) (Finite q) \<longleftrightarrow> p = q"
| "numEq (Infty m) (Infty n) \<longleftrightarrow> m = n"
| "numEq _ _ \<longleftrightarrow> False"

fun numLe :: "js_number \<Rightarrow> js_number \<Rightarrow> bool" where
  "numLe (Finite p) (Finite q) \<longleftrightarrow> p \<le> q"
| "numLe (Infty neg) (Finite q) \<longleftrightarrow> neg"
| "numLe (Finite p) (Infty neg) \<longleftrightarrow> \<not> neg"
| "numLe (Infty m) (Infty n) \<longleftrightarrow> m \<or> \<not> n"
| "numLe _ _ \<longleftrightarrow> False"

lemma numEq_jsInt [simp]: "numEq (jsInt i) (jsInt j) \<longleftrightarrow> i = j"
  and numLe_jsInt [simp]: "numLe (jsInt i) (jsInt j) \<longleftrightarrow> i \<le> j"
  by (simp_all add: jsInt_def)

section \<open>Numerals\<close>

definition double_of_nat :: "nat \<Rightarrow> js_number" where
  "double_of_nat n =
     (if n < 2 ^ 53 then jsInt (int n)
      else (let e = length (digits_of 2 n) - 53;
                q = n div 2 ^ e;
                r = n mod 2 ^ e;
                q' = (if 2 ^ (e - 1) < r \<or> (r = 2 ^ (e - 1) \<and> odd q) then q + 1 else q);
                m = q' * 2 ^ e
            in if 2 ^ 1024 \<le> m then Infty False else jsInt (int m)))"

lemma double_of_nat_small: "n < 2 ^ 53 \<Longrightarrow> double_of_nat n = jsInt (int n)"
  by (simp add: double_of_nat_def)

text \<open>\<open>ToInt32\<close>, the operands of \<open>|\<close> and \<open>&\<close>.\<close>

definition toInt32 :: "js_number \<Rightarrow> 32 word" where
  "toInt32 n = (case n of Finite q \<Rightarrow> word_of_int (if 0 \<le> q then \<lfloor>q\<rfloor> else \<lceil>q\<rceil>) | _ \<Rightarrow> 0)"

lemma toInt32_jsInt: "toInt32 (jsInt i) = word_of_int i"
  by (simp add: toInt32_def jsInt_def)

section \<open>Fixed-width hexadecimal numerals\<close>

lemma be_nat_fromHex:
  "list_all isHex s \<Longrightarrow> even (length s) \<Longrightarrow>
   be_nat (fromHex s) = digits_val 16 (map (\<lambda>c. the (hexval c)) s)"
proof (induction s rule: fromHex.induct)
  case (1 a b s)
  then obtain x y where h: "hexval a = Some x" "hexval b = Some y" by (auto simp: isHex_def)
  have xy: "x < 16" "y < 16" using h by (auto dest: hexval_bound)
  then have u: "unat (word_of_nat (16 * x + y) :: byte) = 16 * x + y"
    by (subst unsigned_of_nat) (simp add: take_bit_eq_mod)
  have len: "length (fromHex s) = length s div 2" using 1 by (simp add: length_fromHex)
  have "be_nat (fromHex (a # b # s)) =
      (16 * x + y) * 256 ^ (length s div 2) + be_nat (fromHex s)"
    using be_nat_append [of "[word_of_nat (16 * x + y)]" "fromHex s"] h u len by simp
  also have "(256::nat) ^ (length s div 2) = 16 ^ (2 * (length s div 2))"
    by (simp add: power_mult)
  also have "2 * (length s div 2) = length s" using "1.prems" by simp
  also have "(16 * x + y) * 16 ^ length s + be_nat (fromHex s) =
      digits_val 16 (map (\<lambda>c. the (hexval c)) (a # b # s))"
    using 1 h digits_val_append [of 16 "[x, y]" "map (\<lambda>c. the (hexval c)) s"]
    by (simp add: digits_val_def)
  finally show ?case .
qed simp_all

lemma fromHex_hex_of_nat:
  assumes "n < 256 ^ w" "0 < w"
  shows "fromHex (padStart (2 * w) (CHR ''0'') (hex_of_nat n)) = be_bytes w n"
proof -
  let ?s = "padStart (2 * w) (CHR ''0'') (hex_of_nat n)"
  have d: "\<forall>d \<in> set (digits_of 16 n). d < 16" using digits_of_bound [of 16] by auto
  then have vals: "map (\<lambda>c. the (hexval c)) (hex_of_nat n) = digits_of 16 n"
    by (auto simp: hex_of_nat_def intro!: map_idI)
  have z: "the (hexval (CHR ''0'')) = 0" "isHex (CHR ''0'')" by (simp_all add: hexval_def isHex_def)
  have hex: "list_all isHex ?s"
    using z by (simp add: padStart_def list_all_iff set_replicate_conv_if) (metis all_hex_hex_of_nat list_all_iff)
  have "(256::nat) ^ w = 16 ^ (2 * w)" by (simp add: power_mult)
  then have "length (hex_of_nat n) \<le> 2 * w"
    using assms digits_of_length [of 16 "2 * w" n] by (simp add: hex_of_nat_def)
  then have len: "length ?s = 2 * w" by simp
  have "be_nat (fromHex ?s) = n"
    using be_nat_fromHex [OF hex] len z vals digits_val_digits_of [of 16 n]
    by (simp add: padStart_def)
  moreover have "length (fromHex ?s) = w" using length_fromHex [OF hex] len by simp
  ultimately show ?thesis using be_bytes_be_nat [of "fromHex ?s"] by simp
qed

section \<open>Hexadecimal and case\<close>

lemma hexval_upper [simp]: "hexval (upper_char c) = hexval c"
proof -
  have "(of_char c :: nat) < 256" by (rule nat_of_char_less_256)
  then show ?thesis by (auto simp: hexval_def upper_char_def Let_def of_char_of)
qed

lemma hexval_lower [simp]: "hexval (lower_char c) = hexval c"
proof -
  have "(of_char c :: nat) < 256" by (rule nat_of_char_less_256)
  then show ?thesis by (auto simp: hexval_def lower_char_def Let_def of_char_of)
qed

lemma fromHex_toCase [simp]: "fromHex (toUpperCase s) = fromHex s" "fromHex (toLowerCase s) = fromHex s"
  by (induction s rule: fromHex.induct) (auto simp: toUpperCase_def toLowerCase_def split: option.splits)

lemma isHex_toCase [simp]:
  "list_all isHex (toUpperCase s) \<longleftrightarrow> list_all isHex s" "list_all isHex (toLowerCase s) \<longleftrightarrow> list_all isHex s"
  by (simp_all add: toUpperCase_def toLowerCase_def list_all_iff isHex_def)

section \<open>Arithmetic\<close>

text \<open>
  The result of an operation is the exact one rounded to the nearest double, ties to even: \<open>binExp\<close>
  is the binary exponent of a positive rational, the last of the 53 digits has the weight
  \<open>2 ^ (binExp q - 52)\<close>, or \<open>2 ^ -1074\<close> for a subnormal number.
\<close>

definition pow2 :: "int \<Rightarrow> rat" where
  "pow2 e = (if 0 \<le> e then 2 ^ nat e else 1 / 2 ^ nat (- e))"

function bitLength :: "int \<Rightarrow> nat" where
  "bitLength n = (if n \<le> 0 then 0 else Suc (bitLength (n div 2)))"
  by auto
termination by (relation "measure nat") auto

declare bitLength.simps [simp del]

definition binExp :: "rat \<Rightarrow> int" where
  "binExp q =
     (let (a, b) = quotient_of q;
          e = int (bitLength a) - int (bitLength b)
      in if pow2 e \<le> q then e else e - 1)"

definition roundEven :: "rat \<Rightarrow> int" where
  "roundEven q =
     (let f = \<lfloor>q\<rfloor>; d = q - of_int f
      in if d < 1 / 2 then f else if 1 / 2 < d then f + 1 else if even f then f else f + 1)"

definition double_of_rat :: "rat \<Rightarrow> js_number" where
  "double_of_rat q =
     (if q = 0 then Finite 0
      else (let u = pow2 (max (binExp \<bar>q\<bar> - 52) (- 1074));
                r = of_int (roundEven (q / u)) * u
            in if 2 ^ 1024 \<le> \<bar>r\<bar> then Infty (r < 0) else Finite r))"

definition mulInt :: "js_number \<Rightarrow> int \<Rightarrow> js_number" where
  "mulInt n k =
     (case n of
        NaN \<Rightarrow> NaN
      | Infty neg \<Rightarrow> if k = 0 then NaN else Infty (neg \<noteq> (k < 0))
      | Finite q \<Rightarrow> double_of_rat (q * of_int k))"

text \<open>\<open>Math.round\<close>, and \<open>BigInt\<close> of a number: a \<open>RangeError\<close> unless it is an integer.\<close>

definition mathRound :: "js_number \<Rightarrow> js_number" where
  "mathRound n = (case n of Finite q \<Rightarrow> jsInt \<lfloor>q + 1 / 2\<rfloor> | _ \<Rightarrow> n)"

definition bigintOf :: "js_number \<Rightarrow> string + int" where
  "bigintOf n =
     (if isInteger n then (case n of Finite q \<Rightarrow> Inr \<lfloor>q\<rfloor> | _ \<Rightarrow> Inl ''RangeError'') else Inl ''RangeError'')"

definition numTruthy :: "js_number \<Rightarrow> bool" where
  "numTruthy n \<longleftrightarrow> n \<noteq> NaN \<and> n \<noteq> Finite 0"

lemma pow2_pos [simp]: "0 < pow2 e"
  by (simp add: pow2_def)

lemma pow2_ge: "53 \<le> e \<Longrightarrow> 2 ^ 53 \<le> pow2 e"
  using power_increasing [of 53 "nat e" "2 :: rat"] by (simp add: pow2_def)

lemma pow2_diff: "pow2 (int m - int n) = 2 ^ m / 2 ^ n"
proof (cases "n \<le> m")
  case True
  then obtain k where "m = n + k" by (auto simp: le_iff_add)
  then show ?thesis by (simp add: pow2_def power_add)
next
  case False
  then obtain k where "n = m + k" "0 < k" by (auto simp: not_le less_iff_Suc_add)
  then show ?thesis by (simp add: pow2_def power_add)
qed

lemma bitLength_bounds: "0 < n \<Longrightarrow> 0 < bitLength n \<and> 2 ^ (bitLength n - 1) \<le> n \<and> n < 2 ^ bitLength n"
proof (induction n rule: bitLength.induct)
  case (1 n)
  show ?case
  proof (cases "n = 1")
    case False
    then have "0 < n div 2" "\<not> n \<le> 0" using "1.prems" by auto
    with "1.IH" have IH: "0 < bitLength (n div 2)" "2 ^ (bitLength (n div 2) - 1) \<le> n div 2"
      "n div 2 < 2 ^ bitLength (n div 2)" by simp_all
    have "bitLength n = Suc (bitLength (n div 2))" using "1.prems" bitLength.simps [of n] by simp
    moreover obtain k where "bitLength (n div 2) = Suc k" using IH(1) by (cases "bitLength (n div 2)") auto
    moreover have "2 * (n div 2) \<le> n" "n < 2 * (n div 2) + 2" by auto
    ultimately show ?thesis using IH(2,3) by simp
  qed (simp add: bitLength.simps)
qed

lemma pow2_le_binExp:
  assumes "0 < q"
  shows "pow2 (binExp q) \<le> q"
proof -
  obtain a b where ab: "quotient_of q = (a, b)" by force
  have b: "0 < b" and q: "q = of_int a / of_int b"
    using quotient_of_denom_pos [OF ab] quotient_of_div [OF ab] by auto
  have a: "0 < a" using assms q b by (simp add: zero_less_divide_iff)
  let ?i = "bitLength a" and ?j = "bitLength b"
  have "2 ^ (?i - 1) \<le> a" "b \<le> 2 ^ ?j" "0 < ?i"
    using bitLength_bounds [OF a] bitLength_bounds [OF b] by simp_all
  then have i: "2 ^ (?i - 1) \<le> (of_int a :: rat)" and j: "(of_int b :: rat) \<le> 2 ^ ?j"
    using of_int_le_iff [of "2 ^ (?i - 1)" a, where 'a = rat] of_int_le_iff [of b "2 ^ ?j", where 'a = rat]
    by simp_all
  have "pow2 (int ?i - int ?j - 1) = 2 ^ (?i - 1) / 2 ^ ?j"
    using pow2_diff [of "?i - 1" ?j] \<open>0 < ?i\<close> by (simp add: of_nat_diff algebra_simps)
  also have "\<dots> \<le> of_int a / of_int b"
    using i j b a by (intro frac_le) auto
  finally have "pow2 (int ?i - int ?j - 1) \<le> q" using q by simp
  then show ?thesis by (auto simp: binExp_def ab Let_def)
qed

lemma roundEven_le: "q \<le> of_int k \<Longrightarrow> roundEven q \<le> k"
  and roundEven_ge: "of_int k \<le> q \<Longrightarrow> k \<le> roundEven q"
proof -
  assume "q \<le> of_int k"
  then have "\<lfloor>q\<rfloor> < k \<or> (\<lfloor>q\<rfloor> = k \<and> q = of_int k)"
    by (metis floor_le_iff floor_of_int le_floor_iff order_antisym order_le_less floor_mono)
  then show "roundEven q \<le> k" by (auto simp: roundEven_def Let_def)
next
  assume "of_int k \<le> q"
  then have "k \<le> \<lfloor>q\<rfloor>" by (simp add: le_floor_iff)
  then show "k \<le> roundEven q" by (auto simp: roundEven_def Let_def)
qed

text \<open>Rounding stays within integer bounds below \<open>2 ^ 53\<close>.\<close>

lemma double_of_rat_bounds:
  assumes "0 \<le> q" "q \<le> of_nat n" "n < 2 ^ 53"
  shows "\<exists>r. double_of_rat q = Finite r \<and> 0 \<le> r \<and> r \<le> of_nat n"
proof (cases "q = 0")
  case False
  then have q: "0 < q" using assms(1) by simp
  have "pow2 (binExp q) < 2 ^ 53"
  proof -
    have "(of_nat n :: rat) < of_nat (2 ^ 53)" using assms(3) by (simp only: of_nat_less_iff)
    then show ?thesis using pow2_le_binExp [OF q] assms(2) by simp
  qed
  then have "binExp q < 53" using pow2_ge [of "binExp q"] by (meson not_less)
  define m where "m = nat (- max (binExp q - 52) (- 1074))"
  have u: "pow2 (max (binExp q - 52) (- 1074)) = 1 / 2 ^ m"
    using \<open>binExp q < 53\<close> by (auto simp: pow2_def m_def)
  let ?r = "roundEven (q * 2 ^ m)"
  have "q * 2 ^ m \<le> of_nat n * 2 ^ m" using assms(2) by simp
  then have "?r \<le> int n * 2 ^ m" by (intro roundEven_le) simp
  then have "(of_int ?r :: rat) \<le> of_int (int n * 2 ^ m)" by (simp only: of_int_le_iff)
  then have hi: "of_int ?r / 2 ^ m \<le> (of_nat n :: rat)" by (simp add: divide_simps)
  have "0 \<le> ?r" using q by (intro roundEven_ge) simp
  then have lo: "0 \<le> (of_int ?r / 2 ^ m :: rat)" by simp
  have "(of_nat n :: rat) < 2 ^ 1024"
  proof -
    have "n < 2 ^ 1024" using assms(3) power_increasing [of 53 1024 "2 :: nat"] by linarith
    then have "(of_nat n :: rat) < of_nat (2 ^ 1024)" by (simp only: of_nat_less_iff)
    then show ?thesis by simp
  qed
  then show ?thesis
    using q hi lo u by (simp add: double_of_rat_def Let_def)
qed (simp add: double_of_rat_def)

lemma bigintOf_jsInt [simp]: "bigintOf (jsInt i) = Inr i"
  by (simp add: bigintOf_def jsInt_def isInteger_def)

lemma mathRound_bounds:
  assumes "0 \<le> r" "r \<le> of_nat n"
  shows "\<exists>i. mathRound (Finite r) = jsInt i \<and> 0 \<le> i \<and> i \<le> int n"
proof -
  have "\<lfloor>r + 1 / 2\<rfloor> \<le> int n" using assms(2) by linarith
  moreover have "0 \<le> \<lfloor>r + 1 / 2\<rfloor>" using assms(1) by simp
  ultimately show ?thesis by (auto simp: mathRound_def)
qed

text \<open>A fraction between 0 and 1, in percent.\<close>

lemma percent_bounds:
  assumes "\<not> ltInt n 0" "\<not> gtInt n 1" "numTruthy n"
  shows "\<exists>i. bigintOf (mathRound (mulInt n 100)) = Inr i \<and> 0 \<le> i \<and> i \<le> 100"
proof -
  obtain q where q: "n = Finite q" "0 \<le> q" "q \<le> 1"
    using assms by (cases n) (auto simp: ltInt_def gtInt_def numTruthy_def)
  then have "0 \<le> q * 100" "q * 100 \<le> of_nat 100" by simp_all
  then obtain r where "double_of_rat (q * 100) = Finite r" "0 \<le> r" "r \<le> of_nat 100"
    using double_of_rat_bounds [of "q * 100" 100] by auto
  then show ?thesis using mathRound_bounds [of r 100] q by (auto simp: mulInt_def)
qed

end
