(* ===== verification/Ntt_Definitions.thy ===== *)
theory Ntt_Definitions
  imports Trimmed_Amount Js_Numbers
begin

text \<open>
  The hand-written codecs of \<open>sdk/definitions/src\<close>: the optional additional payload of
  \<open>layouts/transfer.ts\<close>, and from \<open>ntt.ts\<close> the transceiver instructions, the message digest and
  the compatibility check of ABI versions. \<open>serializeLayout\<close>, \<open>keccak256\<close> and \<open>toChainId\<close> belong
  to the Wormhole SDK, which is not part of the repository: they are arguments here.
\<close>

section \<open>The optional additional payload (\<open>layouts/transfer.ts\<close>)\<close>

datatype layout_error = ValueTooLarge int nat | BadByte

definition deserializeNum :: "bytes \<Rightarrow> nat \<Rightarrow> layout_error + nat" where
  "deserializeNum encoded sz =
     (if sz \<le> length encoded
      then Inr (fold (\<lambda>i val. val OR push_bit (8 * (sz - i - 1)) (unat (encoded ! i))) [0..<sz] 0)
      else Inl BadByte)"

definition serializeNum :: "int \<Rightarrow> nat \<Rightarrow> layout_error + bytes" where
  "serializeNum val sz =
     (if val \<ge> 2 ^ (sz * 8) then Inl (ValueTooLarge val sz)
      else Inr (map (\<lambda>i. word_of_int (drop_bit (8 * (sz - i - 1)) val AND 255)) [0..<sz]))"

definition additionalPayload_to :: "bytes \<Rightarrow> layout_error + bytes" where
  "additionalPayload_to val =
     (if length val \<ge> 2
      then andThen (deserializeNum val 2) (\<lambda>len. Inr (subarray val 2 (2 + len)))
      else Inr [])"

definition additionalPayload_from :: "bytes \<Rightarrow> layout_error + bytes" where
  "additionalPayload_from val =
     (if length val > 0
      then andThen (serializeNum (int (length val)) 2) (\<lambda>n. Inr (n @ val))
      else Inr [])"

lemma or_push_nat:
  assumes "y < 2 ^ k"
  shows "push_bit k x OR y = x * 2 ^ k + (y :: nat)"
proof -
  have "push_bit k x AND y = 0"
  proof -
    have "y = take_bit k y" using assms by (simp add: take_bit_nat_eq_self)
    then have "push_bit k x AND y = take_bit k (push_bit k x) AND y"
      by (metis and.assoc take_bit_eq_mask and.commute)
    then show ?thesis by (simp add: take_bit_push_bit)
  qed
  then show ?thesis
    using disjunctive_add_eq_or [of "push_bit k x" y] by (simp add: push_bit_eq_mult)
qed

lemma deserializeNum_2: "deserializeNum (a # b # bs) 2 = Inr (be_nat [a, b])"
proof -
  have "push_bit 8 (unat a) OR unat b = unat a * 256 + unat b"
    using or_push_nat [of "unat b" 8 "unat a"] by simp
  then show ?thesis
    by (simp add: deserializeNum_def upt_rec be_nat_def digits_val_def)
qed

lemma byte_of_int: "(word_of_int (drop_bit k (int n) AND 255) :: byte) = word_of_nat (n div 2 ^ k)"
proof -
  have "(word_of_int (x AND 255) :: byte) = word_of_int x" for x
    by (simp add: word_of_int_eq_iff and_255 take_bit_eq_mod)
  moreover have "drop_bit k (int n) = int (n div 2 ^ k)"
    by (simp add: drop_bit_eq_div zdiv_int)
  ultimately show ?thesis by simp
qed

lemma serializeNum_2:
  assumes "n < 65536"
  shows "serializeNum (int n) 2 = Inr (be_bytes 2 n)"
  using assms byte_of_int [of 8 n] byte_of_int [of 0 n]
  by (simp add: serializeNum_def upt_rec be_bytes_2)

lemma additionalPayload_from_Inr:
  "additionalPayload_from v = Inr b \<Longrightarrow>
     b = (if v = [] then [] else be_bytes 2 (length v) @ v) \<and> length v < 65536"
proof (cases "v = []")
  assume h: "additionalPayload_from v = Inr b"
  case False
  with h have "length v < 65536"
    by (auto simp: additionalPayload_from_def andThen_eq_Inr serializeNum_def split: if_splits)
  with False h show ?thesis
    by (simp add: additionalPayload_from_def serializeNum_2)
qed (simp add: additionalPayload_from_def)

interpretation additional_payload: codec additionalPayload_from additionalPayload_to
proof
  fix v b assume "additionalPayload_from v = Inr b"
  then have b: "b = (if v = [] then [] else be_bytes 2 (length v) @ v)" and len: "length v < 65536"
    using additionalPayload_from_Inr by blast+
  have "be_nat (be_bytes 2 (length v)) = length v"
    using len by (intro be_nat_be_bytes_id) simp
  then show "additionalPayload_to b = Inr v"
    by (simp add: b additionalPayload_to_def be_bytes_2 deserializeNum_2 subarray_def)
qed

text \<open>
  The optional payload at the end of a native token transfer survives the wire: whatever
  payload the writer accepts, the reader gives back, and the writer refuses exactly the payloads
  whose length does not fit in the two bytes of the length prefix.
\<close>

theorem additionalPayload_roundtrip:
  "(case additionalPayload_from v of
      Inr b \<Rightarrow> length v < 65536 \<and> additionalPayload_to b = Inr v
    | Inl e \<Rightarrow> 65536 \<le> length v \<and> e = ValueTooLarge (int (length v)) 2)"
proof (cases "additionalPayload_from v")
  case (Inl e)
  then show ?thesis
    by (auto simp: additionalPayload_from_def andThen_eq_Inl serializeNum_def split: if_splits)
next
  case (Inr b)
  then show ?thesis
    using additionalPayload_from_Inr additional_payload.dec_enc by auto
qed

section \<open>Transceiver instructions, digests and ABI versions (\<open>ntt.ts\<close>)\<close>

record transceiver_ix =
  ix_index :: int
  ix_payload :: bytes

datatype ix_error = TooManyInstructions nat | LayoutError

definition encodeTransceiverInstructions ::
  "(transceiver_ix \<Rightarrow> ix_error + bytes) \<Rightarrow> transceiver_ix list \<Rightarrow> ix_error + bytes" where
  "encodeTransceiverInstructions serializeLayout ixs =
     (if length ixs > 255 then Inl (TooManyInstructions (length ixs))
      else andThen (mapR serializeLayout ixs) (\<lambda>parts.
             Inr (word_of_nat (length ixs) # concat parts)))"

definition messageDigest ::
  "(bytes \<Rightarrow> bytes) \<Rightarrow> ('m \<Rightarrow> bytes) \<Rightarrow> ('c \<Rightarrow> nat) \<Rightarrow> 'c \<Rightarrow> 'm \<Rightarrow> bytes" where
  "messageDigest keccak256 serializeMessage toChainId chain message =
     keccak256 (be_bytes 2 (toChainId chain) @ serializeMessage message)"

datatype version_error = InvalidVersionFormat string

text \<open>
  \<open>/^(\d+)\.(\d+)\.(.*)$/\<close>: two non-empty runs of digits, each followed by a dot, and a rest
  without a line terminator. \<open>Number\<close> rounds a run of digits to a double.
\<close>

definition parseVersion :: "string \<Rightarrow> version_error + js_number \<times> js_number \<times> string" where
  "parseVersion version =
     (let major = takeWhile isDigit version; r1 = dropWhile isDigit version in
      if major = [] \<or> take 1 r1 \<noteq> ''.'' then Inl (InvalidVersionFormat version)
      else
        (let minor = takeWhile isDigit (drop 1 r1); r2 = dropWhile isDigit (drop 1 r1) in
         if minor = [] \<or> take 1 r2 \<noteq> ''.'' \<or> (\<exists>c \<in> set (drop 1 r2). c = CHR 0x0A \<or> c = CHR 0x0D)
         then Inl (InvalidVersionFormat version)
         else Inr (double_of_nat (nat_of_dec major), double_of_nat (nat_of_dec minor), drop 1 r2)))"

definition abiVersionMatches :: "string \<Rightarrow> string \<Rightarrow> version_error + bool" where
  "abiVersionMatches targetVersion abiVersion =
     andThen (parseVersion targetVersion) (\<lambda>(majorTarget, minorTarget, _).
     andThen (parseVersion abiVersion) (\<lambda>(majorAbi, minorAbi, _).
       Inr (numEq majorTarget majorAbi \<and> numLe minorAbi minorTarget)))"

text \<open>
  \<open>loadAbiVersion\<close> of \<open>evm/ts/src/bindings.ts\<close>: the first binding of the table whose version the
  contract's version is compatible with.
\<close>

datatype abi_error = VersionError version_error | UnknownAbiVersion string

fun loadAbiVersion :: "(string \<times> 'b) list \<Rightarrow> string \<Rightarrow> abi_error + 'b" where
  "loadAbiVersion [] targetVersion = Inl (UnknownAbiVersion targetVersion)"
| "loadAbiVersion ((abiVersion, abi) # rest) targetVersion =
     (case abiVersionMatches targetVersion abiVersion of
        Inl e \<Rightarrow> Inl (VersionError e)
      | Inr m \<Rightarrow> if m then Inr abi else loadAbiVersion rest targetVersion)"

definition versionString :: "nat \<Rightarrow> nat \<Rightarrow> string \<Rightarrow> string" where
  "versionString major minor tag = dec_of_nat major @ ''.'' @ dec_of_nat minor @ ''.'' @ tag"

lemma takeWhile_digits: "takeWhile isDigit (dec_of_nat n @ CHR ''.'' # s) = dec_of_nat n"
  "dropWhile isDigit (dec_of_nat n @ CHR ''.'' # s) = CHR ''.'' # s"
proof -
  have dig: "\<forall>c \<in> set (dec_of_nat n). isDigit c"
    using all_digits_dec_of_nat [of n] by (simp add: all_digits_def list_all_iff)
  have dot: "\<not> isDigit CHR ''.''" by (simp add: isDigit_def)
  show "takeWhile isDigit (dec_of_nat n @ CHR ''.'' # s) = dec_of_nat n"
    using dig dot by (simp add: takeWhile_append2)
  show "dropWhile isDigit (dec_of_nat n @ CHR ''.'' # s) = CHR ''.'' # s"
    using dig dot by (simp add: dropWhile_append2)
qed

lemma parseVersion_versionString:
  assumes "CHR 0x0A \<notin> set tag" "CHR 0x0D \<notin> set tag"
  shows "parseVersion (versionString major minor tag) = Inr (double_of_nat major, double_of_nat minor, tag)"
proof -
  have ne: "dec_of_nat n \<noteq> []" for n by (simp add: dec_of_nat_def)
  from assms ne show ?thesis
    by (auto simp: parseVersion_def versionString_def Let_def takeWhile_digits)
qed

lemma abiVersionMatches_Inr:
  "abiVersionMatches t a = Inr m \<longleftrightarrow>
     (\<exists>mt nt rt ma na ra. parseVersion t = Inr (mt, nt, rt) \<and> parseVersion a = Inr (ma, na, ra) \<and>
        m = (numEq mt ma \<and> numLe na nt))"
  by (auto simp: abiVersionMatches_def andThen_eq_Inr)

text \<open>
  Version compatibility on printed versions: the contract \<open>M.m.tag\<close> accepts the ABI
  \<open>M'.m'.tag'\<close> exactly when the major versions are equal and the contract's minor version is at
  least the ABI's, whatever the tags (numbers below \<open>2 ^ 53\<close> printed without leading zeros, no
  line break).
\<close>

theorem abiVersionMatches_printed:
  assumes "\<forall>c \<in> set (tag @ tag'). c \<noteq> CHR 0x0A \<and> c \<noteq> CHR 0x0D"
    and "list_all (\<lambda>n. n < 2 ^ 53) [M, m, M', m']"
  shows "abiVersionMatches (versionString M m tag) (versionString M' m' tag') = Inr (M = M' \<and> m' \<le> m)"
proof -
  have "parseVersion (versionString M m tag) = Inr (double_of_nat M, double_of_nat m, tag)"
    and "parseVersion (versionString M' m' tag') = Inr (double_of_nat M', double_of_nat m', tag')"
    using assms(1) by (auto intro!: parseVersion_versionString)
  then show ?thesis using assms(2) by (simp add: abiVersionMatches_def double_of_nat_small)
qed

theorem abiVersionMatches_printed_witness:
  "abiVersionMatches (versionString 1 1 ''0'') (versionString 1 0 ''0+evm'') = Inr True"
  using abiVersionMatches_printed [of "''0''" "''0+evm''" 1 1 1 0] by simp

lemma loadAbiVersion_skip:
  "list_all (\<lambda>(v, _). abiVersionMatches target v = Inr False) before \<Longrightarrow>
     loadAbiVersion (before @ rest) target = loadAbiVersion rest target"
  by (induction before) auto

lemma loadAbiVersion_split:
  "loadAbiVersion table target = Inr abi \<Longrightarrow>
     \<exists>before version after. table = before @ (version, abi) # after
        \<and> abiVersionMatches target version = Inr True
        \<and> list_all (\<lambda>(v, _). abiVersionMatches target v = Inr False) before"
proof (induction table)
  case (Cons entry rest)
  obtain v a where entry: "entry = (v, a)" by (cases entry)
  with Cons.prems obtain m where m: "abiVersionMatches target v = Inr m"
    by (cases "abiVersionMatches target v") auto
  show ?case
  proof (cases m)
    case True
    with Cons.prems entry m have "entry # rest = [] @ (v, abi) # rest" by simp
    with m True show ?thesis by (metis list.pred_inject(1))
  next
    case False
    with Cons entry m obtain before version after
      where "rest = before @ (version, abi) # after" "abiVersionMatches target version = Inr True"
        "list_all (\<lambda>(v, _). abiVersionMatches target v = Inr False) (entry # before)"
      by auto
    then show ?thesis by (metis append_Cons)
  qed
qed simp

text \<open>
  The binding chosen for a contract is the first entry of the table it is compatible with:
  every earlier entry parses and does not match.
\<close>

theorem loadAbiVersion_first_match:
  "loadAbiVersion table target = Inr abi \<longleftrightarrow>
     (\<exists>before version after. table = before @ (version, abi) # after
        \<and> abiVersionMatches target version = Inr True
        \<and> list_all (\<lambda>(v, _). abiVersionMatches target v = Inr False) before)"
  using loadAbiVersion_split [of table target abi] loadAbiVersion_skip by fastforce

end
