(* ===== verification/Limit_Format.thy ===== *)
theory Limit_Format
  imports Js_Strings
begin

text \<open>
  Rate limits as decimal strings, \<open>cli/src/limitFormatting.ts\<close>, and the decimal amounts of
  \<open>cli/src/hype/validation.ts\<close>. A limit in the deployment file is a string with a dot and as many
  fraction digits as the token has decimals; the functions format an on-chain integer, and check
  and classify what a user wrote.
\<close>

section \<open>Definitions\<close>

definition formatNumber :: "int \<Rightarrow> nat \<Rightarrow> string" where
  "formatNumber num decimals =
     (let str = dec_of_int num in
      if decimals = 0 then str @ ''.''
      else
        (let padded = padStart (decimals + 1) CHR ''0'' str;
             splitIndex = length padded - decimals
         in take splitIndex padded @ ''.'' @ drop splitIndex padded))"

definition checkNumberFormatting :: "string \<Rightarrow> nat \<Rightarrow> bool" where
  "checkNumberFormatting formatted decimals =
     (let parts = split_on CHR ''.'' formatted in
      if length parts \<noteq> 2 then False
      else
        (let fraction = parts ! 1 in
         if length fraction \<noteq> decimals then False else True))"

definition getDecimalsFromLimit :: "string \<Rightarrow> nat option" where
  "getDecimalsFromLimit limit =
     (let parts = split_on CHR ''.'' limit in
      if length parts \<noteq> 2 then None
      else Some (length (parts ! 1)))"

definition isZeroLimit :: "string \<Rightarrow> bool" where
  "isZeroLimit value =
     (let normalized = remove_char CHR ''.'' value
      in normalized \<noteq> [] \<and> list_all (\<lambda>c. c = CHR ''0'') normalized)"

text \<open>With no decimals, \<open>/^\d+\.?$/\<close>: digits and at most one dot after them.\<close>

definition isValidLimit :: "string \<Rightarrow> nat \<Rightarrow> bool" where
  "isValidLimit value decimals =
     (if decimals = 0
      then all_digits value \<or> (value \<noteq> [] \<and> last value = CHR ''.'' \<and> all_digits (butlast value))
      else
        (let parts = split_on CHR ''.'' value in
         if length parts \<noteq> 2 then False
         else
           (let whole = parts ! 0; fraction = parts ! 1 in
            if length fraction \<noteq> decimals then False
            else all_digits whole \<and> all_digits fraction)))"

datatype decimal_error = NotADecimal | NotPositive

text \<open>\<open>/^(?:\d+(\.\d+)?|\.\d+)$/\<close>\<close>

definition isDecimal :: "string \<Rightarrow> bool" where
  "isDecimal s =
     (all_digits s \<or>
      (let parts = split_on CHR ''.'' s in
       length parts = 2 \<and> (parts ! 0 = [] \<or> all_digits (parts ! 0)) \<and> all_digits (parts ! 1)))"

definition remove_first :: "char \<Rightarrow> string \<Rightarrow> string" where
  "remove_first c s = takeWhile (\<lambda>x. x \<noteq> c) s @ drop 1 (dropWhile (\<lambda>x. x \<noteq> c) s)"

definition parsePositiveDecimalAmount :: "string \<Rightarrow> decimal_error + string" where
  "parsePositiveDecimalAmount value =
     (let trimmed = trim value in
      if \<not> isDecimal trimmed then Inl NotADecimal
      else
        (let digits = remove_first CHR ''.'' trimmed in
         if \<not> list_ex (\<lambda>c. isDigit c \<and> c \<noteq> CHR ''0'') digits then Inl NotPositive
         else Inr trimmed))"

section \<open>Shape of limits\<close>

lemma split2_iff:
  "length (split_on c s) = 2 \<and> P (split_on c s ! 0) (split_on c s ! 1) \<longleftrightarrow>
     (\<exists>a b. s = a @ c # b \<and> c \<notin> set a \<and> c \<notin> set b \<and> P a b)"
    (is "?l \<longleftrightarrow> ?r")
proof
  assume h: ?l
  then obtain a b where ab: "split_on c s = [a, b]"
    by (metis length_0_conv length_Suc_conv numeral_2_eq_2)
  with h show ?r by (auto simp: split_on_two_iff)
next
  assume ?r
  then obtain a b where "split_on c s = [a, b]" "P a b"
    by (auto simp: split_on_two_iff)
  then show ?l by simp
qed

lemma all_digits_no_dot: "all_digits s \<Longrightarrow> CHR ''.'' \<notin> set s"
  by (auto simp: all_digits_def list_all_iff dest: isDigit_not_dot)

lemma checkNumberFormatting_iff:
  "checkNumberFormatting s d \<longleftrightarrow>
     (\<exists>w f. s = w @ CHR ''.'' # f \<and> CHR ''.'' \<notin> set w \<and> CHR ''.'' \<notin> set f \<and> length f = d)"
  using split2_iff [of "CHR ''.''" s "\<lambda>w f. length f = d"]
  by (auto simp: checkNumberFormatting_def Let_def)

lemma getDecimalsFromLimit_iff: "getDecimalsFromLimit s = Some d \<longleftrightarrow> checkNumberFormatting s d"
  by (auto simp: getDecimalsFromLimit_def checkNumberFormatting_def Let_def)

lemma isValidLimit_pos_iff:
  assumes "0 < d"
  shows "isValidLimit s d \<longleftrightarrow>
     (\<exists>w f. s = w @ CHR ''.'' # f \<and> all_digits w \<and> all_digits f \<and> length f = d)"
proof -
  have "isValidLimit s d \<longleftrightarrow> (\<exists>w f. s = w @ CHR ''.'' # f \<and> CHR ''.'' \<notin> set w \<and> CHR ''.'' \<notin> set f
      \<and> (length f = d \<and> all_digits w \<and> all_digits f))"
    using split2_iff [of "CHR ''.''" s "\<lambda>w f. length f = d \<and> all_digits w \<and> all_digits f"] assms
    by (auto simp: isValidLimit_def Let_def)
  then show ?thesis by (auto dest: all_digits_no_dot)
qed

lemma isValidLimit_zero_iff:
  "isValidLimit s 0 \<longleftrightarrow> all_digits s \<or> (\<exists>w. s = w @ ''.'' \<and> all_digits w)"
  by (auto simp: isValidLimit_def) (metis append_butlast_last_id)

lemma isDecimal_iff:
  "isDecimal s \<longleftrightarrow> all_digits s \<or>
     (\<exists>w f. s = w @ CHR ''.'' # f \<and> (w = [] \<or> all_digits w) \<and> all_digits f)"
proof -
  have "isDecimal s \<longleftrightarrow> all_digits s \<or> (\<exists>w f. s = w @ CHR ''.'' # f \<and> CHR ''.'' \<notin> set w
      \<and> CHR ''.'' \<notin> set f \<and> ((w = [] \<or> all_digits w) \<and> all_digits f))"
    using split2_iff [of "CHR ''.''" s "\<lambda>w f. (w = [] \<or> all_digits w) \<and> all_digits f"]
    by (auto simp: isDecimal_def Let_def)
  moreover have "(\<exists>w f. s = w @ CHR ''.'' # f \<and> CHR ''.'' \<notin> set w \<and> CHR ''.'' \<notin> set f
        \<and> ((w = [] \<or> all_digits w) \<and> all_digits f))
      \<longleftrightarrow> (\<exists>w f. s = w @ CHR ''.'' # f \<and> (w = [] \<or> all_digits w) \<and> all_digits f)"
    by (intro iff_exI) (auto dest: all_digits_no_dot)
  ultimately show ?thesis by simp
qed

section \<open>Formatting\<close>

lemma dec_of_int_nonneg: "0 \<le> n \<Longrightarrow> dec_of_int n = dec_of_nat (nat n)"
  by (simp add: dec_of_int_def)

text \<open>The two parts of a formatted non-negative number.\<close>

lemma formatNumber_parts:
  assumes "0 \<le> n"
  obtains w f where "formatNumber n d = w @ CHR ''.'' # f" "all_digits w" "list_all isDigit f"
    "length f = d" "nat_of_dec (w @ f) = nat n"
proof (cases "d = 0")
  case True
  show ?thesis
    by (rule that [of "dec_of_nat (nat n)" "[]"]) (simp_all add: True formatNumber_def assms dec_of_int_nonneg)
next
  case False
  let ?p = "padStart (d + 1) CHR ''0'' (dec_of_nat (nat n))"
  let ?k = "length ?p - d"
  have len: "d + 1 \<le> length ?p" by simp
  have dig: "list_all isDigit ?p"
    using all_digits_dec_of_nat [of "nat n"]
    by (auto simp: padStart_def all_digits_def list_all_iff isDigit_def)
  show ?thesis
  proof (rule that [of "take ?k ?p" "drop ?k ?p"])
    show "formatNumber n d = take ?k ?p @ CHR ''.'' # drop ?k ?p"
      using False assms by (simp add: formatNumber_def Let_def dec_of_int_nonneg)
    show "all_digits (take ?k ?p)"
      using dig len by (auto simp: all_digits_def list_all_iff dest!: in_set_takeD simp del: length_padStart)
    show "list_all isDigit (drop ?k ?p)"
      using dig by (auto simp: list_all_iff dest: in_set_dropD)
    show "length (drop ?k ?p) = d" using len by (simp del: length_padStart)
    show "nat_of_dec (take ?k ?p @ drop ?k ?p) = nat n" by simp
  qed
qed

lemma formatNumber_checks: "0 \<le> n \<Longrightarrow> checkNumberFormatting (formatNumber n d) d"
proof -
  assume "0 \<le> n"
  then obtain w f where wf: "formatNumber n d = w @ CHR ''.'' # f" "all_digits w" "list_all isDigit f"
    "length f = d" by (rule formatNumber_parts [where d = d])
  then show ?thesis
    by (auto simp: checkNumberFormatting_iff list_all_iff dest: all_digits_no_dot isDigit_not_dot)
qed

lemma formatNumber_valid: "0 \<le> n \<Longrightarrow> isValidLimit (formatNumber n d) d"
proof -
  assume "0 \<le> n"
  then obtain w f where wf: "formatNumber n d = w @ CHR ''.'' # f" "all_digits w" "list_all isDigit f"
    "length f = d" by (rule formatNumber_parts [where d = d])
  then show ?thesis
    by (cases "d = 0") (auto simp: isValidLimit_zero_iff isValidLimit_pos_iff all_digits_def)
qed

text \<open>
  \<open>BigInt(limit.replace(/\./g, ""))\<close>: how \<open>collectMissingConfigs\<close> reads a formatted limit back.
\<close>

definition parseFormatted :: "string \<Rightarrow> nat" where
  "parseFormatted s = nat_of_dec (remove_char CHR ''.'' s)"

lemma remove_char_Cons: "remove_char c (x # s) = (if x = c then remove_char c s else x # remove_char c s)"
  by (simp add: remove_char_def)

lemma parseFormatted_formatNumber: "0 \<le> n \<Longrightarrow> parseFormatted (formatNumber n d) = nat n"
proof -
  assume "0 \<le> n"
  then obtain w f where wf: "formatNumber n d = w @ CHR ''.'' # f" "all_digits w" "list_all isDigit f"
    "nat_of_dec (w @ f) = nat n" by (rule formatNumber_parts [where d = d])
  have "CHR ''.'' \<notin> set w" "CHR ''.'' \<notin> set f"
    using wf by (auto simp: list_all_iff dest: all_digits_no_dot isDigit_not_dot)
  then have "remove_char CHR ''.'' (w @ CHR ''.'' # f) = w @ f"
    by (simp add: remove_char_id remove_char_Cons)
  then show ?thesis
    by (simp add: wf parseFormatted_def)
qed

text \<open>
  C37. A formatted on-chain limit is well formed and loses nothing: for every non-negative amount
  and number of decimals it passes both checks of the deployment file, its number of decimals is
  read back, and dropping the dot gives the amount.
\<close>

theorem formatNumber_roundtrip:
  assumes "0 \<le> n"
  shows "getDecimalsFromLimit (formatNumber n d) = Some d
       \<and> checkNumberFormatting (formatNumber n d) d
       \<and> isValidLimit (formatNumber n d) d
       \<and> int (parseFormatted (formatNumber n d)) = n"
  using assms
  by (simp add: getDecimalsFromLimit_iff formatNumber_checks formatNumber_valid parseFormatted_formatNumber)

theorem formatNumber_roundtrip_witness:
  "formatNumber 1234567 6 = ''1.234567'' \<and> isValidLimit (formatNumber 1234567 6) 6
     \<and> int (parseFormatted (formatNumber 1234567 6)) = 1234567"
proof -
  have "formatNumber 1234567 6 = ''1.234567''"
    by (simp add: formatNumber_def padStart_def dec_of_int_def dec_of_nat_def digits_of.simps
        digit_char_eval)
  then show ?thesis using formatNumber_roundtrip [of 1234567 6] by simp
qed

section \<open>Validity and the structural check\<close>

lemma isValidLimit_checks: "0 < d \<Longrightarrow> isValidLimit s d \<Longrightarrow> checkNumberFormatting s d"
  by (auto simp: isValidLimit_pos_iff checkNumberFormatting_iff dest: all_digits_no_dot)

lemma nat_of_dec_all_zero: "list_all (\<lambda>c. c = CHR ''0'') t \<Longrightarrow> nat_of_dec t = 0"
proof -
  assume "list_all (\<lambda>c. c = CHR ''0'') t"
  then have "replicate (length t) CHR ''0'' = t"
    by (induction t) auto
  then show ?thesis using nat_of_dec_zeros [of "length t" "[]"]
    by (simp add: nat_of_dec_def)
qed

lemma isZeroLimit_value: "isZeroLimit s \<Longrightarrow> parseFormatted s = 0"
  by (simp add: isZeroLimit_def parseFormatted_def Let_def nat_of_dec_all_zero)

text \<open>
  On tokens with decimals, a valid limit passes the structural check of the
  configuration and its integer value is the one its digits denote.
  A token without decimals is different: the validator of prompts and overrides accepts a limit
  without a dot, the configuration check does not.
\<close>

theorem isValidLimit_vs_checkNumberFormatting:
  "isValidLimit s d \<and> \<not> checkNumberFormatting s d \<longleftrightarrow> d = 0 \<and> all_digits s"
proof (cases "d = 0")
  case True
  have "all_digits s \<Longrightarrow> \<not> checkNumberFormatting s 0"
    by (auto simp: checkNumberFormatting_iff dest: all_digits_no_dot)
  moreover have "all_digits w \<Longrightarrow> checkNumberFormatting (w @ ''.'') 0" for w
    by (auto simp: checkNumberFormatting_iff dest: all_digits_no_dot)
  ultimately show ?thesis by (auto simp: True isValidLimit_zero_iff)
qed (use isValidLimit_checks in auto)

section \<open>Positive decimal amounts\<close>

lemma remove_first_char: "count_list s c \<le> 1 \<Longrightarrow> remove_first c s = remove_char c s"
proof (induction s)
  case (Cons x s)
  then show ?case
    by (cases "x = c") (auto simp: remove_first_def remove_char_def count_list_0_iff
        intro!: filter_id_conv [THEN iffD2, symmetric])
qed (simp add: remove_first_def remove_char_def)

lemma isDecimal_one_dot: "isDecimal s \<Longrightarrow> count_list s CHR ''.'' \<le> 1"
  by (auto simp: isDecimal_iff count_list_0_iff dest!: all_digits_no_dot)

lemma isDecimal_digits: "isDecimal s \<Longrightarrow> list_all isDigit (remove_char CHR ''.'' s)"
  by (auto simp: isDecimal_iff all_digits_def list_all_iff remove_char_def)

lemma digits_val_pos_iff: "0 < b \<Longrightarrow> 0 < digits_val b ds \<longleftrightarrow> (\<exists>d \<in> set ds. 0 < d)"
proof (induction ds rule: rev_induct)
  case (snoc d ds)
  then show ?case by (auto simp: digits_val_append)
qed simp

lemma digit_value_pos_iff: "isDigit c \<Longrightarrow> 0 < digit_value c \<longleftrightarrow> c \<noteq> CHR ''0''"
proof -
  assume "isDigit c"
  then have "48 \<le> (of_char c :: nat)" by (simp add: isDigit_def Let_def)
  moreover have "c = CHR ''0'' \<longleftrightarrow> (of_char c :: nat) = 48"
    using of_char_eq_iff [of c "CHR ''0''", where 'a = nat] by (simp del: of_char_eq_iff)
  ultimately show ?thesis by (auto simp: digit_value_def)
qed

lemma nat_of_dec_pos_iff:
  "list_all isDigit s \<Longrightarrow> 0 < nat_of_dec s \<longleftrightarrow> list_ex (\<lambda>c. isDigit c \<and> c \<noteq> CHR ''0'') s"
  by (auto simp: nat_of_dec_def digits_val_pos_iff list_ex_iff list_all_iff digit_value_pos_iff)

text \<open>
  \<open>parsePositiveDecimalAmount\<close> returns the trimmed text exactly when it is a decimal numeral
  whose value is positive, reports \<open>NotPositive\<close> exactly on the decimal numerals of value zero,
  and \<open>NotADecimal\<close> on everything else.
\<close>

theorem parsePositiveDecimalAmount_spec:
  "parsePositiveDecimalAmount v =
     (if \<not> isDecimal (trim v) then Inl NotADecimal
      else if parseFormatted (trim v) = 0 then Inl NotPositive
      else Inr (trim v))"
proof (cases "isDecimal (trim v)")
  case True
  have "remove_first CHR ''.'' (trim v) = remove_char CHR ''.'' (trim v)"
    using isDecimal_one_dot [OF True] by (rule remove_first_char)
  moreover have "0 < nat_of_dec (remove_char CHR ''.'' (trim v)) \<longleftrightarrow>
      list_ex (\<lambda>c. isDigit c \<and> c \<noteq> CHR ''0'') (remove_char CHR ''.'' (trim v))"
    by (rule nat_of_dec_pos_iff) (rule isDecimal_digits [OF True])
  ultimately show ?thesis
    using True by (auto simp: parsePositiveDecimalAmount_def parseFormatted_def Let_def)
qed (simp add: parsePositiveDecimalAmount_def Let_def)

end
