(* ===== verification/Js_Objects.thy ===== *)
theory Js_Objects
  imports Js_Strings "HOL-Library.List_Lexorder" "HOL-Library.Product_Lexorder"
begin

text \<open>
  JavaScript objects with string keys and maps, as association lists in insertion order: an
  assignment to a present key keeps its place, a new key goes to the end (\<open>AList.update\<close>).
  The interface \<open>keyed_store\<close> is what the configuration code relies on when it writes many entries
  one after the other. Also the order \<open>localeCompare\<close> gives on names made of ASCII letters and
  digits, and the answers a user types at the prompts of \<open>cli/src/prompts.ts\<close>.
\<close>

section \<open>Stores with keys\<close>

locale keyed_store =
  fixes lookup :: "'s \<Rightarrow> 'k \<Rightarrow> 'v option"
    and put :: "'k \<Rightarrow> 'v \<Rightarrow> 's \<Rightarrow> 's"
    and present :: "'s \<Rightarrow> 'k \<Rightarrow> bool"
  assumes lookup_put: "lookup (put k v s) j = (if j = k \<and> present s k then Some v else lookup s j)"
    and present_put: "present (put k v s) j = present s j"
begin

definition put_all :: "('k \<times> 'v) list \<Rightarrow> 's \<Rightarrow> 's" where
  "put_all kvs s = fold (\<lambda>(k, v). put k v) kvs s"

lemma put_all_simps [simp]:
  "put_all [] s = s"
  "put_all ((k, v) # kvs) s = put_all kvs (put k v s)"
  "put_all (kvs @ lvs) s = put_all lvs (put_all kvs s)"
  by (simp_all add: put_all_def)

lemma present_put_all: "present (put_all kvs s) j = present s j"
proof (induction kvs arbitrary: s)
  case (Cons kv kvs)
  then show ?case by (cases kv) (simp add: present_put)
qed simp

lemma lookup_put_all_other: "j \<notin> fst ` set kvs \<Longrightarrow> lookup (put_all kvs s) j = lookup s j"
  by (induction kvs arbitrary: s) (auto simp: lookup_put)

text \<open>When no key is written twice, every written key has its value and every other key its old one.\<close>

lemma lookup_put_all:
  "distinct (map fst kvs) \<Longrightarrow> (\<And>j. j \<in> fst ` set kvs \<Longrightarrow> present s j) \<Longrightarrow>
   lookup (put_all kvs s) j = (case map_of kvs j of Some v \<Rightarrow> Some v | None \<Rightarrow> lookup s j)"
proof (induction kvs arbitrary: s)
  case (Cons kv kvs)
  obtain k v where kv: "kv = (k, v)" by force
  have IH: "lookup (put_all kvs (put k v s)) j
      = (case map_of kvs j of Some v \<Rightarrow> Some v | None \<Rightarrow> lookup (put k v s) j)"
    using Cons kv by (auto simp: present_put)
  have "k \<notin> fst ` set kvs" using Cons.prems(1) kv by auto
  then have "map_of kvs k = None" by (simp add: map_of_eq_None_iff)
  then show ?case using IH Cons.prems(2) [of k] kv
    by (auto simp: lookup_put split: option.splits)
qed simp

lemma lookup_put_all_Some:
  assumes "distinct (map fst kvs)" "\<And>j. j \<in> fst ` set kvs \<Longrightarrow> present s j" "(k, v) \<in> set kvs"
  shows "lookup (put_all kvs s) k = Some v"
  by (subst lookup_put_all [OF assms(1,2)]) (simp_all add: map_of_is_SomeI [OF assms(1,3)])

text \<open>A key written several times, always with the same value.\<close>

lemma lookup_put_all_same:
  "k \<in> fst ` set kvs \<Longrightarrow> (\<And>v'. (k, v') \<in> set kvs \<Longrightarrow> v' = v) \<Longrightarrow> present s k \<Longrightarrow>
   lookup (put_all kvs s) k = Some v"
proof (induction kvs arbitrary: s)
  case (Cons kv kvs)
  obtain k1 v1 where kv: "kv = (k1, v1)" by force
  show ?case
  proof (cases "k \<in> fst ` set kvs")
    case True
    then show ?thesis using Cons kv by (auto simp: present_put)
  next
    case False
    then have "k = k1" "v1 = v" using Cons.prems kv by auto
    then show ?thesis using False Cons.prems(3) by (simp add: kv lookup_put_all_other lookup_put)
  qed
qed simp

end

interpretation js_object: keyed_store map_of AList.update "\<lambda>_ _. True"
  by unfold_locales (auto simp: update_conv')

lemma map_of_filter_distinct:
  "distinct (map fst m) \<Longrightarrow> map_of (filter P m) k =
     (case map_of m k of None \<Rightarrow> None | Some v \<Rightarrow> if P (k, v) then Some v else None)"
  by (induction m) (auto simp: map_of_eq_None_iff split: option.splits dest: map_of_SomeD)

section \<open>Order of names\<close>

text \<open>
  The collation of names of ASCII letters and digits: letters are compared without their case
  first, and at the first difference of case the lower case comes first.
\<close>

definition localeKey :: "string \<Rightarrow> nat list \<times> nat list" where
  "localeKey s = (map of_char (toLowerCase s), map (\<lambda>c. if lower_char c = c then 0 else 1) s)"

definition sortNames :: "string list \<Rightarrow> string list" where
  "sortNames = sort_key localeKey"

lemma set_sortNames [simp]: "set (sortNames xs) = set xs"
  by (simp add: sortNames_def)

lemma sortNames_Nil [simp]: "sortNames xs = [] \<longleftrightarrow> xs = []"
  by (metis set_sortNames set_empty)

lemma length_sortNames [simp]: "length (sortNames xs) = length xs"
  by (simp add: sortNames_def)

lemma distinct_sortNames [simp]: "distinct (sortNames xs) = distinct xs"
  by (simp add: sortNames_def)

section \<open>Prompts\<close>

text \<open>
  Standard input is the list of the lines still to be read. At its end \<open>promptLine\<close> settles with
  the empty string.
\<close>

definition promptLine :: "string list \<Rightarrow> string \<times> string list" where
  "promptLine input = (case input of [] \<Rightarrow> ([], []) | l # ls \<Rightarrow> (l, ls))"

definition promptYesNo :: "bool \<Rightarrow> string list \<Rightarrow> bool \<times> string list" where
  "promptYesNo defaultYes input =
     (let (line, rest) = promptLine input;
          answer = toLowerCase (trim line)
      in if answer = [] then (defaultYes, rest)
         else if answer = ''y'' \<or> answer = ''yes'' then (True, rest)
         else if answer = ''n'' \<or> answer = ''no'' then (False, rest)
         else (False, rest))"

text \<open>\<open>askForConfirmation\<close>: \<open>None\<close> when the process exits.\<close>

definition askForConfirmation :: "string list \<Rightarrow> string list option" where
  "askForConfirmation input =
     (let (confirmed, rest) = promptYesNo False input in if \<not> confirmed then None else Some rest)"

end
