(* ===== verification/Deployments.thy ===== *)
theory Deployments
  imports Js_Objects
begin

text \<open>
  The deployment file of the CLI, \<open>cli/src/deployments.ts\<close>. An optional property is an \<open>option\<close>, and
  so are the addresses a lookup may leave undefined; an object keyed by chain is an association
  list in insertion order. \<open>limits\<close>, its \<open>outbound\<close> and its
  \<open>inbound\<close> are options, since the code guards against a file that misses them.
\<close>

record wormhole_config =
  wc_address :: "string option"
  wc_pauser :: "string option"

record transceivers_config =
  tc_threshold :: nat
  tc_wormhole :: wormhole_config

record limits_config =
  lc_outbound :: "string option"
  lc_inbound :: "(string \<times> string) list option"

record chain_config =
  cc_version :: string
  cc_mode :: string
  cc_paused :: bool
  cc_owner :: string
  cc_pauser :: "string option"
  cc_manager :: "string option"
  cc_token :: "string option"
  cc_transceivers :: transceivers_config
  cc_limits :: "limits_config option"
  cc_managerVariant :: "string option"

type_synonym chains_config = "(string \<times> chain_config) list"

record hypercore_config =
  hc_tokenIndex :: nat
  hc_szDecimals :: "nat option"
  hc_weiDecimals :: "nat option"

record xrpl_config =
  xc_manager :: "string option"
  xc_token :: "string option"
  xc_decimals :: "nat option"

record deployments_config =
  dc_network :: string
  dc_chains :: chains_config
  dc_defaultLimits :: "string option"
  dc_hypercore :: "hypercore_config option"
  dc_xrpl :: "xrpl_config option"

text \<open>\<open>destinationConfig.limits?.inbound?.[source]\<close>\<close>

definition inboundOf :: "chain_config \<Rightarrow> string \<Rightarrow> string option" where
  "inboundOf c source =
     Option.bind (cc_limits c) (\<lambda>l. Option.bind (lc_inbound l) (\<lambda>m. map_of m source))"

definition outboundOf :: "chain_config \<Rightarrow> string option" where
  "outboundOf c = Option.bind (cc_limits c) lc_outbound"

text \<open>The inbound limit of a pair destination, source of the whole file.\<close>

definition inboundLimit :: "chains_config \<Rightarrow> string \<times> string \<Rightarrow> string option" where
  "inboundLimit cs p = Option.bind (map_of cs (fst p)) (\<lambda>c. inboundOf c (snd p))"

text \<open>
  \<open>Deployment\<close> of \<open>cli/src/validation.ts\<close>: what was fetched for one chain. \<open>'n\<close> is the handle of
  its NTT manager and \<open>'t\<close> the one of its Wormhole transceiver; the chain context is left out.
\<close>

record ('n, 't) deployment =
  dp_ntt :: 'n
  dp_whTransceiver :: 't
  dp_decimals :: nat
  dp_manager :: string
  dp_remote :: "chain_config option"
  dp_local :: "chain_config option"

end
