(* ===== verification/Inbound_Limits.thy ===== *)
theory Inbound_Limits
  imports Deployments Limit_Format
begin

text \<open>
  Missing inbound limits, \<open>cli/src/limits.ts\<close>: the pairs of chains whose inbound limit is missing
  or zero are grouped by destination, and the user is asked for a limit for each of them. Console
  output is left out. The check of chain names is the SDK's \<open>assertChain\<close>, the parameter \<open>isChain\<close>.
  The prompt loop runs until the answer is valid: \<open>None\<close> stands for a loop that never ends, which
  happens when standard input is at its end (every further answer is empty) and the default is
  not a valid limit.
\<close>

section \<open>Definitions\<close>

record missing_group =
  mg_destination :: string
  mg_sources :: "string list"
  mg_defaultLimit :: string
  mg_decimals :: nat

datatype limits_error = UnknownChain string

definition assertChain :: "(string \<Rightarrow> bool) \<Rightarrow> string \<Rightarrow> limits_error + string" where
  "assertChain isChain name = (if isChain name then Inr name else Inl (UnknownChain name))"

definition needsLimit :: "chain_config \<Rightarrow> string \<Rightarrow> bool" where
  "needsLimit destinationConfig source =
     (case inboundOf destinationConfig source of None \<Rightarrow> True | Some current \<Rightarrow> isZeroLimit current)"

definition inScope :: "string option \<Rightarrow> string \<Rightarrow> string \<Rightarrow> bool" where
  "inScope newChain source destination =
     (case newChain of None \<Rightarrow> True | Some n \<Rightarrow> source = n \<or> destination = n)"

definition addMissing :: "string \<Rightarrow> string \<Rightarrow> nat \<Rightarrow> string
    \<Rightarrow> (string \<times> missing_group) list \<Rightarrow> (string \<times> missing_group) list" where
  "addMissing destination outbound decimals source m =
     (case map_of m destination of
        Some existing \<Rightarrow>
          AList.update destination (existing\<lparr>mg_sources := mg_sources existing @ [source]\<rparr>) m
      | None \<Rightarrow>
          AList.update destination
            \<lparr>mg_destination = destination, mg_sources = [source], mg_defaultLimit = outbound,
             mg_decimals = decimals\<rparr> m)"

definition collectSource :: "string option \<Rightarrow> string \<Rightarrow> chain_config \<Rightarrow> string \<Rightarrow> nat \<Rightarrow> string
    \<Rightarrow> (string \<times> missing_group) list \<Rightarrow> (string \<times> missing_group) list" where
  "collectSource newChain destination destinationConfig outbound decimals source m =
     (if source = destination then m
      else if \<not> inScope newChain source destination then m
      else if \<not> needsLimit destinationConfig source then m
      else addMissing destination outbound decimals source m)"

definition collectDestination :: "chains_config \<Rightarrow> string option \<Rightarrow> string list \<Rightarrow> string
    \<Rightarrow> (string \<times> missing_group) list \<Rightarrow> (string \<times> missing_group) list" where
  "collectDestination chainsConfig newChain names destination m =
     (case map_of chainsConfig destination of
        None \<Rightarrow> m
      | Some destinationConfig \<Rightarrow>
         (case outboundOf destinationConfig of
            None \<Rightarrow> m
          | Some outbound \<Rightarrow>
             (if outbound = [] then m
              else (case getDecimalsFromLimit outbound of
                 None \<Rightarrow> m
               | Some decimals \<Rightarrow>
                   fold (collectSource newChain destination destinationConfig outbound decimals)
                     names m))))"

definition collectMissingInboundGroups ::
    "(string \<Rightarrow> bool) \<Rightarrow> chains_config \<Rightarrow> string option \<Rightarrow> limits_error + missing_group list" where
  "collectMissingInboundGroups isChain chainsConfig newChain =
     andThen (mapR (assertChain isChain) (map fst chainsConfig)) (\<lambda>names.
       if newChain \<noteq> None \<and> the newChain \<notin> set names then Inr []
       else Inr (sort_key (localeKey \<circ> mg_destination)
              (map snd (fold (collectDestination chainsConfig newChain names) names []))))"

definition setInboundLimit :: "string \<Rightarrow> string \<Rightarrow> string \<Rightarrow> chains_config \<Rightarrow> chains_config" where
  "setInboundLimit destination source limit chainsConfig =
     (case map_of chainsConfig destination of
        None \<Rightarrow> chainsConfig
      | Some destinationConfig \<Rightarrow>
          let limits = (case cc_limits destinationConfig of
                 None \<Rightarrow> \<lparr>lc_outbound = Some ''0.0'', lc_inbound = Some []\<rparr> | Some l \<Rightarrow> l);
              inbound = (case lc_inbound limits of None \<Rightarrow> [] | Some m \<Rightarrow> m)
          in AList.update destination
               (destinationConfig\<lparr>cc_limits :=
                  Some (limits\<lparr>lc_inbound := Some (AList.update source limit inbound)\<rparr>)\<rparr>)
               chainsConfig)"

text \<open>The prompt loop of one pair: lines 176 to 200.\<close>

definition limitAnswer :: "missing_group \<Rightarrow> string \<Rightarrow> string" where
  "limitAnswer g line =
     (let answer = trim line;
          value = (if answer = [] then mg_defaultLimit g else answer)
      in if answer = ''0''
         then (if mg_decimals g = 0 then ''0'' else ''0.'' @ replicate (mg_decimals g) CHR ''0'')
         else value)"

fun askLimit :: "missing_group \<Rightarrow> string list \<Rightarrow> (string \<times> string list) option" where
  "askLimit g [] =
     (let value = limitAnswer g [] in
      if \<not> isValidLimit value (mg_decimals g) then None else Some (value, []))"
| "askLimit g (line # rest) =
     (let value = limitAnswer g line in
      if \<not> isValidLimit value (mg_decimals g) then askLimit g rest else Some (value, rest))"

fun askSources :: "missing_group \<Rightarrow> string list \<Rightarrow> string list \<Rightarrow> chains_config
    \<Rightarrow> (chains_config \<times> string list) option" where
  "askSources g [] input cs = Some (cs, input)"
| "askSources g (source # sources) input cs =
     Option.bind (askLimit g input) (\<lambda>(value, rest).
       askSources g sources rest (setInboundLimit (mg_destination g) source value cs))"

fun applyGroups :: "missing_group list \<Rightarrow> string list \<Rightarrow> chains_config
    \<Rightarrow> (chains_config \<times> string list) option" where
  "applyGroups [] input cs = Some (cs, input)"
| "applyGroups (g # gs) input cs =
     (let (applyDefault, rest) = promptYesNo True input;
          sources = sortNames (mg_sources g)
      in if applyDefault
         then applyGroups gs rest
                (fold (\<lambda>source. setInboundLimit (mg_destination g) source (mg_defaultLimit g)) sources cs)
         else Option.bind (askSources g sources rest cs) (\<lambda>(cs', rest'). applyGroups gs rest' cs'))"

definition applyInboundGroups :: "missing_group list \<Rightarrow> bool \<Rightarrow> string list \<Rightarrow> chains_config
    \<Rightarrow> (bool \<times> chains_config \<times> string list) option" where
  "applyInboundGroups groups skipPrompts input cs =
     (if groups = [] then Some (False, cs, input)
      else if skipPrompts then Some (False, cs, input)
      else map_option (Pair True) (applyGroups groups input cs))"

definition configureInboundLimitsForNewChain :: "(string \<Rightarrow> bool) \<Rightarrow> string \<Rightarrow> bool \<Rightarrow> string list
    \<Rightarrow> chains_config \<Rightarrow> limits_error + (chains_config \<times> string list) option" where
  "configureInboundLimitsForNewChain isChain newChain skipPrompts input cs =
     andThen (collectMissingInboundGroups isChain cs (Some newChain)) (\<lambda>groups.
       Inr (map_option snd (applyInboundGroups groups skipPrompts input cs)))"

record pull_limits =
  pl_updated :: bool
  pl_hadMissing :: bool

definition configureInboundLimitsForPull :: "(string \<Rightarrow> bool) \<Rightarrow> bool \<Rightarrow> string list
    \<Rightarrow> chains_config \<Rightarrow> limits_error + (pull_limits \<times> chains_config \<times> string list) option" where
  "configureInboundLimitsForPull isChain skipPrompts input cs =
     andThen (collectMissingInboundGroups isChain cs None) (\<lambda>groups.
       Inr (map_option (\<lambda>(updated, st). (\<lparr>pl_updated = updated, pl_hadMissing = (groups \<noteq> [])\<rparr>, st))
              (applyInboundGroups groups skipPrompts input cs)))"


section \<open>What is collected\<close>

lemma update_append_last:
  "k \<notin> fst ` set m \<Longrightarrow> AList.update k v (m @ [(k, x)]) = m @ [(k, v)]"
  by (induction m) auto

lemma update_new: "k \<notin> fst ` set m \<Longrightarrow> AList.update k v m = m @ [(k, v)]"
  by (induction m) auto

definition missingSources :: "string option \<Rightarrow> string \<Rightarrow> chain_config \<Rightarrow> string list \<Rightarrow> string list" where
  "missingSources newChain destination c names =
     filter (\<lambda>s. s \<noteq> destination \<and> inScope newChain s destination \<and> needsLimit c s) names"

lemma fold_collectSource:
  "d \<notin> fst ` set m \<Longrightarrow>
   fold (collectSource newChain d c outbound k) names m =
     (let ss = missingSources newChain d c names in
      if ss = [] then m
      else m @ [(d, \<lparr>mg_destination = d, mg_sources = ss, mg_defaultLimit = outbound, mg_decimals = k\<rparr>)])"
proof (induction names rule: rev_induct)
  case (snoc x xs)
  have none: "map_of m d = None" using snoc.prems by (simp add: map_of_eq_None_iff)
  show ?case
    using snoc none
    by (auto simp: missingSources_def collectSource_def addMissing_def Let_def update_new
        update_append_last map_add_def)
qed (simp add: missingSources_def)

text \<open>The group of one destination.\<close>

definition groupOf :: "chains_config \<Rightarrow> string option \<Rightarrow> string list \<Rightarrow> string \<Rightarrow> missing_group option" where
  "groupOf cs newChain names d =
     Option.bind (map_of cs d) (\<lambda>c. Option.bind (outboundOf c) (\<lambda>outbound.
       if outbound = [] then None else Option.bind (getDecimalsFromLimit outbound) (\<lambda>k.
         let ss = missingSources newChain d c names in
         if ss = [] then None
         else Some \<lparr>mg_destination = d, mg_sources = ss, mg_defaultLimit = outbound, mg_decimals = k\<rparr>)))"

lemma collectDestination_groupOf:
  "d \<notin> fst ` set m \<Longrightarrow> collectDestination cs newChain names d m =
     (case groupOf cs newChain names d of None \<Rightarrow> m | Some g \<Rightarrow> m @ [(d, g)])"
  by (auto simp: collectDestination_def groupOf_def fold_collectSource Let_def split: option.splits)

lemma groupOf_destination: "groupOf cs newChain names d = Some g \<Longrightarrow> mg_destination g = d"
  by (auto simp: groupOf_def Let_def bind_eq_Some_conv split: if_splits)

lemma map_of_key: "map_of m k = Some v \<Longrightarrow> k \<in> fst ` set m"
  by (force dest: map_of_SomeD)

lemma groupOf_key: "groupOf cs newChain names d = Some g \<Longrightarrow> d \<in> fst ` set cs"
  by (auto simp: groupOf_def bind_eq_Some_conv dest: map_of_key)

lemma fold_collectDestination:
  "distinct ds \<Longrightarrow> fst ` set m \<inter> set ds = {} \<Longrightarrow>
   map snd (fold (collectDestination cs newChain names) ds m) =
     map snd m @ List.map_filter (groupOf cs newChain names) ds"
proof (induction ds arbitrary: m)
  case (Cons d ds)
  then show ?case
    by (cases "groupOf cs newChain names d") (auto simp: collectDestination_groupOf map_filter_simps)
qed (simp add: map_filter_simps)

lemma mapR_assertChain:
  "mapR (assertChain isChain) names = Inr ys \<Longrightarrow> ys = names \<and> list_all isChain names"
  by (induction names arbitrary: ys) (auto simp: andThen_eq_Inr assertChain_def split: if_splits)

lemma map_filter_set: "set (List.map_filter f xs) = {y. \<exists>x \<in> set xs. f x = Some y}"
  by (force simp: List.map_filter_def)

lemma map_filter_keys:
  "(\<And>d g. f d = Some g \<Longrightarrow> h g = d) \<Longrightarrow> map h (List.map_filter f xs) = filter (\<lambda>d. f d \<noteq> None) xs"
  by (induction xs) (auto simp: map_filter_simps split: option.splits)

lemma collect_groups:
  assumes "collectMissingInboundGroups isChain cs newChain = Inr groups"
    "distinct (map fst cs)"
  shows "set groups = (if newChain \<noteq> None \<and> the newChain \<notin> fst ` set cs then {}
      else {g. \<exists>d. groupOf cs newChain (map fst cs) d = Some g})"
    and "distinct (map mg_destination groups)"
proof -
  let ?G = "List.map_filter (groupOf cs newChain (map fst cs)) (map fst cs)"
  obtain names where "mapR (assertChain isChain) (map fst cs) = Inr names"
    using assms(1) by (auto simp: collectMissingInboundGroups_def andThen_eq_Inr)
  moreover from this have "names = map fst cs" by (auto dest: mapR_assertChain)
  ultimately have g: "groups = (if newChain \<noteq> None \<and> the newChain \<notin> fst ` set cs then []
      else sort_key (localeKey \<circ> mg_destination) ?G)"
    using assms by (auto simp: collectMissingInboundGroups_def fold_collectDestination split: if_splits)
  have "set ?G = {g. \<exists>d. groupOf cs newChain (map fst cs) d = Some g}"
    unfolding map_filter_set using groupOf_key by fastforce
  then show "set groups = (if newChain \<noteq> None \<and> the newChain \<notin> fst ` set cs then {}
      else {g. \<exists>d. groupOf cs newChain (map fst cs) d = Some g})"
    by (cases newChain) (auto simp: g)
  have "map mg_destination ?G = filter (\<lambda>d. groupOf cs newChain (map fst cs) d \<noteq> None) (map fst cs)"
    by (rule map_filter_keys) (rule groupOf_destination)
  then have "distinct (map mg_destination ?G)" using assms(2) by simp
  then show "distinct (map mg_destination groups)"
    by (simp add: g distinct_map)
qed

text \<open>
  A pair of chains whose inbound limit the user has to be asked for: both chains are configured
  and different, one of them is the new chain if there is one, the destination has an outbound
  limit with a decimal point, and the inbound limit is absent or zero.
\<close>

definition missingPair :: "chains_config \<Rightarrow> string option \<Rightarrow> string \<times> string \<Rightarrow> bool" where
  "missingPair cs newChain p =
     (let (destination, source) = p in
      source \<noteq> destination \<and> source \<in> fst ` set cs \<and> inScope newChain source destination \<and>
      (case map_of cs destination of
         None \<Rightarrow> False
       | Some c \<Rightarrow> Option.bind (outboundOf c) getDecimalsFromLimit \<noteq> None \<and> needsLimit c source))"

definition pairsOf :: "missing_group list \<Rightarrow> (string \<times> string) set" where
  "pairsOf groups = {(mg_destination g, s) | g s. g \<in> set groups \<and> s \<in> set (mg_sources g)}"

lemma getDecimals_nonempty [simp]: "getDecimalsFromLimit [] = None"
  by (simp add: getDecimalsFromLimit_def)

lemma groupOf_pair:
  "(\<exists>g. groupOf cs newChain (map fst cs) d = Some g \<and> s \<in> set (mg_sources g)) \<longleftrightarrow>
   missingPair cs newChain (d, s)"
proof (cases "map_of cs d")
  case (Some c)
  show ?thesis
  proof (cases "outboundOf c")
    case (Some outbound)
    then show ?thesis
      using \<open>map_of cs d = Some c\<close>
      by (cases "getDecimalsFromLimit outbound")
        (auto simp: groupOf_def missingPair_def missingSources_def filter_empty_conv)
  qed (simp add: \<open>map_of cs d = Some c\<close> groupOf_def missingPair_def)
qed (simp add: groupOf_def missingPair_def)

text \<open>
  C8. \<open>collectMissingInboundGroups\<close> finds exactly the missing pairs: the pairs of its groups are
  all pairs of configured chains in scope whose inbound limit is absent or zero and whose
  destination has a usable outbound limit; no destination has two groups.
\<close>

theorem collectMissingInboundGroups_exact:
  assumes "distinct (map fst cs)"
    and "collectMissingInboundGroups isChain cs newChain = Inr groups"
  shows "pairsOf groups = Collect (missingPair cs newChain) \<and> distinct (map mg_destination groups)"
proof (cases "newChain \<noteq> None \<and> the newChain \<notin> fst ` set cs")
  case True
  then have "\<not> missingPair cs newChain p" for p
    by (cases p) (force simp: missingPair_def inScope_def split: option.splits dest: map_of_key)
  then show ?thesis
    using collect_groups [OF assms(2,1)] True by (auto simp: pairsOf_def)
next
  case False
  have "(d, s) \<in> pairsOf groups \<longleftrightarrow>
      (\<exists>g. groupOf cs newChain (map fst cs) d = Some g \<and> s \<in> set (mg_sources g))" for d s
    using collect_groups(1) [OF assms(2,1)] False
    by (auto simp: pairsOf_def dest: groupOf_destination)
  then show ?thesis
    using collect_groups(2) [OF assms(2,1)] by (auto simp: groupOf_pair)
qed


section \<open>Writing the limits\<close>

lemma map_of_update: "map_of (AList.update k v m) = (map_of m)(k \<mapsto> v)"
  by (rule update_conv')

lemma setInboundLimit_chain:
  "map_of (setInboundLimit d s v cs) e = (if e = d then map_option (\<lambda>c. c\<lparr>cc_limits :=
      cc_limits (the (map_of (setInboundLimit d s v cs) d))\<rparr>) (map_of cs d) else map_of cs e)"
  by (auto simp: setInboundLimit_def map_of_update Let_def split: option.splits)

lemma inboundOf_set:
  "map_of cs d = Some c \<Longrightarrow> map_of (setInboundLimit d s v cs) d = Some c' \<Longrightarrow>
   inboundOf c' r = (if r = s then Some v else inboundOf c r)"
  by (auto simp: setInboundLimit_def map_of_update Let_def inboundOf_def split: option.splits)

lemma setInboundLimit_keys: "fst ` set (setInboundLimit d s v cs) = fst ` set cs"
  by (auto simp: setInboundLimit_def Let_def dom_update dest: map_of_key split: option.splits)

text \<open>The inbound limits of the file form a keyed store, the write of the code its \<open>put\<close>.\<close>

interpretation inbound_store: keyed_store
  inboundLimit
  "\<lambda>p v cs. setInboundLimit (fst p) (snd p) v cs"
  "\<lambda>cs p. fst p \<in> fst ` set cs"
proof
  fix k j :: "string \<times> string" and v and s :: chains_config
  obtain d r where k: "k = (d, r)" by force
  show "inboundLimit (setInboundLimit (fst k) (snd k) v s) j =
        (if j = k \<and> fst k \<in> fst ` set s then Some v else inboundLimit s j)"
  proof (cases "map_of s d")
    case None
    then have "d \<notin> fst ` set s" by (simp add: map_of_eq_None_iff)
    then show ?thesis using None by (simp add: k setInboundLimit_def)
  next
    case (Some c)
    then have "d \<in> fst ` set s" by (rule map_of_key)
    moreover obtain c' where "map_of (setInboundLimit d r v s) d = Some c'"
      using Some by (simp add: setInboundLimit_def map_of_update Let_def)
    ultimately show ?thesis
      using Some inboundOf_set [OF Some, of r v c' "snd j"]
        setInboundLimit_chain [of d r v s "fst j"]
      by (cases j) (auto simp: k inboundLimit_def)
  qed
  show "fst j \<in> fst ` set (setInboundLimit (fst k) (snd k) v s) \<longleftrightarrow> fst j \<in> fst ` set s"
    by (simp add: setInboundLimit_keys)
qed

abbreviation setAll :: "((string \<times> string) \<times> string) list \<Rightarrow> chains_config \<Rightarrow> chains_config" where
  "setAll \<equiv> inbound_store.put_all"

lemma setAll_keys: "fst ` set (setAll kvs cs) = fst ` set cs"
proof (rule set_eqI)
  fix e
  show "e \<in> fst ` set (setAll kvs cs) \<longleftrightarrow> e \<in> fst ` set cs"
    using inbound_store.present_put_all [where kvs = kvs and s = cs and j = "(e, [])"] by simp
qed

lemma setAll_outbound_same:
  "list_all (\<lambda>(d, _). Option.bind (map_of cs (fst d)) outboundOf \<noteq> None) kvs \<Longrightarrow>
   map_option outboundOf (map_of (setAll kvs cs) e) = map_option outboundOf (map_of cs e)"
proof (induction kvs arbitrary: cs)
  case (Cons kv kvs)
  obtain d s v where kv: "kv = ((d, s), v)" by (metis prod.exhaust)
  from Cons.prems kv obtain c ob where c: "map_of cs d = Some c" "outboundOf c = Some ob"
    by (auto simp: bind_eq_Some_conv)
  have one: "map_option outboundOf (map_of (setInboundLimit d s v cs) e)
      = map_option outboundOf (map_of cs e)" for e
    using c by (auto simp: setInboundLimit_def map_of_update Let_def outboundOf_def
        split: option.splits)
  have "Option.bind (map_of (setInboundLimit d s v cs) e) outboundOf = Option.bind (map_of cs e) outboundOf" for e
    using one [of e] by (cases "map_of cs e"; cases "map_of (setInboundLimit d s v cs) e") auto
  with Cons one show ?case by (auto simp: kv)
qed simp

lemma askLimit_value:
  "askLimit g input = Some (v, rest) \<Longrightarrow> isValidLimit v (mg_decimals g)"
  by (induction g input arbitrary: v rest rule: askLimit.induct)
    (auto simp: Let_def split: if_splits)

lemma limitAnswer_Nil [simp]: "limitAnswer g [] = mg_defaultLimit g"
  by (simp add: limitAnswer_def trim_def)

lemma askLimit_total:
  "isValidLimit (mg_defaultLimit g) (mg_decimals g) \<Longrightarrow> askLimit g input \<noteq> None"
  by (induction g input rule: askLimit.induct) (auto simp: Let_def)

definition answered :: "missing_group \<Rightarrow> (string \<times> string) \<times> string \<Rightarrow> bool" where
  "answered g kv = (fst (fst kv) = mg_destination g \<and> snd (fst kv) \<in> set (mg_sources g) \<and>
     (snd kv = mg_defaultLimit g \<or> isValidLimit (snd kv) (mg_decimals g)))"

lemma askSources_puts:
  "askSources g ss input cs = Some (cs', rest) \<Longrightarrow> set ss \<subseteq> set (mg_sources g) \<Longrightarrow>
   \<exists>kvs. cs' = setAll kvs cs \<and> map fst kvs = map (Pair (mg_destination g)) ss
     \<and> list_all (answered g) kvs"
proof (induction ss arbitrary: input cs)
  case (Cons s ss)
  then obtain v r where v: "askLimit g input = Some (v, r)"
    "askSources g ss r (setInboundLimit (mg_destination g) s v cs) = Some (cs', rest)"
    by (auto simp: bind_eq_Some_conv)
  with Cons obtain kvs where "cs' = setAll kvs (setInboundLimit (mg_destination g) s v cs)"
    "map fst kvs = map (Pair (mg_destination g)) ss" "list_all (answered g) kvs" by auto
  moreover have "answered g ((mg_destination g, s), v)"
    using Cons.prems(2) askLimit_value [OF v(1)] by (simp add: answered_def)
  ultimately show ?case
    by (intro exI [of _ "((mg_destination g, s), v) # kvs"]) auto
qed simp

lemma fold_defaults:
  "fold (\<lambda>s. setInboundLimit d s v) ss cs = setAll (map (\<lambda>s. ((d, s), v)) ss) cs"
  by (induction ss arbitrary: cs) auto

lemma applyGroups_puts:
  "applyGroups gs input cs = Some (cs', rest) \<Longrightarrow>
   \<exists>kvs. cs' = setAll kvs cs
     \<and> map fst kvs = concat (map (\<lambda>g. map (Pair (mg_destination g)) (sortNames (mg_sources g))) gs)
     \<and> list_all (\<lambda>kv. \<exists>g \<in> set gs. answered g kv) kvs"
proof (induction gs input cs rule: applyGroups.induct)
  case (2 g gs input cs)
  let ?ss = "sortNames (mg_sources g)"
  obtain yes r where yn: "promptYesNo True input = (yes, r)" by force
  have "\<exists>kvs1 r1. applyGroups gs r1 (setAll kvs1 cs) = Some (cs', rest)
      \<and> map fst kvs1 = map (Pair (mg_destination g)) ?ss \<and> list_all (answered g) kvs1
      \<and> (\<exists>kvs. cs' = setAll kvs (setAll kvs1 cs)
        \<and> map fst kvs = concat (map (\<lambda>g. map (Pair (mg_destination g)) (sortNames (mg_sources g))) gs)
        \<and> list_all (\<lambda>kv. \<exists>g \<in> set gs. answered g kv) kvs)"
  proof (cases yes)
    case True
    let ?kvs1 = "map (\<lambda>s. ((mg_destination g, s), mg_defaultLimit g)) ?ss"
    have "applyGroups gs r (setAll ?kvs1 cs) = Some (cs', rest)"
      using 2(3) True yn by (simp add: fold_defaults)
    then show ?thesis
      using 2(1) [OF yn [symmetric] refl] True
      by (intro exI [of _ ?kvs1] exI [of _ r]) (auto simp: fold_defaults answered_def list_all_iff)
  next
    case False
    then obtain cs1 r1 where a: "askSources g ?ss r cs = Some (cs1, r1)"
      "applyGroups gs r1 cs1 = Some (cs', rest)"
      using 2(3) yn by (auto simp: bind_eq_Some_conv)
    then obtain kvs1 where "cs1 = setAll kvs1 cs" "map fst kvs1 = map (Pair (mg_destination g)) ?ss"
      "list_all (answered g) kvs1" using askSources_puts [OF a(1)] by auto
    then show ?thesis
      using a 2(2) [OF yn [symmetric] refl] False
      by (intro exI [of _ kvs1] exI [of _ r1]) auto
  qed
  then obtain kvs1 kvs where "cs' = setAll kvs (setAll kvs1 cs)"
    "map fst kvs1 = map (Pair (mg_destination g)) ?ss" "list_all (answered g) kvs1"
    "map fst kvs = concat (map (\<lambda>g. map (Pair (mg_destination g)) (sortNames (mg_sources g))) gs)"
    "list_all (\<lambda>kv. \<exists>g \<in> set gs. answered g kv) kvs" by blast
  then show ?case
    by (intro exI [of _ "kvs1 @ kvs"]) (auto simp: list_all_iff)
qed simp


section \<open>The whole configuration step\<close>

definition outboundLimit :: "chains_config \<Rightarrow> string \<Rightarrow> string option" where
  "outboundLimit cs d = Option.bind (map_of cs d) outboundOf"

lemma missingPair_alt:
  "missingPair cs n (d, s) \<longleftrightarrow> s \<noteq> d \<and> s \<in> fst ` set cs \<and> d \<in> fst ` set cs \<and> inScope n s d \<and>
     Option.bind (outboundLimit cs d) getDecimalsFromLimit \<noteq> None \<and>
     (case inboundLimit cs (d, s) of None \<Rightarrow> True | Some v \<Rightarrow> isZeroLimit v)"
  by (auto simp: missingPair_def outboundLimit_def inboundLimit_def needsLimit_def map_of_eq_None_iff
      split: option.splits dest: map_of_key)

lemma groups_facts:
  assumes "collectMissingInboundGroups isChain cs None = Inr groups" "distinct (map fst cs)"
    and "g \<in> set groups"
  shows "outboundLimit cs (mg_destination g) = Some (mg_defaultLimit g)"
    "getDecimalsFromLimit (mg_defaultLimit g) = Some (mg_decimals g)"
    "distinct (mg_sources g)" "mg_sources g \<noteq> []"
proof -
  obtain d where "groupOf cs None (map fst cs) d = Some g"
    using collect_groups(1) [OF assms(1,2)] assms(3) by auto
  then show "outboundLimit cs (mg_destination g) = Some (mg_defaultLimit g)"
    "getDecimalsFromLimit (mg_defaultLimit g) = Some (mg_decimals g)"
    "distinct (mg_sources g)" "mg_sources g \<noteq> []"
    using assms(2) by (auto simp: groupOf_def bind_eq_Some_conv Let_def missingSources_def
        outboundLimit_def split: if_splits)
qed

text \<open>The keys the loop writes, in its order.\<close>

definition writtenPairs :: "missing_group list \<Rightarrow> (string \<times> string) list" where
  "writtenPairs gs = concat (map (\<lambda>g. map (Pair (mg_destination g)) (sortNames (mg_sources g))) gs)"

lemma set_writtenPairs: "set (writtenPairs gs) = pairsOf gs"
  by (auto simp: writtenPairs_def pairsOf_def)

lemma distinct_writtenPairs:
  "distinct (map mg_destination gs) \<Longrightarrow> (\<And>g. g \<in> set gs \<Longrightarrow> distinct (mg_sources g)) \<Longrightarrow>
   distinct (writtenPairs gs)"
  by (induction gs) (force simp: writtenPairs_def distinct_map inj_on_def)+

lemma groups_written:
  assumes "collectMissingInboundGroups isChain cs None = Inr groups" "distinct (map fst cs)"
  shows "distinct (writtenPairs groups)" "set (writtenPairs groups) = Collect (missingPair cs None)"
    "pairsOf groups = Collect (missingPair cs None)"
proof -
  have "distinct (map mg_destination groups)" by (rule collect_groups(2) [OF assms])
  then show "distinct (writtenPairs groups)"
    using groups_facts(3) [OF assms] by (rule distinct_writtenPairs)
  have "(d, s) \<in> pairsOf groups \<longleftrightarrow>
      (\<exists>g. groupOf cs None (map fst cs) d = Some g \<and> s \<in> set (mg_sources g))" for d s
    using collect_groups(1) [OF assms] by (auto simp: pairsOf_def dest: groupOf_destination)
  then show "pairsOf groups = Collect (missingPair cs None)" by (auto simp: groupOf_pair)
  then show "set (writtenPairs groups) = Collect (missingPair cs None)"
    by (simp add: set_writtenPairs)
qed

text \<open>An acceptable answer for a pair: the outbound limit of the destination, or a valid limit.\<close>

definition acceptable :: "chains_config \<Rightarrow> string \<times> string \<Rightarrow> string \<Rightarrow> bool" where
  "acceptable cs p v =
     (case outboundLimit cs (fst p) of None \<Rightarrow> False
      | Some outbound \<Rightarrow> v = outbound \<or> isValidLimit v (the (getDecimalsFromLimit outbound)))"

lemma answered_acceptable:
  assumes "collectMissingInboundGroups isChain cs None = Inr groups" "distinct (map fst cs)"
    and "g \<in> set groups" "answered g ((d, s), v)"
  shows "acceptable cs (d, s) v"
  using groups_facts(1,2) [OF assms(1-3)] assms(4) by (auto simp: acceptable_def answered_def)

lemma setAll_spec:
  assumes "collectMissingInboundGroups isChain cs None = Inr groups" "distinct (map fst cs)"
    and "map fst kvs = writtenPairs groups"
  shows "inboundLimit (setAll kvs cs) p =
      (case map_of kvs p of Some v \<Rightarrow> Some v | None \<Rightarrow> inboundLimit cs p)"
    and "fst ` set (setAll kvs cs) = fst ` set cs"
    and "outboundLimit (setAll kvs cs) e = outboundLimit cs e"
proof -
  note w = groups_written [OF assms(1,2)]
  have keys: "p \<in> fst ` set kvs \<longleftrightarrow> missingPair cs None p" for p
    using w(2) by (simp flip: set_map add: assms(3))
  have dist: "distinct (map fst kvs)" using w(1) by (simp add: assms(3))
  have pres: "fst q \<in> fst ` set cs" if "q \<in> fst ` set kvs" for q
    using that unfolding keys by (cases q) (simp add: missingPair_alt)
  show "inboundLimit (setAll kvs cs) p =
      (case map_of kvs p of Some v \<Rightarrow> Some v | None \<Rightarrow> inboundLimit cs p)"
    by (rule inbound_store.lookup_put_all [OF dist pres])
  show "fst ` set (setAll kvs cs) = fst ` set cs"
    by (rule setAll_keys)
  have "Option.bind (map_of cs (fst q)) outboundOf \<noteq> None" if "q \<in> fst ` set kvs" for q
    using that unfolding keys outboundLimit_def [symmetric] by (cases q) (auto simp: missingPair_alt bind_eq_Some_conv)
  then have "list_all (\<lambda>(d, _). Option.bind (map_of cs (fst d)) outboundOf \<noteq> None) kvs"
    by (force simp: list_all_iff)
  from setAll_outbound_same [OF this, of e]
  show "outboundLimit (setAll kvs cs) e = outboundLimit cs e"
    unfolding outboundLimit_def
    by (cases "map_of cs e"; cases "map_of (setAll kvs cs) e") auto
qed

text \<open>
  C9. When \<open>configureInboundLimitsForPull\<close> asks the user and returns, every missing pair has got
  a limit the user may give (the default, or a number with the destination's decimals), every
  other inbound limit and every outbound limit is what it was, no chain is added or lost, and
  the result says whether anything was missing.
\<close>

theorem configureInboundLimitsForPull_effect:
  assumes "distinct (map fst cs)"
    and "configureInboundLimitsForPull isChain False input cs = Inr (Some (r, cs', rest))"
  shows "(\<forall>p. if missingPair cs None p
              then \<exists>v. inboundLimit cs' p = Some v \<and> acceptable cs p v
              else inboundLimit cs' p = inboundLimit cs p)
       \<and> (\<forall>d. outboundLimit cs' d = outboundLimit cs d) \<and> fst ` set cs' = fst ` set cs
       \<and> pl_hadMissing r = (\<exists>p. missingPair cs None p) \<and> pl_updated r = pl_hadMissing r"
proof -
  obtain groups where g: "collectMissingInboundGroups isChain cs None = Inr groups"
    using assms(2) by (auto simp: configureInboundLimitsForPull_def andThen_eq_Inr)
  note w = groups_written [OF g assms(1)]
  have ap: "if groups = [] then cs' = cs else applyGroups groups input cs = Some (cs', rest)"
    and r: "pl_hadMissing r = (groups \<noteq> [])" "pl_updated r = pl_hadMissing r"
    using assms(2) g
    by (auto simp: configureInboundLimitsForPull_def applyInboundGroups_def split: if_splits)
  have "\<exists>kvs. cs' = setAll kvs cs \<and> map fst kvs = writtenPairs groups
      \<and> list_all (\<lambda>kv. \<exists>g \<in> set groups. answered g kv) kvs"
    using ap applyGroups_puts [of groups input cs cs' rest]
    by (cases "groups = []") (auto simp: writtenPairs_def intro!: exI [of _ "[]"])
  then obtain kvs where kvs: "cs' = setAll kvs cs" "map fst kvs = writtenPairs groups"
    "list_all (\<lambda>kv. \<exists>g \<in> set groups. answered g kv) kvs" by blast
  have keys: "p \<in> fst ` set kvs \<longleftrightarrow> missingPair cs None p" for p
    using w(2) by (simp flip: set_map add: kvs(2))
  have "\<exists>v. map_of kvs p = Some v \<and> acceptable cs p v" if m: "missingPair cs None p" for p
  proof -
    obtain v where v: "map_of kvs p = Some v"
      using m keys [of p] by (cases "map_of kvs p") (auto simp: map_of_eq_None_iff)
    then obtain g' where "g' \<in> set groups" "answered g' (p, v)"
      using kvs(3) by (auto simp: list_all_iff dest!: map_of_SomeD)
    then show ?thesis using v answered_acceptable [OF g assms(1)] by (cases p) auto
  qed
  moreover have "map_of kvs p = None" if "\<not> missingPair cs None p" for p
    using that keys [of p] by (simp add: map_of_eq_None_iff)
  ultimately have lim: "if missingPair cs None p then \<exists>v. inboundLimit cs' p = Some v \<and> acceptable cs p v
      else inboundLimit cs' p = inboundLimit cs p" for p
  proof (cases "missingPair cs None p")
    case True
    with \<open>\<And>p. missingPair cs None p \<Longrightarrow> \<exists>v. map_of kvs p = Some v \<and> acceptable cs p v\<close>
    obtain v where "map_of kvs p = Some v" "acceptable cs p v" by blast
    with True show ?thesis using setAll_spec(1) [OF g assms(1) kvs(2), of p] by (simp add: kvs(1))
  qed (use setAll_spec(1) [OF g assms(1) kvs(2), of p] in \<open>simp add: kvs(1)\<close>)
  have "groups = [] \<longleftrightarrow> writtenPairs groups = []"
  proof (cases groups)
    case (Cons g0 gs)
    then have "sortNames (mg_sources g0) \<noteq> []"
      using groups_facts(4) [OF g assms(1), of g0] by simp
    with Cons show ?thesis by (simp add: writtenPairs_def)
  qed (simp add: writtenPairs_def)
  then have "pl_hadMissing r = (\<exists>p. missingPair cs None p)"
    using r(1) w(2) by (metis Collect_empty_eq set_empty)
  moreover have "\<forall>p. if missingPair cs None p then \<exists>v. inboundLimit cs' p = Some v \<and> acceptable cs p v
      else inboundLimit cs' p = inboundLimit cs p" using lim by blast
  moreover have "fst ` set cs' = fst ` set cs" "\<forall>d. outboundLimit cs' d = outboundLimit cs d"
    using setAll_spec(2,3) [OF g assms(1) kvs(2)] by (simp_all add: kvs(1))
  ultimately show ?thesis using r(2) by blast
qed


text \<open>A file of three chains, the third without a limit from the first and with a zero one.\<close>

definition chainWith :: "string \<Rightarrow> (string \<times> string) list \<Rightarrow> chain_config" where
  "chainWith outbound inbound =
     \<lparr>cc_version = ''1.1.0'', cc_mode = ''locking'', cc_paused = False, cc_owner = ''o'',
      cc_pauser = None, cc_manager = Some ''m'', cc_token = Some ''t'',
      cc_transceivers = \<lparr>tc_threshold = 1, tc_wormhole = \<lparr>wc_address = Some ''w'', wc_pauser = None\<rparr>\<rparr>,
      cc_limits = Some \<lparr>lc_outbound = Some outbound, lc_inbound = Some inbound\<rparr>,
      cc_managerVariant = None\<rparr>"

definition exampleChains :: chains_config where
  "exampleChains =
     [(''Sepolia'', chainWith ''5.0'' [(''Base'', ''1.0'')]),
      (''Base'', chainWith ''2.00'' [(''Sepolia'', ''0.00'')])]"

lemma exampleChains_pull:
  "\<exists>r cs'. configureInboundLimitsForPull (\<lambda>_. True) False [''n'', ''3.0'', ''3.00''] exampleChains
     = Inr (Some (r, cs', [])) \<and> inboundLimit cs' (''Base'', ''Sepolia'') = Some ''3.00''"
proof -
  have "case configureInboundLimitsForPull (\<lambda>_. True) False [''n'', ''3.0'', ''3.00''] exampleChains of
      Inr (Some (r, cs', rest)) \<Rightarrow> rest = [] \<and> inboundLimit cs' (''Base'', ''Sepolia'') = Some ''3.00''
    | _ \<Rightarrow> False" by code_simp
  then show ?thesis by (auto split: sum.splits option.splits)
qed

theorem collectMissingInboundGroups_exact_witness:
  "\<exists>groups. collectMissingInboundGroups (\<lambda>_. True) exampleChains None = Inr groups
     \<and> pairsOf groups = Collect (missingPair exampleChains None)"
proof -
  obtain groups where g: "collectMissingInboundGroups (\<lambda>_. True) exampleChains None = Inr groups"
    using exampleChains_pull by (auto simp: configureInboundLimitsForPull_def andThen_eq_Inr)
  have "distinct (map fst exampleChains)" by (simp add: exampleChains_def)
  with collectMissingInboundGroups_exact [OF this g] show ?thesis using g by blast
qed

theorem configureInboundLimitsForPull_effect_witness:
  "\<exists>r cs'. configureInboundLimitsForPull (\<lambda>_. True) False [''n'', ''3.0'', ''3.00''] exampleChains
     = Inr (Some (r, cs', []))
     \<and> inboundLimit cs' (''Base'', ''Sepolia'') = Some ''3.00''
     \<and> inboundLimit cs' (''Sepolia'', ''Base'') = Some ''1.0'' \<and> pl_updated r = pl_hadMissing r"
proof -
  obtain r cs' where c: "configureInboundLimitsForPull (\<lambda>_. True) False [''n'', ''3.0'', ''3.00'']
      exampleChains = Inr (Some (r, cs', []))" "inboundLimit cs' (''Base'', ''Sepolia'') = Some ''3.00''"
    using exampleChains_pull by blast
  have "distinct (map fst exampleChains)" by (simp add: exampleChains_def)
  from configureInboundLimitsForPull_effect [OF this c(1)]
  have "if missingPair exampleChains None (''Sepolia'', ''Base'') then True
      else inboundLimit cs' (''Sepolia'', ''Base'') = inboundLimit exampleChains (''Sepolia'', ''Base'')"
    "pl_updated r = pl_hadMissing r" by auto
  moreover have "\<not> missingPair exampleChains None (''Sepolia'', ''Base'')"
    "inboundLimit exampleChains (''Sepolia'', ''Base'') = Some ''1.0''" by code_simp+
  ultimately show ?thesis using c by auto
qed

section \<open>Termination and the defaults\<close>

lemma askSources_total:
  "isValidLimit (mg_defaultLimit g) (mg_decimals g) \<Longrightarrow> askSources g ss input cs \<noteq> None"
proof (induction ss arbitrary: input cs)
  case (Cons s ss)
  obtain v r where "askLimit g input = Some (v, r)" using askLimit_total [OF Cons.prems] by fastforce
  with Cons show ?case by simp
qed simp

lemma applyGroups_total:
  "list_all (\<lambda>g. isValidLimit (mg_defaultLimit g) (mg_decimals g)) gs \<Longrightarrow>
   applyGroups gs input cs \<noteq> None"
proof (induction gs arbitrary: input cs)
  case (Cons g gs)
  obtain yes r where yn: "promptYesNo True input = (yes, r)" by force
  have "askSources g (sortNames (mg_sources g)) r cs \<noteq> None"
    using Cons.prems by (intro askSources_total) simp
  then obtain cs1 r1 where "askSources g (sortNames (mg_sources g)) r cs = Some (cs1, r1)" by force
  with Cons yn show ?case by (simp add: Let_def)
qed simp

lemma collect_ok: "list_all isChain (map fst cs) \<Longrightarrow>
    \<exists>groups. collectMissingInboundGroups isChain cs n = Inr groups"
proof -
  assume h: "list_all isChain (map fst cs)"
  have "mapR (assertChain isChain) (map fst cs) = Inr (map id (map fst cs))"
    using h by (intro mapR_total) (auto simp: assertChain_def list_all_iff)
  then show ?thesis by (auto simp: collectMissingInboundGroups_def)
qed

text \<open>A file whose outbound limits, where they have a decimal point, are all valid numbers.\<close>

definition outboundsValid :: "chains_config \<Rightarrow> bool" where
  "outboundsValid cs = list_all (\<lambda>d. case Option.bind (outboundLimit cs d) getDecimalsFromLimit of
      None \<Rightarrow> True | Some k \<Rightarrow> isValidLimit (the (outboundLimit cs d)) k) (map fst cs)"

text \<open>
  C10. The prompts always come to an end when the outbound limits are valid numbers: whatever the
  user types, \<open>configureInboundLimitsForPull\<close> returns.
\<close>

theorem configureInboundLimitsForPull_returns:
  assumes "distinct (map fst cs)" "list_all isChain (map fst cs)" "outboundsValid cs"
  shows "\<exists>res. configureInboundLimitsForPull isChain skip input cs = Inr (Some res)"
proof -
  obtain groups where g: "collectMissingInboundGroups isChain cs None = Inr groups"
    using collect_ok assms(2) by blast
  have "isValidLimit (mg_defaultLimit m) (mg_decimals m)" if m: "m \<in> set groups" for m
  proof -
    note f = groups_facts(1,2) [OF g assms(1) m]
    have "mg_destination m \<in> fst ` set cs"
      using f(1) by (auto simp: outboundLimit_def bind_eq_Some_conv dest: map_of_key)
    then show ?thesis using assms(3) f by (auto simp: outboundsValid_def list_all_iff)
  qed
  then have "applyGroups groups input cs \<noteq> None"
    by (intro applyGroups_total) (simp add: list_all_iff)
  then show ?thesis
    using g by (auto simp: configureInboundLimitsForPull_def applyInboundGroups_def)
qed

theorem configureInboundLimitsForPull_returns_witness:
  "\<exists>res. configureInboundLimitsForPull (\<lambda>_. True) False [''n'', ''x'', ''no''] exampleChains
     = Inr (Some res)"
proof -
  have "distinct (map fst exampleChains)" "list_all (\<lambda>_. True) (map fst exampleChains)"
    by (simp_all add: exampleChains_def)
  moreover have "outboundsValid exampleChains" by code_simp
  ultimately show ?thesis by (rule configureInboundLimitsForPull_returns)
qed

lemma applyGroups_defaults:
  "applyGroups gs [] cs = Some (setAll (concat (map (\<lambda>g. map (\<lambda>s.
     ((mg_destination g, s), mg_defaultLimit g)) (sortNames (mg_sources g))) gs)) cs, [])"
proof (induction gs arbitrary: cs)
  case (Cons g gs)
  have "promptYesNo True [] = (True, [])" by code_simp
  with Cons show ?case by (simp add: fold_defaults)
qed simp

text \<open>
  Accepting the defaults settles everything: when no outbound limit is zero, after a run in
  which the user only presses Enter a second run finds nothing missing.
\<close>

theorem configureInboundLimitsForPull_defaults:
  assumes "distinct (map fst cs)" "list_all isChain (map fst cs)"
    and "list_all (\<lambda>d. \<not> isZeroLimit (the (outboundLimit cs d))) (map fst cs)"
  shows "\<exists>r cs'. configureInboundLimitsForPull isChain False [] cs = Inr (Some (r, cs', []))
       \<and> (\<forall>p. \<not> missingPair cs' None p)"
proof -
  obtain groups where g: "collectMissingInboundGroups isChain cs None = Inr groups"
    using collect_ok assms(2) by blast
  define kvs where "kvs = concat (map (\<lambda>g. map (\<lambda>s. ((mg_destination g, s), mg_defaultLimit g))
      (sortNames (mg_sources g))) groups)"
  have fsts: "map fst kvs = writtenPairs groups"
    by (simp add: kvs_def writtenPairs_def map_concat comp_def)
  note sp = setAll_spec [OF g assms(1) fsts]
  have run: "\<exists>r. configureInboundLimitsForPull isChain False [] cs = Inr (Some (r, setAll kvs cs, []))"
    using g by (auto simp: configureInboundLimitsForPull_def applyInboundGroups_def applyGroups_defaults
        kvs_def)
  have "\<not> missingPair (setAll kvs cs) None (d, s)" for d s
  proof (cases "missingPair cs None (d, s)")
    case True
    then have "(d, s) \<in> fst ` set kvs"
      using groups_written(2) [OF g assms(1)] by (simp flip: set_map add: fsts)
    then obtain v where v: "map_of kvs (d, s) = Some v"
      by (cases "map_of kvs (d, s)") (simp_all add: map_of_eq_None_iff)
    then obtain m where m: "m \<in> set groups" "d = mg_destination m" "v = mg_defaultLimit m"
      by (auto simp: kvs_def dest!: map_of_SomeD)
    moreover have "\<not> isZeroLimit (the (outboundLimit cs d))"
      using assms(3) True by (auto simp: list_all_iff missingPair_alt)
    ultimately have "\<not> isZeroLimit v" using groups_facts(1) [OF g assms(1) m(1)] by simp
    then show ?thesis using sp(1) [of "(d, s)"] v by (simp add: missingPair_alt)
  next
    case False
    then have "map_of kvs (d, s) = None"
      using groups_written(2) [OF g assms(1)] unfolding map_of_eq_None_iff
      by (simp flip: set_map add: fsts)
    then show ?thesis using False sp(1) [of "(d, s)"] sp(2) sp(3) [of d]
      by (simp add: missingPair_alt)
  qed
  then show ?thesis using run by auto
qed

theorem configureInboundLimitsForPull_defaults_witness:
  "\<exists>r cs'. configureInboundLimitsForPull (\<lambda>_. True) False [] exampleChains = Inr (Some (r, cs', []))
     \<and> (\<forall>p. \<not> missingPair cs' None p)"
proof -
  have "distinct (map fst exampleChains)" "list_all (\<lambda>_. True) (map fst exampleChains)"
    by (simp_all add: exampleChains_def)
  moreover have "list_all (\<lambda>d. \<not> isZeroLimit (the (outboundLimit exampleChains d))) (map fst exampleChains)"
    by code_simp
  ultimately show ?thesis by (rule configureInboundLimitsForPull_defaults)
qed

end
