(* ===== verification/Config_Check.thy ===== *)
theory Config_Check
  imports Deployments Limit_Format
begin

text \<open>
  \<open>checkConfigErrors\<close> of \<open>cli/src/configErrors.ts\<close>. The messages it prints are returned beside the
  count. A limit that is absent makes \<open>split\<close> of \<open>undefined\<close> throw, and absent inbound limits make
  \<open>Object.entries\<close> throw: \<open>CheckTypeError\<close>.
\<close>

section \<open>Definitions\<close>

datatype check_error = CheckUnknownChain string | CheckTypeError

datatype config_message =
    MissingDeployment string
  | MissingLocal string
  | NoLimits string
  | WrongOutbound string string nat
  | WrongInbound string string string nat
  | ZeroOutbound string
  | ZeroInbound string string

fun isError :: "config_message \<Rightarrow> bool" where
  "isError (ZeroOutbound _) = False"
| "isError (ZeroInbound _ _) = False"
| "isError _ = True"

definition checkOutbound :: "string \<Rightarrow> nat \<Rightarrow> string \<Rightarrow> nat \<times> config_message list \<Rightarrow> nat \<times> config_message list" where
  "checkOutbound chain decimals outbound st =
     (let st = (if \<not> checkNumberFormatting outbound decimals
                then (fst st + 1, snd st @ [WrongOutbound chain outbound decimals]) else st)
      in if outbound = formatNumber 0 decimals then (fst st, snd st @ [ZeroOutbound chain]) else st)"

definition checkInbound :: "string \<Rightarrow> nat \<Rightarrow> string \<times> string \<Rightarrow> nat \<times> config_message list \<Rightarrow> nat \<times> config_message list" where
  "checkInbound chain decimals entry st =
     (let (inboundChain, limit) = entry;
          st = (if \<not> checkNumberFormatting limit decimals
                then (fst st + 1, snd st @ [WrongInbound chain inboundChain limit decimals]) else st)
      in if limit = formatNumber 0 decimals
         then (fst st, snd st @ [ZeroInbound chain inboundChain]) else st)"

definition checkDeployment :: "(string \<Rightarrow> bool) \<Rightarrow> string \<times> ('n, 't) deployment option
    \<Rightarrow> nat \<times> config_message list \<Rightarrow> check_error + (nat \<times> config_message list)" where
  "checkDeployment isChain entry st =
     (let (chain, deployment) = entry in
      if \<not> isChain chain then Inl (CheckUnknownChain chain)
      else (case deployment of
        None \<Rightarrow> Inr (fst st + 1, snd st @ [MissingDeployment chain])
      | Some d \<Rightarrow> (case dp_local d of
          None \<Rightarrow> Inr (fst st + 1, snd st @ [MissingLocal chain])
        | Some localConfig \<Rightarrow> (case cc_limits localConfig of
            None \<Rightarrow> Inr (fst st + 1, snd st @ [NoLimits chain])
          | Some limits \<Rightarrow> (case lc_outbound limits of
              None \<Rightarrow> Inl CheckTypeError
            | Some outbound \<Rightarrow>
                (let st = checkOutbound chain (dp_decimals d) outbound st in
                 case lc_inbound limits of
                   None \<Rightarrow> Inl CheckTypeError
                 | Some inbound \<Rightarrow> Inr (fold (checkInbound chain (dp_decimals d)) inbound st)))))))"

definition checkConfigErrors :: "(string \<Rightarrow> bool) \<Rightarrow> (string \<times> ('n, 't) deployment option) list
    \<Rightarrow> check_error + (nat \<times> config_message list)" where
  "checkConfigErrors isChain deployments = foldR (checkDeployment isChain) deployments (0, [])"

section \<open>Properties\<close>

text \<open>The limits of a configuration have the decimals of the token.\<close>

definition limitsWellFormed :: "nat \<Rightarrow> limits_config \<Rightarrow> bool" where
  "limitsWellFormed k l =
     (case lc_outbound l of None \<Rightarrow> False | Some ob \<Rightarrow> checkNumberFormatting ob k \<and>
       (case lc_inbound l of None \<Rightarrow> False
        | Some inb \<Rightarrow> list_all (\<lambda>e. checkNumberFormatting (snd e) k) inb))"

definition entryWellFormed :: "string \<times> ('n, 't) deployment option \<Rightarrow> bool" where
  "entryWellFormed e =
     (case snd e of None \<Rightarrow> False | Some d \<Rightarrow>
       (case Option.bind (dp_local d) cc_limits of None \<Rightarrow> False
        | Some l \<Rightarrow> limitsWellFormed (dp_decimals d) l))"

definition counted :: "nat \<times> config_message list \<Rightarrow> bool" where
  "counted st = (fst st = length (filter isError (snd st)))"

lemma checkInbound_fold:
  "counted st \<Longrightarrow> counted (fold (checkInbound c k) es st) \<and>
    fst st \<le> fst (fold (checkInbound c k) es st) \<and>
    (fst (fold (checkInbound c k) es st) = fst st \<longleftrightarrow>
      list_all (\<lambda>e. checkNumberFormatting (snd e) k) es)"
proof (induction es arbitrary: st)
  case (Cons e es)
  have "counted (checkInbound c k e st) \<and> fst st \<le> fst (checkInbound c k e st) \<and>
      (fst (checkInbound c k e st) = fst st \<longleftrightarrow> checkNumberFormatting (snd e) k)"
    using Cons.prems by (auto simp: checkInbound_def counted_def Let_def split: prod.splits)
  then show ?case using Cons.IH [of "checkInbound c k e st"] by auto
qed simp

lemma checkOutbound_step:
  "counted st \<Longrightarrow> counted (checkOutbound c k ob st) \<and> fst st \<le> fst (checkOutbound c k ob st) \<and>
    (fst (checkOutbound c k ob st) = fst st \<longleftrightarrow> checkNumberFormatting ob k)"
  by (auto simp: checkOutbound_def counted_def Let_def)

lemma checkDeployment_step:
  assumes "checkDeployment isChain e st = Inr st'" "counted st"
  shows "counted st' \<and> fst st \<le> fst st' \<and> (fst st' = fst st \<longleftrightarrow> entryWellFormed e)"
proof (cases "\<exists>d l ob inb. snd e = Some d \<and> Option.bind (dp_local d) cc_limits = Some l
    \<and> lc_outbound l = Some ob \<and> lc_inbound l = Some inb")
  case True
  then obtain d l ob inb where h: "snd e = Some d" "Option.bind (dp_local d) cc_limits = Some l"
    "lc_outbound l = Some ob" "lc_inbound l = Some inb" by blast
  then have st': "st' = fold (checkInbound (fst e) (dp_decimals d)) inb
      (checkOutbound (fst e) (dp_decimals d) ob st)"
    using assms(1)
    by (auto simp: checkDeployment_def Let_def bind_eq_Some_conv split: prod.splits if_splits)
  have o: "counted (checkOutbound (fst e) (dp_decimals d) ob st)"
    "fst st \<le> fst (checkOutbound (fst e) (dp_decimals d) ob st)"
    "fst (checkOutbound (fst e) (dp_decimals d) ob st) = fst st \<longleftrightarrow> checkNumberFormatting ob (dp_decimals d)"
    using checkOutbound_step [OF assms(2)] by blast+
  show ?thesis
    using checkInbound_fold [OF o(1), of "fst e" "dp_decimals d" inb] o(2,3) h
    by (auto simp: st' entryWellFormed_def limitsWellFormed_def)
next
  case False
  then show ?thesis using assms
    by (auto simp: checkDeployment_def entryWellFormed_def limitsWellFormed_def counted_def Let_def
        bind_eq_Some_conv split: prod.splits option.splits if_splits)
qed

lemma foldR_checkDeployment:
  "foldR (checkDeployment isChain) es st = Inr st' \<Longrightarrow> counted st \<Longrightarrow>
   counted st' \<and> fst st \<le> fst st' \<and> (fst st' = fst st \<longleftrightarrow> list_all entryWellFormed es)"
proof (induction es arbitrary: st)
  case (Cons e es)
  then obtain st1 where s: "checkDeployment isChain e st = Inr st1"
    "foldR (checkDeployment isChain) es st1 = Inr st'" by (auto simp: andThen_eq_Inr)
  note step = checkDeployment_step [OF s(1) Cons.prems(2)]
  show ?case using step Cons.IH [OF s(2)] by auto
qed simp

text \<open>
  The count \<open>checkConfigErrors\<close> returns is the number of errors it printed, and it is zero
  exactly when every chain has a local configuration whose limits all have one decimal point and
  as many fraction digits as the token has decimals. Limits of zero only warn.
\<close>

theorem checkConfigErrors_count:
  assumes "checkConfigErrors isChain deployments = Inr (n, messages)"
  shows "n = length (filter isError messages) \<and> (n = 0 \<longleftrightarrow> list_all entryWellFormed deployments)"
  using foldR_checkDeployment [OF assms [unfolded checkConfigErrors_def]] by (auto simp: counted_def)

definition checkExample :: "(string \<times> (unit, unit) deployment option) list" where
  "checkExample =
     [(''Solana'', Some \<lparr>dp_ntt = (), dp_whTransceiver = (), dp_decimals = 2, dp_manager = ''m'',
        dp_remote = None, dp_local = Some
          \<lparr>cc_version = ''3.0.0'', cc_mode = ''burning'', cc_paused = False, cc_owner = ''o'',
           cc_pauser = None, cc_manager = Some ''m'', cc_token = Some ''t'',
           cc_transceivers = \<lparr>tc_threshold = 1, tc_wormhole = \<lparr>wc_address = Some ''w'', wc_pauser = None\<rparr>\<rparr>,
           cc_limits = Some \<lparr>lc_outbound = Some ''0.00'', lc_inbound = Some [(''Sui'', ''5.0'')]\<rparr>,
           cc_managerVariant = None\<rparr>\<rparr>),
      (''Sui'', None)]"

theorem checkConfigErrors_count_witness:
  "checkConfigErrors (\<lambda>_. True) checkExample = Inr (2, [ZeroOutbound ''Solana'',
      WrongInbound ''Solana'' ''Sui'' ''5.0'' 2, MissingDeployment ''Sui''])
   \<and> \<not> list_all entryWellFormed checkExample"
proof -
  have "checkConfigErrors (\<lambda>_. True) checkExample = Inr (2, [ZeroOutbound ''Solana'',
      WrongInbound ''Solana'' ''Sui'' ''5.0'' 2, MissingDeployment ''Sui''])" by code_simp
  then show ?thesis using checkConfigErrors_count by fastforce
qed

end
