(* ===== verification/Task_Pool.thy ===== *)
theory Task_Pool
  imports Js_Prelude
begin

text \<open>
  The task pool of \<open>cli/src/utils/concurrency.ts\<close>. A worker takes the next index and starts its
  task; when the task settles the worker stores the value and at once takes the next index. The
  event loop chooses which running task settles next: a step relation over the states of the pool,
  with \<open>outcome i x r\<close> for "the task of item \<open>x\<close> at index \<open>i\<close> may settle with \<open>r\<close>". A rejected task
  ends its worker and rejects the pool, while the other workers go on.
\<close>

section \<open>Definitions\<close>

datatype worker = Starting | Running nat | Finished | Crashed

record ('r, 'e) pool =
  po_next :: nat
  po_results :: "'r option list"
  po_workers :: "worker list"
  po_error :: "'e option"

text \<open>\<open>Math.max(1, Math.floor(concurrency) || 1)\<close>; \<open>None\<close> is \<open>NaN\<close>.\<close>

definition normalizeConcurrency :: "rat option \<Rightarrow> nat" where
  "normalizeConcurrency concurrency =
     (let f = (case concurrency of None \<Rightarrow> 0 | Some c \<Rightarrow> \<lfloor>c\<rfloor>)
      in nat (max 1 (if f = 0 then 1 else f)))"

definition fetchNext :: "nat \<Rightarrow> nat \<Rightarrow> ('r, 'e) pool \<Rightarrow> ('r, 'e) pool" where
  "fetchNext n w st =
     (let index = po_next st in
      st\<lparr>po_next := index + 1,
         po_workers := (po_workers st)[w := if index \<ge> n then Finished else Running index]\<rparr>)"

definition startPool :: "nat \<Rightarrow> rat option \<Rightarrow> ('r, 'e) pool" where
  "startPool n concurrency =
     (let workerCount = min (normalizeConcurrency concurrency) n in
      fold (fetchNext n) [0..<workerCount]
        \<lparr>po_next = 0, po_results = replicate n None,
         po_workers = replicate workerCount Starting, po_error = None\<rparr>)"

definition settle :: "nat \<Rightarrow> nat \<Rightarrow> nat \<Rightarrow> 'e + 'r \<Rightarrow> ('r, 'e) pool \<Rightarrow> ('r, 'e) pool" where
  "settle n w i r st =
     (case r of
        Inr v \<Rightarrow> fetchNext n w (st\<lparr>po_results := (po_results st)[i := Some v]\<rparr>)
      | Inl e \<Rightarrow> st\<lparr>po_workers := (po_workers st)[w := Crashed],
                   po_error := (case po_error st of None \<Rightarrow> Some e | Some e' \<Rightarrow> Some e')\<rparr>)"

text \<open>\<open>runTaskPool\<close>: the states reachable in \<open>k\<close> steps, and what the promise settles with.\<close>

inductive pool_reach :: "(nat \<Rightarrow> 'a \<Rightarrow> 'e + 'r \<Rightarrow> bool) \<Rightarrow> 'a list \<Rightarrow> rat option
    \<Rightarrow> nat \<Rightarrow> ('r, 'e) pool \<Rightarrow> bool" for outcome items concurrency where
  start: "pool_reach outcome items concurrency 0 (startPool (length items) concurrency)"
| step: "pool_reach outcome items concurrency k st \<Longrightarrow>
     w < length (po_workers st) \<Longrightarrow> po_workers st ! w = Running i \<Longrightarrow>
     outcome i (items ! i) r \<Longrightarrow>
     pool_reach outcome items concurrency (Suc k) (settle (length items) w i r st)"

inductive_cases pool_stepE: "pool_reach outcome items concurrency (Suc k) st"

definition poolResult :: "('r, 'e) pool \<Rightarrow> ('e + 'r list) option" where
  "poolResult st =
     (case po_error st of
        Some e \<Rightarrow> Some (Inl e)
      | None \<Rightarrow> if list_all (\<lambda>w. w = Finished) (po_workers st)
                then Some (Inr (map the (po_results st))) else None)"

definition running :: "('r, 'e) pool \<Rightarrow> nat" where
  "running st = length (filter (\<lambda>w. \<exists>i. w = Running i) (po_workers st))"

section \<open>The invariant of the pool\<close>

definition pool_inv :: "(nat \<Rightarrow> 'a \<Rightarrow> 'e + 'r \<Rightarrow> bool) \<Rightarrow> 'a list \<Rightarrow> ('r, 'e) pool \<Rightarrow> bool" where
  "pool_inv outcome items st \<longleftrightarrow>
     length (po_results st) = length items \<and>
     (\<forall>i < length items. po_next st \<le> i \<longrightarrow> po_results st ! i = None) \<and>
     (\<forall>i < length items. \<forall>v. po_results st ! i = Some v \<longrightarrow> outcome i (items ! i) (Inr v)) \<and>
     (\<forall>w < length (po_workers st). \<forall>i. po_workers st ! w = Running i \<longrightarrow>
        i < length items \<and> i < po_next st \<and> po_results st ! i = None) \<and>
     (\<forall>w < length (po_workers st). \<forall>w' < length (po_workers st). \<forall>i.
        po_workers st ! w = Running i \<longrightarrow> po_workers st ! w' = Running i \<longrightarrow> w = w') \<and>
     (\<forall>i < length items. i < po_next st \<longrightarrow> po_results st ! i \<noteq> None \<or> po_error st \<noteq> None \<or>
        (\<exists>w < length (po_workers st). po_workers st ! w = Running i)) \<and>
     (\<forall>w < length (po_workers st). po_workers st ! w \<noteq> Starting \<and>
        (po_workers st ! w = Finished \<longrightarrow> length items \<le> po_next st) \<and>
        (po_workers st ! w = Crashed \<longrightarrow> po_error st \<noteq> None))"

lemma start_state:
  "wc \<le> n \<Longrightarrow> m \<le> wc \<Longrightarrow> fold (fetchNext n) [0..<m]
     \<lparr>po_next = 0, po_results = rs, po_workers = replicate wc Starting, po_error = er\<rparr>
   = \<lparr>po_next = m, po_results = rs,
      po_workers = map Running [0..<m] @ replicate (wc - m) Starting, po_error = er\<rparr>"
proof (induction m)
  case (Suc m)
  have "replicate (wc - m) Starting = Starting # replicate (wc - Suc m) Starting"
    using Suc.prems by (simp add: Suc_diff_Suc flip: replicate_Suc)
  then show ?case using Suc by (simp add: fetchNext_def list_update_append)
qed simp

lemma startPool_eq:
  "startPool n c = \<lparr>po_next = min (normalizeConcurrency c) n, po_results = replicate n None,
     po_workers = map Running [0..<min (normalizeConcurrency c) n], po_error = None\<rparr>"
  by (simp add: startPool_def Let_def start_state)

lemma start_inv: "pool_inv outcome items (startPool (length items) c)"
  by (auto simp: pool_inv_def startPool_eq)

lemma settle_Inr:
  "settle n w i (Inr v) st = st\<lparr>po_next := Suc (po_next st), po_results := (po_results st)[i := Some v],
     po_workers := (po_workers st)[w := if n \<le> po_next st then Finished else Running (po_next st)]\<rparr>"
  by (simp add: settle_def fetchNext_def Let_def)

lemma pool_inv_fresh: "pool_inv outcome items st \<Longrightarrow> w < length (po_workers st) \<Longrightarrow> po_workers st ! w \<noteq> Running (po_next st)"
  by (auto simp: pool_inv_def)

lemma settle_accounted:
  assumes inv: "pool_inv outcome items st" and w: "w < length (po_workers st)"
    and run: "po_workers st ! w = Running i" and j: "j < length items" "j < Suc (po_next st)"
  shows "(po_results st)[i := Some v] ! j \<noteq> None \<or> po_error st \<noteq> None \<or>
    (\<exists>w' < length (po_workers st).
       (po_workers st)[w := if length items \<le> po_next st then Finished else Running (po_next st)] ! w' = Running j)"
proof (cases "j = po_next st \<or> j = i")
  case True
  then show ?thesis using w j inv by (auto simp: pool_inv_def nth_list_update intro!: exI [of _ w])
next
  case False
  then have "j < po_next st" using j by simp
  with j inv consider "po_results st ! j \<noteq> None" | "po_error st \<noteq> None"
    | w' where "w' < length (po_workers st)" "po_workers st ! w' = Running j"
    unfolding pool_inv_def by blast
  then show ?thesis
  proof cases
    case (3 w')
    then have "w' \<noteq> w" using run False by auto
    then show ?thesis using 3 by (auto simp: nth_list_update)
  qed (use False in \<open>auto simp: nth_list_update\<close>)
qed

lemma settle_inv:
  assumes inv: "pool_inv outcome items st" and w: "w < length (po_workers st)"
    and run: "po_workers st ! w = Running i" and r: "outcome i (items ! i) r"
  shows "pool_inv outcome items (settle (length items) w i r st)"
proof (cases r)
  case (Inl e)
  then show ?thesis using inv w run
    by (auto simp: pool_inv_def settle_def nth_list_update split: option.splits)
next
  case (Inr v)
  have i: "i < length items" "i < po_next st" "po_results st ! i = None"
    using inv w run by (auto simp: pool_inv_def)
  have other: "\<And>w' j. w' < length (po_workers st) \<Longrightarrow> w' \<noteq> w \<Longrightarrow> po_workers st ! w' = Running j \<Longrightarrow> j \<noteq> i"
    using inv w run by (auto simp: pool_inv_def)
  note I = inv [unfolded pool_inv_def]
  note fresh = pool_inv_fresh [OF inv]
  have R: "j < length items \<and> j < po_next st \<and> po_results st ! j = None"
      if "w' < length (po_workers st)" "po_workers st ! w' = Running j" for w' j
      using I that by blast
  have U: "w1 = w2" if "w1 < length (po_workers st)" "w2 < length (po_workers st)"
      "po_workers st ! w1 = Running j" "po_workers st ! w2 = Running j" for w1 w2 j
      using I that by blast
  show ?thesis
    unfolding pool_inv_def Inr settle_Inr
  proof (intro conjI, goal_cases)
    case 1 then show ?case using I by simp
  next
    case 2 then show ?case using I i by (auto simp: nth_list_update)
  next
    case 3 then show ?case using I r [unfolded Inr] i by (auto simp: nth_list_update)
  next
    case 4 then show ?case using R other w i I by (auto simp: nth_list_update less_Suc_eq)
  next
    case 5 then show ?case using U fresh w by (auto simp: nth_list_update split: if_splits)
  next
    case 6 then show ?case using settle_accounted [OF inv w run] by simp
  next
    case 7 then show ?case using I w by (auto simp: nth_list_update less_imp_le)
  qed
qed

lemma reach_inv: "pool_reach outcome items c k st \<Longrightarrow> pool_inv outcome items st"
  by (induction rule: pool_reach.induct) (simp_all add: start_inv settle_inv)


section \<open>Results in input order\<close>

text \<open>
  What the callers rely on: whatever the order in which tasks settle, the list a pool resolves with
  has the value of each item's task at that item's place.
\<close>

locale ordered_pool =
  fixes resolves :: "(nat \<Rightarrow> 'a \<Rightarrow> 'e + 'r \<Rightarrow> bool) \<Rightarrow> 'a list \<Rightarrow> rat option \<Rightarrow> 'r list \<Rightarrow> bool"
  assumes ordered: "resolves outcome items concurrency ys \<Longrightarrow>
     length ys = length items \<and> (\<forall>i < length items. outcome i (items ! i) (Inr (ys ! i)))"
begin

text \<open>Tasks that compute a function of their item: the pool is \<open>map\<close>.\<close>

lemma resolves_map:
  assumes "resolves (\<lambda>i x r. r = Inr (f x)) items concurrency ys"
  shows "ys = map f items"
  using ordered [OF assms] by (intro nth_equalityI) auto

lemma resolves_all:
  assumes "resolves outcome items concurrency ys"
    and "\<And>i x y. outcome i x (Inr y) \<Longrightarrow> P x y"
  shows "list_all2 P items ys"
  using ordered [OF assms(1)] assms(2) by (auto simp: list_all2_conv_all_nth)

end

definition runTaskPool_resolves :: "(nat \<Rightarrow> 'a \<Rightarrow> 'e + 'r \<Rightarrow> bool) \<Rightarrow> 'a list \<Rightarrow> rat option
    \<Rightarrow> 'r list \<Rightarrow> bool" where
  "runTaskPool_resolves outcome items concurrency ys =
     (\<exists>k st. pool_reach outcome items concurrency k st \<and> poolResult st = Some (Inr ys))"

lemma workers_start: "pool_reach outcome items c k st \<Longrightarrow>
    length (po_workers st) = min (normalizeConcurrency c) (length items)"
  by (induction rule: pool_reach.induct)
    (auto simp: startPool_eq settle_def fetchNext_def Let_def split: sum.splits option.splits)

lemma normalizeConcurrency_pos: "0 < normalizeConcurrency c"
  by (auto simp: normalizeConcurrency_def Let_def)

lemma finished_results:
  assumes "pool_reach outcome items c k st" "poolResult st = Some (Inr ys)" "i < length items"
  shows "po_results st ! i = Some (ys ! i)"
proof -
  have I: "pool_inv outcome items st" by (rule reach_inv [OF assms(1)])
  have fin: "po_error st = None" "list_all (\<lambda>w. w = Finished) (po_workers st)"
    "ys = map the (po_results st)"
    using assms(2) by (auto simp: poolResult_def split: option.splits if_splits)
  have "0 < length (po_workers st)"
    using workers_start [OF assms(1)] normalizeConcurrency_pos [of c] assms(3) by auto
  then have "po_workers st ! 0 = Finished" using fin(2) by (auto simp: list_all_length)
  then have "length items \<le> po_next st"
    using I \<open>0 < length (po_workers st)\<close> by (auto simp: pool_inv_def)
  moreover have "\<not> (\<exists>w < length (po_workers st). po_workers st ! w = Running i)"
    using fin(2) by (auto simp: list_all_length)
  ultimately have "po_results st ! i \<noteq> None"
    using I fin(1) assms(3) by (auto simp: pool_inv_def)
  moreover have "length (po_results st) = length items" using I by (simp add: pool_inv_def)
  ultimately show ?thesis using fin(3) assms(3) by auto
qed

interpretation task_pool: ordered_pool runTaskPool_resolves
proof
  fix outcome :: "nat \<Rightarrow> 'a \<Rightarrow> 'e + 'r \<Rightarrow> bool" and items concurrency ys
  assume "runTaskPool_resolves outcome items concurrency ys"
  then obtain k st where st: "pool_reach outcome items concurrency k st" "poolResult st = Some (Inr ys)"
    by (auto simp: runTaskPool_resolves_def)
  have I: "pool_inv outcome items st" by (rule reach_inv [OF st(1)])
  have "ys = map the (po_results st)"
    using st(2) by (auto simp: poolResult_def split: option.splits if_splits)
  then have "length ys = length items" using I by (simp add: pool_inv_def)
  moreover have "outcome i (items ! i) (Inr (ys ! i))" if "i < length items" for i
    using I that finished_results [OF st that] unfolding pool_inv_def by blast
  ultimately show "length ys = length items \<and>
      (\<forall>i < length items. outcome i (items ! i) (Inr (ys ! i)))" by blast
qed

section \<open>Termination, progress and the cap\<close>

definition pool_measure :: "nat \<Rightarrow> ('r, 'e) pool \<Rightarrow> nat" where
  "pool_measure n st = (n - po_next st) + running st"

lemma running_update:
  "w < length ws \<Longrightarrow> ws ! w = Running i \<Longrightarrow>
   Suc (length (filter (\<lambda>x. \<exists>i. x = Running i) (ws[w := v])))
     = length (filter (\<lambda>x. \<exists>i. x = Running i) ws) + (if \<exists>j. v = Running j then 1 else 0)"
  by (induction ws arbitrary: w) (auto split: nat.splits simp: nth_Cons)

lemma settle_measure:
  assumes "pool_inv outcome items st" "w < length (po_workers st)" "po_workers st ! w = Running i"
  shows "Suc (pool_measure (length items) (settle (length items) w i r st)) = pool_measure (length items) st"
proof (cases r)
  case (Inl e)
  then show ?thesis using running_update [OF assms(2,3), of Crashed]
    by (simp add: settle_def pool_measure_def running_def split: option.splits)
next
  case (Inr v)
  then show ?thesis
    using running_update [OF assms(2,3), of Finished]
      running_update [OF assms(2,3), of "Running (po_next st)"]
    by (cases "length items \<le> po_next st")
      (simp_all add: settle_def fetchNext_def Let_def pool_measure_def running_def)
qed

lemma start_measure: "pool_measure n (startPool n c) = n"
  by (simp add: pool_measure_def startPool_eq running_def filter_map comp_def)

lemma reach_measure: "pool_reach outcome items c k st \<Longrightarrow> k + pool_measure (length items) st = length items"
proof (induction rule: pool_reach.induct)
  case (step k st w i r)
  then show ?case using settle_measure [OF reach_inv [OF step(1)] step(2,3), of r] by simp
qed (simp add: start_measure)

lemma not_running_finished:
  assumes "pool_reach outcome items c k st" "running st = 0"
  shows "poolResult st \<noteq> None"
proof (cases "po_error st")
  case None
  have I: "pool_inv outcome items st" by (rule reach_inv [OF assms(1)])
  have "po_workers st ! w = Finished" if "w < length (po_workers st)" for w
  proof -
    have "po_workers st ! w \<noteq> Starting" "po_workers st ! w \<noteq> Crashed"
      using I None that by (auto simp: pool_inv_def)
    moreover have "po_workers st ! w \<noteq> Running j" for j
      using assms(2) that by (auto simp: running_def filter_empty_conv)
    ultimately show ?thesis by (cases "po_workers st ! w") auto
  qed
  then show ?thesis using None by (simp add: poolResult_def list_all_length)
qed (simp add: poolResult_def)

text \<open>
  C7. The pool never runs more tasks at once than the cap, needs at most one settled task per item,
  and is never stuck: as long as it has no result some task is running.
\<close>

theorem runTaskPool_progress:
  assumes "pool_reach outcome items concurrency k st"
  shows "k \<le> length items \<and> running st \<le> normalizeConcurrency concurrency
       \<and> (poolResult st = None \<longrightarrow>
           (\<exists>w i. w < length (po_workers st) \<and> po_workers st ! w = Running i \<and> i < length items))"
proof -
  have I: "pool_inv outcome items st" by (rule reach_inv [OF assms])
  have "running st \<le> length (po_workers st)" by (simp add: running_def)
  then have "running st \<le> normalizeConcurrency concurrency"
    using workers_start [OF assms] by simp
  moreover have "\<exists>w i. w < length (po_workers st) \<and> po_workers st ! w = Running i \<and> i < length items"
    if "poolResult st = None"
  proof -
    have "running st \<noteq> 0" using not_running_finished [OF assms] that by blast
    then obtain x where "x \<in> set (po_workers st)" "\<exists>i. x = Running i"
      by (auto simp: running_def filter_empty_conv)
    then obtain w i where "w < length (po_workers st)" "po_workers st ! w = Running i"
      by (auto simp: in_set_conv_nth)
    moreover from this have "i < length items" using I unfolding pool_inv_def by blast
    ultimately show ?thesis by blast
  qed
  moreover have "k \<le> length items" using reach_measure [OF assms] by simp
  ultimately show ?thesis by blast
qed

text \<open>Three items, a cap of two; the second task settles first.\<close>

definition poolOutcome :: "nat \<Rightarrow> nat \<Rightarrow> unit + nat \<Rightarrow> bool" where
  "poolOutcome i x r = (r = Inr (10 * x))"

lemma pool_example:
  "\<exists>st. pool_reach poolOutcome [4, 5, 6] (Some 2) 3 st \<and> poolResult st = Some (Inr [40, 50, 60])"
proof -
  let ?s0 = "startPool (Suc (Suc (Suc 0))) (Some 2) :: (nat, unit) pool"
  let ?s1 = "settle (Suc (Suc (Suc 0))) 1 1 (Inr 50) ?s0"
  let ?s2 = "settle (Suc (Suc (Suc 0))) 1 2 (Inr 60) ?s1"
  let ?s3 = "settle (Suc (Suc (Suc 0))) 0 0 (Inr 40) ?s2"
  have n: "normalizeConcurrency (Some 2) = 2" by (simp add: normalizeConcurrency_def)
  have r0: "pool_reach poolOutcome [4, 5, 6] (Some 2) 0 ?s0"
    using pool_reach.start [of poolOutcome "[4, 5, 6]" "Some 2"] by simp
  note ev = settle_def fetchNext_def startPool_eq n poolOutcome_def numeral_2_eq_2
  have r1: "pool_reach poolOutcome [4, 5, 6] (Some 2) (Suc 0) ?s1"
    using pool_reach.step [OF r0, of 1 1 "Inr 50"] by (simp add: ev)
  have r2: "pool_reach poolOutcome [4, 5, 6] (Some 2) (Suc (Suc 0)) ?s2"
    using pool_reach.step [OF r1, of 1 2 "Inr 60"] by (simp add: ev)
  have r3: "pool_reach poolOutcome [4, 5, 6] (Some 2) (Suc (Suc (Suc 0))) ?s3"
    using pool_reach.step [OF r2, of 0 0 "Inr 40"] by (simp add: ev)
  moreover have "poolResult ?s3 = Some (Inr [40, 50, 60])"
    by (simp add: ev poolResult_def numeral_3_eq_3)
  ultimately show ?thesis by (auto simp: numeral_3_eq_3)
qed

theorem runTaskPool_progress_witness:
  "\<exists>st. pool_reach poolOutcome [4, 5, 6] (Some 2) 3 st \<and> running st \<le> normalizeConcurrency (Some 2)"
  using pool_example runTaskPool_progress by blast


section \<open>The pool with a sequential lane\<close>

text \<open>
  \<open>runTaskPoolWithSequential\<close>. The loop of the sequential lane awaits its tasks one after the other:
  a pool of one worker. Both lanes write into one array of results, at the index the item had in
  the input.
\<close>

record ('r, 'e) lanes =
  ln_parallel :: "(unit, 'e) pool"
  ln_sequential :: "(unit, 'e) pool"
  ln_results :: "'r option list"

definition parallelItems :: "(nat \<Rightarrow> 'a \<Rightarrow> bool) \<Rightarrow> 'a list \<Rightarrow> ('a \<times> nat) list" where
  "parallelItems shouldRunSequential items =
     filter (\<lambda>(item, index). \<not> shouldRunSequential index item) (zip items [0..<length items])"

definition sequentialItems :: "(nat \<Rightarrow> 'a \<Rightarrow> bool) \<Rightarrow> 'a list \<Rightarrow> ('a \<times> nat) list" where
  "sequentialItems shouldRunSequential items =
     filter (\<lambda>(item, index). shouldRunSequential index item) (zip items [0..<length items])"

definition startLanes :: "nat \<Rightarrow> nat \<Rightarrow> nat \<Rightarrow> rat option \<Rightarrow> ('r, 'e) lanes" where
  "startLanes n np ns concurrency =
     \<lparr>ln_parallel = startPool np concurrency, ln_sequential = startPool ns (Some 1),
      ln_results = replicate n None\<rparr>"

definition storeAt :: "nat \<Rightarrow> 'e + 'r \<Rightarrow> 'r option list \<Rightarrow> 'r option list" where
  "storeAt index r results = (case r of Inr v \<Rightarrow> results[index := Some v] | Inl e \<Rightarrow> results)"

definition forget :: "'e + 'r \<Rightarrow> 'e + unit" where
  "forget r = (case r of Inr v \<Rightarrow> Inr () | Inl e \<Rightarrow> Inl e)"

inductive lanes_reach :: "(nat \<Rightarrow> 'a \<Rightarrow> 'e + 'r \<Rightarrow> bool) \<Rightarrow> 'a list \<Rightarrow> rat option
    \<Rightarrow> (nat \<Rightarrow> 'a \<Rightarrow> bool) \<Rightarrow> ('r, 'e) lanes \<Rightarrow> bool" for outcome items concurrency sq where
  start: "lanes_reach outcome items concurrency sq
     (startLanes (length items) (length (parallelItems sq items)) (length (sequentialItems sq items))
        concurrency)"
| parallel: "lanes_reach outcome items concurrency sq st \<Longrightarrow>
     w < length (po_workers (ln_parallel st)) \<Longrightarrow> po_workers (ln_parallel st) ! w = Running j \<Longrightarrow>
     parallelItems sq items ! j = (item, index) \<Longrightarrow> outcome index item r \<Longrightarrow>
     lanes_reach outcome items concurrency sq
       (st\<lparr>ln_parallel := settle (length (parallelItems sq items)) w j (forget r) (ln_parallel st),
           ln_results := storeAt index r (ln_results st)\<rparr>)"
| sequential: "lanes_reach outcome items concurrency sq st \<Longrightarrow>
     w < length (po_workers (ln_sequential st)) \<Longrightarrow> po_workers (ln_sequential st) ! w = Running j \<Longrightarrow>
     sequentialItems sq items ! j = (item, index) \<Longrightarrow> outcome index item r \<Longrightarrow>
     lanes_reach outcome items concurrency sq
       (st\<lparr>ln_sequential := settle (length (sequentialItems sq items)) w j (forget r) (ln_sequential st),
           ln_results := storeAt index r (ln_results st)\<rparr>)"

definition lanesResult :: "('r, 'e) lanes \<Rightarrow> ('e + 'r list) option" where
  "lanesResult st =
     (case (poolResult (ln_parallel st), poolResult (ln_sequential st)) of
        (Some (Inl e), _) \<Rightarrow> Some (Inl e)
      | (_, Some (Inl e)) \<Rightarrow> Some (Inl e)
      | (Some (Inr _), Some (Inr _)) \<Rightarrow> Some (Inr (map the (ln_results st)))
      | _ \<Rightarrow> None)"

definition runTaskPoolWithSequential_resolves :: "(nat \<Rightarrow> 'a \<Rightarrow> bool)
    \<Rightarrow> (nat \<Rightarrow> 'a \<Rightarrow> 'e + 'r \<Rightarrow> bool) \<Rightarrow> 'a list \<Rightarrow> rat option \<Rightarrow> 'r list \<Rightarrow> bool" where
  "runTaskPoolWithSequential_resolves sq outcome items concurrency ys =
     (\<exists>st. lanes_reach outcome items concurrency sq st \<and> lanesResult st = Some (Inr ys))"

text \<open>One lane alone is a pool over its items.\<close>

definition laneOutcome :: "(nat \<Rightarrow> 'a \<Rightarrow> 'e + 'r \<Rightarrow> bool) \<Rightarrow> nat \<Rightarrow> 'a \<times> nat \<Rightarrow> 'e + unit \<Rightarrow> bool" where
  "laneOutcome outcome i p r = (\<exists>q. outcome (snd p) (fst p) q \<and> r = forget q)"

lemma lanes_pools:
  "lanes_reach outcome items c sq st \<Longrightarrow>
   (\<exists>k. pool_reach (laneOutcome outcome) (parallelItems sq items) c k (ln_parallel st)) \<and>
   (\<exists>k. pool_reach (laneOutcome outcome) (sequentialItems sq items) (Some 1) k (ln_sequential st))"
proof (induction rule: lanes_reach.induct)
  case start
  show ?case by (auto simp: startLanes_def intro: pool_reach.start)
next
  case (parallel st w j item index r)
  then obtain k where k: "pool_reach (laneOutcome outcome) (parallelItems sq items) c k (ln_parallel st)"
    by blast
  have "laneOutcome outcome j (parallelItems sq items ! j) (forget r)"
    using parallel by (auto simp: laneOutcome_def)
  from pool_reach.step [OF k parallel(2,3) this] parallel show ?case by auto
next
  case (sequential st w j item index r)
  then obtain k where k: "pool_reach (laneOutcome outcome) (sequentialItems sq items) (Some 1) k
      (ln_sequential st)" by blast
  have "laneOutcome outcome j (sequentialItems sq items ! j) (forget r)"
    using sequential by (auto simp: laneOutcome_def)
  from pool_reach.step [OF k sequential(2,3) this] sequential show ?case by auto
qed

lemma zip_index: "(x, i) \<in> set (zip xs [0..<length xs]) \<longleftrightarrow> i < length xs \<and> x = xs ! i"
  by (auto simp: set_zip)

lemma distinct_lane: "distinct (map snd (filter P (zip xs [0..<length xs])))"
proof -
  have "distinct (map snd (zip xs [0..<length xs]))" by simp
  then show ?thesis by (rule distinct_map_filter)
qed

text \<open>The shared array agrees with what the two lanes have settled.\<close>

definition lane_stored :: "(nat \<Rightarrow> 'a \<Rightarrow> 'e + 'r \<Rightarrow> bool) \<Rightarrow> ('a \<times> nat) list \<Rightarrow> (unit, 'e) pool
    \<Rightarrow> 'r option list \<Rightarrow> bool" where
  "lane_stored outcome lane p results =
     (\<forall>j < length lane. po_results p ! j \<noteq> None \<longrightarrow>
        (\<exists>v. results ! snd (lane ! j) = Some v \<and> outcome (snd (lane ! j)) (fst (lane ! j)) (Inr v)))"

lemma lane_stored_settle:
  assumes "lane_stored outcome lane p results" "j < length lane" "lane ! j = (item, index)"
    and "distinct (map snd lane)" "index < length results" "outcome index item r"
    and "length (po_results p) = length lane"
  shows "lane_stored outcome lane (settle (length lane) w j (forget r) p) (storeAt index r results)"
  unfolding lane_stored_def
proof (intro allI impI)
  fix i assume i: "i < length lane" "po_results (settle (length lane) w j (forget r) p) ! i \<noteq> None"
  show "\<exists>v. storeAt index r results ! snd (lane ! i) = Some v
      \<and> outcome (snd (lane ! i)) (fst (lane ! i)) (Inr v)"
  proof (cases "i = j")
    case True
    show ?thesis
    proof (cases r)
      case (Inr v)
      then show ?thesis using True assms by (simp add: storeAt_def)
    qed (use True assms i in \<open>auto simp: storeAt_def forget_def settle_def lane_stored_def
          split: option.splits\<close>)
  next
    case False
    then have "snd (lane ! i) \<noteq> index"
      using assms(2,3,4) i(1) by (metis length_map nth_eq_iff_index_eq nth_map snd_conv)
    moreover have "po_results p ! i \<noteq> None"
      using i(2) False by (auto simp: settle_def forget_def fetchNext_def Let_def
          split: sum.splits option.splits)
    ultimately show ?thesis using assms(1) i(1)
      by (auto simp: lane_stored_def storeAt_def split: sum.splits)
  qed
qed

lemma lane_stored_other:
  assumes "lane_stored outcome lane p results" "index \<notin> snd ` set lane"
  shows "lane_stored outcome lane p (storeAt index r results)"
  unfolding lane_stored_def
proof (intro allI impI)
  fix i assume i: "i < length lane" "po_results p ! i \<noteq> None"
  then have "snd (lane ! i) \<noteq> index" using assms(2) by force
  then show "\<exists>v. storeAt index r results ! snd (lane ! i) = Some v
      \<and> outcome (snd (lane ! i)) (fst (lane ! i)) (Inr v)"
    using assms(1) i by (auto simp: lane_stored_def storeAt_def split: sum.splits)
qed


lemma lanes_disjoint:
  "index \<in> snd ` set (parallelItems sq items) \<Longrightarrow> index \<notin> snd ` set (sequentialItems sq items)"
  by (auto simp: parallelItems_def sequentialItems_def zip_index)

lemma nth_zip_index:
  "j < length (filter P (zip xs [0..<length xs])) \<Longrightarrow> filter P (zip xs [0..<length xs]) ! j = (x, i) \<Longrightarrow>
   i \<in> snd ` set (filter P (zip xs [0..<length xs])) \<and> i < length xs"
proof -
  assume "j < length (filter P (zip xs [0..<length xs]))" "filter P (zip xs [0..<length xs]) ! j = (x, i)"
  then have m: "(x, i) \<in> set (filter P (zip xs [0..<length xs]))" by (metis nth_mem)
  then have "i \<in> snd ` set (filter P (zip xs [0..<length xs]))" by (rule rev_image_eqI) simp
  moreover have "i < length xs" using m by (auto simp: zip_index)
  ultimately show ?thesis by blast
qed

lemma lane_nth:
  "j < length (parallelItems sq items) \<Longrightarrow> parallelItems sq items ! j = (item, index) \<Longrightarrow>
     index \<in> snd ` set (parallelItems sq items) \<and> index < length items"
  "j < length (sequentialItems sq items) \<Longrightarrow> sequentialItems sq items ! j = (item, index) \<Longrightarrow>
     index \<in> snd ` set (sequentialItems sq items) \<and> index < length items"
  unfolding parallelItems_def sequentialItems_def by (rule nth_zip_index; assumption)+

lemma distinct_lanes:
  "distinct (map snd (parallelItems sq items))" "distinct (map snd (sequentialItems sq items))"
  by (simp_all add: parallelItems_def sequentialItems_def distinct_lane)

lemma lanes_stored:
  "lanes_reach outcome items c sq st \<Longrightarrow>
   length (ln_results st) = length items \<and>
   lane_stored outcome (parallelItems sq items) (ln_parallel st) (ln_results st) \<and>
   lane_stored outcome (sequentialItems sq items) (ln_sequential st) (ln_results st)"
proof (induction rule: lanes_reach.induct)
  case start
  show ?case by (simp add: startLanes_def lane_stored_def startPool_eq)
next
  case (parallel st w j item index r)
  obtain k where k: "pool_reach (laneOutcome outcome) (parallelItems sq items) c k (ln_parallel st)"
    using lanes_pools [OF parallel(1)] by blast
  have inv: "j < length (parallelItems sq items)"
    "length (po_results (ln_parallel st)) = length (parallelItems sq items)"
    using reach_inv [OF k] parallel(2,3) unfolding pool_inv_def by blast+
  note idx = lane_nth(1) [OF inv(1) parallel(4)]
  have "lane_stored outcome (parallelItems sq items)
      (settle (length (parallelItems sq items)) w j (forget r) (ln_parallel st))
      (storeAt index r (ln_results st))"
    by (rule lane_stored_settle [where item = item])
      (use parallel(4-6) inv idx in \<open>simp_all add: distinct_lanes\<close>)
  moreover have "lane_stored outcome (sequentialItems sq items) (ln_sequential st)
      (storeAt index r (ln_results st))"
    using parallel(6) lanes_disjoint idx by (intro lane_stored_other) auto
  ultimately show ?case using parallel(6) by (simp add: storeAt_def split: sum.splits)
next
  case (sequential st w j item index r)
  obtain k where k: "pool_reach (laneOutcome outcome) (sequentialItems sq items) (Some 1) k
      (ln_sequential st)" using lanes_pools [OF sequential(1)] by blast
  have inv: "j < length (sequentialItems sq items)"
    "length (po_results (ln_sequential st)) = length (sequentialItems sq items)"
    using reach_inv [OF k] sequential(2,3) unfolding pool_inv_def by blast+
  note idx = lane_nth(2) [OF inv(1) sequential(4)]
  have "lane_stored outcome (sequentialItems sq items)
      (settle (length (sequentialItems sq items)) w j (forget r) (ln_sequential st))
      (storeAt index r (ln_results st))"
    by (rule lane_stored_settle [where item = item])
      (use sequential(4-6) inv idx in \<open>simp_all add: distinct_lanes\<close>)
  moreover have "lane_stored outcome (parallelItems sq items) (ln_parallel st)
      (storeAt index r (ln_results st))"
    using sequential(6) lanes_disjoint idx by (intro lane_stored_other) auto
  ultimately show ?case using sequential(6) by (simp add: storeAt_def split: sum.splits)
qed

lemma lane_of_index:
  assumes "i < length items"
  shows "(items ! i, i) \<in> set (parallelItems sq items) \<or> (items ! i, i) \<in> set (sequentialItems sq items)"
  using assms by (auto simp: parallelItems_def sequentialItems_def zip_index)

lemma lane_complete:
  assumes "pool_reach (laneOutcome outcome) lane c k p" "poolResult p = Some (Inr us)"
    and "lane_stored outcome lane p results" "(x, i) \<in> set lane"
  shows "\<exists>v. results ! i = Some v \<and> outcome i x (Inr v)"
proof -
  obtain j where j: "j < length lane" "lane ! j = (x, i)" using assms(4) by (auto simp: in_set_conv_nth)
  have "po_results p ! j \<noteq> None" using finished_results [OF assms(1,2) j(1)] by simp
  then show ?thesis using assms(3) j by (auto simp: lane_stored_def)
qed

lemma lanes_ordered:
  assumes "lanes_reach outcome items c sq st" "lanesResult st = Some (Inr ys)"
  shows "length ys = length items \<and> (\<forall>i < length items. outcome i (items ! i) (Inr (ys ! i)))"
proof -
  obtain us us' where res: "poolResult (ln_parallel st) = Some (Inr us)"
    "poolResult (ln_sequential st) = Some (Inr us')" "ys = map the (ln_results st)"
    using assms(2) by (auto simp: lanesResult_def split: option.splits sum.splits)
  obtain k k' where k: "pool_reach (laneOutcome outcome) (parallelItems sq items) c k (ln_parallel st)"
    "pool_reach (laneOutcome outcome) (sequentialItems sq items) (Some 1) k' (ln_sequential st)"
    using lanes_pools [OF assms(1)] by blast
  note st = lanes_stored [OF assms(1)]
  have "\<exists>v. ln_results st ! i = Some v \<and> outcome i (items ! i) (Inr v)" if "i < length items" for i
    using lane_of_index [OF that, of sq] st
      lane_complete [OF k(1) res(1)] lane_complete [OF k(2) res(2)] by blast
  then show ?thesis using st res(3) by (auto simp: nth_map) (metis option.sel)
qed

interpretation lanes_pool: ordered_pool "runTaskPoolWithSequential_resolves sq" for sq
  by unfold_locales (auto simp: runTaskPoolWithSequential_resolves_def dest: lanes_ordered)

text \<open>
  C6. Whatever the order in which the tasks settle, however many run at once and whichever of them
  go to the sequential lane, a pool that resolves has run the task of every item and returns the
  values in the order of the items.
\<close>

theorem runTaskPool_ordered:
  "(runTaskPool_resolves outcome items concurrency ys \<longrightarrow>
      length ys = length items \<and> (\<forall>i < length items. outcome i (items ! i) (Inr (ys ! i))))
   \<and> (runTaskPoolWithSequential_resolves sq outcome items concurrency ys \<longrightarrow>
      length ys = length items \<and> (\<forall>i < length items. outcome i (items ! i) (Inr (ys ! i))))"
  using task_pool.ordered lanes_pool.ordered by blast

theorem runTaskPool_ordered_witness:
  "\<exists>st k. pool_reach poolOutcome [4, 5, 6] (Some 2) k st \<and> poolResult st = Some (Inr [40, 50, 60])
     \<and> poolOutcome 2 6 (Inr 60)"
proof -
  have "runTaskPool_resolves poolOutcome [4, 5, 6] (Some 2) [40, 50, 60]"
    using pool_example by (auto simp: runTaskPool_resolves_def)
  then have "\<forall>i < length [4, 5, 6 :: nat]. poolOutcome i ([4, 5, 6] ! i) (Inr ([40, 50, 60] ! i))"
    using runTaskPool_ordered [of poolOutcome "[4, 5, 6]" "Some 2" "[40, 50, 60]" "\<lambda>_ _. True"] by blast
  then have "poolOutcome 2 6 (Inr 60)" by (auto dest: spec [of _ 2])
  then show ?thesis using pool_example by blast
qed

end
