(* ===== verification/Ntt_Api.thy ===== *)
theory Ntt_Api
  imports Deployments
begin

text \<open>
  What the CLI asks of a deployed contract, the methods of \<open>Ntt\<close> and \<open>NttTransceiver\<close> of
  \<open>sdk/definitions/src/ntt.ts\<close>, as a record of functions: each stands for a remote query, which
  fails with a message or returns its value; queries that are retried also take the number of the
  attempt. Then \<open>retryWithExponentialBackoff\<close> of \<open>cli/src/validation.ts\<close>.
\<close>

section \<open>Queries\<close>

record ntt_peer =
  pr_address :: string
  pr_tokenDecimals :: nat
  pr_inboundLimit :: nat

record contracts =
  ct_manager :: "string option"
  ct_token :: "string option"
  ct_transceiver :: "(string \<times> string) list option"

record ('n, 't) ntt_api =
  getProtocol :: "string \<Rightarrow> contracts \<Rightarrow> string + 'n"
  verifyAddresses :: "'n \<Rightarrow> nat \<Rightarrow> string + contracts option"
  getMode :: "'n \<Rightarrow> string + string"
  getOutboundLimit :: "'n \<Rightarrow> string + nat"
  getThreshold :: "'n \<Rightarrow> string + nat"
  getTokenDecimals :: "'n \<Rightarrow> string + nat"
  isPaused :: "'n \<Rightarrow> string + bool"
  getOwner :: "'n \<Rightarrow> string + string"
  getPauser :: "'n \<Rightarrow> string + string option"
  getTransceiver :: "'n \<Rightarrow> nat \<Rightarrow> string + 't option"
  transceiverPauser :: "'t \<Rightarrow> string + string option"
  transceiverAddress :: "'t \<Rightarrow> string + string"
  transceiverPeer :: "'t \<Rightarrow> string \<Rightarrow> nat \<Rightarrow> string + string option"
  getPeer :: "'n \<Rightarrow> string \<Rightarrow> nat \<Rightarrow> string + ntt_peer option"
  contractVersion :: "'n \<Rightarrow> string"

text \<open>The functions of the Wormhole SDK the CLI calls on chain names and addresses.\<close>

datatype platform = Evm | Solana | Sui | OtherPlatform string

record wormhole_sdk =
  isChain :: "string \<Rightarrow> bool"
  chainToPlatform :: "string \<Rightarrow> platform"
  toUniversal :: "string \<Rightarrow> string \<Rightarrow> string + string"
  canonicalAddress :: "string \<Rightarrow> string \<Rightarrow> string"

section \<open>Retries\<close>

text \<open>
  \<open>fn k\<close> is the outcome of the \<open>k\<close>-th call, \<open>random k\<close> the number \<open>Math.random()\<close> gives at the \<open>k\<close>-th
  wait. The result is paired with the waits in milliseconds.
\<close>

definition backoff :: "(nat \<Rightarrow> rat) \<Rightarrow> nat \<Rightarrow> nat \<Rightarrow> rat" where
  "backoff random delay retry = of_nat (min (2 ^ retry * delay) 10000) + random retry * 1000"

function attempt :: "(nat \<Rightarrow> 'e + 'a) \<Rightarrow> (nat \<Rightarrow> rat) \<Rightarrow> nat \<Rightarrow> nat \<Rightarrow> nat \<Rightarrow> ('e + 'a) \<times> rat list" where
  "attempt fn random maxRetries delay retry =
     (case fn retry of
        Inr v \<Rightarrow> (Inr v, [])
      | Inl e \<Rightarrow>
          if retry \<ge> maxRetries then (Inl e, [])
          else (let time = backoff random delay retry;
                    (r, waits) = attempt fn random maxRetries delay (retry + 1)
                in (r, time # waits)))"
  by pat_completeness auto

termination by (relation "measure (\<lambda>(fn, random, maxRetries, delay, retry). maxRetries - retry)") auto

declare attempt.simps [simp del]

definition retryWithExponentialBackoff ::
    "(nat \<Rightarrow> 'e + 'a) \<Rightarrow> (nat \<Rightarrow> rat) \<Rightarrow> nat \<Rightarrow> nat \<Rightarrow> ('e + 'a) \<times> rat list" where
  "retryWithExponentialBackoff fn random maxRetries delay = attempt fn random maxRetries delay 0"

text \<open>The value alone, where the waits do not matter.\<close>

definition retried :: "nat \<Rightarrow> (nat \<Rightarrow> 'e + 'a) \<Rightarrow> 'e + 'a" where
  "retried maxRetries fn = fst (retryWithExponentialBackoff fn (\<lambda>_. 0) maxRetries 0)"

lemma attempt_spec:
  "r \<le> m \<Longrightarrow>
   \<exists>k. r \<le> k \<and> k \<le> m \<and> fst (attempt fn random m delay r) = fn k \<and> (isOk (fn k) \<or> k = m)
     \<and> (\<forall>j. r \<le> j \<and> j < k \<longrightarrow> \<not> isOk (fn j))
     \<and> snd (attempt fn random m delay r) = map (backoff random delay) [r..<k]"
proof (induction "m - r" arbitrary: r)
  case 0
  then have "r = m" by simp
  then show ?case
    by (cases "fn m") (auto intro!: exI [of _ m] simp: attempt.simps [of fn random m delay m])
next
  case (Suc n)
  show ?case
  proof (cases "fn r")
    case (Inr v)
    then show ?thesis using Suc.prems
      by (intro exI [of _ r]) (auto simp: attempt.simps [of fn random m delay r])
  next
    case (Inl e)
    have pre: "n = m - Suc r" "Suc r \<le> m" using Suc.hyps(2) by auto
    obtain k where k: "Suc r \<le> k" "k \<le> m" "fst (attempt fn random m delay (Suc r)) = fn k"
      "isOk (fn k) \<or> k = m" "\<forall>j. Suc r \<le> j \<and> j < k \<longrightarrow> \<not> isOk (fn j)"
      "snd (attempt fn random m delay (Suc r)) = map (backoff random delay) [Suc r..<k]"
      using Suc.hyps(1) [OF pre] by blast
    have "attempt fn random m delay r = (fn k, backoff random delay r # map (backoff random delay) [Suc r..<k])"
      using Inl Suc.hyps(2) k(3,6)
      by (simp add: attempt.simps [of fn random m delay r] split_beta Let_def)
    moreover have "backoff random delay r # map (backoff random delay) [Suc r..<k]
        = map (backoff random delay) [r..<k]"
      using k(1) by (simp add: upt_conv_Cons)
    moreover have "\<not> isOk (fn j)" if "r \<le> j" "j < k" for j
      using that k(5) Inl by (cases "j = r") auto
    ultimately show ?thesis using k(1,2,4) by (intro exI [of _ k]) auto
  qed
qed

lemma fst_attempt_random: "fst (attempt fn random m delay r) = fst (attempt fn random' m delay' r)"
proof (induction fn random m delay r rule: attempt.induct)
  case (1 fn random m delay r)
  show ?case
    using 1 by (subst (1 2) attempt.simps) (auto split: sum.splits simp: split_beta Let_def)
qed

lemma retried_eq: "retried m fn = fst (retryWithExponentialBackoff fn random m delay)"
  unfolding retried_def retryWithExponentialBackoff_def by (rule fst_attempt_random)

text \<open>
  \<open>retryWithExponentialBackoff\<close> makes at most \<open>maxRetries + 1\<close> calls: it returns the outcome of
  the first call that succeeds, or the error of the last one, and waits once before every further
  call, each time less than eleven seconds.
\<close>

theorem retryWithExponentialBackoff_spec:
  assumes "\<forall>k. random k < 1"
  shows "\<exists>k \<le> maxRetries. fst (retryWithExponentialBackoff fn random maxRetries delay) = fn k
      \<and> (isOk (fn k) \<or> k = maxRetries) \<and> (\<forall>j. j < k \<longrightarrow> \<not> isOk (fn j))
      \<and> length (snd (retryWithExponentialBackoff fn random maxRetries delay)) = k
      \<and> list_all (\<lambda>t. t < 11000) (snd (retryWithExponentialBackoff fn random maxRetries delay))"
proof -
  have b: "backoff random delay i < 11000" for i
  proof -
    have "of_nat (min (2 ^ i * delay) 10000) \<le> (of_nat 10000 :: rat)" by (rule of_nat_mono) simp
    moreover have "random i * 1000 < 1000" using assms by simp
    ultimately show ?thesis unfolding backoff_def by simp
  qed
  obtain k where "k \<le> maxRetries" "fst (attempt fn random maxRetries delay 0) = fn k"
    "isOk (fn k) \<or> k = maxRetries" "\<forall>j. 0 \<le> j \<and> j < k \<longrightarrow> \<not> isOk (fn j)"
    "snd (attempt fn random maxRetries delay 0) = map (backoff random delay) [0..<k]"
    using attempt_spec [of 0 maxRetries fn random delay] by auto
  then show ?thesis
    unfolding retryWithExponentialBackoff_def using b
    by (intro exI [of _ k]) (auto simp: list_all_iff)
qed

definition flakyCall :: "nat \<Rightarrow> string + nat" where
  "flakyCall i = (if i < 2 then Inl ''rpc'' else Inr i)"

theorem retryWithExponentialBackoff_spec_witness:
  "fst (retryWithExponentialBackoff flakyCall (\<lambda>_. 1 / 2) 5 5000) = Inr 2"
proof -
  obtain k where k: "k \<le> 5"
    "fst (retryWithExponentialBackoff flakyCall (\<lambda>_. 1 / 2) 5 5000) = flakyCall k"
    "isOk (flakyCall k) \<or> k = 5" "\<forall>j. j < k \<longrightarrow> \<not> isOk (flakyCall j)"
    using retryWithExponentialBackoff_spec [of "\<lambda>_. 1 / 2" 5 flakyCall 5000] by auto
  have "\<not> 2 < k" using k(4) by (auto simp: flakyCall_def)
  moreover have "\<not> k < 2" using k(3) by (auto simp: flakyCall_def)
  ultimately have "k = 2" by simp
  then show ?thesis using k(2) by (simp add: flakyCall_def)
qed

section \<open>Example contracts\<close>

text \<open>
  Contracts that answer every query: a handle is the name of its chain. The peer of \<open>Base\<close> on
  \<open>Sepolia\<close> has a limit, the other query about peers of \<open>Base\<close> fails.
\<close>

definition exampleApi :: "(string, string) ntt_api" where
  "exampleApi =
     \<lparr>getProtocol = (\<lambda>chain _. Inr chain),
      verifyAddresses = (\<lambda>_ _. Inr (Some \<lparr>ct_manager = None, ct_token = Some ''t'',
         ct_transceiver = Some [(''wormhole'', ''w'')]\<rparr>)),
      getMode = (\<lambda>_. Inr ''burning''), getOutboundLimit = (\<lambda>_. Inr 15),
      getThreshold = (\<lambda>_. Inr 1), getTokenDecimals = (\<lambda>_. Inr 1), isPaused = (\<lambda>_. Inr False),
      getOwner = (\<lambda>_. Inr ''o''), getPauser = (\<lambda>_. Inr None),
      getTransceiver = (\<lambda>n _. Inr (Some n)), transceiverPauser = (\<lambda>_. Inr None),
      transceiverAddress = (\<lambda>n. Inr (''wh-'' @ n)),
      transceiverPeer = (\<lambda>t c _. Inr None),
      getPeer = (\<lambda>n c _. if n = ''Sepolia'' then Inr (Some \<lparr>pr_address = c, pr_tokenDecimals = 1,
         pr_inboundLimit = 12\<rparr>) else Inl ''rpc''),
      contractVersion = (\<lambda>_. ''1.1.0'')\<rparr>"

definition exampleSdk :: wormhole_sdk where
  "exampleSdk = \<lparr>isChain = (\<lambda>c. c = ''Sepolia'' \<or> c = ''Base''),
     chainToPlatform = (\<lambda>_. Evm), toUniversal = (\<lambda>_ a. Inr a), canonicalAddress = (\<lambda>_ a. a)\<rparr>"

end
