(* ===== verification/Pull.thy ===== *)
theory Pull
  imports Ntt_Api Limit_Format Task_Pool
begin

text \<open>
  Reading the configuration of the deployed contracts: \<open>pullDeployments\<close> and \<open>pullChainConfig\<close> of
  \<open>cli/src/config-mgmt.ts\<close>, \<open>nttFromManager\<close>, \<open>getVersion\<close> and \<open>pullInboundLimits\<close> of
  \<open>cli/src/query.ts\<close>. The queries of one chain are run by the task pool, so their results are the
  list of the queries in the order of the chains (theory \<open>Task_Pool\<close>); progress messages are left out.
  An exception caught by the code is its message.
\<close>

section \<open>One chain\<close>

datatype pull_exn = ChainUnknown string | ChainNotInDeployment string | Thrown string

definition assertKnown :: "wormhole_sdk \<Rightarrow> string \<Rightarrow> pull_exn + string" where
  "assertKnown sdk chain = (if isChain sdk chain then Inr chain else Inl (ChainUnknown chain))"

definition getVersion :: "wormhole_sdk \<Rightarrow> ('n, 't) ntt_api \<Rightarrow> string \<Rightarrow> 'n \<Rightarrow> string + string" where
  "getVersion sdk api chain ntt =
     (case chainToPlatform sdk chain of
        Evm \<Rightarrow> Inr (contractVersion api ntt)
      | Solana \<Rightarrow> Inr (contractVersion api ntt)
      | Sui \<Rightarrow> Inr ''1.0.0''
      | OtherPlatform _ \<Rightarrow> Inl ''Unsupported platform'')"

definition hasTransceiver :: "contracts option \<Rightarrow> bool" where
  "hasTransceiver result =
     (case Option.bind result ct_transceiver of None \<Rightarrow> False | Some ts \<Rightarrow> ts \<noteq> [])"

text \<open>\<open>{ manager: nativeManagerAddress, ...diff }\<close>\<close>

definition spreadContracts :: "string \<Rightarrow> contracts option \<Rightarrow> contracts" where
  "spreadContracts manager diff =
     (case diff of
        None \<Rightarrow> \<lparr>ct_manager = Some manager, ct_token = None, ct_transceiver = None\<rparr>
      | Some d \<Rightarrow> d\<lparr>ct_manager := (case ct_manager d of None \<Rightarrow> Some manager | Some m \<Rightarrow> Some m)\<rparr>)"

definition nttFromManager :: "('n, 't) ntt_api \<Rightarrow> string \<Rightarrow> string \<Rightarrow> bool \<Rightarrow> string + ('n \<times> contracts)" where
  "nttFromManager api chain nativeManagerAddress waitForTransceiver =
     andThen (getProtocol api chain
         \<lparr>ct_manager = Some nativeManagerAddress, ct_token = None, ct_transceiver = Some []\<rparr>) (\<lambda>onlyManager.
     andThen
       (if waitForTransceiver
        then retried 5 (\<lambda>k. andThen (verifyAddresses api onlyManager k) (\<lambda>result.
               if \<not> hasTransceiver result then Inl (''Transceiver address not yet available for '' @ chain)
               else Inr result))
        else verifyAddresses api onlyManager 0) (\<lambda>diff.
     let addresses = spreadContracts nativeManagerAddress diff in
     andThen (getProtocol api chain addresses) (\<lambda>ntt. Inr (ntt, addresses))))"

definition pullChainConfig :: "wormhole_sdk \<Rightarrow> ('n, 't) ntt_api \<Rightarrow> string \<Rightarrow> string \<Rightarrow> bool
    \<Rightarrow> string + (chain_config \<times> 'n \<times> nat)" where
  "pullChainConfig sdk api chain manager waitForTransceiver =
     (let nativeManagerAddress = canonicalAddress sdk chain manager in
      andThen (nttFromManager api chain nativeManagerAddress waitForTransceiver) (\<lambda>(ntt, addresses).
      andThen (getMode api ntt) (\<lambda>mode.
      andThen (getOutboundLimit api ntt) (\<lambda>outboundLimit.
      andThen (getThreshold api ntt) (\<lambda>threshold.
      andThen (getTokenDecimals api ntt) (\<lambda>decimals.
      let outboundLimitDecimals = formatNumber (int outboundLimit) decimals in
      andThen (isPaused api ntt) (\<lambda>paused.
      andThen (getOwner api ntt) (\<lambda>owner.
      andThen (getPauser api ntt) (\<lambda>pauser.
      andThen (getVersion sdk api chain ntt) (\<lambda>version.
      andThen (andThen (getTransceiver api ntt 0)
          (\<lambda>t. case t of None \<Rightarrow> Inr None | Some t \<Rightarrow> transceiverPauser api t)) (\<lambda>transceiverPauser.
      case ct_transceiver addresses of
        None \<Rightarrow> Inl ''undefined is not an object''
      | Some ts \<Rightarrow>
          Inr (\<lparr>cc_version = version, cc_mode = mode, cc_paused = paused, cc_owner = owner,
                cc_pauser = pauser, cc_manager = Some nativeManagerAddress, cc_token = ct_token addresses,
                cc_transceivers =
                  \<lparr>tc_threshold = threshold,
                   tc_wormhole = \<lparr>wc_address = map_of ts ''wormhole'', wc_pauser = transceiverPauser\<rparr>\<rparr>,
                cc_limits = Some \<lparr>lc_outbound = Some outboundLimitDecimals, lc_inbound = Some []\<rparr>,
                cc_managerVariant = None\<rparr>, ntt, decimals))))))))))))"

datatype ('n, 't) pull_result =
    MissingManager
  | MissingTransceiver
  | FetchError string
  | Fetched "('n, 't) deployment"

text \<open>The body of the \<open>try\<close> of \<open>fetchDeployment\<close>.\<close>

definition fetchTry :: "wormhole_sdk \<Rightarrow> ('n, 't) ntt_api \<Rightarrow> chains_config \<Rightarrow> string \<Rightarrow> string
    \<Rightarrow> string + ('n, 't) pull_result" where
  "fetchTry sdk api chains_config chain managerAddress =
     andThen (toUniversal sdk chain managerAddress) (\<lambda>address.
     andThen (pullChainConfig sdk api chain address False) (\<lambda>(remote, ntt, decimals).
     andThen (getTransceiver api ntt 0) (\<lambda>whTransceiver.
       case whTransceiver of
         None \<Rightarrow> Inr MissingTransceiver
       | Some wh \<Rightarrow>
           andThen (toUniversal sdk chain managerAddress) (\<lambda>address.
           Inr (Fetched \<lparr>dp_ntt = ntt, dp_whTransceiver = wh, dp_decimals = decimals,
                   dp_manager = address, dp_remote = Some remote,
                   dp_local = map_of chains_config chain\<rparr>)))))"

definition fetchDeployment :: "wormhole_sdk \<Rightarrow> ('n, 't) ntt_api \<Rightarrow> chains_config
    \<Rightarrow> string \<times> chain_config \<Rightarrow> pull_exn + (string \<times> ('n, 't) pull_result)" where
  "fetchDeployment sdk api chains_config entry =
     (let (chain, deployment) = entry in
      andThen (assertKnown sdk chain) (\<lambda>chain.
        case cc_manager deployment of
          None \<Rightarrow> Inr (chain, MissingManager)
        | Some managerAddress \<Rightarrow>
            Inr (chain, (case fetchTry sdk api chains_config chain managerAddress of
                           Inl e \<Rightarrow> FetchError e | Inr r \<Rightarrow> r))))"

section \<open>Inbound limits of all pairs\<close>

text \<open>
  The loop that makes sure every chain has the objects the writes need (\<open>??=\<close>), and the write of one
  limit.
\<close>

definition ensuredChain :: "chain_config \<Rightarrow> chain_config" where
  "ensuredChain chainConf =
     (let limits = (case cc_limits chainConf of
             None \<Rightarrow> \<lparr>lc_outbound = Some ''0'', lc_inbound = Some []\<rparr> | Some l \<Rightarrow> l);
          inbound = (case lc_inbound limits of None \<Rightarrow> [] | Some m \<Rightarrow> m)
      in chainConf\<lparr>cc_limits := Some (limits\<lparr>lc_inbound := Some inbound\<rparr>)\<rparr>)"

definition ensureLimits :: "wormhole_sdk \<Rightarrow> string \<Rightarrow> chains_config \<Rightarrow> pull_exn + chains_config" where
  "ensureLimits sdk chain config =
     andThen (assertKnown sdk chain) (\<lambda>chain.
       case map_of config chain of
         None \<Rightarrow> Inl (ChainNotInDeployment chain)
       | Some chainConf \<Rightarrow> Inr (AList.update chain (ensuredChain chainConf) config))"

definition writeInbound :: "string \<times> string \<Rightarrow> string \<Rightarrow> chains_config \<Rightarrow> chains_config" where
  "writeInbound pair formatted config =
     (let (fromChain, toChain) = pair in
      case map_of config fromChain of
        None \<Rightarrow> config
      | Some c \<Rightarrow>
         (case cc_limits c of
            None \<Rightarrow> config
          | Some l \<Rightarrow>
             (case lc_inbound l of
                None \<Rightarrow> config
              | Some m \<Rightarrow>
                  AList.update fromChain
                    (c\<lparr>cc_limits := Some (l\<lparr>lc_inbound := Some (AList.update toChain formatted m)\<rparr>)\<rparr>)
                    config)))"

record 'n inbound_task =
  it_from :: string
  it_to :: string
  it_ntt :: 'n

text \<open>
  All ordered pairs of different managers. Every chain has a manager object of its own, so that
  \<open>fromNtt === toNtt\<close> is equality of the chains.
\<close>

definition inboundTasks :: "(string \<times> 'n) list \<Rightarrow> 'n inbound_task list" where
  "inboundTasks entries =
     concat (map (\<lambda>(fromChain, fromNtt).
       map (\<lambda>(toChain, toNtt). \<lparr>it_from = fromChain, it_to = toChain, it_ntt = fromNtt\<rparr>)
         (filter (\<lambda>(toChain, toNtt). fromChain \<noteq> toChain) entries)) entries)"

definition runInboundTask :: "('n, 't) ntt_api \<Rightarrow> (string \<times> nat) list \<Rightarrow> 'n inbound_task
    \<Rightarrow> string + string" where
  "runInboundTask api decimalsByChain task =
     andThen (retried 5 (getPeer api (it_ntt task) (it_to task))) (\<lambda>peer.
       let limit = (case peer of None \<Rightarrow> 0 | Some p \<Rightarrow> pr_inboundLimit p) in
       case map_of decimalsByChain (it_from task) of
         None \<Rightarrow> Inl (''Token decimals not found for chain '' @ it_from task)
       | Some decimals \<Rightarrow> Inr (formatNumber (int limit) decimals))"

definition storeInbound :: "'n inbound_task \<times> (string + string)
    \<Rightarrow> chains_config \<times> ((string \<times> string) \<times> string) list
    \<Rightarrow> chains_config \<times> ((string \<times> string) \<times> string) list" where
  "storeInbound res st =
     (let (task, r) = res; (config, errors) = st in
      case r of
        Inr formatted \<Rightarrow> (writeInbound (it_from task, it_to task) formatted config, errors)
      | Inl e \<Rightarrow> (config, errors @ [((it_from task, it_to task), e)]))"

definition pullInboundLimits :: "wormhole_sdk \<Rightarrow> ('n, 't) ntt_api \<Rightarrow> (string \<times> 'n) list \<Rightarrow> chains_config
    \<Rightarrow> pull_exn + (chains_config \<times> ((string \<times> string) \<times> string) list)" where
  "pullInboundLimits sdk api ntts config =
     andThen (foldR (\<lambda>(chain, _). ensureLimits sdk chain) ntts config) (\<lambda>config.
     andThen (mapR (\<lambda>(chain, ntt). case getTokenDecimals api ntt of
                 Inl e \<Rightarrow> Inl (Thrown e) | Inr d \<Rightarrow> Inr (chain, d)) ntts) (\<lambda>decimalsByChain.
     let tasks = inboundTasks ntts;
         results = map (\<lambda>t. (t, runInboundTask api decimalsByChain t)) tasks
     in Inr (fold storeInbound results (config, []))))"

section \<open>All chains\<close>

datatype failure_reason = FailureMissingTransceiver | FailureError

record pull_failure =
  pf_chain :: string
  pf_reason :: failure_reason
  pf_message :: string

definition classifyResult :: "string \<times> ('n, 't) pull_result
    \<Rightarrow> (string \<times> ('n, 't) deployment) list \<times> pull_failure list
    \<Rightarrow> (string \<times> ('n, 't) deployment) list \<times> pull_failure list" where
  "classifyResult result st =
     (let (chain, r) = result; (deps, failures) = st in
      case r of
        Fetched d \<Rightarrow> (AList.update chain d deps, failures)
      | MissingManager \<Rightarrow> (deps, failures)
      | MissingTransceiver \<Rightarrow>
          (deps, failures @ [\<lparr>pf_chain = chain, pf_reason = FailureMissingTransceiver,
             pf_message = ''Wormhole transceiver not found''\<rparr>])
      | FetchError msg \<Rightarrow>
          (deps, failures @ [\<lparr>pf_chain = chain, pf_reason = FailureError, pf_message = msg\<rparr>]))"

text \<open>
  \<open>config\<close> holds the very objects that are the \<open>remote\<close> configurations of \<open>deps\<close>, so the writes of
  \<open>pullInboundLimits\<close> are seen there: the last step copies them back.
\<close>

definition pullDeployments :: "wormhole_sdk \<Rightarrow> ('n, 't) ntt_api \<Rightarrow> chains_config
    \<Rightarrow> pull_exn + ((string \<times> ('n, 't) deployment) list \<times> pull_failure list)" where
  "pullDeployments sdk api chains_config =
     andThen (mapR (fetchDeployment sdk api chains_config) chains_config) (\<lambda>results.
     let (deps, failures) = fold classifyResult results ([], []);
         config = map (\<lambda>(k, v). (k, the (dp_remote v))) deps;
         ntts = map (\<lambda>(k, v). (k, dp_ntt v)) deps
     in andThen (pullInboundLimits sdk api ntts config) (\<lambda>(config', _).
        Inr (map (\<lambda>(k, v). (k, v\<lparr>dp_remote := map_of config' k\<rparr>)) deps, failures)))"


section \<open>The writes of inbound limits\<close>

text \<open>A chain whose configuration has the objects for inbound limits.\<close>

definition hasInbound :: "chains_config \<Rightarrow> string \<Rightarrow> bool" where
  "hasInbound config chain =
     (Option.bind (Option.bind (map_of config chain) cc_limits) lc_inbound \<noteq> None)"

interpretation inbound_writes: keyed_store inboundLimit writeInbound "\<lambda>config p. hasInbound config (fst p)"
proof
  fix k j :: "string \<times> string" and v and s :: chains_config
  obtain f t where k: "k = (f, t)" by force
  obtain d r where j: "j = (d, r)" by force
  show "inboundLimit (writeInbound k v s) j =
      (if j = k \<and> hasInbound s (fst k) then Some v else inboundLimit s j)"
    by (auto simp: k j writeInbound_def inboundLimit_def inboundOf_def hasInbound_def update_conv'
        bind_eq_Some_conv split: option.splits)
  show "hasInbound (writeInbound k v s) (fst j) = hasInbound s (fst j)"
    by (auto simp: k j writeInbound_def hasInbound_def update_conv' split: option.splits)
qed

lemma storeInbound_simps:
  "storeInbound (t, Inr v) (config, errors) = (writeInbound (it_from t, it_to t) v config, errors)"
  "storeInbound (t, Inl e) (config, errors) = (config, errors @ [((it_from t, it_to t), e)])"
  by (simp_all add: storeInbound_def)

lemma fold_storeInbound:
  "fold storeInbound results (config, errors) =
     (inbound_writes.put_all
        [((it_from t, it_to t), v). (t, Inr v) \<leftarrow> results] config,
      errors @ [((it_from t, it_to t), e). (t, Inl e) \<leftarrow> results])"
proof (induction results arbitrary: config errors)
  case (Cons x xs)
  obtain t r where x: "x = (t, r)" by force
  show ?case by (cases r) (simp_all add: x storeInbound_simps Cons)
qed simp


lemma inboundTasks_facts:
  "t \<in> set (inboundTasks entries) \<Longrightarrow> (it_from t, it_ntt t) \<in> set entries
     \<and> it_to t \<in> fst ` set entries \<and> it_from t \<noteq> it_to t"
  by (force simp: inboundTasks_def)

lemma inboundTasks_key:
  assumes "distinct (map fst entries)" "t \<in> set (inboundTasks entries)" "u \<in> set (inboundTasks entries)"
    "it_from t = it_from u" "it_to t = it_to u"
  shows "t = u"
proof -
  have "it_ntt t = it_ntt u"
    using inboundTasks_facts [OF assms(2)] inboundTasks_facts [OF assms(3)] assms(1,4)
    by (auto dest: eq_key_imp_eq_value)
  then show ?thesis using assms(4,5) by simp
qed

lemma ensuredChain_facts:
  "inboundOf (ensuredChain c) s = inboundOf c s"
  "Option.bind (cc_limits (ensuredChain c)) lc_inbound \<noteq> None"
  by (auto simp: ensuredChain_def inboundOf_def Let_def split: option.splits)

lemma ensureLimits_step:
  assumes "ensureLimits sdk c config = Inr config'"
  shows "hasInbound config' c" "hasInbound config d \<Longrightarrow> hasInbound config' d"
    "inboundLimit config' p = inboundLimit config p"
proof -
  obtain c0 where c0: "map_of config c = Some c0" "config' = AList.update c (ensuredChain c0) config"
    using assms by (auto simp: ensureLimits_def andThen_eq_Inr assertKnown_def
        split: option.splits if_splits)
  show "hasInbound config' c" using ensuredChain_facts(2) [of c0]
    by (simp add: c0 hasInbound_def update_conv')
  show "hasInbound config d \<Longrightarrow> hasInbound config' d" using ensuredChain_facts(2) [of c0]
    by (simp add: c0 hasInbound_def update_conv')
  show "inboundLimit config' p = inboundLimit config p"
    by (simp add: c0 inboundLimit_def update_conv' ensuredChain_facts(1))
qed

lemma foldR_ensureLimits:
  "foldR (\<lambda>(chain, _). ensureLimits sdk chain) es config = Inr config' \<Longrightarrow>
   (\<forall>d. d \<in> fst ` set es \<or> hasInbound config d \<longrightarrow> hasInbound config' d) \<and>
   inboundLimit config' p = inboundLimit config p"
proof (induction es arbitrary: config)
  case (Cons e es)
  obtain c n where e: "e = (c, n)" by force
  obtain c1 where c1: "ensureLimits sdk c config = Inr c1"
    "foldR (\<lambda>(chain, _). ensureLimits sdk chain) es c1 = Inr config'"
    using Cons.prems by (auto simp: e andThen_eq_Inr)
  show ?case using Cons.IH [OF c1(2)] ensureLimits_step [OF c1(1)] by (auto simp: e)
qed simp


lemma mapR_decimals:
  "mapR (\<lambda>(chain, ntt). case getTokenDecimals api ntt of
      Inl e \<Rightarrow> Inl (Thrown e) | Inr d \<Rightarrow> Inr (chain, d)) ntts = Inr dec \<Longrightarrow>
   distinct (map fst ntts) \<Longrightarrow> (c, n) \<in> set ntts \<Longrightarrow>
   map_of dec c \<noteq> None \<and> getTokenDecimals api n = Inr (the (map_of dec c))"
proof (induction ntts arbitrary: dec)
  case (Cons e ntts)
  obtain c0 n0 where e: "e = (c0, n0)" by force
  obtain d ds where d: "getTokenDecimals api n0 = Inr d" "dec = (c0, d) # ds"
    "mapR (\<lambda>(chain, ntt). case getTokenDecimals api ntt of
      Inl e \<Rightarrow> Inl (Thrown e) | Inr d \<Rightarrow> Inr (chain, d)) ntts = Inr ds"
    using Cons.prems(1) by (auto simp: e andThen_eq_Inr split: sum.splits)
  show ?case
  proof (cases "c = c0")
    case True
    then have "n = n0"
      using eq_key_imp_eq_value [OF Cons.prems(2,3), of n0] e by simp
    then show ?thesis using True d by simp
  next
    case False
    then show ?thesis using Cons.IH [OF d(3)] Cons.prems(2,3) e d(2) by auto
  qed
qed simp

text \<open>Storing the results of tasks for different pairs, in a file that has a place for each.\<close>

lemma storeInbound_effect:
  assumes res: "fold storeInbound (map (\<lambda>t. (t, f t)) tasks) (config1, []) = (config', errors)"
    and key: "\<And>t u. t \<in> set tasks \<Longrightarrow> u \<in> set tasks \<Longrightarrow> it_from t = it_from u \<Longrightarrow> it_to t = it_to u \<Longrightarrow> t = u"
    and place: "\<And>t. t \<in> set tasks \<Longrightarrow> hasInbound config1 (it_from t)"
  shows "t \<in> set tasks \<Longrightarrow> (case f t of
      Inr v \<Rightarrow> inboundLimit config' (it_from t, it_to t) = Some v
    | Inl e \<Rightarrow> inboundLimit config' (it_from t, it_to t) = inboundLimit config1 (it_from t, it_to t)
        \<and> ((it_from t, it_to t), e) \<in> set errors)"
    and "p \<notin> (\<lambda>t. (it_from t, it_to t)) ` set tasks \<Longrightarrow> inboundLimit config' p = inboundLimit config1 p"
proof -
  define ok where "ok = [((it_from t, it_to t), v). (t, Inr v) \<leftarrow> map (\<lambda>t. (t, f t)) tasks]"
  have out: "config' = inbound_writes.put_all ok config1"
    "errors = [((it_from t, it_to t), e). (t, Inl e) \<leftarrow> map (\<lambda>t. (t, f t)) tasks]"
    using res by (simp_all add: fold_storeInbound ok_def)
  have okset: "(p, v) \<in> set ok \<longleftrightarrow> (\<exists>t \<in> set tasks. p = (it_from t, it_to t) \<and> f t = Inr v)" for p v
    by (force simp: ok_def split: sum.splits)
  have other: "inboundLimit config' p = inboundLimit config1 p" if "\<And>v. (p, v) \<notin> set ok" for p
  proof -
    have "p \<notin> fst ` set ok" using that by force
    then show ?thesis by (simp add: out(1) inbound_writes.lookup_put_all_other)
  qed
  show "inboundLimit config' p = inboundLimit config1 p" if "p \<notin> (\<lambda>t. (it_from t, it_to t)) ` set tasks"
    using that by (intro other) (auto simp: okset)
  assume t: "t \<in> set tasks"
  show "case f t of
      Inr v \<Rightarrow> inboundLimit config' (it_from t, it_to t) = Some v
    | Inl e \<Rightarrow> inboundLimit config' (it_from t, it_to t) = inboundLimit config1 (it_from t, it_to t)
        \<and> ((it_from t, it_to t), e) \<in> set errors"
  proof (cases "f t")
    case (Inl e)
    have "((it_from t, it_to t), v) \<notin> set ok" for v using key [OF t] Inl by (auto simp: okset)
    then show ?thesis using other t Inl by (force simp: out(2))
  next
    case (Inr v)
    have "inboundLimit (inbound_writes.put_all ok config1) (it_from t, it_to t) = Some v"
    proof (rule inbound_writes.lookup_put_all_same)
      have "((it_from t, it_to t), v) \<in> set ok" using Inr t by (auto simp: okset)
      then show "(it_from t, it_to t) \<in> fst ` set ok" by (rule rev_image_eqI) simp
      show "v' = v" if "((it_from t, it_to t), v') \<in> set ok" for v'
        using that key [OF t] Inr by (force simp: okset)
      show "hasInbound config1 (fst (it_from t, it_to t))" using place [OF t] by simp
    qed
    then show ?thesis by (simp add: Inr out(1))
  qed
qed



definition exampleFile :: chains_config where
  "exampleFile = map (\<lambda>c. (c, \<lparr>cc_version = ''1.1.0'', cc_mode = ''burning'', cc_paused = False,
     cc_owner = ''o'', cc_pauser = None, cc_manager = (if c = ''Base'' then None else Some ''m''), cc_token = Some ''t'',
     cc_transceivers = \<lparr>tc_threshold = 1, tc_wormhole = \<lparr>wc_address = Some ''w'', wc_pauser = None\<rparr>\<rparr>,
     cc_limits = None, cc_managerVariant = None\<rparr>)) [''Sepolia'', ''Base'']"


section \<open>Every chain of the file is accounted for\<close>

definition failureOf :: "string \<times> ('n, 't) pull_result \<Rightarrow> pull_failure list" where
  "failureOf x = (case snd x of
         MissingTransceiver \<Rightarrow> [\<lparr>pf_chain = fst x, pf_reason = FailureMissingTransceiver,
           pf_message = ''Wormhole transceiver not found''\<rparr>]
       | FetchError m \<Rightarrow> [\<lparr>pf_chain = fst x, pf_reason = FailureError, pf_message = m\<rparr>]
       | _ \<Rightarrow> [])"

lemma failureOf_chain:
  "c \<in> pf_chain ` set (failureOf x) \<longleftrightarrow>
     c = fst x \<and> (snd x = MissingTransceiver \<or> (\<exists>m. snd x = FetchError m))"
  by (cases "snd x") (auto simp: failureOf_def)

lemma fold_classifyResult:
  "distinct (map fst results) \<Longrightarrow> set (map fst results) \<inter> fst ` set deps = {} \<Longrightarrow>
   fold classifyResult results (deps, failures) =
     (deps @ [(c, d). (c, Fetched d) \<leftarrow> results],
      failures @ concat (map failureOf results))"
proof (induction results arbitrary: deps failures)
  case (Cons x xs)
  obtain c r where x: "x = (c, r)" by force
  have new: "c \<notin> fst ` set deps" using Cons.prems(2) by (auto simp: x)
  have upd: "AList.update c d deps = deps @ [(c, d)]" for d
    using new by (induction deps) auto
  show ?case
    using Cons by (cases r) (auto simp: x classifyResult_def upd failureOf_def)
qed simp

lemma fetchTry_result:
  "fetchTry sdk api cs c m = Inr r \<Longrightarrow>
   r = MissingTransceiver \<or> (\<exists>d. r = Fetched d \<and> dp_local d = map_of cs c)"
  by (auto simp: fetchTry_def andThen_eq_Inr split: option.splits)

lemma fetchDeployment_chain:
  assumes "fetchDeployment sdk api cs (c, conf) = Inr (c', r)"
  shows "c' = c \<and> (r = MissingManager \<longleftrightarrow> cc_manager conf = None) \<and>
     (\<forall>d. r = Fetched d \<longrightarrow> dp_local d = map_of cs c)"
proof (cases "cc_manager conf")
  case None
  then show ?thesis using assms
    by (auto simp: fetchDeployment_def andThen_eq_Inr assertKnown_def split: if_splits)
next
  case (Some m)
  then have "c' = c" and r: "r = (case fetchTry sdk api cs c m of Inl e \<Rightarrow> FetchError e | Inr r \<Rightarrow> r)"
    using assms by (auto simp: fetchDeployment_def andThen_eq_Inr assertKnown_def split: if_splits)
  then show ?thesis
    using Some fetchTry_result [of sdk api cs c m]
    by (cases "fetchTry sdk api cs c m") auto
qed

lemma fetched_all:
  "mapR (fetchDeployment sdk api cs) es = Inr results \<Longrightarrow>
   map fst results = map fst es \<and>
   list_all2 (\<lambda>(c, conf) (c', r). c' = c \<and> (r = MissingManager \<longleftrightarrow> cc_manager conf = None) \<and>
     (\<forall>d. r = Fetched d \<longrightarrow> dp_local d = map_of cs c)) es results"
proof (induction es arbitrary: results)
  case (Cons e es)
  obtain c conf where e: "e = (c, conf)" by force
  obtain c' r rs where "fetchDeployment sdk api cs (c, conf) = Inr (c', r)" "results = (c', r) # rs"
    "mapR (fetchDeployment sdk api cs) es = Inr rs"
    using Cons.prems by (auto simp: e andThen_eq_Inr)
  then show ?case using Cons.IH [of rs] fetchDeployment_chain [of sdk api cs c conf c' r]
    by (simp add: e)
qed simp

text \<open>The result of a chain of the file is the only one for that chain.\<close>

lemma result_of_chain:
  assumes "mapR (fetchDeployment sdk api cs) file = Inr results" "distinct (map fst file)"
    and "(c, conf) \<in> set file"
  shows "\<exists>r. (\<forall>x. (c, x) \<in> set results \<longleftrightarrow> x = r) \<and> (r = MissingManager \<longleftrightarrow> cc_manager conf = None)"
proof -
  note f = fetched_all [OF assms(1)]
  have dist: "distinct (map fst results)" using f assms(2) by simp
  obtain i where i: "i < length file" "file ! i = (c, conf)" using assms(3) by (auto simp: in_set_conv_nth)
  then obtain r where r: "results ! i = (c, r)" "r = MissingManager \<longleftrightarrow> cc_manager conf = None"
    using f by (cases "results ! i") (auto simp: list_all2_conv_all_nth dest!: spec [of _ i])
  have "length results = length file" using f by (metis length_map)
  then have m: "(c, r) \<in> set results" using i(1) r(1) by (metis nth_mem)
  then have "(c, x) \<in> set results \<longleftrightarrow> x = r" for x using eq_key_imp_eq_value [OF dist m] m by metis
  then show ?thesis using r(2) by (intro exI [of _ r] conjI allI)
qed

lemma failureOf_all:
  "c \<in> pf_chain ` set (concat (map failureOf results)) \<longleftrightarrow>
     (\<exists>r. (c, r) \<in> set results \<and> (r = MissingTransceiver \<or> (\<exists>m. r = FetchError m)))"
proof -
  have "c \<in> pf_chain ` set (concat (map failureOf results)) \<longleftrightarrow> (\<exists>x \<in> set results. c \<in> pf_chain ` set (failureOf x))"
    by auto
  then show ?thesis unfolding failureOf_chain Bex_def split_paired_Ex by simp
qed

text \<open>What a pull returns, from the results of the single chains.\<close>

lemma pullDeployments_results:
  assumes "pullDeployments sdk api file = Inr (deps, failures)" "distinct (map fst file)"
    and "mapR (fetchDeployment sdk api file) file = Inr results"
  shows "c \<in> fst ` set deps \<longleftrightarrow> (\<exists>d. (c, Fetched d) \<in> set results)"
    and "c \<in> pf_chain ` set failures \<longleftrightarrow>
      (\<exists>r. (c, r) \<in> set results \<and> (r = MissingTransceiver \<or> (\<exists>m. r = FetchError m)))"
    and "(c, d) \<in> set deps \<Longrightarrow> \<exists>d0. (c, Fetched d0) \<in> set results \<and> dp_local d = dp_local d0"
proof -
  have dist: "distinct (map fst results)" using fetched_all [OF assms(3)] assms(2) by simp
  define deps0 where "deps0 = [(c, d). (c, Fetched d) \<leftarrow> results]"
  have cl: "fold classifyResult results ([], []) = (deps0, concat (map failureOf results))"
    using fold_classifyResult [OF dist, of "[]" "[]"] by (simp add: deps0_def)
  obtain config' where out: "deps = map (\<lambda>(k, v). (k, v\<lparr>dp_remote := map_of config' k\<rparr>)) deps0"
    "failures = concat (map failureOf results)"
    using assms(1) by (auto simp: pullDeployments_def andThen_eq_Inr assms(3) cl Let_def)
  have deps0: "(c, d) \<in> set deps0 \<longleftrightarrow> (c, Fetched d) \<in> set results" for c d
    unfolding deps0_def by (induction results) (auto split: pull_result.splits)
  have "fst ` set deps = fst ` set deps0" by (force simp: out(1))
  moreover have "c \<in> fst ` set deps0 \<longleftrightarrow> (\<exists>d. (c, d) \<in> set deps0)" by force
  ultimately show "c \<in> fst ` set deps \<longleftrightarrow> (\<exists>d. (c, Fetched d) \<in> set results)"
    by (simp only: deps0)
  show "c \<in> pf_chain ` set failures \<longleftrightarrow>
      (\<exists>r. (c, r) \<in> set results \<and> (r = MissingTransceiver \<or> (\<exists>m. r = FetchError m)))"
    by (simp only: out(2) failureOf_all)
  show "(c, d) \<in> set deps \<Longrightarrow> \<exists>d0. (c, Fetched d0) \<in> set results \<and> dp_local d = dp_local d0"
    by (auto simp: out(1) deps0)
qed

text \<open>
  \<open>pullDeployments\<close> accounts for every chain of the file: one without a manager address is
  skipped, every other is either among the deployments or among the failures and never in both;
  each deployment keeps the local configuration of its chain.
\<close>

theorem pullDeployments_accounts:
  assumes "pullDeployments sdk api file = Inr (deps, failures)" "distinct (map fst file)"
  shows "list_all (\<lambda>(c, conf).
           if cc_manager conf = None
           then c \<notin> fst ` set deps \<and> c \<notin> pf_chain ` set failures
           else (c \<in> fst ` set deps) \<noteq> (c \<in> pf_chain ` set failures)) file
       \<and> list_all (\<lambda>(c, d). dp_local d = map_of file c) deps"
proof -
  obtain results where r: "mapR (fetchDeployment sdk api file) file = Inr results"
    using assms(1) by (auto simp: pullDeployments_def andThen_eq_Inr)
  note parts = pullDeployments_results [OF assms r]
  have A: "if cc_manager conf = None then c \<notin> fst ` set deps \<and> c \<notin> pf_chain ` set failures
      else (c \<in> fst ` set deps) \<noteq> (c \<in> pf_chain ` set failures)" if h: "(c, conf) \<in> set file" for c conf
  proof -
    obtain x where x: "(\<forall>y. (c, y) \<in> set results \<longleftrightarrow> y = x) \<and> (x = MissingManager \<longleftrightarrow> cc_manager conf = None)"
      using result_of_chain [OF r assms(2) h] ..
    show ?thesis
      unfolding parts(1,2) x [THEN conjunct1, rule_format] using x [THEN conjunct2] by (cases x) simp_all
  qed
  have B: "dp_local d = map_of file c" if h: "(c, d) \<in> set deps" for c d
  proof -
    obtain d0 where d0: "(c, Fetched d0) \<in> set results" "dp_local d = dp_local d0"
      using parts(3) [OF h] by blast
    then obtain i where "i < length results" "results ! i = (c, Fetched d0)"
      by (auto simp: in_set_conv_nth)
    then show ?thesis
      using fetched_all [OF r] d0(2) by (cases "file ! i") (auto simp: list_all2_conv_all_nth dest!: spec [of _ i])
  qed
  show ?thesis
    unfolding list_all_iff by (intro conjI ballI; clarify; (erule A | erule B))
qed

theorem pullDeployments_accounts_witness:
  "\<exists>deps failures. pullDeployments exampleSdk exampleApi exampleFile = Inr (deps, failures)
     \<and> (''Sepolia'' \<in> fst ` set deps) \<noteq> (''Sepolia'' \<in> pf_chain ` set failures)
     \<and> ''Base'' \<notin> fst ` set deps"
proof -
  have "isOk (pullDeployments exampleSdk exampleApi exampleFile)" by code_simp
  then obtain deps failures where r: "pullDeployments exampleSdk exampleApi exampleFile = Inr (deps, failures)"
    by (auto simp: isOk_iff)
  have "distinct (map fst exampleFile)" by (simp add: exampleFile_def)
  from pullDeployments_accounts [OF r this] show ?thesis
    using r by (simp add: exampleFile_def)
qed

end
