(* ===== verification/Config_Diff.thy ===== *)
theory Config_Diff
  imports Js_Objects
begin

text \<open>
  The difference of two configurations, \<open>diffObjects\<close> of \<open>cli/src/diff.ts\<close>. Configurations are JSON
  values; an object is an association list in insertion order. The two objects compared come from
  different places, so an array of one is never identical (\<open>===\<close>) to a value of the other.
  A changed leaf is the object with the keys \<open>pull\<close> and \<open>push\<close>, a nested difference the object of
  the changed keys.
\<close>

section \<open>Definitions\<close>

datatype json_prim = JStr string | JNum rat | JBool bool | JNull

datatype json = JPrim json_prim | JArr "json list" | JObj "(string \<times> json) list"

type_synonym json_obj = "(string \<times> json) list"

definition strictEq :: "json \<Rightarrow> json \<Rightarrow> bool" where
  "strictEq v w = (case (v, w) of (JPrim p, JPrim q) \<Rightarrow> p = q | _ \<Rightarrow> False)"

definition isPathExcluded :: "string \<Rightarrow> string list \<Rightarrow> bool" where
  "isPathExcluded path excludedPaths = List.member excludedPaths path"

definition keyPath :: "string \<Rightarrow> string \<Rightarrow> string" where
  "keyPath currentPath key = (if currentPath \<noteq> [] then currentPath @ ''.'' @ key else key)"

definition isEmptyObject :: "json \<Rightarrow> bool" where
  "isEmptyObject v = (case v of JObj m \<Rightarrow> m = [] | _ \<Rightarrow> False)"

text \<open>The second loop: the keys of \<open>obj2\<close> that \<open>obj1\<close> does not have.\<close>

definition diffRight :: "string list \<Rightarrow> string \<Rightarrow> json_obj \<Rightarrow> json_obj \<Rightarrow> json_obj \<Rightarrow> json_obj" where
  "diffRight excludedPaths currentPath obj1 obj2 result =
     fold (\<lambda>(key, w) result.
       if map_of obj1 key \<noteq> None then result
       else if isPathExcluded (keyPath currentPath key) excludedPaths then result
       else AList.update key (JObj [(''pull'', w)]) result) obj2 result"

text \<open>The last loop: nested differences that are empty are removed.\<close>

definition prune :: "json_obj \<Rightarrow> json_obj" where
  "prune result = filter (\<lambda>(key, v). \<not> isEmptyObject v) result"

text \<open>The first loop, over the keys of \<open>obj1\<close>; the recursive call is written out.\<close>

fun diffLeft :: "string list \<Rightarrow> string \<Rightarrow> json_obj \<Rightarrow> json_obj \<Rightarrow> json_obj \<Rightarrow> json_obj" where
  "diffLeft excludedPaths currentPath [] obj2 result = result"
| "diffLeft excludedPaths currentPath ((key, v) # rest) obj2 result =
     (let path = keyPath currentPath key;
          result' =
            (if isPathExcluded path excludedPaths then result
             else (case map_of obj2 key of
                 Some w \<Rightarrow>
                   (case v of
                      JObj m1 \<Rightarrow>
                        (case w of
                           JObj m2 \<Rightarrow> AList.update key
                             (JObj (prune (diffRight excludedPaths path m1 m2
                                (diffLeft excludedPaths path m1 m2 [])))) result
                         | _ \<Rightarrow> AList.update key (JObj [(''pull'', w), (''push'', v)]) result)
                    | _ \<Rightarrow> if strictEq v w then result
                          else AList.update key (JObj [(''pull'', w), (''push'', v)]) result)
               | None \<Rightarrow> AList.update key (JObj [(''push'', v)]) result))
      in diffLeft excludedPaths currentPath rest obj2 result')"

definition diffObjects :: "string list \<Rightarrow> string \<Rightarrow> json_obj \<Rightarrow> json_obj \<Rightarrow> json_obj" where
  "diffObjects excludedPaths currentPath obj1 obj2 =
     prune (diffRight excludedPaths currentPath obj1 obj2
       (diffLeft excludedPaths currentPath obj1 obj2 []))"

section \<open>One key at a time\<close>

text \<open>What the two loops leave at a key, before pruning.\<close>

definition rawEntry :: "string list \<Rightarrow> string \<Rightarrow> string \<Rightarrow> json option \<Rightarrow> json option \<Rightarrow> json option" where
  "rawEntry excl path key v w =
     (if isPathExcluded (keyPath path key) excl then None
      else (case (v, w) of
        (None, None) \<Rightarrow> None
      | (Some v, None) \<Rightarrow> Some (JObj [(''push'', v)])
      | (None, Some w) \<Rightarrow> Some (JObj [(''pull'', w)])
      | (Some (JObj m1), Some (JObj m2)) \<Rightarrow> Some (JObj (diffObjects excl (keyPath path key) m1 m2))
      | (Some v, Some w) \<Rightarrow> if strictEq v w then None else Some (JObj [(''pull'', w), (''push'', v)])))"

lemma strictEq_JObj [simp]: "strictEq v (JObj m) = False" "strictEq (JObj m) v = False"
  by (cases v; simp add: strictEq_def)+

lemma rawEntry_None:
  "rawEntry excl path k None w =
     (if isPathExcluded (keyPath path k) excl then None
      else map_option (\<lambda>w. JObj [(''pull'', w)]) w)"
  by (cases w) (simp_all add: rawEntry_def)

lemma rawEntry_Some_None:
  "rawEntry excl path k (Some v) None =
     (if isPathExcluded (keyPath path k) excl then None else Some (JObj [(''push'', v)]))"
  by (cases v) (simp_all add: rawEntry_def)

lemma diffLeft_Cons:
  "diffLeft excl path ((key, v) # rest) o2 r = diffLeft excl path rest o2
     (case rawEntry excl path key (Some v) (map_of o2 key) of None \<Rightarrow> r | Some e \<Rightarrow> AList.update key e r)"
  by (auto simp: rawEntry_def Let_def diffObjects_def split: option.splits json.splits)

declare diffLeft.simps(2) [simp del]

lemma diffLeft_lookup:
  "distinct (map fst o1) \<Longrightarrow>
   map_of (diffLeft excl path o1 o2 r) k =
     (case map_of o1 k of None \<Rightarrow> map_of r k
      | Some v \<Rightarrow> (case rawEntry excl path k (Some v) (map_of o2 k) of None \<Rightarrow> map_of r k | Some e \<Rightarrow> Some e))"
proof (induction o1 arbitrary: r)
  case (Cons kv o1)
  obtain key v where kv: "kv = (key, v)" by force
  have new: "map_of o1 key = None" using Cons.prems kv by (auto simp: map_of_eq_None_iff)
  show ?case
    using Cons new by (auto simp: kv diffLeft_Cons update_conv' split: option.splits)
qed simp

lemma diffRight_lookup:
  "distinct (map fst o2) \<Longrightarrow>
   map_of (diffRight excl path o1 o2 r) k =
     (if map_of o1 k \<noteq> None \<or> map_of o2 k = None \<or> isPathExcluded (keyPath path k) excl
      then map_of r k else Some (JObj [(''pull'', the (map_of o2 k))]))"
proof (induction o2 arbitrary: r)
  case (Cons kv o2)
  obtain key w where kv: "kv = (key, w)" by force
  have new: "map_of o2 key = None" using Cons.prems kv by (auto simp: map_of_eq_None_iff)
  have step: "diffRight excl path o1 ((key, w) # o2) r = diffRight excl path o1 o2
      (if map_of o1 key \<noteq> None then r else if isPathExcluded (keyPath path key) excl then r
       else AList.update key (JObj [(''pull'', w)]) r)" for r
    by (simp add: diffRight_def)
  show ?case using Cons new by (auto simp: kv step update_conv')
qed (simp add: diffRight_def)

lemma distinct_update: "distinct (map fst r) \<Longrightarrow> distinct (map fst (AList.update k v r))"
  by (rule distinct_update)

lemma diffLeft_distinct: "distinct (map fst r) \<Longrightarrow> distinct (map fst (diffLeft excl path o1 o2 r))"
proof (induction o1 arbitrary: r)
  case (Cons kv o1)
  then show ?case by (cases kv) (auto simp: diffLeft_Cons distinct_update split: option.splits)
qed simp

lemma diffRight_distinct: "distinct (map fst r) \<Longrightarrow> distinct (map fst (diffRight excl path o1 o2 r))"
proof -
  have "distinct (map fst r) \<Longrightarrow> distinct (map fst (diffRight excl path o1 es r))" for es
    by (induction es arbitrary: r) (auto simp: diffRight_def distinct_update)
  then show "distinct (map fst r) \<Longrightarrow> distinct (map fst (diffRight excl path o1 o2 r))" .
qed

lemma prune_lookup:
  "distinct (map fst r) \<Longrightarrow> map_of (prune r) k =
     (case map_of r k of None \<Rightarrow> None | Some v \<Rightarrow> if isEmptyObject v then None else Some v)"
  by (induction r) (auto simp: prune_def map_of_eq_None_iff split: option.splits dest: map_of_SomeD)

definition nonEmpty :: "json option \<Rightarrow> json option" where
  "nonEmpty e = (case e of None \<Rightarrow> None | Some v \<Rightarrow> if isEmptyObject v then None else Some v)"

lemma diffObjects_lookup_gen:
  assumes "distinct (map fst obj1)" "distinct (map fst obj2)"
  shows "map_of (diffObjects excl path obj1 obj2) k =
    nonEmpty (rawEntry excl path k (map_of obj1 k) (map_of obj2 k))"
proof -
  let ?r = "diffRight excl path obj1 obj2 (diffLeft excl path obj1 obj2 [])"
  have "distinct (map fst ?r)" by (simp add: diffRight_distinct diffLeft_distinct)
  moreover have "map_of ?r k = rawEntry excl path k (map_of obj1 k) (map_of obj2 k)"
    by (cases "map_of obj1 k"; cases "map_of obj2 k")
      (simp_all add: diffRight_lookup diffLeft_lookup assms rawEntry_None rawEntry_Some_None
        split: option.splits)
  ultimately show ?thesis by (simp add: diffObjects_def prune_lookup nonEmpty_def)
qed

text \<open>
  C35. What \<open>diffObjects\<close> reports at a key depends on the values at that key alone: nothing when
  the path is excluded or the values are equal, both values when they differ, the side that has
  one when the other has none, and for two objects their difference unless it is empty.
\<close>

theorem diffObjects_lookup:
  assumes "distinct (map fst obj1)" "distinct (map fst obj2)"
  shows "map_of (diffObjects excl path obj1 obj2) k =
    nonEmpty (rawEntry excl path k (map_of obj1 k) (map_of obj2 k))"
  using assms by (rule diffObjects_lookup_gen)

section \<open>An empty difference\<close>

text \<open>The keys of every object in a value are distinct, as they are in JavaScript.\<close>

inductive uniqueKeys :: "json \<Rightarrow> bool" where
  prim: "uniqueKeys (JPrim p)"
| arr: "uniqueKeys (JArr vs)"
| obj: "distinct (map fst m) \<Longrightarrow> (\<And>k v. (k, v) \<in> set m \<Longrightarrow> uniqueKeys v) \<Longrightarrow> uniqueKeys (JObj m)"

inductive_cases uniqueKeys_JObj: "uniqueKeys (JObj m)"

text \<open>
  Agreement outside the excluded paths: equal primitive values, and objects that have the same keys
  with values that agree, the keys with an excluded path left aside.
\<close>

inductive agree :: "string list \<Rightarrow> string \<Rightarrow> json \<Rightarrow> json \<Rightarrow> bool" for excl where
  prim: "agree excl path (JPrim p) (JPrim p)"
| obj: "(\<And>k. isPathExcluded (keyPath path k) excl
          \<or> (map_of m1 k = None \<and> map_of m2 k = None)
          \<or> (\<exists>v w. map_of m1 k = Some v \<and> map_of m2 k = Some w \<and> agree excl (keyPath path k) v w))
        \<Longrightarrow> agree excl path (JObj m1) (JObj m2)"

inductive_simps agree_simps [simp]:
  "agree excl path (JPrim p) w" "agree excl path (JArr vs) w" "agree excl path (JObj m1) (JObj m2)"

inductive_simps agree_mixed [simp]:
  "agree excl path (JObj m1) (JPrim p)" "agree excl path (JObj m1) (JArr vs)"

lemma size_map_of: "map_of m k = Some v \<Longrightarrow> size v < size (JObj m)"
proof (induction m)
  case (Cons a m)
  then show ?case by (cases a) (auto split: if_splits)
qed simp

lemma map_of_none_iff: "m = [] \<longleftrightarrow> (\<forall>k. map_of m k = None)"
proof
  assume h: "\<forall>k. map_of m k = None"
  show "m = []" using h [rule_format, of "fst (hd m)"] by (cases m) auto
qed simp

lemma nonEmpty_rawEntry_None:
  assumes "\<And>m1 m2. v = Some (JObj m1) \<Longrightarrow> w = Some (JObj m2) \<Longrightarrow>
      diffObjects excl (keyPath path k) m1 m2 = [] \<longleftrightarrow> agree excl (keyPath path k) (JObj m1) (JObj m2)"
  shows "nonEmpty (rawEntry excl path k v w) = None \<longleftrightarrow>
     isPathExcluded (keyPath path k) excl \<or> (v = None \<and> w = None)
     \<or> (\<exists>v' w'. v = Some v' \<and> w = Some w' \<and> agree excl (keyPath path k) v' w')"
proof (cases "isPathExcluded (keyPath path k) excl")
  case False
  show ?thesis
  proof (cases v)
    case None
    then show ?thesis using False by (cases w) (simp_all add: rawEntry_None nonEmpty_def isEmptyObject_def)
  next
    case v: (Some x)
    show ?thesis
    proof (cases w)
      case None
      then show ?thesis using False v by (simp add: rawEntry_Some_None nonEmpty_def isEmptyObject_def)
    next
      case (Some y)
      then show ?thesis using False v assms
        by (cases x; cases y)
          (auto simp: rawEntry_def nonEmpty_def isEmptyObject_def strictEq_def simp del: agree_simps(3))
    qed
  qed
qed (simp add: rawEntry_def nonEmpty_def)

text \<open>
  \<open>diffObjects\<close> returns the empty object exactly when the two configurations agree outside the
  excluded paths; \<open>push\<close> and \<open>status\<close> take this as nothing to do.
\<close>

theorem diffObjects_empty_iff:
  assumes "uniqueKeys (JObj obj1)" "uniqueKeys (JObj obj2)"
  shows "diffObjects excl path obj1 obj2 = [] \<longleftrightarrow> agree excl path (JObj obj1) (JObj obj2)"
  using assms
proof (induction "size (JObj obj1)" arbitrary: obj1 obj2 path rule: less_induct)
  case less
  have d: "distinct (map fst obj1)" "distinct (map fst obj2)"
    using less.prems by (auto elim: uniqueKeys_JObj)
  have "nonEmpty (rawEntry excl path k (map_of obj1 k) (map_of obj2 k)) = None \<longleftrightarrow>
     isPathExcluded (keyPath path k) excl \<or> (map_of obj1 k = None \<and> map_of obj2 k = None)
     \<or> (\<exists>v w. map_of obj1 k = Some v \<and> map_of obj2 k = Some w \<and> agree excl (keyPath path k) v w)" for k
  proof (rule nonEmpty_rawEntry_None)
    fix m1 m2
    assume m: "map_of obj1 k = Some (JObj m1)" "map_of obj2 k = Some (JObj m2)"
    then have "uniqueKeys (JObj m1)" "uniqueKeys (JObj m2)"
      using less.prems by (auto elim!: uniqueKeys_JObj dest!: map_of_SomeD)
    then show "diffObjects excl (keyPath path k) m1 m2 = [] \<longleftrightarrow> agree excl (keyPath path k) (JObj m1) (JObj m2)"
      using size_map_of [OF m(1)] by (rule less.hyps [rotated])
  qed
  then show ?case by (simp add: map_of_none_iff [of "diffObjects excl path obj1 obj2"]
        diffObjects_lookup_gen [OF d])
qed

definition diffExample1 :: json_obj where
  "diffExample1 = [(''paused'', JPrim (JBool False)),
     (''limits'', JObj [(''outbound'', JPrim (JStr ''1.0''))]), (''managerVariant'', JPrim (JStr ''x''))]"

definition diffExample2 :: json_obj where
  "diffExample2 = [(''limits'', JObj [(''outbound'', JPrim (JStr ''1.0''))]), (''paused'', JPrim (JBool False))]"

theorem diffObjects_lookup_witness:
  "map_of (diffObjects [] [] diffExample1 diffExample2) ''managerVariant''
    = Some (JObj [(''push'', JPrim (JStr ''x''))])"
proof -
  have "distinct (map fst diffExample1)" "distinct (map fst diffExample2)"
    by (simp_all add: diffExample1_def diffExample2_def)
  from diffObjects_lookup [OF this, of "[]" "[]" "''managerVariant''"] show ?thesis
    by (simp add: diffExample1_def diffExample2_def rawEntry_Some_None keyPath_def
        isPathExcluded_def nonEmpty_def isEmptyObject_def)
qed

theorem diffObjects_empty_iff_witness:
  "diffObjects [''managerVariant''] [] diffExample1 diffExample2 = []
   \<and> agree [''managerVariant''] [] (JObj diffExample1) (JObj diffExample2)"
proof -
  have "uniqueKeys (JObj diffExample1)" "uniqueKeys (JObj diffExample2)"
    by (auto simp: diffExample1_def diffExample2_def intro!: uniqueKeys.intros)
  moreover have "diffObjects [''managerVariant''] [] diffExample1 diffExample2 = []" by code_simp
  ultimately show ?thesis using diffObjects_empty_iff by blast
qed

end
