(* ===== verification/Push.thy ===== *)
theory Push
  imports Config_Diff Ntt_Api
begin

text \<open>
  Writing a local configuration to the chain: \<open>pushDeployment\<close> of \<open>cli/src/config-mgmt.ts\<close>. The loop
  over the changed fields only collects transactions; an unsupported field ends the process before
  any is sent. Then the upgrade runs, then the collected transactions in order, and the change of
  owner last. \<open>parseUnits\<close> of ethers and \<open>toUniversal\<close> of the SDK are parameters, and so is the
  outcome of sending an action.
\<close>

section \<open>Definitions\<close>

datatype push_error = UnsupportedField string | PushThrown string

datatype action =
    Upgrade "json option" "json option"
  | SetPauser string
  | Pause
  | Unpause
  | SetOutboundLimit int
  | SetInboundLimit string int
  | SetThreshold json
  | SetTransceiverPauser string
  | SetOwner string
  | TransferOwnershipOneStep string
  | ProposeOwnershipTransfer string

record push_plan =
  pp_upgrade :: "action option"
  pp_txs :: "action list"
  pp_owner :: "action option"

record push_env =
  pe_sdk :: wormhole_sdk
  pe_parseUnits :: "string \<Rightarrow> nat \<Rightarrow> string + int"
  pe_chain :: string
  pe_decimals :: nat
  pe_oneStep :: bool

definition EXCLUDED_DIFF_PATHS :: "string list" where
  "EXCLUDED_DIFF_PATHS = [''managerVariant'']"

text \<open>\<open>v.field\<close> and \<open>v?.field\<close> of a JSON value, and the truth value of one.\<close>

definition getField :: "string \<Rightarrow> json option \<Rightarrow> json option" where
  "getField field v = (case v of Some (JObj m) \<Rightarrow> map_of m field | _ \<Rightarrow> None)"

definition truthy :: "json option \<Rightarrow> bool" where
  "truthy v = (case v of
      None \<Rightarrow> False
    | Some (JPrim (JStr s)) \<Rightarrow> s \<noteq> []
    | Some (JPrim (JNum n)) \<Rightarrow> n \<noteq> 0
    | Some (JPrim (JBool b)) \<Rightarrow> b
    | Some (JPrim JNull) \<Rightarrow> False
    | Some _ \<Rightarrow> True)"

definition universalOf :: "push_env \<Rightarrow> json option \<Rightarrow> push_error + string" where
  "universalOf env v = (case v of
      Some (JPrim (JStr s)) \<Rightarrow>
        (case toUniversal (pe_sdk env) (pe_chain env) s of Inl e \<Rightarrow> Inl (PushThrown e) | Inr a \<Rightarrow> Inr a)
    | _ \<Rightarrow> Inl (PushThrown ''not an address''))"

definition parseUnits :: "push_env \<Rightarrow> json option \<Rightarrow> push_error + int" where
  "parseUnits env v = (case v of
      Some (JPrim (JStr s)) \<Rightarrow>
        (case pe_parseUnits env s (pe_decimals env) of Inl e \<Rightarrow> Inl (PushThrown e) | Inr n \<Rightarrow> Inr n)
    | _ \<Rightarrow> Inl (PushThrown ''value must be a string''))"

definition keysOf :: "json option \<Rightarrow> (string \<times> json) list" where
  "keysOf v = (case v of Some (JObj m) \<Rightarrow> m | _ \<Rightarrow> [])"

definition ownerAction :: "push_env \<Rightarrow> json option \<Rightarrow> push_error + action" where
  "ownerAction env push =
     andThen (universalOf env push) (\<lambda>address.
       Inr (if chainToPlatform (pe_sdk env) (pe_chain env) = Solana
            then (if pe_oneStep env then TransferOwnershipOneStep address
                  else ProposeOwnershipTransfer address)
            else SetOwner address))"

definition inboundActions :: "push_env \<Rightarrow> string \<times> json \<Rightarrow> push_error + action list" where
  "inboundActions env entry =
     (let (chain, d) = entry in
      if \<not> isChain (pe_sdk env) chain then Inl (PushThrown chain)
      else (let newInbound = getField ''push'' (Some d) in
            if truthy newInbound
            then andThen (parseUnits env newInbound) (\<lambda>n. Inr [SetInboundLimit chain n])
            else Inr []))"

definition limitsActions :: "push_env \<Rightarrow> json \<Rightarrow> push_error + action list" where
  "limitsActions env v =
     (let newOutbound = getField ''push'' (getField ''outbound'' (Some v)) in
      andThen (if truthy newOutbound
               then andThen (parseUnits env newOutbound) (\<lambda>n. Inr [SetOutboundLimit n])
               else Inr []) (\<lambda>outboundTxs.
      andThen (mapR (inboundActions env) (keysOf (getField ''inbound'' (Some v)))) (\<lambda>inboundTxs.
      Inr (outboundTxs @ concat inboundTxs))))"

definition wormholeActions :: "push_env \<Rightarrow> string \<times> json \<Rightarrow> push_error + action list" where
  "wormholeActions env entry =
     (let (l, d) = entry in
      if l = ''pauser''
      then andThen (universalOf env (getField ''push'' (Some d))) (\<lambda>a. Inr [SetTransceiverPauser a])
      else Inl (UnsupportedField (''transceivers.wormhole.'' @ l)))"

definition transceiverActions :: "push_env \<Rightarrow> string \<times> json \<Rightarrow> push_error + action list" where
  "transceiverActions env entry =
     (let (j, d) = entry in
      if j = ''threshold''
      then (case getField ''push'' (Some d) of None \<Rightarrow> Inr [] | Some t \<Rightarrow> Inr [SetThreshold t])
      else if j = ''wormhole''
      then andThen (mapR (wormholeActions env) (keysOf (Some d))) (\<lambda>txs. Inr (concat txs))
      else Inl (UnsupportedField (''transceivers.'' @ j)))"

text \<open>The body of the loop over \<open>Object.keys(diff)\<close>.\<close>

definition planField :: "push_env \<Rightarrow> string \<times> json \<Rightarrow> push_plan \<Rightarrow> push_error + push_plan" where
  "planField env entry plan =
     (let (k, d) = entry;
          push = getField ''push'' (Some d);
          add = (\<lambda>txs. plan\<lparr>pp_txs := pp_txs plan @ txs\<rparr>)
      in if k = ''version''
         then Inr (plan\<lparr>pp_upgrade := Some (Upgrade (getField ''pull'' (Some d)) push)\<rparr>)
         else if k = ''owner''
         then andThen (ownerAction env push) (\<lambda>a. Inr (plan\<lparr>pp_owner := Some a\<rparr>))
         else if k = ''pauser''
         then andThen (universalOf env push) (\<lambda>a. Inr (add [SetPauser a]))
         else if k = ''paused''
         then Inr (add [if push = Some (JPrim (JBool True)) then Pause else Unpause])
         else if k = ''limits''
         then andThen (limitsActions env d) (\<lambda>txs. Inr (add txs))
         else if k = ''transceivers''
         then andThen (mapR (transceiverActions env) (keysOf (Some d))) (\<lambda>txs. Inr (add (concat txs)))
         else Inl (UnsupportedField k))"

definition planOf :: "push_env \<Rightarrow> json_obj \<Rightarrow> push_error + push_plan" where
  "planOf env diff =
     foldR (planField env) diff \<lparr>pp_upgrade = None, pp_txs = [], pp_owner = None\<rparr>"

definition planActions :: "push_plan \<Rightarrow> action list" where
  "planActions plan =
     (case pp_upgrade plan of None \<Rightarrow> [] | Some u \<Rightarrow> [u]) @ pp_txs plan @
     (case pp_owner plan of None \<Rightarrow> [] | Some a \<Rightarrow> [a])"

datatype push_outcome =
    NothingToPush
  | Declined
  | Refused push_error
  | SendFailed "action list" string
  | Pushed "action list"

text \<open>The actions are sent one after the other; the first that fails ends the run.\<close>

fun runActions :: "(action \<Rightarrow> string option) \<Rightarrow> action list \<Rightarrow> action list \<Rightarrow> push_outcome" where
  "runActions send sent [] = Pushed sent"
| "runActions send sent (a # as) =
     (case send a of Some e \<Rightarrow> SendFailed sent e | None \<Rightarrow> runActions send (sent @ [a]) as)"

definition pushDeployment :: "push_env \<Rightarrow> (action \<Rightarrow> string option) \<Rightarrow> bool \<Rightarrow> string list
    \<Rightarrow> json_obj \<Rightarrow> json_obj \<Rightarrow> push_outcome" where
  "pushDeployment env send yes input own_cfg remote =
     (let diff = diffObjects EXCLUDED_DIFF_PATHS [] own_cfg remote in
      if diff = [] then NothingToPush
      else if \<not> yes \<and> askForConfirmation input = None then Declined
      else (case planOf env diff of
              Inl e \<Rightarrow> Refused e
            | Inr plan \<Rightarrow> runActions send [] (planActions plan)))"

text \<open>The actions that took effect.\<close>

definition performed :: "push_outcome \<Rightarrow> action list" where
  "performed r = (case r of Pushed as \<Rightarrow> as | SendFailed as _ \<Rightarrow> as | _ \<Rightarrow> [])"

section \<open>Properties\<close>

definition isOwnership :: "action \<Rightarrow> bool" where
  "isOwnership a = (case a of SetOwner _ \<Rightarrow> True | TransferOwnershipOneStep _ \<Rightarrow> True
     | ProposeOwnershipTransfer _ \<Rightarrow> True | _ \<Rightarrow> False)"

definition isUpgrade :: "action \<Rightarrow> bool" where
  "isUpgrade a = (case a of Upgrade _ _ \<Rightarrow> True | _ \<Rightarrow> False)"

definition plain :: "action \<Rightarrow> bool" where
  "plain a = (\<not> isOwnership a \<and> \<not> isUpgrade a)"

lemma plain_simps [simp]:
  "plain (SetPauser x)" "plain Pause" "plain Unpause" "plain (SetOutboundLimit n)"
  "plain (SetInboundLimit x n)" "plain (SetThreshold t)" "plain (SetTransceiverPauser x)"
  by (simp_all add: plain_def isOwnership_def isUpgrade_def)

definition plan_ok :: "push_plan \<Rightarrow> bool" where
  "plan_ok p = (list_all plain (pp_txs p) \<and> (\<forall>u. pp_upgrade p = Some u \<longrightarrow> isUpgrade u)
     \<and> (\<forall>a. pp_owner p = Some a \<longrightarrow> isOwnership a))"

lemma mapR_plain:
  assumes "\<And>x ys. f x = Inr ys \<Longrightarrow> list_all plain ys" "mapR f xs = Inr zs"
  shows "list_all plain (concat zs)"
  using assms by (induction xs arbitrary: zs) (auto simp: andThen_eq_Inr)

lemma inboundActions_plain: "inboundActions env e = Inr as \<Longrightarrow> list_all plain as"
  by (auto simp: inboundActions_def andThen_eq_Inr Let_def split: prod.splits if_splits)

lemma inboundActions_mapR: "mapR (inboundActions env) xs = Inr zs \<Longrightarrow> list_all plain (concat zs)"
  by (erule mapR_plain [rotated]) (rule inboundActions_plain)

lemma limitsActions_plain: "limitsActions env v = Inr as \<Longrightarrow> list_all plain as"
  by (auto simp: limitsActions_def andThen_eq_Inr Let_def list_all_append
      intro: inboundActions_mapR split: if_splits)

lemma wormholeActions_plain: "wormholeActions env e = Inr as \<Longrightarrow> list_all plain as"
  by (auto simp: wormholeActions_def andThen_eq_Inr split: prod.splits if_splits)

lemma wormholeActions_mapR: "mapR (wormholeActions env) xs = Inr zs \<Longrightarrow> list_all plain (concat zs)"
  by (erule mapR_plain [rotated]) (rule wormholeActions_plain)

lemma transceiverActions_plain: "transceiverActions env e = Inr as \<Longrightarrow> list_all plain as"
  by (auto simp: transceiverActions_def andThen_eq_Inr Let_def split: prod.splits if_splits option.splits
      intro: wormholeActions_mapR)

lemma transceiverActions_mapR: "mapR (transceiverActions env) xs = Inr zs \<Longrightarrow> list_all plain (concat zs)"
  by (erule mapR_plain [rotated]) (rule transceiverActions_plain)

lemma ownerAction_ownership: "ownerAction env v = Inr a \<Longrightarrow> isOwnership a"
  by (auto simp: ownerAction_def andThen_eq_Inr isOwnership_def)

lemma planField_ok: "planField env e p = Inr p' \<Longrightarrow> plan_ok p \<Longrightarrow> plan_ok p'"
  by (auto simp: planField_def plan_ok_def andThen_eq_Inr Let_def split: prod.splits if_splits
      intro: limitsActions_plain ownerAction_ownership transceiverActions_mapR)
    (simp_all add: isUpgrade_def)

lemma planOf_ok: "planOf env diff = Inr p \<Longrightarrow> plan_ok p"
  unfolding planOf_def
  by (erule foldR_invariant [where I = plan_ok]) (simp_all add: plan_ok_def [of "\<lparr>pp_upgrade = _, pp_txs = _, pp_owner = _\<rparr>"] planField_ok)

lemma runActions_prefix: "\<exists>rest. sent @ as = performed (runActions send sent as) @ rest"
  by (induction send sent as rule: runActions.induct) (auto simp: performed_def split: option.splits)

lemma pushDeployment_performed:
  "performed (pushDeployment env send yes input own_cfg remote) = [] \<or>
   (\<exists>plan rest. planOf env (diffObjects EXCLUDED_DIFF_PATHS [] own_cfg remote) = Inr plan \<and>
      planActions plan = performed (pushDeployment env send yes input own_cfg remote) @ rest)"
  using runActions_prefix [of "[]" _ send]
  by (auto simp: pushDeployment_def performed_def Let_def split: sum.splits)

text \<open>
  C1. The order of a push: whatever fails on the way, an upgrade only ever is the first action and
  a change of owner only ever the last one, after every other change of the plan has been sent.
\<close>

theorem pushDeployment_order:
  "\<exists>up txs own. performed (pushDeployment env send yes input own_cfg remote) = up @ txs @ own
     \<and> list_all isUpgrade up \<and> length up \<le> 1 \<and> list_all plain txs
     \<and> list_all isOwnership own \<and> length own \<le> 1
     \<and> (own = [] \<or> (\<exists>plan. planOf env (diffObjects EXCLUDED_DIFF_PATHS [] own_cfg remote) = Inr plan
           \<and> performed (pushDeployment env send yes input own_cfg remote) = planActions plan))"
    (is "\<exists>up txs own. ?perf = _ \<and> _")
proof (cases "?perf = []")
  case False
  then obtain plan rest where p: "planOf env (diffObjects EXCLUDED_DIFF_PATHS [] own_cfg remote) = Inr plan"
    "planActions plan = ?perf @ rest"
    using pushDeployment_performed [of env send yes input own_cfg remote] by blast
  define up where "up = (case pp_upgrade plan of None \<Rightarrow> [] | Some u \<Rightarrow> [u])"
  define own where "own = (case pp_owner plan of None \<Rightarrow> [] | Some a \<Rightarrow> [a])"
  have parts: "?perf = take (length ?perf) up @ take (length ?perf - length up) (pp_txs plan)
      @ take (length ?perf - length up - length (pp_txs plan)) own"
    using arg_cong [OF p(2), of "take (length ?perf)"] by (simp add: planActions_def up_def own_def)
  have ok: "plan_ok plan" by (rule planOf_ok [OF p(1)])
  have up: "list_all isUpgrade up" "length up \<le> 1" and own: "list_all isOwnership own" "length own \<le> 1"
    using ok by (auto simp: plan_ok_def up_def own_def split: option.splits)
  have full: "?perf = planActions plan"
    if "take (length ?perf - length up - length (pp_txs plan)) own \<noteq> []"
  proof -
    have "length up + length (pp_txs plan) < length ?perf" using that by auto
    then have "length (planActions plan) \<le> length ?perf"
      using own(2) by (auto simp: planActions_def up_def own_def)
    then show ?thesis using p(2) by simp
  qed
  have "list_all plain (pp_txs plan)" using ok by (simp add: plan_ok_def)
  then show ?thesis
    using parts up own full p(1)
    by (intro exI [of _ "take (length ?perf) up"] exI [of _ "take (length ?perf - length up) (pp_txs plan)"]
        exI [of _ "take (length ?perf - length up - length (pp_txs plan)) own"])
      (auto simp: list_all_iff dest: in_set_takeD)
qed simp


definition supportedFields :: "string list" where
  "supportedFields = [''version'', ''owner'', ''pauser'', ''paused'', ''limits'', ''transceivers'']"

lemma foldR_ok_each:
  assumes "foldR f xs s = Inr s'" "x \<in> set xs"
  shows "\<exists>t t'. f x t = Inr t'"
  using assms by (induction xs arbitrary: s) (auto simp: andThen_eq_Inr)

text \<open>
  C3. A push is all or nothing as far as the fields go: if any field the chain cannot change
  differs (the mode, the manager, the token, a field the file should not have), nothing is sent,
  not even the changes of the other fields.
\<close>

theorem pushDeployment_unsupported:
  assumes "map_of (diffObjects EXCLUDED_DIFF_PATHS [] own_cfg remote) k = Some v"
    and "k \<notin> set supportedFields"
  shows "performed (pushDeployment env send yes input own_cfg remote) = []"
proof -
  have "planField env (k, v) p = Inl (UnsupportedField k)" for p
    using assms(2) by (simp add: planField_def supportedFields_def)
  then have "planOf env (diffObjects EXCLUDED_DIFF_PATHS [] own_cfg remote) \<noteq> Inr p" for p
    using foldR_ok_each [of "planField env" "diffObjects EXCLUDED_DIFF_PATHS [] own_cfg remote" _ p "(k, v)"]
      map_of_SomeD [OF assms(1)] by (auto simp: planOf_def)
  then show ?thesis
    using pushDeployment_performed [of env send yes input own_cfg remote] by blast
qed

text \<open>The plan only grows, and every changed field has its part in it.\<close>

definition plan_le :: "push_plan \<Rightarrow> push_plan \<Rightarrow> bool" where
  "plan_le p q = (set (pp_txs p) \<subseteq> set (pp_txs q) \<and> (pp_upgrade p \<noteq> None \<longrightarrow> pp_upgrade q \<noteq> None)
     \<and> (pp_owner p \<noteq> None \<longrightarrow> pp_owner q \<noteq> None))"

definition txsOf :: "push_env \<Rightarrow> string \<times> json \<Rightarrow> push_error + action list" where
  "txsOf env e =
     (let (k, d) = e; push = getField ''push'' (Some d) in
      if k = ''paused'' then Inr [if push = Some (JPrim (JBool True)) then Pause else Unpause]
      else if k = ''pauser'' then andThen (universalOf env push) (\<lambda>a. Inr [SetPauser a])
      else if k = ''limits'' then limitsActions env d
      else Inr [])"

definition contributes :: "push_env \<Rightarrow> string \<times> json \<Rightarrow> push_plan \<Rightarrow> bool" where
  "contributes env e p = (\<exists>txs. txsOf env e = Inr txs \<and> set txs \<subseteq> set (pp_txs p))"

lemma planField_grows: "planField env e p = Inr q \<Longrightarrow> plan_le p q \<and> contributes env e q"
  by (auto simp: planField_def plan_le_def contributes_def txsOf_def andThen_eq_Inr Let_def
      split: prod.splits if_splits)

lemma contributes_mono: "contributes env e p \<Longrightarrow> plan_le p q \<Longrightarrow> contributes env e q"
  unfolding contributes_def plan_le_def by (meson order_trans)

lemma foldR_contributes:
  "foldR (planField env) es p = Inr q \<Longrightarrow> plan_le p q \<and> list_all (\<lambda>e. contributes env e q) es"
proof (induction es arbitrary: p)
  case (Cons e es)
  obtain p1 where p1: "planField env e p = Inr p1" "foldR (planField env) es p1 = Inr q"
    using Cons.prems by (auto simp: andThen_eq_Inr)
  have "plan_le p p1" "contributes env e p1" using planField_grows [OF p1(1)] by blast+
  moreover have "plan_le p1 q" "list_all (\<lambda>e. contributes env e q) es" using Cons.IH [OF p1(2)] by blast+
  ultimately show ?case by (auto simp: plan_le_def intro: contributes_mono [unfolded plan_le_def])
qed (simp add: plan_le_def)

lemma pushed_contributes:
  assumes "pushDeployment env send yes input own_cfg remote = Pushed acts"
    and "map_of (diffObjects EXCLUDED_DIFF_PATHS [] own_cfg remote) k = Some v"
  shows "\<exists>plan. contributes env (k, v) plan \<and> set (pp_txs plan) \<subseteq> set acts"
proof -
  have ne: "diffObjects EXCLUDED_DIFF_PATHS [] own_cfg remote \<noteq> []" using assms(2) by auto
  then obtain plan where plan: "planOf env (diffObjects EXCLUDED_DIFF_PATHS [] own_cfg remote) = Inr plan"
    "runActions send [] (planActions plan) = Pushed acts"
    using assms(1) by (auto simp: pushDeployment_def Let_def split: if_splits sum.splits)
  have "runActions send sent as = Pushed acts \<Longrightarrow> acts = sent @ as" for sent as
    by (induction send sent as rule: runActions.induct) (auto split: option.splits)
  from this [OF plan(2)] have "set (pp_txs plan) \<subseteq> set acts" by (auto simp: planActions_def)
  moreover have "contributes env (k, v) plan"
    using foldR_contributes [OF plan(1) [unfolded planOf_def]] map_of_SomeD [OF assms(2)]
    by (auto simp: list_all_iff)
  ultimately show ?thesis by blast
qed

lemma keyPath_nil [simp]: "keyPath [] k = k"
  by (simp add: keyPath_def)

lemma excluded_iff: "isPathExcluded path EXCLUDED_DIFF_PATHS \<longleftrightarrow> path = ''managerVariant''"
  by (auto simp: isPathExcluded_def EXCLUDED_DIFF_PATHS_def)

lemma keyPath_not_excluded: "path \<noteq> [] \<Longrightarrow> CHR ''.'' \<in> set (keyPath path k)"
  by (simp add: keyPath_def)

lemma nested_not_excluded: "path \<noteq> [] \<Longrightarrow> \<not> isPathExcluded (keyPath path k) EXCLUDED_DIFF_PATHS"
  using keyPath_not_excluded [of path k] by (auto simp: excluded_iff)

lemma leaf_differs:
  assumes "distinct (map fst o1)" "distinct (map fst o2)"
    and "map_of o1 k = Some (JPrim p)" "map_of o2 k \<noteq> Some (JPrim p)"
    and "\<not> isPathExcluded (keyPath path k) EXCLUDED_DIFF_PATHS"
  shows "\<exists>e. map_of (diffObjects EXCLUDED_DIFF_PATHS path o1 o2) k = Some e \<and>
    getField ''push'' (Some e) = Some (JPrim p)"
  using assms
  by (cases "map_of o2 k")
    (auto simp: diffObjects_lookup_gen rawEntry_def nonEmpty_def isEmptyObject_def strictEq_def getField_def
      split: json.splits)

lemma object_differs:
  assumes "distinct (map fst o1)" "distinct (map fst o2)"
    and "map_of o1 k = Some (JObj m1)" "map_of o2 k = Some (JObj m2)"
    and "\<not> isPathExcluded (keyPath path k) EXCLUDED_DIFF_PATHS"
    and "map_of (diffObjects EXCLUDED_DIFF_PATHS (keyPath path k) m1 m2) k' = Some e"
  shows "map_of (diffObjects EXCLUDED_DIFF_PATHS path o1 o2) k =
    Some (JObj (diffObjects EXCLUDED_DIFF_PATHS (keyPath path k) m1 m2))"
  using assms by (auto simp: diffObjects_lookup_gen rawEntry_def nonEmpty_def isEmptyObject_def)

lemma uniqueKeys_nested:
  "uniqueKeys (JObj m) \<Longrightarrow> map_of m k = Some (JObj n) \<Longrightarrow> uniqueKeys (JObj n)"
  by (auto elim!: uniqueKeys_JObj dest!: map_of_SomeD)

lemma uniqueKeys_distinct: "uniqueKeys (JObj m) \<Longrightarrow> distinct (map fst m)"
  by (auto elim: uniqueKeys_JObj)

lemma limits_pushed:
  assumes "uniqueKeys (JObj own_cfg)" "uniqueKeys (JObj remote)"
    and "pushDeployment env send yes input own_cfg remote = Pushed acts"
    and "map_of own_cfg ''limits'' = Some (JObj l1)" "map_of remote ''limits'' = Some (JObj l2)"
    and "map_of (diffObjects EXCLUDED_DIFF_PATHS ''limits'' l1 l2) k = Some e"
  shows "\<exists>txs. limitsActions env (JObj (diffObjects EXCLUDED_DIFF_PATHS ''limits'' l1 l2)) = Inr txs \<and>
    set txs \<subseteq> set acts"
proof -
  have "map_of (diffObjects EXCLUDED_DIFF_PATHS [] own_cfg remote) ''limits'' =
      Some (JObj (diffObjects EXCLUDED_DIFF_PATHS ''limits'' l1 l2))"
    using assms(1,2,4,5,6) object_differs [of own_cfg remote "''limits''" l1 l2 "[]"]
    by (simp add: uniqueKeys_distinct excluded_iff)
  from pushed_contributes [OF assms(3) this] show ?thesis
    by (auto simp: contributes_def txsOf_def)
qed

lemma outbound_action:
  assumes "limitsActions env d = Inr txs" "getField ''push'' (getField ''outbound'' (Some d)) = Some (JPrim (JStr s))"
    "s \<noteq> []"
  shows "\<exists>n. pe_parseUnits env s (pe_decimals env) = Inr n \<and> SetOutboundLimit n \<in> set txs"
  using assms by (auto simp: limitsActions_def truthy_def andThen_eq_Inr parseUnits_def Let_def split: sum.splits)

lemma mapR_member: "mapR f xs = Inr ys \<Longrightarrow> x \<in> set xs \<Longrightarrow> \<exists>y. f x = Inr y \<and> y \<in> set ys"
  by (induction xs arbitrary: ys) (auto simp: andThen_eq_Inr)

lemma inbound_action:
  assumes "limitsActions env d = Inr txs" "(chain, e) \<in> set (keysOf (getField ''inbound'' (Some d)))"
    "getField ''push'' (Some e) = Some (JPrim (JStr s))" "s \<noteq> []"
  shows "\<exists>n. pe_parseUnits env s (pe_decimals env) = Inr n \<and> SetInboundLimit chain n \<in> set txs"
proof -
  obtain zs as where "mapR (inboundActions env) (keysOf (getField ''inbound'' (Some d))) = Inr zs"
      "txs = as @ concat zs"
    using assms(1) by (auto simp: limitsActions_def andThen_eq_Inr Let_def)
  with mapR_member [OF this(1) assms(2)] obtain ys where "inboundActions env (chain, e) = Inr ys" "set ys \<subseteq> set txs"
    by auto
  then show ?thesis using assms(3,4)
    by (auto simp: inboundActions_def truthy_def andThen_eq_Inr parseUnits_def Let_def split: sum.splits if_splits)
qed

text \<open>
  C2. A push that succeeds has changed what differed. Where both sides have limits, a local outbound
  limit and every local inbound limit that the chain does not have has been sent, in the token's
  units; a paused flag or a pauser the chain does not have has been set as the file says.
\<close>

theorem pushDeployment_covers:
  assumes "uniqueKeys (JObj own_cfg)" "uniqueKeys (JObj remote)"
    and "pushDeployment env send yes input own_cfg remote = Pushed acts"
  shows "(map_of own_cfg ''limits'' = Some (JObj l1) \<and> map_of remote ''limits'' = Some (JObj l2) \<and> s \<noteq> []
      \<longrightarrow> (map_of l1 ''outbound'' = Some (JPrim (JStr s)) \<and> map_of l2 ''outbound'' \<noteq> Some (JPrim (JStr s))
           \<longrightarrow> (\<exists>n. pe_parseUnits env s (pe_decimals env) = Inr n \<and> SetOutboundLimit n \<in> set acts)) \<and>
          (map_of l1 ''inbound'' = Some (JObj i1) \<and> map_of l2 ''inbound'' = Some (JObj i2) \<and>
           map_of i1 chain = Some (JPrim (JStr s)) \<and> map_of i2 chain \<noteq> Some (JPrim (JStr s))
           \<longrightarrow> (\<exists>n. pe_parseUnits env s (pe_decimals env) = Inr n \<and> SetInboundLimit chain n \<in> set acts)))
    \<and> (map_of own_cfg ''paused'' = Some (JPrim (JBool b)) \<and> map_of remote ''paused'' \<noteq> Some (JPrim (JBool b))
         \<longrightarrow> (if b then Pause else Unpause) \<in> set acts)
    \<and> (map_of own_cfg ''pauser'' = Some (JPrim (JStr a)) \<and> map_of remote ''pauser'' \<noteq> Some (JPrim (JStr a))
         \<longrightarrow> (\<exists>u. toUniversal (pe_sdk env) (pe_chain env) a = Inr u \<and> SetPauser u \<in> set acts))"
    (is "(?L \<longrightarrow> ?O \<and> ?I) \<and> (?P \<longrightarrow> ?pause) \<and> (?Q \<longrightarrow> ?pauser)")
proof (intro conjI impI)
  note top = leaf_differs [OF uniqueKeys_distinct [OF assms(1)] uniqueKeys_distinct [OF assms(2)]]
  note contributed = pushed_contributes [OF assms(3)]
  {
    assume L: ?L
    then have u: "uniqueKeys (JObj l1)" "uniqueKeys (JObj l2)" using assms(1,2) uniqueKeys_nested by blast+
    note dl = u [THEN uniqueKeys_distinct]
    note pushed = limits_pushed [OF assms, of l1 l2]
    {
      assume h: "map_of l1 ''outbound'' = Some (JPrim (JStr s)) \<and> map_of l2 ''outbound'' \<noteq> Some (JPrim (JStr s))"
      obtain e where e: "map_of (diffObjects EXCLUDED_DIFF_PATHS ''limits'' l1 l2) ''outbound'' = Some e"
        "getField ''push'' (Some e) = Some (JPrim (JStr s))"
        using leaf_differs [OF dl, of "''outbound''" "JStr s" "''limits''"] h nested_not_excluded by auto
      then show "\<exists>n. pe_parseUnits env s (pe_decimals env) = Inr n \<and> SetOutboundLimit n \<in> set acts"
        using pushed [OF _ _ e(1)] L outbound_action [of env _ _ s] by (force simp: getField_def [of "''outbound''"])
    next
      assume h: "map_of l1 ''inbound'' = Some (JObj i1) \<and> map_of l2 ''inbound'' = Some (JObj i2) \<and>
        map_of i1 chain = Some (JPrim (JStr s)) \<and> map_of i2 chain \<noteq> Some (JPrim (JStr s))"
      then have di: "distinct (map fst i1)" "distinct (map fst i2)"
        using u uniqueKeys_nested uniqueKeys_distinct by blast+
      let ?path = "keyPath ''limits'' ''inbound''"
      have "?path \<noteq> []" by (simp add: keyPath_def)
      then obtain e where e: "map_of (diffObjects EXCLUDED_DIFF_PATHS ?path i1 i2) chain = Some e"
        "getField ''push'' (Some e) = Some (JPrim (JStr s))"
        using leaf_differs [OF di, of chain "JStr s" ?path] h nested_not_excluded by blast
      have d: "map_of (diffObjects EXCLUDED_DIFF_PATHS ''limits'' l1 l2) ''inbound'' =
          Some (JObj (diffObjects EXCLUDED_DIFF_PATHS ?path i1 i2))"
        using object_differs [OF dl _ _ _ e(1)] h nested_not_excluded by simp
      show "\<exists>n. pe_parseUnits env s (pe_decimals env) = Inr n \<and> SetInboundLimit chain n \<in> set acts"
        using pushed [OF _ _ d] L e inbound_action [of env _ _ chain e s] map_of_SomeD [OF e(1)]
        by (force simp: getField_def [of "''inbound''"] keysOf_def d)
    }
  next
    assume ?P
    then obtain e where "map_of (diffObjects EXCLUDED_DIFF_PATHS [] own_cfg remote) ''paused'' = Some e"
      "getField ''push'' (Some e) = Some (JPrim (JBool b))"
      using top [of "''paused''" "JBool b" "[]"] by (auto simp: excluded_iff)
    then show ?pause using contributed by (fastforce simp: contributes_def txsOf_def)
  next
    assume ?Q
    then obtain e where "map_of (diffObjects EXCLUDED_DIFF_PATHS [] own_cfg remote) ''pauser'' = Some e"
      "getField ''push'' (Some e) = Some (JPrim (JStr a))"
      using top [of "''pauser''" "JStr a" "[]"] by (auto simp: excluded_iff)
    then show ?pauser
      using contributed by (fastforce simp: contributes_def txsOf_def andThen_eq_Inr universalOf_def split: sum.splits)
  }
qed


text \<open>A contract that is paused and has a lower limit than the file, and one in another mode.\<close>

definition pushEnv :: push_env where
  "pushEnv = \<lparr>pe_sdk = \<lparr>isChain = (\<lambda>_. True), chainToPlatform = (\<lambda>_. Evm), toUniversal = (\<lambda>_ a. Inr a),
       canonicalAddress = (\<lambda>_ a. a)\<rparr>,
     pe_parseUnits = (\<lambda>s d. Inr (int (length s))), pe_chain = ''Base'', pe_decimals = 1, pe_oneStep = False\<rparr>"

definition localLimits :: json_obj where
  "localLimits = [(''outbound'', JPrim (JStr ''10.0'')), (''inbound'', JObj [(''Solana'', JPrim (JStr ''5.000''))])]"

definition remoteLimits :: json_obj where
  "remoteLimits = [(''outbound'', JPrim (JStr ''9.0'')), (''inbound'', JObj [])]"

definition pushLocal :: json_obj where
  "pushLocal = [(''mode'', JPrim (JStr ''burning'')), (''paused'', JPrim (JBool False)),
     (''pauser'', JPrim (JStr ''Alice'')), (''limits'', JObj localLimits)]"

definition pushRemote :: "string \<Rightarrow> json_obj" where
  "pushRemote mode = [(''mode'', JPrim (JStr mode)), (''paused'', JPrim (JBool True)),
     (''limits'', JObj remoteLimits)]"

theorem pushDeployment_unsupported_witness:
  "performed (pushDeployment pushEnv (\<lambda>_. None) True [] pushLocal (pushRemote ''locking'')) = []
   \<and> diffObjects EXCLUDED_DIFF_PATHS [] pushLocal (pushRemote ''locking'') \<noteq> []"
proof -
  have m: "map_of (diffObjects EXCLUDED_DIFF_PATHS [] pushLocal (pushRemote ''locking'')) ''mode''
      = Some (JObj [(''pull'', JPrim (JStr ''locking'')), (''push'', JPrim (JStr ''burning''))])"
    by code_simp
  have "''mode'' \<notin> set supportedFields" by (simp add: supportedFields_def)
  from pushDeployment_unsupported [OF m this] show ?thesis using m by auto
qed

theorem pushDeployment_covers_witness:
  "\<exists>acts. pushDeployment pushEnv (\<lambda>_. None) True [] pushLocal (pushRemote ''burning'') = Pushed acts
     \<and> SetInboundLimit ''Solana'' 5 \<in> set acts \<and> Unpause \<in> set acts \<and> SetPauser ''Alice'' \<in> set acts"
proof -
  let ?acts = "[Unpause, SetPauser ''Alice'', SetOutboundLimit 4, SetInboundLimit ''Solana'' 5]"
  have "pushDeployment pushEnv (\<lambda>_. None) True [] pushLocal (pushRemote ''burning'') = Pushed ?acts"
    by code_simp
  moreover have "uniqueKeys (JObj pushLocal)" "uniqueKeys (JObj (pushRemote ''burning''))"
    by (auto simp: pushLocal_def pushRemote_def localLimits_def remoteLimits_def intro!: uniqueKeys.intros)
  ultimately show ?thesis
    using pushDeployment_covers [of pushLocal "pushRemote ''burning''" pushEnv "\<lambda>_. None" True "[]" ?acts
        localLimits remoteLimits "''5.000''" "[(''Solana'', JPrim (JStr ''5.000''))]" "[]" "''Solana''" False "''Alice''"]
    by (simp add: pushLocal_def pushRemote_def localLimits_def remoteLimits_def)
qed

end
