(* ===== verification/Missing_Config.thy ===== *)
theory Missing_Config
  imports Ntt_Api "HOL-Library.Multiset"
begin

text \<open>
  \<open>cli/src/validation.ts\<close>: the registrations a deployment misses (\<open>collectMissingConfigs\<close>) and the
  checks of command line flags. The tasks of pairs of chains run in the pool and write to shared
  objects; the model takes the order in which they settle as a parameter and the theorem holds for
  every order. Console output is left out, except for the mismatches, which are returned.
\<close>

section \<open>Definitions\<close>

record missing_peer =
  mp_chain :: string
  mp_address :: string
  mp_tokenDecimals :: nat
  mp_inboundLimit :: int

record missing_config =
  mi_managerPeers :: "missing_peer list"
  mi_transceiverPeers :: "(string \<times> string) list"
  mi_solanaWormholeTransceiver :: bool
  mi_solanaUpdateLUT :: bool

datatype mismatch =
    PeerAddressMismatch string string
  | PeerDecimalsMismatch string string
  | TransceiverPeerMismatch string string

datatype missing_error = MissingUnknownChain string | MissingThrown string | MissingSyntaxError string

record missing_state =
  ms_missing :: "(string \<times> missing_config) list"
  ms_counts :: "(string \<times> nat) list"
  ms_mismatches :: "mismatch list"

text \<open>The two checks that only Solana has: the registered transceiver's account and the lookup table.\<close>

record 'n solana_checks =
  sc_accountExists :: "'n \<Rightarrow> nat \<Rightarrow> string + bool"
  sc_lutUpToDate :: "'n \<Rightarrow> string + bool"

definition throwing :: "string + 'a \<Rightarrow> missing_error + 'a" where
  "throwing r = (case r of Inl e \<Rightarrow> Inl (MissingThrown e) | Inr v \<Rightarrow> Inr v)"

definition incr :: "string \<Rightarrow> (string \<times> nat) list \<Rightarrow> (string \<times> nat) list" where
  "incr chain counts =
     AList.update chain ((case map_of counts chain of None \<Rightarrow> 0 | Some n \<Rightarrow> n) + 1) counts"

definition initChain :: "wormhole_sdk \<Rightarrow> 'n solana_checks \<Rightarrow> string \<times> ('n, 't) deployment
    \<Rightarrow> missing_state \<Rightarrow> missing_error + missing_state" where
  "initChain sdk checks entry st =
     (let (fromChain, fromD) = entry in
      if \<not> isChain sdk fromChain then Inl (MissingUnknownChain fromChain)
      else
        (let none = \<lparr>mi_managerPeers = [], mi_transceiverPeers = [],
                     mi_solanaWormholeTransceiver = False, mi_solanaUpdateLUT = False\<rparr>;
             counts = AList.update fromChain 0 (ms_counts st)
         in if chainToPlatform sdk fromChain = Solana
            then andThen (throwing (retried 5 (sc_accountExists checks (dp_ntt fromD)))) (\<lambda>registered.
                 andThen (throwing (sc_lutUpToDate checks (dp_ntt fromD))) (\<lambda>upToDate.
                 let counts = (if \<not> registered then incr fromChain counts else counts);
                     counts = (if \<not> upToDate then incr fromChain counts else counts);
                     missing = none\<lparr>mi_solanaWormholeTransceiver := \<not> registered,
                                    mi_solanaUpdateLUT := \<not> upToDate\<rparr>
                 in Inr (st\<lparr>ms_missing := AList.update fromChain missing (ms_missing st),
                            ms_counts := counts\<rparr>)))
            else Inr (st\<lparr>ms_missing := AList.update fromChain none (ms_missing st),
                         ms_counts := counts\<rparr>)))"

record ('n, 't) pair_task =
  pt_fromChain :: string
  pt_toChain :: string
  pt_from :: "('n, 't) deployment"
  pt_to :: "('n, 't) deployment"

definition pairTasks :: "(string \<times> ('n, 't) deployment) list \<Rightarrow> ('n, 't) pair_task list" where
  "pairTasks entries =
     concat (map (\<lambda>(fromChain, fromD).
       map (\<lambda>(toChain, toD). \<lparr>pt_fromChain = fromChain, pt_toChain = toChain, pt_from = fromD, pt_to = toD\<rparr>)
         (filter (\<lambda>(toChain, toD). fromChain \<noteq> toChain) entries)) entries)"

text \<open>\<open>BigInt(from.config.local?.limits?.inbound?.[toChain]?.replace(/\./g, "") ?? 0)\<close>\<close>

definition configLimit :: "('n, 't) deployment \<Rightarrow> string \<Rightarrow> missing_error + int" where
  "configLimit fromD toChain =
     (case Option.bind (dp_local fromD) (\<lambda>c. inboundOf c toChain) of
        None \<Rightarrow> Inr 0
      | Some limit \<Rightarrow>
          (case parseBigInt (remove_char CHR ''.'' limit) of
             None \<Rightarrow> Inl (MissingSyntaxError limit) | Some n \<Rightarrow> Inr n))"

definition checkManagerPeer :: "('n, 't) ntt_api \<Rightarrow> ('n, 't) pair_task \<Rightarrow> missing_config \<Rightarrow> missing_state
    \<Rightarrow> missing_error + missing_state" where
  "checkManagerPeer api task missing st =
     (let fromChain = pt_fromChain task; toChain = pt_toChain task in
      andThen (throwing (retried 5 (getPeer api (dp_ntt (pt_from task)) toChain))) (\<lambda>peer.
      case peer of
        None \<Rightarrow>
          andThen (configLimit (pt_from task) toChain) (\<lambda>limit.
            Inr (st\<lparr>ms_counts := incr fromChain (ms_counts st),
                    ms_missing := AList.update fromChain
                      (missing\<lparr>mi_managerPeers := mi_managerPeers missing @
                         [\<lparr>mp_chain = toChain, mp_address = dp_manager (pt_to task),
                           mp_tokenDecimals = dp_decimals (pt_to task), mp_inboundLimit = limit\<rparr>]\<rparr>)
                      (ms_missing st)\<rparr>))
      | Some p \<Rightarrow>
          Inr (st\<lparr>ms_mismatches := ms_mismatches st @
                 (if pr_address p \<noteq> dp_manager (pt_to task)
                  then [PeerAddressMismatch fromChain toChain] else []) @
                 (if pr_tokenDecimals p \<noteq> dp_decimals (pt_to task)
                  then [PeerDecimalsMismatch fromChain toChain] else [])\<rparr>)))"

definition checkTransceiverPeer :: "('n, 't) ntt_api \<Rightarrow> ('n, 't) pair_task \<Rightarrow> missing_state
    \<Rightarrow> missing_error + missing_state" where
  "checkTransceiverPeer api task st =
     (let fromChain = pt_fromChain task; toChain = pt_toChain task in
      andThen (throwing (retried 5 (transceiverPeer api (dp_whTransceiver (pt_from task)) toChain))) (\<lambda>peer.
      andThen (throwing (transceiverAddress api (dp_whTransceiver (pt_to task)))) (\<lambda>address.
      case peer of
        None \<Rightarrow>
          (case map_of (ms_missing st) fromChain of
             None \<Rightarrow> Inr st
           | Some missing \<Rightarrow>
               Inr (st\<lparr>ms_counts := incr fromChain (ms_counts st),
                       ms_missing := AList.update fromChain
                         (missing\<lparr>mi_transceiverPeers := mi_transceiverPeers missing @ [(toChain, address)]\<rparr>)
                         (ms_missing st)\<rparr>))
      | Some p \<Rightarrow>
          Inr (if p \<noteq> address
               then st\<lparr>ms_mismatches := ms_mismatches st @ [TransceiverPeerMismatch fromChain toChain]\<rparr>
               else st))))"

definition runPairTask :: "('n, 't) ntt_api \<Rightarrow> ('n, 't) pair_task \<Rightarrow> missing_state
    \<Rightarrow> missing_error + missing_state" where
  "runPairTask api task st =
     (case map_of (ms_missing st) (pt_fromChain task) of
        None \<Rightarrow> Inr st
      | Some missing \<Rightarrow>
          andThen (checkManagerPeer api task missing st) (checkTransceiverPeer api task))"

definition keepCounted :: "missing_state \<Rightarrow> (string \<times> missing_config) list" where
  "keepCounted st =
     filter (\<lambda>(chain, _). 0 < (case map_of (ms_counts st) chain of None \<Rightarrow> 0 | Some n \<Rightarrow> n))
       (ms_missing st)"

text \<open>\<open>settled\<close> is the list of the pair tasks in the order in which the pool settles them.\<close>

definition collectMissingConfigs :: "wormhole_sdk \<Rightarrow> ('n, 't) ntt_api \<Rightarrow> 'n solana_checks
    \<Rightarrow> (string \<times> ('n, 't) deployment) list \<Rightarrow> ('n, 't) pair_task list
    \<Rightarrow> missing_error + ((string \<times> missing_config) list \<times> mismatch list)" where
  "collectMissingConfigs sdk api checks deps settled =
     andThen (foldR (initChain sdk checks) deps
         \<lparr>ms_missing = [], ms_counts = [], ms_mismatches = []\<rparr>) (\<lambda>st.
     andThen (foldR (runPairTask api) settled st) (\<lambda>st.
     Inr (keepCounted st, ms_mismatches st)))"


section \<open>What is reported\<close>

definition managerMissing :: "('n, 't) ntt_api \<Rightarrow> ('n, 't) pair_task \<Rightarrow> bool" where
  "managerMissing api t = (retried 5 (getPeer api (dp_ntt (pt_from t)) (pt_toChain t)) = Inr None)"

definition transceiverMissing :: "('n, 't) ntt_api \<Rightarrow> ('n, 't) pair_task \<Rightarrow> bool" where
  "transceiverMissing api t =
     (retried 5 (transceiverPeer api (dp_whTransceiver (pt_from t)) (pt_toChain t)) = Inr None)"

definition accountMissing :: "wormhole_sdk \<Rightarrow> 'n solana_checks \<Rightarrow> string \<Rightarrow> ('n, 't) deployment \<Rightarrow> bool" where
  "accountMissing sdk checks f d = (chainToPlatform sdk f = Solana
     \<and> retried 5 (sc_accountExists checks (dp_ntt d)) = Inr False)"

definition lutMissing :: "wormhole_sdk \<Rightarrow> 'n solana_checks \<Rightarrow> string \<Rightarrow> ('n, 't) deployment \<Rightarrow> bool" where
  "lutMissing sdk checks f d = (chainToPlatform sdk f = Solana
     \<and> sc_lutUpToDate checks (dp_ntt d) = Inr False)"

text \<open>The report of chain \<open>f\<close> when the tasks \<open>D\<close> have settled.\<close>

definition reported :: "wormhole_sdk \<Rightarrow> ('n, 't) ntt_api \<Rightarrow> 'n solana_checks \<Rightarrow> ('n, 't) pair_task set
    \<Rightarrow> string \<Rightarrow> ('n, 't) deployment \<Rightarrow> missing_config \<Rightarrow> bool" where
  "reported sdk api checks D f d m \<longleftrightarrow>
     mp_chain ` set (mi_managerPeers m) =
       pt_toChain ` {t \<in> D. pt_fromChain t = f \<and> managerMissing api t} \<and>
     fst ` set (mi_transceiverPeers m) =
       pt_toChain ` {t \<in> D. pt_fromChain t = f \<and> transceiverMissing api t} \<and>
     mi_solanaWormholeTransceiver m = accountMissing sdk checks f d \<and>
     mi_solanaUpdateLUT m = lutMissing sdk checks f d"

definition weight :: "missing_config \<Rightarrow> nat" where
  "weight m = length (mi_managerPeers m) + length (mi_transceiverPeers m) +
     (if mi_solanaWormholeTransceiver m then 1 else 0) + (if mi_solanaUpdateLUT m then 1 else 0)"

definition chain_inv :: "wormhole_sdk \<Rightarrow> ('n, 't) ntt_api \<Rightarrow> 'n solana_checks \<Rightarrow> ('n, 't) pair_task set
    \<Rightarrow> missing_state \<Rightarrow> string \<Rightarrow> ('n, 't) deployment \<Rightarrow> bool" where
  "chain_inv sdk api checks D st f d \<longleftrightarrow>
     (\<exists>m. map_of (ms_missing st) f = Some m \<and> reported sdk api checks D f d m
        \<and> map_of (ms_counts st) f = Some (weight m))"

lemma throwing_Inr: "throwing r = Inr v \<longleftrightarrow> r = Inr v"
  by (cases r) (simp_all add: throwing_def)

lemma map_of_incr: "map_of (incr c counts) f =
    (if f = c then Some ((case map_of counts c of None \<Rightarrow> 0 | Some n \<Rightarrow> n) + 1) else map_of counts f)"
  by (simp add: incr_def update_conv')

lemma initChain_result:
  assumes "initChain sdk checks (c, d) st = Inr st'"
  shows "\<exists>m. ms_missing st' = AList.update c m (ms_missing st) \<and>
    map_of (ms_counts st') = (map_of (ms_counts st))(c \<mapsto> weight m) \<and> reported sdk api checks {} c d m"
proof (cases "chainToPlatform sdk c = Solana")
  case True
  define X where "X reg = (if \<not> reg then incr c (AList.update c 0 (ms_counts st))
      else AList.update c 0 (ms_counts st))" for reg
  obtain reg up where r: "retried 5 (sc_accountExists checks (dp_ntt d)) = Inr reg"
    "sc_lutUpToDate checks (dp_ntt d) = Inr up"
    "ms_counts st' = (if \<not> up then incr c (X reg) else X reg)"
    "ms_missing st' = AList.update c \<lparr>mi_managerPeers = [], mi_transceiverPeers = [],
       mi_solanaWormholeTransceiver = \<not> reg, mi_solanaUpdateLUT = \<not> up\<rparr> (ms_missing st)"
    using assms True
    by (cases "isChain sdk c") (auto simp: initChain_def X_def Let_def andThen_eq_Inr throwing_Inr)
  then show ?thesis using True
    by (intro exI [of _ "\<lparr>mi_managerPeers = [], mi_transceiverPeers = [],
       mi_solanaWormholeTransceiver = \<not> reg, mi_solanaUpdateLUT = \<not> up\<rparr>"])
      (cases reg; cases up; simp add: X_def weight_def incr_def update_conv' reported_def
        accountMissing_def lutMissing_def)
next
  case False
  then have "st' = st\<lparr>ms_missing := AList.update c \<lparr>mi_managerPeers = [], mi_transceiverPeers = [],
       mi_solanaWormholeTransceiver = False, mi_solanaUpdateLUT = False\<rparr> (ms_missing st),
       ms_counts := AList.update c 0 (ms_counts st)\<rparr>"
    using assms by (cases "isChain sdk c") (simp_all add: initChain_def Let_def)
  then show ?thesis using False
    by (intro exI [of _ "\<lparr>mi_managerPeers = [], mi_transceiverPeers = [],
       mi_solanaWormholeTransceiver = False, mi_solanaUpdateLUT = False\<rparr>"])
      (simp add: weight_def update_conv' reported_def accountMissing_def lutMissing_def)
qed

lemma initChain_inv:
  assumes "initChain sdk checks (c, d) st = Inr st'"
  shows "chain_inv sdk api checks {} st' c d"
    and "f \<noteq> c \<Longrightarrow> map_of (ms_missing st') f = map_of (ms_missing st) f \<and>
      map_of (ms_counts st') f = map_of (ms_counts st) f"
    and "distinct (map fst (ms_missing st)) \<Longrightarrow> distinct (map fst (ms_missing st'))"
proof -
  obtain m n where st': "ms_missing st' = AList.update c m (ms_missing st)"
    "map_of (ms_counts st') = (map_of (ms_counts st))(c \<mapsto> weight m)" "reported sdk api checks {} c d m"
    using initChain_result [OF assms, of api] by blast
  show "chain_inv sdk api checks {} st' c d"
    using st' by (simp add: chain_inv_def update_conv')
  show "f \<noteq> c \<Longrightarrow> map_of (ms_missing st') f = map_of (ms_missing st) f \<and>
      map_of (ms_counts st') f = map_of (ms_counts st) f"
    using st' by (simp add: update_conv')
  show "distinct (map fst (ms_missing st)) \<Longrightarrow> distinct (map fst (ms_missing st'))"
    using st'(1) by (simp add: distinct_update)
qed

lemma chain_inv_cong:
  "map_of (ms_missing st') f = map_of (ms_missing st) f \<Longrightarrow>
   map_of (ms_counts st') f = map_of (ms_counts st) f \<Longrightarrow>
   chain_inv sdk api checks D st' f d = chain_inv sdk api checks D st f d"
  by (simp add: chain_inv_def)

lemma foldR_initChain:
  "foldR (initChain sdk checks) deps st = Inr st' \<Longrightarrow> distinct (map fst deps) \<Longrightarrow>
   (\<forall>f d. (f, d) \<in> set deps \<longrightarrow> chain_inv sdk api checks {} st' f d) \<and>
   (\<forall>f. f \<notin> fst ` set deps \<longrightarrow> map_of (ms_missing st') f = map_of (ms_missing st) f \<and>
      map_of (ms_counts st') f = map_of (ms_counts st) f)"
proof (induction deps arbitrary: st)
  case (Cons e deps)
  obtain c d where e: "e = (c, d)" by force
  obtain st1 where s: "initChain sdk checks (c, d) st = Inr st1" "foldR (initChain sdk checks) deps st1 = Inr st'"
    using Cons.prems(1) by (auto simp: e andThen_eq_Inr)
  have IH: "(f, d) \<in> set deps \<Longrightarrow> chain_inv sdk api checks {} st' f d"
    "f \<notin> fst ` set deps \<Longrightarrow> map_of (ms_missing st') f = map_of (ms_missing st1) f \<and>
      map_of (ms_counts st') f = map_of (ms_counts st1) f" for f d
    using Cons.IH [OF s(2)] Cons.prems(2) by auto
  have "c \<notin> fst ` set deps" using Cons.prems(2) e by auto
  then have "chain_inv sdk api checks {} st' c d"
    using initChain_inv(1) [OF s(1)] IH(2) [of c] chain_inv_cong by metis
  then show ?case using IH initChain_inv(2) [OF s(1)] by (auto simp: e)
qed simp


lemma checkManagerPeer_result:
  assumes "checkManagerPeer api t m st = Inr st'" "map_of (ms_missing st) (pt_fromChain t) = Some m"
    and "map_of (ms_counts st) (pt_fromChain t) = Some (weight m)"
  shows "\<exists>m'. map_of (ms_missing st') = (map_of (ms_missing st))(pt_fromChain t \<mapsto> m') \<and>
      map_of (ms_counts st') = (map_of (ms_counts st))(pt_fromChain t \<mapsto> weight m') \<and>
      mp_chain ` set (mi_managerPeers m') = mp_chain ` set (mi_managerPeers m) \<union>
        (if managerMissing api t then {pt_toChain t} else {}) \<and>
      m' = m\<lparr>mi_managerPeers := mi_managerPeers m'\<rparr>"
    and "distinct (map fst (ms_missing st)) \<Longrightarrow> distinct (map fst (ms_missing st'))"
proof -
  obtain peer where p: "retried 5 (getPeer api (dp_ntt (pt_from t)) (pt_toChain t)) = Inr peer"
    using assms(1) by (auto simp: checkManagerPeer_def Let_def andThen_eq_Inr throwing_Inr)
  have "(\<exists>m'. map_of (ms_missing st') = (map_of (ms_missing st))(pt_fromChain t \<mapsto> m') \<and>
      map_of (ms_counts st') = (map_of (ms_counts st))(pt_fromChain t \<mapsto> weight m') \<and>
      mp_chain ` set (mi_managerPeers m') = mp_chain ` set (mi_managerPeers m) \<union>
        (if managerMissing api t then {pt_toChain t} else {}) \<and>
      m' = m\<lparr>mi_managerPeers := mi_managerPeers m'\<rparr>) \<and>
    (distinct (map fst (ms_missing st)) \<longrightarrow> distinct (map fst (ms_missing st')))"
  proof (cases peer)
    case None
    obtain l where l: "configLimit (pt_from t) (pt_toChain t) = Inr l"
      using assms(1) p None by (auto simp: checkManagerPeer_def Let_def andThen_eq_Inr throwing_def)
    define m' where "m' = m\<lparr>mi_managerPeers := mi_managerPeers m @
       [\<lparr>mp_chain = pt_toChain t, mp_address = dp_manager (pt_to t),
         mp_tokenDecimals = dp_decimals (pt_to t), mp_inboundLimit = l\<rparr>]\<rparr>"
    have st': "ms_missing st' = AList.update (pt_fromChain t) m' (ms_missing st)"
      "ms_counts st' = incr (pt_fromChain t) (ms_counts st)"
      using assms(1) p None l
      by (auto simp: checkManagerPeer_def Let_def throwing_def m'_def)
    have "map_of (ms_counts st') = (map_of (ms_counts st))(pt_fromChain t \<mapsto> weight m')"
      using assms(3) by (intro ext) (simp add: st' map_of_incr weight_def m'_def)
    then show ?thesis using p None
      by (intro conjI exI [of _ m'])
        (auto simp: st'(1) update_conv' managerMissing_def m'_def distinct_update)
  next
    case (Some q)
    then have "ms_missing st' = ms_missing st" "ms_counts st' = ms_counts st"
      using assms(1) p by (auto simp: checkManagerPeer_def Let_def throwing_def)
    then show ?thesis using p Some assms(2,3)
      by (intro conjI exI [of _ m]) (auto simp: managerMissing_def fun_upd_idem)
  qed
  then show "\<exists>m'. map_of (ms_missing st') = (map_of (ms_missing st))(pt_fromChain t \<mapsto> m') \<and>
      map_of (ms_counts st') = (map_of (ms_counts st))(pt_fromChain t \<mapsto> weight m') \<and>
      mp_chain ` set (mi_managerPeers m') = mp_chain ` set (mi_managerPeers m) \<union>
        (if managerMissing api t then {pt_toChain t} else {}) \<and>
      m' = m\<lparr>mi_managerPeers := mi_managerPeers m'\<rparr>"
    and "distinct (map fst (ms_missing st)) \<Longrightarrow> distinct (map fst (ms_missing st'))" by blast+
qed

lemma checkTransceiverPeer_result:
  assumes "checkTransceiverPeer api t st = Inr st'" "map_of (ms_missing st) (pt_fromChain t) = Some m"
    and "map_of (ms_counts st) (pt_fromChain t) = Some (weight m)"
  shows "\<exists>m'. map_of (ms_missing st') = (map_of (ms_missing st))(pt_fromChain t \<mapsto> m') \<and>
      map_of (ms_counts st') = (map_of (ms_counts st))(pt_fromChain t \<mapsto> weight m') \<and>
      fst ` set (mi_transceiverPeers m') = fst ` set (mi_transceiverPeers m) \<union>
        (if transceiverMissing api t then {pt_toChain t} else {}) \<and>
      m' = m\<lparr>mi_transceiverPeers := mi_transceiverPeers m'\<rparr> \<and>
      (distinct (map fst (ms_missing st)) \<longrightarrow> distinct (map fst (ms_missing st')))"
proof -
  obtain peer a where p: "retried 5 (transceiverPeer api (dp_whTransceiver (pt_from t)) (pt_toChain t)) = Inr peer"
    "transceiverAddress api (dp_whTransceiver (pt_to t)) = Inr a"
    using assms(1) by (auto simp: checkTransceiverPeer_def Let_def andThen_eq_Inr throwing_Inr)
  show ?thesis
  proof (cases peer)
    case None
    define m' where "m' = m\<lparr>mi_transceiverPeers := mi_transceiverPeers m @ [(pt_toChain t, a)]\<rparr>"
    have st': "ms_missing st' = AList.update (pt_fromChain t) m' (ms_missing st)"
      "ms_counts st' = incr (pt_fromChain t) (ms_counts st)"
      using assms(1,2) p None by (auto simp: checkTransceiverPeer_def Let_def throwing_def m'_def)
    have "map_of (ms_counts st') = (map_of (ms_counts st))(pt_fromChain t \<mapsto> weight m')"
      using assms(3) by (intro ext) (simp add: st' map_of_incr weight_def m'_def)
    then show ?thesis using p None
      by (intro exI [of _ m'])
        (auto simp: st'(1) update_conv' transceiverMissing_def m'_def distinct_update)
  next
    case (Some q)
    then have "ms_missing st' = ms_missing st" "ms_counts st' = ms_counts st"
      using assms(1) p by (auto simp: checkTransceiverPeer_def Let_def throwing_def)
    then show ?thesis using p Some assms(2,3)
      by (intro exI [of _ m]) (auto simp: transceiverMissing_def fun_upd_idem)
  qed
qed


lemma pairs_insert:
  "pt_toChain ` {x \<in> insert t D. pt_fromChain x = f \<and> P x} =
   pt_toChain ` {x \<in> D. pt_fromChain x = f \<and> P x} \<union> (if pt_fromChain t = f \<and> P t then {pt_toChain t} else {})"
  by auto

lemma runPairTask_inv:
  assumes run: "runPairTask api t st = Inr st'"
    and known: "(pt_fromChain t, d0) \<in> set deps"
    and inv: "\<And>f d. (f, d) \<in> set deps \<Longrightarrow> chain_inv sdk api checks D st f d"
    and f: "(f, d) \<in> set deps"
  shows "chain_inv sdk api checks (insert t D) st' f d
    \<and> (distinct (map fst (ms_missing st)) \<longrightarrow> distinct (map fst (ms_missing st')))"
proof -
  let ?c = "pt_fromChain t"
  obtain m where m: "map_of (ms_missing st) ?c = Some m" "map_of (ms_counts st) ?c = Some (weight m)"
    using inv [OF known] by (auto simp: chain_inv_def)
  obtain st1 where s: "checkManagerPeer api t m st = Inr st1" "checkTransceiverPeer api t st1 = Inr st'"
    using run m(1) by (auto simp: runPairTask_def andThen_eq_Inr)
  obtain m1 where m1: "map_of (ms_missing st1) = (map_of (ms_missing st))(?c \<mapsto> m1)"
    "map_of (ms_counts st1) = (map_of (ms_counts st))(?c \<mapsto> weight m1)"
    "mp_chain ` set (mi_managerPeers m1) = mp_chain ` set (mi_managerPeers m) \<union>
        (if managerMissing api t then {pt_toChain t} else {})"
    "m1 = m\<lparr>mi_managerPeers := mi_managerPeers m1\<rparr>"
    using checkManagerPeer_result(1) [OF s(1) m] by blast
  obtain m2 where m2: "map_of (ms_missing st') = (map_of (ms_missing st1))(?c \<mapsto> m2)"
    "map_of (ms_counts st') = (map_of (ms_counts st1))(?c \<mapsto> weight m2)"
    "fst ` set (mi_transceiverPeers m2) = fst ` set (mi_transceiverPeers m1) \<union>
        (if transceiverMissing api t then {pt_toChain t} else {})"
    "m2 = m1\<lparr>mi_transceiverPeers := mi_transceiverPeers m2\<rparr>"
    "distinct (map fst (ms_missing st1)) \<longrightarrow> distinct (map fst (ms_missing st'))"
    using checkTransceiverPeer_result [OF s(2), of m1] m1(1,2) by auto
  have fields: "mi_managerPeers m2 = mi_managerPeers m1"
    "mi_transceiverPeers m1 = mi_transceiverPeers m"
    "mi_solanaWormholeTransceiver m2 = mi_solanaWormholeTransceiver m"
    "mi_solanaUpdateLUT m2 = mi_solanaUpdateLUT m"
    using arg_cong [OF m2(4), of mi_managerPeers] arg_cong [OF m1(4), of mi_transceiverPeers]
      arg_cong [OF m2(4), of mi_solanaWormholeTransceiver] arg_cong [OF m1(4), of mi_solanaWormholeTransceiver]
      arg_cong [OF m2(4), of mi_solanaUpdateLUT] arg_cong [OF m1(4), of mi_solanaUpdateLUT]
    by simp_all
  have "chain_inv sdk api checks (insert t D) st' f d"
  proof (cases "f = ?c")
    case True
    have "reported sdk api checks D f d m"
      using inv [OF f] m(1) True by (auto simp: chain_inv_def)
    then have "reported sdk api checks (insert t D) f d m2"
      using m1(3) m2(3) True unfolding reported_def pairs_insert by (simp add: fields)
    then show ?thesis using True m2(1,2) by (auto simp: chain_inv_def)
  next
    case False
    then have "reported sdk api checks (insert t D) f d x = reported sdk api checks D f d x" for x
      unfolding reported_def pairs_insert by simp
    then show ?thesis using inv [OF f] False m1(1,2) m2(1,2) by (simp add: chain_inv_def)
  qed
  then show ?thesis using m2(5) checkManagerPeer_result(2) [OF s(1) m] by blast
qed

lemma foldR_runPairTask:
  assumes "foldR (runPairTask api) ts st = Inr st'"
    "\<And>t. t \<in> set ts \<Longrightarrow> \<exists>d. (pt_fromChain t, d) \<in> set deps"
    "\<And>f d. (f, d) \<in> set deps \<Longrightarrow> chain_inv sdk api checks D st f d"
    "distinct (map fst (ms_missing st))"
  shows "(\<forall>f d. (f, d) \<in> set deps \<longrightarrow> chain_inv sdk api checks (D \<union> set ts) st' f d)
    \<and> distinct (map fst (ms_missing st'))"
  using assms
proof (induction ts arbitrary: st D)
  case (Cons t ts)
  obtain st1 where s: "runPairTask api t st = Inr st1" "foldR (runPairTask api) ts st1 = Inr st'"
    using Cons.prems(1) by (auto simp: andThen_eq_Inr)
  obtain d0 where d0: "(pt_fromChain t, d0) \<in> set deps" using Cons.prems(2) by auto
  note step = runPairTask_inv [OF s(1) d0 Cons.prems(3)]
  have "(\<forall>f d. (f, d) \<in> set deps \<longrightarrow> chain_inv sdk api checks (insert t D \<union> set ts) st' f d)
    \<and> distinct (map fst (ms_missing st'))"
    using step d0 Cons.prems(2,4) by (intro Cons.IH [OF s(2)]) auto
  then show ?case by simp
qed simp

lemma pairTasks_known: "t \<in> set (pairTasks deps) \<Longrightarrow> \<exists>d. (pt_fromChain t, d) \<in> set deps"
  by (force simp: pairTasks_def)

lemma foldR_initChain_distinct:
  "foldR (initChain sdk checks) deps st = Inr st' \<Longrightarrow> distinct (map fst (ms_missing st)) \<Longrightarrow>
   distinct (map fst (ms_missing st'))"
  by (erule foldR_invariant) (auto dest: initChain_inv(3))

lemma weight_pos: "0 < weight m \<longleftrightarrow> mi_managerPeers m \<noteq> [] \<or> mi_transceiverPeers m \<noteq> []
    \<or> mi_solanaWormholeTransceiver m \<or> mi_solanaUpdateLUT m"
  by (auto simp: weight_def)

text \<open>
  C5. \<open>collectMissingConfigs\<close> reports exactly what is missing, whatever the order in which the pool
  settles the tasks: a chain is in the result if and only if one of its queries found nothing, and
  its report names exactly the chains without a manager peer, the chains without a transceiver
  peer, and the two Solana checks that failed.
\<close>

theorem collectMissingConfigs_exact:
  assumes "distinct (map fst deps)" "mset settled = mset (pairTasks deps)"
    and "collectMissingConfigs sdk api checks deps settled = Inr (missing, mismatches)"
    and "(f, d) \<in> set deps"
  shows "(f \<in> fst ` set missing) =
      (accountMissing sdk checks f d \<or> lutMissing sdk checks f d \<or>
       list_ex (\<lambda>t. pt_fromChain t = f \<and> (managerMissing api t \<or> transceiverMissing api t)) (pairTasks deps))
    \<and> (case map_of missing f of None \<Rightarrow> True | Some m \<Rightarrow>
         reported sdk api checks (set (pairTasks deps)) f d m)"
proof -
  have tasks: "set settled = set (pairTasks deps)" using assms(2) by (rule mset_eq_setD)
  obtain st1 st2 where s: "foldR (initChain sdk checks) deps
       \<lparr>ms_missing = [], ms_counts = [], ms_mismatches = []\<rparr> = Inr st1"
    "foldR (runPairTask api) settled st1 = Inr st2" "missing = keepCounted st2"
    using assms(3) by (auto simp: collectMissingConfigs_def andThen_eq_Inr)
  have "distinct (map fst (ms_missing st1))" by (rule foldR_initChain_distinct [OF s(1)]) simp
  moreover have "chain_inv sdk api checks {} st1 f d" if "(f, d) \<in> set deps" for f d
    using foldR_initChain [OF s(1) assms(1)] that by blast
  moreover have "\<exists>d. (pt_fromChain t, d) \<in> set deps" if "t \<in> set settled" for t
    using that pairTasks_known by (simp add: tasks)
  ultimately have inv: "chain_inv sdk api checks (set (pairTasks deps)) st2 f d"
    and dist: "distinct (map fst (ms_missing st2))"
    using foldR_runPairTask [OF s(2), of deps sdk checks "{}"] assms(4) by (auto simp: tasks)
  then obtain m where m: "map_of (ms_missing st2) f = Some m" "map_of (ms_counts st2) f = Some (weight m)"
    "reported sdk api checks (set (pairTasks deps)) f d m" by (auto simp: chain_inv_def)
  have "map_of missing f = (if 0 < weight m then Some m else None)"
    using m(1,2) by (simp add: s(3) keepCounted_def map_of_filter_distinct [OF dist])
  moreover have "f \<in> fst ` set missing \<longleftrightarrow> map_of missing f \<noteq> None"
    by (simp add: map_of_eq_None_iff)
  moreover have "0 < weight m \<longleftrightarrow> (accountMissing sdk checks f d \<or> lutMissing sdk checks f d \<or>
       list_ex (\<lambda>t. pt_fromChain t = f \<and> (managerMissing api t \<or> transceiverMissing api t)) (pairTasks deps))"
  proof -
    let ?M = "{t \<in> set (pairTasks deps). pt_fromChain t = f \<and> managerMissing api t}"
    let ?T = "{t \<in> set (pairTasks deps). pt_fromChain t = f \<and> transceiverMissing api t}"
    have "mp_chain ` set (mi_managerPeers m) = {} \<longleftrightarrow> pt_toChain ` ?M = {}"
      "fst ` set (mi_transceiverPeers m) = {} \<longleftrightarrow> pt_toChain ` ?T = {}"
      using m(3) unfolding reported_def by (simp_all only:)
    then have "mi_managerPeers m = [] \<longleftrightarrow> ?M = {}" "mi_transceiverPeers m = [] \<longleftrightarrow> ?T = {}"
      unfolding image_is_empty set_empty .
    moreover have "mi_solanaWormholeTransceiver m = accountMissing sdk checks f d"
      "mi_solanaUpdateLUT m = lutMissing sdk checks f d"
      using m(3) by (simp_all only: reported_def)
    ultimately show ?thesis unfolding weight_pos list_ex_iff by auto
  qed
  ultimately show ?thesis using m(3) by simp
qed


definition exampleDeps :: "(string \<times> (string, string) deployment) list" where
  "exampleDeps = map (\<lambda>c. (c, \<lparr>dp_ntt = c, dp_whTransceiver = c, dp_decimals = 1, dp_manager = c,
     dp_remote = None, dp_local = None\<rparr>)) [''Sepolia'', ''Base'']"

definition unpeeredApi :: "(string, string) ntt_api" where
  "unpeeredApi = exampleApi\<lparr>getPeer := (\<lambda>n c _. if n = ''Sepolia'' then Inr None
     else Inr (Some \<lparr>pr_address = c, pr_tokenDecimals = 2, pr_inboundLimit = 0\<rparr>)),
     transceiverPeer := (\<lambda>t c _. Inr (Some (''wh-'' @ c)))\<rparr>"

theorem collectMissingConfigs_exact_witness:
  "\<exists>missing. collectMissingConfigs exampleSdk unpeeredApi \<lparr>sc_accountExists = (\<lambda>_ _. Inr True),
        sc_lutUpToDate = (\<lambda>_. Inr True)\<rparr> exampleDeps (rev (pairTasks exampleDeps))
      = Inr (missing, [PeerDecimalsMismatch ''Base'' ''Sepolia''])
    \<and> ''Sepolia'' \<in> fst ` set missing"
proof -
  let ?checks = "\<lparr>sc_accountExists = (\<lambda>_ _. Inr True), sc_lutUpToDate = (\<lambda>_. Inr True)\<rparr>
      :: string solana_checks"
  have "case collectMissingConfigs exampleSdk unpeeredApi ?checks exampleDeps (rev (pairTasks exampleDeps))
      of Inr (missing, ms) \<Rightarrow> ms = [PeerDecimalsMismatch ''Base'' ''Sepolia''] | _ \<Rightarrow> False"
    by code_simp
  then obtain missing where r: "collectMissingConfigs exampleSdk unpeeredApi ?checks exampleDeps
      (rev (pairTasks exampleDeps)) = Inr (missing, [PeerDecimalsMismatch ''Base'' ''Sepolia''])"
    by (auto split: sum.splits)
  have d: "distinct (map fst exampleDeps)" by (simp add: exampleDeps_def)
  have m: "mset (rev (pairTasks exampleDeps)) = mset (pairTasks exampleDeps)" by simp
  have i: "(''Sepolia'', \<lparr>dp_ntt = ''Sepolia'', dp_whTransceiver = ''Sepolia'', dp_decimals = 1,
      dp_manager = ''Sepolia'', dp_remote = None, dp_local = None\<rparr>) \<in> set exampleDeps"
    by (simp add: exampleDeps_def)
  have "list_ex (\<lambda>t. pt_fromChain t = ''Sepolia''
      \<and> (managerMissing unpeeredApi t \<or> transceiverMissing unpeeredApi t)) (pairTasks exampleDeps)"
    by code_simp
  then show ?thesis
    using collectMissingConfigs_exact [OF d m r i] r by blast
qed

section \<open>Command line flags\<close>

text \<open>A value of unknown type: what yargs hands over for a flag. \<open>None\<close> among numbers is \<open>NaN\<close>.\<close>

datatype raw_arg =
    RawUndefined
  | RawNull
  | RawString string
  | RawNumber "rat option"
  | RawBool bool
  | RawArray "raw_arg list"

datatype flag_error =
    PlatformNotSupported string platform
  | PayerTwice | PayerNotAPath | PayerNotFound string
  | RpcForm
  | TimeoutNotNumeric | TimeoutNotPositive

definition ensurePlatformSupported :: "wormhole_sdk \<Rightarrow> string \<Rightarrow> flag_error + unit" where
  "ensurePlatformSupported sdk chain =
     (let platform = chainToPlatform sdk chain in
      if platform \<notin> {Evm, Solana, Sui} then Inl (PlatformNotSupported chain platform) else Inr ())"

definition validatePayerOption :: "wormhole_sdk \<Rightarrow> (string \<Rightarrow> bool) \<Rightarrow> raw_arg \<Rightarrow> string
    \<Rightarrow> flag_error + string option" where
  "validatePayerOption sdk fileExists rawPayer sourceChain =
     (case rawPayer of
        RawArray _ \<Rightarrow> Inl PayerTwice
      | RawUndefined \<Rightarrow> Inr None
      | RawString s \<Rightarrow>
          (let payerPath = trim s in
           if payerPath = [] then Inl PayerNotAPath
           else if chainToPlatform sdk sourceChain \<noteq> Solana then Inr None
           else if \<not> fileExists payerPath then Inl (PayerNotFound payerPath)
           else Inr (Some payerPath))
      | _ \<Rightarrow> Inl PayerNotAPath)"

definition rawTruthy :: "raw_arg \<Rightarrow> bool" where
  "rawTruthy r = (case r of RawUndefined \<Rightarrow> False | RawNull \<Rightarrow> False | RawString s \<Rightarrow> s \<noteq> []
     | RawNumber n \<Rightarrow> n \<noteq> None \<and> n \<noteq> Some 0 | RawBool b \<Rightarrow> b | RawArray _ \<Rightarrow> True)"

definition rpcOk :: "raw_arg \<Rightarrow> bool" where
  "rpcOk r = (case r of RawString s \<Rightarrow> trim s \<noteq> [] | _ \<Rightarrow> False)"

definition rawText :: "raw_arg \<Rightarrow> string" where
  "rawText r = (case r of RawString s \<Rightarrow> s | _ \<Rightarrow> [])"

definition normalizeRpcArgs :: "raw_arg \<Rightarrow> flag_error + string list option" where
  "normalizeRpcArgs rawRpc =
     (let rpcArgs = (case rawRpc of RawArray rs \<Rightarrow> Some rs
                     | r \<Rightarrow> if rawTruthy r then Some [r] else None)
      in case rpcArgs of
           None \<Rightarrow> Inr None
         | Some rs \<Rightarrow>
             if rs = [] \<or> list_ex (\<lambda>r. \<not> rpcOk r) rs then Inl RpcForm
             else Inr (Some (map (\<lambda>r. trim (rawText r)) rs)))"

definition validateTimeout :: "raw_arg \<Rightarrow> bool \<Rightarrow> flag_error + rat option" where
  "validateTimeout rawTimeout wasProvided =
     (if \<not> wasProvided then Inr None
      else (case rawTimeout of
        RawNumber (Some n) \<Rightarrow> if n \<le> 0 then Inl TimeoutNotPositive else Inr (Some n)
      | _ \<Rightarrow> Inl TimeoutNotNumeric))"

text \<open>\<open>validateChain\<close>: \<open>False\<close> when the process exits; \<open>known\<close> is the SDK's list of chains.\<close>

definition validateChain :: "string list \<Rightarrow> string \<Rightarrow> string \<Rightarrow> bool" where
  "validateChain known network chain =
     (if network = ''Testnet''
      then (if chain = ''Ethereum'' then False
            else if find (\<lambda>c. c = chain @ ''Sepolia'') known \<noteq> None then False else True)
      else True)"

text \<open>
  The flags that come back from the validators are usable: an RPC list is not empty and holds
  only non-empty trimmed strings, a timeout is positive, and a payer path is given only for Solana
  and exists.
\<close>

theorem validated_flags:
  "(case normalizeRpcArgs rawRpc of Inr (Some rs) \<Rightarrow> rs \<noteq> [] \<and> list_all (\<lambda>s. s \<noteq> []) rs | _ \<Rightarrow> True)
   \<and> (case validateTimeout rawTimeout provided of Inr (Some n) \<Rightarrow> provided \<and> 0 < n | _ \<Rightarrow> True)
   \<and> (case validatePayerOption sdk fileExists rawPayer chain of
        Inr (Some p) \<Rightarrow> p \<noteq> [] \<and> fileExists p \<and> chainToPlatform sdk chain = Solana | _ \<Rightarrow> True)"
proof -
  have "rs \<noteq> [] \<and> list_all (\<lambda>s. s \<noteq> []) rs" if h: "normalizeRpcArgs rawRpc = Inr (Some rs)" for rs
  proof -
    obtain raws where "raws \<noteq> []" "list_all rpcOk raws" "rs = map (\<lambda>r. trim (rawText r)) raws"
      using h by (auto simp: normalizeRpcArgs_def Let_def list_ex_iff list_all_iff
          split: raw_arg.splits option.splits if_splits)
    then show ?thesis
      by (auto simp: list_all_iff rpcOk_def rawText_def split: raw_arg.splits)
  qed
  moreover have "provided \<and> 0 < n" if "validateTimeout rawTimeout provided = Inr (Some n)" for n
    using that by (auto simp: validateTimeout_def split: if_splits raw_arg.splits option.splits)
  moreover have "p \<noteq> [] \<and> fileExists p \<and> chainToPlatform sdk chain = Solana"
    if "validatePayerOption sdk fileExists rawPayer chain = Inr (Some p)" for p
    using that by (auto simp: validatePayerOption_def Let_def split: raw_arg.splits if_splits)
  ultimately show ?thesis by (auto split: sum.splits option.splits)
qed

end
