(* ===== verification/Xrpl_Token.thy ===== *)
theory Xrpl_Token
  imports Js_Bytes
begin

text \<open>
  XRPL tokens and emitters, \<open>cli/src/xrpl/tokenId.ts\<close>: the currency codes, the token identifiers and
  the addresses derived from accounts. The address codec of the \<open>xrpl\<close> package
  (\<open>decodeAccountID\<close>, \<open>encodeAccountID\<close>) and \<open>keccak256\<close> are parameters.
\<close>

section \<open>Definitions\<close>

datatype token_id = XrpToken | IouToken bytes bytes | MptToken bytes

datatype token_error =
    AddressError string
  | MptLength nat
  | NotAnAccount string
  | CurrencyHexLength nat
  | XrpIsNotIou
  | InvalidCurrency string
  | CurrencyBytes nat
  | AccountBytes nat
  | UnknownAmount
  | IouFlags | MptFlags
  | UnknownTokenType string

text \<open>The \<open>xrpl\<close> package: an address with its 20-byte account.\<close>

record xrpl_api =
  decodeAccountID :: "string \<Rightarrow> string + bytes"
  encodeAccountID :: "bytes \<Rightarrow> string + string"

definition accountOf :: "xrpl_api \<Rightarrow> string \<Rightarrow> token_error + bytes" where
  "accountOf api addr =
     (case decodeAccountID api addr of Inl e \<Rightarrow> Inl (AddressError e) | Inr b \<Rightarrow> Inr b)"

definition addressOf :: "xrpl_api \<Rightarrow> bytes \<Rightarrow> token_error + string" where
  "addressOf api b =
     (case encodeAccountID api b of Inl e \<Rightarrow> Inl (AddressError e) | Inr s \<Rightarrow> Inr s)"

definition codeOf :: "char \<Rightarrow> byte" where
  "codeOf c = word_of_nat (of_char c)"

definition charOf :: "byte \<Rightarrow> char" where
  "charOf b = char_of (unat b)"

text \<open>\<open>src.copy(dst, at)\<close> and \<open>buf[at + i] = \<dots>\<close>: what does not fit is dropped.\<close>

definition copyInto :: "bytes \<Rightarrow> nat \<Rightarrow> bytes \<Rightarrow> bytes" where
  "copyInto dst off src =
     take off dst @ take (length dst - off) src @ drop (off + length src) dst"

definition strip0x :: "string \<Rightarrow> string" where
  "strip0x s = (if startsWith s ''0x'' then drop 2 s else s)"

definition encodeCurrency :: "string \<Rightarrow> token_error + bytes" where
  "encodeCurrency currency =
     (if length currency = 40 \<and> all_hex currency
      then (let decoded = fromHex currency in
            if length decoded \<noteq> 20 then Inl (CurrencyHexLength (length decoded)) else Inr decoded)
      else if 3 \<le> length currency \<and> length currency \<le> 4
      then (if toUpperCase currency = ''XRP'' then Inl XrpIsNotIou
            else Inr (copyInto (replicate 20 0) 12 (map codeOf currency)))
      else Inl (InvalidCurrency currency))"

definition decodeCurrency :: "bytes \<Rightarrow> token_error + string" where
  "decodeCurrency buf =
     (if length buf \<noteq> 20 then Inl (CurrencyBytes (length buf))
      else (let code = map charOf (filter (\<lambda>b. b \<noteq> 0) (subarray buf 12 15)) in
            if buf ! 0 = 0 \<and> 0 < length code then Inr code
            else Inr (toUpperCase (toHex buf))))"

datatype issuer_arg = IssuerAddress string | IssuerBytes bytes

datatype issuance_arg = IssuanceHex string | IssuanceBytes bytes

definition iouToken :: "xrpl_api \<Rightarrow> string \<Rightarrow> issuer_arg \<Rightarrow> token_error + token_id" where
  "iouToken api currency issuer =
     andThen (encodeCurrency currency) (\<lambda>c.
     andThen (case issuer of IssuerAddress a \<Rightarrow> accountOf api a | IssuerBytes b \<Rightarrow> Inr b) (\<lambda>i.
     Inr (IouToken c i)))"

definition mptToken :: "issuance_arg \<Rightarrow> token_error + token_id" where
  "mptToken issuanceId =
     (let idBuf = (case issuanceId of IssuanceHex s \<Rightarrow> fromHex (strip0x s) | IssuanceBytes b \<Rightarrow> b) in
      if length idBuf \<noteq> 24 then Inl (MptLength (length idBuf)) else Inr (MptToken idBuf))"

definition accountIdFrom :: "xrpl_api \<Rightarrow> string \<Rightarrow> token_error + bytes" where
  "accountIdFrom api addr =
     (if startsWith addr ''r'' then accountOf api addr
      else (let hex = strip0x addr in
            if length hex \<noteq> 40 then Inl (NotAnAccount addr) else Inr (fromHex hex)))"

definition formatTokenId :: "xrpl_api \<Rightarrow> token_id \<Rightarrow> token_error + string" where
  "formatTokenId api token =
     (case token of
        XrpToken \<Rightarrow> Inr ''XRP''
      | IouToken currency issuer \<Rightarrow>
          andThen (decodeCurrency currency) (\<lambda>c.
          andThen (addressOf api issuer) (\<lambda>a. Inr (c @ ''/'' @ a)))
      | MptToken issuanceId \<Rightarrow> Inr (''MPT:'' @ toUpperCase (toHex issuanceId)))"

definition buildTokenIdForEmitter :: "(bytes \<Rightarrow> bytes) \<Rightarrow> token_id \<Rightarrow> bytes" where
  "buildTokenIdForEmitter keccak256 token =
     (let buf = replicate 32 0 in
      case token of
        XrpToken \<Rightarrow> buf
      | IouToken currency issuer \<Rightarrow>
          copyInto (copyInto buf 0 [1]) 1 (subarray (keccak256 (currency @ issuer)) 1 32)
      | MptToken issuanceId \<Rightarrow> copyInto (copyInto buf 0 [2]) 8 issuanceId)"

definition computeEmitterAddress :: "(bytes \<Rightarrow> bytes) \<Rightarrow> bytes \<Rightarrow> token_id \<Rightarrow> token_error + bytes" where
  "computeEmitterAddress keccak256 accountId token =
     (if length accountId \<noteq> 20 then Inl (AccountBytes (length accountId))
      else (let manager = replicate 12 0 @ accountId;
                tokenId = buildTokenIdForEmitter keccak256 token
            in Inr (keccak256 (map codeOf ''ntt'' @ manager @ tokenId))))"

definition computeEmitterAddressFromRAddress ::
    "xrpl_api \<Rightarrow> (bytes \<Rightarrow> bytes) \<Rightarrow> string \<Rightarrow> token_id \<Rightarrow> token_error + bytes" where
  "computeEmitterAddressFromRAddress api keccak256 rAddress token =
     andThen (accountOf api rAddress) (\<lambda>accountId. computeEmitterAddress keccak256 accountId token)"

definition xrplAccountToEmitter :: "bytes \<Rightarrow> token_error + string" where
  "xrplAccountToEmitter accountId =
     (if length accountId \<noteq> 20 then Inl (AccountBytes (length accountId))
      else Inr (toHex (copyInto (replicate 32 0) 12 accountId)))"

definition XRPL_GENERATED_EMITTER_PREFIX :: string where
  "XRPL_GENERATED_EMITTER_PREFIX = ''5852504c''"

definition xrplGeneratedEmitter :: "bytes \<Rightarrow> token_error + string" where
  "xrplGeneratedEmitter accountId =
     (if length accountId \<noteq> 20 then Inl (AccountBytes (length accountId))
      else Inr (toHex (copyInto
             (copyInto (replicate 32 0) 0 (fromHex XRPL_GENERATED_EMITTER_PREFIX)) 12 accountId)))"

definition xrplGeneratedEmitterFromRAddress :: "xrpl_api \<Rightarrow> string \<Rightarrow> token_error + string" where
  "xrplGeneratedEmitterFromRAddress api rAddress =
     andThen (accountOf api rAddress) xrplGeneratedEmitter"

text \<open>
  An amount of transaction metadata: a string of drops, an object whose fields are strings, or
  anything else.
\<close>

datatype xrpl_amount = DropsAmount string | ObjectAmount "(string \<times> string) list" | OtherAmount

definition tokenIdFromXrplAmount :: "xrpl_api \<Rightarrow> xrpl_amount \<Rightarrow> token_error + token_id" where
  "tokenIdFromXrplAmount api amount =
     (case amount of
        DropsAmount _ \<Rightarrow> Inr XrpToken
      | ObjectAmount a \<Rightarrow>
          (case map_of a ''mpt_issuance_id'' of
             Some i \<Rightarrow> mptToken (IssuanceHex i)
           | None \<Rightarrow>
               (case (map_of a ''currency'', map_of a ''issuer'') of
                  (Some c, Some i) \<Rightarrow> iouToken api c (IssuerAddress i)
                | _ \<Rightarrow> Inl UnknownAmount))
      | OtherAmount \<Rightarrow> Inl UnknownAmount)"

record token_flags =
  tf_type :: string
  tf_currency :: "string option"
  tf_issuer :: "string option"
  tf_mptId :: "string option"

definition given :: "string option \<Rightarrow> bool" where
  "given v = (case v of None \<Rightarrow> False | Some s \<Rightarrow> s \<noteq> [])"

definition tokenIdFromFlags :: "xrpl_api \<Rightarrow> token_flags \<Rightarrow> token_error + token_id" where
  "tokenIdFromFlags api opts =
     (let t = toLowerCase (tf_type opts) in
      if t = ''xrp'' then Inr XrpToken
      else if t = ''iou'' then
        (if \<not> given (tf_currency opts) \<or> \<not> given (tf_issuer opts) then Inl IouFlags
         else iouToken api (the (tf_currency opts)) (IssuerAddress (the (tf_issuer opts))))
      else if t = ''mpt'' then
        (if \<not> given (tf_mptId opts) then Inl MptFlags else mptToken (IssuanceHex (the (tf_mptId opts))))
      else Inl (UnknownTokenType (tf_type opts)))"

section \<open>Currency codes\<close>

lemma unat_codeOf: "unat (codeOf c) = (of_char c :: nat)"
proof -
  have "(of_char c :: nat) < 256" by (rule nat_of_char_less_256)
  then show ?thesis by (simp add: codeOf_def unsigned_of_nat take_bit_eq_mod)
qed

lemma charOf_codeOf [simp]: "charOf (codeOf c) = c"
  by (simp add: charOf_def unat_codeOf)

lemma codeOf_charOf [simp]: "codeOf (charOf b) = b"
  by (simp add: charOf_def codeOf_def of_char_of)

lemma codeOf_zero: "codeOf c = 0 \<longleftrightarrow> c = CHR 0x00"
proof -
  have "codeOf CHR 0x00 = 0" by (simp add: codeOf_def)
  then show ?thesis by (metis charOf_codeOf)
qed

lemma length_copyInto [simp]: "off \<le> length dst \<Longrightarrow> length (copyInto dst off src) = length dst"
  by (auto simp: copyInto_def)

lemma copyInto_fits: "off + length src \<le> length dst \<Longrightarrow>
    copyInto dst off src = take off dst @ src @ drop (off + length src) dst"
  by (simp add: copyInto_def)


lemma encodeCurrency_ascii:
  "3 \<le> length c \<Longrightarrow> length c \<le> 4 \<Longrightarrow> toUpperCase c \<noteq> ''XRP'' \<Longrightarrow>
   encodeCurrency c = Inr (replicate 12 0 @ map codeOf c @ replicate (8 - length c) 0)"
  by (auto simp: encodeCurrency_def copyInto_fits)

lemma decode_ascii:
  assumes "length c \<in> {3, 4}" "CHR 0x00 \<notin> set c"
  shows "decodeCurrency (replicate 12 0 @ map codeOf c @ replicate (8 - length c) 0) = Inr (take 3 c)"
proof -
  have "subarray (replicate 12 0 @ map codeOf c @ replicate (8 - length c) 0) 12 15
      = take 3 (map codeOf c)"
    using assms(1) by (auto simp: subarray_def)
  moreover have "filter (\<lambda>b. b \<noteq> 0) (take 3 (map codeOf c)) = take 3 (map codeOf c)"
    using assms(2) by (auto simp: filter_id_conv codeOf_zero dest!: in_set_takeD)
  moreover have "map charOf (take 3 (map codeOf c)) = take 3 c"
    by (simp add: take_map comp_def)
  ultimately show ?thesis
    using assms(1) by (auto simp: decodeCurrency_def Let_def nth_append)
qed

text \<open>
  A currency code of three characters is displayed as it was given, and a code of 40
  hexadecimal digits in upper case unless it looks like a three-character code. A code of four
  characters is stored with all four but displayed without its last one.
\<close>

theorem decodeCurrency_encodeCurrency:
  "(3 \<le> length c \<and> length c \<le> 4 \<and> toUpperCase c \<noteq> ''XRP'' \<and> CHR 0x00 \<notin> set c
      \<longrightarrow> andThen (encodeCurrency c) decodeCurrency = Inr (take 3 c))
   \<and> (length c = 40 \<and> all_hex c \<and> hd (fromHex c) \<noteq> 0
      \<longrightarrow> andThen (encodeCurrency c) decodeCurrency = Inr (toUpperCase (toHex (fromHex c))))"
proof (intro conjI impI)
  assume h: "3 \<le> length c \<and> length c \<le> 4 \<and> toUpperCase c \<noteq> ''XRP'' \<and> CHR 0x00 \<notin> set c"
  then have "length c \<in> {3, 4}" by auto
  then show "andThen (encodeCurrency c) decodeCurrency = Inr (take 3 c)"
    using h by (simp add: encodeCurrency_ascii decode_ascii)
next
  assume h: "length c = 40 \<and> all_hex c \<and> hd (fromHex c) \<noteq> 0"
  then have l: "length (fromHex c) = 20" by (simp add: all_hex_def length_fromHex)
  then have "fromHex c ! 0 \<noteq> 0" using h by (cases "fromHex c") auto
  then show "andThen (encodeCurrency c) decodeCurrency = Inr (toUpperCase (toHex (fromHex c)))"
    using h l by (simp add: encodeCurrency_def decodeCurrency_def Let_def)
qed

theorem decodeCurrency_encodeCurrency_witness:
  "andThen (encodeCurrency ''USD'') decodeCurrency = Inr ''USD''
   \<and> andThen (encodeCurrency ''USDC'') decodeCurrency = Inr ''USD''"
proof -
  have h: "toUpperCase ''USD'' \<noteq> ''XRP''" "toUpperCase ''USDC'' \<noteq> ''XRP''" by code_simp+
  show ?thesis
    using decodeCurrency_encodeCurrency [of "''USD''"] decodeCurrency_encodeCurrency [of "''USDC''"] h
    by simp
qed

section \<open>Emitters\<close>

lemma emitter_forms:
  assumes "length a = 20"
  shows "xrplAccountToEmitter a = Inr (toHex (replicate 12 0 @ a))"
    and "xrplGeneratedEmitter a = Inr (toHex ([0x58, 0x52, 0x50, 0x4c] @ replicate 8 0 @ a))"
proof -
  have p: "fromHex XRPL_GENERATED_EMITTER_PREFIX = [0x58, 0x52, 0x50, 0x4c]" by code_simp
  show "xrplAccountToEmitter a = Inr (toHex (replicate 12 0 @ a))"
    using assms by (simp add: xrplAccountToEmitter_def copyInto_fits)
  show "xrplGeneratedEmitter a = Inr (toHex ([0x58, 0x52, 0x50, 0x4c] @ replicate 8 0 @ a))"
    using assms by (simp add: xrplGeneratedEmitter_def p copyInto_fits)
qed

text \<open>
  The two emitters of an account have 64 hexadecimal digits, determine the account, and can
  never be mistaken for each other: no account's own emitter is the emitter the watcher generates
  for any account.
\<close>

theorem emitters_never_collide:
  "(xrplAccountToEmitter a = Inr s \<and> xrplAccountToEmitter b = Inr s \<longrightarrow> a = b)
   \<and> (xrplGeneratedEmitter a = Inr s \<and> xrplGeneratedEmitter b = Inr s \<longrightarrow> a = b)
   \<and> \<not> (xrplAccountToEmitter a = Inr s \<and> xrplGeneratedEmitter b = Inr s)
   \<and> (xrplAccountToEmitter a = Inr s \<longrightarrow> length s = 64 \<and> drop 12 (fromHex s) = a)"
proof -
  have A: "length a = 20 \<and> s = toHex (replicate 12 0 @ a)" if "xrplAccountToEmitter a = Inr s" for a
    using that emitter_forms(1) [of a] by (cases "length a = 20") (auto simp: xrplAccountToEmitter_def)
  have G: "length a = 20 \<and> s = toHex ([0x58, 0x52, 0x50, 0x4c] @ replicate 8 0 @ a)"
    if "xrplGeneratedEmitter a = Inr s" for a
    using that emitter_forms(2) [of a] by (cases "length a = 20") (auto simp: xrplGeneratedEmitter_def)
  have "\<not> (xrplAccountToEmitter a = Inr s \<and> xrplGeneratedEmitter b = Inr s)"
  proof
    assume h: "xrplAccountToEmitter a = Inr s \<and> xrplGeneratedEmitter b = Inr s"
    then have "replicate 12 0 @ a = [0x58, 0x52, 0x50, 0x4c] @ replicate 8 0 @ b"
      using A [of a] G [of b] by (metis toHex_inj)
    then have "hd (replicate 12 0 @ a) = (0x58 :: byte)" by simp
    then have "(0 :: byte) = 0x58" by (simp add: hd_append)
    moreover have "(0 :: byte) \<noteq> 0x58" by simp
    ultimately show False by blast
  qed
  moreover have "length s = 64 \<and> drop 12 (fromHex s) = a" if "xrplAccountToEmitter a = Inr s"
  proof -
    have "length a = 20" "fromHex s = replicate 12 0 @ a" "length s = 2 * length (replicate 12 (0 :: byte) @ a)"
      using A [OF that] by (simp_all only: fromHex_toHex length_toHex)
    then show ?thesis by simp
  qed
  moreover have "a = b" if "xrplAccountToEmitter a = Inr s" "xrplAccountToEmitter b = Inr s"
    using A [OF that(1)] A [OF that(2)] by (metis same_append_eq toHex_inj)
  moreover have "a = b" if "xrplGeneratedEmitter a = Inr s" "xrplGeneratedEmitter b = Inr s"
    using G [OF that(1)] G [OF that(2)] by (metis same_append_eq toHex_inj)
  ultimately show ?thesis by blast
qed

theorem emitters_never_collide_witness:
  "\<exists>s. xrplAccountToEmitter (replicate 20 7) = Inr s \<and> drop 12 (fromHex s) = replicate 20 7"
proof -
  have "xrplAccountToEmitter (replicate 20 7) = Inr (toHex (replicate 12 0 @ replicate 20 7))"
    by (rule emitter_forms(1)) simp
  then show ?thesis using emitters_never_collide by blast
qed

lemma tokenId_forms:
  assumes "\<And>b. length (keccak b) = 32"
  shows "buildTokenIdForEmitter keccak XrpToken = replicate 32 0"
    and "buildTokenIdForEmitter keccak (IouToken c i) = 1 # drop 1 (keccak (c @ i))"
    and "length m = 24 \<Longrightarrow> buildTokenIdForEmitter keccak (MptToken m) = 2 # replicate 7 0 @ m"
proof -
  show "buildTokenIdForEmitter keccak XrpToken = replicate 32 0"
    by (simp add: buildTokenIdForEmitter_def)
  have "copyInto (replicate 32 0) 0 [x] = x # replicate 31 (0 :: byte)" for x
    by (simp add: copyInto_fits)
  moreover have "subarray (keccak (c @ i)) 1 32 = drop 1 (keccak (c @ i))"
    using assms by (simp add: subarray_def)
  ultimately show "buildTokenIdForEmitter keccak (IouToken c i) = 1 # drop 1 (keccak (c @ i))"
    using assms by (simp add: buildTokenIdForEmitter_def copyInto_fits)
  show "length m = 24 \<Longrightarrow> buildTokenIdForEmitter keccak (MptToken m) = 2 # replicate 7 0 @ m"
    using \<open>\<And>x. copyInto (replicate 32 0) 0 [x] = x # replicate 31 0\<close>
    by (simp add: buildTokenIdForEmitter_def copyInto_fits)
qed

text \<open>
  The token part of an emitter tells tokens apart: native XRP, issued currencies and
  multi-purpose tokens never share one, two multi-purpose tokens share one only if they are the
  same, and two issued currencies only if the last 31 bytes of their hashes agree.
\<close>

theorem buildTokenIdForEmitter_separates:
  assumes "\<And>b. length (keccak b) = 32" "length m = 24" "length n = 24"
  shows "(buildTokenIdForEmitter keccak (MptToken m) = buildTokenIdForEmitter keccak (MptToken n) \<longleftrightarrow> m = n)
    \<and> (buildTokenIdForEmitter keccak (IouToken c i) = buildTokenIdForEmitter keccak (IouToken d j)
         \<longleftrightarrow> drop 1 (keccak (c @ i)) = drop 1 (keccak (d @ j)))
    \<and> buildTokenIdForEmitter keccak XrpToken \<noteq> buildTokenIdForEmitter keccak (IouToken c i)
    \<and> buildTokenIdForEmitter keccak XrpToken \<noteq> buildTokenIdForEmitter keccak (MptToken m)
    \<and> buildTokenIdForEmitter keccak (IouToken c i) \<noteq> buildTokenIdForEmitter keccak (MptToken m)"
  using assms by (simp add: tokenId_forms numeral_eq_Suc)

theorem buildTokenIdForEmitter_separates_witness:
  "buildTokenIdForEmitter (\<lambda>b. replicate 32 9) XrpToken
     \<noteq> buildTokenIdForEmitter (\<lambda>b. replicate 32 9) (MptToken (replicate 24 3))"
  using buildTokenIdForEmitter_separates [of "\<lambda>b. replicate 32 9" "replicate 24 3" "replicate 24 3"]
  by simp

end
