(* ===== verification/Js_Utf8.thy ===== *)
theory Js_Utf8
  imports Js_Bytes
begin

text \<open>
  UTF-8: \<open>Buffer.from(s, "utf8")\<close> and \<open>buf.toString("utf8")\<close> on texts as lists of code points. An
  ill-formed byte decodes to the replacement character U+FFFD, as the WHATWG decoder does: a state
  holds the code point so far, how many continuation bytes are still needed and the range the next
  one must be in.
\<close>

type_synonym code_points = "nat list"

record utf8_state =
  u8_cp :: nat
  u8_needed :: nat
  u8_lower :: nat
  u8_upper :: nat

definition utf8Ready :: utf8_state where
  "utf8Ready = \<lparr>u8_cp = 0, u8_needed = 0, u8_lower = 128, u8_upper = 191\<rparr>"

definition utf8Start :: "nat \<Rightarrow> code_points \<times> utf8_state" where
  "utf8Start b =
     (if b < 128 then ([b], utf8Ready)
      else if 0xC2 \<le> b \<and> b \<le> 0xDF
      then ([], \<lparr>u8_cp = b mod 32, u8_needed = 1, u8_lower = 128, u8_upper = 191\<rparr>)
      else if 0xE0 \<le> b \<and> b \<le> 0xEF
      then ([], \<lparr>u8_cp = b mod 16, u8_needed = 2, u8_lower = (if b = 0xE0 then 0xA0 else 128),
                 u8_upper = (if b = 0xED then 0x9F else 191)\<rparr>)
      else if 0xF0 \<le> b \<and> b \<le> 0xF4
      then ([], \<lparr>u8_cp = b mod 8, u8_needed = 3, u8_lower = (if b = 0xF0 then 0x90 else 128),
                 u8_upper = (if b = 0xF4 then 0x8F else 191)\<rparr>)
      else ([0xFFFD], utf8Ready))"

definition utf8Step :: "utf8_state \<Rightarrow> nat \<Rightarrow> code_points \<times> utf8_state" where
  "utf8Step st b =
     (if u8_needed st = 0 then utf8Start b
      else if b < u8_lower st \<or> u8_upper st < b
      then (let (out, st') = utf8Start b in (0xFFFD # out, st'))
      else (let cp = u8_cp st * 64 + b mod 64 in
            if u8_needed st = 1 then ([cp], utf8Ready)
            else ([], \<lparr>u8_cp = cp, u8_needed = u8_needed st - 1, u8_lower = 128, u8_upper = 191\<rparr>)))"

fun utf8Go :: "utf8_state \<Rightarrow> nat list \<Rightarrow> code_points" where
  "utf8Go st [] = (if u8_needed st = 0 then [] else [0xFFFD])"
| "utf8Go st (b # bs) = (let (out, st') = utf8Step st b in out @ utf8Go st' bs)"

definition utf8Decode :: "bytes \<Rightarrow> code_points" where
  "utf8Decode bs = utf8Go utf8Ready (map unat bs)"

definition utf8Char :: "nat \<Rightarrow> bytes" where
  "utf8Char c =
     (if c < 0x80 then [word_of_nat c]
      else if c < 0x800 then [word_of_nat (0xC0 + c div 64), word_of_nat (0x80 + c mod 64)]
      else if 0xD800 \<le> c \<and> c < 0xE000 then [0xEF, 0xBF, 0xBD]
      else if c < 0x10000
      then [word_of_nat (0xE0 + c div 4096), word_of_nat (0x80 + c div 64 mod 64),
            word_of_nat (0x80 + c mod 64)]
      else [word_of_nat (0xF0 + c div 262144), word_of_nat (0x80 + c div 4096 mod 64),
            word_of_nat (0x80 + c div 64 mod 64), word_of_nat (0x80 + c mod 64)])"

definition utf8Encode :: "code_points \<Rightarrow> bytes" where
  "utf8Encode s = concat (map utf8Char s)"

text \<open>\<open>utf8Char\<close> replaces a lone surrogate by U+FFFD. Code points that have an encoding: no surrogates, nothing above U+10FFFF.\<close>

definition scalar :: "nat \<Rightarrow> bool" where
  "scalar c = (c < 0xD800 \<or> (0xE000 \<le> c \<and> c < 0x110000))"

lemma unat_small: "n < 256 \<Longrightarrow> unat (word_of_nat n :: byte) = n"
  by (simp add: unsigned_of_nat take_bit_eq_mod)

lemma utf8Go_Cons: "utf8Step st b = (out, st') \<Longrightarrow> utf8Go st (b # bs) = out @ utf8Go st' bs"
  by simp

lemma mod_start: "x < 32 \<Longrightarrow> (192 + x) mod 32 = x" "x < 16 \<Longrightarrow> (224 + x) mod 16 = x"
  "x < 8 \<Longrightarrow> (240 + x) mod 8 = x" "x < 64 \<Longrightarrow> (128 + x) mod 64 = x" for x :: nat
  using mod_mult_self1 [of x 6 32] mod_mult_self1 [of x 14 16] mod_mult_self1 [of x 30 8]
    mod_mult_self1 [of x 2 64]
  by (simp_all add: add.commute)

lemma utf8Start_cases:
  "0xC2 \<le> b \<Longrightarrow> b \<le> 0xDF \<Longrightarrow>
   utf8Start b = ([], \<lparr>u8_cp = b mod 32, u8_needed = 1, u8_lower = 128, u8_upper = 191\<rparr>)"
  "0xE0 \<le> b \<Longrightarrow> b \<le> 0xEF \<Longrightarrow>
   utf8Start b = ([], \<lparr>u8_cp = b mod 16, u8_needed = 2, u8_lower = (if b = 0xE0 then 0xA0 else 128),
                 u8_upper = (if b = 0xED then 0x9F else 191)\<rparr>)"
  "0xF0 \<le> b \<Longrightarrow> b \<le> 0xF4 \<Longrightarrow>
   utf8Start b = ([], \<lparr>u8_cp = b mod 8, u8_needed = 3, u8_lower = (if b = 0xF0 then 0x90 else 128),
                 u8_upper = (if b = 0xF4 then 0x8F else 191)\<rparr>)"
  by (simp_all add: utf8Start_def)

lemma utf8Step_ready: "utf8Step utf8Ready b = utf8Start b"
  by (simp add: utf8Step_def utf8Ready_def)

lemma utf8Start_2: "2 \<le> x \<Longrightarrow> x < 32 \<Longrightarrow> utf8Step utf8Ready (192 + x) =
    ([], \<lparr>u8_cp = x, u8_needed = 1, u8_lower = 128, u8_upper = 191\<rparr>)"
  unfolding utf8Step_ready by (subst utf8Start_cases(1)) (simp_all add: mod_start)

lemma utf8Start_3: "x < 16 \<Longrightarrow> utf8Step utf8Ready (224 + x) =
    ([], \<lparr>u8_cp = x, u8_needed = 2, u8_lower = (if x = 0 then 160 else 128),
          u8_upper = (if x = 13 then 159 else 191)\<rparr>)"
  unfolding utf8Step_ready by (subst utf8Start_cases(2)) (simp_all add: mod_start)

lemma utf8Start_4: "x < 5 \<Longrightarrow> utf8Step utf8Ready (240 + x) =
    ([], \<lparr>u8_cp = x, u8_needed = 3, u8_lower = (if x = 0 then 144 else 128),
          u8_upper = (if x = 4 then 143 else 191)\<rparr>)"
proof -
  assume x: "x < 5"
  then have "(240 + x) mod 8 = x" by (intro mod_start) simp
  then show ?thesis unfolding utf8Step_ready using x
    by (subst utf8Start_cases(3)) simp_all
qed

lemma utf8_continue:
  "y < 64 \<Longrightarrow> l \<le> 128 + y \<Longrightarrow> 128 + y \<le> h \<Longrightarrow> 1 < n \<Longrightarrow>
   utf8Step \<lparr>u8_cp = p, u8_needed = n, u8_lower = l, u8_upper = h\<rparr> (128 + y) =
     ([], \<lparr>u8_cp = p * 64 + y, u8_needed = n - 1, u8_lower = 128, u8_upper = 191\<rparr>)"
  "y < 64 \<Longrightarrow> l \<le> 128 + y \<Longrightarrow> 128 + y \<le> h \<Longrightarrow>
   utf8Step \<lparr>u8_cp = p, u8_needed = 1, u8_lower = l, u8_upper = h\<rparr> (128 + y) = ([p * 64 + y], utf8Ready)"
proof -
  assume y: "y < 64" "l \<le> 128 + y" "128 + y \<le> h"
  then have m: "(128 + y) mod 64 = y" by (intro mod_start)
  show "1 < n \<Longrightarrow> utf8Step \<lparr>u8_cp = p, u8_needed = n, u8_lower = l, u8_upper = h\<rparr> (128 + y) =
     ([], \<lparr>u8_cp = p * 64 + y, u8_needed = n - 1, u8_lower = 128, u8_upper = 191\<rparr>)"
    "utf8Step \<lparr>u8_cp = p, u8_needed = 1, u8_lower = l, u8_upper = h\<rparr> (128 + y) = ([p * 64 + y], utf8Ready)"
    using y(2,3) unfolding utf8Step_def Let_def by (simp_all only: m utf8_state.select_convs) simp_all
qed

lemmas utf8_last = utf8_continue(2) [unfolded One_nat_def]

lemma utf8Go_char:
  assumes "scalar c"
  shows "utf8Go utf8Ready (map unat (utf8Char c) @ bs) = c # utf8Go utf8Ready bs"
proof -
  define q where "q = c div 64"
  define r where "r = q div 64"
  have z: "c mod 64 < 64" "q mod 64 < 64" "r mod 64 < 64" by simp_all
  have c: "q * 64 + c mod 64 = c" "r * 64 + q mod 64 = q" "r div 64 * 64 + r mod 64 = r"
    by (simp_all add: q_def r_def)
  have d: "c div 4096 = r" "c div 262144 = r div 64"
    by (simp_all add: q_def r_def flip: div_mult2_eq)
  consider "c < 0x80" | "0x80 \<le> c" "c < 0x800" | "0x800 \<le> c" "c < 0x10000" | "0x10000 \<le> c" "c < 0x110000"
    using assms unfolding scalar_def by linarith
  then show ?thesis
  proof cases
    case 1
    then have "utf8Step utf8Ready c = ([c], utf8Ready)"
      by (simp add: utf8Step_ready utf8Start_def)
    then show ?thesis using 1 by (simp add: utf8Char_def unat_small)
  next
    case 2
    have x: "2 \<le> q" "q < 32" using 2 c(1) z(1) by linarith+
    have b: "map unat (utf8Char c) = [192 + q, 128 + c mod 64]"
      using 2 x z by (simp add: utf8Char_def unat_small del: of_nat_add flip: q_def)
    show ?thesis unfolding b append_Cons append_Nil
      by (subst utf8Go_Cons [OF utf8Start_2 [OF x]], subst utf8Go_Cons [OF utf8_continue(2) [OF z(1)]])
        (use z c(1) in simp_all)
  next
    case 3
    have x: "r < 16" using 3 c(1,2) z by linarith
    have n: "\<not> (0xD800 \<le> c \<and> c < 0xE000)" using assms unfolding scalar_def by linarith
    have b: "map unat (utf8Char c) = [224 + r, 128 + q mod 64, 128 + c mod 64]"
      using 3 x z by (simp add: utf8Char_def unat_small d if_not_P [OF n] del: of_nat_add flip: q_def)
    have e: "r = 0 \<Longrightarrow> 32 \<le> q mod 64" using 3 c(1,2) z by linarith
    have f: "r = 13 \<Longrightarrow> q mod 64 \<le> 31" using 3 assms c(1,2) z unfolding scalar_def by linarith
    have s: "(r * 64 + q mod 64) * 64 + c mod 64 = c" using c(1,2) by simp
    show ?thesis unfolding b append_Cons append_Nil
      by (subst utf8Go_Cons [OF utf8Start_3 [OF x]], subst utf8Go_Cons [OF utf8_continue(1) [OF z(2)]],
          use z e f in \<open>auto simp del: utf8Go.simps\<close>)
        (subst utf8Go_Cons [OF utf8_last [OF z(1)]], use z s in simp_all)
  next
    case 4
    have x: "r div 64 < 5" using 4 c z by linarith
    have b: "map unat (utf8Char c) = [240 + r div 64, 128 + r mod 64, 128 + q mod 64, 128 + c mod 64]"
      using 4 x z by (simp add: utf8Char_def unat_small d del: of_nat_add flip: q_def)
    have e: "r div 64 = 0 \<Longrightarrow> 16 \<le> r mod 64" using 4 c z by linarith
    have f: "r div 64 = 4 \<Longrightarrow> r mod 64 \<le> 15" using 4 c z by linarith
    have s: "((r div 64 * 64 + r mod 64) * 64 + q mod 64) * 64 + c mod 64 = c" using c by simp
    show ?thesis unfolding b append_Cons append_Nil
      by (subst utf8Go_Cons [OF utf8Start_4 [OF x]], subst utf8Go_Cons [OF utf8_continue(1) [OF z(3)]],
          use z e f in \<open>auto simp del: utf8Go.simps\<close>)
        (subst utf8Go_Cons [OF utf8_continue(1) [OF z(2)]], use z in \<open>auto simp del: utf8Go.simps\<close>,
         subst utf8Go_Cons [OF utf8_last [OF z(1)]], use z s in simp_all)
  qed
qed

lemma utf8Decode_utf8Encode: "list_all scalar s \<Longrightarrow> utf8Decode (utf8Encode s) = s"
proof -
  have "list_all scalar s \<Longrightarrow> utf8Go utf8Ready (map unat (utf8Encode s)) = s"
  proof (induction s)
    case Nil
    then show ?case by (simp add: utf8Encode_def utf8Ready_def)
  next
    case (Cons c s)
    then show ?case using utf8Go_char [of c "map unat (utf8Encode s)"]
      by (simp add: utf8Encode_def)
  qed
  then show "list_all scalar s \<Longrightarrow> utf8Decode (utf8Encode s) = s" by (simp add: utf8Decode_def)
qed

text \<open>Texts that UTF-8 can carry form a codec.\<close>

definition utf8Enc :: "code_points \<Rightarrow> unit + bytes" where
  "utf8Enc s = (if list_all scalar s then Inr (utf8Encode s) else Inl ())"

interpretation utf8_codec: codec utf8Enc "\<lambda>b. Inr (utf8Decode b) :: unit + code_points"
  by unfold_locales (auto simp: utf8Enc_def utf8Decode_utf8Encode split: if_splits)

end
