(* ===== verification/Xrpl_Payload.thy ===== *)
theory Xrpl_Payload
  imports Xrpl_Token Js_Utf8
begin

text \<open>
  The decoders of XRPL payloads and of the VAA envelope, \<open>cli/src/xrpl/payloads.ts\<close>. A read outside
  the buffer throws \<open>OutOfRange\<close>, a \<open>subarray\<close> that reaches beyond the end is cut off there.
  \<open>toString("ascii")\<close> drops the top bit of every byte.
\<close>

section \<open>Reading\<close>

datatype payload_error =
    TooShort nat
  | InvalidPrefix string
  | OutOfRange
  | InsufficientIou | InsufficientMpt
  | UnknownXrelToken nat
  | RegisterPeerTooShort | RotateAdminTooShort
  | PayloadAddress string

definition rd :: "nat \<Rightarrow> bytes \<Rightarrow> nat \<Rightarrow> payload_error + nat" where
  "rd w buf offset = (case readUIntBE w buf offset of Inl _ \<Rightarrow> Inl OutOfRange | Inr n \<Rightarrow> Inr n)"

definition readAscii :: "bytes \<Rightarrow> nat \<Rightarrow> nat \<Rightarrow> string" where
  "readAscii buf offset len =
     map (\<lambda>b. char_of (unat b mod 128)) (subarray buf offset (offset + len))"

definition encodeAccount :: "xrpl_api \<Rightarrow> bytes \<Rightarrow> payload_error + string" where
  "encodeAccount api b =
     (case encodeAccountID api b of Inl e \<Rightarrow> Inl (PayloadAddress e) | Inr s \<Rightarrow> Inr s)"

section \<open>Payloads\<close>

datatype xrel_token = XrelXrp | XrelIou string string | XrelMpt string

record memo =
  mm_data :: string
  mm_format :: string
  mm_type :: string

record xrel_payload =
  xr_ticketId :: nat
  xr_custody :: string
  xr_recipient :: string
  xr_amount :: nat
  xr_tokenDecimals :: nat
  xr_sourceChain :: nat
  xr_sourceEmitter :: string
  xr_sourceSequence :: nat
  xr_tokenId :: xrel_token
  xr_memos :: "memo list"

record xrfl_payload =
  xf_xrplAccount :: string
  xf_useTicket :: nat
  xf_requestCount :: nat

datatype admin_action =
    RegisterPeer nat string
  | RotateAdmin string
  | UnknownAction nat

record admin_payload =
  ad_action :: nat
  ad_targetAccount :: string
  ad_detail :: admin_action

record onboarding_payload =
  ob_admin :: string
  ob_appType :: code_points
  ob_initialTicket :: nat
  ob_ticketCount :: nat
  ob_initDataHex :: string

record ntt_transfer =
  nt_sourceNttManager :: string
  nt_recipientNttManager :: string
  nt_managerPayloadLength :: nat
  nt_id :: string
  nt_sender :: string
  nt_decimals :: nat
  nt_amount :: nat
  nt_sourceToken :: string
  nt_recipientAddress :: string
  nt_recipientChain :: nat

datatype parsed_payload =
    XrplRelease xrel_payload
  | TicketRefill xrfl_payload
  | Admin admin_payload
  | Onboarding onboarding_payload
  | NttTransfer ntt_transfer
  | Unknown string string

text \<open>The token of an XREL payload, with the offset behind it.\<close>

definition parseXrelToken :: "xrpl_api \<Rightarrow> bytes \<Rightarrow> nat \<Rightarrow> payload_error + (xrel_token \<times> nat)" where
  "parseXrelToken api buffer offset =
     andThen (rd 1 buffer offset) (\<lambda>tokenType.
     let offset = offset + 1 in
     if tokenType = 0x00 then Inr (XrelXrp, offset)
     else if tokenType = 0x01 then
       (if length buffer < offset + 40 then Inl InsufficientIou
        else (let currency = toUpperCase (toHex (subarray buffer offset (offset + 20)));
                  offset = offset + 20
              in andThen (encodeAccount api (subarray buffer offset (offset + 20))) (\<lambda>issuer.
                 Inr (XrelIou currency issuer, offset + 20))))
     else if tokenType = 0x02 then
       (if length buffer < offset + 24 then Inl InsufficientMpt
        else Inr (XrelMpt (toUpperCase (toHex (subarray buffer offset (offset + 24)))), offset + 24))
     else Inl (UnknownXrelToken tokenType))"

text \<open>A field with a length of two bytes before it, in hexadecimal, and the offset behind it.\<close>

definition parseField :: "bytes \<Rightarrow> nat \<Rightarrow> payload_error + (string \<times> nat)" where
  "parseField buffer offset =
     andThen (rd 2 buffer offset) (\<lambda>len.
     let offset = offset + 2 in Inr (toHex (subarray buffer offset (offset + len)), offset + len))"

fun parseMemos :: "nat \<Rightarrow> bytes \<Rightarrow> nat \<Rightarrow> payload_error + memo list" where
  "parseMemos 0 buffer offset = Inr []"
| "parseMemos (Suc n) buffer offset =
     andThen (parseField buffer offset) (\<lambda>(data, offset).
     andThen (parseField buffer offset) (\<lambda>(format, offset).
     andThen (parseField buffer offset) (\<lambda>(type, offset).
     andThen (parseMemos n buffer offset) (\<lambda>memos.
     Inr (\<lparr>mm_data = data, mm_format = format, mm_type = type\<rparr> # memos)))))"

definition parseXrel :: "xrpl_api \<Rightarrow> bytes \<Rightarrow> payload_error + xrel_payload" where
  "parseXrel api buffer =
     (if length buffer < 106 then Inl (TooShort (length buffer))
      else (let prefix = readAscii buffer 0 4 in
        if prefix \<noteq> ''XREL'' then Inl (InvalidPrefix prefix)
        else
          andThen (rd 8 buffer 4) (\<lambda>ticketId.
          andThen (encodeAccount api (subarray buffer 12 32)) (\<lambda>custody.
          andThen (encodeAccount api (subarray buffer 32 52)) (\<lambda>recipient.
          andThen (rd 8 buffer 52) (\<lambda>amount.
          andThen (rd 1 buffer 60) (\<lambda>tokenDecimals.
          andThen (rd 2 buffer 61) (\<lambda>sourceChain.
          let sourceEmitter = toHex (subarray buffer 63 95) in
          andThen (rd 8 buffer 95) (\<lambda>sourceSequence.
          andThen (parseXrelToken api buffer 103) (\<lambda>(tokenId, offset).
          andThen (rd 2 buffer offset) (\<lambda>memosLen.
          andThen (parseMemos memosLen buffer (offset + 2)) (\<lambda>memos.
          Inr \<lparr>xr_ticketId = ticketId, xr_custody = custody, xr_recipient = recipient,
               xr_amount = amount, xr_tokenDecimals = tokenDecimals, xr_sourceChain = sourceChain,
               xr_sourceEmitter = sourceEmitter, xr_sourceSequence = sourceSequence,
               xr_tokenId = tokenId, xr_memos = memos\<rparr>))))))))))))"

definition parseXrfl :: "xrpl_api \<Rightarrow> bytes \<Rightarrow> payload_error + xrfl_payload" where
  "parseXrfl api buffer =
     (if length buffer < 40 then Inl (TooShort (length buffer))
      else (let prefix = readAscii buffer 0 4 in
        if prefix \<noteq> ''XRFL'' then Inl (InvalidPrefix prefix)
        else
          andThen (encodeAccount api (subarray buffer 4 24)) (\<lambda>account.
          andThen (rd 8 buffer 24) (\<lambda>useTicket.
          andThen (rd 8 buffer 32) (\<lambda>requestCount.
          Inr \<lparr>xf_xrplAccount = account, xf_useTicket = useTicket, xf_requestCount = requestCount\<rparr>)))))"

definition parseAdmin :: "xrpl_api \<Rightarrow> bytes \<Rightarrow> payload_error + admin_payload" where
  "parseAdmin api buffer =
     (if length buffer < 25 then Inl (TooShort (length buffer))
      else (let prefix = readAscii buffer 0 4 in
        if prefix \<noteq> ''XADM'' then Inl (InvalidPrefix prefix)
        else
          andThen (rd 1 buffer 4) (\<lambda>action.
          andThen (encodeAccount api (subarray buffer 5 25)) (\<lambda>targetAccount.
          if action = 0x01 then
            (if length buffer < 25 + 2 + 32 then Inl RegisterPeerTooShort
             else andThen (rd 2 buffer 25) (\<lambda>chainId.
               Inr \<lparr>ad_action = action, ad_targetAccount = targetAccount,
                    ad_detail = RegisterPeer chainId (toHex (subarray buffer 27 59))\<rparr>))
          else if action = 0x02 then
            (if length buffer < 25 + 20 then Inl RotateAdminTooShort
             else andThen (encodeAccount api (subarray buffer 25 45)) (\<lambda>newAdmin.
               Inr \<lparr>ad_action = action, ad_targetAccount = targetAccount,
                    ad_detail = RotateAdmin newAdmin\<rparr>))
          else Inr \<lparr>ad_action = action, ad_targetAccount = targetAccount,
                    ad_detail = UnknownAction action\<rparr>))))"

definition parseOnboarding :: "xrpl_api \<Rightarrow> bytes \<Rightarrow> payload_error + onboarding_payload" where
  "parseOnboarding api buffer =
     (if length buffer < 72 then Inl (TooShort (length buffer))
      else (let prefix = readAscii buffer 0 4 in
        if prefix \<noteq> ''XRPL'' then Inl (InvalidPrefix prefix)
        else
          andThen (encodeAccount api (subarray buffer 4 24)) (\<lambda>admin.
          let appType = utf8Decode (dropWhile (\<lambda>b. b = 0) (subarray buffer 24 56)) in
          andThen (rd 8 buffer 56) (\<lambda>initialTicket.
          andThen (rd 8 buffer 64) (\<lambda>ticketCount.
          Inr \<lparr>ob_admin = admin, ob_appType = appType, ob_initialTicket = initialTicket,
               ob_ticketCount = ticketCount,
               ob_initDataHex = toHex (subarray buffer 72 (length buffer))\<rparr>)))))"

definition parseNttTransfer :: "bytes \<Rightarrow> payload_error + ntt_transfer" where
  "parseNttTransfer buffer =
     (let transceiverPrefix = toHex (subarray buffer 0 4) in
      if transceiverPrefix \<noteq> ''9945ff10'' then Inl (InvalidPrefix transceiverPrefix)
      else
        (let sourceNttManager = toHex (subarray buffer 4 36);
             recipientNttManager = toHex (subarray buffer 36 68)
         in andThen (rd 2 buffer 68) (\<lambda>managerPayloadLength.
            let msgId = toHex (subarray buffer 70 102);
                sender = toHex (subarray buffer 102 134);
                nttPrefix = toHex (subarray buffer 136 140)
            in if nttPrefix \<noteq> ''994e5454'' then Inl (InvalidPrefix nttPrefix)
               else
                 andThen (rd 1 buffer 140) (\<lambda>decimals.
                 andThen (rd 8 buffer 141) (\<lambda>amount.
                 let sourceToken = toHex (subarray buffer 149 181);
                     recipientAddress = toHex (subarray buffer 181 213)
                 in andThen (rd 2 buffer 213) (\<lambda>recipientChain.
                 Inr \<lparr>nt_sourceNttManager = sourceNttManager,
                      nt_recipientNttManager = recipientNttManager,
                      nt_managerPayloadLength = managerPayloadLength, nt_id = msgId, nt_sender = sender,
                      nt_decimals = decimals, nt_amount = amount, nt_sourceToken = sourceToken,
                      nt_recipientAddress = recipientAddress, nt_recipientChain = recipientChain\<rparr>))))))"

text \<open>\<open>parsePayload\<close>: any exception of a parser falls back to \<open>Unknown\<close>.\<close>

definition orUnknown :: "bytes \<Rightarrow> string \<Rightarrow> payload_error + parsed_payload \<Rightarrow> parsed_payload" where
  "orUnknown payload hexPrefix r =
     (case r of Inl _ \<Rightarrow> Unknown hexPrefix (toHex payload) | Inr p \<Rightarrow> p)"

definition parsePayload :: "xrpl_api \<Rightarrow> bytes \<Rightarrow> parsed_payload" where
  "parsePayload api payload =
     (let asciiPrefix = (if 4 \<le> length payload then readAscii payload 0 4 else []);
          hexPrefix = (if 4 \<le> length payload then toHex (subarray payload 0 4) else [])
      in orUnknown payload hexPrefix
        (if asciiPrefix = ''XREL'' then andThen (parseXrel api payload) (\<lambda>p. Inr (XrplRelease p))
         else if asciiPrefix = ''XRFL'' then andThen (parseXrfl api payload) (\<lambda>p. Inr (TicketRefill p))
         else if asciiPrefix = ''XADM'' then andThen (parseAdmin api payload) (\<lambda>p. Inr (Admin p))
         else if asciiPrefix = ''XRPL'' then andThen (parseOnboarding api payload) (\<lambda>p. Inr (Onboarding p))
         else if hexPrefix = ''9945ff10''
         then andThen (parseNttTransfer payload) (\<lambda>p. Inr (NttTransfer p))
         else Inr (Unknown hexPrefix (toHex payload))))"

section \<open>The VAA envelope\<close>

record vaa_signature =
  sg_guardianIndex :: nat
  sg_signature :: string

record parsed_vaa =
  va_version :: nat
  va_guardianSetIndex :: nat
  va_signatures :: "vaa_signature list"
  va_timestamp :: nat
  va_nonce :: nat
  va_emitterChain :: nat
  va_emitterAddress :: string
  va_sequence :: nat
  va_consistencyLevel :: nat
  va_payload :: bytes

fun parseSignatures :: "nat \<Rightarrow> bytes \<Rightarrow> nat \<Rightarrow> payload_error + (vaa_signature list \<times> nat)" where
  "parseSignatures 0 buf offset = Inr ([], offset)"
| "parseSignatures (Suc n) buf offset =
     andThen (rd 1 buf offset) (\<lambda>guardianIndex.
     let offset = offset + 1; signature = toHex (subarray buf offset (offset + 65)) in
     andThen (parseSignatures n buf (offset + 65)) (\<lambda>(rest, offset).
     Inr (\<lparr>sg_guardianIndex = guardianIndex, sg_signature = signature\<rparr> # rest, offset)))"

definition parseVaa :: "bytes \<Rightarrow> payload_error + parsed_vaa" where
  "parseVaa vaaBytes =
     andThen (rd 1 vaaBytes 0) (\<lambda>version.
     andThen (rd 4 vaaBytes 1) (\<lambda>guardianSetIndex.
     andThen (rd 1 vaaBytes 5) (\<lambda>numSignatures.
     andThen (parseSignatures numSignatures vaaBytes 6) (\<lambda>(signatures, offset).
     andThen (rd 4 vaaBytes offset) (\<lambda>timestamp.
     andThen (rd 4 vaaBytes (offset + 4)) (\<lambda>nonce.
     andThen (rd 2 vaaBytes (offset + 8)) (\<lambda>emitterChain.
     let emitterAddress = toHex (subarray vaaBytes (offset + 10) (offset + 42)) in
     andThen (rd 8 vaaBytes (offset + 42)) (\<lambda>sequ.
     andThen (rd 1 vaaBytes (offset + 50)) (\<lambda>consistencyLevel.
     Inr \<lparr>va_version = version, va_guardianSetIndex = guardianSetIndex, va_signatures = signatures,
          va_timestamp = timestamp, va_nonce = nonce, va_emitterChain = emitterChain,
          va_emitterAddress = emitterAddress, va_sequence = sequ,
          va_consistencyLevel = consistencyLevel,
          va_payload = subarray vaaBytes (offset + 51) (length vaaBytes)\<rparr>)))))))))"

section \<open>The bytes the parsers read\<close>

text \<open>
  A reader at an offset sees what is dropped up to there: the next three lemmas read a field and
  move on. They are shared by all round trips below.
\<close>

lemma rd_at:
  "drop off buf = be_bytes w n @ zs \<Longrightarrow> n < 256 ^ w \<Longrightarrow> 0 < w \<Longrightarrow> rd w buf off = Inr n"
proof -
  assume h: "drop off buf = be_bytes w n @ zs" "n < 256 ^ w" "0 < w"
  have "w + length zs \<le> length buf - off" using arg_cong [OF h(1), of length] by simp
  moreover have "subarray buf off (off + w) = be_bytes w n" by (simp add: subarray_def h(1))
  ultimately show ?thesis
    using h(2,3) by (auto simp: rd_def readUIntBE_def be_nat_be_bytes_id)
qed

lemma subarray_here: "drop off buf = ys @ zs \<Longrightarrow> length ys = k \<Longrightarrow> subarray buf off (off + k) = ys"
  by (simp add: subarray_def)

lemma drop_on: "drop off buf = ys @ zs \<Longrightarrow> length ys = k \<Longrightarrow> drop (off + k) buf = zs"
  by (metis append_eq_conv_conj add.commute drop_drop)

definition fieldBytes :: "bytes \<Rightarrow> bytes" where
  "fieldBytes b = be_bytes 2 (length b) @ b"

lemma parseField_at:
  assumes "drop off buf = fieldBytes b @ zs" "length b < 65536"
  shows "parseField buf off = Inr (toHex b, off + length (fieldBytes b))"
    and "drop (off + length (fieldBytes b)) buf = zs"
proof -
  have d: "drop off buf = be_bytes 2 (length b) @ b @ zs" using assms(1) by (simp add: fieldBytes_def)
  have d2: "drop (off + 2) buf = b @ zs" using drop_on [OF d] by simp
  show "parseField buf off = Inr (toHex b, off + length (fieldBytes b))"
    using rd_at [OF d] subarray_here [OF d2 refl] assms(2)
    by (simp add: parseField_def fieldBytes_def Let_def add.assoc)
  show "drop (off + length (fieldBytes b)) buf = zs" by (rule drop_on [OF assms(1) refl])
qed

record wire_memo =
  wm_data :: bytes
  wm_format :: bytes
  wm_type :: bytes

definition memoBytes :: "wire_memo \<Rightarrow> bytes" where
  "memoBytes m = fieldBytes (wm_data m) @ fieldBytes (wm_format m) @ fieldBytes (wm_type m)"

definition memoFits :: "wire_memo \<Rightarrow> bool" where
  "memoFits m \<longleftrightarrow> length (wm_data m) < 65536 \<and> length (wm_format m) < 65536 \<and> length (wm_type m) < 65536"

definition memoShown :: "wire_memo \<Rightarrow> memo" where
  "memoShown m = \<lparr>mm_data = toHex (wm_data m), mm_format = toHex (wm_format m),
     mm_type = toHex (wm_type m)\<rparr>"

lemma parseMemos_at:
  "drop off buf = concat (map memoBytes ms) @ zs \<Longrightarrow> list_all memoFits ms \<Longrightarrow>
   parseMemos (length ms) buf off = Inr (map memoShown ms)"
proof (induction ms arbitrary: off)
  case (Cons m ms)
  have fits: "length (wm_data m) < 65536" "length (wm_format m) < 65536" "length (wm_type m) < 65536"
    using Cons.prems(2) by (simp_all add: memoFits_def)
  have d1: "drop off buf = fieldBytes (wm_data m) @
      (fieldBytes (wm_format m) @ fieldBytes (wm_type m) @ concat (map memoBytes ms) @ zs)"
    using Cons.prems(1) by (simp add: memoBytes_def [of m])
  note f1 = parseField_at [OF d1 fits(1)]
  note f2 = parseField_at [OF f1(2) fits(2)]
  note f3 = parseField_at [OF f2(2) fits(3)]
  show ?case
    using f1(1) f2(1) f3(1) Cons.IH [OF f3(2)] Cons.prems(2) by (simp add: memoShown_def)
qed simp

section \<open>Round trips\<close>

text \<open>The fields of an XREL message as the contracts write them, and what the CLI shows of them.\<close>

record xrel_wire =
  xw_ticketId :: nat
  xw_custody :: bytes
  xw_recipient :: bytes
  xw_amount :: nat
  xw_tokenDecimals :: nat
  xw_sourceChain :: nat
  xw_sourceEmitter :: bytes
  xw_sourceSequence :: nat
  xw_tokenId :: token_id
  xw_memos :: "wire_memo list"

fun tokenBytes :: "token_id \<Rightarrow> bytes" where
  "tokenBytes XrpToken = [0x00]"
| "tokenBytes (IouToken currency issuer) = [0x01] @ currency @ issuer"
| "tokenBytes (MptToken issuance) = [0x02] @ issuance"

fun tokenFits :: "token_id \<Rightarrow> bool" where
  "tokenFits XrpToken \<longleftrightarrow> True"
| "tokenFits (IouToken currency issuer) \<longleftrightarrow> length currency = 20 \<and> length issuer = 20"
| "tokenFits (MptToken issuance) \<longleftrightarrow> length issuance = 24"

fun tokenShown :: "xrpl_api \<Rightarrow> token_id \<Rightarrow> payload_error + xrel_token" where
  "tokenShown api XrpToken = Inr XrelXrp"
| "tokenShown api (IouToken currency issuer) =
     andThen (encodeAccount api issuer) (\<lambda>s. Inr (XrelIou (toUpperCase (toHex currency)) s))"
| "tokenShown api (MptToken issuance) = Inr (XrelMpt (toUpperCase (toHex issuance)))"

definition asciiBytes :: "string \<Rightarrow> bytes" where
  "asciiBytes s = map codeOf s"

lemma readAscii_asciiBytes:
  "list_all (\<lambda>c. (of_char c :: nat) < 128) s \<Longrightarrow> n = length s \<Longrightarrow> readAscii (asciiBytes s @ rest) 0 n = s"
proof -
  have *: "char_of (unat (codeOf c) mod 128) = c" if "(of_char c :: nat) < 128" for c
    using that by (simp add: codeOf_def unsigned_of_nat take_bit_eq_mod)
  show "list_all (\<lambda>c. (of_char c :: nat) < 128) s \<Longrightarrow> n = length s \<Longrightarrow>
    readAscii (asciiBytes s @ rest) 0 n = s"
    by (simp add: readAscii_def asciiBytes_def subarray_def list.map_comp o_def map_idI list_all_iff *)
qed

lemma length_asciiBytes [simp]: "length (asciiBytes s) = length s"
  by (simp add: asciiBytes_def)

definition xrelBytes :: "xrel_wire \<Rightarrow> bytes" where
  "xrelBytes w = asciiBytes ''XREL'' @ be_bytes 8 (xw_ticketId w) @ xw_custody w @ xw_recipient w @
     be_bytes 8 (xw_amount w) @ be_bytes 1 (xw_tokenDecimals w) @ be_bytes 2 (xw_sourceChain w) @
     xw_sourceEmitter w @ be_bytes 8 (xw_sourceSequence w) @ tokenBytes (xw_tokenId w) @
     be_bytes 2 (length (xw_memos w)) @ concat (map memoBytes (xw_memos w))"

definition xrelFits :: "xrel_wire \<Rightarrow> bool" where
  "xrelFits w \<longleftrightarrow> xw_ticketId w < 2 ^ 64 \<and> length (xw_custody w) = 20 \<and> length (xw_recipient w) = 20 \<and>
     xw_amount w < 2 ^ 64 \<and> xw_tokenDecimals w < 256 \<and> xw_sourceChain w < 65536 \<and>
     length (xw_sourceEmitter w) = 32 \<and> xw_sourceSequence w < 2 ^ 64 \<and> tokenFits (xw_tokenId w) \<and>
     length (xw_memos w) < 65536 \<and> list_all memoFits (xw_memos w)"

definition xrelShown :: "xrpl_api \<Rightarrow> xrel_wire \<Rightarrow> payload_error + xrel_payload" where
  "xrelShown api w =
     andThen (encodeAccount api (xw_custody w)) (\<lambda>custody.
     andThen (encodeAccount api (xw_recipient w)) (\<lambda>recipient.
     andThen (tokenShown api (xw_tokenId w)) (\<lambda>token.
     Inr \<lparr>xr_ticketId = xw_ticketId w, xr_custody = custody, xr_recipient = recipient,
          xr_amount = xw_amount w, xr_tokenDecimals = xw_tokenDecimals w,
          xr_sourceChain = xw_sourceChain w, xr_sourceEmitter = toHex (xw_sourceEmitter w),
          xr_sourceSequence = xw_sourceSequence w, xr_tokenId = token,
          xr_memos = map memoShown (xw_memos w)\<rparr>)))"

lemma parseXrelToken_at:
  assumes d: "drop off buf = tokenBytes t @ zs" and f: "tokenFits t"
  shows "parseXrelToken api buf off =
    andThen (tokenShown api t) (\<lambda>s. Inr (s, off + length (tokenBytes t)))"
proof -
  have "length buf - off = length (tokenBytes t) + length zs" "0 < length (tokenBytes t)"
    using arg_cong [OF d, of length] by (simp, cases t) simp_all
  then have len: "\<not> length buf < off + length (tokenBytes t)" by linarith
  show ?thesis
  proof (cases t)
    case XrpToken
    then have "rd 1 buf off = Inr 0" using d rd_at [of off buf 1 0 zs] by simp
    then show ?thesis using XrpToken by (simp add: parseXrelToken_def)
  next
    case (IouToken c i)
    have r: "rd 1 buf off = Inr 1" using d IouToken rd_at [of off buf 1 1] by simp
    have d1: "drop (off + 1) buf = c @ i @ zs" using d IouToken drop_on [of off buf "[1]" _ 1] by simp
    have d2: "drop (off + 1 + 20) buf = i @ zs" using drop_on [OF d1] f IouToken by simp
    show ?thesis
      using r len f IouToken subarray_here [OF d1, of 20] subarray_here [OF d2, of 20]
      by (simp add: parseXrelToken_def Let_def andThen_assoc algebra_simps)
  next
    case (MptToken m)
    have r: "rd 1 buf off = Inr 2" using d MptToken rd_at [of off buf 1 2] by simp
    have d1: "drop (off + 1) buf = m @ zs" using d MptToken drop_on [of off buf "[2]" _ 1] by simp
    show ?thesis
      using r len f MptToken subarray_here [OF d1, of 24]
      by (simp add: parseXrelToken_def Let_def algebra_simps)
  qed
qed

text \<open>
  Reading back an XREL message: for every message whose fields have the widths of the layout,
  the parser returns the fields that were written, with the accounts as the address codec prints
  them and the token and the memos in hexadecimal, whatever bytes follow; the only errors left are
  those of the address codec, for the custody account first, then the recipient, then the issuer.
\<close>

theorem parseXrel_reads_back:
  assumes fits: "xrelFits w"
  shows "parseXrel api (xrelBytes w @ rest) = xrelShown api w"
proof -
  define buf where "buf = xrelBytes w @ rest"
  have n [simp]: "length (xw_custody w) = 20" "length (xw_recipient w) = 20"
    "length (xw_sourceEmitter w) = 32" "tokenFits (xw_tokenId w)"
    using fits by (simp_all add: xrelFits_def)
  have len: "\<not> length buf < 106"
    by (cases "xw_tokenId w") (simp_all add: buf_def xrelBytes_def asciiBytes_def)
  have pre: "readAscii buf 0 4 = ''XREL''"
    unfolding buf_def xrelBytes_def append_assoc by (rule readAscii_asciiBytes) simp_all
  note d0 = buf_def [unfolded xrelBytes_def append_assoc]
  have d4: "drop 4 buf = be_bytes 8 (xw_ticketId w) @ drop 12 buf"
    and d12: "drop 12 buf = xw_custody w @ drop 32 buf"
    and d32: "drop 32 buf = xw_recipient w @ drop 52 buf"
    and d52: "drop 52 buf = be_bytes 8 (xw_amount w) @ drop 60 buf"
    and d60: "drop 60 buf = be_bytes 1 (xw_tokenDecimals w) @ drop 61 buf"
    and d61: "drop 61 buf = be_bytes 2 (xw_sourceChain w) @ drop 63 buf"
    and d63: "drop 63 buf = xw_sourceEmitter w @ drop 95 buf"
    and d95: "drop 95 buf = be_bytes 8 (xw_sourceSequence w) @ drop 103 buf"
    and d103: "drop 103 buf = tokenBytes (xw_tokenId w) @ be_bytes 2 (length (xw_memos w)) @
      concat (map memoBytes (xw_memos w)) @ rest"
    unfolding d0 by simp_all
  have r: "rd 8 buf 4 = Inr (xw_ticketId w)" "rd 8 buf 52 = Inr (xw_amount w)"
    "rd 1 buf 60 = Inr (xw_tokenDecimals w)" "rd 2 buf 61 = Inr (xw_sourceChain w)"
    "rd 8 buf 95 = Inr (xw_sourceSequence w)"
    using rd_at [OF d4] rd_at [OF d52] rd_at [OF d60] rd_at [OF d61] rd_at [OF d95] fits
    by (simp_all add: xrelFits_def)
  have s: "subarray buf 12 32 = xw_custody w" "subarray buf 32 52 = xw_recipient w"
    "subarray buf 63 95 = xw_sourceEmitter w"
    using subarray_here [OF d12, of 20] subarray_here [OF d32, of 20] subarray_here [OF d63, of 32]
    by simp_all
  define off where "off = 103 + length (tokenBytes (xw_tokenId w))"
  have doff: "drop off buf = be_bytes 2 (length (xw_memos w)) @ concat (map memoBytes (xw_memos w)) @ rest"
    unfolding off_def by (rule drop_on [OF d103 refl])
  have t: "parseXrelToken api buf 103 = andThen (tokenShown api (xw_tokenId w)) (\<lambda>s. Inr (s, off))"
    unfolding off_def using parseXrelToken_at [OF d103] by simp
  have m: "rd 2 buf off = Inr (length (xw_memos w))"
    "parseMemos (length (xw_memos w)) buf (off + 2) = Inr (map memoShown (xw_memos w))"
    using rd_at [OF doff] parseMemos_at [OF drop_on [OF doff]] fits by (simp_all add: xrelFits_def)
  show ?thesis
    unfolding buf_def [symmetric] xrelShown_def parseXrel_def
    using len by (simp add: pre Let_def r [simplified] s t m [simplified] andThen_assoc)
qed

text \<open>An XREL message of an issued token with two memos; accounts are shown in hexadecimal.\<close>

definition hexApi :: xrpl_api where
  "hexApi = \<lparr>decodeAccountID = (\<lambda>s. Inr (fromHex (tl s))), encodeAccountID = (\<lambda>b. Inr (CHR ''r'' # toHex b))\<rparr>"

definition exampleXrel :: xrel_wire where
  "exampleXrel = \<lparr>xw_ticketId = 7, xw_custody = replicate 20 1, xw_recipient = replicate 20 2,
     xw_amount = 1000, xw_tokenDecimals = 6, xw_sourceChain = 2, xw_sourceEmitter = replicate 32 3,
     xw_sourceSequence = 9, xw_tokenId = IouToken (replicate 20 4) (replicate 20 5),
     xw_memos = [\<lparr>wm_data = [1, 2], wm_format = [], wm_type = [255]\<rparr>,
       \<lparr>wm_data = [], wm_format = [3], wm_type = []\<rparr>]\<rparr>"

lemma parseXrel_reads_back_witness:
  "xrelFits exampleXrel \<and>
   parseXrel hexApi (xrelBytes exampleXrel @ [0]) = xrelShown hexApi exampleXrel \<and>
   isOk (xrelShown hexApi exampleXrel)"
proof -
  have f: "xrelFits exampleXrel"
    by (simp add: xrelFits_def exampleXrel_def memoFits_def)
  have "isOk (xrelShown hexApi exampleXrel)"
    by (simp add: xrelShown_def exampleXrel_def encodeAccount_def hexApi_def)
  with f parseXrel_reads_back [OF f] show ?thesis by simp
qed

section \<open>VAAs\<close>

record wire_vaa =
  wv_version :: nat
  wv_guardianSetIndex :: nat
  wv_signatures :: "(nat \<times> bytes) list"
  wv_timestamp :: nat
  wv_nonce :: nat
  wv_emitterChain :: nat
  wv_emitterAddress :: bytes
  wv_sequence :: nat
  wv_consistencyLevel :: nat
  wv_payload :: bytes

definition signatureBytes :: "nat \<times> bytes \<Rightarrow> bytes" where
  "signatureBytes s = be_bytes 1 (fst s) @ snd s"

definition vaaBytes :: "wire_vaa \<Rightarrow> bytes" where
  "vaaBytes v = be_bytes 1 (wv_version v) @ be_bytes 4 (wv_guardianSetIndex v) @
     be_bytes 1 (length (wv_signatures v)) @ concat (map signatureBytes (wv_signatures v)) @
     be_bytes 4 (wv_timestamp v) @ be_bytes 4 (wv_nonce v) @ be_bytes 2 (wv_emitterChain v) @
     wv_emitterAddress v @ be_bytes 8 (wv_sequence v) @ be_bytes 1 (wv_consistencyLevel v) @
     wv_payload v"

definition vaaFits :: "wire_vaa \<Rightarrow> bool" where
  "vaaFits v \<longleftrightarrow> wv_version v < 256 \<and> wv_guardianSetIndex v < 2 ^ 32 \<and>
     length (wv_signatures v) < 256 \<and>
     list_all (\<lambda>(i, s). i < 256 \<and> length s = 65) (wv_signatures v) \<and>
     wv_timestamp v < 2 ^ 32 \<and> wv_nonce v < 2 ^ 32 \<and> wv_emitterChain v < 65536 \<and>
     length (wv_emitterAddress v) = 32 \<and> wv_sequence v < 2 ^ 64 \<and> wv_consistencyLevel v < 256"

definition vaaShown :: "wire_vaa \<Rightarrow> parsed_vaa" where
  "vaaShown v = \<lparr>va_version = wv_version v, va_guardianSetIndex = wv_guardianSetIndex v,
     va_signatures = map (\<lambda>(i, s). \<lparr>sg_guardianIndex = i, sg_signature = toHex s\<rparr>) (wv_signatures v),
     va_timestamp = wv_timestamp v, va_nonce = wv_nonce v, va_emitterChain = wv_emitterChain v,
     va_emitterAddress = toHex (wv_emitterAddress v), va_sequence = wv_sequence v,
     va_consistencyLevel = wv_consistencyLevel v, va_payload = wv_payload v\<rparr>"

lemma parseSignatures_at:
  "drop off buf = concat (map signatureBytes ss) @ zs \<Longrightarrow>
   list_all (\<lambda>(i, s). i < 256 \<and> length s = 65) ss \<Longrightarrow>
   parseSignatures (length ss) buf off =
     Inr (map (\<lambda>(i, s). \<lparr>sg_guardianIndex = i, sg_signature = toHex s\<rparr>) ss, off + 66 * length ss)"
proof (induction ss arbitrary: off)
  case (Cons a ss)
  obtain i s where a: "a = (i, s)" by (cases a)
  have f: "i < 256" "length s = 65" using Cons.prems(2) a by simp_all
  have d1: "drop off buf = be_bytes 1 i @ s @ concat (map signatureBytes ss) @ zs"
    using Cons.prems(1) a by (simp add: signatureBytes_def [of "(i, s)"])
  have d2: "drop (off + 1) buf = s @ concat (map signatureBytes ss) @ zs"
    using drop_on [OF d1] by simp
  have d3: "drop (off + 1 + 65) buf = concat (map signatureBytes ss) @ zs"
    using drop_on [OF d2 f(2)] .
  have "rd 1 buf off = Inr i" using rd_at [OF d1] f by simp
  then show ?case
    using Cons.IH [OF d3] Cons.prems(2) subarray_here [OF d2 f(2)] by (simp add: a Let_def)
qed simp

text \<open>
  C38. The VAA envelope reads back: for every VAA whose fields have their width and whose
  signatures are 65 bytes, the parser returns every field that was written, the signatures in
  order with their guardian indices, and exactly the bytes behind the header as the payload.
\<close>

theorem parseVaa_reads_back:
  assumes fits: "vaaFits v"
  shows "parseVaa (vaaBytes v) = Inr (vaaShown v)"
proof -
  define buf where "buf = vaaBytes v"
  define off where "off = 6 + 66 * length (wv_signatures v)"
  note d0 = buf_def [unfolded vaaBytes_def]
  have ea: "length (wv_emitterAddress v) = 32"
    and ss: "list_all (\<lambda>(i, s). i < 256 \<and> length s = 65) (wv_signatures v)"
    using fits by (simp_all add: vaaFits_def)
  have e0: "drop 0 buf = be_bytes 1 (wv_version v) @ drop 1 buf"
    and e1: "drop 1 buf = be_bytes 4 (wv_guardianSetIndex v) @ drop 5 buf"
    and e5: "drop 5 buf = be_bytes 1 (length (wv_signatures v)) @ drop 6 buf"
    and e6: "drop 6 buf = concat (map signatureBytes (wv_signatures v)) @
      be_bytes 4 (wv_timestamp v) @ be_bytes 4 (wv_nonce v) @ be_bytes 2 (wv_emitterChain v) @
      wv_emitterAddress v @ be_bytes 8 (wv_sequence v) @ be_bytes 1 (wv_consistencyLevel v) @
      wv_payload v"
    unfolding d0 by simp_all
  have len: "length (concat (map signatureBytes ss)) = 66 * length ss"
    if "list_all (\<lambda>(i, s). i < 256 \<and> length s = 65) ss" for ss :: "(nat \<times> bytes) list"
    using that by (induction ss) (auto simp: signatureBytes_def)
  note o1 = drop_on [OF e6 len [OF ss], folded off_def]
  note sums = add.assoc numeral_plus_numeral add_num_simps
  note o2 = drop_on [OF o1 length_be_bytes]
  note o3 = drop_on [OF o2 length_be_bytes, unfolded sums]
  note o4 = drop_on [OF o3 length_be_bytes, unfolded sums]
  note o5 = drop_on [OF o4 ea, unfolded sums]
  note o6 = drop_on [OF o5 length_be_bytes, unfolded sums]
  note o7 = drop_on [OF o6 length_be_bytes, unfolded sums]
  have s: "parseSignatures (length (wv_signatures v)) buf 6 = Inr (va_signatures (vaaShown v), off)"
    using parseSignatures_at [OF e6 ss] by (simp add: vaaShown_def off_def)
  have r: "rd 1 buf 0 = Inr (wv_version v)" "rd 4 buf 1 = Inr (wv_guardianSetIndex v)"
    "rd 1 buf 5 = Inr (length (wv_signatures v))" "rd 4 buf off = Inr (wv_timestamp v)"
    using rd_at [OF e0] rd_at [OF e1] rd_at [OF e5] rd_at [OF o1] fits by (simp_all add: vaaFits_def)
  have r2: "rd 4 buf (off + 4) = Inr (wv_nonce v)" "rd 2 buf (off + 8) = Inr (wv_emitterChain v)"
    "rd 8 buf (off + 42) = Inr (wv_sequence v)" "rd 1 buf (off + 50) = Inr (wv_consistencyLevel v)"
    using rd_at [OF o2] rd_at [OF o3] rd_at [OF o5] rd_at [OF o6] fits by (simp_all add: vaaFits_def)
  have t: "subarray buf (off + 10) (off + 42) = wv_emitterAddress v"
    using subarray_here [OF o4 ea, unfolded sums] .
  have "drop (off + 51) buf = wv_payload v" using o7 by (simp add: add.commute)
  then have p: "subarray buf (off + 51) (length buf) = wv_payload v"
    by (simp add: subarray_def flip: length_drop)
  show ?thesis
    unfolding buf_def [symmetric] parseVaa_def
    by (simp add: r [simplified] r2 [simplified] s t [simplified] p [simplified] Let_def)
      (simp add: vaaShown_def)
qed

definition exampleVaa :: wire_vaa where
  "exampleVaa = \<lparr>wv_version = 1, wv_guardianSetIndex = 4, wv_signatures = [(0, replicate 65 7), (3, replicate 65 8)],
     wv_timestamp = 1700000000, wv_nonce = 0, wv_emitterChain = 66, wv_emitterAddress = replicate 32 9,
     wv_sequence = 12, wv_consistencyLevel = 1, wv_payload = [0x58, 0x52]\<rparr>"

lemma parseVaa_reads_back_witness:
  "vaaFits exampleVaa \<and> parseVaa (vaaBytes exampleVaa) = Inr (vaaShown exampleVaa)"
proof -
  have f: "vaaFits exampleVaa" by (simp add: vaaFits_def exampleVaa_def)
  with parseVaa_reads_back [OF f] show ?thesis by simp
qed
section \<open>The dispatcher\<close>

definition errs :: "'e + 'a \<Rightarrow> bool" where
  "errs r \<longleftrightarrow> \<not> isOk r"

definition prefixHex :: "bytes \<Rightarrow> string" where
  "prefixHex b = (if 4 \<le> length b then toHex (take 4 b) else [])"

lemma errs_simps [simp]: "errs (Inl e)" "\<not> errs (Inr x)" "errs (andThen r (\<lambda>p. Inr (f p))) \<longleftrightarrow> errs r"
  by (simp_all add: errs_def andThen_def split: sum.split)

lemma wrong_prefix:
  "\<not> (4 \<le> length b \<and> readAscii b 0 4 = ''XREL'') \<Longrightarrow> errs (parseXrel api b)"
  "\<not> (4 \<le> length b \<and> readAscii b 0 4 = ''XRFL'') \<Longrightarrow> errs (parseXrfl api b)"
  "\<not> (4 \<le> length b \<and> readAscii b 0 4 = ''XADM'') \<Longrightarrow> errs (parseAdmin api b)"
  "\<not> (4 \<le> length b \<and> readAscii b 0 4 = ''XRPL'') \<Longrightarrow> errs (parseOnboarding api b)"
  by (simp_all add: parseXrel_def parseXrfl_def parseAdmin_def parseOnboarding_def Let_def)

lemma wrong_transceiver: "prefixHex b \<noteq> ''9945ff10'' \<Longrightarrow> errs (parseNttTransfer b)"
proof -
  assume h: "prefixHex b \<noteq> ''9945ff10''"
  have "toHex (subarray b 0 4) \<noteq> ''9945ff10''"
  proof
    assume a: "toHex (subarray b 0 4) = ''9945ff10''"
    then have "length (toHex (subarray b 0 4)) = 8" by simp
    then have "4 \<le> length b" by (simp add: subarray_def)
    with h a show False by (simp add: prefixHex_def subarray_def)
  qed
  then show ?thesis by (simp add: parseNttTransfer_def)
qed

text \<open>The transceiver prefix, with the top bits dropped, is none of the ASCII prefixes.\<close>

lemma transceiver_ascii:
  assumes "prefixHex b = ''9945ff10''"
  shows "readAscii b 0 4 \<notin> {''XREL'', ''XRFL'', ''XADM'', ''XRPL''}"
proof -
  have "take 4 b = [0x99, 0x45, 0xff, 0x10]"
  proof -
    have "toHex (take 4 b) = toHex [0x99, 0x45, 0xff, 0x10]"
      using assms by (simp add: prefixHex_def hex_byte_def digit_char_eval split: if_splits)
    then show ?thesis by (simp only: toHex_inj)
  qed
  moreover have "char_of (25 :: nat) \<noteq> CHR ''X''" by code_simp
  ultimately show ?thesis by (simp add: readAscii_def subarray_def)
qed

text \<open>
  C39. The dispatcher against the parsers: it shows a payload as one of the five kinds only when
  that parser reads it, and it falls back to \<open>Unknown\<close> only when none of the five parsers reads
  it; then it keeps the four leading bytes and every byte of the payload.
\<close>

theorem parsePayload_dispatch:
  "case parsePayload api b of
     XrplRelease p \<Rightarrow> parseXrel api b = Inr p
   | TicketRefill p \<Rightarrow> parseXrfl api b = Inr p
   | Admin p \<Rightarrow> parseAdmin api b = Inr p
   | Onboarding p \<Rightarrow> parseOnboarding api b = Inr p
   | NttTransfer p \<Rightarrow> parseNttTransfer b = Inr p
   | Unknown pre h \<Rightarrow> pre = prefixHex b \<and> fromHex h = b \<and> errs (parseXrel api b) \<and>
       errs (parseXrfl api b) \<and> errs (parseAdmin api b) \<and> errs (parseOnboarding api b) \<and>
       errs (parseNttTransfer b)"
proof -
  define asc where "asc = (if 4 \<le> length b then readAscii b 0 4 else [])"
  define r where "r =
    (if asc = ''XREL'' then andThen (parseXrel api b) (\<lambda>p. Inr (XrplRelease p))
     else if asc = ''XRFL'' then andThen (parseXrfl api b) (\<lambda>p. Inr (TicketRefill p))
     else if asc = ''XADM'' then andThen (parseAdmin api b) (\<lambda>p. Inr (Admin p))
     else if asc = ''XRPL'' then andThen (parseOnboarding api b) (\<lambda>p. Inr (Onboarding p))
     else if prefixHex b = ''9945ff10'' then andThen (parseNttTransfer b) (\<lambda>p. Inr (NttTransfer p))
     else Inr (Unknown (prefixHex b) (toHex b)))"
  have pp: "parsePayload api b = orUnknown b (prefixHex b) r"
    by (simp add: parsePayload_def r_def asc_def prefixHex_def subarray_def Let_def)
  have none: "asc \<noteq> ''XREL'' \<Longrightarrow> errs (parseXrel api b)" "asc \<noteq> ''XRFL'' \<Longrightarrow> errs (parseXrfl api b)"
    "asc \<noteq> ''XADM'' \<Longrightarrow> errs (parseAdmin api b)" "asc \<noteq> ''XRPL'' \<Longrightarrow> errs (parseOnboarding api b)"
    using wrong_prefix [of b api] by (auto simp: asc_def split: if_splits)
  have ntt: "errs (parseNttTransfer b)"
    if "asc \<in> {''XREL'', ''XRFL'', ''XADM'', ''XRPL''} \<or> prefixHex b \<noteq> ''9945ff10''"
    using that wrong_transceiver [of b] transceiver_ascii [of b] by (auto simp: asc_def split: if_splits)
  show ?thesis
  proof (cases r)
    case (Inr p)
    then show ?thesis
      using none ntt unfolding pp r_def
      by (auto simp: orUnknown_def andThen_eq_Inr split: if_splits)
  next
    case (Inl e)
    moreover have "errs (parseXrel api b) \<and> errs (parseXrfl api b) \<and> errs (parseAdmin api b) \<and>
        errs (parseOnboarding api b) \<and> errs (parseNttTransfer b)"
      using Inl none ntt unfolding r_def
      by (auto simp: andThen_eq_Inl split: if_splits)
    ultimately show ?thesis by (simp add: pp orUnknown_def)
  qed
qed

end
