(* ===== verification/Xrpl_Builders.thy ===== *)
theory Xrpl_Builders
  imports Xrpl_Payload Js_Numbers
begin

text \<open>
  The builders of the payloads an XRPL manager publishes, \<open>cli/src/xrpl/admin.ts\<close> and
  \<open>cli/src/xrpl/onboarding.ts\<close>, against the decoders of \<open>cli/src/xrpl/payloads.ts\<close>.
\<close>

section \<open>Shared encoders\<close>

datatype builder_error =
    BadAddress string
  | NotAddress32 string
  | NotUint16 js_number
  | NotUint8 js_number
  | NotBigInt string
  | NotUint64 int
  | HexTooLong nat nat
  | CurrencyCode string
  | MptIdLength
  | AppTooLong code_points
  | NoCoreAccount string

definition accountIdHex :: "xrpl_api \<Rightarrow> string \<Rightarrow> builder_error + string" where
  "accountIdHex api rAddress =
     (case decodeAccountID api rAddress of Inl e \<Rightarrow> Inl (BadAddress e) | Inr b \<Rightarrow> Inr (toHex b))"

definition lowerHex :: "nat \<Rightarrow> string \<Rightarrow> bool" where
  "lowerHex n h \<longleftrightarrow> length h = n \<and> list_all isHex h"

definition normalizeAddress32 :: "string \<Rightarrow> builder_error + string" where
  "normalizeAddress32 hex =
     (let h = toLowerCase (if toLowerCase (take 2 hex) = ''0x'' then drop 2 hex else hex) in
      if \<not> lowerHex 64 h then Inl (NotAddress32 hex) else Inr h)"

definition chainIdHex :: "js_number \<Rightarrow> builder_error + string" where
  "chainIdHex chainId =
     (if \<not> isInteger chainId \<or> ltInt chainId 0 \<or> gtInt chainId 0xffff then Inl (NotUint16 chainId)
      else Inr (padStart 4 (CHR ''0'') (hex_of_nat (toNat chainId))))"

section \<open>Administration\<close>

definition XADM_PREFIX :: string where
  "XADM_PREFIX = ''5841444D''"

record register_peer =
  rp_manager :: string
  rp_peerChainId :: js_number
  rp_peerAddress :: string

definition buildRegisterPeerPayload :: "xrpl_api \<Rightarrow> register_peer \<Rightarrow> builder_error + string" where
  "buildRegisterPeerPayload api params =
     andThen (accountIdHex api (rp_manager params)) (\<lambda>manager.
     andThen (chainIdHex (rp_peerChainId params)) (\<lambda>chain.
     andThen (normalizeAddress32 (rp_peerAddress params)) (\<lambda>peer.
     Inr (XADM_PREFIX @ ''01'' @ manager @ chain @ peer))))"

definition buildRotateAdminPayload :: "xrpl_api \<Rightarrow> string \<Rightarrow> string \<Rightarrow> builder_error + string" where
  "buildRotateAdminPayload api manager newAdmin =
     andThen (accountIdHex api manager) (\<lambda>m.
     andThen (accountIdHex api newAdmin) (\<lambda>a.
     Inr (XADM_PREFIX @ ''02'' @ m @ a)))"

section \<open>Onboarding\<close>

definition XRPL_ONBOARDING_PREFIX :: string where
  "XRPL_ONBOARDING_PREFIX = ''5852504C''"

definition getDefaultCoreAccountForNetwork :: "string \<Rightarrow> builder_error + string" where
  "getDefaultCoreAccountForNetwork network =
     (case map_of [(''Testnet'', ''rpuMNy2dBzimaQHTFpXsfoCoqicgd8etQQ'')] network of
        None \<Rightarrow> Inl (NoCoreAccount network)
      | Some account \<Rightarrow> Inr account)"

datatype token_init = XrpInit | IouInit string string | MptInit string

definition u8Hex :: "js_number \<Rightarrow> builder_error + string" where
  "u8Hex n =
     (if \<not> isInteger n \<or> ltInt n 0 \<or> gtInt n 0xff then Inl (NotUint8 n)
      else Inr (padStart 2 (CHR ''0'') (hex_of_nat (toNat n))))"

datatype integer_arg = IntegerText string | BigInteger int

definition u64Hex :: "integer_arg \<Rightarrow> builder_error + string" where
  "u64Hex n =
     andThen (case n of
        BigInteger i \<Rightarrow> Inr i
      | IntegerText s \<Rightarrow> (case parseBigInt s of None \<Rightarrow> Inl (NotBigInt s) | Some i \<Rightarrow> Inr i)) (\<lambda>v.
     if v < 0 \<or> 2 ^ 64 - 1 < v then Inl (NotUint64 v)
     else Inr (padStart 16 (CHR ''0'') (hex_of_nat (nat v))))"

definition padRight :: "string \<Rightarrow> nat \<Rightarrow> builder_error + string" where
  "padRight hex n =
     (let target = n * 2 in
      if target < length hex then Inl (HexTooLong (length hex) n)
      else Inr (padEnd target (CHR ''0'') hex))"

definition currencyToHex40 :: "string \<Rightarrow> builder_error + string" where
  "currencyToHex40 currency =
     (if length currency = 40 \<and> list_all isHex currency then Inr (toLowerCase currency)
      else if 1 \<le> length currency \<and> length currency \<le> 3
      then Inr (toHex (copyInto (replicate 20 0) 12 (map codeOf currency)))
      else Inl (CurrencyCode currency))"

definition buildInitData :: "xrpl_api \<Rightarrow> js_number \<Rightarrow> token_init \<Rightarrow> builder_error + string" where
  "buildInitData api decimals token =
     andThen (u8Hex decimals) (\<lambda>dec.
     case token of
       XrpInit \<Rightarrow> Inr dec
     | IouInit c i \<Rightarrow>
         andThen (currencyToHex40 c) (\<lambda>currency.
         andThen (accountIdHex api i) (\<lambda>issuer.
         andThen (padRight (''01'' @ currency @ issuer) 42) (\<lambda>padded. Inr (dec @ padded))))
     | MptInit mptId \<Rightarrow>
         (if \<not> lowerHex 48 mptId then Inl MptIdLength
          else andThen (padRight (''02'' @ mptId) 42) (\<lambda>padded. Inr (dec @ padded))))"

record onboarding_params =
  op_admin :: string
  op_app :: code_points
  op_initialTicket :: int
  op_ticketCount :: int
  op_initData :: string

definition buildOnboardingPayload :: "xrpl_api \<Rightarrow> onboarding_params \<Rightarrow> builder_error + string" where
  "buildOnboardingPayload api params =
     andThen (accountIdHex api (op_admin params)) (\<lambda>adminHex.
     let appHex = toHex (utf8Encode (op_app params)) in
     if 64 < length appHex then Inl (AppTooLong (op_app params))
     else
       (let appPadded = padStart 64 (CHR ''0'') appHex in
        andThen (u64Hex (BigInteger (op_initialTicket params))) (\<lambda>ticket.
        andThen (u64Hex (BigInteger (op_ticketCount params))) (\<lambda>count.
        Inr (XRPL_ONBOARDING_PREFIX @ adminHex @ appPadded @ ticket @ count @ op_initData params)))))"

definition buildPublishMemoData :: "string \<Rightarrow> string" where
  "buildPublishMemoData payloadHex = toUpperCase (''01'' @ ''00000000'' @ payloadHex)"

section \<open>What the builders write\<close>

definition evenHex :: "string \<Rightarrow> bool" where
  "evenHex s \<longleftrightarrow> list_all isHex s \<and> even (length s)"

lemma fromHex_evenHex: "evenHex s \<Longrightarrow> fromHex (s @ t) = fromHex s @ fromHex t"
  by (simp add: evenHex_def fromHex_append)

lemma evenHex_toHex [simp]: "evenHex (toHex b)"
  by (simp add: evenHex_def)

lemma isHex_zero [simp]: "isHex (CHR ''0'')"
  by (simp add: isHex_def hexval_def)

text \<open>An address of the \<open>xrpl\<close> package: it decodes to 20 bytes, which encode to it.\<close>

definition classicAddress :: "xrpl_api \<Rightarrow> string \<Rightarrow> bool" where
  "classicAddress api s \<longleftrightarrow>
     (case decodeAccountID api s of Inl _ \<Rightarrow> False
      | Inr b \<Rightarrow> length b = 20 \<and> encodeAccountID api b = Inr s)"

lemma classicAddressE:
  assumes "classicAddress api s"
  obtains b where "accountIdHex api s = Inr (toHex b)" "length b = 20" "encodeAccount api b = Inr s"
  using assms by (auto simp: classicAddress_def accountIdHex_def encodeAccount_def split: sum.splits)

lemma padded_number:
  assumes "n < 256 ^ w" "0 < w"
  shows "evenHex (padStart (2 * w) (CHR ''0'') (hex_of_nat n))"
    and "fromHex (padStart (2 * w) (CHR ''0'') (hex_of_nat n)) = be_bytes w n"
proof -
  show *: "fromHex (padStart (2 * w) (CHR ''0'') (hex_of_nat n)) = be_bytes w n"
    using assms by (rule fromHex_hex_of_nat)
  have "(256::nat) ^ w = 16 ^ (2 * w)" by (simp add: power_mult)
  then have "length (hex_of_nat n) \<le> 2 * w"
    using assms digits_of_length [of 16 "2 * w" n] by (simp add: hex_of_nat_def)
  then show "evenHex (padStart (2 * w) (CHR ''0'') (hex_of_nat n))"
    by (simp add: evenHex_def) (simp add: padStart_def list_all_iff set_replicate_conv_if,
      metis all_hex_hex_of_nat list_all_iff)
qed

lemma uint_guard: "\<not> (\<not> isInteger n \<or> ltInt n 0 \<or> gtInt n k) \<Longrightarrow> toNat n \<le> nat k"
  using uint_range_iff [of n k] by (auto simp: uint_range_def nat_mono)

lemma chainIdHex_Inr:
  "chainIdHex n = Inr h \<Longrightarrow> evenHex h \<and> fromHex h = be_bytes 2 (toNat n) \<and> toNat n < 65536"
  using padded_number [of "toNat n" 2] uint_guard [of n 65535]
  by (auto simp: chainIdHex_def split: if_splits)

lemma u8Hex_Inr:
  "u8Hex n = Inr h \<Longrightarrow> evenHex h \<and> fromHex h = be_bytes 1 (toNat n) \<and> toNat n < 256"
  using padded_number [of "toNat n" 1] uint_guard [of n 255]
  by (auto simp: u8Hex_def split: if_splits)

lemma u64Hex_Inr:
  "u64Hex (BigInteger v) = Inr h \<Longrightarrow> evenHex h \<and> fromHex h = be_bytes 8 (nat v) \<and> nat v < 2 ^ 64"
  using padded_number [of "nat v" 8] by (auto simp: u64Hex_def split: if_splits)

lemma normalizeAddress32_Inr:
  "normalizeAddress32 s = Inr h \<Longrightarrow> evenHex h \<and> length (fromHex h) = 32"
  by (auto simp: normalizeAddress32_def lowerHex_def evenHex_def Let_def length_fromHex split: if_splits)

text \<open>The payload in a published memo, behind its version byte and its nonce.\<close>

definition publishedPayload :: "string \<Rightarrow> bytes" where
  "publishedPayload memo = drop 5 (fromHex memo)"

lemma publishedPayload_memo [simp]: "publishedPayload (buildPublishMemoData hex) = fromHex hex"
proof -
  have "evenHex ''0100000000''" by (simp add: evenHex_def isHex_def hexval_def)
  moreover have "fromHex ''0100000000'' = [1, 0, 0, 0, 0]" by (simp add: hexval_def)
  ultimately show ?thesis
    using fromHex_evenHex [of "''0100000000''" hex] by (simp add: publishedPayload_def buildPublishMemoData_def)
qed

lemma prefix_bytes:
  "fromHex (XADM_PREFIX @ ''01'' @ s) = asciiBytes ''XADM'' @ [1] @ fromHex s"
  "fromHex (XADM_PREFIX @ ''02'' @ s) = asciiBytes ''XADM'' @ [2] @ fromHex s"
  "fromHex (XRPL_ONBOARDING_PREFIX @ s) = asciiBytes ''XRPL'' @ fromHex s"
  by (simp_all add: XADM_PREFIX_def XRPL_ONBOARDING_PREFIX_def hexval_def asciiBytes_def codeOf_def)

section \<open>The builders against the decoders\<close>

lemma readAscii_prefix:
  "readAscii (asciiBytes ''XADM'' @ r) 0 4 = ''XADM''" "readAscii (asciiBytes ''XRPL'' @ r) 0 4 = ''XRPL''"
  by (rule readAscii_asciiBytes; simp)+

lemma parseAdmin_register:
  assumes "length m = 20" "encodeAccount api m = Inr manager" "n < 65536" "length p = 32"
  shows "parseAdmin api (asciiBytes ''XADM'' @ [1] @ m @ be_bytes 2 n @ p) =
    Inr \<lparr>ad_action = 1, ad_targetAccount = manager, ad_detail = RegisterPeer n (toHex p)\<rparr>"
proof -
  define b where "b = asciiBytes ''XADM'' @ [1] @ m @ be_bytes 2 n @ p"
  have d: "drop 4 b = be_bytes 1 1 @ drop 5 b" "drop 5 b = m @ drop 25 b"
    "drop 25 b = be_bytes 2 n @ drop 27 b" "drop 27 b = p @ []"
    using assms by (simp_all add: b_def)
  have r: "rd 1 b 4 = Inr 1" "rd 2 b 25 = Inr n" "subarray b 5 25 = m" "subarray b 27 59 = p"
    using rd_at [OF d(1)] rd_at [OF d(3)] subarray_here [OF d(2), of 20] subarray_here [OF d(4), of 32]
      assms by simp_all
  have "length b = 59" "readAscii b 0 4 = ''XADM''"
    using assms by (simp add: b_def, simp only: b_def readAscii_prefix)
  then show ?thesis unfolding b_def [symmetric] parseAdmin_def by (simp add: r [simplified] assms Let_def)
qed

lemma parseAdmin_rotate:
  assumes "length m = 20" "encodeAccount api m = Inr manager" "length a = 20" "encodeAccount api a = Inr new"
  shows "parseAdmin api (asciiBytes ''XADM'' @ [2] @ m @ a) =
    Inr \<lparr>ad_action = 2, ad_targetAccount = manager, ad_detail = RotateAdmin new\<rparr>"
proof -
  define b where "b = asciiBytes ''XADM'' @ [2] @ m @ a"
  have d: "drop 4 b = be_bytes 1 2 @ drop 5 b" "drop 5 b = m @ drop 25 b" "drop 25 b = a @ []"
    using assms by (simp_all add: b_def)
  have r: "rd 1 b 4 = Inr 2" "subarray b 5 25 = m" "subarray b 25 45 = a"
    using rd_at [OF d(1)] subarray_here [OF d(2), of 20] subarray_here [OF d(3), of 20] assms by simp_all
  have "length b = 45" "readAscii b 0 4 = ''XADM''"
    using assms by (simp add: b_def, simp only: b_def readAscii_prefix)
  then show ?thesis unfolding b_def [symmetric] parseAdmin_def by (simp add: r [simplified] assms Let_def)
qed

definition address32 :: "string \<Rightarrow> bytes option" where
  "address32 s = (case normalizeAddress32 s of Inl _ \<Rightarrow> None | Inr h \<Rightarrow> Some (fromHex h))"


lemma classicAddress_hexApi: "length b = 20 \<Longrightarrow> classicAddress hexApi (CHR ''r'' # toHex b)"
  by (simp add: classicAddress_def hexApi_def)


definition currencyBytes :: "string \<Rightarrow> bytes" where
  "currencyBytes c = (if length c = 40 \<and> list_all isHex c then fromHex c
     else copyInto (replicate 20 0) 12 (map codeOf c))"

definition accountBytes :: "xrpl_api \<Rightarrow> string \<Rightarrow> bytes" where
  "accountBytes api s = (case decodeAccountID api s of Inl _ \<Rightarrow> [] | Inr b \<Rightarrow> b)"

text \<open>The bytes of the initialisation data: the decimals, then the token, padded to 42 bytes.\<close>

definition initBytes :: "xrpl_api \<Rightarrow> js_number \<Rightarrow> token_init \<Rightarrow> bytes" where
  "initBytes api decimals token = be_bytes 1 (toNat decimals) @
     (case token of
        XrpInit \<Rightarrow> []
      | IouInit c i \<Rightarrow> [1] @ currencyBytes c @ accountBytes api i @ [0]
      | MptInit m \<Rightarrow> [2] @ fromHex m @ replicate 17 0)"

definition issuerIsAddress :: "xrpl_api \<Rightarrow> token_init \<Rightarrow> bool" where
  "issuerIsAddress api token = (case token of IouInit c i \<Rightarrow> classicAddress api i | _ \<Rightarrow> True)"

lemma currencyToHex40_Inr:
  assumes "currencyToHex40 c = Inr h"
  shows "evenHex h \<and> length h = 40 \<and> fromHex h = currencyBytes c"
proof (cases "length c = 40 \<and> list_all isHex c")
  case True
  then show ?thesis using assms by (auto simp: currencyToHex40_def currencyBytes_def evenHex_def)
next
  case False
  then have "h = toHex (copyInto (replicate 20 0) 12 (map codeOf c))"
    using assms by (simp add: currencyToHex40_def split: if_splits)
  moreover have "currencyBytes c = copyInto (replicate 20 0) 12 (map codeOf c)"
    unfolding currencyBytes_def using False by (rule if_not_P)
  ultimately show ?thesis by simp
qed

lemma fromHex_zeros: "fromHex (replicate (2 * n) (CHR ''0'')) = replicate n 0"
  by (induction n) (simp_all add: hexval_def)

lemma padRight_Inr:
  assumes "padRight h 42 = Inr p" "evenHex h"
  shows "evenHex p \<and> fromHex p = fromHex h @ replicate (42 - length h div 2) 0"
proof -
  have l: "length h \<le> 84" and p: "p = h @ replicate (84 - length h) (CHR ''0'')"
    using assms(1) by (auto simp: padRight_def padEnd_def Let_def split: if_splits)
  have z: "84 - length h = 2 * (42 - length h div 2)"
    using assms(2) by (auto simp: evenHex_def elim!: evenE)
  then show ?thesis
    using assms(2) l by (simp add: p fromHex_evenHex fromHex_zeros)
      (auto simp: evenHex_def list_all_iff)
qed

lemma type_bytes:
  "fromHex (''01'' @ s) = 1 # fromHex s" "fromHex (''02'' @ s) = 2 # fromHex s"
  "evenHex s \<Longrightarrow> evenHex (''01'' @ s)" "evenHex s \<Longrightarrow> evenHex (''02'' @ s)"
  by (simp_all add: hexval_def evenHex_def isHex_def)

lemma evenHex_append: "evenHex s \<Longrightarrow> evenHex t \<Longrightarrow> evenHex (s @ t)"
  by (simp add: evenHex_def)

lemma buildInitData_Inr:
  assumes "buildInitData api dec token = Inr h" "issuerIsAddress api token"
  shows "evenHex h \<and> fromHex h = initBytes api dec token"
proof -
  obtain d where d: "u8Hex dec = Inr d" using assms(1) by (auto simp: buildInitData_def andThen_eq_Inr)
  note d' = u8Hex_Inr [OF d]
  show ?thesis
  proof (cases token)
    case XrpInit
    then show ?thesis using assms(1) d d' by (simp add: buildInitData_def initBytes_def)
  next
    case (IouInit c i)
    then obtain b where b: "accountIdHex api i = Inr (toHex b)" "length b = 20" "accountBytes api i = b"
      using assms(2) by (auto simp: issuerIsAddress_def classicAddress_def accountIdHex_def accountBytes_def
          split: sum.splits)
    obtain cur p where cur: "currencyToHex40 c = Inr cur" and p: "padRight (''01'' @ cur @ toHex b) 42 = Inr p"
      and h: "h = d @ p"
      using assms(1) d b(1) IouInit by (auto simp: buildInitData_def andThen_eq_Inr)
    note cur' = currencyToHex40_Inr [OF cur]
    have e: "evenHex (''01'' @ cur @ toHex b)" using cur' by (intro type_bytes evenHex_append) auto
    show ?thesis
      using padRight_Inr [OF p e] cur' b d' IouInit
      by (simp add: h initBytes_def fromHex_evenHex evenHex_append type_bytes del: append.simps)
  next
    case (MptInit m)
    then obtain p where m: "lowerHex 48 m" and p: "padRight (''02'' @ m) 42 = Inr p" and h: "h = d @ p"
      using assms(1) d by (auto simp: buildInitData_def andThen_eq_Inr split: if_splits)
    have e: "evenHex (''02'' @ m)" using m by (intro type_bytes) (simp add: evenHex_def lowerHex_def)
    show ?thesis
      using padRight_Inr [OF p e] m d' MptInit
      by (simp add: h initBytes_def fromHex_evenHex evenHex_append type_bytes lowerHex_def del: append.simps)
  qed
qed

lemma dropWhile_padding: "(case b of [] \<Rightarrow> True | x # _ \<Rightarrow> x \<noteq> 0) \<Longrightarrow>
  dropWhile (\<lambda>x. x = (0 :: byte)) (replicate n 0 @ b) = b"
  by (induction n) (auto split: list.splits)

lemma padded_app:
  assumes "length b \<le> 32"
  shows "evenHex (padStart 64 (CHR ''0'') (toHex b))"
    and "fromHex (padStart 64 (CHR ''0'') (toHex b)) = replicate (32 - length b) 0 @ b"
proof -
  have n: "64 - 2 * length b = 2 * (32 - length b)" by simp
  have e: "evenHex (replicate (2 * (32 - length b)) (CHR ''0''))"
    by (simp add: evenHex_def list_all_iff)
  then show "fromHex (padStart 64 (CHR ''0'') (toHex b)) = replicate (32 - length b) 0 @ b"
    by (simp add: padStart_def n fromHex_evenHex fromHex_zeros)
  show "evenHex (padStart 64 (CHR ''0'') (toHex b))"
    using e by (simp add: padStart_def n evenHex_append)
qed

lemma parseOnboarding_at:
  assumes "length a = 20" "encodeAccount api a = Inr admin" "length app = 32" "t < 2 ^ 64" "c < 2 ^ 64"
  shows "parseOnboarding api (asciiBytes ''XRPL'' @ a @ app @ be_bytes 8 t @ be_bytes 8 c @ i) =
    Inr \<lparr>ob_admin = admin, ob_appType = utf8Decode (dropWhile (\<lambda>b. b = 0) app), ob_initialTicket = t,
         ob_ticketCount = c, ob_initDataHex = toHex i\<rparr>"
proof -
  define b where "b = asciiBytes ''XRPL'' @ a @ app @ be_bytes 8 t @ be_bytes 8 c @ i"
  have d: "drop 4 b = a @ drop 24 b" "drop 24 b = app @ drop 56 b"
    "drop 56 b = be_bytes 8 t @ drop 64 b" "drop 64 b = be_bytes 8 c @ drop 72 b" "drop 72 b = i"
    using assms by (simp_all add: b_def)
  have r: "rd 8 b 56 = Inr t" "rd 8 b 64 = Inr c" "subarray b 4 24 = a" "subarray b 24 56 = app"
    using rd_at [OF d(3)] rd_at [OF d(4)] subarray_here [OF d(1), of 20] subarray_here [OF d(2), of 32]
      assms by simp_all
  have l: "length b = 72 + length i" "readAscii b 0 4 = ''XRPL''"
    using assms by (simp add: b_def, simp only: b_def readAscii_prefix)
  then have "subarray b 72 (length b) = i" using d(5) by (simp add: subarray_def)
  then show ?thesis unfolding b_def [symmetric] parseOnboarding_def using l by (simp add: r assms Let_def)
qed

definition noLeadingNul :: "code_points \<Rightarrow> bool" where
  "noLeadingNul s = (case s of [] \<Rightarrow> True | c # _ \<Rightarrow> c \<noteq> 0)"

lemma utf8Char_hd: "scalar c \<Longrightarrow> c \<noteq> 0 \<Longrightarrow> \<exists>x xs. utf8Char c = x # xs \<and> x \<noteq> 0"
proof -
  have nz: "(word_of_nat n :: byte) \<noteq> 0" if "0 < n" "n < 256" for n
    using that unat_small [of n] by auto
  assume h: "scalar c" "c \<noteq> 0"
  then have "c < 0x110000" by (auto simp: scalar_def)
  then have b: "c < 0x800 \<Longrightarrow> c div 64 < 32" "c < 0x10000 \<Longrightarrow> c div 4096 < 16" "c div 262144 < 5"
    by (simp_all add: less_mult_imp_div_less)
  then show ?thesis using h nz [of c] nz [of "0xC0 + c div 64"] nz [of "0xE0 + c div 4096"]
      nz [of "0xF0 + c div 262144"]
    by (auto simp: utf8Char_def simp del: of_nat_add)
qed

lemma utf8Encode_hd: "list_all scalar s \<Longrightarrow> noLeadingNul s \<Longrightarrow>
  case utf8Encode s of [] \<Rightarrow> True | x # _ \<Rightarrow> x \<noteq> 0"
  using utf8Char_hd by (cases s) (fastforce simp: utf8Encode_def noLeadingNul_def)+

text \<open>
  The onboarding message arrives as it was asked for: for an administrator that is an address,
  an application name without a leading NUL, and the initialisation data \<open>buildInitData\<close> made of the
  decimals and a token, the builder fails exactly when the name is longer than 32 bytes or one of
  the ticket numbers is not in the range of 64 bits; otherwise the published memo decodes to the
  administrator, the name and the two numbers that were given, and to the decimals and the token in
  their byte layout.
\<close>

theorem onboarding_payload_reads_back:
  assumes "classicAddress api (op_admin p)" "list_all scalar (op_app p)" "noLeadingNul (op_app p)"
    "buildInitData api decimals token = Inr (op_initData p)" "issuerIsAddress api token"
  shows "case buildOnboardingPayload api p of
      Inl e \<Rightarrow> 32 < length (utf8Encode (op_app p)) \<or> op_initialTicket p \<notin> {0 ..< 2 ^ 64} \<or>
        op_ticketCount p \<notin> {0 ..< 2 ^ 64}
    | Inr hex \<Rightarrow> op_initialTicket p \<in> {0 ..< 2 ^ 64} \<and> op_ticketCount p \<in> {0 ..< 2 ^ 64} \<and>
        parseOnboarding api (publishedPayload (buildPublishMemoData hex)) =
          Inr \<lparr>ob_admin = op_admin p, ob_appType = op_app p, ob_initialTicket = nat (op_initialTicket p),
               ob_ticketCount = nat (op_ticketCount p),
               ob_initDataHex = toHex (initBytes api decimals token)\<rparr>"
proof -
  from assms(1) obtain a where a: "accountIdHex api (op_admin p) = Inr (toHex a)" "length a = 20"
    "encodeAccount api a = Inr (op_admin p)" by (rule classicAddressE)
  let ?u = "utf8Encode (op_app p)"
  note i = buildInitData_Inr [OF assms(4,5)]
  have range: "isOk (u64Hex (BigInteger v)) \<longleftrightarrow> v \<in> {0 ..< 2 ^ 64}" for v
    by (auto simp: u64Hex_def)
  show ?thesis
  proof (cases "32 < length ?u")
    case True
    then show ?thesis using a by (simp add: buildOnboardingPayload_def)
  next
    case False
    then have app: "evenHex (padStart 64 (CHR ''0'') (toHex ?u))"
      "fromHex (padStart 64 (CHR ''0'') (toHex ?u)) = replicate (32 - length ?u) 0 @ ?u"
      using padded_app [of ?u] by simp_all
    show ?thesis
    proof (cases "u64Hex (BigInteger (op_initialTicket p))"; cases "u64Hex (BigInteger (op_ticketCount p))")
      fix t c
      assume t: "u64Hex (BigInteger (op_initialTicket p)) = Inr t"
        and c: "u64Hex (BigInteger (op_ticketCount p)) = Inr c"
      let ?hex = "XRPL_ONBOARDING_PREFIX @ toHex a @ padStart 64 (CHR ''0'') (toHex ?u) @ t @ c @ op_initData p"
      have "fromHex ?hex = asciiBytes ''XRPL'' @ a @ (replicate (32 - length ?u) 0 @ ?u) @
          be_bytes 8 (nat (op_initialTicket p)) @ be_bytes 8 (nat (op_ticketCount p)) @
          initBytes api decimals token"
        using u64Hex_Inr [OF t] u64Hex_Inr [OF c] i app
        by (simp only: prefix_bytes fromHex_evenHex evenHex_toHex fromHex_toHex)
      moreover have "dropWhile (\<lambda>b. b = 0) (replicate (32 - length ?u) 0 @ ?u) = ?u"
        by (rule dropWhile_padding [OF utf8Encode_hd [OF assms(2,3)]])
      ultimately have "parseOnboarding api (fromHex ?hex) =
          Inr \<lparr>ob_admin = op_admin p, ob_appType = op_app p, ob_initialTicket = nat (op_initialTicket p),
               ob_ticketCount = nat (op_ticketCount p),
               ob_initDataHex = toHex (initBytes api decimals token)\<rparr>"
        using parseOnboarding_at [OF a(2,3), of "replicate (32 - length ?u) 0 @ ?u"] False
          u64Hex_Inr [OF t] u64Hex_Inr [OF c] utf8Decode_utf8Encode [OF assms(2)]
        by simp
      moreover have "buildOnboardingPayload api p = Inr ?hex"
        using False a t c by (simp add: buildOnboardingPayload_def Let_def)
      ultimately show ?thesis
        using range [of "op_initialTicket p"] range [of "op_ticketCount p"] t c by simp
    qed (use False a range [of "op_initialTicket p"] range [of "op_ticketCount p"] in
        \<open>auto simp: buildOnboardingPayload_def Let_def\<close>)
  qed
qed

definition exampleToken :: token_init where
  "exampleToken = IouInit ''FOO'' (CHR ''r'' # toHex (replicate 20 3))"

definition exampleInit :: string where
  "exampleInit = (case buildInitData hexApi (jsInt 6) exampleToken of Inl _ \<Rightarrow> [] | Inr d \<Rightarrow> d)"

lemma exampleInit: "buildInitData hexApi (jsInt 6) exampleToken = Inr exampleInit"
proof -
  have "isOk (buildInitData hexApi (jsInt 6) exampleToken)"
    by (simp add: buildInitData_def exampleToken_def u8Hex_def isInteger_def jsInt_def ltInt_def gtInt_def
        currencyToHex40_def accountIdHex_def hexApi_def padRight_def Let_def)
  then show ?thesis by (auto simp: exampleInit_def isOk_iff)
qed

definition exampleOnboarding :: onboarding_params where
  "exampleOnboarding = \<lparr>op_admin = CHR ''r'' # toHex (replicate 20 1), op_app = [0x4E, 0xE9, 0x20AC],
     op_initialTicket = 7, op_ticketCount = 2 ^ 64 - 1, op_initData = exampleInit\<rparr>"

lemma onboarding_payload_reads_back_witness:
  "case buildOnboardingPayload hexApi exampleOnboarding of
      Inl e \<Rightarrow> False
    | Inr hex \<Rightarrow> parseOnboarding hexApi (publishedPayload (buildPublishMemoData hex)) =
          Inr \<lparr>ob_admin = op_admin exampleOnboarding, ob_appType = op_app exampleOnboarding,
               ob_initialTicket = 7, ob_ticketCount = 2 ^ 64 - 1,
               ob_initDataHex = toHex (initBytes hexApi (jsInt 6) exampleToken)\<rparr>"
proof -
  have h: "classicAddress hexApi (op_admin exampleOnboarding)" "list_all scalar (op_app exampleOnboarding)"
    "noLeadingNul (op_app exampleOnboarding)"
    "buildInitData hexApi (jsInt 6) exampleToken = Inr (op_initData exampleOnboarding)"
    "issuerIsAddress hexApi exampleToken"
    by (auto simp: exampleOnboarding_def scalar_def noLeadingNul_def exampleInit [unfolded exampleToken_def]
        issuerIsAddress_def exampleToken_def intro!: classicAddress_hexApi)
  have l: "length (utf8Encode (op_app exampleOnboarding)) = 6"
    by (simp add: exampleOnboarding_def utf8Encode_def utf8Char_def)
  show ?thesis
    using onboarding_payload_reads_back [OF h] l
    by (auto simp: exampleOnboarding_def split: sum.splits)
qed

end
