(* ===== verification/Xrpl_Helpers.thy ===== *)
theory Xrpl_Helpers
  imports Xrpl_Builders "HOL-Library.List_Lexorder" "HOL-Library.Multiset"
begin

text \<open>
  The shared helpers of the XRPL commands, \<open>cli/src/xrpl/helpers.ts\<close>, and the delegated manager
  set, \<open>cli/src/xrpl/manager-set.ts\<close>. The client, the wallet and the contract that is read are
  parameters, calls that may fail return a sum. \<open>loadMetadataHex\<close> (a file and \<open>JSON.parse\<close>) is left
  out.
\<close>

section \<open>Endpoints, clients and transactions\<close>

datatype helper_error =
    ClientError string
  | TxFailed "string option"
  | InvalidRAddress string
  | NoReserve
  | MissingSeed string string
  | AssetScale | TransferFee | FeeWithoutTransfer
  | MaxAmountFormat | MaxAmountZero | MaxAmountTooBig
  | UnknownFlag string
  | InvalidCode string
  | UnknownChain string
  | SetVersion "byte option"
  | SetLength nat "byte option"
  | SignerAddress

definition XRPL_ENDPOINTS :: "(string \<times> string) list" where
  "XRPL_ENDPOINTS = [(''Mainnet'', ''wss://xrplcluster.com''),
     (''Testnet'', ''wss://s.altnet.rippletest.net:51233''),
     (''Devnet'', ''wss://s.devnet.rippletest.net:51233'')]"

definition resolveXrplEndpoint :: "string \<Rightarrow> string option \<Rightarrow> string option \<Rightarrow> string option" where
  "resolveXrplEndpoint network rpcOverride fromOverrides =
     (if given rpcOverride then rpcOverride
      else if given fromOverrides then fromOverrides
      else map_of XRPL_ENDPOINTS network)"

text \<open>
  \<open>'s\<close> is the state the effects of the client act on. The client that was connected is disconnected
  whether \<open>fn\<close> throws or not, and an error of \<open>disconnect\<close> replaces the outcome of \<open>fn\<close>.
\<close>

definition withXrplClient :: "('s \<Rightarrow> (string + unit) \<times> 's) \<Rightarrow> ('s \<Rightarrow> (string + unit) \<times> 's)
    \<Rightarrow> ('s \<Rightarrow> (string + 'a) \<times> 's) \<Rightarrow> 's \<Rightarrow> (string + 'a) \<times> 's" where
  "withXrplClient connect disconnect fn s =
     (case connect s of
        (Inl e, s1) \<Rightarrow> (Inl e, s1)
      | (Inr _, s1) \<Rightarrow>
          (let (r, s2) = fn s1; (d, s3) = disconnect s2
           in (case d of Inl e \<Rightarrow> (Inl e, s3) | Inr _ \<Rightarrow> (r, s3))))"

datatype tx_meta = NoMeta | MetaText string | MetaObject string

record tx_response =
  tr_hash :: string
  tr_meta :: tx_meta

definition clientCall :: "string + 'a \<Rightarrow> helper_error + 'a" where
  "clientCall r = (case r of Inl e \<Rightarrow> Inl (ClientError e) | Inr v \<Rightarrow> Inr v)"

definition submitTx :: "('t \<Rightarrow> string + 't) \<Rightarrow> ('t \<Rightarrow> string + string) \<Rightarrow> (string \<Rightarrow> string + tx_response)
    \<Rightarrow> 't \<Rightarrow> helper_error + tx_response" where
  "submitTx autofill sign submitAndWait tx =
     andThen (clientCall (autofill tx)) (\<lambda>prepared.
     andThen (clientCall (sign prepared)) (\<lambda>tx_blob.
     andThen (clientCall (submitAndWait tx_blob)) (\<lambda>result.
     let code = (case tr_meta result of MetaObject c \<Rightarrow> Some c | _ \<Rightarrow> None) in
     if code \<noteq> Some ''tesSUCCESS'' then Inl (TxFailed code) else Inr result)))"

definition validateRAddress :: "(string \<Rightarrow> bool) \<Rightarrow> string \<Rightarrow> helper_error + string" where
  "validateRAddress isValidClassicAddress address =
     (if \<not> isValidClassicAddress address then Inl (InvalidRAddress address) else Inr address)"

text \<open>The reserves of a validated ledger, each of which may be absent; a base reserve of 0 counts as absent.\<close>

record ledger_info =
  li_reserve_base_xrp :: "rat option"
  li_reserve_inc_xrp :: "rat option"

definition getReserveBase :: "string + ledger_info option \<Rightarrow> helper_error + rat \<times> rat" where
  "getReserveBase server_info =
     andThen (clientCall server_info) (\<lambda>ledger.
     case ledger of
       None \<Rightarrow> Inl NoReserve
     | Some l \<Rightarrow>
         (case (li_reserve_base_xrp l, li_reserve_inc_xrp l) of
            (Some base, Some inc) \<Rightarrow> if base = 0 then Inl NoReserve else Inr (base, inc)
          | _ \<Rightarrow> Inl NoReserve))"

datatype ecdsa = Ed25519 | Secp256k1

definition walletFromSeed :: "(string \<Rightarrow> ecdsa option \<Rightarrow> 'w) \<Rightarrow> string \<Rightarrow> string option \<Rightarrow> 'w" where
  "walletFromSeed fromSeed seed algorithm =
     (let algo = (if algorithm = Some ''ed25519'' then Some Ed25519
                  else if algorithm = Some ''secp256k1'' then Some Secp256k1 else None)
      in fromSeed seed algo)"

definition loadSeed :: "(string \<Rightarrow> string option) \<Rightarrow> string option \<Rightarrow> string \<Rightarrow> string
    \<Rightarrow> helper_error + string" where
  "loadSeed env flagValue flagName envName =
     (let seed = (case flagValue of Some v \<Rightarrow> Some v | None \<Rightarrow> env envName) in
      if \<not> given seed then Inl (MissingSeed flagName envName) else Inr (the seed))"

section \<open>MPT issuances\<close>

definition MPT_FLAGS :: "(string \<times> 32 word) list" where
  "MPT_FLAGS = [(''tfMPTCanLock'', 0x0002), (''tfMPTRequireAuth'', 0x0004), (''tfMPTCanEscrow'', 0x0008),
     (''tfMPTCanTrade'', 0x0010), (''tfMPTCanTransfer'', 0x0020), (''tfMPTCanClawback'', 0x0040)]"

record mpt_params =
  mpt_assetScale :: js_number
  mpt_transferFee :: js_number
  mpt_flags :: js_number
  mpt_maxAmount :: "string option"

definition validateMptIssuanceParams :: "mpt_params \<Rightarrow> helper_error + unit" where
  "validateMptIssuanceParams p =
     (let assetScale = mpt_assetScale p; transferFee = mpt_transferFee p in
      if \<not> isInteger assetScale \<or> ltInt assetScale 0 \<or> gtInt assetScale 255 then Inl AssetScale
      else if \<not> isInteger transferFee \<or> ltInt transferFee 0 \<or> gtInt transferFee 50000
      then Inl TransferFee
      else if gtInt transferFee 0 \<and> toInt32 (mpt_flags p) AND 0x0020 = 0 then Inl FeeWithoutTransfer
      else (case mpt_maxAmount p of
              None \<Rightarrow> Inr ()
            | Some maxAmount \<Rightarrow>
                if \<not> all_digits maxAmount then Inl MaxAmountFormat
                else (let value = nat_of_dec maxAmount in
                      if value = 0 then Inl MaxAmountZero
                      else if 2 ^ 63 - 1 < value then Inl MaxAmountTooBig
                      else Inr ())))"

text \<open>
  \<open>token in MPT_FLAGS\<close> also holds for the properties every object inherits; these are functions or
  an object, which count as 0 in \<open>|\<close>.
\<close>

definition inheritedProperties :: "string list" where
  "inheritedProperties = [''constructor'', ''__defineGetter__'', ''__defineSetter__'', ''hasOwnProperty'',
     ''__lookupGetter__'', ''__lookupSetter__'', ''isPrototypeOf'', ''propertyIsEnumerable'', ''toString'',
     ''valueOf'', ''__proto__'', ''toLocaleString'']"

definition flagLiteral :: "string \<Rightarrow> 32 word option" where
  "flagLiteral token =
     (if startsWith token ''0x'' \<and> all_hex (drop 2 token)
      then Some (toInt32 (double_of_nat (digits_val 16 (map (\<lambda>c. the (hexval c)) (drop 2 token)))))
      else if all_digits token then Some (toInt32 (double_of_nat (nat_of_dec token)))
      else None)"

definition flagValue :: "string \<Rightarrow> helper_error + 32 word" where
  "flagValue token =
     (case map_of MPT_FLAGS token of
        Some v \<Rightarrow> Inr v
      | None \<Rightarrow>
          (if token \<in> set inheritedProperties then Inr 0
           else (case flagLiteral token of Some v \<Rightarrow> Inr v | None \<Rightarrow> Inl (UnknownFlag token))))"

definition addFlag :: "string \<Rightarrow> 32 word \<Rightarrow> helper_error + 32 word" where
  "addFlag raw flags =
     (let token = trim raw in
      if token = [] then Inr flags
      else andThen (flagValue token) (\<lambda>v. Inr (flags OR v)))"

definition parseMptFlags :: "string option \<Rightarrow> helper_error + int" where
  "parseMptFlags input =
     (if \<not> given input then Inr 0
      else andThen (foldR addFlag (split_on (CHR '','') (the input)) 0) (\<lambda>flags. Inr (sint flags)))"

definition normalizeCurrency :: "string \<Rightarrow> helper_error + string" where
  "normalizeCurrency code =
     (if length code = 3 then Inr code
      else if length code = 40 \<and> list_all isHex code then Inr (toUpperCase code)
      else Inl (InvalidCode code))"

datatype chain_ref = ChainText string | ChainNumber js_number

definition resolveChainId :: "(string \<Rightarrow> nat option) \<Rightarrow> chain_ref \<Rightarrow> helper_error + js_number" where
  "resolveChainId toChainId value =
     (case value of
        ChainNumber n \<Rightarrow> Inr n
      | ChainText s \<Rightarrow>
          (if all_digits s then Inr (double_of_nat (nat_of_dec s))
           else (case toChainId s of None \<Rightarrow> Inl (UnknownChain s) | Some n \<Rightarrow> Inr (jsInt (int n)))))"

text \<open>\<open>runXrpl\<close>: the exit code of the command, \<open>None\<close> when the process goes on.\<close>

definition runXrpl :: "string + unit \<Rightarrow> string list \<times> nat option" where
  "runXrpl r = (case r of Inr _ \<Rightarrow> ([], None) | Inl message \<Rightarrow> ([''Error: '' @ message], Some 1))"

section \<open>The delegated manager set\<close>

record manager_set =
  ms_mThreshold :: byte
  ms_nTotal :: byte
  ms_pubkeys :: "bytes list"

definition byteAt :: "bytes \<Rightarrow> nat \<Rightarrow> byte option" where
  "byteAt b i = (if i < length b then Some (b ! i) else None)"

definition parseManagerSet :: "bytes \<Rightarrow> helper_error + manager_set" where
  "parseManagerSet b =
     (if byteAt b 0 \<noteq> Some 1 then Inl (SetVersion (byteAt b 0))
      else (let rest = drop 3 b in
        case (byteAt b 1, byteAt b 2) of
          (Some mThreshold, Some nTotal) \<Rightarrow>
            if length rest \<noteq> unat nTotal * 33 then Inl (SetLength (length rest) (Some nTotal))
            else Inr \<lparr>ms_mThreshold = mThreshold, ms_nTotal = nTotal,
                      ms_pubkeys = map (\<lambda>i. subarray rest (i * 33) (i * 33 + 33)) [0..<unat nTotal]\<rparr>
        | (_, nTotal) \<Rightarrow> Inl (SetLength (length rest) nTotal)))"

datatype set_index = LatestIndex | SetIndex nat

definition fetchDelegatedManagerSet :: "(nat \<Rightarrow> string + nat) \<Rightarrow> (nat \<Rightarrow> nat \<Rightarrow> string + bytes) \<Rightarrow> nat
    \<Rightarrow> set_index \<Rightarrow> helper_error + (nat \<times> manager_set)" where
  "fetchDelegatedManagerSet getCurrentManagerSetIndex getManagerSet chainId index =
     andThen (case index of
                LatestIndex \<Rightarrow> clientCall (getCurrentManagerSetIndex chainId)
              | SetIndex i \<Rightarrow> Inr i) (\<lambda>resolvedIndex.
     andThen (clientCall (getManagerSet chainId resolvedIndex)) (\<lambda>b.
     andThen (parseManagerSet b) (\<lambda>s. Inr (resolvedIndex, s))))"

record signer_entry =
  se_Account :: string
  se_SignerWeight :: nat

text \<open>
  \<open>entries.sort\<close> with a comparator that decodes both accounts: it is not called for fewer than two
  entries, and otherwise looks at every entry, so one address that does not decode throws.
\<close>

definition decodesAt :: "xrpl_api \<Rightarrow> signer_entry \<Rightarrow> bool" where
  "decodesAt api e = isOk (decodeAccountID api (se_Account e))"

definition sortByAccountId :: "xrpl_api \<Rightarrow> signer_entry list \<Rightarrow> helper_error + signer_entry list" where
  "sortByAccountId api entries =
     (if length entries \<le> 1 then Inr entries
      else if \<not> list_all (decodesAt api) entries then Inl SignerAddress
      else Inr (sort_key (\<lambda>e. accountBytes api (se_Account e)) entries))"

definition deriveSignerEntries :: "xrpl_api \<Rightarrow> (string \<Rightarrow> string) \<Rightarrow> bytes list
    \<Rightarrow> helper_error + signer_entry list" where
  "deriveSignerEntries api deriveAddress pubkeys =
     sortByAccountId api
       (map (\<lambda>pk. \<lparr>se_Account = deriveAddress (toUpperCase (toHex pk)), se_SignerWeight = 1\<rparr>) pubkeys)"

definition signerEntriesFromAddresses :: "xrpl_api \<Rightarrow> string list \<Rightarrow> helper_error + signer_entry list" where
  "signerEntriesFromAddresses api addresses =
     sortByAccountId api (map (\<lambda>a. \<lparr>se_Account = trim a, se_SignerWeight = 1\<rparr>) addresses)"

section \<open>The manager set on the wire\<close>

lemma concat_chunks:
  "list_all (\<lambda>k. length k = n) ks \<Longrightarrow> i < length ks \<Longrightarrow>
   take n (drop (i * n) (concat ks)) = ks ! i"
proof (induction ks arbitrary: i)
  case (Cons k ks)
  then show ?case by (cases i) (simp_all add: add.commute)
qed simp

lemma chunks_concat:
  "length r = m * n \<Longrightarrow> concat (map (\<lambda>i. take n (drop (i * n) r)) [0..<m]) = r"
proof (induction m arbitrary: r)
  case (Suc m)
  have "concat (map (\<lambda>i. take n (drop (i * n) r)) [0..<Suc m]) =
      take n r @ concat (map (\<lambda>i. take n (drop (i * n) (drop n r))) [0..<m])"
    by (simp add: upt_conv_Cons map_Suc_upt [symmetric] o_def add.commute del: upt_Suc)
  also have "\<dots> = r" using Suc.IH [of "drop n r"] Suc.prems by simp
  finally show ?case .
qed simp

text \<open>
  \<open>parseManagerSet\<close> accepts exactly the wire format: a buffer is read as a set just when it is
  the version byte 1, the threshold, the count and then the keys of the set, as many as the count
  says and of 33 bytes each.
\<close>

theorem parseManagerSet_exact:
  "parseManagerSet b = Inr s \<longleftrightarrow>
     b = [1, ms_mThreshold s, ms_nTotal s] @ concat (ms_pubkeys s) \<and>
     length (ms_pubkeys s) = unat (ms_nTotal s) \<and> list_all (\<lambda>k. length k = 33) (ms_pubkeys s)"
proof
  assume h: "parseManagerSet b = Inr s"
  then obtain m n r where b: "b = 1 # m # n # r"
    by (cases b; cases "tl b"; cases "tl (tl b)")
      (auto simp: parseManagerSet_def byteAt_def split: if_splits)
  then have r: "length r = unat n * 33"
    and s: "s = \<lparr>ms_mThreshold = m, ms_nTotal = n,
      ms_pubkeys = map (\<lambda>i. take 33 (drop (i * 33) r)) [0..<unat n]\<rparr>"
    using h by (auto simp: parseManagerSet_def byteAt_def subarray_def split: if_splits)
  have "33 \<le> unat n * 33 - i * 33" if "i < unat n" for i
    using that by (simp flip: diff_mult_distrib)
  then show "b = [1, ms_mThreshold s, ms_nTotal s] @ concat (ms_pubkeys s) \<and>
     length (ms_pubkeys s) = unat (ms_nTotal s) \<and> list_all (\<lambda>k. length k = 33) (ms_pubkeys s)"
    using chunks_concat [OF r] r by (simp add: s b list_all_iff)
next
  assume h: "b = [1, ms_mThreshold s, ms_nTotal s] @ concat (ms_pubkeys s) \<and>
     length (ms_pubkeys s) = unat (ms_nTotal s) \<and> list_all (\<lambda>k. length k = 33) (ms_pubkeys s)"
  then have "length (concat (ms_pubkeys s)) = unat (ms_nTotal s) * 33"
    using sum_list_const_mult [of 33 "\<lambda>_. 1" "ms_pubkeys s"]
    by (simp add: length_concat list_all_iff sum_list_triv cong: map_cong)
  moreover have "map (\<lambda>i. subarray (concat (ms_pubkeys s)) (i * 33) (i * 33 + 33))
      [0..<unat (ms_nTotal s)] = ms_pubkeys s"
    using h by (intro nth_equalityI) (auto simp: subarray_def concat_chunks)
  ultimately show "parseManagerSet b = Inr s" using h by (simp add: parseManagerSet_def byteAt_def)
qed

section \<open>Signer lists\<close>

lemma classicAddress_inj:
  "classicAddress api a \<Longrightarrow> classicAddress api b \<Longrightarrow> accountBytes api a = accountBytes api b \<Longrightarrow> a = b"
  by (auto simp: classicAddress_def accountBytes_def split: sum.splits)

text \<open>
  The signer list is canonical: from addresses the codec knows, \<open>signerEntriesFromAddresses\<close>
  makes one entry of weight 1 per address, ordered by account, and any other order of the same
  addresses gives the same list.
\<close>

theorem signerEntriesFromAddresses_canonical:
  assumes "list_all (\<lambda>a. classicAddress api (trim a)) as" and "mset bs = mset as"
  shows "case signerEntriesFromAddresses api as of
      Inl e \<Rightarrow> False
    | Inr es \<Rightarrow> signerEntriesFromAddresses api bs = Inr es \<and>
        sorted (map (\<lambda>e. accountBytes api (se_Account e)) es) \<and>
        mset (map se_Account es) = mset (map trim as) \<and> list_all (\<lambda>e. se_SignerWeight e = 1) es"
proof -
  let ?f = "\<lambda>e. accountBytes api (se_Account e)"
  let ?e = "\<lambda>a. \<lparr>se_Account = trim a, se_SignerWeight = 1\<rparr>"
  define es where "es = sort_key ?f (map ?e as)"
  have ok: "isOk (decodeAccountID api a)" if "classicAddress api a" for a
    using that by (auto simp: classicAddress_def isOk_iff split: sum.splits)
  have dec: "list_all (decodesAt api) (map ?e as)" "list_all (decodesAt api) (map ?e bs)"
    using assms mset_eq_setD [OF assms(2)]
    by (auto simp: list_all_iff decodesAt_def ok)
  have single: "sort_key ?f xs = xs" if "length xs \<le> 1" for xs :: "signer_entry list"
    using that by (cases xs) auto
  have same: "sort_key ?f (map ?e bs) = es"
  proof (rule sort_key_inj_key_eq)
    show "inj_on ?f (set (map ?e bs))"
      using assms mset_eq_setD [OF assms(2)]
      by (auto simp: inj_on_def list_all_iff intro: classicAddress_inj)
  qed (use assms(2) in \<open>simp_all add: es_def\<close>)
  have "signerEntriesFromAddresses api as = Inr es"
    using dec single [of "map ?e as"] by (simp add: signerEntriesFromAddresses_def sortByAccountId_def es_def)
  moreover have "signerEntriesFromAddresses api bs = Inr es"
    using dec single [of "map ?e bs"] same by (auto simp: signerEntriesFromAddresses_def sortByAccountId_def)
  moreover have "image_mset se_Account (mset es) = image_mset se_Account (mset (map ?e as))"
    by (simp add: es_def)
  then have "mset (map se_Account es) = mset (map trim as)" by (simp add: multiset.map_comp o_def)
  ultimately show ?thesis by (auto simp: es_def list_all_iff)
qed

lemma signerEntriesFromAddresses_canonical_witness:
  "let a = CHR ''r'' # toHex (replicate 20 2); b = CHR ''r'' # toHex (replicate 20 1) in
   case signerEntriesFromAddresses hexApi [a, b] of
      Inl e \<Rightarrow> False
    | Inr es \<Rightarrow> signerEntriesFromAddresses hexApi [b, a] = Inr es \<and>
        sorted (map (\<lambda>e. accountBytes hexApi (se_Account e)) es) \<and>
        mset (map se_Account es) = mset (map trim [a, b]) \<and> list_all (\<lambda>e. se_SignerWeight e = 1) es"
proof -
  have nospace: "\<not> isSpace c" if "isHex c \<or> c = CHR ''r''" for c
    using that by (auto simp: isHex_def hexval_def isSpace_def Let_def split: if_splits)
  have "trim (CHR ''r'' # toHex b) = CHR ''r'' # toHex b" for b
    using list_all_isHex_toHex [of b] by (intro trim_id) (auto simp: list_all_iff nospace)
  then show ?thesis unfolding Let_def
    by (intro signerEntriesFromAddresses_canonical) (simp_all add: classicAddress_hexApi add_mset_commute del: toHex_simps)
qed

section \<open>Flags\<close>

definition flagTokens :: "string \<Rightarrow> string list" where
  "flagTokens s = filter (\<lambda>t. t \<noteq> []) (map trim (split_on (CHR '','') s))"

definition flagOf :: "string \<Rightarrow> 32 word" where
  "flagOf t = (case flagValue t of Inl _ \<Rightarrow> 0 | Inr v \<Rightarrow> v)"

definition allFlags :: "32 word \<Rightarrow> string list \<Rightarrow> 32 word" where
  "allFlags w ts = fold (\<lambda>t v. v OR flagOf t) ts w"

lemma allFlags_simps [simp]: "allFlags w [] = w" "allFlags w (t # ts) = allFlags (w OR flagOf t) ts"
  by (simp_all add: allFlags_def)

lemma foldR_addFlag:
  "foldR addFlag raws w =
     (case find (\<lambda>t. \<not> isOk (flagValue t)) (filter (\<lambda>t. t \<noteq> []) (map trim raws)) of
        Some t \<Rightarrow> Inl (UnknownFlag t)
      | None \<Rightarrow> Inr (allFlags w (filter (\<lambda>t. t \<noteq> []) (map trim raws))))"
proof (induction raws arbitrary: w)
  case (Cons r raws)
  have err: "flagValue t = Inl e \<Longrightarrow> e = UnknownFlag t" for t e
    by (auto simp: flagValue_def split: option.splits if_splits)
  have step: "addFlag r w = (if trim r = [] then Inr w
      else if isOk (flagValue (trim r)) then Inr (w OR flagOf (trim r)) else Inl (UnknownFlag (trim r)))"
    by (cases "flagValue (trim r)") (auto simp: addFlag_def flagOf_def dest: err)
  show ?case by (simp add: step Cons split: option.split)
qed simp

lemma bit_allFlags: "bit (allFlags w ts) k \<longleftrightarrow> bit w k \<or> (\<exists>t \<in> set ts. bit (flagOf t) k)"
  by (induction ts arbitrary: w) (auto simp: bit_or_iff)

lemma parseMptFlags_tokens:
  "parseMptFlags (Some s) =
     (case find (\<lambda>t. \<not> isOk (flagValue t)) (flagTokens s) of
        Some t \<Rightarrow> Inl (UnknownFlag t)
      | None \<Rightarrow> Inr (sint (allFlags 0 (flagTokens s))))"
proof (cases "s = []")
  case True
  then show ?thesis by (simp add: parseMptFlags_def given_def flagTokens_def trim_def allFlags_def)
next
  case False
  then show ?thesis
    by (simp add: parseMptFlags_def given_def foldR_addFlag flagTokens_def split: option.splits)
qed

text \<open>
  The flags are the union of the tokens: a list is accepted just when every token between its
  commas is; then a bit is set exactly when some token sets it, so the order of the tokens and
  their repetitions make no difference. The result is the signed value of the 32 bits.
\<close>

theorem parseMptFlags_union:
  "case parseMptFlags (Some s) of
     Inl e \<Rightarrow> list_ex (\<lambda>x. errs (flagValue x)) (flagTokens s)
   | Inr f \<Rightarrow> \<not> list_ex (\<lambda>x. errs (flagValue x)) (flagTokens s) \<and>
       (\<exists>w :: 32 word. f = sint w \<and> (\<forall>k. bit w k \<longleftrightarrow> list_ex (\<lambda>x. bit (flagOf x) k) (flagTokens s)))"
proof (cases "find (\<lambda>t. \<not> isOk (flagValue t)) (flagTokens s)")
  case None
  then have "parseMptFlags (Some s) = Inr (sint (allFlags 0 (flagTokens s)))"
    by (simp add: parseMptFlags_tokens)
  then show ?thesis
    using None bit_allFlags [of 0 "flagTokens s"] by (auto simp: list_ex_iff find_None_iff errs_def intro!: exI [of _ "allFlags 0 (flagTokens s)"])
next
  case (Some t)
  then show ?thesis
    by (auto simp: parseMptFlags_tokens list_ex_iff errs_def dest!: find_SomeD)
qed

text \<open>
  Two consequences of the code: a name every object inherits is accepted as no flag, and a raw
  value with the top bit becomes negative.
\<close>

lemma parseMptFlags_oddities:
  "parseMptFlags (Some ''toString'') = Inr 0" "parseMptFlags (Some ''2147483648'') = Inr (- 2147483648)"
proof -
  have t: "trim ''toString'' = ''toString''" "trim ''2147483648'' = ''2147483648''"
    by (rule trim_id; simp add: isSpace_def)+
  have n: "nat_of_dec ''2147483648'' = 2147483648" "all_digits ''2147483648''"
    by (simp_all add: nat_of_dec_def digits_val_def digit_value_def all_digits_def isDigit_def)
  have "toInt32 (double_of_nat 2147483648) = word_of_int 2147483648"
    by (simp add: double_of_nat_small toInt32_jsInt)
  then show "parseMptFlags (Some ''toString'') = Inr 0"
    "parseMptFlags (Some ''2147483648'') = Inr (- 2147483648)"
    using t n by (simp_all add: parseMptFlags_def given_def addFlag_def flagValue_def MPT_FLAGS_def
        inheritedProperties_def flagLiteral_def startsWith_def)
qed

end
