(* ===== verification/Byte_Layouts.thy ===== *)
theory Byte_Layouts
  imports Js_Bytes
begin

text \<open>
  Layouts of the package \<open>binary-layout\<close>, which the Wormhole SDK re-exports as \<open>serializeLayout\<close>: the kinds
  of items the repository's layouts use, and what the package documents about writing and reading them.
  The writer itself is a parameter of the models; \<open>layoutLaws\<close> says that it writes what is documented.
\<close>

section \<open>Items and their bytes\<close>

text \<open>
  A constant that is left out of the value, bytes of a fixed size, a big-endian integer of a fixed
  size, and bytes behind their length.
\<close>

datatype layout_item =
    ConstantBytes bytes
  | FixedBytes string nat
  | UInt string nat
  | LengthBytes string nat

datatype layout_value = VBytes bytes | VUInt int

type_synonym layout_fields = "(string \<times> layout_value) list"

definition itemBytes :: "layout_item \<Rightarrow> layout_fields \<Rightarrow> string + bytes" where
  "itemBytes item fields =
     (case item of
        ConstantBytes b \<Rightarrow> Inr b
      | FixedBytes n k \<Rightarrow>
          (case map_of fields n of
             Some (VBytes b) \<Rightarrow> if length b = k then Inr b else Inl n
           | _ \<Rightarrow> Inl n)
      | UInt n k \<Rightarrow>
          (case map_of fields n of
             Some (VUInt v) \<Rightarrow> if 0 \<le> v \<and> v < 256 ^ k then Inr (be_bytes k (nat v)) else Inl n
           | _ \<Rightarrow> Inl n)
      | LengthBytes n k \<Rightarrow>
          (case map_of fields n of
             Some (VBytes b) \<Rightarrow> if length b < 256 ^ k then Inr (be_bytes k (length b) @ b) else Inl n
           | _ \<Rightarrow> Inl n))"

fun layoutBytes :: "layout_item list \<Rightarrow> layout_fields \<Rightarrow> string + bytes" where
  "layoutBytes [] fields = Inr []"
| "layoutBytes (item # items) fields =
     andThen (itemBytes item fields) (\<lambda>b. andThen (layoutBytes items fields) (\<lambda>bs. Inr (b @ bs)))"

definition layoutLaws :: "(layout_item list \<Rightarrow> layout_fields \<Rightarrow> string + bytes) \<Rightarrow> bool" where
  "layoutLaws serializeLayout \<longleftrightarrow> (\<forall>items fields. serializeLayout items fields = layoutBytes items fields)"

section \<open>Reading\<close>

definition readItem :: "layout_item \<Rightarrow> bytes \<Rightarrow> string + layout_fields \<times> bytes" where
  "readItem item b =
     (case item of
        ConstantBytes c \<Rightarrow> if take (length c) b = c then Inr ([], drop (length c) b) else Inl ''constant''
      | FixedBytes n k \<Rightarrow> if k \<le> length b then Inr ([(n, VBytes (take k b))], drop k b) else Inl n
      | UInt n k \<Rightarrow> if k \<le> length b then Inr ([(n, VUInt (int (be_nat (take k b))))], drop k b) else Inl n
      | LengthBytes n k \<Rightarrow>
          if k \<le> length b \<and> k + be_nat (take k b) \<le> length b
          then Inr ([(n, VBytes (take (be_nat (take k b)) (drop k b)))], drop (k + be_nat (take k b)) b)
          else Inl n)"

fun readLayout :: "layout_item list \<Rightarrow> bytes \<Rightarrow> string + layout_fields \<times> bytes" where
  "readLayout [] b = Inr ([], b)"
| "readLayout (item # items) b =
     andThen (readItem item b) (\<lambda>(f, b1). andThen (readLayout items b1) (\<lambda>(fs, b2). Inr (f @ fs, b2)))"

definition itemFields :: "layout_item \<Rightarrow> layout_fields \<Rightarrow> layout_fields" where
  "itemFields item fields =
     (case item of
        ConstantBytes _ \<Rightarrow> []
      | FixedBytes n _ \<Rightarrow> [(n, the (map_of fields n))]
      | UInt n _ \<Rightarrow> [(n, the (map_of fields n))]
      | LengthBytes n _ \<Rightarrow> [(n, the (map_of fields n))])"

lemma readItem_itemBytes:
  "itemBytes item fields = Inr b \<Longrightarrow> readItem item (b @ rest) = Inr (itemFields item fields, rest)"
  by (auto simp: itemBytes_def readItem_def itemFields_def be_nat_be_bytes_id nat_less_iff
      split: layout_item.splits option.splits layout_value.splits if_splits)

text \<open>What is written is read back, whatever follows it.\<close>

lemma readLayout_layoutBytes:
  "layoutBytes items fields = Inr b \<Longrightarrow>
     readLayout items (b @ rest) = Inr (concat (map (\<lambda>i. itemFields i fields) items), rest)"
  by (induction items arbitrary: b) (auto simp: andThen_eq_Inr readItem_itemBytes)

text \<open>Layouts without length prefixes have a fixed size.\<close>

fun itemSize :: "layout_item \<Rightarrow> nat" where
  "itemSize (ConstantBytes b) = length b"
| "itemSize (FixedBytes _ k) = k"
| "itemSize (UInt _ k) = k"
| "itemSize (LengthBytes _ k) = k"

definition isFixed :: "layout_item list \<Rightarrow> bool" where
  "isFixed items \<longleftrightarrow> list_all (\<lambda>i. case i of LengthBytes _ _ \<Rightarrow> False | _ \<Rightarrow> True) items"

lemma length_layoutBytes:
  "layoutBytes items fields = Inr b \<Longrightarrow> isFixed items \<Longrightarrow> length b = sum_list (map itemSize items)"
proof (induction items arbitrary: b)
  case (Cons item items)
  then show ?case
    by (auto simp: andThen_eq_Inr isFixed_def itemBytes_def
        split: layout_item.splits option.splits layout_value.splits if_splits)
qed simp

end
