(* ===== verification/Js_Generators.thy ===== *)
theory Js_Generators
  imports Js_Prelude
begin

text \<open>
  Asynchronous generators that yield transactions. Such a generator runs against a world (the chains),
  which changes while it runs: the consumer delivers each transaction before it asks for the next, so
  what is read after a \<open>yield\<close> is read from the world the transaction left. A process takes the world to
  what was yielded, how the generator ends, and the world at the end.
\<close>

named_theorems process_simps \<open>what a process that returns has done\<close>
named_theorems delivery_intros \<open>processes change the world by what they yield only\<close>

type_synonym ('w, 'r, 'e, 'a) process = "'w \<Rightarrow> 'r list \<times> ('e + 'a) \<times> 'w"

definition proceed :: "('w, 'r, 'e, 'a) process \<Rightarrow> ('a \<Rightarrow> ('w, 'r, 'e, 'b) process) \<Rightarrow> ('w, 'r, 'e, 'b) process" where
  "proceed m k w =
     (case m w of
        (ys, Inl e, w1) \<Rightarrow> (ys, Inl e, w1)
      | (ys, Inr a, w1) \<Rightarrow> (case k a w1 of (zs, r, w2) \<Rightarrow> (ys @ zs, r, w2)))"

definition returning :: "'e + 'a \<Rightarrow> ('w, 'r, 'e, 'a) process" where
  "returning x w = ([], x, w)"

definition reading :: "('w \<Rightarrow> 'e + 'a) \<Rightarrow> ('w, 'r, 'e, 'a) process" where
  "reading f w = ([], f w, w)"

definition sending :: "('r \<Rightarrow> 'w \<Rightarrow> 'w) \<Rightarrow> 'r \<Rightarrow> ('w, 'r, 'e, unit) process" where
  "sending deliver r w = ([r], Inr (), deliver r w)"

fun eachOf :: "('x \<Rightarrow> ('w, 'r, 'e, unit) process) \<Rightarrow> 'x list \<Rightarrow> ('w, 'r, 'e, unit) process" where
  "eachOf f [] = returning (Inr ())"
| "eachOf f (x # xs) = proceed (f x) (\<lambda>_. eachOf f xs)"

section \<open>Processes that return\<close>

lemma proceed_eq_Inr [process_simps]:
  "proceed m k w = (ys, Inr b, w') \<longleftrightarrow>
     (\<exists>us a v vs. m w = (us, Inr a, v) \<and> k a v = (vs, Inr b, w') \<and> ys = us @ vs)"
  by (auto simp: proceed_def split: prod.splits sum.splits)

lemma returning_eq_Inr [process_simps]: "returning x w = (ys, Inr b, w') \<longleftrightarrow> x = Inr b \<and> ys = [] \<and> w' = w"
  by (auto simp: returning_def)

lemma reading_eq_Inr [process_simps]: "reading f w = (ys, Inr b, w') \<longleftrightarrow> f w = Inr b \<and> ys = [] \<and> w' = w"
  by (auto simp: reading_def)

lemma sending_eq_Inr [process_simps]: "sending deliver r w = (ys, Inr b, w') \<longleftrightarrow> ys = [r] \<and> w' = deliver r w"
  by (auto simp: sending_def)

lemma if_process_eq [process_simps]:
  "(if P then m else n) w = r \<longleftrightarrow> (if P then m w = r else n w = r)"
  by simp

section \<open>Processes and the world\<close>

text \<open>The world at the end is the first one with the yielded transactions delivered, in their order.\<close>

definition delivers :: "('r \<Rightarrow> 'w \<Rightarrow> 'w) \<Rightarrow> ('w, 'r, 'e, 'a) process \<Rightarrow> bool" where
  "delivers deliver m \<longleftrightarrow> (\<forall>w. snd (snd (m w)) = fold deliver (fst (m w)) w)"

lemma delivers_world: "delivers deliver m \<Longrightarrow> m w = (ys, r, w') \<Longrightarrow> w' = fold deliver ys w"
  by (metis delivers_def fst_conv snd_conv)

lemma delivers_returning [delivery_intros]: "delivers deliver (returning x)"
  by (simp add: delivers_def returning_def)

lemma delivers_reading [delivery_intros]: "delivers deliver (reading f)"
  by (simp add: delivers_def reading_def)

lemma delivers_sending [delivery_intros]: "delivers deliver (sending deliver r)"
  by (simp add: delivers_def sending_def)

lemma delivers_proceed [delivery_intros]:
  assumes "delivers deliver m" "\<And>a. delivers deliver (k a)"
  shows "delivers deliver (proceed m k)"
  unfolding delivers_def
proof
  fix w
  obtain ys x v where m: "m w = (ys, x, v)" by (cases "m w") auto
  obtain zs r u where k: "k (projr x) v = (zs, r, u)" by (cases "k (projr x) v") auto
  show "snd (snd (proceed m k w)) = fold deliver (fst (proceed m k w)) w"
    using delivers_world [OF assms(1) m] delivers_world [OF assms(2) k] m k
    by (cases x) (auto simp: proceed_def)
qed

lemma delivers_if [delivery_intros]:
  "delivers deliver m \<Longrightarrow> delivers deliver n \<Longrightarrow> delivers deliver (if P then m else n)"
  by simp

lemma delivers_prod [delivery_intros]:
  "(\<And>a b. delivers deliver (m a b)) \<Longrightarrow> delivers deliver (case p of (a, b) \<Rightarrow> m a b)"
  by (cases p) simp

lemma delivers_eachOf [delivery_intros]:
  "(\<And>x. delivers deliver (f x)) \<Longrightarrow> delivers deliver (eachOf f xs)"
  by (induction xs) (auto intro: delivery_intros)

end
