(* ===== verification/Route_Resolve.thy ===== *)
theory Route_Resolve
  imports Js_Objects Trimmed_Amount
begin

text \<open>
  The configuration of the routes, the namespace \<open>NttRoute\<close> of \<open>sdk/route/src/types.ts\<close>: from the
  table of tokens to the tokens a chain offers, the tokens a token can be sent to, and the contracts
  of a transfer; and the referrer fee of \<open>sdk/route/src/executor/utils.ts\<close>. Addresses and amounts
  belong to the Wormhole SDK: \<open>'a\<close> is its address type and \<open>route_sdk\<close> and \<open>amount_sdk\<close> are the
  functions the routes call.
\<close>

section \<open>Definitions\<close>

record transceiver_config =
  tx_type :: string
  tx_address :: string

record svm_shims =
  ss_postMessageShimOverride :: "string option"
  ss_verifyVaaShimOverride :: "string option"

record token_config =
  tk_chain :: string
  tk_token :: string
  tk_manager :: string
  tk_transceiver :: "transceiver_config list"
  tk_tokenDecimals :: "nat option"
  tk_isWrappedGasToken :: bool
  tk_unwrapsOnRedeem :: bool
  tk_svmShims :: "svm_shims option"
  tk_eta :: "rat option"

type_synonym route_config = "(string \<times> token_config list) list"

record 'a route_token =
  rt_chain :: string
  rt_address :: 'a

record 'a route_sdk =
  canonicalToken :: "'a route_token \<Rightarrow> string"
  isNative :: "'a \<Rightarrow> bool"
  nativeTokenId :: "string \<Rightarrow> 'a route_token"
  tokenIdOf :: "string \<Rightarrow> string \<Rightarrow> 'a route_token"

record peer_config =
  pc_manager :: string
  pc_tokenDecimals :: "nat option"

record ntt_contracts =
  nc_token :: string
  nc_tokenDecimals :: "nat option"
  nc_manager :: string
  nc_wormhole :: string
  nc_svmShims :: "svm_shims option"
  nc_eta :: "rat option"
  nc_peers :: "(string \<times> peer_config) list"

datatype route_error =
    NoContracts string
  | NoDestinationContracts string
  | NoWormholeTransceiver
  | DbpsTooBig int

definition resolveSupportedChains :: "route_config \<Rightarrow> string list" where
  "resolveSupportedChains config = concat (map (\<lambda>cfg. map tk_chain cfg) (map snd config))"

definition onChain :: "string \<Rightarrow> token_config \<Rightarrow> bool" where
  "onChain c tc \<longleftrightarrow> tk_chain tc = c"

definition resolveSourceTokens :: "'a route_sdk \<Rightarrow> route_config \<Rightarrow> string \<Rightarrow> 'a route_token list" where
  "resolveSourceTokens sdk config fromChain =
     fold (\<lambda>entry acc.
       case find (onChain fromChain) (snd entry) of
         None \<Rightarrow> acc
       | Some tokenConf \<Rightarrow>
           acc @ [tokenIdOf sdk fromChain (tk_token tokenConf)] @
           (if tk_isWrappedGasToken tokenConf then [nativeTokenId sdk fromChain] else []))
     config []"

text \<open>The test both lookups make of an entry for a token.\<close>

definition matchesToken :: "'a route_sdk \<Rightarrow> 'a route_token \<Rightarrow> token_config \<Rightarrow> bool" where
  "matchesToken sdk tok tc \<longleftrightarrow>
     toLowerCase (tk_token tc) = toLowerCase (canonicalToken sdk tok) \<or>
     (isNative sdk (rt_address tok) \<and> tk_isWrappedGasToken tc)"

definition destinationToken :: "'a route_sdk \<Rightarrow> 'a route_token \<Rightarrow> string \<Rightarrow> string
    \<Rightarrow> token_config list \<Rightarrow> 'a route_token option" where
  "destinationToken sdk sourceToken fromChain toChain configs =
     (case find (\<lambda>c. tk_chain c = fromChain \<and> matchesToken sdk sourceToken c) configs of
        None \<Rightarrow> None
      | Some _ \<Rightarrow>
          (case find (onChain toChain) configs of
             None \<Rightarrow> None
           | Some remote \<Rightarrow>
               if tk_unwrapsOnRedeem remote then Some (nativeTokenId sdk toChain)
               else Some (tokenIdOf sdk toChain (tk_token remote))))"

definition resolveDestinationTokens :: "'a route_sdk \<Rightarrow> route_config \<Rightarrow> 'a route_token \<Rightarrow> string \<Rightarrow> string
    \<Rightarrow> 'a route_token list" where
  "resolveDestinationTokens sdk config sourceToken fromChain toChain =
     List.map_filter (\<lambda>entry. destinationToken sdk sourceToken fromChain toChain (snd entry)) config"

definition wormholeAddress :: "token_config \<Rightarrow> route_error + string" where
  "wormholeAddress tc =
     (case find (\<lambda>v. tx_type v = ''wormhole'') (tk_transceiver tc) of
        None \<Rightarrow> Inl NoWormholeTransceiver
      | Some v \<Rightarrow> Inr (tx_address v))"

definition peerOf :: "token_config \<Rightarrow> (string \<times> peer_config) list" where
  "peerOf tc = [(tk_chain tc, \<lparr>pc_manager = tk_manager tc, pc_tokenDecimals = tk_tokenDecimals tc\<rparr>)]"

definition contractsOf :: "token_config \<Rightarrow> string \<Rightarrow> rat option \<Rightarrow> token_config \<Rightarrow> route_error + ntt_contracts" where
  "contractsOf tc token eta peer =
     andThen (wormholeAddress tc) (\<lambda>wormhole.
     Inr \<lparr>nc_token = token, nc_tokenDecimals = tk_tokenDecimals tc, nc_manager = tk_manager tc,
          nc_wormhole = wormhole, nc_svmShims = tk_svmShims tc, nc_eta = eta, nc_peers = peerOf peer\<rparr>)"

definition findToken :: "'a route_sdk \<Rightarrow> 'a route_token \<Rightarrow> token_config list \<Rightarrow> token_config option" where
  "findToken sdk tok tokens = find (\<lambda>tc. tk_chain tc = rt_chain tok \<and> matchesToken sdk tok tc) tokens"

fun resolveGroups :: "'a route_sdk \<Rightarrow> 'a route_token \<Rightarrow> 'a route_token \<Rightarrow> token_config list list
    \<Rightarrow> route_error + ntt_contracts \<times> ntt_contracts" where
  "resolveGroups sdk srcToken dstToken [] = Inl (NoContracts (canonicalToken sdk srcToken))"
| "resolveGroups sdk srcToken dstToken (tokens # cfg) =
     (case (findToken sdk srcToken tokens, findToken sdk dstToken tokens) of
        (Some srcFound, Some dstFound) \<Rightarrow>
          andThen (contractsOf srcFound (tk_token srcFound) (tk_eta srcFound) dstFound) (\<lambda>srcContracts.
          andThen (contractsOf dstFound (tk_token dstFound) None srcFound) (\<lambda>dstContracts.
          Inr (srcContracts, dstContracts)))
      | _ \<Rightarrow> resolveGroups sdk srcToken dstToken cfg)"

definition resolveNttContracts :: "'a route_sdk \<Rightarrow> route_config \<Rightarrow> 'a route_token \<Rightarrow> 'a route_token
    \<Rightarrow> route_error + ntt_contracts \<times> ntt_contracts" where
  "resolveNttContracts sdk config srcToken dstToken = resolveGroups sdk srcToken dstToken (map snd config)"

text \<open>\<open>address\<close> is the canonical address of \<open>srcManager\<close>, \<open>chain\<close> its chain.\<close>

fun resolveManagers :: "string \<Rightarrow> string \<Rightarrow> string \<Rightarrow> token_config list list \<Rightarrow> route_error + ntt_contracts" where
  "resolveManagers address chain dstChain [] = Inl (NoContracts address)"
| "resolveManagers address chain dstChain (tokens # cfg) =
     (case find (\<lambda>tc. toLowerCase (tk_manager tc) = toLowerCase address \<and> tk_chain tc = chain) tokens of
        None \<Rightarrow> resolveManagers address chain dstChain cfg
      | Some found \<Rightarrow>
          (case find (onChain dstChain) tokens of
             None \<Rightarrow> Inl (NoDestinationContracts address)
           | Some remote \<Rightarrow>
               contractsOf remote (if tk_unwrapsOnRedeem remote then ''native'' else tk_token remote) None found))"

definition resolveDestinationNttContracts :: "route_config \<Rightarrow> string \<Rightarrow> string \<Rightarrow> string
    \<Rightarrow> route_error + ntt_contracts" where
  "resolveDestinationNttContracts config address chain dstChain =
     resolveManagers address chain dstChain (map snd config)"

section \<open>Amounts\<close>

definition isCapacityThresholdExceeded :: "int \<Rightarrow> int \<Rightarrow> bool" where
  "isCapacityThresholdExceeded amount capacity =
     (let threshold = bigint_div (capacity * 95) 100 in threshold < amount)"

text \<open>\<open>amount.Amount\<close> of the SDK: \<open>'m\<close>, with its number of decimals and its value in base units.\<close>

record 'm amount_sdk =
  amountDecimals :: "'m \<Rightarrow> nat"
  amountUnits :: "'m \<Rightarrow> int"
  fromBaseUnits :: "int \<Rightarrow> nat \<Rightarrow> 'm"
  truncateAmount :: "'m \<Rightarrow> nat \<Rightarrow> 'm"

definition TRIMMED_DECIMALS :: nat where
  "TRIMMED_DECIMALS = 8"

definition trimAmount :: "'m amount_sdk \<Rightarrow> 'm \<Rightarrow> nat \<Rightarrow> 'm" where
  "trimAmount sdk amt dstTokenDecimals =
     truncateAmount sdk amt (min (min (amountDecimals sdk amt) dstTokenDecimals) TRIMMED_DECIMALS)"

record referrer_fee =
  rf_referrerFee :: int
  rf_remainingAmount :: int
  rf_referrerFeeDbps :: int

definition calculateReferrerFee :: "'m amount_sdk \<Rightarrow> 'm \<Rightarrow> int \<Rightarrow> nat \<Rightarrow> route_error + referrer_fee" where
  "calculateReferrerFee sdk amt dBps destinationTokenDecimals =
     (if 65535 < dBps then Inl (DbpsTooBig dBps)
      else (let amount = amountUnits sdk amt in
        if 0 < dBps
        then (let referrerFee = bigint_div (amount * dBps) 100000;
                  trimmedFee = trimAmount sdk (fromBaseUnits sdk referrerFee (amountDecimals sdk amt))
                    destinationTokenDecimals
              in Inr \<lparr>rf_referrerFee = referrerFee,
                      rf_remainingAmount = amount - amountUnits sdk trimmedFee,
                      rf_referrerFeeDbps = dBps\<rparr>)
        else Inr \<lparr>rf_referrerFee = 0, rf_remainingAmount = amount, rf_referrerFeeDbps = dBps\<rparr>))"

definition isRelayStatusFailed :: "string \<Rightarrow> bool" where
  "isRelayStatusFailed status \<longleftrightarrow> status \<in> {''failed'', ''underpaid'', ''unsupported'', ''aborted''}"

section \<open>Offered tokens resolve\<close>

text \<open>What the routes rely on in the SDK: the token ids it makes are on their chain, native ones are native, and a token id has the address it was made from, up to case.\<close>

definition sdkLaws :: "'a route_sdk \<Rightarrow> bool" where
  "sdkLaws sdk \<longleftrightarrow>
     (\<forall>c. rt_chain (nativeTokenId sdk c) = c \<and> isNative sdk (rt_address (nativeTokenId sdk c))) \<and>
     (\<forall>c t. rt_chain (tokenIdOf sdk c t) = c \<and>
        toLowerCase (canonicalToken sdk (tokenIdOf sdk c t)) = toLowerCase t)"

definition tokenWellFormed :: "token_config \<Rightarrow> bool" where
  "tokenWellFormed tc \<longleftrightarrow>
     list_ex (\<lambda>v. tx_type v = ''wormhole'') (tk_transceiver tc) \<and>
     (if tk_unwrapsOnRedeem tc then tk_isWrappedGasToken tc else True)"

definition configWellFormed :: "route_config \<Rightarrow> bool" where
  "configWellFormed config \<longleftrightarrow> list_all (\<lambda>(_, cfg). list_all tokenWellFormed cfg) config"

lemma find_some_iff: "find P xs \<noteq> None \<longleftrightarrow> list_ex P xs"
  by (auto simp: find_None_iff list_ex_iff)

lemma wormholeAddress_ok: "tokenWellFormed tc \<Longrightarrow> \<exists>a. wormholeAddress tc = Inr a"
  using find_some_iff [of "\<lambda>v. tx_type v = ''wormhole''" "tk_transceiver tc"]
  by (auto simp: wormholeAddress_def tokenWellFormed_def)

text \<open>Contracts that name each other as peers.\<close>

definition mutualPeers :: "string \<Rightarrow> ntt_contracts \<Rightarrow> string \<Rightarrow> ntt_contracts \<Rightarrow> bool" where
  "mutualPeers c s d t \<longleftrightarrow>
     nc_peers s = [(d, \<lparr>pc_manager = nc_manager t, pc_tokenDecimals = nc_tokenDecimals t\<rparr>)] \<and>
     nc_peers t = [(c, \<lparr>pc_manager = nc_manager s, pc_tokenDecimals = nc_tokenDecimals s\<rparr>)]"

lemma findToken_SomeD:
  "findToken sdk tok tokens = Some tc \<Longrightarrow> tc \<in> set tokens \<and> tk_chain tc = rt_chain tok \<and> matchesToken sdk tok tc"
  unfolding findToken_def by (drule find_SomeD) auto

lemma resolveGroups_ok:
  assumes "\<exists>tokens \<in> set groups. findToken sdk src tokens \<noteq> None \<and> findToken sdk dst tokens \<noteq> None"
    and "\<forall>tokens \<in> set groups. list_all tokenWellFormed tokens"
  shows "\<exists>s t. resolveGroups sdk src dst groups = Inr (s, t) \<and> mutualPeers (rt_chain src) s (rt_chain dst) t"
  using assms
proof (induction groups)
  case (Cons tokens groups)
  show ?case
  proof (cases "findToken sdk src tokens \<noteq> None \<and> findToken sdk dst tokens \<noteq> None")
    case True
    then obtain sf df where f: "findToken sdk src tokens = Some sf" "findToken sdk dst tokens = Some df"
      by auto
    note sf = findToken_SomeD [OF f(1)] and df = findToken_SomeD [OF f(2)]
    from Cons.prems(2) have "list_all tokenWellFormed tokens" by simp
    with sf df obtain a b where "wormholeAddress sf = Inr a" "wormholeAddress df = Inr b"
      using wormholeAddress_ok by (metis list_all_iff)
    then show ?thesis using f sf df by (simp add: contractsOf_def mutualPeers_def peerOf_def)
  next
    case False
    with Cons obtain s t where "resolveGroups sdk src dst groups = Inr (s, t)"
      "mutualPeers (rt_chain src) s (rt_chain dst) t" by auto
    with False show ?thesis by (auto split: option.splits)
  qed
qed simp

lemma destinationToken_found:
  assumes laws: "sdkLaws sdk" and wf: "list_all tokenWellFormed tokens"
    and d: "destinationToken sdk src (rt_chain src) toChain tokens = Some dst"
  shows "findToken sdk src tokens \<noteq> None \<and> findToken sdk dst tokens \<noteq> None \<and> rt_chain dst = toChain"
proof -
  obtain r where m: "find (\<lambda>c. tk_chain c = rt_chain src \<and> matchesToken sdk src c) tokens \<noteq> None"
    and r: "find (onChain toChain) tokens = Some r"
    and dst: "dst = (if tk_unwrapsOnRedeem r then nativeTokenId sdk toChain
                     else tokenIdOf sdk toChain (tk_token r))"
    using d by (auto simp: destinationToken_def split: option.splits if_splits)
  have "r \<in> set tokens" "tk_chain r = toChain" using find_SomeD [OF r] by (auto simp: onChain_def)
  moreover have "rt_chain dst = toChain" using laws by (simp add: sdkLaws_def dst)
  moreover have "matchesToken sdk dst r"
    using laws wf \<open>r \<in> set tokens\<close>
    by (auto simp: matchesToken_def sdkLaws_def dst tokenWellFormed_def list_all_iff split: if_splits)
  ultimately show ?thesis
    using m unfolding findToken_def find_some_iff list_ex_iff by auto
qed

text \<open>
  Every destination that is offered can be used: in a configuration whose entries name a
  Wormhole transceiver, and unwrap on redeem only the wrapped gas token, every token
  \<open>resolveDestinationTokens\<close> offers for a source token is one for which \<open>resolveNttContracts\<close> finds
  the contracts, and the two contracts it returns name each other as the peer of their chain.
\<close>

theorem offered_destinations_resolve:
  assumes "sdkLaws sdk" "configWellFormed config"
    and "dst \<in> set (resolveDestinationTokens sdk config src (rt_chain src) toChain)"
  shows "case resolveNttContracts sdk config src dst of
      Inl e \<Rightarrow> False
    | Inr (s, t) \<Rightarrow> mutualPeers (rt_chain src) s toChain t"
proof -
  obtain name tokens where e: "(name, tokens) \<in> set config"
    and d: "destinationToken sdk src (rt_chain src) toChain tokens = Some dst"
    using assms(3) by (auto simp: resolveDestinationTokens_def List.map_filter_def)
  have wf: "list_all tokenWellFormed cfg" if "cfg \<in> set (map snd config)" for cfg
    using that assms(2) by (auto simp: configWellFormed_def list_all_iff)
  have t: "tokens \<in> set (map snd config)" using e by force
  note f = destinationToken_found [OF assms(1) wf [OF t] d]
  obtain s t where "resolveNttContracts sdk config src dst = Inr (s, t)"
    "mutualPeers (rt_chain src) s (rt_chain dst) t"
    using resolveGroups_ok [of "map snd config" sdk src dst] f t wf
    unfolding resolveNttContracts_def by blast
  then show ?thesis using f by simp
qed

section \<open>The referrer fee\<close>

text \<open>
  What the code relies on in the amounts of the SDK: an amount made from base units has them, and
  truncation drops the digits beyond the given number of decimals without changing the unit.
\<close>

definition amountLaws :: "'m amount_sdk \<Rightarrow> bool" where
  "amountLaws sdk \<longleftrightarrow>
     (\<forall>x d. amountUnits sdk (fromBaseUnits sdk x d) = x \<and> amountDecimals sdk (fromBaseUnits sdk x d) = d) \<and>
     (\<forall>a k. amountUnits sdk (truncateAmount sdk a k) =
        amountUnits sdk a - amountUnits sdk a mod 10 ^ (amountDecimals sdk a - k))"

text \<open>
  The fee never eats the transfer: for an amount that is not negative the computation fails
  exactly when the rate does not fit in 16 bits; otherwise what remains is between 0 and the amount,
  what is taken is a multiple of the dust unit of the destination, and it is at most the nominal fee
  and short of it by less than one dust unit.
\<close>

theorem calculateReferrerFee_bounds:
  assumes "amountLaws sdk" "0 \<le> amountUnits sdk amt"
  shows "case calculateReferrerFee sdk amt dBps dstDecimals of
      Inl e \<Rightarrow> 65535 < dBps
    | Inr r \<Rightarrow> dBps \<le> 65535 \<and> rf_referrerFeeDbps r = dBps \<and>
        (let taken = amountUnits sdk amt - rf_remainingAmount r;
             dust = 10 ^ (amountDecimals sdk amt - min (min (amountDecimals sdk amt) dstDecimals) 8)
         in 0 \<le> rf_remainingAmount r \<and> 0 \<le> taken \<and> dust dvd taken \<and> taken \<le> rf_referrerFee r \<and>
            rf_referrerFee r - taken < dust \<and>
            rf_referrerFee r = (if 0 < dBps then amountUnits sdk amt * dBps div 100000 else 0))"
proof (cases "0 < dBps \<and> dBps \<le> 65535")
  case False
  then show ?thesis using assms(2) by (auto simp: calculateReferrerFee_def)
next
  case True
  let ?u = "amountUnits sdk amt"
  define fee where "fee = ?u * dBps div 100000"
  define dust :: int where "dust = 10 ^ (amountDecimals sdk amt - min (min (amountDecimals sdk amt) dstDecimals) 8)"
  have fee: "bigint_div (?u * dBps) 100000 = fee"
    using assms(2) True by (simp add: bigint_div_nonneg fee_def)
  have nonneg: "0 \<le> fee" using assms(2) True by (simp add: fee_def pos_imp_zdiv_nonneg_iff)
  have "?u * dBps \<le> ?u * 100000" using assms(2) True by (intro mult_left_mono) auto
  then have "fee \<le> ?u * 100000 div 100000" unfolding fee_def by (rule zdiv_mono1) simp
  then have le: "fee \<le> ?u" by simp
  have "0 < dust" by (simp add: dust_def)
  then have m: "0 \<le> fee mod dust" "fee mod dust < dust" "fee mod dust \<le> fee"
    using nonneg by (simp_all add: zmod_le_nonneg_dividend)
  have taken: "amountUnits sdk (trimAmount sdk (fromBaseUnits sdk fee (amountDecimals sdk amt)) dstDecimals)
      = fee - fee mod dust"
    using assms(1) by (simp add: amountLaws_def trimAmount_def dust_def TRIMMED_DECIMALS_def)
  have "dust dvd fee - fee mod dust" by (simp add: minus_mod_eq_mult_div)
  then show ?thesis
    using True m le taken fee by (simp add: calculateReferrerFee_def Let_def dust_def [symmetric] fee_def [symmetric])
qed

section \<open>Witnesses\<close>

text \<open>Addresses are texts: \<open>None\<close> is the native one. Amounts are pairs of base units and decimals.\<close>

definition textSdk :: "string option route_sdk" where
  "textSdk = \<lparr>canonicalToken = (\<lambda>t. case rt_address t of None \<Rightarrow> ''native'' | Some s \<Rightarrow> s),
     isNative = (\<lambda>a. a = None), nativeTokenId = (\<lambda>c. \<lparr>rt_chain = c, rt_address = None\<rparr>),
     tokenIdOf = (\<lambda>c t. \<lparr>rt_chain = c, rt_address = Some t\<rparr>)\<rparr>"

definition exampleEntry :: "string \<Rightarrow> string \<Rightarrow> bool \<Rightarrow> token_config" where
  "exampleEntry chain addr wrapped = \<lparr>tk_chain = chain, tk_token = addr, tk_manager = ''m'' @ addr,
     tk_transceiver = [\<lparr>tx_type = ''wormhole'', tx_address = ''t'' @ addr\<rparr>], tk_tokenDecimals = Some 18,
     tk_isWrappedGasToken = wrapped, tk_unwrapsOnRedeem = wrapped, tk_svmShims = None, tk_eta = None\<rparr>"

definition exampleRoutes :: route_config where
  "exampleRoutes = [(''W'', [exampleEntry ''Ethereum'' ''0xAb'' False, exampleEntry ''Base'' ''0xCd'' True])]"

lemma offered_destinations_resolve_witness:
  "let src = tokenIdOf textSdk ''Ethereum'' ''0xaB''; dst = nativeTokenId textSdk ''Base'' in
   dst \<in> set (resolveDestinationTokens textSdk exampleRoutes src ''Ethereum'' ''Base'') \<and>
   (case resolveNttContracts textSdk exampleRoutes src dst of
      Inl e \<Rightarrow> False
    | Inr (s, t) \<Rightarrow> mutualPeers ''Ethereum'' s ''Base'' t)"
proof -
  let ?src = "tokenIdOf textSdk ''Ethereum'' ''0xaB''" and ?dst = "nativeTokenId textSdk ''Base''"
  have c: "rt_chain ?src = ''Ethereum''" by (simp add: textSdk_def)
  have low: "toLowerCase ''0xAb'' = toLowerCase ''0xaB''" by code_simp
  have d: "?dst \<in> set (resolveDestinationTokens textSdk exampleRoutes ?src (rt_chain ?src) ''Base'')"
    by (simp add: resolveDestinationTokens_def destinationToken_def exampleRoutes_def exampleEntry_def
        textSdk_def matchesToken_def onChain_def low List.map_filter_def)
  have "sdkLaws textSdk" "configWellFormed exampleRoutes"
    by (simp_all add: sdkLaws_def textSdk_def configWellFormed_def exampleRoutes_def exampleEntry_def
        tokenWellFormed_def)
  from offered_destinations_resolve [OF this d, unfolded c] d [unfolded c] show ?thesis
    unfolding Let_def by blast
qed

definition pairSdk :: "(int \<times> nat) amount_sdk" where
  "pairSdk = \<lparr>amountDecimals = snd, amountUnits = fst, fromBaseUnits = Pair,
     truncateAmount = (\<lambda>a k. (fst a - fst a mod 10 ^ (snd a - k), snd a))\<rparr>"

lemma calculateReferrerFee_bounds_witness:
  "case calculateReferrerFee pairSdk (1234567890123, 9) 250 6 of
      Inl e \<Rightarrow> False
    | Inr r \<Rightarrow> rf_referrerFee r = 3086419725 \<and> 0 \<le> rf_remainingAmount r"
proof -
  have "amountLaws pairSdk" "0 \<le> amountUnits pairSdk (1234567890123, 9)"
    by (simp_all add: amountLaws_def pairSdk_def)
  from calculateReferrerFee_bounds [OF this, of 250 6] show ?thesis
    by (auto simp: pairSdk_def Let_def split: sum.splits)
qed

end
