(* ===== verification/Route_Track.thy ===== *)
theory Route_Track
  imports Route_Resolve
begin

text \<open>
  Following a transfer: the generator \<open>track\<close> of the executor route and its manual completion
  (\<open>sdk/route/src/executor/executor.ts\<close>), and the two relay trackers of
  \<open>sdk/route/src/tracking.ts\<close>. A generator is a run: the receipts it yields and how it ends. What is
  read from the chains and from the services is a record of functions; the tests of a receipt's state
  (\<open>isAttested\<close> and the others, of the SDK) are parameters that theorems assume to test for the state
  they are named after.
\<close>

section \<open>Runs and receipts\<close>

datatype track_error =
    TrackThrown string
  | NoVaa string
  | NoStatus
  | NoAttestation
  | NoOriginTx
  | NotFinalized
  | NotQueued
  | NoMessage
  | UnsupportedTransceiver string
  | NoWormholeTransceiverMeta

type_synonym ('r, 'a) run = "'r list \<times> (track_error + 'a)"

definition yielding :: "('r, 'a) run \<Rightarrow> ('a \<Rightarrow> ('r, 'b) run) \<Rightarrow> ('r, 'b) run" where
  "yielding m k =
     (case m of
        (ys, Inl e) \<Rightarrow> (ys, Inl e)
      | (ys, Inr a) \<Rightarrow> (let (zs, r) = k a in (ys @ zs, r)))"

definition emit :: "'r \<Rightarrow> ('r, 'r) run" where
  "emit r = ([r], Inr r)"

definition silent :: "track_error + 'a \<Rightarrow> ('r, 'a) run" where
  "silent x = ([], x)"

definition asking :: "string + 'a \<Rightarrow> ('r, 'a) run" where
  "asking x = ([], case x of Inl e \<Rightarrow> Inl (TrackThrown e) | Inr v \<Rightarrow> Inr v)"

lemma yielding_simps [simp]:
  "yielding (ys, Inl e) k = (ys, Inl e)"
  "yielding (ys, Inr a) k = (ys @ fst (k a), snd (k a))"
  "yielding (silent (Inl e)) k = ([], Inl e)" "yielding (silent (Inr a)) k = k a"
  "yielding (asking (Inl m)) k = ([], Inl (TrackThrown m))" "yielding (asking (Inr a)) k = k a"
  by (simp_all add: yielding_def asking_def silent_def split_def Let_def)

lemma yielding_emit [simp]: "yielding (emit r) k = (r # fst (k r), snd (k r))"
  by (simp add: yielding_def emit_def split_def Let_def)

text \<open>Every receipt of a run, and the one it reaches, satisfies \<open>J\<close>.\<close>

definition every :: "('r \<Rightarrow> bool) \<Rightarrow> ('r, 'a) run \<Rightarrow> ('a \<Rightarrow> bool) \<Rightarrow> bool" where
  "every J m Q \<longleftrightarrow> list_all J (fst m) \<and> (case snd m of Inl _ \<Rightarrow> True | Inr a \<Rightarrow> Q a)"

lemma every_silent: "(\<And>a. x = Inr a \<Longrightarrow> Q a) \<Longrightarrow> every J (silent x) Q"
  by (auto simp: every_def silent_def split: sum.split)

lemma every_emit: "J r \<Longrightarrow> Q r \<Longrightarrow> every J (emit r) Q"
  by (simp add: every_def emit_def)

lemma every_yielding:
  assumes "every J m P" "\<And>a. P a \<Longrightarrow> every J (k a) Q"
  shows "every J (yielding m k) Q"
proof (cases m)
  case (Pair ys x)
  show ?thesis
  proof (cases x)
    case (Inr a)
    with assms Pair have "every J (k a) Q" by (simp add: every_def)
    then show ?thesis using assms(1) Pair Inr by (simp add: every_def)
  qed (use assms(1) Pair in \<open>simp add: every_def\<close>)
qed

lemma every_asking: "(\<And>a. x = Inr a \<Longrightarrow> every J (k a) Q) \<Longrightarrow> every J (yielding (asking x) k) Q"
  by (cases x) (simp_all add: every_def)

lemma every_asking_True: "every J (asking x) (\<lambda>a. x = Inr a)"
  by (cases x) (simp_all add: every_def asking_def)

lemma every_Cons: "every J (x # fst m, snd m) Q \<longleftrightarrow> J x \<and> every J m Q"
  by (simp add: every_def)

lemma every_weaken:
  "every J m Q \<Longrightarrow> (\<And>r. J r \<Longrightarrow> J' r) \<Longrightarrow> (\<And>a. Q a \<Longrightarrow> Q' a) \<Longrightarrow> every J' m Q'"
  by (auto simp: every_def list_all_iff split: sum.splits)

lemma yielding_cong:
  assumes "every (\<lambda>_. True) m Q" "\<And>a. Q a \<Longrightarrow> k a = h a"
  shows "yielding m k = yielding m h"
  using assms by (cases m; cases "snd m") (auto simp: every_def)

datatype transfer_state =
    SourceInitiated | SourceFinalized | Attested | Failed
  | DestinationInitiated | DestinationQueued | DestinationFinalized | OtherState string

record 'v receipt =
  rc_from :: string
  rc_to :: string
  rc_state :: transfer_state
  rc_originTxs :: "string list"
  rc_attestation :: "'v option"
  rc_error :: "string option"
  rc_queueReleaseTime :: "nat option"
  rc_destinationTxs :: "string list option"

text \<open>The tests of the SDK, on the state of a receipt.\<close>

record state_tests =
  isSourceInitiated :: "transfer_state \<Rightarrow> bool"
  isSourceFinalized :: "transfer_state \<Rightarrow> bool"
  isAttested :: "transfer_state \<Rightarrow> bool"
  isFailed :: "transfer_state \<Rightarrow> bool"
  isRedeemed :: "transfer_state \<Rightarrow> bool"
  isDestinationQueued :: "transfer_state \<Rightarrow> bool"
  isCompleted :: "transfer_state \<Rightarrow> bool"

definition testsByName :: "state_tests \<Rightarrow> bool" where
  "testsByName T \<longleftrightarrow>
     isSourceInitiated T = (\<lambda>s. s = SourceInitiated) \<and> isSourceFinalized T = (\<lambda>s. s = SourceFinalized) \<and>
     isAttested T = (\<lambda>s. s = Attested) \<and> isFailed T = (\<lambda>s. s = Failed) \<and>
     isRedeemed T = (\<lambda>s. s = DestinationInitiated) \<and>
     isDestinationQueued T = (\<lambda>s. s = DestinationQueued) \<and>
     isCompleted T = (\<lambda>s. s = DestinationFinalized)"

section \<open>The trackers of the relays (\<open>tracking.ts\<close>)\<close>

text \<open>
  \<open>fetchStatus\<close> gives the status of the first entry, if there is one; \<open>axelarError\<close> the message of
  the error of the Axelar transaction, if there is one.
\<close>

record relay_api =
  fetchStatus :: "string \<Rightarrow> string \<Rightarrow> string + string option"
  axelarError :: "string \<Rightarrow> string \<Rightarrow> string + string option"

definition relayFailed :: "string \<Rightarrow> 'v receipt \<Rightarrow> 'v receipt" where
  "relayFailed message r = r\<lparr>rc_state := Failed, rc_error := Some message\<rparr>"

definition clearFailure :: "state_tests \<Rightarrow> ('v, 'z) receipt_scheme \<Rightarrow> ('v, 'z) receipt_scheme" where
  "clearFailure T r = (if isFailed T (rc_state r) then r\<lparr>rc_state := Attested, rc_error := None\<rparr> else r)"

definition trackExecutor :: "state_tests \<Rightarrow> relay_api \<Rightarrow> ('v, 'z) receipt_scheme
    \<Rightarrow> track_error + ('v, 'z) receipt_scheme" where
  "trackExecutor T api r =
     (if \<not> isAttested T (rc_state r) \<and> \<not> isFailed T (rc_state r) then Inr r
      else if rc_originTxs r = [] then Inl NoOriginTx
      else (case fetchStatus api (last (rc_originTxs r)) (rc_from r) of
              Inl e \<Rightarrow> Inl (TrackThrown e)
            | Inr None \<Rightarrow> Inl NoStatus
            | Inr (Some relayStatus) \<Rightarrow>
                if isRelayStatusFailed relayStatus
                then Inr (r\<lparr>rc_state := Failed, rc_error := Some (''Relay failed with status: '' @ relayStatus)\<rparr>)
                else Inr (clearFailure T r)))"

definition trackAxelar :: "state_tests \<Rightarrow> relay_api \<Rightarrow> ('v, 'z) receipt_scheme
    \<Rightarrow> track_error + ('v, 'z) receipt_scheme" where
  "trackAxelar T api r =
     (if \<not> isAttested T (rc_state r) \<and> \<not> isFailed T (rc_state r) then Inr r
      else if rc_originTxs r = [] then Inl NoOriginTx
      else (case axelarError api (rc_from r) (last (rc_originTxs r)) of
              Inl e \<Rightarrow> Inl (TrackThrown e)
            | Inr (Some message) \<Rightarrow>
                Inr (r\<lparr>rc_state := Failed, rc_error := Some (''Axelar error: '' @ message)\<rparr>)
            | Inr None \<Rightarrow> Inr (clearFailure T r)))"

section \<open>The executor route\<close>

text \<open>What is read while a transfer is followed; \<open>'n\<close> is the handle of the destination's manager.\<close>

record ('n, 'v) track_env =
  te_platform :: "string \<Rightarrow> string"
  te_getVaa :: "string \<Rightarrow> string + 'v option"
  te_destination :: "string \<Rightarrow> string + 'n"
  te_relays :: relay_api
  te_isApproved :: "'n \<Rightarrow> 'v \<Rightarrow> string + bool"
  te_queuedUntil :: "'n \<Rightarrow> 'v \<Rightarrow> string + nat option"
  te_isExecuted :: "'n \<Rightarrow> 'v \<Rightarrow> string + bool"

definition attestStage :: "state_tests \<Rightarrow> ('n, 'v) track_env \<Rightarrow> 'v receipt \<Rightarrow> ('v receipt, 'v receipt) run" where
  "attestStage T env r =
     (if isSourceInitiated T (rc_state r) \<or> isSourceFinalized T (rc_state r)
      then (if rc_originTxs r = [] then silent (Inl NoOriginTx)
            else (let txid = (if te_platform env (rc_from r) = ''Xrpl'' then hd (rc_originTxs r)
                              else last (rc_originTxs r))
                  in yielding (asking (te_getVaa env txid)) (\<lambda>vaa.
                     case vaa of
                       None \<Rightarrow> silent (Inl (NoVaa txid))
                     | Some v \<Rightarrow> emit (r\<lparr>rc_state := Attested, rc_attestation := Some v\<rparr>))))
      else silent (Inr r))"

definition relayStage :: "state_tests \<Rightarrow> ('n, 'v) track_env \<Rightarrow> 'v receipt \<Rightarrow> ('v receipt, 'v receipt) run" where
  "relayStage T env r =
     (if isAttested T (rc_state r) \<and> \<not> isFailed T (rc_state r)
      then (if rc_originTxs r = [] then silent (Inl NoOriginTx)
            else yielding (asking (fetchStatus (te_relays env) (last (rc_originTxs r)) (rc_from r))) (\<lambda>status.
              case status of
                None \<Rightarrow> silent (Inl NoStatus)
              | Some relayStatus \<Rightarrow>
                  if isRelayStatusFailed relayStatus
                  then emit (relayFailed (''Relay failed with status: '' @ relayStatus) r)
                  else if te_platform env (rc_to r) = ''Xrpl''
                  then emit (r\<lparr>rc_state := DestinationFinalized\<rparr>)
                  else silent (Inr r)))
      else silent (Inr r))"

definition approvedStage :: "state_tests \<Rightarrow> ('n, 'v) track_env \<Rightarrow> 'n \<Rightarrow> 'v receipt
    \<Rightarrow> ('v receipt, 'v receipt) run" where
  "approvedStage T env ntt r =
     (if isAttested T (rc_state r) \<or> isFailed T (rc_state r)
      then (case rc_attestation r of
              None \<Rightarrow> silent (Inl NoAttestation)
            | Some vaa \<Rightarrow>
                yielding (asking (te_isApproved env ntt vaa)) (\<lambda>approved.
                if approved then emit (r\<lparr>rc_state := DestinationInitiated\<rparr>) else silent (Inr r)))
      else silent (Inr r))"

definition redeemStage :: "state_tests \<Rightarrow> ('n, 'v) track_env \<Rightarrow> 'n \<Rightarrow> 'v receipt
    \<Rightarrow> ('v receipt, 'v receipt) run" where
  "redeemStage T env ntt r =
     (if isRedeemed T (rc_state r) \<or> isDestinationQueued T (rc_state r)
      then (case rc_attestation r of
              None \<Rightarrow> silent (Inl NoAttestation)
            | Some vaa \<Rightarrow>
                yielding (asking (te_queuedUntil env ntt vaa)) (\<lambda>queued.
                case queued of
                  Some expiry \<Rightarrow>
                    emit (r\<lparr>rc_state := DestinationQueued, rc_queueReleaseTime := Some (expiry * 1000)\<rparr>)
                | None \<Rightarrow>
                    yielding (asking (te_isExecuted env ntt vaa)) (\<lambda>executed.
                    if executed then emit (r\<lparr>rc_state := DestinationFinalized\<rparr>) else silent (Inr r))))
      else silent (Inr r))"

definition track :: "state_tests \<Rightarrow> ('n, 'v) track_env \<Rightarrow> 'v receipt \<Rightarrow> ('v receipt, 'v receipt) run" where
  "track T env receipt =
     yielding (attestStage T env receipt) (\<lambda>r.
     yielding (asking (te_destination env (rc_to r))) (\<lambda>ntt.
     yielding (relayStage T env r) (\<lambda>r.
     yielding (approvedStage T env ntt r) (\<lambda>r.
     yielding (redeemStage T env ntt r) emit))))"

text \<open>
  Completing by hand. \<open>None\<close> is a transfer with nothing left to send; \<open>redeem\<close> builds the
  transactions and \<open>send\<close> signs them and gives their ids.
\<close>

definition buildCompleteXfer :: "state_tests \<Rightarrow> ('n, 'v) track_env \<Rightarrow> ('n \<Rightarrow> 'v \<Rightarrow> 'x) \<Rightarrow> 'v receipt
    \<Rightarrow> track_error + 'x option" where
  "buildCompleteXfer T env redeem r =
     (if \<not> isAttested T (rc_state r) \<and> \<not> isFailed T (rc_state r)
      then (if isRedeemed T (rc_state r) then Inr None else Inl NotFinalized)
      else (case rc_attestation r of
              None \<Rightarrow> Inl NoAttestation
            | Some vaa \<Rightarrow>
                (case te_destination env (rc_to r) of
                   Inl e \<Rightarrow> Inl (TrackThrown e)
                 | Inr ntt \<Rightarrow> Inr (Some (redeem ntt vaa)))))"

definition complete :: "state_tests \<Rightarrow> ('n, 'v) track_env \<Rightarrow> ('n \<Rightarrow> 'v \<Rightarrow> 'x) \<Rightarrow> ('x \<Rightarrow> string + string list)
    \<Rightarrow> 'v receipt \<Rightarrow> track_error + 'v receipt" where
  "complete T env redeem send r =
     andThen (buildCompleteXfer T env redeem r) (\<lambda>xfer.
     case xfer of
       None \<Rightarrow> Inr r
     | Some x \<Rightarrow>
         (case send x of
            Inl e \<Rightarrow> Inl (TrackThrown e)
          | Inr txids \<Rightarrow> Inr (r\<lparr>rc_state := DestinationInitiated, rc_destinationTxs := Some txids\<rparr>)))"

definition finalize :: "state_tests \<Rightarrow> ('n, 'v) track_env \<Rightarrow> ('n \<Rightarrow> 'v \<Rightarrow> 'x) \<Rightarrow> ('x \<Rightarrow> string + string list)
    \<Rightarrow> 'v receipt \<Rightarrow> track_error + 'v receipt" where
  "finalize T env completeQueued send r =
     (if \<not> isDestinationQueued T (rc_state r) then Inl NotQueued
      else (case rc_attestation r of
              None \<Rightarrow> Inl NoAttestation
            | Some vaa \<Rightarrow>
                (case te_destination env (rc_to r) of
                   Inl e \<Rightarrow> Inl (TrackThrown e)
                 | Inr ntt \<Rightarrow>
                     (case send (completeQueued ntt vaa) of
                        Inl e \<Rightarrow> Inl (TrackThrown e)
                      | Inr txids \<Rightarrow>
                          Inr (r\<lparr>rc_state := DestinationFinalized,
                                 rc_destinationTxs := Some (case rc_destinationTxs r of None \<Rightarrow> txids | Some old \<Rightarrow> old @ txids)\<rparr>)))))"

section \<open>What is shown is true\<close>

fun rank :: "transfer_state \<Rightarrow> nat" where
  "rank SourceInitiated = 0"
| "rank SourceFinalized = 1"
| "rank Attested = 2"
| "rank Failed = 3"
| "rank DestinationInitiated = 4"
| "rank DestinationQueued = 5"
| "rank DestinationFinalized = 6"
| "rank (OtherState _) = 7"

text \<open>The answers that justify a receipt.\<close>

definition answered :: "('n, 'v) track_env \<Rightarrow> 'v receipt \<Rightarrow> ('n \<Rightarrow> 'v \<Rightarrow> bool) \<Rightarrow> bool" where
  "answered env r P =
     (case (te_destination env (rc_to r), rc_attestation r) of (Inr n, Some v) \<Rightarrow> P n v | _ \<Rightarrow> False)"

definition relayStatus :: "('n, 'v) track_env \<Rightarrow> 'v receipt \<Rightarrow> (string \<Rightarrow> bool) \<Rightarrow> bool" where
  "relayStatus env r P =
     (case fetchStatus (te_relays env) (last (rc_originTxs r)) (rc_from r) of Inr (Some s) \<Rightarrow> P s | _ \<Rightarrow> False)"

definition justified :: "('n, 'v) track_env \<Rightarrow> 'v receipt \<Rightarrow> 'v receipt \<Rightarrow> bool" where
  "justified env r0 r \<longleftrightarrow>
     rc_from r = rc_from r0 \<and> rc_to r = rc_to r0 \<and> rc_originTxs r = rc_originTxs r0 \<and>
     (rc_state r = rc_state r0 \<or>
      (case rc_state r of
         Attested \<Rightarrow> list_ex (\<lambda>t. te_getVaa env t = Inr (rc_attestation r)) (rc_originTxs r)
       | Failed \<Rightarrow> relayStatus env r isRelayStatusFailed
       | DestinationInitiated \<Rightarrow> answered env r (\<lambda>n v. te_isApproved env n v = Inr True)
       | DestinationQueued \<Rightarrow>
           answered env r (\<lambda>n v. \<exists>t. te_queuedUntil env n v = Inr (Some t) \<and> rc_queueReleaseTime r = Some (t * 1000))
       | DestinationFinalized \<Rightarrow>
           answered env r (\<lambda>n v. te_isExecuted env n v = Inr True) \<or>
           (te_platform env (rc_to r) = ''Xrpl'' \<and> relayStatus env r (\<lambda>s. \<not> isRelayStatusFailed s))
       | _ \<Rightarrow> False))"

text \<open>A run from a receipt: every receipt of it satisfies \<open>J\<close> and no state comes before an earlier one.\<close>

definition reached :: "track_error + 'v receipt \<Rightarrow> 'v receipt list" where
  "reached x = (case x of Inl _ \<Rightarrow> [] | Inr r \<Rightarrow> [r])"

definition follows :: "('v receipt \<Rightarrow> bool) \<Rightarrow> 'v receipt \<Rightarrow> ('v receipt, 'v receipt) run \<Rightarrow> bool" where
  "follows J r m \<longleftrightarrow> list_all J (fst m @ reached (snd m)) \<and>
     sorted (map (rank \<circ> rc_state) (r # fst m @ reached (snd m)))"

lemma follows_Inl: "follows J r ([], Inl e)"
  by (simp add: follows_def reached_def)

lemma follows_silent: "J r' \<Longrightarrow> rank (rc_state r) \<le> rank (rc_state r') \<Longrightarrow> follows J r (silent (Inr r'))"
  by (simp add: follows_def reached_def silent_def)

lemma follows_emit: "J r' \<Longrightarrow> rank (rc_state r) \<le> rank (rc_state r') \<Longrightarrow> follows J r (emit r')"
  by (simp add: follows_def reached_def emit_def)

lemma follows_error: "follows J r (silent (Inl e))"
  by (simp add: follows_def reached_def silent_def)

lemma follows_yielding:
  assumes "follows J r m" and "\<And>r'. J r' \<Longrightarrow> follows J r' (k r')"
  shows "follows J r (yielding m k)"
proof (cases "snd m")
  case (Inl e)
  then show ?thesis using assms(1) by (cases m) simp
next
  case (Inr r')
  obtain ys where m: "m = (ys, Inr r')" using Inr by (cases m) simp
  have "follows J r' (k r')" using assms m by (simp add: follows_def reached_def)
  with assms(1) m show ?thesis
    by (auto simp: follows_def reached_def sorted_append split: sum.splits) (meson order_trans)+
qed

lemma follows_asking:
  assumes "\<And>a. x = Inr a \<Longrightarrow> follows J r (k a)"
  shows "follows J r (yielding (asking x) k)"
  using assms by (cases x) (simp_all add: follows_Inl)

lemmas follows_intros = follows_asking follows_silent follows_emit follows_error

lemma attestStage_follows:
  assumes "testsByName T" "rc_state r = rc_state r0" "justified env r0 r"
  shows "follows (justified env r0) r (attestStage T env r)"
  using assms
  by (auto simp: attestStage_def Let_def testsByName_def justified_def list_ex_iff intro!: follows_intros
      split: option.split; metis hd_in_set last_in_set)

lemma relayStage_follows:
  assumes "testsByName T" "justified env r0 r"
  shows "follows (justified env r0) r (relayStage T env r)"
  using assms
  by (auto simp: relayStage_def testsByName_def justified_def relayStatus_def relayFailed_def
      intro!: follows_intros split: option.split)

lemma approvedStage_follows:
  assumes "testsByName T" "justified env r0 r" "te_destination env (rc_to r0) = Inr ntt"
  shows "follows (justified env r0) r (approvedStage T env ntt r)"
  using assms
  by (auto simp: approvedStage_def testsByName_def justified_def answered_def
      intro!: follows_intros split: option.split)

lemma redeemStage_follows:
  assumes "testsByName T" "justified env r0 r" "te_destination env (rc_to r0) = Inr ntt"
  shows "follows (justified env r0) r (redeemStage T env ntt r)"
  using assms
  by (auto simp: redeemStage_def testsByName_def justified_def answered_def
      intro!: follows_intros split: option.split)

definition endsWithResult :: "('r, 'r) run \<Rightarrow> bool" where
  "endsWithResult m \<longleftrightarrow> (case snd m of Inl e \<Rightarrow> True | Inr r \<Rightarrow> fst m \<noteq> [] \<and> last (fst m) = r)"

lemma endsWithResult_emit: "endsWithResult (emit r)"
  by (simp add: endsWithResult_def emit_def)

lemma endsWithResult_yielding:
  assumes "\<And>a. endsWithResult (k a)"
  shows "endsWithResult (yielding m k)"
proof (cases m)
  case (Pair ys x)
  show ?thesis
  proof (cases x)
    case (Inr b)
    then show ?thesis using assms [of b] Pair by (auto simp: endsWithResult_def split: sum.splits)
  qed (simp add: Pair endsWithResult_def)
qed

text \<open>
  C31. The tracker of the executor route shows only what it was told: every receipt it yields keeps
  the chains and the transactions of the transfer, and its state is the one it started with or is
  justified by an answer (an attestation for one of its transactions, a failed relay, the approval,
  the queue entry with its release time, the execution, or on XRPL a relay that has not failed).
  The states never go back within one run, and a run that ends without an error yields its last
  receipt.
\<close>

theorem track_truthful:
  assumes "testsByName T"
  shows "list_all (justified env r0) (fst (track T env r0)) \<and>
    sorted (map (rank \<circ> rc_state) (r0 # fst (track T env r0))) \<and>
    (case snd (track T env r0) of Inl e \<Rightarrow> True | Inr r \<Rightarrow> fst (track T env r0) \<noteq> [] \<and> last (fst (track T env r0)) = r)"
proof -
  let ?J = "justified env r0"
  have J0: "?J r0" by (simp add: justified_def)
  have f: "follows ?J r0 (track T env r0)"
    unfolding track_def
  proof (rule follows_yielding [OF attestStage_follows], goal_cases)
    case (4 r)
    show ?case
    proof (rule follows_asking)
      fix ntt assume "te_destination env (rc_to r) = Inr ntt"
      with 4 have d: "te_destination env (rc_to r0) = Inr ntt" by (simp add: justified_def)
      show "follows ?J r (yielding (relayStage T env r) (\<lambda>r. yielding (approvedStage T env ntt r)
          (\<lambda>r. yielding (redeemStage T env ntt r) emit)))"
        using assms 4 d
        by (intro follows_yielding relayStage_follows approvedStage_follows redeemStage_follows follows_emit)
          auto
    qed
  qed (use assms J0 in auto)
  have "endsWithResult (track T env r0)"
    unfolding track_def by (intro endsWithResult_yielding endsWithResult_emit)
  then show ?thesis using f by (auto simp: follows_def sorted_append endsWithResult_def)
qed

text \<open>An attested transfer to XRPL: a pending relay is already shown as finalized.\<close>

definition sdkTests :: state_tests where
  "sdkTests = \<lparr>isSourceInitiated = (\<lambda>s. s = SourceInitiated), isSourceFinalized = (\<lambda>s. s = SourceFinalized),
     isAttested = (\<lambda>s. s = Attested), isFailed = (\<lambda>s. s = Failed), isRedeemed = (\<lambda>s. s = DestinationInitiated),
     isDestinationQueued = (\<lambda>s. s = DestinationQueued), isCompleted = (\<lambda>s. s = DestinationFinalized)\<rparr>"

lemma sdkTests_ok [simp]: "testsByName sdkTests"
  by (simp add: testsByName_def sdkTests_def)

definition exampleReceipt :: "transfer_state \<Rightarrow> string \<Rightarrow> nat receipt" where
  "exampleReceipt s toChain = \<lparr>rc_from = ''Base'', rc_to = toChain, rc_state = s, rc_originTxs = [''a'', ''b''],
     rc_attestation = None, rc_error = None, rc_queueReleaseTime = None, rc_destinationTxs = None\<rparr>"

definition exampleEnv :: "string \<Rightarrow> (unit, nat) track_env" where
  "exampleEnv status = \<lparr>te_platform = id, te_getVaa = (\<lambda>t. Inr (if t = ''b'' then Some 7 else None)),
     te_destination = (\<lambda>c. Inr ()),
     te_relays = \<lparr>fetchStatus = (\<lambda>t c. Inr (Some status)), axelarError = (\<lambda>c t. Inr None)\<rparr>,
     te_isApproved = (\<lambda>n v. Inr True), te_queuedUntil = (\<lambda>n v. Inr (Some 5)),
     te_isExecuted = (\<lambda>n v. Inr False)\<rparr>"

lemma track_truthful_witness:
  "testsByName sdkTests \<and>
   map rc_state (fst (track sdkTests (exampleEnv ''failed'') (exampleReceipt SourceInitiated ''Ethereum''))) =
     [Attested, Failed, DestinationInitiated, DestinationQueued, DestinationQueued] \<and>
   sorted (map (rank \<circ> rc_state) (exampleReceipt SourceInitiated ''Ethereum'' #
     fst (track sdkTests (exampleEnv ''failed'') (exampleReceipt SourceInitiated ''Ethereum''))))"
proof (intro conjI)
  show "map rc_state (fst (track sdkTests (exampleEnv ''failed'') (exampleReceipt SourceInitiated ''Ethereum''))) =
     [Attested, Failed, DestinationInitiated, DestinationQueued, DestinationQueued]"
    by (simp add: track_def attestStage_def relayStage_def approvedStage_def redeemStage_def sdkTests_def
        exampleEnv_def exampleReceipt_def Let_def isRelayStatusFailed_def relayFailed_def emit_def)
  show "sorted (map (rank \<circ> rc_state) (exampleReceipt SourceInitiated ''Ethereum'' #
     fst (track sdkTests (exampleEnv ''failed'') (exampleReceipt SourceInitiated ''Ethereum''))))"
    using track_truthful [OF sdkTests_ok, of "exampleEnv ''failed''" "exampleReceipt SourceInitiated ''Ethereum''"]
    by blast
qed simp

lemma track_pending_xrpl:
  "map rc_state (fst (track sdkTests (exampleEnv ''pending'') (exampleReceipt Attested ''Xrpl''))) =
     [DestinationFinalized, DestinationFinalized]"
  by (simp add: track_def attestStage_def relayStage_def approvedStage_def redeemStage_def sdkTests_def
      exampleEnv_def exampleReceipt_def isRelayStatusFailed_def emit_def)

end
