(* ===== verification/Route_Executor.thy ===== *)
theory Route_Executor
  imports Route_Track Js_Numbers
begin

text \<open>
  The executor route before a transfer is on its way, \<open>sdk/route/src/executor/executor.ts\<close>: the
  validation of a request, the quote of the executor service, starting a transfer and resuming one
  from its transaction. \<open>'a\<close> is the address type of the SDK, \<open>'m\<close> its amounts, \<open>'u\<close> its universal
  addresses and \<open>'q\<close> a quote's payee. The services, the layouts and the protocols of the chains are
  a record of functions. Objects that come as JSON are association lists of their own keys.
\<close>

section \<open>Validation\<close>

type_synonym 'a chain_address = "'a route_token"

datatype exec_error =
    ExecThrown string
  | ExecRoute route_error
  | NoReferrerAddress string
  | AmountAfterFee
  | UnsupportedSource
  | UnsupportedDestination
  | FeeTokenNotAllowed string
  | NoEstimatedCost
  | MissingDetails
  | RecipientMismatch
  | NoVaaFor string

record exec_options =
  op_nativeGas :: "js_number option"
  op_msgValue :: "int option"
  op_gasLimit :: "int option"
  op_feeToken :: "string option"

record 'a transfer_request =
  rq_fromChain :: string
  rq_toChain :: string
  rq_source :: "'a route_token"
  rq_sourceDecimals :: nat
  rq_destination :: "'a route_token"
  rq_destinationDecimals :: nat
  rq_recipient :: "'a chain_address option"

record fee_result =
  fr_transferTokenFee :: int
  fr_nativeTokenFee :: int
  fr_referrerAddress :: string

record ('a, 'm) exec_params =
  ep_amount :: string
  ep_trimmedAmount :: 'm
  ep_sourceContracts :: ntt_contracts
  ep_destinationContracts :: ntt_contracts
  ep_transferTokenFee :: int
  ep_nativeTokenFee :: int
  ep_referrerAddress :: "'a chain_address option"
  ep_options :: exec_options

datatype 'u relay_request = GasInstruction int int | GasDropOffInstruction int 'u

record relay_capabilities =
  cp_requestPrefixes :: "string list"
  cp_gasDropOffLimit :: string
  cp_allowedFeeTokens :: "(string \<times> nat) list option"

record quote_response =
  qp_signedQuote :: string
  qp_estimatedCost :: "string option"

record ('a, 'm, 'u, 'q) exec_api =
  ea_sdk :: "'a route_sdk"
  ea_amounts :: "'m amount_sdk"
  ea_parse :: "string \<Rightarrow> nat \<Rightarrow> string + 'm"
  ea_scale :: "'m \<Rightarrow> nat \<Rightarrow> 'm"
  ea_display :: "'m \<Rightarrow> string"
  ea_chainAddress :: "string \<Rightarrow> string \<Rightarrow> string + 'a chain_address"
  ea_platform :: "string \<Rightarrow> string"
  ea_toChainId :: "string \<Rightarrow> nat"
  ea_universal :: "'a \<Rightarrow> 'u"
  ea_zeroAddress :: 'u
  ea_nativeDecimals :: "string \<Rightarrow> nat"
  ea_defaultEta :: "string \<Rightarrow> rat"
  ea_getFee :: "(int \<Rightarrow> string \<Rightarrow> string \<Rightarrow> string \<Rightarrow> string \<Rightarrow> string + fee_result) option"
  ea_capabilities :: "string + (nat \<times> relay_capabilities) list"
  ea_estimate :: "ntt_contracts \<Rightarrow> 'a chain_address option \<Rightarrow> string + int \<times> int"
  ea_serialize :: "'u relay_request list \<Rightarrow> string + bytes"
  ea_deserialize :: "bytes \<Rightarrow> string + 'u relay_request list"
  ea_signedQuote :: "nat \<Rightarrow> nat \<Rightarrow> bytes \<Rightarrow> string option \<Rightarrow> string + quote_response"
  ea_hexDecode :: "string \<Rightarrow> string + bytes"
  ea_readQuote :: "bytes \<Rightarrow> string + 'q \<times> nat"
  ea_rateLimitDuration :: "ntt_contracts \<Rightarrow> string + int"
  ea_inboundCapacity :: "ntt_contracts \<Rightarrow> string \<Rightarrow> string + int"

definition thrownX :: "string + 'x \<Rightarrow> exec_error + 'x" where
  "thrownX = map_sum ExecThrown id"

definition routeX :: "route_error + 'x \<Rightarrow> exec_error + 'x" where
  "routeX = map_sum ExecRoute id"

datatype 'p validation = InvalidNativeGas | Valid 'p

definition getDefaultOptions :: exec_options where
  "getDefaultOptions = \<lparr>op_nativeGas = Some (jsInt 0), op_msgValue = None, op_gasLimit = None, op_feeToken = None\<rparr>"

definition fees :: "('a, 'm, 'u, 'q) exec_api \<Rightarrow> 'a transfer_request \<Rightarrow> 'm
    \<Rightarrow> exec_error + int \<times> int \<times> 'a chain_address option" where
  "fees api request trimmedAmount =
     (case ea_getFee api of
        None \<Rightarrow> Inr (0, 0, None)
      | Some getFee \<Rightarrow>
          andThen (thrownX (getFee (amountUnits (ea_amounts api) trimmedAmount)
            (rt_chain (rq_source request)) (canonicalToken (ea_sdk api) (rq_source request))
            (rt_chain (rq_destination request)) (canonicalToken (ea_sdk api) (rq_destination request)))) (\<lambda>result.
          andThen (thrownX (ea_chainAddress api (rt_chain (rq_source request)) (fr_referrerAddress result))) (\<lambda>referrer.
          Inr (fr_transferTokenFee result, fr_nativeTokenFee result, Some referrer))))"

definition validate :: "('a, 'm, 'u, 'q) exec_api \<Rightarrow> route_config \<Rightarrow> 'a transfer_request \<Rightarrow> string
    \<Rightarrow> exec_options option \<Rightarrow> exec_error + ('a, 'm) exec_params validation" where
  "validate api config request amountText opts =
     (let options = (case opts of None \<Rightarrow> getDefaultOptions | Some o1 \<Rightarrow> o1) in
      if (case op_nativeGas options of None \<Rightarrow> False | Some g \<Rightarrow> ltInt g 0 \<or> gtInt g 1)
      then Inr InvalidNativeGas
      else
        andThen (thrownX (ea_parse api amountText (rq_sourceDecimals request))) (\<lambda>parsedAmount.
        let trimmedAmount = trimAmount (ea_amounts api) parsedAmount (rq_destinationDecimals request) in
        andThen (routeX (resolveNttContracts (ea_sdk api) config (rq_source request) (rq_destination request)))
          (\<lambda>(srcContracts, dstContracts).
        andThen (fees api request trimmedAmount) (\<lambda>(transferTokenFee, nativeTokenFee, referrer).
        Inr (Valid \<lparr>ep_amount = amountText, ep_trimmedAmount = trimmedAmount,
          ep_sourceContracts = srcContracts, ep_destinationContracts = dstContracts,
          ep_transferTokenFee = transferTokenFee, ep_nativeTokenFee = nativeTokenFee,
          ep_referrerAddress = referrer, ep_options = options\<rparr>)))))"

section \<open>The quote of the executor\<close>

definition getDefaultReferrerAddress :: "('a, 'm, 'u, 'q) exec_api \<Rightarrow> string \<Rightarrow> exec_error + 'a chain_address" where
  "getDefaultReferrerAddress api chain =
     (let platform = ea_platform api chain;
          address = (if platform = ''Evm'' then Some ''0x9b2A3B92b1D86938D3Ed37B0519952C227bA6D09''
            else if platform = ''Solana'' then Some ''9q2q3EtP1VNdyaxzju1CGfh3EDj7heGABgxAJNyQDXgT''
            else if platform = ''Sui''
            then Some ''0xbfa1240e48c622d97881473953be730091161b7931d89bd6afe667841cf69ef4''
            else if platform = ''Xrpl'' then Some ''rrrrrrrrrrrrrrrrrrrrrhoLvTp''
            else None)
      in case address of
           None \<Rightarrow> Inl (NoReferrerAddress chain)
         | Some a \<Rightarrow> thrownX (ea_chainAddress api chain a))"

text \<open>A string that is not \<open>undefined\<close> and not empty.\<close>

definition nonEmptyText :: "string option \<Rightarrow> string option" where
  "nonEmptyText s = (case s of Some (c # cs) \<Rightarrow> s | _ \<Rightarrow> None)"

definition defaultFeeToken :: "('a, 'm, 'u, 'q) exec_api \<Rightarrow> string \<Rightarrow> relay_capabilities \<Rightarrow> string option" where
  "defaultFeeToken api chain caps =
     (case cp_allowedFeeTokens caps of
        Some ((first, d) # rest) \<Rightarrow>
          (let nativeAddr = toLowerCase (canonicalToken (ea_sdk api) (nativeTokenId (ea_sdk api) chain))
           in Some (if map_of ((first, d) # rest) nativeAddr \<noteq> None then nativeAddr else first))
      | _ \<Rightarrow> None)"

text \<open>The token the relay is paid in, with its decimals, unless it is the native one.\<close>

definition resolveFeeToken :: "('a, 'm, 'u, 'q) exec_api \<Rightarrow> string \<Rightarrow> string option \<Rightarrow> relay_capabilities
    \<Rightarrow> exec_error + (string \<times> nat) option" where
  "resolveFeeToken api chain option caps =
     (let feeToken = (case nonEmptyText option of Some t \<Rightarrow> Some t | None \<Rightarrow> defaultFeeToken api chain caps) in
      case nonEmptyText feeToken of
        None \<Rightarrow> Inr None
      | Some t \<Rightarrow>
          (case Option.bind (cp_allowedFeeTokens caps) (\<lambda>m. map_of m (toLowerCase t)) of
             None \<Rightarrow> Inl (FeeTokenNotAllowed t)
           | Some decimals \<Rightarrow> Inr (Some (t, decimals))))"

definition calculateGasDropOff :: "int \<Rightarrow> js_number option \<Rightarrow> string + int" where
  "calculateGasDropOff gasDropOffLimit nativeGas =
     (case nativeGas of
        Some g \<Rightarrow>
          if numTruthy g \<and> 0 < gasDropOffLimit
          then map_sum id (\<lambda>n. bigint_div (n * gasDropOffLimit) 100) (bigintOf (mathRound (mulInt g 100)))
          else Inr 0
      | None \<Rightarrow> Inr 0)"

definition relayRequests :: "('a, 'm, 'u, 'q) exec_api \<Rightarrow> int \<Rightarrow> int \<Rightarrow> int \<Rightarrow> 'a chain_address option
    \<Rightarrow> 'u relay_request list" where
  "relayRequests api gasLimit msgValue dropOff recipient =
     GasInstruction gasLimit msgValue #
     (if 0 < dropOff
      then [GasDropOffInstruction dropOff
             (case recipient of Some r \<Rightarrow> ea_universal api (rt_address r) | None \<Rightarrow> ea_zeroAddress api)]
      else [])"

record ('a, 'q) exec_quote =
  eq_signedQuote :: bytes
  eq_relayInstructions :: bytes
  eq_estimatedCost :: int
  eq_payeeAddress :: 'q
  eq_referrer :: "'a chain_address"
  eq_transferTokenFee :: int
  eq_nativeTokenFee :: int
  eq_remainingAmount :: int
  eq_expires :: nat
  eq_gasDropOff :: int
  eq_feeToken :: "(string \<times> nat) option"

definition bigIntText :: "string \<Rightarrow> exec_error + int" where
  "bigIntText s = (case parseBigInt s of None \<Rightarrow> Inl (ExecThrown s) | Some n \<Rightarrow> Inr n)"

definition sourceCapabilities :: "('a, 'm, 'u, 'q) exec_api \<Rightarrow> (nat \<times> relay_capabilities) list \<Rightarrow> string
    \<Rightarrow> exec_error + relay_capabilities" where
  "sourceCapabilities api capabilities chain =
     (case map_of capabilities (ea_toChainId api chain) of
        None \<Rightarrow> Inl UnsupportedSource
      | Some c \<Rightarrow> Inr c)"

definition destinationCapabilities :: "('a, 'm, 'u, 'q) exec_api \<Rightarrow> (nat \<times> relay_capabilities) list \<Rightarrow> string
    \<Rightarrow> exec_error + relay_capabilities" where
  "destinationCapabilities api capabilities chain =
     (case map_of capabilities (ea_toChainId api chain) of
        None \<Rightarrow> Inl UnsupportedDestination
      | Some c \<Rightarrow> if List.member (cp_requestPrefixes c) ''ERN1'' then Inr c else Inl UnsupportedDestination)"

definition fetchExecutorQuote :: "('a, 'm, 'u, 'q) exec_api \<Rightarrow> 'a transfer_request \<Rightarrow> ('a, 'm) exec_params
    \<Rightarrow> exec_error + ('a, 'q) exec_quote" where
  "fetchExecutorQuote api request params =
     (let fromChain = rq_fromChain request; toChain = rq_toChain request; options = ep_options params;
          amt = ea_amounts api in
      andThen (case ep_referrerAddress params of
                 Some r \<Rightarrow> Inr r
               | None \<Rightarrow> getDefaultReferrerAddress api fromChain) (\<lambda>referrer.
      let transferAmount = amountUnits amt (ep_trimmedAmount params);
          transferTokenFee = amountUnits amt (trimAmount amt
            (fromBaseUnits amt (ep_transferTokenFee params) (rq_sourceDecimals request))
            (rq_destinationDecimals request));
          remainingAmount = transferAmount - transferTokenFee in
      if remainingAmount \<le> 0 then Inl AmountAfterFee
      else
        andThen (thrownX (ea_capabilities api)) (\<lambda>capabilities.
        andThen (sourceCapabilities api capabilities fromChain) (\<lambda>srcCapabilities.
        andThen (resolveFeeToken api fromChain (op_feeToken options) srcCapabilities) (\<lambda>feeToken.
        andThen (destinationCapabilities api capabilities toChain) (\<lambda>dstCapabilities.
        andThen (bigIntText (cp_gasDropOffLimit dstCapabilities)) (\<lambda>gasDropOffLimit.
        andThen (thrownX (calculateGasDropOff gasDropOffLimit (op_nativeGas options))) (\<lambda>dropOff.
        andThen (thrownX (ea_estimate api (ep_destinationContracts params) (rq_recipient request))) (\<lambda>(msgValue0, gasLimit0).
        let msgValue = (case op_msgValue options of Some v \<Rightarrow> v | None \<Rightarrow> msgValue0);
            gasLimit = (case op_gasLimit options of Some v \<Rightarrow> v | None \<Rightarrow> gasLimit0) in
        andThen (thrownX (ea_serialize api (relayRequests api gasLimit msgValue dropOff (rq_recipient request)))) (\<lambda>relayInstructions.
        andThen (thrownX (ea_signedQuote api (ea_toChainId api fromChain) (ea_toChainId api toChain)
            relayInstructions (map_option fst feeToken))) (\<lambda>quote.
        case nonEmptyText (qp_estimatedCost quote) of
          None \<Rightarrow> Inl NoEstimatedCost
        | Some cost \<Rightarrow>
            andThen (bigIntText cost) (\<lambda>estimatedCost.
            andThen (thrownX (ea_hexDecode api (qp_signedQuote quote))) (\<lambda>signedQuoteBytes.
            andThen (thrownX (ea_readQuote api signedQuoteBytes)) (\<lambda>(payeeAddress, expiryTime).
            Inr \<lparr>eq_signedQuote = signedQuoteBytes, eq_relayInstructions = relayInstructions,
              eq_estimatedCost = estimatedCost, eq_payeeAddress = payeeAddress, eq_referrer = referrer,
              eq_transferTokenFee = transferTokenFee, eq_nativeTokenFee = ep_nativeTokenFee params,
              eq_remainingAmount = remainingAmount, eq_expires = expiryTime, eq_gasDropOff = dropOff,
              eq_feeToken = feeToken\<rparr>))))))))))))))"

definition buildRelayFee :: "('a, 'm, 'u, 'q) exec_api \<Rightarrow> string \<Rightarrow> int \<Rightarrow> (string \<times> nat) option
    \<Rightarrow> 'a route_token \<times> 'm" where
  "buildRelayFee api chain estimatedCost feeToken =
     (case feeToken of
        None \<Rightarrow> (nativeTokenId (ea_sdk api) chain,
                 fromBaseUnits (ea_amounts api) estimatedCost (ea_nativeDecimals api chain))
      | Some (token, decimals) \<Rightarrow> (tokenIdOf (ea_sdk api) chain token,
                 fromBaseUnits (ea_amounts api) estimatedCost decimals))"

record ('a, 'm, 'q) exec_quote_result =
  er_params :: "('a, 'm) exec_params"
  er_sourceToken :: "'a route_token \<times> 'm"
  er_destinationToken :: "'a route_token \<times> 'm"
  er_relayFee :: "'a route_token \<times> 'm"
  er_destinationNativeGas :: 'm
  er_eta :: rat
  er_expires :: nat
  er_details :: "('a, 'q) exec_quote option"
  er_delay :: "int option"

text \<open>\<open>er_delay\<close> is the delay of the \<open>DestinationCapacityWarning\<close>, if there is one.\<close>

definition rateLimitDelay :: "('a, 'm, 'u, 'q) exec_api \<Rightarrow> ntt_contracts \<Rightarrow> string \<Rightarrow> 'm \<Rightarrow> exec_error + int option" where
  "rateLimitDelay api contracts fromChain receivedAmount =
     andThen (thrownX (ea_rateLimitDuration api contracts)) (\<lambda>duration.
     if 0 < duration
     then andThen (thrownX (ea_inboundCapacity api contracts fromChain)) (\<lambda>capacity.
          Inr (if isCapacityThresholdExceeded (amountUnits (ea_amounts api) receivedAmount) capacity
               then Some duration else None))
     else Inr None)"

definition quote :: "('a, 'm, 'u, 'q) exec_api \<Rightarrow> 'a transfer_request \<Rightarrow> ('a, 'm) exec_params
    \<Rightarrow> exec_error + ('a, 'm, 'q) exec_quote_result" where
  "quote api request params =
     andThen (fetchExecutorQuote api request params) (\<lambda>executorQuote.
     let amt = ea_amounts api;
         receivedAmount = ea_scale api (fromBaseUnits amt (eq_remainingAmount executorQuote)
           (rq_sourceDecimals request)) (rq_destinationDecimals request) in
     andThen (rateLimitDelay api (ep_destinationContracts params) (rq_fromChain request) receivedAmount) (\<lambda>delay.
     Inr \<lparr>er_params = params,
       er_sourceToken = (rq_source request, ep_trimmedAmount params),
       er_destinationToken = (rq_destination request, receivedAmount),
       er_relayFee = buildRelayFee api (rq_fromChain request) (eq_estimatedCost executorQuote) (eq_feeToken executorQuote),
       er_destinationNativeGas = fromBaseUnits amt (eq_gasDropOff executorQuote) (ea_nativeDecimals api (rq_toChain request)),
       er_eta = (case nc_eta (ep_sourceContracts params) of Some e \<Rightarrow> e | None \<Rightarrow> ea_defaultEta api (rq_fromChain request)),
       er_expires = eq_expires executorQuote, er_details = Some executorQuote, er_delay = delay\<rparr>))"

section \<open>Starting and resuming a transfer\<close>

text \<open>
  The call of the protocol's \<open>transfer\<close>. \<open>sender\<close> is the address of the signer; \<open>send\<close> signs and
  sends the transactions of a call and gives their ids. The loop that asks for the status of the
  transfer runs in the background: it only reads, and nothing waits for it.
\<close>

record ('a, 'q) transfer_call =
  tc_sender :: "'a chain_address"
  tc_destination :: "'a chain_address"
  tc_amount :: int
  tc_quote :: "('a, 'q) exec_quote"
  tc_contracts :: ntt_contracts
  tc_wrapNative :: bool

definition recipientsMatch :: "'u \<Rightarrow> 'u relay_request list \<Rightarrow> bool" where
  "recipientsMatch u requests =
     list_all (\<lambda>r. case r of GasDropOffInstruction _ recipient \<Rightarrow> recipient = u | _ \<Rightarrow> True) requests"

definition buildInitiateXfer :: "('a, 'm, 'u, 'q) exec_api \<Rightarrow> 'a transfer_request \<Rightarrow> 'a chain_address
    \<Rightarrow> 'a chain_address \<Rightarrow> ('a, 'm, 'q) exec_quote_result \<Rightarrow> exec_error + ('a, 'q) transfer_call" where
  "buildInitiateXfer api request sender dst q =
     (case er_details q of
        None \<Rightarrow> Inl MissingDetails
      | Some details \<Rightarrow>
          andThen (thrownX (ea_deserialize api (eq_relayInstructions details))) (\<lambda>relayInstructions.
          if \<not> recipientsMatch (ea_universal api (rt_address dst)) relayInstructions then Inl RecipientMismatch
          else Inr \<lparr>tc_sender = sender, tc_destination = dst,
            tc_amount = amountUnits (ea_amounts api) (ep_trimmedAmount (er_params q)), tc_quote = details,
            tc_contracts = ep_sourceContracts (er_params q),
            tc_wrapNative = isNative (ea_sdk api) (rt_address (rq_source request))\<rparr>))"

record ('v, 'p) exec_receipt = "'v receipt" +
  xr_params :: 'p

definition initiate :: "('a, 'm, 'u, 'q) exec_api \<Rightarrow> (('a, 'q) transfer_call \<Rightarrow> string + string list)
    \<Rightarrow> 'a transfer_request \<Rightarrow> 'a chain_address \<Rightarrow> ('a, 'm, 'q) exec_quote_result \<Rightarrow> 'a chain_address
    \<Rightarrow> exec_error + ('v, ('a, 'm) exec_params) exec_receipt" where
  "initiate api send request sender q dst =
     andThen (buildInitiateXfer api request sender dst q) (\<lambda>xfer.
     andThen (thrownX (send xfer)) (\<lambda>txids.
     Inr \<lparr>rc_from = rq_fromChain request, rc_to = rt_chain dst, rc_state = SourceInitiated,
          rc_originTxs = txids, rc_attestation = None, rc_error = None, rc_queueReleaseTime = None,
          rc_destinationTxs = None, xr_params = er_params q\<rparr>))"

text \<open>What \<open>resume\<close> reads of a VAA.\<close>

record 'a vaa_transfer =
  vt_emitterChain :: string
  vt_emitterAddress :: 'a
  vt_recipientChain :: string
  vt_amount :: int
  vt_decimals :: nat
  vt_sourceToken :: 'a
  vt_sourceManager :: 'a

text \<open>Contracts without the optional fields.\<close>

definition bareContracts :: "string \<Rightarrow> string \<Rightarrow> string \<Rightarrow> ntt_contracts" where
  "bareContracts token manager wormhole =
     \<lparr>nc_token = token, nc_tokenDecimals = None, nc_manager = manager, nc_wormhole = wormhole,
      nc_svmShims = None, nc_eta = None, nc_peers = []\<rparr>"

definition resume :: "('a, 'm, 'u, 'q) exec_api \<Rightarrow> route_config \<Rightarrow> (string \<Rightarrow> string + 'a vaa_transfer option)
    \<Rightarrow> string \<Rightarrow> exec_error + ('a vaa_transfer, ('a, 'm) exec_params) exec_receipt" where
  "resume api config getVaa txid =
     andThen (thrownX (getVaa txid)) (\<lambda>found.
     case found of
       None \<Rightarrow> Inl (NoVaaFor txid)
     | Some vaa \<Rightarrow>
         (let canonical = (\<lambda>a. canonicalToken (ea_sdk api) \<lparr>rt_chain = vt_emitterChain vaa, rt_address = a\<rparr>);
              token = canonical (vt_sourceToken vaa);
              manager = canonical (vt_sourceManager vaa);
              whTransceiver = (if ea_platform api (vt_emitterChain vaa) = ''Solana'' then manager
                else canonical (vt_emitterAddress vaa)) in
          andThen (routeX (resolveDestinationNttContracts config manager (vt_emitterChain vaa) (vt_recipientChain vaa)))
            (\<lambda>dstInfo.
          let amt = fromBaseUnits (ea_amounts api) (vt_amount vaa) (vt_decimals vaa) in
          Inr \<lparr>rc_from = vt_emitterChain vaa, rc_to = vt_recipientChain vaa, rc_state = Attested,
            rc_originTxs = [txid], rc_attestation = Some vaa, rc_error = None, rc_queueReleaseTime = None,
            rc_destinationTxs = None,
            xr_params = \<lparr>ep_amount = ea_display api amt, ep_trimmedAmount = amt,
              ep_sourceContracts = bareContracts token manager whTransceiver,
              ep_destinationContracts = bareContracts (nc_token dstInfo) (nc_manager dstInfo) (nc_wormhole dstInfo),
              ep_transferTokenFee = 0, ep_nativeTokenFee = 0, ep_referrerAddress = None,
              ep_options = \<lparr>op_nativeGas = None, op_msgValue = None, op_gasLimit = None, op_feeToken = None\<rparr>\<rparr>\<rparr>)))"

section \<open>What a quote promises\<close>

lemma thrownX_Inr [simp]: "thrownX r = Inr v \<longleftrightarrow> r = Inr v"
  by (cases r) (simp_all add: thrownX_def)

lemma routeX_Inr [simp]: "routeX r = Inr v \<longleftrightarrow> r = Inr v"
  by (cases r) (simp_all add: routeX_def)

lemma nonEmptyText_Some: "nonEmptyText s = Some t \<longleftrightarrow> s = Some t \<and> t \<noteq> []"
  by (auto simp: nonEmptyText_def split: option.splits list.splits)

lemma validate_nativeGas:
  assumes "validate api config request text opts = Inr (Valid params)"
  shows "case op_nativeGas (ep_options params) of None \<Rightarrow> True | Some g \<Rightarrow> \<not> ltInt g 0 \<and> \<not> gtInt g 1"
  using assms by (auto simp: validate_def Let_def andThen_eq_Inr split: if_splits option.splits)

lemma bigint_div_bounds:
  assumes "0 \<le> n" "n \<le> 100" "0 < limit"
  shows "0 \<le> bigint_div (n * limit) 100" "bigint_div (n * limit) 100 \<le> limit"
proof -
  have "n * limit \<le> 100 * limit" using assms by (intro mult_right_mono) auto
  then have "n * limit div 100 \<le> limit" by linarith
  moreover have "0 \<le> n * limit" using assms by simp
  ultimately show "0 \<le> bigint_div (n * limit) 100" "bigint_div (n * limit) 100 \<le> limit"
    by (auto simp: bigint_div_def sgn_if)
qed

lemma calculateGasDropOff_bounds:
  assumes "calculateGasDropOff limit nativeGas = Inr d"
    and "case nativeGas of None \<Rightarrow> True | Some g \<Rightarrow> \<not> ltInt g 0 \<and> \<not> gtInt g 1"
  shows "0 \<le> d \<and> d \<le> max 0 limit"
proof (cases "\<exists>g. nativeGas = Some g \<and> numTruthy g \<and> 0 < limit")
  case True
  then obtain g where g: "nativeGas = Some g" "numTruthy g" "0 < limit" by blast
  then obtain i where "bigintOf (mathRound (mulInt g 100)) = Inr i" "0 \<le> i" "i \<le> 100"
    using percent_bounds [of g] assms(2) by auto
  then show ?thesis
    using assms(1) g bigint_div_bounds [of i limit] by (simp add: calculateGasDropOff_def)
next
  case False
  then show ?thesis using assms(1) by (auto simp: calculateGasDropOff_def split: option.splits if_splits)
qed

lemma resolveFeeToken_allowed:
  assumes "resolveFeeToken api chain option caps = Inr (Some (t, d))"
  shows "\<exists>m. cp_allowedFeeTokens caps = Some m \<and> map_of m (toLowerCase t) = Some d"
  using assms by (auto simp: resolveFeeToken_def Let_def bind_eq_Some_conv split: option.splits)

text \<open>The relay can be sent to the destination, and this much gas may be dropped there.\<close>

definition relayTo :: "('a, 'm, 'u, 'q) exec_api \<Rightarrow> string \<Rightarrow> int \<Rightarrow> bool" where
  "relayTo api chain limit \<longleftrightarrow>
     (case ea_capabilities api of Inl _ \<Rightarrow> False | Inr caps \<Rightarrow>
       (case map_of caps (ea_toChainId api chain) of None \<Rightarrow> False | Some c \<Rightarrow>
          ''ERN1'' \<in> set (cp_requestPrefixes c) \<and> parseBigInt (cp_gasDropOffLimit c) = Some limit))"

definition feeTokenAllowed :: "('a, 'm, 'u, 'q) exec_api \<Rightarrow> string \<Rightarrow> string \<times> nat \<Rightarrow> bool" where
  "feeTokenAllowed api chain fee \<longleftrightarrow>
     (case ea_capabilities api of Inl _ \<Rightarrow> False | Inr caps \<Rightarrow>
       (case map_of caps (ea_toChainId api chain) of None \<Rightarrow> False | Some c \<Rightarrow>
          Option.bind (cp_allowedFeeTokens c) (\<lambda>m. map_of m (toLowerCase (fst fee))) = Some (snd fee)))"

lemma quote_stages_Inr:
  "sourceCapabilities api caps c = Inr s \<longleftrightarrow> map_of caps (ea_toChainId api c) = Some s"
  "destinationCapabilities api caps c = Inr s \<longleftrightarrow>
     map_of caps (ea_toChainId api c) = Some s \<and> ''ERN1'' \<in> set (cp_requestPrefixes s)"
  "bigIntText t = Inr n \<longleftrightarrow> parseBigInt t = Some n"
  by (auto simp: sourceCapabilities_def destinationCapabilities_def bigIntText_def split: option.splits)

text \<open>The parts of a successful \<open>fetchExecutorQuote\<close> that the properties speak of.\<close>

lemma fetchExecutorQuote_Inr:
  assumes "fetchExecutorQuote api request params = Inr q"
  shows "0 < eq_remainingAmount q"
    and "eq_remainingAmount q + eq_transferTokenFee q = amountUnits (ea_amounts api) (ep_trimmedAmount params)"
    and "\<exists>limit. relayTo api (rq_toChain request) limit \<and>
      calculateGasDropOff limit (op_nativeGas (ep_options params)) = Inr (eq_gasDropOff q)"
    and "case eq_feeToken q of None \<Rightarrow> True | Some fee \<Rightarrow> feeTokenAllowed api (rq_fromChain request) fee"
    and "\<exists>gasLimit msgValue. ea_serialize api
      (relayRequests api gasLimit msgValue (eq_gasDropOff q) (rq_recipient request)) = Inr (eq_relayInstructions q)"
proof -
  obtain rf caps sc ft dc gl e gas mv rs qr where
    "ea_capabilities api = Inr caps" "map_of caps (ea_toChainId api (rq_fromChain request)) = Some sc"
    "resolveFeeToken api (rq_fromChain request) (op_feeToken (ep_options params)) sc = Inr (eq_feeToken q)"
    "map_of caps (ea_toChainId api (rq_toChain request)) = Some dc" "''ERN1'' \<in> set (cp_requestPrefixes dc)"
    "parseBigInt (cp_gasDropOffLimit dc) = Some gl"
    "calculateGasDropOff gl (op_nativeGas (ep_options params)) = Inr (eq_gasDropOff q)"
    "ea_serialize api (relayRequests api gas mv (eq_gasDropOff q) (rq_recipient request)) = Inr (eq_relayInstructions q)"
    "0 < eq_remainingAmount q"
    "eq_remainingAmount q + eq_transferTokenFee q = amountUnits (ea_amounts api) (ep_trimmedAmount params)"
    using assms
    by (auto simp: fetchExecutorQuote_def Let_def andThen_eq_Inr quote_stages_Inr split: if_splits option.splits)
  note parts = this
  show "0 < eq_remainingAmount q"
    "eq_remainingAmount q + eq_transferTokenFee q = amountUnits (ea_amounts api) (ep_trimmedAmount params)"
    using parts by blast+
  show "\<exists>limit. relayTo api (rq_toChain request) limit \<and>
      calculateGasDropOff limit (op_nativeGas (ep_options params)) = Inr (eq_gasDropOff q)"
    using parts by (intro exI [of _ gl]) (simp add: relayTo_def)
  show "case eq_feeToken q of None \<Rightarrow> True | Some fee \<Rightarrow> feeTokenAllowed api (rq_fromChain request) fee"
    using parts by (auto simp: feeTokenAllowed_def dest!: resolveFeeToken_allowed split: option.split)
  show "\<exists>gasLimit msgValue. ea_serialize api
      (relayRequests api gasLimit msgValue (eq_gasDropOff q) (rq_recipient request)) = Inr (eq_relayInstructions q)"
    using parts by blast
qed

text \<open>
  C30. What a quote for a validated request promises: the amount after the fee is positive, and with the
  fee it is the amount that will be sent; the gas dropped at the destination is within the limit of
  a chain the relay serves, whatever fraction was asked for; and a relay fee in a token is in one
  the source chain allows, with its decimals.
\<close>

theorem executorQuote_sound:
  assumes "validate api config request text opts = Inr (Valid params)"
    and "fetchExecutorQuote api request params = Inr q"
  shows "0 < eq_remainingAmount q \<and>
    eq_remainingAmount q + eq_transferTokenFee q = amountUnits (ea_amounts api) (ep_trimmedAmount params) \<and>
    (\<exists>limit. relayTo api (rq_toChain request) limit \<and> 0 \<le> eq_gasDropOff q \<and> eq_gasDropOff q \<le> max 0 limit) \<and>
    (case eq_feeToken q of None \<Rightarrow> True | Some fee \<Rightarrow> feeTokenAllowed api (rq_fromChain request) fee)"
  using fetchExecutorQuote_Inr [OF assms(2)] calculateGasDropOff_bounds validate_nativeGas [OF assms(1)]
  by blast

lemma relayRequests_recipient:
  "0 < d \<Longrightarrow> recipientsMatch u (relayRequests api g m d recipient) \<longleftrightarrow>
     u = (case recipient of Some r \<Rightarrow> ea_universal api (rt_address r) | None \<Rightarrow> ea_zeroAddress api)"
  by (auto simp: relayRequests_def recipientsMatch_def)

text \<open>
  C27. Gas is only dropped where the transfer goes: a transfer that starts on a quote with a gas drop-off
  goes to the recipient the quote was made for, and with a quote made for no recipient it goes to
  the zero address only, so a real one is refused. The layout of the instructions has to read back
  what it wrote.
\<close>

theorem gasDropOff_reaches_recipient:
  assumes "codec (ea_serialize api) (ea_deserialize api)"
    and "fetchExecutorQuote api request params = Inr q" "er_details r = Some q" "0 < eq_gasDropOff q"
    and "initiate api send request' sender r dst = Inr receipt"
  shows "ea_universal api (rt_address dst) =
      (case rq_recipient request of Some a \<Rightarrow> ea_universal api (rt_address a) | None \<Rightarrow> ea_zeroAddress api) \<and>
    rc_to receipt = rt_chain dst \<and> rc_state receipt = SourceInitiated"
proof -
  obtain g m where "ea_serialize api (relayRequests api g m (eq_gasDropOff q) (rq_recipient request)) =
      Inr (eq_relayInstructions q)"
    using fetchExecutorQuote_Inr(5) [OF assms(2)] by blast
  then have "ea_deserialize api (eq_relayInstructions q) =
      Inr (relayRequests api g m (eq_gasDropOff q) (rq_recipient request))"
    by (rule codec.dec_enc [OF assms(1)])
  then show ?thesis
    using assms(3,5)
    by (auto simp: relayRequests_recipient [OF assms(4)] initiate_def buildInitiateXfer_def andThen_eq_Inr split: if_splits)
qed

section \<open>An executor\<close>

text \<open>
  An executor that serves two chains, charges in a token on the first one, and writes a relay
  instruction in three bytes where its numbers fit.
\<close>

definition writeRequest :: "byte relay_request \<Rightarrow> string + bytes" where
  "writeRequest r =
     (case r of
        GasInstruction g m \<Rightarrow>
          if 0 \<le> g \<and> g < 256 \<and> 0 \<le> m \<and> m < 256 then Inr [1, word_of_int g, word_of_int m] else Inl ''range''
      | GasDropOffInstruction d u \<Rightarrow>
          if 0 \<le> d \<and> d < 256 then Inr [2, word_of_int d, u] else Inl ''range'')"

fun readRequests :: "bytes \<Rightarrow> string + byte relay_request list" where
  "readRequests [] = Inr []"
| "readRequests (k # x # y # rest) =
     andThen (readRequests rest) (\<lambda>rs.
     Inr ((if k = 1 then GasInstruction (uint x) (uint y) else GasDropOffInstruction (uint x) y) # rs))"
| "readRequests _ = Inl ''short''"

definition writeRequests :: "byte relay_request list \<Rightarrow> string + bytes" where
  "writeRequests rs = andThen (mapR writeRequest rs) (\<lambda>bs. Inr (concat bs))"

lemma readRequests_writeRequest:
  "writeRequest r = Inr b \<Longrightarrow> readRequests rest = Inr rs \<Longrightarrow> readRequests (b @ rest) = Inr (r # rs)"
  by (cases r) (auto simp: writeRequest_def unsigned_of_int take_bit_eq_mod split: if_splits)

interpretation relay_instructions: codec writeRequests readRequests
proof
  show "readRequests b = Inr rs" if "writeRequests rs = Inr b" for rs b
    using that
  proof (induction rs arbitrary: b)
    case (Cons r rs)
    then obtain c d where "writeRequest r = Inr c" "writeRequests rs = Inr d" "b = c @ d"
      by (auto simp: writeRequests_def andThen_eq_Inr)
    with Cons.IH readRequests_writeRequest show ?case by blast
  qed (simp add: writeRequests_def)
qed

definition exampleExecutor :: "(string option, int \<times> nat, byte, unit) exec_api" where
  "exampleExecutor =
     \<lparr>ea_sdk = textSdk, ea_amounts = pairSdk, ea_parse = (\<lambda>t d. Inr (5000, d)), ea_scale = (\<lambda>a d. (fst a, d)),
      ea_display = (\<lambda>a. ''5''), ea_chainAddress = (\<lambda>c t. Inr \<lparr>rt_chain = c, rt_address = Some t\<rparr>),
      ea_platform = (\<lambda>c. ''Evm''), ea_toChainId = length,
      ea_universal = (\<lambda>a. case a of None \<Rightarrow> 0 | Some t \<Rightarrow> of_nat (length t)), ea_zeroAddress = 0,
      ea_nativeDecimals = (\<lambda>c. 18), ea_defaultEta = (\<lambda>c. 60000), ea_getFee = None,
      ea_capabilities = Inr [(8, \<lparr>cp_requestPrefixes = [], cp_gasDropOffLimit = ''0'',
          cp_allowedFeeTokens = Some [(''0xef'', 6)]\<rparr>),
        (4, \<lparr>cp_requestPrefixes = [''ERN1''], cp_gasDropOffLimit = ''100'', cp_allowedFeeTokens = None\<rparr>)],
      ea_estimate = (\<lambda>c r. Inr (0, 200)), ea_serialize = writeRequests, ea_deserialize = readRequests,
      ea_signedQuote = (\<lambda>s d b t. Inr \<lparr>qp_signedQuote = ''00'', qp_estimatedCost = Some ''7''\<rparr>),
      ea_hexDecode = (\<lambda>t. Inr [0]), ea_readQuote = (\<lambda>b. Inr ((), 1700000000)),
      ea_rateLimitDuration = (\<lambda>c. Inr 0), ea_inboundCapacity = (\<lambda>c f. Inr 0)\<rparr>"

definition exampleRequest :: "string option transfer_request" where
  "exampleRequest = \<lparr>rq_fromChain = ''Ethereum'', rq_toChain = ''Base'',
     rq_source = tokenIdOf textSdk ''Ethereum'' ''0xAb'', rq_sourceDecimals = 3,
     rq_destination = nativeTokenId textSdk ''Base'', rq_destinationDecimals = 3,
     rq_recipient = Some \<lparr>rt_chain = ''Base'', rt_address = Some ''bob''\<rparr>\<rparr>"

definition halfGas :: exec_options where
  "halfGas = \<lparr>op_nativeGas = Some (Finite (1 / 2)), op_msgValue = None, op_gasLimit = None, op_feeToken = None\<rparr>"

definition exampleContracts :: "string \<Rightarrow> string \<Rightarrow> string \<Rightarrow> ntt_contracts" where
  "exampleContracts addr peerChain peer = \<lparr>nc_token = addr, nc_tokenDecimals = Some 18, nc_manager = ''m'' @ addr,
     nc_wormhole = ''t'' @ addr, nc_svmShims = None, nc_eta = None,
     nc_peers = [(peerChain, \<lparr>pc_manager = ''m'' @ peer, pc_tokenDecimals = Some 18\<rparr>)]\<rparr>"

definition exampleParams :: "(string option, int \<times> nat) exec_params" where
  "exampleParams = \<lparr>ep_amount = ''5'', ep_trimmedAmount = (5000, 3),
     ep_sourceContracts = exampleContracts ''0xAb'' ''Base'' ''0xCd'',
     ep_destinationContracts = exampleContracts ''0xCd'' ''Ethereum'' ''0xAb'',
     ep_transferTokenFee = 0, ep_nativeTokenFee = 0, ep_referrerAddress = None, ep_options = halfGas\<rparr>"

definition exampleQuote :: "(string option, unit) exec_quote" where
  "exampleQuote = \<lparr>eq_signedQuote = [0], eq_relayInstructions = [1, 200, 0, 2, 50, 3], eq_estimatedCost = 7,
     eq_payeeAddress = (), eq_referrer = \<lparr>rt_chain = ''Ethereum'',
       rt_address = Some ''0x9b2A3B92b1D86938D3Ed37B0519952C227bA6D09''\<rparr>,
     eq_transferTokenFee = 0, eq_nativeTokenFee = 0, eq_remainingAmount = 5000, eq_expires = 1700000000,
     eq_gasDropOff = 50, eq_feeToken = Some (''0xef'', 6)\<rparr>"

lemmas example_executor =
  exampleExecutor_def exampleRequest_def exampleParams_def exampleQuote_def exampleContracts_def halfGas_def
  exampleRoutes_def exampleEntry_def textSdk_def pairSdk_def

lemma exampleParams_valid:
  "validate exampleExecutor exampleRoutes exampleRequest ''5'' (Some halfGas) = Inr (Valid exampleParams)"
proof -
  have low: "toLowerCase ''0xAb'' \<noteq> toLowerCase ''native''" "toLowerCase ''0xCd'' \<noteq> toLowerCase ''native''"
    by code_simp+
  show ?thesis
    by (simp add: validate_def fees_def resolveNttContracts_def findToken_def matchesToken_def contractsOf_def
        wormholeAddress_def peerOf_def ltInt_def gtInt_def trimAmount_def TRIMMED_DECIMALS_def low
        example_executor thrownX_def routeX_def)
qed

lemma exampleDropOff: "calculateGasDropOff 100 (Some (Finite (1 / 2))) = Inr 50"
  by code_simp

lemma exampleQuote_fetched: "fetchExecutorQuote exampleExecutor exampleRequest exampleParams = Inr exampleQuote"
proof -
  have n: "parseBigInt ''100'' = Some 100" "parseBigInt ''7'' = Some 7" "toLowerCase ''0xef'' = ''0xef''"
    "toLowerCase ''native'' = ''native''"
    by code_simp+
  have chain: "getDefaultReferrerAddress exampleExecutor ''Ethereum'' = Inr (eq_referrer exampleQuote)"
    by (simp add: getDefaultReferrerAddress_def exampleExecutor_def exampleQuote_def thrownX_def)
  show ?thesis
    using chain
    by (simp add: fetchExecutorQuote_def quote_stages_Inr n exampleDropOff thrownX_def trimAmount_def
        TRIMMED_DECIMALS_def sourceCapabilities_def destinationCapabilities_def bigIntText_def
        resolveFeeToken_def defaultFeeToken_def nonEmptyText_def relayRequests_def writeRequests_def
        writeRequest_def example_executor)
qed

lemma executorQuote_sound_witness:
  "validate exampleExecutor exampleRoutes exampleRequest ''5'' (Some halfGas) = Inr (Valid exampleParams) \<and>
   fetchExecutorQuote exampleExecutor exampleRequest exampleParams = Inr exampleQuote \<and>
   (\<exists>limit. relayTo exampleExecutor ''Base'' limit \<and> 0 \<le> eq_gasDropOff exampleQuote \<and>
      eq_gasDropOff exampleQuote \<le> max 0 limit) \<and>
   feeTokenAllowed exampleExecutor ''Ethereum'' (''0xef'', 6)"
  using executorQuote_sound [OF exampleParams_valid exampleQuote_fetched] exampleParams_valid exampleQuote_fetched
  by (simp add: exampleQuote_def exampleRequest_def)

definition exampleResult :: "(string option, int \<times> nat, unit) exec_quote_result" where
  "exampleResult = \<lparr>er_params = exampleParams, er_sourceToken = (rq_source exampleRequest, (5000, 3)),
     er_destinationToken = (rq_destination exampleRequest, (5000, 3)),
     er_relayFee = (tokenIdOf textSdk ''Ethereum'' ''0xef'', (7, 6)), er_destinationNativeGas = (50, 18),
     er_eta = 60000, er_expires = 1700000000, er_details = Some exampleQuote, er_delay = None\<rparr>"

lemma exampleResult_quoted: "quote exampleExecutor exampleRequest exampleParams = Inr exampleResult"
  unfolding quote_def exampleQuote_fetched
  by (simp add: thrownX_def Let_def rateLimitDelay_def buildRelayFee_def exampleResult_def example_executor)

definition bob :: "string option chain_address" where
  "bob = \<lparr>rt_chain = ''Base'', rt_address = Some ''bob''\<rparr>"

lemma gasDropOff_reaches_recipient_witness:
  "\<exists>receipt :: (nat, (string option, int \<times> nat) exec_params) exec_receipt.
     initiate exampleExecutor (\<lambda>c. Inr [''tx'']) exampleRequest bob exampleResult bob = Inr receipt \<and>
     rc_to receipt = ''Base'' \<and> rc_state receipt = SourceInitiated \<and>
     ea_universal exampleExecutor (rt_address bob) = (3 :: byte)"
proof -
  have r: "recipientsMatch 3 [GasInstruction 200 0, GasDropOffInstruction 50 (3 :: byte)]"
    by (simp add: recipientsMatch_def)
  obtain receipt :: "(nat, (string option, int \<times> nat) exec_params) exec_receipt" where
    i: "initiate exampleExecutor (\<lambda>c. Inr [''tx'']) exampleRequest bob exampleResult bob = Inr receipt"
    using r by (simp add: initiate_def buildInitiateXfer_def exampleResult_def bob_def thrownX_def example_executor)
  have "codec (ea_serialize exampleExecutor) (ea_deserialize exampleExecutor)"
    using relay_instructions.codec_axioms by (simp add: exampleExecutor_def)
  moreover have "er_details exampleResult = Some exampleQuote" "0 < eq_gasDropOff exampleQuote"
    by (simp_all add: exampleResult_def exampleQuote_def)
  ultimately show ?thesis
    using gasDropOff_reaches_recipient [OF _ exampleQuote_fetched _ _ i] i
    by (auto simp: bob_def exampleExecutor_def exampleRequest_def)
qed

text \<open>
  Another recipient is refused. Without a choice of the caller, a chain that lists fee tokens is paid
  in one of them.
\<close>

lemma initiate_other_recipient:
  "initiate exampleExecutor send exampleRequest bob exampleResult (bob\<lparr>rt_address := Some ''carol''\<rparr>) = Inl RecipientMismatch"
  by (simp add: initiate_def buildInitiateXfer_def exampleResult_def bob_def thrownX_def example_executor recipientsMatch_def)

lemma resolveFeeToken_defaults:
  assumes "cp_allowedFeeTokens caps = Some ((first, d) # rest)" "first \<noteq> []"
    "canonicalToken (ea_sdk api) (nativeTokenId (ea_sdk api) chain) \<noteq> []"
  shows "resolveFeeToken api chain None caps \<noteq> Inr None"
  using assms by (auto simp: resolveFeeToken_def defaultFeeToken_def nonEmptyText_def Let_def toLowerCase_def
      split: option.splits list.splits)

end
