(* ===== verification/Xrpl_Transfer.thy ===== *)
theory Xrpl_Transfer
  imports Byte_Layouts Js_Generators Xrpl_Payload Limit_Format Route_Executor
begin

text \<open>
  Transfers out of the XRP Ledger, \<open>xrpl/ts/src\<close>: the layouts of the memos (\<open>layouts.ts\<close>), the payment
  that is a transfer (\<open>utils.ts\<close>), the protocol \<open>XrplNtt\<close> (\<open>ntt.ts\<close>) and the transfer with a relay,
  \<open>XrplNttWithExecutor\<close> (\<open>nttWithExecutor.ts\<close>). The world \<open>'w\<close> is the ledger; what the \<open>xrpl\<close> package and
  the Wormhole SDK compute or read is a field of \<open>xrpl_sdk\<close>.
\<close>

section \<open>Layouts\<close>

definition nttTransferLayout :: "layout_item list" where
  "nttTransferLayout =
     [ConstantBytes [0x99, 0x4e, 0x54, 0x54],
      FixedBytes ''recipient_ntt_manager_address'' 32,
      FixedBytes ''recipient_address'' 32,
      UInt ''recipient_chain'' 2,
      UInt ''from_decimals'' 1,
      UInt ''to_decimals'' 1]"

definition executorRequestLayout :: "layout_item list" where
  "executorRequestLayout =
     [ConstantBytes [0x45, 0x52, 0x4e, 0x31],
      UInt ''srcChain'' 2,
      FixedBytes ''srcManager'' 32,
      UInt ''messageId'' 32]"

definition requestForExecutionLayout :: "layout_item list" where
  "requestForExecutionLayout =
     [ConstantBytes [0],
      UInt ''dstChain'' 2,
      FixedBytes ''dstAddr'' 32,
      FixedBytes ''refundAddr'' 20,
      LengthBytes ''signedQuote'' 2,
      LengthBytes ''requestBytes'' 2,
      LengthBytes ''relayInstructions'' 2]"

section \<open>Payments and the ledger\<close>

datatype payment_amount =
    Drops string
  | Issued string string string
  | Mpt string string

record memo =
  mm_MemoFormat :: "string option"
  mm_MemoData :: "string option"

record payment =
  py_Account :: string
  py_Destination :: string
  py_Amount :: payment_amount
  py_Memos :: "memo list"

text \<open>An entry of \<open>account_tx\<close>: its transaction is under one of two names, its metadata in one of two forms.\<close>

record tx_body =
  tb_TransactionType :: string
  tb_Destination :: string
  tb_Memos :: "memo list"

datatype tx_meta = MetaText string | MetaObject "nat option"

record account_tx =
  at_tx_json :: "tx_body option"
  at_tx :: "tx_body option"
  at_ledger_index :: "nat option"
  at_meta :: "tx_meta option"

datatype xrpl_error =
    XrplThrown string
  | XrplNoNttContracts
  | XrplNetworkMismatch string string
  | NoPeerConfigured string
  | NoPeerDecimals
  | NoSourceDecimals
  | UnsupportedToken string
  | DestinationAddress string
  | TransferNotFound
  | NoLedgerPosition
  | XrplUnsupported
  | NotImplemented
  | TransceiverNotSupported int

text \<open>
  An address object of the Wormhole SDK, by the methods it has: \<open>toUint8Array\<close> with its result, and
  \<open>toUniversalAddress\<close> with its result, which may be missing.
\<close>

record address_object =
  ao_toUint8Array :: "(string + bytes) option"
  ao_toUniversalAddress :: "(string + (string + bytes) option) option"

record 'w xrpl_sdk =
  xs_api :: xrpl_api
  xs_isValidClassicAddress :: "string \<Rightarrow> bool"
  xs_hexDecode :: "string \<Rightarrow> string + bytes"
  xs_hexEncode :: "bytes \<Rightarrow> string"
  xs_serializeLayout :: "layout_item list \<Rightarrow> layout_fields \<Rightarrow> string + bytes"
  xs_toChainId :: "string \<Rightarrow> nat"
  xs_toUniversal :: "string \<Rightarrow> string \<Rightarrow> string + bytes"
  xs_deliver :: "payment \<Rightarrow> 'w \<Rightarrow> 'w"
  xs_isConnected :: "'w \<Rightarrow> bool"
  xs_connect :: "'w \<Rightarrow> string + unit"
  xs_account_tx :: "'w \<Rightarrow> string \<Rightarrow> string + account_tx list"

definition thrownP :: "string + 'a \<Rightarrow> xrpl_error + 'a" where
  "thrownP x = (case x of Inl e \<Rightarrow> Inl (XrplThrown e) | Inr v \<Rightarrow> Inr v)"

lemma thrownP_eq_Inr [simp, process_simps]: "thrownP x = Inr v \<longleftrightarrow> x = Inr v"
  by (auto simp: thrownP_def split: sum.splits)

section \<open>Addresses and amounts\<close>

text \<open>\<open>b.slice(i)\<close>: a negative start counts from the end.\<close>

definition sliceFrom :: "int \<Rightarrow> bytes \<Rightarrow> bytes" where
  "sliceFrom i b = drop (nat (if i < 0 then int (length b) + i else i)) b"

definition toXrplAddress :: "'w xrpl_sdk \<Rightarrow> string \<Rightarrow> xrpl_error + string" where
  "toXrplAddress sdk address =
     (if xs_isValidClassicAddress sdk address then Inr address
      else andThen (thrownP (xs_hexDecode sdk (strip0x address))) (\<lambda>b.
           thrownP (encodeAccountID (xs_api sdk) (sliceFrom (int (length b) - 20) b))))"

definition xrplAddressToUniversalBytes :: "'w xrpl_sdk \<Rightarrow> string \<Rightarrow> xrpl_error + bytes" where
  "xrplAddressToUniversalBytes sdk address =
     (if xs_isValidClassicAddress sdk address
      then andThen (thrownP (decodeAccountID (xs_api sdk) address)) (\<lambda>accountId.
           if 32 < length accountId then Inl (XrplThrown ''offset is out of bounds'')
           else Inr (copyInto (replicate 32 0) (32 - length accountId) accountId))
      else thrownP (xs_hexDecode sdk (strip0x address)))"

definition destinationAddressToBytes :: "address_object \<Rightarrow> xrpl_error + bytes" where
  "destinationAddressToBytes address =
     (case (case ao_toUint8Array address of
              Some r \<Rightarrow> r
            | None \<Rightarrow>
                (case ao_toUniversalAddress address of
                   Some (Inl e) \<Rightarrow> Inl e
                 | Some (Inr None) \<Rightarrow> Inl ''toUniversalAddress() returned null or undefined''
                 | Some (Inr (Some u)) \<Rightarrow> u
                 | None \<Rightarrow> Inl ''destination.address does not have expected methods'')) of
        Inl e \<Rightarrow> Inl (DestinationAddress e)
      | Inr b \<Rightarrow> Inr b)"

definition stripZeros :: "string \<Rightarrow> string" where
  "stripZeros s = rev (dropWhile (\<lambda>c. c = CHR ''0'') (rev s))"

definition toDecimalValue :: "int \<Rightarrow> nat \<Rightarrow> string" where
  "toDecimalValue amount decimals =
     (if decimals = 0 then dec_of_int amount
      else
        (let str = padStart (decimals + 1) CHR ''0'' (dec_of_int amount);
             intPart = take (length str - decimals) str;
             fracPart = stripZeros (drop (length str - decimals) str)
         in if 0 < length fracPart then intPart @ ''.'' @ fracPart else intPart))"

definition prepareAmount :: "int \<Rightarrow> ntt_contracts \<Rightarrow> nat \<Rightarrow> xrpl_error + payment_amount" where
  "prepareAmount amount contracts decimals =
     (let token = nc_token contracts in
      if token = ''native'' then Inr (Drops (dec_of_int amount))
      else if CHR ''.'' \<in> set token
      then (let parts = split_on CHR ''.'' token
            in Inr (Issued (parts ! 0) (parts ! 1) (toDecimalValue amount decimals)))
      else if length token = 48 \<and> list_all isHex token
      then Inr (Mpt token (dec_of_int amount))
      else Inl (UnsupportedToken token))"

definition nttMemoFields :: "bytes \<Rightarrow> bytes \<Rightarrow> nat \<Rightarrow> nat \<Rightarrow> nat \<Rightarrow> layout_fields" where
  "nttMemoFields recipientManagerAddress destinationAddressBytes chain fromDecimals toDecimals =
     [(''recipient_ntt_manager_address'', VBytes recipientManagerAddress),
      (''recipient_address'', VBytes destinationAddressBytes),
      (''recipient_chain'', VUInt (int chain)),
      (''from_decimals'', VUInt (int fromDecimals)),
      (''to_decimals'', VUInt (int toDecimals))]"

definition buildNttPayment :: "'w xrpl_sdk \<Rightarrow> string \<Rightarrow> int \<Rightarrow> address_object chain_address \<Rightarrow> ntt_contracts
    \<Rightarrow> xrpl_error + nat \<Rightarrow> xrpl_error + payment \<times> bytes" where
  "buildNttPayment sdk sender amount destination contracts getTokenDecimals =
     (case map_of (nc_peers contracts) (rt_chain destination) of
        None \<Rightarrow> Inl (NoPeerConfigured (rt_chain destination))
      | Some peer \<Rightarrow>
          (case pc_tokenDecimals peer of
             None \<Rightarrow> Inl NoPeerDecimals
           | Some toDecimals \<Rightarrow>
               andThen (thrownP (xs_toUniversal sdk (rt_chain destination) (pc_manager peer))) (\<lambda>recipientManagerAddress.
               andThen (destinationAddressToBytes (rt_address destination)) (\<lambda>destinationAddressBytes.
               andThen getTokenDecimals (\<lambda>decimals.
               andThen (thrownP (xs_serializeLayout sdk nttTransferLayout
                   (nttMemoFields recipientManagerAddress destinationAddressBytes
                     (xs_toChainId sdk (rt_chain destination)) decimals toDecimals))) (\<lambda>memoData.
               andThen (toXrplAddress sdk (nc_manager contracts)) (\<lambda>custody.
               andThen (prepareAmount amount contracts decimals) (\<lambda>payAmount.
               Inr (\<lparr>py_Account = sender, py_Destination = custody, py_Amount = payAmount,
                      py_Memos = [\<lparr>mm_MemoFormat = Some (xs_hexEncode sdk (map codeOf ''application/x-ntt-transfer'')),
                                    mm_MemoData = Some (xs_hexEncode sdk memoData)\<rparr>]\<rparr>,
                    recipientManagerAddress)))))))))"

section \<open>XrplNtt\<close>

record xrpl_ntt =
  xn_network :: string
  xn_chain :: string
  xn_contracts :: ntt_contracts

definition newXrplNtt :: "string \<Rightarrow> string \<Rightarrow> ntt_contracts option \<Rightarrow> xrpl_error + xrpl_ntt" where
  "newXrplNtt network chain ntt =
     (case ntt of
        None \<Rightarrow> Inl XrplNoNttContracts
      | Some contracts \<Rightarrow> Inr \<lparr>xn_network = network, xn_chain = chain, xn_contracts = contracts\<rparr>)"

text \<open>
  \<open>fromRpc\<close>: the provider names its network and chain, the configuration gives the network and the
  contracts of the chain.
\<close>

definition xrplFromRpc :: "string + string \<times> string \<Rightarrow> (string \<Rightarrow> string \<times> ntt_contracts option)
    \<Rightarrow> xrpl_error + xrpl_ntt" where
  "xrplFromRpc chainFromRpc config =
     andThen (thrownP chainFromRpc) (\<lambda>(network, chain).
       let conf = config chain in
       if fst conf \<noteq> network then Inl (XrplNetworkMismatch (fst conf) network)
       else if snd conf = None then Inl XrplNoNttContracts
       else newXrplNtt network chain (snd conf))"

definition xrplTokenDecimals :: "xrpl_ntt \<Rightarrow> xrpl_error + nat" where
  "xrplTokenDecimals ntt =
     (case nc_tokenDecimals (xn_contracts ntt) of None \<Rightarrow> Inl NoSourceDecimals | Some d \<Rightarrow> Inr d)"

definition xrplCustodyAddress :: "'w xrpl_sdk \<Rightarrow> xrpl_ntt \<Rightarrow> xrpl_error + string" where
  "xrplCustodyAddress sdk ntt = toXrplAddress sdk (nc_manager (xn_contracts ntt))"

text \<open>A transaction is yielded with its description.\<close>

definition deliverPayment :: "'w xrpl_sdk \<Rightarrow> payment \<times> string \<Rightarrow> 'w \<Rightarrow> 'w" where
  "deliverPayment sdk y = xs_deliver sdk (fst y)"

definition xrplTransfer :: "'w xrpl_sdk \<Rightarrow> xrpl_ntt \<Rightarrow> string \<Rightarrow> int \<Rightarrow> address_object chain_address
    \<Rightarrow> ('w, payment \<times> string, xrpl_error, unit) process" where
  "xrplTransfer sdk ntt sender amount destination =
     proceed (returning (buildNttPayment sdk sender amount destination (xn_contracts ntt) (xrplTokenDecimals ntt)))
       (\<lambda>(payment, _). sending (deliverPayment sdk) (payment, ''NTT transfer''))"

text \<open>
  Everything else an \<open>Ntt\<close> protocol can be asked: the ledger keeps no state to read, so the answer is a
  constant, or that it is not supported.
\<close>

datatype xrpl_admin =
    XSetThreshold int | XPause | XUnpause | XSetOwner string | XSetPauser string
  | XSetPeer string nat int | XSetTransceiverPeer int string | XRedeem | XSetOutboundLimit int
  | XSetInboundLimit string int | XCompleteInboundQueuedTransfer string

definition xrplAdmin :: "xrpl_admin \<Rightarrow> ('w, payment \<times> string, xrpl_error, unit) process" where
  "xrplAdmin op = returning (Inl (case op of
       XSetOwner _ \<Rightarrow> NotImplemented
     | XSetTransceiverPeer _ _ \<Rightarrow> NotImplemented
     | XRedeem \<Rightarrow> NotImplemented
     | _ \<Rightarrow> XrplUnsupported))"

definition xrplTransceiverType :: "int \<Rightarrow> xrpl_error + string" where
  "xrplTransceiverType transceiverIndex =
     (if transceiverIndex \<noteq> 0 then Inl (TransceiverNotSupported transceiverIndex) else Inr ''wormhole'')"

section \<open>The transfer with a relay\<close>

text \<open>\<open>Memos?.[0]?.Memo?.MemoData?.toUpperCase()\<close>\<close>

definition firstMemoData :: "memo list \<Rightarrow> string option" where
  "firstMemoData memos =
     (case memos of [] \<Rightarrow> None | m # _ \<Rightarrow> map_option toUpperCase (mm_MemoData m))"

definition txBody :: "account_tx \<Rightarrow> tx_body option" where
  "txBody entry =
     (case (case at_tx_json entry of Some b \<Rightarrow> Some b | None \<Rightarrow> at_tx entry) of
        Some body \<Rightarrow> if tb_TransactionType body = ''Payment'' then Some body else None
      | None \<Rightarrow> None)"

definition isMetaText :: "tx_meta option \<Rightarrow> bool" where
  "isMetaText m = (case m of Some (MetaText _) \<Rightarrow> True | _ \<Rightarrow> False)"

definition matchesPayment :: "payment \<Rightarrow> account_tx \<Rightarrow> bool" where
  "matchesPayment yieldedPayment entry =
     (let expectedMemoData = firstMemoData (py_Memos yieldedPayment);
          expectedDestination = py_Destination yieldedPayment
      in case txBody entry of
           None \<Rightarrow> False
         | Some body \<Rightarrow>
             if expectedDestination \<noteq> [] \<and> tb_Destination body \<noteq> expectedDestination then False
             else expectedMemoData \<noteq> None \<and> firstMemoData (tb_Memos body) = expectedMemoData \<and>
                  \<not> isMetaText (at_meta entry))"

definition ledgerPosition :: "account_tx \<Rightarrow> (nat \<times> nat) option" where
  "ledgerPosition entry =
     (case (at_ledger_index entry, at_meta entry) of
        (Some ledgerIndex, Some (MetaObject (Some txIndex))) \<Rightarrow> Some (ledgerIndex, txIndex)
      | _ \<Rightarrow> None)"

definition messageIdOf :: "nat \<Rightarrow> nat \<Rightarrow> int" where
  "messageIdOf ledgerIndex txIndex = or (push_bit 32 (int ledgerIndex)) (int txIndex)"

definition locateTransfer :: "'w xrpl_sdk \<Rightarrow> payment \<Rightarrow> string
    \<Rightarrow> ('w, payment \<times> string, xrpl_error, nat \<times> nat) process" where
  "locateTransfer sdk nttPayment senderAddr =
     proceed (reading (\<lambda>w. if xs_isConnected sdk w then Inr () else thrownP (xs_connect sdk w))) (\<lambda>_.
     proceed (reading (\<lambda>w. thrownP (xs_account_tx sdk w senderAddr))) (\<lambda>transactions.
     returning (case find (matchesPayment nttPayment) transactions of
         None \<Rightarrow> Inl TransferNotFound
       | Some entry \<Rightarrow>
           (case ledgerPosition entry of None \<Rightarrow> Inl NoLedgerPosition | Some position \<Rightarrow> Inr position))))"

definition executorRequest :: "'w xrpl_sdk \<Rightarrow> xrpl_ntt \<Rightarrow> int \<Rightarrow> xrpl_error + bytes" where
  "executorRequest sdk this messageId =
     andThen (xrplAddressToUniversalBytes sdk (nc_manager (xn_contracts this))) (\<lambda>srcManager.
     thrownP (xs_serializeLayout sdk executorRequestLayout
       [(''srcChain'', VUInt (int (xs_toChainId sdk (xn_chain this)))),
        (''srcManager'', VBytes srcManager),
        (''messageId'', VUInt messageId)]))"

definition executionFields :: "'w xrpl_sdk \<Rightarrow> string \<Rightarrow> bytes \<Rightarrow> bytes \<Rightarrow> ('a, bytes) exec_quote \<Rightarrow> bytes \<Rightarrow> layout_fields" where
  "executionFields sdk chain dstAddr refundAddr q requestBytes =
     [(''dstChain'', VUInt (int (xs_toChainId sdk chain))),
      (''dstAddr'', VBytes dstAddr),
      (''refundAddr'', VBytes refundAddr),
      (''signedQuote'', VBytes (eq_signedQuote q)),
      (''requestBytes'', VBytes requestBytes),
      (''relayInstructions'', VBytes (eq_relayInstructions q))]"

definition executorPaymentOf :: "'w xrpl_sdk \<Rightarrow> xrpl_ntt \<Rightarrow> string \<Rightarrow> string \<Rightarrow> ('a, bytes) exec_quote \<Rightarrow> bytes \<Rightarrow> int
    \<Rightarrow> xrpl_error + payment" where
  "executorPaymentOf sdk this senderAddr chain q recipientManagerAddress messageId =
     andThen (executorRequest sdk this messageId) (\<lambda>requestBytes.
     andThen (thrownP (decodeAccountID (xs_api sdk) senderAddr)) (\<lambda>refundAddr.
     andThen (thrownP (xs_serializeLayout sdk requestForExecutionLayout
         (executionFields sdk chain recipientManagerAddress refundAddr q requestBytes))) (\<lambda>executorPayload.
     andThen (toXrplAddress sdk (xs_hexEncode sdk (eq_payeeAddress q))) (\<lambda>payeeAddress.
     Inr \<lparr>py_Account = senderAddr, py_Destination = payeeAddress,
          py_Amount = Drops (dec_of_int (eq_estimatedCost q)),
          py_Memos = [\<lparr>mm_MemoFormat = Some (xs_hexEncode sdk (map codeOf ''application/x-executor-request'')),
                        mm_MemoData = Some (xs_hexEncode sdk executorPayload)\<rparr>]\<rparr>))))"

definition xrplShimTransfer :: "'w xrpl_sdk \<Rightarrow> xrpl_ntt \<Rightarrow> string \<Rightarrow> address_object chain_address \<Rightarrow> int
    \<Rightarrow> ('a, bytes) exec_quote \<Rightarrow> xrpl_ntt \<Rightarrow> ('w, payment \<times> string, xrpl_error, unit) process" where
  "xrplShimTransfer sdk this sender destination amount q ntt =
     proceed (returning (buildNttPayment sdk sender amount destination (xn_contracts this) (xrplTokenDecimals ntt)))
       (\<lambda>(nttPayment, recipientManagerAddress).
     proceed (sending (deliverPayment sdk) (nttPayment, ''NTT transfer'')) (\<lambda>_.
     proceed (locateTransfer sdk nttPayment sender) (\<lambda>(ledgerIndex, txIndex).
     proceed (returning (executorPaymentOf sdk this sender (rt_chain destination) q recipientManagerAddress
         (messageIdOf ledgerIndex txIndex))) (\<lambda>executorPayment.
     sending (deliverPayment sdk) (executorPayment, ''Executor request'')))))"

section \<open>Decimal values\<close>

lemma stripZeros_split: "\<exists>k. s = stripZeros s @ replicate k CHR ''0''"
proof -
  have "rev s = takeWhile (\<lambda>c. c = CHR ''0'') (rev s) @ dropWhile (\<lambda>c. c = CHR ''0'') (rev s)"
    by simp
  then have "s = stripZeros s @ rev (takeWhile (\<lambda>c. c = CHR ''0'') (rev s))"
    unfolding stripZeros_def by (metis rev_append rev_rev_ident)
  moreover have "takeWhile (\<lambda>c. c = CHR ''0'') t = replicate (length (takeWhile (\<lambda>c. c = CHR ''0'') t)) CHR ''0''" for t
    by (induction t) auto
  ultimately show ?thesis by (metis rev_replicate)
qed

lemma last_stripZeros: "stripZeros s \<noteq> [] \<Longrightarrow> last (stripZeros s) \<noteq> CHR ''0''"
proof -
  assume ne: "stripZeros s \<noteq> []"
  then have d: "dropWhile (\<lambda>c. c = CHR ''0'') (rev s) \<noteq> []" by (simp add: stripZeros_def)
  have "last (stripZeros s) = hd (dropWhile (\<lambda>c. c = CHR ''0'') (rev s))"
    using d by (simp add: stripZeros_def last_rev)
  then show ?thesis using hd_dropWhile [OF d] by simp
qed

lemma nat_of_dec_append: "nat_of_dec (s @ t) = nat_of_dec s * 10 ^ length t + nat_of_dec t"
  by (simp add: nat_of_dec_def digits_val_append)

lemma nat_of_dec_replicate_zero [simp]: "nat_of_dec (replicate k CHR ''0'') = 0"
  using nat_of_dec_zeros [of k "[]"] by (simp add: nat_of_dec_def)

text \<open>The numeral \<open>w\<close> with the fraction digits \<open>f\<close>.\<close>

definition decimalText :: "string \<Rightarrow> string \<Rightarrow> string" where
  "decimalText w f = (if f = [] then w else w @ CHR ''.'' # f)"

text \<open>
  The value of an issued amount is the amount in smallest units divided by \<open>10 ^ decimals\<close>, without
  rounding: its digits, followed by the zeros that were dropped, are those of the amount. It has no
  trailing zero in the fraction, at most \<open>decimals\<close> fraction digits, and a digit before the dot.
\<close>

theorem toDecimalValue_exact:
  assumes "0 \<le> amount"
  shows "\<exists>w f. toDecimalValue amount decimals = decimalText w f \<and> all_digits w \<and> list_all isDigit f \<and>
    (f \<noteq> [] \<longrightarrow> last f \<noteq> CHR ''0'') \<and> length f \<le> decimals \<and>
    int (nat_of_dec (w @ f) * 10 ^ (decimals - length f)) = amount"
proof (cases "decimals = 0")
  case True
  then show ?thesis using assms
    by (intro exI [of _ "dec_of_nat (nat amount)"] exI [of _ "[]"])
      (simp add: toDecimalValue_def decimalText_def dec_of_int_nonneg)
next
  case False
  obtain w g where p: "formatNumber amount decimals = w @ CHR ''.'' # g" and w: "all_digits w"
    and g: "list_all isDigit g" "length g = decimals" and v: "nat_of_dec (w @ g) = nat amount"
    by (rule formatNumber_parts [OF assms, of decimals])
  obtain k where k: "g = stripZeros g @ replicate k CHR ''0''" using stripZeros_split by blast
  let ?p = "padStart (decimals + 1) CHR ''0'' (dec_of_int amount)"
  have "take (length ?p - decimals) ?p = w \<and> drop (length ?p - decimals) ?p = g"
  proof -
    have "length (drop (length ?p - decimals) ?p) = length g" using g(2) by simp
    with p show ?thesis using False
      by (simp add: formatNumber_def Let_def del: length_padStart)
  qed
  then have t: "toDecimalValue amount decimals = decimalText w (stripZeros g)"
    using False by (simp add: toDecimalValue_def Let_def decimalText_def del: length_padStart)
  have len: "length g = length (stripZeros g) + k" using arg_cong [OF k, of length] by simp
  have "nat_of_dec (w @ stripZeros g) * 10 ^ k = nat_of_dec ((w @ stripZeros g) @ replicate k CHR ''0'')"
    by (simp only: nat_of_dec_append nat_of_dec_replicate_zero length_replicate add_0_right)
  also have "\<dots> = nat amount" using k v by simp
  finally have val: "nat_of_dec (w @ stripZeros g) * 10 ^ k = nat amount" .
  have dig: "list_all isDigit (stripZeros g)" using g(1) k by (metis list_all_append)
  show ?thesis
    using t w dig last_stripZeros [of g] len g(2) val assms
    by (intro exI [of _ w] exI [of _ "stripZeros g"]) auto
qed

lemma toDecimalValue_exact_witness:
  "\<exists>w f. toDecimalValue 1500000 6 = decimalText w f \<and> all_digits w \<and> list_all isDigit f \<and>
    (f \<noteq> [] \<longrightarrow> last f \<noteq> CHR ''0'') \<and> length f \<le> 6 \<and>
    int (nat_of_dec (w @ f) * 10 ^ (6 - length f)) = 1500000"
  using toDecimalValue_exact [of 1500000 6] by simp

section \<open>What the payments carry\<close>

text \<open>
  What is assumed of the packages: \<open>serializeLayout\<close> writes its layouts as documented, hexadecimal is
  written in lower case.
\<close>

definition xrplSdkLaws :: "'w xrpl_sdk \<Rightarrow> bool" where
  "xrplSdkLaws sdk \<longleftrightarrow> layoutLaws (xs_serializeLayout sdk) \<and> (\<forall>b. xs_hexEncode sdk b = toHex b)"

lemma xrplSdkLawsD:
  assumes "xrplSdkLaws sdk"
  shows "xs_serializeLayout sdk = layoutBytes" and "xs_hexEncode sdk = toHex"
  using assms by (auto simp: xrplSdkLaws_def layoutLaws_def)

text \<open>The bytes of the first memo, as a reader of the ledger finds them.\<close>

definition memoBytes :: "payment \<Rightarrow> bytes" where
  "memoBytes p = (case py_Memos p of m # _ \<Rightarrow> fromHex (the (mm_MemoData m)) | [] \<Rightarrow> [])"

text \<open>How much of what a payment moves.\<close>

definition paysFor :: "ntt_contracts \<Rightarrow> nat \<Rightarrow> int \<Rightarrow> payment_amount \<Rightarrow> bool" where
  "paysFor contracts decimals amount pa \<longleftrightarrow>
     (case pa of
        Drops s \<Rightarrow> nc_token contracts = ''native'' \<and> s = dec_of_int amount
      | Issued c i s \<Rightarrow> nc_token contracts \<noteq> ''native'' \<and>
          (\<exists>rest. split_on CHR ''.'' (nc_token contracts) = c # i # rest) \<and> s = toDecimalValue amount decimals
      | Mpt m s \<Rightarrow> nc_token contracts = m \<and> length m = 48 \<and> list_all isHex m \<and> s = dec_of_int amount)"

lemma split_on_member: "c \<in> set s \<Longrightarrow> \<exists>a b rest. split_on c s = a # b # rest"
  by (metis neq_Nil_conv split_list_first split_on_append split_on_not_Nil)

lemma prepareAmount_pays:
  assumes "prepareAmount amount contracts decimals = Inr pa"
  shows "paysFor contracts decimals amount pa"
proof (cases "nc_token contracts \<noteq> ''native'' \<and> CHR ''.'' \<in> set (nc_token contracts)")
  case True
  then obtain a b rest where "split_on CHR ''.'' (nc_token contracts) = a # b # rest"
    using split_on_member by metis
  with True assms show ?thesis by (auto simp: prepareAmount_def paysFor_def Let_def)
qed (use assms in \<open>auto simp: prepareAmount_def paysFor_def Let_def split: if_splits\<close>)

lemma nttTransferLayout_read:
  assumes "layoutBytes nttTransferLayout (nttMemoFields m d c f t) = Inr b"
  shows "readLayout nttTransferLayout b = Inr (nttMemoFields m d c f t, [])"
    and "length b = 72" and "length m = 32" and "length d = 32" and "c < 65536" and "f < 256" and "t < 256"
proof -
  show "readLayout nttTransferLayout b = Inr (nttMemoFields m d c f t, [])"
    using readLayout_layoutBytes [OF assms, of "[]"]
    by (simp add: nttTransferLayout_def nttMemoFields_def itemFields_def)
  show "length b = 72"
    using length_layoutBytes [OF assms] by (simp add: nttTransferLayout_def isFixed_def)
  show "length m = 32" "length d = 32" "c < 65536" "f < 256" "t < 256"
    using assms by (auto simp: nttTransferLayout_def nttMemoFields_def itemBytes_def andThen_eq_Inr split: if_splits)
qed

text \<open>A built payment, with everything it was built from.\<close>

definition builtFrom :: "'w xrpl_sdk \<Rightarrow> string \<Rightarrow> int \<Rightarrow> address_object chain_address \<Rightarrow> ntt_contracts \<Rightarrow> nat
    \<Rightarrow> payment \<Rightarrow> bytes \<Rightarrow> bool" where
  "builtFrom sdk sender amount destination contracts decimals p manager \<longleftrightarrow>
     (\<exists>peer toDecimals recipient.
        map_of (nc_peers contracts) (rt_chain destination) = Some peer \<and> pc_tokenDecimals peer = Some toDecimals \<and>
        xs_toUniversal sdk (rt_chain destination) (pc_manager peer) = Inr manager \<and>
        destinationAddressToBytes (rt_address destination) = Inr recipient \<and>
        py_Account p = sender \<and> toXrplAddress sdk (nc_manager contracts) = Inr (py_Destination p) \<and>
        paysFor contracts decimals amount (py_Amount p) \<and> length (memoBytes p) = 72 \<and>
        readLayout nttTransferLayout (memoBytes p) =
          Inr (nttMemoFields manager recipient (xs_toChainId sdk (rt_chain destination)) decimals toDecimals, []))"

lemma buildNttPayment_built:
  assumes "xrplSdkLaws sdk" "buildNttPayment sdk sender amount destination contracts getTokenDecimals = Inr (p, manager)"
  shows "\<exists>decimals. getTokenDecimals = Inr decimals \<and> builtFrom sdk sender amount destination contracts decimals p manager"
proof -
  note laws = xrplSdkLawsD [OF assms(1)]
  from assms(2) obtain peer toDecimals recipient decimals memoData custody pa where
    peer: "map_of (nc_peers contracts) (rt_chain destination) = Some peer" "pc_tokenDecimals peer = Some toDecimals" and
    addr: "xs_toUniversal sdk (rt_chain destination) (pc_manager peer) = Inr manager"
      "destinationAddressToBytes (rt_address destination) = Inr recipient" and
    dec: "getTokenDecimals = Inr decimals" and
    memo: "layoutBytes nttTransferLayout (nttMemoFields manager recipient
      (xs_toChainId sdk (rt_chain destination)) decimals toDecimals) = Inr memoData" and
    custody: "toXrplAddress sdk (nc_manager contracts) = Inr custody" and
    pa: "prepareAmount amount contracts decimals = Inr pa" and
    p: "p = \<lparr>py_Account = sender, py_Destination = custody, py_Amount = pa,
      py_Memos = [\<lparr>mm_MemoFormat = Some (toHex (map codeOf ''application/x-ntt-transfer'')),
                    mm_MemoData = Some (toHex memoData)\<rparr>]\<rparr>"
    by (auto simp: buildNttPayment_def laws andThen_eq_Inr split: option.splits)
  have "memoBytes p = memoData" by (simp add: p memoBytes_def)
  then show ?thesis
    using peer addr dec custody prepareAmount_pays [OF pa] nttTransferLayout_read(1,2) [OF memo]
    by (intro exI [of _ decimals] conjI dec) (auto simp: builtFrom_def p)
qed

section \<open>What the relayer is told\<close>

lemma messageIdOf_add:
  assumes "i < 2 ^ 32"
  shows "messageIdOf l i = int l * 2 ^ 32 + int i"
proof -
  have t: "take_bit 32 (int i) = int i" using assms by (simp add: take_bit_int_eq_self)
  have "messageIdOf l i = concat_bit 32 (int i) (int l)"
    by (simp add: messageIdOf_def concat_bit_def t or.commute)
  also have "\<dots> = int i + push_bit 32 (int l)" by (simp add: concat_bit_eq t)
  finally show ?thesis by (simp add: push_bit_eq_mult)
qed

lemma messageIdOf_position:
  assumes "i < 2 ^ 32"
  shows "messageIdOf l i div 2 ^ 32 = int l" and "messageIdOf l i mod 2 ^ 32 = int i"
proof -
  have "int i < 2 ^ 32" using assms by (metis of_nat_less_iff of_nat_numeral of_nat_power)
  then show "messageIdOf l i div 2 ^ 32 = int l" "messageIdOf l i mod 2 ^ 32 = int i"
    by (simp_all add: messageIdOf_add [OF assms])
qed

text \<open>
  The payment of a request: it pays the quoted cost to the quoter's payee, and its memo holds the quote
  and the request for the message at a position of the ledger.
\<close>

definition requestsRelay :: "'w xrpl_sdk \<Rightarrow> xrpl_ntt \<Rightarrow> string \<Rightarrow> string \<Rightarrow> ('a, bytes) exec_quote \<Rightarrow> bytes \<Rightarrow> int
    \<Rightarrow> payment \<Rightarrow> bool" where
  "requestsRelay sdk this sender chain q manager messageId p \<longleftrightarrow>
     py_Account p = sender \<and> py_Amount p = Drops (dec_of_int (eq_estimatedCost q)) \<and>
     toXrplAddress sdk (toHex (eq_payeeAddress q)) = Inr (py_Destination p) \<and>
     (\<exists>refund srcManager requestBytes.
        decodeAccountID (xs_api sdk) sender = Inr refund \<and>
        xrplAddressToUniversalBytes sdk (nc_manager (xn_contracts this)) = Inr srcManager \<and>
        readLayout requestForExecutionLayout (memoBytes p) =
          Inr (executionFields sdk chain manager refund q requestBytes, []) \<and>
        readLayout executorRequestLayout requestBytes =
          Inr ([(''srcChain'', VUInt (int (xs_toChainId sdk (xn_chain this)))), (''srcManager'', VBytes srcManager),
                (''messageId'', VUInt messageId)], []))"

lemma requestForExecution_read:
  assumes "layoutBytes requestForExecutionLayout (executionFields sdk chain m r q b) = Inr bs"
  shows "readLayout requestForExecutionLayout bs = Inr (executionFields sdk chain m r q b, [])"
  using readLayout_layoutBytes [OF assms, of "[]"]
  by (simp add: requestForExecutionLayout_def executionFields_def itemFields_def)

lemma executorRequest_read:
  assumes "xrplSdkLaws sdk" "executorRequest sdk this messageId = Inr b"
  shows "\<exists>srcManager. xrplAddressToUniversalBytes sdk (nc_manager (xn_contracts this)) = Inr srcManager \<and>
    readLayout executorRequestLayout b =
      Inr ([(''srcChain'', VUInt (int (xs_toChainId sdk (xn_chain this)))), (''srcManager'', VBytes srcManager),
            (''messageId'', VUInt messageId)], [])"
proof -
  obtain srcManager where m: "xrplAddressToUniversalBytes sdk (nc_manager (xn_contracts this)) = Inr srcManager"
    "layoutBytes executorRequestLayout
       [(''srcChain'', VUInt (int (xs_toChainId sdk (xn_chain this)))), (''srcManager'', VBytes srcManager),
        (''messageId'', VUInt messageId)] = Inr b"
    using assms(2) by (auto simp: executorRequest_def xrplSdkLawsD [OF assms(1)] andThen_eq_Inr)
  show ?thesis
    using m(1) readLayout_layoutBytes [OF m(2), of "[]"]
    by (simp add: executorRequestLayout_def itemFields_def)
qed

lemma executorPaymentOf_requests:
  assumes "xrplSdkLaws sdk" "executorPaymentOf sdk this sender chain q manager messageId = Inr p"
  shows "requestsRelay sdk this sender chain q manager messageId p"
proof -
  note laws = xrplSdkLawsD [OF assms(1)]
  from assms(2) obtain requestBytes refund payload payee where
    r: "executorRequest sdk this messageId = Inr requestBytes" and
    refund: "decodeAccountID (xs_api sdk) sender = Inr refund" and
    payload: "layoutBytes requestForExecutionLayout (executionFields sdk chain manager refund q requestBytes) = Inr payload" and
    payee: "toXrplAddress sdk (toHex (eq_payeeAddress q)) = Inr payee" and
    p: "p = \<lparr>py_Account = sender, py_Destination = payee, py_Amount = Drops (dec_of_int (eq_estimatedCost q)),
          py_Memos = [\<lparr>mm_MemoFormat = Some (toHex (map codeOf ''application/x-executor-request'')),
                        mm_MemoData = Some (toHex payload)\<rparr>]\<rparr>"
    by (auto simp: executorPaymentOf_def laws andThen_eq_Inr)
  have "memoBytes p = payload" by (simp add: p memoBytes_def)
  then show ?thesis
    using executorRequest_read [OF assms(1) r] refund payee requestForExecution_read [OF payload]
    by (auto simp: requestsRelay_def p)
qed

lemma locateTransfer_finds:
  assumes "locateTransfer sdk p sender w = (ys, Inr (l, i), w')"
  shows "ys = []" and "w' = w" and
    "\<exists>transactions entry. xs_account_tx sdk w sender = Inr transactions \<and> entry \<in> set transactions \<and>
       matchesPayment p entry \<and> ledgerPosition entry = Some (l, i)"
proof -
  from assms obtain transactions where t: "xs_account_tx sdk w sender = Inr transactions" and
    f: "(case find (matchesPayment p) transactions of None \<Rightarrow> Inl TransferNotFound
        | Some entry \<Rightarrow> (case ledgerPosition entry of None \<Rightarrow> Inl NoLedgerPosition | Some x \<Rightarrow> Inr x)) = Inr (l, i)" and
    w: "ys = []" "w' = w"
    by (auto simp: locateTransfer_def process_simps)
  then obtain entry where e: "find (matchesPayment p) transactions = Some entry" "ledgerPosition entry = Some (l, i)"
    by (auto split: option.splits)
  show "\<exists>transactions entry. xs_account_tx sdk w sender = Inr transactions \<and> entry \<in> set transactions \<and>
       matchesPayment p entry \<and> ledgerPosition entry = Some (l, i)"
    using t e find_SomeD [OF e(1)] by blast
  show "ys = []" "w' = w" by (rule w)+
qed


section \<open>Which transaction is found\<close>

text \<open>
  The memo of a transfer names its peer, recipient, chain and decimals, and neither its amount nor anything
  that tells two transfers apart: a later transfer to the same recipient is matched by the same
  transactions, whatever the two amounts.
\<close>

theorem memo_does_not_identify_payment:
  assumes "buildNttPayment sdk sender a destination contracts decimals = Inr (p, m)"
    and "buildNttPayment sdk sender b destination contracts decimals = Inr (q, n)"
  shows "py_Memos p = py_Memos q \<and> matchesPayment p = matchesPayment q"
  using assms by (auto simp: buildNttPayment_def andThen_eq_Inr matchesPayment_def split: option.splits)

section \<open>A ledger for the witnesses\<close>

text \<open>The world is the history of one account, newest first; every payment is at position 3 of ledger 90.\<close>

definition exampleEntry :: "payment \<Rightarrow> account_tx" where
  "exampleEntry p = \<lparr>at_tx_json = Some \<lparr>tb_TransactionType = ''Payment'', tb_Destination = py_Destination p,
       tb_Memos = py_Memos p\<rparr>,
     at_tx = None, at_ledger_index = Some 90, at_meta = Some (MetaObject (Some 3))\<rparr>"

definition exampleSdk :: "account_tx list xrpl_sdk" where
  "exampleSdk = \<lparr>xs_api = \<lparr>decodeAccountID = (\<lambda>_. Inr (replicate 20 9)), encodeAccountID = (\<lambda>_. Inr ''rPayee'')\<rparr>,
     xs_isValidClassicAddress = (\<lambda>s. length s < 40), xs_hexDecode = (\<lambda>s. Inr (fromHex s)), xs_hexEncode = toHex,
     xs_serializeLayout = layoutBytes, xs_toChainId = length, xs_toUniversal = (\<lambda>_ _. Inr (replicate 32 5)),
     xs_deliver = (\<lambda>p w. exampleEntry p # w), xs_isConnected = (\<lambda>_. True), xs_connect = (\<lambda>_. Inr ()),
     xs_account_tx = (\<lambda>w _. Inr w)\<rparr>"

definition exampleXrplNtt :: xrpl_ntt where
  "exampleXrplNtt = \<lparr>xn_network = ''Mainnet'', xn_chain = ''Xrpl'',
     xn_contracts = \<lparr>nc_token = ''native'', nc_tokenDecimals = Some 6, nc_manager = ''rManager'', nc_wormhole = '''',
       nc_svmShims = None, nc_eta = None,
       nc_peers = [(''Solana'', \<lparr>pc_manager = ''Mgr'', pc_tokenDecimals = Some 9\<rparr>)]\<rparr>\<rparr>"

definition exampleTo :: "address_object chain_address" where
  "exampleTo = \<lparr>rt_chain = ''Solana'',
     rt_address = \<lparr>ao_toUint8Array = Some (Inr (replicate 32 7)), ao_toUniversalAddress = None\<rparr>\<rparr>"

definition exampleXrplQuote :: "(address_object, bytes) exec_quote" where
  "exampleXrplQuote = \<lparr>eq_signedQuote = [1, 2, 3], eq_relayInstructions = [4], eq_estimatedCost = 250,
     eq_payeeAddress = replicate 32 1, eq_referrer = exampleTo, eq_transferTokenFee = 0, eq_nativeTokenFee = 0,
     eq_remainingAmount = 77, eq_expires = 0, eq_gasDropOff = 0, eq_feeToken = None\<rparr>"

lemma exampleSdk_laws: "xrplSdkLaws exampleSdk"
  by (simp add: xrplSdkLaws_def layoutLaws_def exampleSdk_def)

definition examplePayment :: "int \<Rightarrow> xrpl_error + payment \<times> bytes" where
  "examplePayment amount = buildNttPayment exampleSdk ''rSender'' amount exampleTo (xn_contracts exampleXrplNtt)
     (xrplTokenDecimals exampleXrplNtt)"

lemma examplePayment_built: "\<exists>p. examplePayment amount = Inr (p, replicate 32 5) \<and> py_Memos p \<noteq> [] \<and>
  firstMemoData (py_Memos p) \<noteq> None"
  by (simp add: examplePayment_def buildNttPayment_def exampleXrplNtt_def exampleTo_def exampleSdk_def
      xrplTokenDecimals_def destinationAddressToBytes_def nttTransferLayout_def nttMemoFields_def itemBytes_def
      toXrplAddress_def prepareAmount_def firstMemoData_def thrownP_def)

lemma exampleRequest_made: "\<exists>r. executorPaymentOf exampleSdk exampleXrplNtt ''rSender'' ''Solana'' exampleXrplQuote
  (replicate 32 5) (messageIdOf 90 3) = Inr r"
  by (simp add: executorPaymentOf_def executorRequest_def xrplAddressToUniversalBytes_def exampleXrplNtt_def
      exampleSdk_def exampleXrplQuote_def executorRequestLayout_def requestForExecutionLayout_def executionFields_def
      itemBytes_def toXrplAddress_def messageIdOf_add copyInto_fits thrownP_def)

definition exampleRelayed :: "(payment \<times> string) list \<times> (xrpl_error + unit) \<times> account_tx list" where
  "exampleRelayed = xrplShimTransfer exampleSdk exampleXrplNtt ''rSender'' exampleTo 77 exampleXrplQuote exampleXrplNtt []"

lemma exampleRelayed_returns: "exampleRelayed = (fst exampleRelayed, Inr (), snd (snd exampleRelayed))"
proof -
  obtain p where p: "examplePayment 77 = Inr (p, replicate 32 5)" "firstMemoData (py_Memos p) \<noteq> None"
    using examplePayment_built by blast
  obtain r where r: "executorPaymentOf exampleSdk exampleXrplNtt ''rSender'' ''Solana'' exampleXrplQuote
      (replicate 32 5) (messageIdOf 90 3) = Inr r"
    using exampleRequest_made by blast
  have "matchesPayment p (exampleEntry p)" "ledgerPosition (exampleEntry p) = Some (90, 3)"
    using p(2) by (simp_all add: matchesPayment_def exampleEntry_def txBody_def isMetaText_def ledgerPosition_def Let_def)
  moreover have "xs_deliver exampleSdk p [] = [exampleEntry p]" "xs_isConnected exampleSdk w"
    "xs_account_tx exampleSdk w s = Inr w" for w s
    by (simp_all add: exampleSdk_def)
  ultimately have l: "locateTransfer exampleSdk p ''rSender'' [exampleEntry p] = ([], Inr (90, 3), [exampleEntry p])"
    by (simp add: locateTransfer_def process_simps)
  have "rt_chain exampleTo = ''Solana''" by (simp add: exampleTo_def)
  then have "\<exists>ys w'. exampleRelayed = (ys, Inr (), w')"
    using p(1) l r \<open>xs_deliver exampleSdk p [] = [exampleEntry p]\<close>
    by (simp add: exampleRelayed_def xrplShimTransfer_def process_simps deliverPayment_def examplePayment_def)
  then show ?thesis by (metis fst_conv snd_conv)
qed


lemma memo_does_not_identify_payment_witness:
  "\<exists>p q m n. examplePayment 1 = Inr (p, m) \<and> examplePayment 2 = Inr (q, n) \<and>
     py_Amount p \<noteq> py_Amount q \<and> matchesPayment p = matchesPayment q"
proof -
  obtain p q where p: "examplePayment 1 = Inr (p, replicate 32 5)" "examplePayment 2 = Inr (q, replicate 32 5)"
    using examplePayment_built by blast
  have "py_Amount p = Drops (dec_of_int 1)" "py_Amount q = Drops (dec_of_int 2)"
    using p by (auto simp: examplePayment_def buildNttPayment_def prepareAmount_def exampleXrplNtt_def andThen_eq_Inr
        split: option.splits)
  then have "py_Amount p \<noteq> py_Amount q" by (simp add: dec_of_int_nonneg dec_of_nat_inj)
  with p memo_does_not_identify_payment [OF p [unfolded examplePayment_def]] show ?thesis by blast
qed

end
