(* ===== verification/Route_Manual.thy ===== *)
theory Route_Manual
  imports Route_Executor
begin

text \<open>
  The manual route, \<open>sdk/route/src/manual.ts\<close>: nobody relays, the user redeems the transfer at its
  destination. The parameters are those of the executor route; \<open>send\<close> signs and sends the
  transactions of a call and gives their ids.
\<close>

section \<open>Definitions\<close>

record manual_options =
  mo_automatic :: bool
  mo_skipDstRateLimitCheck :: bool

record transfer_options =
  to_queue :: bool
  to_automatic :: bool
  to_wrapNative :: bool

record 'm manual_params =
  ma_amount :: string
  ma_trimmedAmount :: 'm
  ma_sourceContracts :: ntt_contracts
  ma_destinationContracts :: ntt_contracts
  ma_transferOptions :: transfer_options
  ma_options :: manual_options

definition ManualOptions :: manual_options where
  "ManualOptions = \<lparr>mo_automatic = False, mo_skipDstRateLimitCheck = False\<rparr>"

definition manualValidate :: "('a, 'm, 'u, 'q) exec_api \<Rightarrow> route_config \<Rightarrow> 'a transfer_request \<Rightarrow> string
    \<Rightarrow> manual_options option \<Rightarrow> exec_error + 'm manual_params" where
  "manualValidate api config request amountText opts =
     (let options = (case opts of None \<Rightarrow> ManualOptions | Some o1 \<Rightarrow> o1) in
      andThen (thrownX (ea_parse api amountText (rq_sourceDecimals request))) (\<lambda>parsedAmount.
      let trimmedAmount = trimAmount (ea_amounts api) parsedAmount (rq_destinationDecimals request);
          wrapNative = isNative (ea_sdk api) (rt_address (rq_source request)) in
      andThen (routeX (resolveNttContracts (ea_sdk api) config (rq_source request) (rq_destination request)))
        (\<lambda>(srcContracts, dstContracts).
      Inr \<lparr>ma_amount = amountText, ma_trimmedAmount = trimmedAmount,
        ma_sourceContracts = srcContracts, ma_destinationContracts = dstContracts,
        ma_transferOptions = \<lparr>to_queue = False, to_automatic = False, to_wrapNative = wrapNative\<rparr>,
        ma_options = options\<rparr>)))"

record ('a, 'm) manual_quote =
  mq_params :: "'m manual_params"
  mq_sourceToken :: "'a route_token \<times> 'm"
  mq_destinationToken :: "'a route_token \<times> 'm"
  mq_eta :: rat
  mq_delay :: "int option"

definition manualQuote :: "('a, 'm, 'u, 'q) exec_api \<Rightarrow> 'a transfer_request \<Rightarrow> 'm manual_params
    \<Rightarrow> exec_error + ('a, 'm) manual_quote" where
  "manualQuote api request params =
     (let dstAmount = ea_scale api (ma_trimmedAmount params) (rq_destinationDecimals request) in
      andThen (if mo_skipDstRateLimitCheck (ma_options params) then Inr None
               else rateLimitDelay api (ma_destinationContracts params) (rq_fromChain request) dstAmount) (\<lambda>delay.
      Inr \<lparr>mq_params = params, mq_sourceToken = (rq_source request, ma_trimmedAmount params),
        mq_destinationToken = (rq_destination request, dstAmount),
        mq_eta = (case nc_eta (ma_sourceContracts params) of Some e \<Rightarrow> e | None \<Rightarrow> ea_defaultEta api (rq_fromChain request)),
        mq_delay = delay\<rparr>))"

record 'a manual_transfer =
  mt_sender :: "'a chain_address"
  mt_amount :: int
  mt_destination :: "'a chain_address"
  mt_options :: transfer_options
  mt_contracts :: ntt_contracts

definition manualInitiate :: "('a, 'm, 'u, 'q) exec_api \<Rightarrow> ('a manual_transfer \<Rightarrow> string + string list)
    \<Rightarrow> 'a transfer_request \<Rightarrow> 'a chain_address \<Rightarrow> ('a, 'm) manual_quote \<Rightarrow> 'a chain_address
    \<Rightarrow> exec_error + ('v, 'm manual_params) exec_receipt" where
  "manualInitiate api send request sender q dst =
     (let params = mq_params q in
      andThen (thrownX (send \<lparr>mt_sender = sender, mt_amount = amountUnits (ea_amounts api) (ma_trimmedAmount params),
        mt_destination = dst, mt_options = ma_transferOptions params, mt_contracts = ma_sourceContracts params\<rparr>)) (\<lambda>txids.
      Inr \<lparr>rc_from = rq_fromChain request, rc_to = rt_chain dst, rc_state = SourceInitiated,
           rc_originTxs = txids, rc_attestation = None, rc_error = None, rc_queueReleaseTime = None,
           rc_destinationTxs = None, xr_params = params\<rparr>))"

text \<open>A call at the destination: redeeming a VAA, or completing a queued transfer.\<close>

record ('a, 'v) destination_call =
  dc_chain :: string
  dc_contracts :: ntt_contracts
  dc_vaa :: 'v
  dc_sender :: "'a chain_address"

definition callFor :: "'a chain_address \<Rightarrow> ('v, 'm manual_params) exec_receipt \<Rightarrow> 'v \<Rightarrow> ('a, 'v) destination_call" where
  "callFor sender r vaa =
     \<lparr>dc_chain = rc_to r, dc_contracts = ma_destinationContracts (xr_params r), dc_vaa = vaa, dc_sender = sender\<rparr>"

definition manualComplete :: "state_tests \<Rightarrow> (('a, 'v) destination_call \<Rightarrow> string + string list) \<Rightarrow> 'a chain_address
    \<Rightarrow> ('v, 'm manual_params) exec_receipt \<Rightarrow> track_error + ('v, 'm manual_params) exec_receipt" where
  "manualComplete T redeem sender r =
     (if \<not> isAttested T (rc_state r)
      then (if isRedeemed T (rc_state r) then Inr r else Inl NotFinalized)
      else (case rc_attestation r of
              None \<Rightarrow> Inl NoAttestation
            | Some vaa \<Rightarrow>
                (case redeem (callFor sender r vaa) of
                   Inl e \<Rightarrow> Inl (TrackThrown e)
                 | Inr txids \<Rightarrow> Inr (r\<lparr>rc_state := DestinationInitiated, rc_destinationTxs := Some txids\<rparr>))))"

definition manualFinalize :: "state_tests \<Rightarrow> (('a, 'v) destination_call \<Rightarrow> string + string list) \<Rightarrow> 'a chain_address
    \<Rightarrow> ('v, 'm manual_params) exec_receipt \<Rightarrow> track_error + ('v, 'm manual_params) exec_receipt" where
  "manualFinalize T completeQueued sender r =
     (if \<not> isDestinationQueued T (rc_state r) then Inl NotQueued
      else (case rc_attestation r of
              None \<Rightarrow> Inl NoAttestation
            | Some vaa \<Rightarrow>
                (case completeQueued (callFor sender r vaa) of
                   Inl e \<Rightarrow> Inl (TrackThrown e)
                 | Inr txids \<Rightarrow> Inr (r\<lparr>rc_state := DestinationFinalized,
                     rc_destinationTxs := Some (case rc_destinationTxs r of None \<Rightarrow> txids | Some old \<Rightarrow> old @ txids)\<rparr>))))"

definition manualResume :: "('a, 'm, 'u, 'q) exec_api \<Rightarrow> route_config \<Rightarrow> (string \<Rightarrow> string + 'a vaa_transfer option)
    \<Rightarrow> string \<Rightarrow> exec_error + ('a vaa_transfer, 'm manual_params) exec_receipt" where
  "manualResume api config getVaa txid =
     andThen (thrownX (getVaa txid)) (\<lambda>found.
     case found of
       None \<Rightarrow> Inl (NoVaaFor txid)
     | Some vaa \<Rightarrow>
         (let canonical = (\<lambda>a. canonicalToken (ea_sdk api) \<lparr>rt_chain = vt_emitterChain vaa, rt_address = a\<rparr>);
              token = canonical (vt_sourceToken vaa);
              manager = canonical (vt_sourceManager vaa);
              whTransceiver = (if ea_platform api (vt_emitterChain vaa) = ''Solana'' then manager
                else canonical (vt_emitterAddress vaa)) in
          andThen (routeX (resolveDestinationNttContracts config manager (vt_emitterChain vaa) (vt_recipientChain vaa)))
            (\<lambda>dstInfo.
          let amt = fromBaseUnits (ea_amounts api) (vt_amount vaa) (vt_decimals vaa) in
          Inr \<lparr>rc_from = vt_emitterChain vaa, rc_to = vt_recipientChain vaa, rc_state = Attested,
            rc_originTxs = [txid], rc_attestation = Some vaa, rc_error = None, rc_queueReleaseTime = None,
            rc_destinationTxs = None,
            xr_params = \<lparr>ma_amount = ea_display api amt, ma_trimmedAmount = amt,
              ma_sourceContracts = bareContracts token manager whTransceiver,
              ma_destinationContracts = bareContracts (nc_token dstInfo) (nc_manager dstInfo) (nc_wormhole dstInfo),
              ma_transferOptions = \<lparr>to_queue = False, to_automatic = False, to_wrapNative = False\<rparr>,
              ma_options = ManualOptions\<rparr>\<rparr>)))"

text \<open>The stages of \<open>track\<close>; the last one is the code of the executor route.\<close>

definition manualAttestStage :: "state_tests \<Rightarrow> ('n, 'v) track_env \<Rightarrow> 'v receipt \<Rightarrow> ('v receipt, 'v receipt) run" where
  "manualAttestStage T env r =
     (if isSourceInitiated T (rc_state r) \<or> isSourceFinalized T (rc_state r)
      then (if rc_originTxs r = [] then silent (Inl NoOriginTx)
            else (let txid = last (rc_originTxs r) in
              yielding (asking (te_getVaa env txid)) (\<lambda>vaa.
              case vaa of
                None \<Rightarrow> silent (Inl (NoVaa txid))
              | Some v \<Rightarrow> emit (r\<lparr>rc_state := Attested, rc_attestation := Some v\<rparr>))))
      else silent (Inr r))"

definition manualApprovedStage :: "state_tests \<Rightarrow> ('n, 'v) track_env \<Rightarrow> 'n \<Rightarrow> 'v receipt
    \<Rightarrow> ('v receipt, 'v receipt) run" where
  "manualApprovedStage T env ntt r =
     (if isAttested T (rc_state r)
      then (case rc_attestation r of
              None \<Rightarrow> silent (Inl NoAttestation)
            | Some vaa \<Rightarrow>
                yielding (asking (te_isApproved env ntt vaa)) (\<lambda>approved.
                if approved then emit (r\<lparr>rc_state := DestinationInitiated\<rparr>) else silent (Inr r)))
      else silent (Inr r))"

definition manualTrack :: "state_tests \<Rightarrow> ('n, 'v) track_env \<Rightarrow> 'v receipt \<Rightarrow> ('v receipt, 'v receipt) run" where
  "manualTrack T env receipt =
     yielding (manualAttestStage T env receipt) (\<lambda>r.
     yielding (asking (te_destination env (rc_to r))) (\<lambda>ntt.
     yielding (manualApprovedStage T env ntt r) (\<lambda>r.
     yielding (redeemStage T env ntt r) emit)))"

section \<open>Tracking\<close>

lemma manualAttestStage_follows:
  assumes "testsByName T" "rc_state r = rc_state r0" "justified env r0 r"
  shows "follows (justified env r0) r (manualAttestStage T env r)"
  using assms
  by (auto simp: manualAttestStage_def Let_def testsByName_def justified_def list_ex_iff intro!: follows_intros
      split: option.split; metis last_in_set)

lemma manualApprovedStage_follows:
  assumes "testsByName T" "justified env r0 r" "te_destination env (rc_to r0) = Inr ntt"
  shows "follows (justified env r0) r (manualApprovedStage T env ntt r)"
  using assms
  by (auto simp: manualApprovedStage_def testsByName_def justified_def answered_def
      intro!: follows_intros split: option.split)

text \<open>The receipts of the manual tracker have the same reasons as those of the executor's.\<close>

lemma manualTrack_truthful:
  assumes "testsByName T"
  shows "follows (justified env r0) r0 (manualTrack T env r0)"
  unfolding manualTrack_def
proof (rule follows_yielding [OF manualAttestStage_follows], goal_cases)
  case (4 r)
  show ?case
  proof (rule follows_asking)
    fix ntt assume "te_destination env (rc_to r) = Inr ntt"
    with 4 have "te_destination env (rc_to r0) = Inr ntt" by (simp add: justified_def)
    then show "follows (justified env r0) r (yielding (manualApprovedStage T env ntt r)
        (\<lambda>r. yielding (redeemStage T env ntt r) emit))"
      using assms 4
      by (intro follows_yielding manualApprovedStage_follows redeemStage_follows follows_emit) auto
  qed
qed (use assms in \<open>auto simp: justified_def\<close>)

text \<open>
  Away from XRPL and without relay news, the two trackers agree: the executor's reads the status of the
  relay and goes on as the manual one.
\<close>

lemma track_manualTrack:
  fixes env :: "('n, 'v) track_env" and r0 :: "'v receipt"
  assumes "testsByName T" "rc_state r0 \<noteq> Failed" "te_platform env (rc_from r0) \<noteq> ''Xrpl''"
    "te_platform env (rc_to r0) \<noteq> ''Xrpl''"
    "rc_originTxs r0 \<noteq> []"
    "fetchStatus (te_relays env) (last (rc_originTxs r0)) (rc_from r0) = Inr (Some s)" "\<not> isRelayStatusFailed s"
  shows "track T env r0 = manualTrack T env r0"
proof -
  have pass: "relayStage T env r = silent (Inr r) \<and> approvedStage T env n r = manualApprovedStage T env n r"
    if "rc_state r \<noteq> Failed" "rc_from r = rc_from r0" "rc_to r = rc_to r0" "rc_originTxs r = rc_originTxs r0" for r n
    using assms that by (auto simp: relayStage_def approvedStage_def manualApprovedStage_def testsByName_def)
  have attest: "attestStage T env r0 = manualAttestStage T env r0"
    using assms(3) by (simp add: attestStage_def manualAttestStage_def)
  have "every (\<lambda>_. True) (manualAttestStage T env r0) (\<lambda>r. rc_state r \<noteq> Failed \<and>
      rc_from r = rc_from r0 \<and> rc_to r = rc_to r0 \<and> rc_originTxs r = rc_originTxs r0)"
    using assms(2)
    by (auto simp: manualAttestStage_def Let_def intro!: every_silent every_asking every_emit split: option.split)
  then have "yielding (manualAttestStage T env r0) (\<lambda>r. yielding (asking (te_destination env (rc_to r))) (\<lambda>ntt.
        yielding (relayStage T env r) (\<lambda>r. yielding (approvedStage T env ntt r)
          (\<lambda>r. yielding (redeemStage T env ntt r) emit)))) =
      yielding (manualAttestStage T env r0) (\<lambda>r. yielding (asking (te_destination env (rc_to r))) (\<lambda>ntt.
        yielding (manualApprovedStage T env ntt r) (\<lambda>r. yielding (redeemStage T env ntt r) emit)))"
  proof (rule yielding_cong)
    fix r :: "'v receipt" assume "rc_state r \<noteq> Failed \<and> rc_from r = rc_from r0 \<and> rc_to r = rc_to r0 \<and> rc_originTxs r = rc_originTxs r0"
    then show "yielding (asking (te_destination env (rc_to r))) (\<lambda>ntt. yielding (relayStage T env r)
          (\<lambda>r. yielding (approvedStage T env ntt r) (\<lambda>r. yielding (redeemStage T env ntt r) emit))) =
        yielding (asking (te_destination env (rc_to r))) (\<lambda>ntt. yielding (manualApprovedStage T env ntt r)
          (\<lambda>r. yielding (redeemStage T env ntt r) emit))"
      by (intro yielding_cong [OF every_asking_True]) (simp add: pass)
  qed
  then show ?thesis by (simp add: track_def manualTrack_def attest)
qed

section \<open>Resuming and redeeming\<close>

text \<open>
  The configuration lists, beside the entry of the given manager, one for the other chain with these
  contracts.
\<close>

definition configuredPeer :: "route_config \<Rightarrow> string \<Rightarrow> string \<Rightarrow> string \<Rightarrow> ntt_contracts \<Rightarrow> bool" where
  "configuredPeer config manager srcChain dstChain contracts \<longleftrightarrow>
     list_ex (\<lambda>(_, tokens).
       list_ex (\<lambda>tc. toLowerCase (tk_manager tc) = toLowerCase manager \<and> tk_chain tc = srcChain) tokens \<and>
       list_ex (\<lambda>tc. tk_chain tc = dstChain \<and> nc_manager contracts = tk_manager tc \<and>
         wormholeAddress tc = Inr (nc_wormhole contracts)) tokens) config"

lemma resolveManagers_configured:
  "resolveManagers m c d groups = Inr contracts \<Longrightarrow>
   \<exists>tokens \<in> set groups.
     list_ex (\<lambda>tc. toLowerCase (tk_manager tc) = toLowerCase m \<and> tk_chain tc = c) tokens \<and>
     list_ex (\<lambda>tc. tk_chain tc = d \<and> nc_manager contracts = tk_manager tc \<and>
       wormholeAddress tc = Inr (nc_wormhole contracts)) tokens"
proof (induction groups)
  case (Cons tokens groups)
  show ?case
  proof (cases "find (\<lambda>tc. toLowerCase (tk_manager tc) = toLowerCase m \<and> tk_chain tc = c) tokens")
    case None
    with Cons show ?thesis by auto
  next
    case (Some found)
    with Cons.prems obtain remote where r: "find (onChain d) tokens = Some remote"
      "nc_manager contracts = tk_manager remote" "wormholeAddress remote = Inr (nc_wormhole contracts)"
      by (auto simp: contractsOf_def andThen_eq_Inr split: option.splits)
    then show ?thesis
      using find_SomeD [OF Some] find_SomeD [OF r(1)] by (auto simp: list_ex_iff onChain_def)
  qed
qed simp

text \<open>
  C29. A transfer resumed from its transaction can be redeemed: \<open>complete\<close> makes one call, for the VAA that
  was found, on the chain the VAA names as the recipient's, at contracts the configuration lists there
  as the peer of the manager that sent the transfer; the transfer is then shown as redeemed.
\<close>

theorem resumed_transfer_redeems_at_peer:
  assumes "testsByName T" "manualResume api config getVaa txid = Inr r"
  shows "\<exists>vaa. getVaa txid = Inr (Some vaa) \<and>
    manualComplete T redeem sender r =
      (case redeem (callFor sender r vaa) of
         Inl e \<Rightarrow> Inl (TrackThrown e)
       | Inr txids \<Rightarrow> Inr (r\<lparr>rc_state := DestinationInitiated, rc_destinationTxs := Some txids\<rparr>)) \<and>
    dc_chain (callFor sender r vaa) = vt_recipientChain vaa \<and>
    configuredPeer config
      (canonicalToken (ea_sdk api) \<lparr>rt_chain = vt_emitterChain vaa, rt_address = vt_sourceManager vaa\<rparr>)
      (vt_emitterChain vaa) (vt_recipientChain vaa) (dc_contracts (callFor sender r vaa))"
proof -
  obtain vaa d where v: "getVaa txid = Inr (Some vaa)"
    and d: "resolveDestinationNttContracts config
        (canonicalToken (ea_sdk api) \<lparr>rt_chain = vt_emitterChain vaa, rt_address = vt_sourceManager vaa\<rparr>)
        (vt_emitterChain vaa) (vt_recipientChain vaa) = Inr d"
    and r: "rc_to r = vt_recipientChain vaa" "rc_state r = Attested" "rc_attestation r = Some vaa"
      "ma_destinationContracts (xr_params r) = bareContracts (nc_token d) (nc_manager d) (nc_wormhole d)"
    using assms(2) by (auto simp: manualResume_def andThen_eq_Inr Let_def split: option.splits)
  obtain tokens where "tokens \<in> set (map snd config)"
    "list_ex (\<lambda>tc. toLowerCase (tk_manager tc) = toLowerCase (canonicalToken (ea_sdk api)
       \<lparr>rt_chain = vt_emitterChain vaa, rt_address = vt_sourceManager vaa\<rparr>) \<and> tk_chain tc = vt_emitterChain vaa) tokens"
    "list_ex (\<lambda>tc. tk_chain tc = vt_recipientChain vaa \<and> nc_manager d = tk_manager tc \<and>
       wormholeAddress tc = Inr (nc_wormhole d)) tokens"
    using resolveManagers_configured [OF d [unfolded resolveDestinationNttContracts_def]] by blast
  then have "configuredPeer config
      (canonicalToken (ea_sdk api) \<lparr>rt_chain = vt_emitterChain vaa, rt_address = vt_sourceManager vaa\<rparr>)
      (vt_emitterChain vaa) (vt_recipientChain vaa) (bareContracts (nc_token d) (nc_manager d) (nc_wormhole d))"
    unfolding configuredPeer_def list_ex_iff [of _ config] by (force simp: bareContracts_def)
  then show ?thesis
    using v r assms(1) by (simp add: manualComplete_def testsByName_def callFor_def)
qed

definition exampleVaa :: "string option vaa_transfer" where
  "exampleVaa = \<lparr>vt_emitterChain = ''Ethereum'', vt_emitterAddress = Some ''t'', vt_recipientChain = ''Base'',
     vt_amount = 5000, vt_decimals = 3, vt_sourceToken = Some ''0xAb'', vt_sourceManager = Some ''M0XAB''\<rparr>"

lemma resumed_transfer_redeems_at_peer_witness:
  "\<exists>r. manualResume exampleExecutor exampleRoutes (\<lambda>t. Inr (Some exampleVaa)) ''tx'' = Inr r \<and>
     configuredPeer exampleRoutes ''M0XAB'' ''Ethereum'' ''Base'' (dc_contracts (callFor bob r exampleVaa)) \<and>
     dc_chain (callFor bob r exampleVaa) = ''Base''"
proof -
  have low: "toLowerCase ''M0XAB'' = toLowerCase ''m0xAb''" by code_simp
  obtain r where r: "manualResume exampleExecutor exampleRoutes (\<lambda>t. Inr (Some exampleVaa)) ''tx'' = Inr r"
    by (simp add: Let_def manualResume_def thrownX_def routeX_def resolveDestinationNttContracts_def contractsOf_def
        wormholeAddress_def peerOf_def onChain_def exampleVaa_def low example_executor)
  have "canonicalToken (ea_sdk exampleExecutor) \<lparr>rt_chain = ''Ethereum'', rt_address = Some ''M0XAB''\<rparr> = ''M0XAB''"
    by (simp add: exampleExecutor_def textSdk_def)
  then show ?thesis
    using resumed_transfer_redeems_at_peer [OF sdkTests_ok r, of "\<lambda>c. Inr []" bob] r
    by (auto simp: exampleVaa_def)
qed

end
