(* ===== verification/Evm_Tx.thy ===== *)
theory Evm_Tx
  imports Js_Generators Js_Numbers Ntt_Definitions
begin

text \<open>
  What the protocols of \<open>evm/ts\<close> share: the transactions they yield, the chain they read, and the
  approval of a token. The call data of a transaction, which \<open>ethers\<close> encodes, is kept as the function
  that is called with its arguments. The world \<open>'w\<close> is the state of the chain; what \<open>ethers\<close> and the
  Wormhole SDK read from it or compute is a field of \<open>evm_env\<close>.
\<close>

section \<open>Transactions\<close>

record executor_args =
  xa_value :: int
  xa_feeToken :: "(int \<times> string) option"
  xa_refundAddress :: string
  xa_signedQuote :: bytes
  xa_instructions :: bytes

record fee_args =
  fa_transferTokenFee :: int
  fa_nativeTokenFee :: int
  fa_payee :: string

record shim_args =
  sh_nttManager :: string
  sh_amount :: int
  sh_recipientChain :: nat
  sh_recipient :: bytes
  sh_refundAddress :: bytes
  sh_encodedInstructions :: bytes
  sh_executorArgs :: executor_args
  sh_feeArgs :: fee_args

record multi_transfer_args =
  mt_amount :: int
  mt_recipientChain :: nat
  mt_recipient :: bytes
  mt_refundAddress :: bytes
  mt_shouldQueue :: bool
  mt_instructions :: bytes
  mt_additionalPayload :: bytes

record dbps_args =
  da_multiTokenNtt :: string
  da_token :: "string option"
  da_amount :: int
  da_recipientChain :: nat
  da_recipient :: bytes
  da_refundAddress :: bytes
  da_instructions :: bytes
  da_executorArgs :: executor_args
  da_dbps :: int
  da_payee :: string

record queued_transfer_struct =
  qs_amount :: int
  qs_name :: bytes
  qs_symbol :: bytes
  qs_decimals :: nat
  qs_chainId :: nat
  qs_tokenAddress :: string
  qs_sender :: string
  qs_to :: string
  qs_additionalPayload :: bytes

datatype evm_call =
    Approve string int
  | Deposit
  | NttTransfer int nat bytes bytes bool bytes
  | Pause | Unpause
  | TransferOwnership string
  | TransferPauserCapability string
  | SetThreshold int
  | SetPeer nat bytes int int
  | SetOutboundLimit int
  | SetInboundLimit int nat
  | CompleteInboundQueuedTransfer bytes
  | SetWormholePeer nat bytes
  | SetIsWormholeEvmChain nat bool
  | ReceiveMessage bytes
  | ShimTransfer shim_args
  | ShimTransferETH shim_args
  | MultiTransfer string multi_transfer_args
  | WrapAndTransferGasToken multi_transfer_args
  | CompleteMultiQueuedTransfer bytes queued_transfer_struct
  | DbpsTransfer dbps_args
  | DbpsTransferETH dbps_args

record evm_tx =
  tx_to :: string
  tx_call :: evm_call
  tx_value :: int
  tx_from :: "string option"
  tx_chainId :: nat
  tx_description :: string

datatype evm_error =
    EvmThrown string
  | NoNttContracts
  | EvmAbi abi_error
  | UnsupportedTransceiverType string
  | EvmNetworkMismatch
  | TransceiverNotFound
  | EvmInstructions ix_error
  | AttestationCount
  | InvalidAttestationType
  | ReadUndefined string
  | NotSupportedByAbi string
  | NoExecutorWithToken string
  | NoExecutorAddress string
  | UnsupportedTransceiverAt string int
  | NoWormholeXcvr
  | NoMultiManager
  | NoMultiExecutor
  | VersionMissing
  | AmountNotTrimmed amount_error

section \<open>The chain\<close>

text \<open>
  \<open>ev_deliver\<close> is what a transaction does to the world once the signer has sent it, \<open>ev_rejects\<close> the
  error \<open>ethers\<close> throws for arguments that do not encode. \<open>ev_allowance\<close> is asked for a token, an owner
  and a spender.
\<close>

record ('w, 'a) evm_env =
  ev_deliver :: "evm_tx \<Rightarrow> 'w \<Rightarrow> 'w"
  ev_rejects :: "evm_call \<Rightarrow> string option"
  ev_toChainId :: "string \<Rightarrow> nat"
  ev_address :: "'a \<Rightarrow> string + string"
  ev_text :: "'a \<Rightarrow> string"
  ev_universal :: "'a \<Rightarrow> string + bytes"
  ev_serializeIx :: "transceiver_ix \<Rightarrow> ix_error + bytes"
  ev_allowance :: "'w \<Rightarrow> string \<Rightarrow> string \<Rightarrow> string \<Rightarrow> string + int"

definition thrownE :: "string + 'a \<Rightarrow> evm_error + 'a" where
  "thrownE x = (case x of Inl e \<Rightarrow> Inl (EvmThrown e) | Inr v \<Rightarrow> Inr v)"

lemma thrownE_eq_Inr [simp, process_simps]: "thrownE x = Inr v \<longleftrightarrow> x = Inr v"
  by (auto simp: thrownE_def split: sum.splits)

definition populate :: "('w, 'a) evm_env \<Rightarrow> evm_call \<Rightarrow> ('w, evm_tx, evm_error, evm_call) process" where
  "populate env call =
     returning (case ev_rejects env call of Some e \<Rightarrow> Inl (EvmThrown e) | None \<Rightarrow> Inr call)"

lemma populate_eq_Inr [process_simps]:
  "populate env call w = (ys, Inr c, w') \<longleftrightarrow> ev_rejects env call = None \<and> c = call \<and> ys = [] \<and> w' = w"
  by (auto simp: populate_def returning_eq_Inr split: option.splits)

lemma delivers_populate [delivery_intros]: "delivers deliver (populate env call)"
  by (simp add: populate_def delivers_returning)

definition encodeInstructions :: "('w, 'a) evm_env \<Rightarrow> transceiver_ix list \<Rightarrow> evm_error + bytes" where
  "encodeInstructions env ixs =
     (case encodeTransceiverInstructions (ev_serializeIx env) ixs of
        Inl e \<Rightarrow> Inl (EvmInstructions e) | Inr b \<Rightarrow> Inr b)"

lemma encodeInstructions_eq_Inr [process_simps]:
  "encodeInstructions env ixs = Inr b \<longleftrightarrow> encodeTransceiverInstructions (ev_serializeIx env) ixs = Inr b"
  by (auto simp: encodeInstructions_def split: sum.splits)

section \<open>Approvals\<close>

text \<open>
  Every transfer reads the allowance of the contract it will call and asks for an approval of the
  amount when it is too small. The protocols differ in whether they set the sender of the approval.
\<close>

definition approval :: "('w, 'a) evm_env \<Rightarrow> nat \<Rightarrow> string option \<Rightarrow> string \<Rightarrow> string \<Rightarrow> string \<Rightarrow> string
    \<Rightarrow> int \<Rightarrow> ('w, evm_tx, evm_error, unit) process" where
  "approval env chainId from description token owner spender amount =
     proceed (reading (\<lambda>w. thrownE (ev_allowance env w token owner spender))) (\<lambda>allowance.
     if allowance < amount
     then proceed (populate env (Approve spender amount)) (\<lambda>call.
            sending (ev_deliver env)
              \<lparr>tx_to = token, tx_call = call, tx_value = 0, tx_from = from, tx_chainId = chainId,
               tx_description = description\<rparr>)
     else returning (Inr ()))"

lemma delivers_approval [delivery_intros]:
  "delivers (ev_deliver env) (approval env chainId from description token owner spender amount)"
  unfolding approval_def by (intro delivery_intros)

text \<open>
  The behaviour of a token contract of the standard ERC-20, for transactions the signer sends: an
  approval sets the allowance of the spender it names and no other. Addresses that differ in case only
  are the same address.
\<close>

definition sameAddress :: "string \<Rightarrow> string \<Rightarrow> bool" where
  "sameAddress a b \<longleftrightarrow> toLowerCase a = toLowerCase b"

definition erc20Laws :: "('w, 'a) evm_env \<Rightarrow> string \<Rightarrow> bool" where
  "erc20Laws env signer \<longleftrightarrow>
     (\<forall>w t t' s. sameAddress t t' \<longrightarrow> ev_allowance env w t signer s = ev_allowance env w t' signer s) \<and>
     (\<forall>w tx s n. tx_call tx = Approve s n \<longrightarrow>
        ev_allowance env (ev_deliver env tx w) (tx_to tx) signer s = Inr n \<and>
        (\<forall>t s'. \<not> sameAddress t (tx_to tx) \<longrightarrow>
           ev_allowance env (ev_deliver env tx w) t signer s' = ev_allowance env w t signer s'))"

definition allowed :: "('w, 'a) evm_env \<Rightarrow> 'w \<Rightarrow> string \<Rightarrow> string \<Rightarrow> string \<Rightarrow> int \<Rightarrow> bool" where
  "allowed env w token owner spender amount \<longleftrightarrow>
     (\<exists>n. ev_allowance env w token owner spender = Inr n \<and> amount \<le> n)"

lemma allowed_cong: "erc20Laws env signer \<Longrightarrow> sameAddress t t' \<Longrightarrow>
  allowed env w t signer s n \<Longrightarrow> allowed env w t' signer s n"
  unfolding allowed_def erc20Laws_def by metis

lemma erc20_approve:
  assumes "erc20Laws env signer" "tx_call tx = Approve s n"
  shows "ev_allowance env (ev_deliver env tx w) (tx_to tx) signer s = Inr n"
    and "\<not> sameAddress t (tx_to tx) \<Longrightarrow>
      ev_allowance env (ev_deliver env tx w) t signer s' = ev_allowance env w t signer s'"
  using assms unfolding erc20Laws_def by blast+

text \<open>An approval that returns leaves enough allowance, and other tokens as they were.\<close>

lemma approval_covers:
  assumes laws: "erc20Laws env signer"
    and run: "approval env chainId from description token signer spender amount w = (ys, Inr u, w')"
  shows "allowed env w' token signer spender amount"
    and "\<not> sameAddress t token \<Longrightarrow> ev_allowance env w' t signer s = ev_allowance env w t signer s"
    and "ys = [] \<or> (\<exists>tx. ys = [tx] \<and> tx_call tx = Approve spender amount \<and> tx_to tx = token \<and> tx_value tx = 0)"
proof -
  from run have *: "allowed env w' token signer spender amount \<and>
      (\<not> sameAddress t token \<longrightarrow> ev_allowance env w' t signer s = ev_allowance env w t signer s) \<and>
      (ys = [] \<or> (\<exists>tx. ys = [tx] \<and> tx_call tx = Approve spender amount \<and> tx_to tx = token \<and> tx_value tx = 0))"
    using erc20_approve [OF laws, where tx = "\<lparr>tx_to = token, tx_call = Approve spender amount, tx_value = 0, tx_from = from,
      tx_chainId = chainId, tx_description = description\<rparr>" and s = spender and n = amount and w = w]
    by (auto simp: approval_def process_simps allowed_def not_less split: if_splits)
  then show "allowed env w' token signer spender amount"
    "\<not> sameAddress t token \<Longrightarrow> ev_allowance env w' t signer s = ev_allowance env w t signer s"
    "ys = [] \<or> (\<exists>tx. ys = [tx] \<and> tx_call tx = Approve spender amount \<and> tx_to tx = token \<and> tx_value tx = 0)"
    by blast+
qed

section \<open>An allowance ledger\<close>

text \<open>
  A chain for the witnesses: the world is the allowances of one owner, by token and spender, and
  everything else a transaction does is left out.
\<close>

type_synonym ledger = "string \<Rightarrow> string \<Rightarrow> int"

definition ledgerDeliver :: "evm_tx \<Rightarrow> ledger \<Rightarrow> ledger" where
  "ledgerDeliver tx w =
     (case tx_call tx of
        Approve spender amount \<Rightarrow> w(toLowerCase (tx_to tx) := (w (toLowerCase (tx_to tx)))(spender := amount))
      | _ \<Rightarrow> w)"

definition ledgerEnv :: "('a \<Rightarrow> string) \<Rightarrow> (ledger, 'a) evm_env" where
  "ledgerEnv text = \<lparr>ev_deliver = ledgerDeliver, ev_rejects = (\<lambda>_. None), ev_toChainId = length,
     ev_address = (\<lambda>a. Inr (text a)), ev_text = text, ev_universal = (\<lambda>a. Inr (replicate 32 7)),
     ev_serializeIx = (\<lambda>ix. Inr (word_of_int (ix_index ix) # word_of_nat (length (ix_payload ix)) # ix_payload ix)),
     ev_allowance = (\<lambda>w t _ s. Inr (w (toLowerCase t) s))\<rparr>"

lemma ledgerEnv_simps [simp]:
  "ev_address (ledgerEnv text) a = Inr (text a)" "ev_deliver (ledgerEnv text) = ledgerDeliver"
  "ev_rejects (ledgerEnv text) c = None" "ev_universal (ledgerEnv text) a = Inr (replicate 32 7)"
  "ev_allowance (ledgerEnv text) u t o' s = Inr (u (toLowerCase t) s)" "ev_text (ledgerEnv text) = text"
  by (simp_all add: ledgerEnv_def)

lemma ledgerEnv_laws [simp]: "erc20Laws (ledgerEnv text) signer"
  by (auto simp: erc20Laws_def ledgerDeliver_def sameAddress_def)

end
