(* ===== verification/Evm_Ntt.thy ===== *)
theory Evm_Ntt
  imports Evm_Tx Trimmed_Amount
begin

text \<open>
  The protocol \<open>Ntt\<close> on an EVM chain, \<open>evm/ts/src/ntt.ts\<close>: the class \<open>EvmNtt\<close> over the manager
  contract and \<open>EvmNttWormholeTranceiver\<close> over its transceiver. An \<open>EvmNtt\<close> is the record \<open>evm_ntt\<close>;
  an operation that caches the registered indices returns the record updated.
\<close>

section \<open>The object\<close>

record evm_xcvr =
  xv_address :: string
  xv_registeredIndex :: int

record evm_ntt =
  en_network :: string
  en_chain :: string
  en_chainId :: nat
  en_tokenAddress :: string
  en_managerAddress :: string
  en_coreBridge :: "string option"
  en_abi :: string
  en_xcvrs :: "evm_xcvr list"
  en_transceiverIndicesInitialized :: bool

record evm_ntt_contracts =
  ec_token :: string
  ec_manager :: string
  ec_transceiver :: "(string \<times> string) list option"

text \<open>The versions of the manager's interface, in descending order; a binding is named by its version.\<close>

definition abiVersions :: "(string \<times> string) list" where
  "abiVersions = [(''2.0.0'', ''2.0.0''), (''1.3.1'', ''1.3.1''), (''1.1.0'', ''1.1.0''),
     (''1.0.0'', ''1.0.0''), (''0.1.0'', ''0.1.0'')]"

definition transceiverTypes :: "(string \<times> string) list option \<Rightarrow> string list" where
  "transceiverTypes configured =
     (case configured of
        None \<Rightarrow> []
      | Some kvs \<Rightarrow>
          (case map_of kvs ''wormhole'' of
             None \<Rightarrow> []
           | Some address \<Rightarrow>
               if address = [] then []
               else ''wormhole'' # filter (\<lambda>t. t \<noteq> ''wormhole'') (map fst kvs)))"

definition newXcvr :: "(string \<times> string) list option \<Rightarrow> string \<Rightarrow> evm_error + evm_xcvr" where
  "newXcvr configured transceiverType =
     (if transceiverType \<noteq> ''wormhole'' then Inl (UnsupportedTransceiverType transceiverType)
      else Inr \<lparr>xv_address = the (map_of (the configured) transceiverType), xv_registeredIndex = 0\<rparr>)"

definition newEvmNtt :: "string \<Rightarrow> string \<Rightarrow> nat \<Rightarrow> string option \<Rightarrow> evm_ntt_contracts option \<Rightarrow> string
    \<Rightarrow> evm_error + evm_ntt" where
  "newEvmNtt network chain chainId coreBridge contracts version =
     (case contracts of
        None \<Rightarrow> Inl NoNttContracts
      | Some c \<Rightarrow>
          andThen (case loadAbiVersion abiVersions version of Inl e \<Rightarrow> Inl (EvmAbi e) | Inr abi \<Rightarrow> Inr abi) (\<lambda>abi.
          andThen (mapR (newXcvr (ec_transceiver c)) (transceiverTypes (ec_transceiver c))) (\<lambda>xcvrs.
          Inr \<lparr>en_network = network, en_chain = chain, en_chainId = chainId, en_tokenAddress = ec_token c,
               en_managerAddress = ec_manager c, en_coreBridge = coreBridge, en_abi = abi, en_xcvrs = xcvrs,
               en_transceiverIndicesInitialized = False\<rparr>)))"

text \<open>
  What is read from the contracts: of the manager (by its address), of a transceiver, of the core
  bridge and of the token. \<open>mr_transceiverInfo\<close> gives the registered index of each enabled transceiver and
  is absent from interfaces before 1.0.0.
\<close>

record 'w evm_reads =
  mr_hasTransceiverInfo :: "string \<Rightarrow> bool"
  mr_transceiverInfo :: "'w \<Rightarrow> string \<Rightarrow> string + int list"
  mr_transceivers :: "'w \<Rightarrow> string \<Rightarrow> string + string list"
  mr_deliveryPrice :: "'w \<Rightarrow> string \<Rightarrow> nat \<Rightarrow> transceiver_ix \<Rightarrow> string + int"
  mr_messageFee :: "'w \<Rightarrow> string option \<Rightarrow> string + int"
  mr_mode :: "'w \<Rightarrow> string \<Rightarrow> string + int"
  mr_isMessageExecuted :: "'w \<Rightarrow> string \<Rightarrow> bytes \<Rightarrow> string + bool"
  mr_isMessageApproved :: "'w \<Rightarrow> string \<Rightarrow> bytes \<Rightarrow> string + bool"
  mr_inboundQueued :: "'w \<Rightarrow> string \<Rightarrow> bytes \<Rightarrow> string + string \<times> int \<times> int"
  mr_rateLimitDuration :: "'w \<Rightarrow> string \<Rightarrow> string + int"
  mr_outboundLimitParams :: "'w \<Rightarrow> string \<Rightarrow> string + int"
  mr_inboundLimitParams :: "'w \<Rightarrow> string \<Rightarrow> nat \<Rightarrow> string + int"
  mr_peer :: "'w \<Rightarrow> string \<Rightarrow> nat \<Rightarrow> string + bytes \<times> int"
  mr_token :: "'w \<Rightarrow> string \<Rightarrow> string + string"
  mr_decimals :: "'w \<Rightarrow> string \<Rightarrow> string + int"
  mr_wormholePeer :: "'w \<Rightarrow> string \<Rightarrow> nat \<Rightarrow> string + bytes"
  mr_hasIsWormholeEvmChain :: "string \<Rightarrow> bool"
  mr_isWormholeEvmChain :: "'w \<Rightarrow> string \<Rightarrow> nat \<Rightarrow> string + bool"

definition createUnsignedTx :: "evm_ntt \<Rightarrow> string \<Rightarrow> evm_call \<Rightarrow> int \<Rightarrow> string option \<Rightarrow> string \<Rightarrow> evm_tx" where
  "createUnsignedTx ntt to' call val from description =
     \<lparr>tx_to = to', tx_call = call, tx_value = val, tx_from = from, tx_chainId = en_chainId ntt,
      tx_description = description\<rparr>"

section \<open>Registered indices and instructions\<close>

text \<open>An index is taken over when the address is found, without regard to case, among the enabled transceivers.\<close>

definition findAddress :: "string list \<Rightarrow> string \<Rightarrow> nat option" where
  "findAddress addrs a = find (\<lambda>i. toLowerCase (addrs ! i) = toLowerCase a) [0..<length addrs]"

definition registered :: "int list \<Rightarrow> string list \<Rightarrow> evm_xcvr \<Rightarrow> evm_xcvr" where
  "registered transceiverInfos transceiverAddresses xcvr =
     (case findAddress transceiverAddresses (xv_address xcvr) of
        Some i \<Rightarrow> if i < length transceiverInfos then xcvr\<lparr>xv_registeredIndex := transceiverInfos ! i\<rparr> else xcvr
      | None \<Rightarrow> xcvr)"

definition initTransceiverIndices :: "'w evm_reads \<Rightarrow> 'w \<Rightarrow> evm_ntt \<Rightarrow> evm_ntt" where
  "initTransceiverIndices rd w ntt =
     (if en_transceiverIndicesInitialized ntt then ntt
      else if \<not> mr_hasTransceiverInfo rd (en_abi ntt) then ntt\<lparr>en_transceiverIndicesInitialized := True\<rparr>
      else (case mr_transceiverInfo rd w (en_managerAddress ntt) of
          Inl _ \<Rightarrow> ntt
        | Inr infos \<Rightarrow>
            (case mr_transceivers rd w (en_managerAddress ntt) of
               Inl _ \<Rightarrow> ntt
             | Inr addrs \<Rightarrow> ntt\<lparr>en_xcvrs := map (registered infos addrs) (en_xcvrs ntt),
                 en_transceiverIndicesInitialized := True\<rparr>)))"

record evm_options =
  eo_queue :: bool
  eo_automatic :: bool
  eo_wrapNative :: bool

definition encodeFlags :: "bool \<Rightarrow> bytes" where
  "encodeFlags skipRelay = [if skipRelay then 1 else 0]"

definition encodeOptions :: "evm_ntt \<Rightarrow> evm_options \<Rightarrow> transceiver_ix list" where
  "encodeOptions ntt options =
     sort_key ix_index (map (\<lambda>xcvr.
       \<lparr>ix_index = xv_registeredIndex xcvr, ix_payload = encodeFlags (\<not> eo_automatic options)\<rparr>) (en_xcvrs ntt))"

definition instructionFor :: "transceiver_ix list \<Rightarrow> evm_xcvr \<Rightarrow> transceiver_ix" where
  "instructionFor instructions xcvr =
     (case find (\<lambda>i. ix_index i = xv_registeredIndex xcvr) instructions of
        Some ix \<Rightarrow> ix
      | None \<Rightarrow> \<lparr>ix_index = xv_registeredIndex xcvr, ix_payload = []\<rparr>)"

definition quoteDeliveryPrice :: "('w, 'a) evm_env \<Rightarrow> 'w evm_reads \<Rightarrow> evm_ntt \<Rightarrow> string \<Rightarrow> evm_options
    \<Rightarrow> ('w, evm_tx, evm_error, evm_ntt \<times> int) process" where
  "quoteDeliveryPrice env rd ntt0 dstChain options =
     proceed (reading (\<lambda>w. Inr (initTransceiverIndices rd w ntt0))) (\<lambda>ntt.
     proceed (reading (\<lambda>w.
       foldR (\<lambda>xcvr totalPrice.
           andThen (thrownE (mr_deliveryPrice rd w (xv_address xcvr) (ev_toChainId env dstChain)
             (instructionFor (encodeOptions ntt options) xcvr))) (\<lambda>price. Inr (totalPrice + price)))
         (en_xcvrs ntt) 0)) (\<lambda>totalPrice.
     returning (Inr (ntt, totalPrice))))"

section \<open>Transfers\<close>

definition wrapNative :: "('w, 'a) evm_env \<Rightarrow> evm_ntt \<Rightarrow> 'a \<Rightarrow> int \<Rightarrow> ('w, evm_tx, evm_error, evm_tx) process" where
  "wrapNative env ntt sender amount =
     proceed (returning (thrownE (ev_address env sender))) (\<lambda>senderAddress.
     proceed (populate env Deposit) (\<lambda>call.
     returning (Inr (createUnsignedTx ntt (en_tokenAddress ntt) call amount (Some senderAddress) ''Ntt.Deposit''))))"

definition approve :: "('w, 'a) evm_env \<Rightarrow> evm_ntt \<Rightarrow> 'a \<Rightarrow> int \<Rightarrow> ('w, evm_tx, evm_error, unit) process" where
  "approve env ntt sender amount =
     proceed (returning (thrownE (ev_address env sender))) (\<lambda>senderAddress.
     approval env (en_chainId ntt) (Some senderAddress) ''Ntt.Approve'' (en_tokenAddress ntt) senderAddress
       (en_managerAddress ntt) amount)"

record 'a evm_destination =
  ed_chain :: string
  ed_address :: 'a

definition transfer :: "('w, 'a) evm_env \<Rightarrow> 'w evm_reads \<Rightarrow> evm_ntt \<Rightarrow> 'a \<Rightarrow> int \<Rightarrow> 'a evm_destination
    \<Rightarrow> evm_options \<Rightarrow> ('w, evm_tx, evm_error, unit) process" where
  "transfer env rd ntt0 sender amount destination options =
     proceed (returning (thrownE (ev_address env sender))) (\<lambda>senderAddress.
     proceed (quoteDeliveryPrice env rd ntt0 (ed_chain destination) options) (\<lambda>(ntt, totalPrice).
     proceed (if eo_wrapNative options
              then proceed (wrapNative env ntt sender amount) (sending (ev_deliver env))
              else returning (Inr ())) (\<lambda>_.
     proceed (approve env ntt sender amount) (\<lambda>_.
     proceed (returning (thrownE (ev_universal env (ed_address destination)))) (\<lambda>receiver.
     proceed (returning (encodeInstructions env (encodeOptions ntt options))) (\<lambda>instructions.
     proceed (populate env (NttTransfer amount (ev_toChainId env (ed_chain destination)) receiver receiver
         (eo_queue options) instructions)) (\<lambda>call.
     sending (ev_deliver env)
       (createUnsignedTx ntt (en_managerAddress ntt) call totalPrice (Some senderAddress) ''Ntt.transfer''))))))))"

section \<open>From a configuration\<close>

record evm_conf =
  cf_network :: string
  cf_coreBridge :: "string option"
  cf_ntt :: "evm_ntt_contracts option"

definition getVersion :: "('w \<Rightarrow> string \<Rightarrow> string + string) \<Rightarrow> 'w \<Rightarrow> evm_ntt_contracts option \<Rightarrow> evm_error + string" where
  "getVersion managerVersion w contracts =
     (case contracts of
        None \<Rightarrow> Inl (ReadUndefined ''manager'')
      | Some c \<Rightarrow> andThen (thrownE (managerVersion w (ec_manager c))) (\<lambda>abiVersion.
          if abiVersion = [] then Inl VersionMissing else Inr abiVersion))"

definition fromRpc :: "('w \<Rightarrow> string \<Rightarrow> string + string) \<Rightarrow> 'w evm_reads \<Rightarrow> (string \<Rightarrow> string \<Rightarrow> nat) \<Rightarrow> 'w
    \<Rightarrow> string \<times> string \<Rightarrow> (string \<times> evm_conf) list \<Rightarrow> evm_error + evm_ntt" where
  "fromRpc managerVersion rd nativeChainId w = (\<lambda>(network, chain) config.
     case map_of config chain of
       None \<Rightarrow> Inl (ReadUndefined ''network'')
     | Some conf \<Rightarrow>
         if cf_network conf \<noteq> network then Inl EvmNetworkMismatch
         else
           andThen (getVersion managerVersion w (cf_ntt conf)) (\<lambda>version.
           andThen (newEvmNtt network chain (nativeChainId network chain) (cf_coreBridge conf) (cf_ntt conf) version) (\<lambda>ntt.
           Inr (initTransceiverIndices rd w ntt))))"

section \<open>The transceivers of an object\<close>

lemma mapR_newXcvr:
  "mapR (newXcvr c) ts = Inr xs \<Longrightarrow> set ts \<subseteq> {''wormhole''} \<and> length xs = length ts"
proof (induction ts arbitrary: xs)
  case (Cons t ts)
  then show ?case by (auto simp: andThen_eq_Inr newXcvr_def split: if_splits)
qed simp

text \<open>One transceiver at most: the constructor refuses a configuration that names another besides Wormhole's.\<close>

lemma newEvmNtt_xcvrs:
  assumes "newEvmNtt network chain chainId bridge contracts version = Inr ntt"
  shows "length (en_xcvrs ntt) \<le> 1"
proof -
  have "\<exists>c :: evm_ntt_contracts. mapR (newXcvr (ec_transceiver c)) (transceiverTypes (ec_transceiver c)) = Inr (en_xcvrs ntt)"
  proof (cases contracts)
    case (Some c)
    then show ?thesis using assms by (intro exI [of _ c]) (auto simp: newEvmNtt_def andThen_eq_Inr)
  qed (use assms in \<open>simp add: newEvmNtt_def\<close>)
  then obtain c :: evm_ntt_contracts where xs: "mapR (newXcvr (ec_transceiver c)) (transceiverTypes (ec_transceiver c)) = Inr (en_xcvrs ntt)" ..
  have "length (transceiverTypes (ec_transceiver c)) \<le> 1"
    using mapR_newXcvr [OF xs]
    by (auto simp: transceiverTypes_def filter_empty_conv split: option.splits) fastforce
  then show ?thesis using mapR_length [OF xs] by simp
qed

lemma initTransceiverIndices_keeps [simp]:
  "length (en_xcvrs (initTransceiverIndices rd w ntt)) = length (en_xcvrs ntt)"
  "en_managerAddress (initTransceiverIndices rd w ntt) = en_managerAddress ntt"
  "en_tokenAddress (initTransceiverIndices rd w ntt) = en_tokenAddress ntt"
  "en_chainId (initTransceiverIndices rd w ntt) = en_chainId ntt"
  by (simp_all add: initTransceiverIndices_def split: sum.split)

lemma fromRpc_xcvrs:
  "fromRpc managerVersion rd nativeChainId w nc config = Inr ntt \<Longrightarrow> length (en_xcvrs ntt) \<le> 1"
  by (auto simp: fromRpc_def andThen_eq_Inr dest: newEvmNtt_xcvrs split: prod.splits option.splits if_splits)


lemma set_encodeOptions:
  "set (encodeOptions ntt o') = (\<lambda>x. \<lparr>ix_index = xv_registeredIndex x, ix_payload = encodeFlags (\<not> eo_automatic o')\<rparr>) ` set (en_xcvrs ntt)"
  by (simp add: encodeOptions_def)

text \<open>The instruction a transceiver is quoted for is the one that is sent to it.\<close>

lemma instructionFor_own:
  assumes "x \<in> set (en_xcvrs ntt)"
  shows "instructionFor (encodeOptions ntt o') x =
      \<lparr>ix_index = xv_registeredIndex x, ix_payload = encodeFlags (\<not> eo_automatic o')\<rparr>"
    and "instructionFor (encodeOptions ntt o') x \<in> set (encodeOptions ntt o')"
proof -
  let ?ix = "\<lparr>ix_index = xv_registeredIndex x, ix_payload = encodeFlags (\<not> eo_automatic o')\<rparr>"
  have mem: "?ix \<in> set (encodeOptions ntt o')" using assms by (simp add: set_encodeOptions)
  obtain y where y: "find (\<lambda>i. ix_index i = xv_registeredIndex x) (encodeOptions ntt o') = Some y"
    using find_NoneD [OF _ mem, of "\<lambda>i. ix_index i = xv_registeredIndex x"]
    by (cases "find (\<lambda>i. ix_index i = xv_registeredIndex x) (encodeOptions ntt o')") simp_all
  then have "y = ?ix" using find_SomeD [OF y] by (auto simp: set_encodeOptions)
  then show "instructionFor (encodeOptions ntt o') x = ?ix"
    "instructionFor (encodeOptions ntt o') x \<in> set (encodeOptions ntt o')"
    using y mem by (simp_all add: instructionFor_def)
qed

text \<open>What the contract asks for: indices in strictly increasing order.\<close>

lemma encodeOptions_sorted:
  assumes "distinct (map xv_registeredIndex (en_xcvrs ntt))"
  shows "sorted_wrt (<) (map ix_index (encodeOptions ntt o'))"
proof -
  let ?ixs = "map (\<lambda>x. \<lparr>ix_index = xv_registeredIndex x, ix_payload = encodeFlags (\<not> eo_automatic o')\<rparr>) (en_xcvrs ntt)"
  have "map ix_index ?ixs = map xv_registeredIndex (en_xcvrs ntt)" by simp
  then have "distinct (map ix_index (sort_key ix_index ?ixs))"
    using assms by (metis distinct_map distinct_sort set_sort distinct_map)
  then show ?thesis
    by (simp add: encodeOptions_def strict_sorted_iff)
qed

lemma single_distinct: "length xs \<le> 1 \<Longrightarrow> distinct (map f xs)"
  by (cases xs) auto

section \<open>Transfers\<close>

lemma foldR_sum:
  "foldR (\<lambda>x t. andThen (thrownE (f x)) (\<lambda>p. Inr (t + p))) xs (t :: int) = Inr n \<longleftrightarrow>
     (\<exists>ps. list_all2 (\<lambda>x p. f x = Inr p) xs ps \<and> n = t + sum_list ps)"
proof (induction xs arbitrary: t)
  case (Cons x xs)
  have "(\<exists>ps. list_all2 (\<lambda>x p. f x = Inr p) (x # xs) ps \<and> n = t + sum_list ps) \<longleftrightarrow>
      (\<exists>p ps. f x = Inr p \<and> list_all2 (\<lambda>x p. f x = Inr p) xs ps \<and> n = t + p + sum_list ps)"
    by (auto simp: list_all2_Cons1 add.assoc) (metis list_all2_Cons1 sum_list.Cons add.assoc)
  then show ?case using Cons.IH by (auto simp: andThen_eq_Inr)
qed auto

text \<open>The price of an object: what its transceivers ask for their own instructions, added up.\<close>

definition priceOf :: "('w, 'a) evm_env \<Rightarrow> 'w evm_reads \<Rightarrow> 'w \<Rightarrow> evm_ntt \<Rightarrow> string \<Rightarrow> evm_options \<Rightarrow> int \<Rightarrow> bool" where
  "priceOf env rd w ntt dstChain options n \<longleftrightarrow>
     (\<exists>ps. list_all2 (\<lambda>x p. mr_deliveryPrice rd w (xv_address x) (ev_toChainId env dstChain)
          \<lparr>ix_index = xv_registeredIndex x, ix_payload = encodeFlags (\<not> eo_automatic options)\<rparr> = Inr p)
        (en_xcvrs ntt) ps \<and> n = sum_list ps)"

lemma quoteDeliveryPrice_Inr:
  "quoteDeliveryPrice env rd ntt0 dstChain options w = (ys, Inr (ntt, n), w') \<Longrightarrow>
     ys = [] \<and> w' = w \<and> ntt = initTransceiverIndices rd w ntt0 \<and> priceOf env rd w ntt dstChain options n"
  by (auto simp: quoteDeliveryPrice_def process_simps foldR_sum priceOf_def instructionFor_own
      cong: list.rel_cong)

lemma delivers_quoteDeliveryPrice [delivery_intros]:
  "delivers deliver (quoteDeliveryPrice env rd ntt0 dstChain options)"
  unfolding quoteDeliveryPrice_def by (intro delivery_intros)

lemma wrapNative_Inr [process_simps]:
  "wrapNative env ntt sender amount w = (ys, Inr tx, w') \<longleftrightarrow>
     (\<exists>a. ev_address env sender = Inr a \<and> ev_rejects env Deposit = None \<and> ys = [] \<and> w' = w \<and>
        tx = createUnsignedTx ntt (en_tokenAddress ntt) Deposit amount (Some a) ''Ntt.Deposit'')"
  by (auto simp: wrapNative_def process_simps)

lemma delivers_wrapNative [delivery_intros]: "delivers deliver (wrapNative env ntt sender amount)"
  unfolding wrapNative_def by (intro delivery_intros)

lemma delivers_approve [delivery_intros]: "delivers (ev_deliver env) (approve env ntt sender amount)"
  unfolding approve_def by (intro delivery_intros)

lemma approve_covers:
  assumes "erc20Laws env signer" "ev_address env sender = Inr signer"
    and "approve env ntt sender amount w = (ys, Inr u, w')"
  shows "allowed env w' (en_tokenAddress ntt) signer (en_managerAddress ntt) amount"
    and "list_all (\<lambda>tx. tx_call tx = Approve (en_managerAddress ntt) amount \<and> tx_to tx = en_tokenAddress ntt \<and>
      tx_value tx = 0) ys"
proof -
  have run: "approval env (en_chainId ntt) (Some signer) ''Ntt.Approve'' (en_tokenAddress ntt) signer
      (en_managerAddress ntt) amount w = (ys, Inr u, w')"
    using assms(2,3) by (auto simp: approve_def process_simps)
  show "allowed env w' (en_tokenAddress ntt) signer (en_managerAddress ntt) amount"
    by (rule approval_covers(1) [OF assms(1) run])
  show "list_all (\<lambda>tx. tx_call tx = Approve (en_managerAddress ntt) amount \<and> tx_to tx = en_tokenAddress ntt \<and>
      tx_value tx = 0) ys"
    using approval_covers(3) [OF assms(1) run] by auto
qed

text \<open>The transactions before the call of the manager: the deposit when asked for, then at most the approval.\<close>

definition depositOf :: "evm_ntt \<Rightarrow> string \<Rightarrow> int \<Rightarrow> evm_options \<Rightarrow> evm_tx list" where
  "depositOf ntt signer amount options =
     (if eo_wrapNative options
      then [createUnsignedTx ntt (en_tokenAddress ntt) Deposit amount (Some signer) ''Ntt.Deposit''] else [])"

lemma transfer_Inr:
  assumes laws: "erc20Laws env signer" and sender: "ev_address env sender = Inr signer"
    and run: "transfer env rd ntt0 sender amount dst options w = (ys, Inr (), w')"
  obtains ntt n approvals receiver ixs where
    "ntt = initTransceiverIndices rd w ntt0" "priceOf env rd w ntt (ed_chain dst) options n"
    "ev_universal env (ed_address dst) = Inr receiver"
    "encodeTransceiverInstructions (ev_serializeIx env) (encodeOptions ntt options) = Inr ixs"
    "ys = (depositOf ntt signer amount options @ approvals) @ [createUnsignedTx ntt (en_managerAddress ntt)
       (NttTransfer amount (ev_toChainId env (ed_chain dst)) receiver receiver (eo_queue options) ixs) n (Some signer)
       ''Ntt.transfer'']"
    "list_all (\<lambda>tx. tx_call tx = Approve (en_managerAddress ntt) amount \<and> tx_to tx = en_tokenAddress ntt \<and>
       tx_value tx = 0) approvals"
    "allowed env (fold (ev_deliver env) (depositOf ntt signer amount options @ approvals) w)
       (en_tokenAddress ntt) signer (en_managerAddress ntt) amount"
proof -
  obtain ntt n as w1 receiver ixs where q: "ntt = initTransceiverIndices rd w ntt0"
      "priceOf env rd w ntt (ed_chain dst) options n"
    and a: "approve env ntt sender amount (fold (ev_deliver env) (depositOf ntt signer amount options) w) = (as, Inr (), w1)"
    and r: "ev_universal env (ed_address dst) = Inr receiver"
      "encodeTransceiverInstructions (ev_serializeIx env) (encodeOptions ntt options) = Inr ixs"
      "ys = (depositOf ntt signer amount options @ as) @ [createUnsignedTx ntt (en_managerAddress ntt)
       (NttTransfer amount (ev_toChainId env (ed_chain dst)) receiver receiver (eo_queue options) ixs) n (Some signer)
       ''Ntt.transfer'']"
    using run sender
    by (auto simp: transfer_def process_simps depositOf_def split: if_splits dest!: quoteDeliveryPrice_Inr)
  have "w1 = fold (ev_deliver env) (depositOf ntt signer amount options @ as) w"
    using delivers_world [OF delivers_approve a] by simp
  then show thesis
    using that [OF q r(1,2,3)] approve_covers [OF laws sender a] by simp
qed

lemma delivers_transfer: "delivers (ev_deliver env) (transfer env rd ntt0 sender amount dst options)"
  unfolding transfer_def by (intro delivery_intros)

text \<open>
  C11. A transfer that is sent can be paid for. For an object made from a configuration, and a token that
  behaves as ERC-20 says: the last transaction calls the manager with the amount and the recipient,
  the instructions of all transceivers in strictly increasing order of their indices, and the sum of
  the prices the transceivers ask for these instructions; the native token is deposited before exactly
  when that was asked for; and when the last transaction is sent, the manager is allowed to take the
  amount of the token from the sender.
\<close>

theorem evm_transfer_funded:
  assumes "erc20Laws env signer" and "ev_address env sender = Inr signer"
    and "fromRpc managerVersion rd nativeChainId w0 nc config = Inr ntt0"
    and "transfer env rd ntt0 sender amount dst options w = (ys, Inr (), w')"
  shows "\<exists>ntt pre t receiver instructions.
    ntt = initTransceiverIndices rd w ntt0 \<and> ys = pre @ [t] \<and> w' = fold (ev_deliver env) ys w \<and>
    tx_to t = en_managerAddress ntt \<and> tx_from t = Some signer \<and>
    ev_universal env (ed_address dst) = Inr receiver \<and>
    tx_call t = NttTransfer amount (ev_toChainId env (ed_chain dst)) receiver receiver (eo_queue options) instructions \<and>
    encodeTransceiverInstructions (ev_serializeIx env) (encodeOptions ntt options) = Inr instructions \<and>
    sorted_wrt (<) (map ix_index (encodeOptions ntt options)) \<and>
    priceOf env rd w ntt (ed_chain dst) options (tx_value t) \<and>
    map tx_value (filter (\<lambda>tx. tx_call tx = Deposit) pre) = (if eo_wrapNative options then [amount] else []) \<and>
    allowed env (fold (ev_deliver env) pre w) (en_tokenAddress ntt) signer (en_managerAddress ntt) amount"
  using assms(1,2,4)
proof (rule transfer_Inr)
  fix ntt n approvals receiver ixs
  let ?pre = "depositOf ntt signer amount options @ approvals"
  let ?t = "createUnsignedTx ntt (en_managerAddress ntt)
    (NttTransfer amount (ev_toChainId env (ed_chain dst)) receiver receiver (eo_queue options) ixs) n (Some signer)
    ''Ntt.transfer''"
  assume ntt: "ntt = initTransceiverIndices rd w ntt0" and price: "priceOf env rd w ntt (ed_chain dst) options n"
    and parts: "ev_universal env (ed_address dst) = Inr receiver"
      "encodeTransceiverInstructions (ev_serializeIx env) (encodeOptions ntt options) = Inr ixs"
    and ys: "ys = ?pre @ [?t]"
    and approvals: "list_all (\<lambda>tx. tx_call tx = Approve (en_managerAddress ntt) amount \<and>
      tx_to tx = en_tokenAddress ntt \<and> tx_value tx = 0) approvals"
    and ok: "allowed env (fold (ev_deliver env) ?pre w) (en_tokenAddress ntt) signer (en_managerAddress ntt) amount"
  have "sorted_wrt (<) (map ix_index (encodeOptions ntt options))"
    using fromRpc_xcvrs [OF assms(3)] by (intro encodeOptions_sorted single_distinct) (simp add: ntt)
  moreover have "filter (\<lambda>tx. tx_call tx = Deposit) approvals = []"
    using approvals by (auto simp: filter_empty_conv list_all_iff)
  moreover have "w' = fold (ev_deliver env) ys w" by (rule delivers_world [OF delivers_transfer assms(4)])
  ultimately show ?thesis
    using price parts ok ntt ys
    by (intro exI [of _ ntt] exI [of _ ?pre] exI [of _ ?t] exI [of _ receiver] exI [of _ ixs] conjI)
      (simp_all add: createUnsignedTx_def depositOf_def)
qed

section \<open>Administration\<close>

text \<open>The operations of an administrator: each yields one call of the manager.\<close>

definition managerTx :: "('w, 'a) evm_env \<Rightarrow> evm_ntt \<Rightarrow> evm_call \<Rightarrow> string \<Rightarrow> ('w, evm_tx, evm_error, unit) process" where
  "managerTx env ntt call description =
     proceed (populate env call) (\<lambda>c.
     sending (ev_deliver env) (createUnsignedTx ntt (en_managerAddress ntt) c 0 None description))"

definition pause :: "('w, 'a) evm_env \<Rightarrow> evm_ntt \<Rightarrow> ('w, evm_tx, evm_error, unit) process" where
  "pause env ntt = managerTx env ntt Pause ''Ntt.pause''"

definition unpause :: "('w, 'a) evm_env \<Rightarrow> evm_ntt \<Rightarrow> ('w, evm_tx, evm_error, unit) process" where
  "unpause env ntt = managerTx env ntt Unpause ''Ntt.unpause''"

definition setOwner :: "('w, 'a) evm_env \<Rightarrow> evm_ntt \<Rightarrow> 'a \<Rightarrow> ('w, evm_tx, evm_error, unit) process" where
  "setOwner env ntt owner =
     proceed (returning (thrownE (ev_address env owner))) (\<lambda>canonicalOwner.
     managerTx env ntt (TransferOwnership canonicalOwner) ''Ntt.setOwner'')"

definition setPauser :: "('w, 'a) evm_env \<Rightarrow> evm_ntt \<Rightarrow> 'a \<Rightarrow> ('w, evm_tx, evm_error, unit) process" where
  "setPauser env ntt pauser =
     proceed (returning (thrownE (ev_address env pauser))) (\<lambda>canonicalPauser.
     managerTx env ntt (TransferPauserCapability canonicalPauser) ''Ntt.setPauser'')"

definition setThreshold :: "('w, 'a) evm_env \<Rightarrow> evm_ntt \<Rightarrow> int \<Rightarrow> ('w, evm_tx, evm_error, unit) process" where
  "setThreshold env ntt threshold = managerTx env ntt (SetThreshold threshold) ''Ntt.setThreshold''"

definition setPeer :: "('w, 'a) evm_env \<Rightarrow> evm_ntt \<Rightarrow> 'a evm_destination \<Rightarrow> int \<Rightarrow> int
    \<Rightarrow> ('w, evm_tx, evm_error, unit) process" where
  "setPeer env ntt peer tokenDecimals inboundLimit =
     proceed (returning (thrownE (ev_universal env (ed_address peer)))) (\<lambda>address.
     managerTx env ntt (SetPeer (ev_toChainId env (ed_chain peer)) address tokenDecimals inboundLimit) ''Ntt.setPeer'')"

definition setOutboundLimit :: "('w, 'a) evm_env \<Rightarrow> evm_ntt \<Rightarrow> int \<Rightarrow> ('w, evm_tx, evm_error, unit) process" where
  "setOutboundLimit env ntt limit = managerTx env ntt (SetOutboundLimit limit) ''Ntt.setOutboundLimit''"

definition setInboundLimit :: "('w, 'a) evm_env \<Rightarrow> evm_ntt \<Rightarrow> string \<Rightarrow> int \<Rightarrow> ('w, evm_tx, evm_error, unit) process" where
  "setInboundLimit env ntt fromChain limit =
     managerTx env ntt (SetInboundLimit limit (ev_toChainId env fromChain)) ''Ntt.setInboundLimit''"

text \<open>\<open>digest\<close> is \<open>Ntt.messageDigest\<close> on chain and message.\<close>

definition completeInboundQueuedTransfer :: "('w, 'a) evm_env \<Rightarrow> (string \<Rightarrow> 'm \<Rightarrow> bytes) \<Rightarrow> evm_ntt \<Rightarrow> string \<Rightarrow> 'm
    \<Rightarrow> ('w, evm_tx, evm_error, unit) process" where
  "completeInboundQueuedTransfer env digest ntt fromChain message =
     managerTx env ntt (CompleteInboundQueuedTransfer (digest fromChain message)) ''Ntt.completeInboundQueuedTransfer''"

section \<open>The transceiver\<close>

definition setXcvrPeer :: "('w, 'a) evm_env \<Rightarrow> 'w evm_reads \<Rightarrow> evm_ntt \<Rightarrow> evm_xcvr \<Rightarrow> 'a evm_destination
    \<Rightarrow> ('w, evm_tx, evm_error, unit) process" where
  "setXcvrPeer env rd ntt xcvr peer =
     proceed (reading (\<lambda>w. thrownE (mr_messageFee rd w (en_coreBridge ntt)))) (\<lambda>messageFee.
     proceed (returning (thrownE (ev_universal env (ed_address peer)))) (\<lambda>address.
     proceed (populate env (SetWormholePeer (ev_toChainId env (ed_chain peer)) address)) (\<lambda>call.
     sending (ev_deliver env) (createUnsignedTx ntt (xv_address xcvr) call messageFee None
       ''WormholeTransceiver.registerPeer''))))"

definition setTransceiverPeer :: "('w, 'a) evm_env \<Rightarrow> 'w evm_reads \<Rightarrow> evm_ntt \<Rightarrow> nat \<Rightarrow> 'a evm_destination
    \<Rightarrow> ('w, evm_tx, evm_error, unit) process" where
  "setTransceiverPeer env rd ntt ix peer =
     (if ix \<ge> length (en_xcvrs ntt) then returning (Inl TransceiverNotFound)
      else setXcvrPeer env rd ntt (en_xcvrs ntt ! ix) peer)"

definition setXcvrPauser :: "('w, 'a) evm_env \<Rightarrow> evm_ntt \<Rightarrow> evm_xcvr \<Rightarrow> 'a \<Rightarrow> ('w, evm_tx, evm_error, unit) process" where
  "setXcvrPauser env ntt xcvr pauser =
     proceed (returning (thrownE (ev_address env pauser))) (\<lambda>canonicalPauser.
     proceed (populate env (TransferPauserCapability canonicalPauser)) (\<lambda>call.
     sending (ev_deliver env) (createUnsignedTx ntt (xv_address xcvr) call 0 None ''WormholeTransceiver.setPauser'')))"

definition getXcvrPeer :: "('w, 'a) evm_env \<Rightarrow> 'w evm_reads \<Rightarrow> 'w \<Rightarrow> evm_xcvr \<Rightarrow> string \<Rightarrow> evm_error + bytes option" where
  "getXcvrPeer env rd w xcvr chain =
     andThen (thrownE (mr_wormholePeer rd w (xv_address xcvr) (ev_toChainId env chain))) (\<lambda>peerAddress.
     Inr (if peerAddress = replicate 32 0 then None else Some peerAddress))"

definition isEvmChain :: "('w, 'a) evm_env \<Rightarrow> 'w evm_reads \<Rightarrow> 'w \<Rightarrow> evm_ntt \<Rightarrow> evm_xcvr \<Rightarrow> string \<Rightarrow> evm_error + bool" where
  "isEvmChain env rd w ntt xcvr chain =
     (if \<not> mr_hasIsWormholeEvmChain rd (en_abi ntt) then Inr False
      else thrownE (mr_isWormholeEvmChain rd w (xv_address xcvr) (ev_toChainId env chain)))"

definition setIsEvmChain :: "('w, 'a) evm_env \<Rightarrow> 'w evm_reads \<Rightarrow> evm_ntt \<Rightarrow> evm_xcvr \<Rightarrow> string \<Rightarrow> bool
    \<Rightarrow> ('w, evm_tx, evm_error, unit) process" where
  "setIsEvmChain env rd ntt xcvr chain isEvm =
     (if \<not> mr_hasIsWormholeEvmChain rd (en_abi ntt) then returning (Inl (NotSupportedByAbi ''setIsWormholeEvmChain''))
      else proceed (populate env (SetIsWormholeEvmChain (ev_toChainId env chain) isEvm)) (\<lambda>call.
        sending (ev_deliver env) (createUnsignedTx ntt (xv_address xcvr) call 0 None ''WormholeTransceiver.setIsEvmChain'')))"

record 'm attestation =
  at_payloadName :: string
  at_emitterChain :: string
  at_message :: 'm
  at_serialized :: bytes

definition receive :: "('w, 'a) evm_env \<Rightarrow> evm_ntt \<Rightarrow> evm_xcvr \<Rightarrow> 'm attestation \<Rightarrow> ('w, evm_tx, evm_error, unit) process" where
  "receive env ntt xcvr attestation =
     proceed (populate env (ReceiveMessage (at_serialized attestation))) (\<lambda>call.
     sending (ev_deliver env) (createUnsignedTx ntt (xv_address xcvr) call 0 None ''WormholeTransceiver.receiveMessage''))"

definition redeem :: "('w, 'a) evm_env \<Rightarrow> evm_ntt \<Rightarrow> 'm attestation list \<Rightarrow> ('w, evm_tx, evm_error, unit) process" where
  "redeem env ntt attestations =
     (if length attestations \<noteq> length (en_xcvrs ntt) then returning (Inl AttestationCount)
      else eachOf (\<lambda>(xcvr, attestation).
        if at_payloadName attestation \<noteq> ''WormholeTransfer'' then returning (Inl InvalidAttestationType)
        else receive env ntt xcvr attestation) (zip (en_xcvrs ntt) attestations))"

section \<open>What is read\<close>

definition getMode :: "'w evm_reads \<Rightarrow> 'w \<Rightarrow> evm_ntt \<Rightarrow> evm_error + string" where
  "getMode rd w ntt =
     andThen (thrownE (mr_mode rd w (en_managerAddress ntt))) (\<lambda>mode. Inr (if mode = 0 then ''locking'' else ''burning''))"

record evm_queued =
  eq_recipient :: string
  eq_amount :: int
  eq_rateLimitExpiryTimestamp :: js_number

definition getInboundQueuedTransfer :: "'w evm_reads \<Rightarrow> (string \<Rightarrow> 'm \<Rightarrow> bytes) \<Rightarrow> 'w \<Rightarrow> evm_ntt \<Rightarrow> string \<Rightarrow> 'm
    \<Rightarrow> evm_error + evm_queued option" where
  "getInboundQueuedTransfer rd digest w ntt fromChain message =
     andThen (thrownE (mr_inboundQueued rd w (en_managerAddress ntt) (digest fromChain message))) (\<lambda>(recipient, amount, txTimestamp).
     if txTimestamp > 0
     then andThen (thrownE (mr_rateLimitDuration rd w (en_managerAddress ntt))) (\<lambda>duration.
       Inr (Some \<lparr>eq_recipient = recipient, eq_amount = amount,
         eq_rateLimitExpiryTimestamp = double_of_rat (of_int (txTimestamp + duration))\<rparr>))
     else Inr None)"

definition getIsTransferInboundQueued :: "'w evm_reads \<Rightarrow> (string \<Rightarrow> 'm \<Rightarrow> bytes) \<Rightarrow> 'w \<Rightarrow> evm_ntt \<Rightarrow> 'm attestation
    \<Rightarrow> evm_error + bool" where
  "getIsTransferInboundQueued rd digest w ntt attestation =
     andThen (getInboundQueuedTransfer rd digest w ntt (at_emitterChain attestation) (at_message attestation)) (\<lambda>q.
     Inr (q \<noteq> None))"

definition getIsApproved :: "'w evm_reads \<Rightarrow> (string \<Rightarrow> 'm \<Rightarrow> bytes) \<Rightarrow> 'w \<Rightarrow> evm_ntt \<Rightarrow> 'm attestation \<Rightarrow> evm_error + bool" where
  "getIsApproved rd digest w ntt attestation =
     thrownE (mr_isMessageApproved rd w (en_managerAddress ntt) (digest (at_emitterChain attestation) (at_message attestation)))"

definition getIsExecuted :: "'w evm_reads \<Rightarrow> (string \<Rightarrow> 'm \<Rightarrow> bytes) \<Rightarrow> 'w \<Rightarrow> evm_ntt \<Rightarrow> 'm attestation \<Rightarrow> evm_error + bool" where
  "getIsExecuted rd digest w ntt attestation =
     andThen (thrownE (mr_isMessageExecuted rd w (en_managerAddress ntt)
       (digest (at_emitterChain attestation) (at_message attestation)))) (\<lambda>isExecuted.
     if \<not> isExecuted then Inr False
     else andThen (getIsTransferInboundQueued rd digest w ntt attestation) (\<lambda>queued. Inr (\<not> queued)))"

definition readLimit :: "'w evm_reads \<Rightarrow> 'w \<Rightarrow> evm_ntt \<Rightarrow> string + int \<Rightarrow> evm_error + int" where
  "readLimit rd w ntt limit =
     andThen (thrownE limit) (\<lambda>encoded.
     andThen (thrownE (mr_decimals rd w (en_tokenAddress ntt))) (\<lambda>tokenDecimals.
     Inr (untrim (decodeTrimmedAmount encoded) tokenDecimals)))"

definition getOutboundLimit :: "'w evm_reads \<Rightarrow> 'w \<Rightarrow> evm_ntt \<Rightarrow> evm_error + int" where
  "getOutboundLimit rd w ntt = readLimit rd w ntt (mr_outboundLimitParams rd w (en_managerAddress ntt))"

definition getInboundLimit :: "('w, 'a) evm_env \<Rightarrow> 'w evm_reads \<Rightarrow> 'w \<Rightarrow> evm_ntt \<Rightarrow> string \<Rightarrow> evm_error + int" where
  "getInboundLimit env rd w ntt fromChain =
     readLimit rd w ntt (mr_inboundLimitParams rd w (en_managerAddress ntt) (ev_toChainId env fromChain))"

record evm_peer =
  pe_chain :: string
  pe_address :: bytes
  pe_tokenDecimals :: int
  pe_inboundLimit :: int

definition getPeer :: "('w, 'a) evm_env \<Rightarrow> 'w evm_reads \<Rightarrow> 'w \<Rightarrow> evm_ntt \<Rightarrow> string \<Rightarrow> evm_error + evm_peer option" where
  "getPeer env rd w ntt chain =
     andThen (thrownE (mr_peer rd w (en_managerAddress ntt) (ev_toChainId env chain))) (\<lambda>(peerAddress, tokenDecimals).
     if peerAddress = replicate 32 0 then Inr None
     else andThen (getInboundLimit env rd w ntt chain) (\<lambda>limit.
       Inr (Some \<lparr>pe_chain = chain, pe_address = peerAddress, pe_tokenDecimals = tokenDecimals, pe_inboundLimit = limit\<rparr>)))"

section \<open>Verifying the addresses\<close>

text \<open>
  Addresses as nested objects of texts. \<open>field\<close> reads a property of a value that may be \<open>undefined\<close>; no
  key here is a property of a text.
\<close>

datatype addresses = Address string | Addresses "(string \<times> addresses) list"

fun field :: "addresses option \<Rightarrow> string \<Rightarrow> evm_error + addresses option" where
  "field None k = Inl (ReadUndefined k)"
| "field (Some (Address _)) k = Inr None"
| "field (Some (Addresses kvs)) k = Inr (map_of kvs k)"

text \<open>\<open>deleteMatching\<close> removes from its first argument what the second has too, and emptied objects.\<close>

fun deleteMatching :: "(string \<times> addresses) list \<Rightarrow> addresses option \<Rightarrow> evm_error + (string \<times> addresses) list" where
  "deleteMatching [] b = Inr []"
| "deleteMatching ((k, v) # a) b =
     andThen (field b k) (\<lambda>w.
     andThen (case v of
         Addresses m \<Rightarrow> andThen (deleteMatching m w) (\<lambda>m'. Inr (if m' = [] then [] else [(k, Addresses m')]))
       | Address s \<Rightarrow> Inr (if w = Some (Address s) then [] else [(k, v)])) (\<lambda>kept.
     andThen (deleteMatching a b) (\<lambda>rest. Inr (kept @ rest))))"

text \<open>The enabled transceiver that is an address of the object up to case; without one, the first enabled.\<close>

fun findMatching :: "string list \<Rightarrow> evm_xcvr list \<Rightarrow> string option" where
  "findMatching enabled [] = None"
| "findMatching enabled (xcvr # xcvrs) =
     (case find (\<lambda>addr. toLowerCase addr = toLowerCase (xv_address xcvr)) enabled of
        Some addr \<Rightarrow> if addr \<noteq> [] then Some addr else findMatching enabled xcvrs
      | None \<Rightarrow> findMatching enabled xcvrs)"

definition wormholeTransceiverAddr :: "string list \<Rightarrow> evm_xcvr list \<Rightarrow> string option" where
  "wormholeTransceiverAddr enabled xcvrs =
     (case findMatching enabled xcvrs of
        Some addr \<Rightarrow> Some addr
      | None \<Rightarrow> if enabled \<noteq> [] then Some (hd enabled) else None)"

definition contractTree :: "string \<Rightarrow> string \<Rightarrow> string option \<Rightarrow> (string \<times> addresses) list" where
  "contractTree manager token wormhole =
     [(''manager'', Address manager), (''token'', Address token),
      (''transceiver'', Addresses (case wormhole of None \<Rightarrow> [] | Some a \<Rightarrow> if a = [] then [] else [(''wormhole'', Address a)]))]"

definition localTransceiver :: "evm_ntt \<Rightarrow> (string \<times> addresses) list" where
  "localTransceiver ntt = (if en_xcvrs ntt = [] then [] else [(''wormhole'', Address (xv_address (hd (en_xcvrs ntt))))])"

definition verifyAddresses :: "'w evm_reads \<Rightarrow> 'w \<Rightarrow> evm_ntt \<Rightarrow> evm_error + (string \<times> addresses) list option" where
  "verifyAddresses rd w ntt =
     (let local = [(''manager'', Address (en_managerAddress ntt)), (''token'', Address (en_tokenAddress ntt)),
            (''transceiver'', Addresses (localTransceiver ntt))] in
      andThen (thrownE (mr_transceivers rd w (en_managerAddress ntt))) (\<lambda>enabledTransceivers.
      andThen (thrownE (mr_token rd w (en_managerAddress ntt))) (\<lambda>token.
      andThen (deleteMatching
          (contractTree (en_managerAddress ntt) token (wormholeTransceiverAddr enabledTransceivers (en_xcvrs ntt)))
          (Some (Addresses local))) (\<lambda>remote.
      Inr (if remote = [] then None else Some remote)))))"

text \<open>What the object has as its Wormhole transceiver, as a text.\<close>

definition ownTransceiver :: "evm_ntt \<Rightarrow> string option" where
  "ownTransceiver ntt = (case en_xcvrs ntt of [] \<Rightarrow> None | x # _ \<Rightarrow> Some (xv_address x))"

lemma verifyAddresses_eq:
  assumes "mr_transceivers rd w (en_managerAddress ntt) = Inr enabled"
    and "mr_token rd w (en_managerAddress ntt) = Inr token"
    and "wormholeTransceiverAddr enabled (en_xcvrs ntt) = r"
  shows "verifyAddresses rd w ntt = Inr
    (let wrong = (if token = en_tokenAddress ntt then [] else [(''token'', Address token)]) @
           (case r of None \<Rightarrow> [] | Some a \<Rightarrow> if a = [] \<or> ownTransceiver ntt = Some a then []
             else [(''transceiver'', Addresses [(''wormhole'', Address a)])])
     in if wrong = [] then None else Some wrong)"
  using assms
  by (cases r; cases "en_xcvrs ntt")
    (auto simp: verifyAddresses_def contractTree_def localTransceiver_def ownTransceiver_def thrownE_def Let_def)

lemma findMatching_Some:
  "findMatching enabled xcvrs = Some a \<Longrightarrow>
     a \<in> set enabled \<and> a \<noteq> [] \<and> (\<exists>x \<in> set xcvrs. sameAddress a (xv_address x))"
  by (induction xcvrs) (auto simp: sameAddress_def dest!: find_SomeD split: option.splits if_splits)

lemma findMatching_None:
  "findMatching enabled xcvrs = None \<Longrightarrow> [] \<notin> set enabled \<Longrightarrow> a \<in> set enabled \<Longrightarrow> x \<in> set xcvrs \<Longrightarrow>
     \<not> sameAddress a (xv_address x)"
proof (induction xcvrs)
  case (Cons y ys)
  then show ?case
    by (auto simp: sameAddress_def dest: find_NoneD find_SomeD split: option.splits if_splits)
qed simp

lemma wormholeTransceiverAddr_None: "wormholeTransceiverAddr enabled xcvrs = None \<longleftrightarrow> enabled = []"
  by (auto simp: wormholeTransceiverAddr_def dest: findMatching_Some split: option.splits)

lemma ownTransceiver_found:
  assumes "[] \<notin> set enabled" "length (en_xcvrs ntt) \<le> 1"
  shows "(\<exists>own. ownTransceiver ntt = Some own \<and> find (sameAddress own) enabled = Some own) \<longleftrightarrow>
    (\<exists>a. wormholeTransceiverAddr enabled (en_xcvrs ntt) = Some a \<and> ownTransceiver ntt = Some a)"
proof (cases "en_xcvrs ntt")
  case (Cons x xs)
  have xs: "xs = []" using assms(2) Cons by simp
  have P: "sameAddress (xv_address x) = (\<lambda>a. toLowerCase a = toLowerCase (xv_address x))"
    by (auto simp: sameAddress_def)
  show ?thesis
  proof (cases "find (sameAddress (xv_address x)) enabled")
    case None
    then have "xv_address x \<notin> set enabled" using find_NoneD [OF None] by (auto simp: sameAddress_def)
    then show ?thesis using None Cons xs P
      by (cases enabled) (auto simp: ownTransceiver_def wormholeTransceiverAddr_def)
  next
    case (Some a)
    then have "a \<noteq> []" using assms(1) find_SomeD [OF Some] by metis
    then show ?thesis using Some Cons xs P
      by (auto simp: ownTransceiver_def wormholeTransceiverAddr_def)
  qed
qed (simp add: ownTransceiver_def)


section \<open>An example chain\<close>

text \<open>
  A manager of version 1.1.0 whose Wormhole transceiver was removed and added again: it is the only
  enabled one and has the index 3. Its address is in another case than that of the configuration.
\<close>

abbreviation textEnv :: "(ledger, string) evm_env" where
  "textEnv \<equiv> ledgerEnv (\<lambda>a. a)"

definition exampleReads :: "ledger evm_reads" where
  "exampleReads = \<lparr>mr_hasTransceiverInfo = (\<lambda>abi. abi \<noteq> ''0.1.0''), mr_transceiverInfo = (\<lambda>_ _. Inr [3]),
     mr_transceivers = (\<lambda>_ _. Inr [''0xAB'']), mr_deliveryPrice = (\<lambda>_ _ _ ix. Inr (ix_index ix + int (length (ix_payload ix)))),
     mr_messageFee = (\<lambda>_ _. Inr 0), mr_mode = (\<lambda>_ _. Inr 0), mr_isMessageExecuted = (\<lambda>_ _ _. Inr False),
     mr_isMessageApproved = (\<lambda>_ _ _. Inr False), mr_inboundQueued = (\<lambda>_ _ _. Inr ('''', 0, 0)),
     mr_rateLimitDuration = (\<lambda>_ _. Inr 86400), mr_outboundLimitParams = (\<lambda>_ _. Inr 2568),
     mr_inboundLimitParams = (\<lambda>_ _ _. Inr 2568), mr_peer = (\<lambda>_ _ _. Inr (replicate 32 0, 0)),
     mr_token = (\<lambda>_ _. Inr ''0x70''), mr_decimals = (\<lambda>_ _. Inr 18), mr_wormholePeer = (\<lambda>_ _ _. Inr (replicate 32 0)),
     mr_hasIsWormholeEvmChain = (\<lambda>_. False), mr_isWormholeEvmChain = (\<lambda>_ _ _. Inr False)\<rparr>"

definition exampleConfig :: "(string \<times> evm_conf) list" where
  "exampleConfig = [(''Ethereum'', \<lparr>cf_network = ''Testnet'', cf_coreBridge = None,
     cf_ntt = Some \<lparr>ec_token = ''0x70'', ec_manager = ''0x71'', ec_transceiver = Some [(''wormhole'', ''0xab'')]\<rparr>\<rparr>)]"

definition exampleNtt :: evm_ntt where
  "exampleNtt = \<lparr>en_network = ''Testnet'', en_chain = ''Ethereum'', en_chainId = 11, en_tokenAddress = ''0x70'',
     en_managerAddress = ''0x71'', en_coreBridge = None, en_abi = ''1.1.0'',
     en_xcvrs = [\<lparr>xv_address = ''0xab'', xv_registeredIndex = 3\<rparr>], en_transceiverIndicesInitialized = True\<rparr>"

lemma example_versions:
  "abiVersionMatches ''1.1.0'' ''2.0.0'' = Inr False" "abiVersionMatches ''1.1.0'' ''1.3.1'' = Inr False"
  "abiVersionMatches ''1.1.0'' ''1.1.0'' = Inr True"
proof -
  have v: "versionString 2 0 ''0'' = ''2.0.0''" "versionString 1 3 ''1'' = ''1.3.1''" "versionString 1 1 ''0'' = ''1.1.0''"
    by (code_simp)+
  show "abiVersionMatches ''1.1.0'' ''2.0.0'' = Inr False" "abiVersionMatches ''1.1.0'' ''1.3.1'' = Inr False"
    "abiVersionMatches ''1.1.0'' ''1.1.0'' = Inr True"
    by (simp_all only: v [symmetric], subst abiVersionMatches_printed; simp)+
qed

lemma example_abi: "loadAbiVersion abiVersions ''1.1.0'' = Inr ''1.1.0''"
  by (simp add: abiVersions_def example_versions)

lemma example_address: "toLowerCase ''0xAB'' = ''0xab''" "toLowerCase ''0xab'' = ''0xab''" "toLowerCase ''0x70'' = ''0x70''"
  by code_simp+

lemma exampleNtt_fromRpc:
  "fromRpc (\<lambda>_ _. Inr ''1.1.0'') exampleReads (\<lambda>_ _. 11) w (''Testnet'', ''Ethereum'') exampleConfig = Inr exampleNtt"
  by (simp add: fromRpc_def exampleConfig_def getVersion_def newEvmNtt_def example_abi transceiverTypes_def
      newXcvr_def initTransceiverIndices_def exampleReads_def registered_def findAddress_def example_address
      exampleNtt_def thrownE_def)

definition exampleTransfer :: "evm_tx list \<times> (evm_error + unit) \<times> ledger" where
  "exampleTransfer = transfer textEnv exampleReads exampleNtt ''0x11'' 100
     \<lparr>ed_chain = ''Base'', ed_address = ''0x22''\<rparr> \<lparr>eo_queue = False, eo_automatic = False, eo_wrapNative = True\<rparr>
     (\<lambda>_ _. 40)"

lemma exampleNtt_simps [simp]:
  "en_managerAddress exampleNtt = ''0x71''" "en_tokenAddress exampleNtt = ''0x70''" "en_chainId exampleNtt = 11"
  "en_xcvrs exampleNtt = [\<lparr>xv_address = ''0xab'', xv_registeredIndex = 3\<rparr>]"
  "initTransceiverIndices rd w exampleNtt = exampleNtt" "ownTransceiver exampleNtt = Some ''0xab''"
  by (simp_all add: exampleNtt_def initTransceiverIndices_def ownTransceiver_def)

lemma example_instructions:
  "encodeInstructions (ledgerEnv text) (encodeOptions exampleNtt o') = Inr [1, 3, 1, if eo_automatic o' then 0 else 1]"
  by (simp add: encodeInstructions_def encodeTransceiverInstructions_def encodeOptions_def ledgerEnv_def encodeFlags_def)

lemma example_price:
  "quoteDeliveryPrice (ledgerEnv text) exampleReads exampleNtt c o' u = ([], Inr (exampleNtt, 4), u)"
  by (simp add: quoteDeliveryPrice_def proceed_def reading_def returning_def exampleReads_def thrownE_def
      instructionFor_def encodeOptions_def encodeFlags_def)

lemma exampleTransfer_returns: "exampleTransfer = (fst exampleTransfer, Inr (), snd (snd exampleTransfer))"
proof -
  have "\<exists>ys w'. exampleTransfer = (ys, Inr (), w')"
    unfolding exampleTransfer_def transfer_def approve_def approval_def
    by (simp add: process_simps example_price example_instructions thrownE_def ledgerDeliver_def createUnsignedTx_def)
  then show ?thesis by (metis fst_conv snd_conv)
qed

lemma evm_transfer_funded_witness:
  "\<exists>pre t. fst exampleTransfer = pre @ [t] \<and> tx_to t = ''0x71'' \<and> tx_from t = Some ''0x11'' \<and> tx_value t = 4 \<and>
     map tx_value (filter (\<lambda>tx. tx_call tx = Deposit) pre) = [100] \<and>
     allowed textEnv (fold ledgerDeliver pre (\<lambda>_ _. 40)) ''0x70'' ''0x11'' ''0x71'' 100"
proof -
  have p: "priceOf textEnv exampleReads w exampleNtt c o' n \<Longrightarrow> n = 4" for w c o' n
    by (auto simp: priceOf_def exampleReads_def encodeFlags_def list_all2_Cons1)
  have "ev_address textEnv ''0x11'' = Inr ''0x11''" by simp
  from evm_transfer_funded [OF ledgerEnv_laws this exampleNtt_fromRpc exampleTransfer_returns [unfolded exampleTransfer_def]]
  show ?thesis by (fold exampleTransfer_def) (auto dest: p)
qed


end
