(* ===== verification/Evm_Executor.thy ===== *)
theory Evm_Executor
  imports Evm_Ntt Route_Executor
begin

text \<open>
  The protocol \<open>NttWithExecutor\<close> on an EVM chain, \<open>evm/ts/src/nttWithExecutor.ts\<close>: a contract in
  front of the manager (the shim) pays the relayer and the referrer and starts the transfer. There
  are two shims, the second for chains where the relayer is paid in a token. The quote is that of the
  executor route.
\<close>

section \<open>The shims\<close>

definition nttManagerWithExecutorAddresses :: "(string \<times> (string \<times> string) list) list" where
  "nttManagerWithExecutorAddresses = [
   (''Mainnet'', [
     (''Arbitrum'', ''0x5029a23E0EE11f6c9120EAb7eB48a94a49907EC4''),
     (''Arc'', ''0xBd9e400d4A64DFEf7B51666d751A29ccBff4e97C''),
     (''Avalanche'', ''0xf1Aa9693265E0Ba892C4a7AE77591424eEEd5cE9''),
     (''Base'', ''0x27db1967D469D89318B7119Ced5609f327095de4''),
     (''Berachain'', ''0x7424E82D27dD80ca47eab5e739C4D5A2D220f64f''),
     (''Bsc'', ''0x83f5c7b03BBbE20FE2e39312b957D86dc7C3Dee2''),
     (''Celo'', ''0xb466bA8798a5B516b43cbE6AA7bBb9532bB1708D''),
     (''CreditCoin'', ''0xcA43AE520E308C6Fb444EB723406febF7c310Da3''),
     (''Ethereum'', ''0xC079bFA54F348199bA51B2717595fE24e96f1542''),
     (''Hydration'', ''0xd3Dda7c8608Ea251C42c6E0A2A686aDc5e9C0C03''),
     (''HyperEVM'', ''0xBc275e094e031e990b060134AbbDa00132f9A163''),
     (''Ink'', ''0x9e9980848FcbC11F9e84b5b6f5b88887966F5DAe''),
     (''Linea'', ''0x6FE9625F59107a4D49a9b5bC10a701dD0Bb396C0''),
     (''MegaETH'', ''0x7215f45Ea622E0350DF410D2e780BfD03bDc8a4D''),
     (''Mezo'', ''0x50F11Fe8B0D2B6f18a12291FeD345914D7Ec69d3''),
     (''Moca'', ''0x494726C75053F63CA906Aee00d6f910afE761B35''),
     (''Monad'', ''0xcc9FE3526F527bB0A14242A92818e132f3c12059''),
     (''Moonbeam'', ''0x40bBdD737f2Ca6316777F0B24ac94aaDE1ad1e4b''),
     (''Optimism'', ''0xC25396Ce2F6FBE6996374a5527c636C71AD5a757''),
     (''Plume'', ''0x00F39D8897e32B129435499F406b2fD76e37B51E''),
     (''Polygon'', ''0x9d165221c3c68868D15B154c5Aa66C32e044Eb4b''),
     (''Seievm'', ''0x70b85A416146A2dc3c760Ad30102F4280471C2b1''),
     (''Sonic'', ''0x98D1A98Cc398Ef6F5F84D134C1370480AaabA546''),
     (''Unichain'', ''0x2ceB44DE347641804856E2c468E703e06C5A8A33''),
     (''Worldchain'', ''0xDdBBa9509B9587516a0736D218B193a0DCf2B3e4''),
     (''XRPLEVM'', ''0xeddc0228C8719E7220eF4D8D95503258285BD482''),
     (''ZeroGravity'', ''0x83A1F640d2e31538819b8B2C53cbDD244c9550F0'')]),
   (''Testnet'', [
     (''Arc'', ''0xBd9e400d4A64DFEf7B51666d751A29ccBff4e97C''),
     (''ArbitrumSepolia'', ''0xD69CF144C31aE8C12b5C7c3D52411F32C824C9a3''),
     (''Avalanche'', ''0x8196EBa42b2947f519002B8aDa53b1880F580c69''),
     (''BaseSepolia'', ''0x9fBC8aA6B2f626D13005De92B3f0e4541919f721''),
     (''Bsc'', ''0x2c9F87bE2eb0caEB8AfFE6F7ae1f046E5D40Ff2a''),
     (''Ink'', ''0x86B93560FeAbc95a0067a498d8afe1219f3ED0D7''),
     (''Linea'', ''0x5d98Ded0E46d0aEAB37EA4fEe45A38dc5ccee673''),
     (''Mezo'', ''0x117F5F5E8d29ED6254c6098457Cea28E3Ee7cDdA''),
     (''Monad'', ''0x8BcA0315627DA3D2e5FA349a6A1ad2FAde36BCe5''),
     (''OptimismSepolia'', ''0xA8b1d0520D556b4Ea115562D35077cAA2f13C6D6''),
     (''Plume'', ''0x6D87C7d416dFf428117b560A981d788E39707195''),
     (''Seievm'', ''0xdb66Dc163A03220661ca33B492c72a6a15B3a8cf''),
     (''Sepolia'', ''0xc2386453598811D88613331D52e2Ca4B2AEe16E4''),
     (''Unichain'', ''0xc41853C70bf70a2FFeE3ddd8f38D2b774Fe3E264''),
     (''XRPLEVM'', ''0x0fbDaE31440f5549e2F08193b5B034F2F9768304''),
     (''ZeroGravity'', ''0x69BeC29e71711B30F58585C0bb1622e7b47e3707'')])]"

definition nttManagerWithExecutorWithTokenAddresses :: "(string \<times> (string \<times> string) list) list" where
  "nttManagerWithExecutorWithTokenAddresses = [
   (''Mainnet'', [
     (''Tempo'', ''0x46d59af07A35751Deb45EC778150C7f0dFbb3d3a'')]),
   (''Testnet'', [
     (''Tempo'', ''0x3A91179E506A15ff91467e42f5B4bD4239c6eC68'')])]"

definition executorGasLimitOverrides :: "(string \<times> (string \<times> int) list) list" where
  "executorGasLimitOverrides = [
   (''Mainnet'', [(''Arbitrum'', 800000), (''CreditCoin'', 1500000), (''Monad'', 1000000), (''MegaETH'', 1000000), (''Seievm'', 1000000)]),
   (''Testnet'', [(''ArbitrumSepolia'', 800000), (''Seievm'', 1000000), (''Tempo'', 1500000)])]"

definition DEFAULT_EXECUTOR_GAS_LIMIT :: int where
  "DEFAULT_EXECUTOR_GAS_LIMIT = 500000"

definition lookup2 :: "(string \<times> (string \<times> 'v) list) list \<Rightarrow> string \<Rightarrow> string \<Rightarrow> 'v option" where
  "lookup2 table network chain = Option.bind (map_of table network) (\<lambda>row. map_of row chain)"

definition hasExecutorDeployed :: "string \<Rightarrow> string \<Rightarrow> bool" where
  "hasExecutorDeployed network chain \<longleftrightarrow> lookup2 nttManagerWithExecutorAddresses network chain \<noteq> None"

definition hasExecutorWithTokenDeployed :: "string \<Rightarrow> string \<Rightarrow> bool" where
  "hasExecutorWithTokenDeployed network chain \<longleftrightarrow>
     lookup2 nttManagerWithExecutorWithTokenAddresses network chain \<noteq> None"

definition estimateMsgValueAndGasLimit :: "string \<Rightarrow> string \<Rightarrow> int \<times> int" where
  "estimateMsgValueAndGasLimit network chain =
     (0, case lookup2 executorGasLimitOverrides network chain of Some g \<Rightarrow> g | None \<Rightarrow> DEFAULT_EXECUTOR_GAS_LIMIT)"

record executor_object =
  xo_network :: string
  xo_chain :: string
  xo_executorAddress :: "string option"
  xo_executorWithTokenAddress :: "string option"

definition newExecutor :: "string \<Rightarrow> string \<Rightarrow> executor_object" where
  "newExecutor network chain =
     \<lparr>xo_network = network, xo_chain = chain,
      xo_executorAddress = lookup2 nttManagerWithExecutorAddresses network chain,
      xo_executorWithTokenAddress = lookup2 nttManagerWithExecutorWithTokenAddresses network chain\<rparr>"

definition truthyText :: "string option \<Rightarrow> bool" where
  "truthyText s \<longleftrightarrow> s \<noteq> None \<and> s \<noteq> Some []"

definition feeTokenOf :: "('a, 'q) exec_quote \<Rightarrow> string option" where
  "feeTokenOf q = map_option fst (eq_feeToken q)"

definition requireShimAddress :: "executor_object \<Rightarrow> ('a, 'q) exec_quote \<Rightarrow> evm_error + string" where
  "requireShimAddress x q =
     (if truthyText (feeTokenOf q)
      then (if \<not> truthyText (xo_executorWithTokenAddress x) then Inl (NoExecutorWithToken (xo_chain x))
            else Inr (the (xo_executorWithTokenAddress x)))
      else if \<not> truthyText (xo_executorAddress x) then Inl (NoExecutorAddress (xo_chain x))
      else Inr (the (xo_executorAddress x)))"

definition txDescription :: "bool \<Rightarrow> bool \<Rightarrow> string" where
  "txDescription isTokenFee wrap =
     (if isTokenFee
      then (if wrap then ''NttWithExecutorWithToken.transferETH'' else ''NttWithExecutorWithToken.transfer'')
      else (if wrap then ''NttWithExecutor.transferETH'' else ''NttWithExecutor.transfer''))"

section \<open>The transfer\<close>

definition approveIfNeeded :: "('w, 'a) evm_env \<Rightarrow> evm_ntt \<Rightarrow> string \<Rightarrow> string \<Rightarrow> string \<Rightarrow> int
    \<Rightarrow> ('w, evm_tx, evm_error, unit) process" where
  "approveIfNeeded env ntt senderAddress spender tokenAddress requiredAmount =
     approval env (en_chainId ntt) None ''Ntt.Approve'' tokenAddress senderAddress spender requiredAmount"

text \<open>The arguments for the relayer: on the path with a fee in a token no native value is forwarded.\<close>

definition executorArgs :: "('a, 'q) exec_quote \<Rightarrow> string \<Rightarrow> executor_args" where
  "executorArgs q senderAddress =
     \<lparr>xa_value = (if feeTokenOf q \<noteq> None then 0 else eq_estimatedCost q),
      xa_feeToken = map_option (\<lambda>token. (eq_estimatedCost q, token)) (feeTokenOf q),
      xa_refundAddress = senderAddress, xa_signedQuote = eq_signedQuote q, xa_instructions = eq_relayInstructions q\<rparr>"

definition sameTokenAsFee :: "('a, 'q) exec_quote \<Rightarrow> evm_ntt \<Rightarrow> bool" where
  "sameTokenAsFee q ntt =
     (case feeTokenOf q of None \<Rightarrow> False | Some token \<Rightarrow> toLowerCase token = toLowerCase (en_tokenAddress ntt))"

definition feeApproval :: "('w, 'a) evm_env \<Rightarrow> evm_ntt \<Rightarrow> string \<Rightarrow> string \<Rightarrow> ('a, 'q) exec_quote \<Rightarrow> bool
    \<Rightarrow> ('w, evm_tx, evm_error, unit) process" where
  "feeApproval env ntt senderAddress shimAddress q mergeFeeIntoBridgedApproval =
     (case feeTokenOf q of
        Some token \<Rightarrow> if mergeFeeIntoBridgedApproval then returning (Inr ())
          else approveIfNeeded env ntt senderAddress shimAddress token (eq_estimatedCost q)
      | None \<Rightarrow> returning (Inr ()))"

definition shimOptions :: evm_options where
  "shimOptions = \<lparr>eo_queue = False, eo_automatic = False, eo_wrapNative = False\<rparr>"

definition commonArgs :: "('w, 'a) evm_env \<Rightarrow> evm_ntt \<Rightarrow> 'a chain_address \<Rightarrow> ('a, 'q) exec_quote \<Rightarrow> bytes \<Rightarrow> bytes
    \<Rightarrow> bytes \<Rightarrow> executor_args \<Rightarrow> fee_args \<Rightarrow> shim_args" where
  "commonArgs env ntt destination q recipient refundAddress instructions xargs feeArgs =
     \<lparr>sh_nttManager = en_managerAddress ntt, sh_amount = eq_remainingAmount q,
      sh_recipientChain = ev_toChainId env (rt_chain destination), sh_recipient = recipient,
      sh_refundAddress = refundAddress, sh_encodedInstructions = instructions,
      sh_executorArgs = xargs, sh_feeArgs = feeArgs\<rparr>"

definition shimTx :: "('w, 'a) evm_env \<Rightarrow> evm_ntt \<Rightarrow> string \<Rightarrow> ('a, 'q) exec_quote \<Rightarrow> bool \<Rightarrow> evm_call \<Rightarrow> int
    \<Rightarrow> ('w, evm_tx, evm_error, unit) process" where
  "shimTx env ntt shimAddress q wrap call msgValue =
     proceed (populate env call) (\<lambda>c. sending (ev_deliver env)
       (createUnsignedTx ntt shimAddress c msgValue None (txDescription (feeTokenOf q \<noteq> None) wrap)))"

text \<open>
  With \<open>wrap\<close> the source token is the native one, which the shim deposits: the referrer's fee in the
  token is then paid from the value, and no approval of the token is needed.
\<close>

definition payAndCall :: "('w, 'a) evm_env \<Rightarrow> evm_ntt \<Rightarrow> string \<Rightarrow> string \<Rightarrow> ('a, 'q) exec_quote \<Rightarrow> bool \<Rightarrow> int
    \<Rightarrow> (executor_args \<Rightarrow> fee_args \<Rightarrow> shim_args) \<Rightarrow> ('w, evm_tx, evm_error, unit) process" where
  "payAndCall env ntt senderAddress shimAddress q wrap deliveryPrice args =
     (let xargs = executorArgs q senderAddress;
          payee = ev_text env (rt_address (eq_referrer q));
          mergeFeeIntoBridgedApproval = sameTokenAsFee q ntt \<and> \<not> wrap in
      proceed (feeApproval env ntt senderAddress shimAddress q mergeFeeIntoBridgedApproval) (\<lambda>_.
      if wrap
      then
        (let combinedNativeFee = eq_nativeTokenFee q + eq_transferTokenFee q in
         shimTx env ntt shimAddress q wrap
           (ShimTransferETH (args xargs
             \<lparr>fa_transferTokenFee = 0, fa_nativeTokenFee = combinedNativeFee, fa_payee = payee\<rparr>))
           (deliveryPrice + xa_value xargs + combinedNativeFee + eq_remainingAmount q))
      else
        proceed (approveIfNeeded env ntt senderAddress shimAddress (en_tokenAddress ntt)
            (eq_remainingAmount q + eq_transferTokenFee q +
             (if mergeFeeIntoBridgedApproval then eq_estimatedCost q else 0))) (\<lambda>_.
        shimTx env ntt shimAddress q wrap
          (ShimTransfer (args xargs
            \<lparr>fa_transferTokenFee = eq_transferTokenFee q, fa_nativeTokenFee = eq_nativeTokenFee q, fa_payee = payee\<rparr>))
          (deliveryPrice + xa_value xargs + eq_nativeTokenFee q))))"

definition shimTransfer :: "('w, 'a) evm_env \<Rightarrow> 'w evm_reads \<Rightarrow> executor_object \<Rightarrow> 'a \<Rightarrow> 'a chain_address
    \<Rightarrow> ('a, 'q) exec_quote \<Rightarrow> evm_ntt \<Rightarrow> bool \<Rightarrow> ('w, evm_tx, evm_error, unit) process" where
  "shimTransfer env rd x sender destination q ntt0 wrap =
     proceed (returning (requireShimAddress x q)) (\<lambda>shimAddress.
     proceed (returning (thrownE (ev_address env sender))) (\<lambda>senderAddress.
     proceed (quoteDeliveryPrice env rd ntt0 (rt_chain destination) shimOptions) (\<lambda>(ntt, deliveryPrice).
     proceed (returning (thrownE (ev_universal env (rt_address destination)))) (\<lambda>recipient.
     proceed (returning (thrownE (ev_universal env sender))) (\<lambda>refundAddress.
     proceed (returning (encodeInstructions env (encodeOptions ntt shimOptions))) (\<lambda>instructions.
     payAndCall env ntt senderAddress shimAddress q wrap deliveryPrice
       (commonArgs env ntt destination q recipient refundAddress instructions)))))))"

section \<open>What a transfer costs\<close>

lemma delivers_approveIfNeeded [delivery_intros]:
  "delivers (ev_deliver env) (approveIfNeeded env ntt owner spender token n)"
  unfolding approveIfNeeded_def by (intro delivery_intros)

lemma delivers_feeApproval [delivery_intros]: "delivers (ev_deliver env) (feeApproval env ntt owner spender q m)"
  unfolding feeApproval_def by (auto intro: delivery_intros split: option.split)

lemma delivers_shimTransfer: "delivers (ev_deliver env) (shimTransfer env rd x sender dst q ntt0 wrap)"
  unfolding shimTransfer_def payAndCall_def shimTx_def Let_def by (intro delivery_intros)

lemma shimTx_Inr:
  "shimTx env ntt shim q wrap call n w = (ys, Inr u, w') \<longleftrightarrow> ev_rejects env call = None \<and>
     ys = [createUnsignedTx ntt shim call n None (txDescription (feeTokenOf q \<noteq> None) wrap)] \<and>
     w' = ev_deliver env (createUnsignedTx ntt shim call n None (txDescription (feeTokenOf q \<noteq> None) wrap)) w"
  by (auto simp: shimTx_def process_simps)

text \<open>The approvals a shim may ask for.\<close>

definition approvalsFor :: "string \<Rightarrow> evm_tx list \<Rightarrow> bool" where
  "approvalsFor spender txs \<longleftrightarrow> list_all (\<lambda>tx. (\<exists>n. tx_call tx = Approve spender n) \<and> tx_value tx = 0) txs"

lemma approveIfNeeded_covers:
  assumes "erc20Laws env signer" "approveIfNeeded env ntt signer spender token n w = (ys, Inr u, w')"
  shows "allowed env w' token signer spender n" "approvalsFor spender ys"
    and "\<not> sameAddress t token \<Longrightarrow> allowed env w t signer spender k \<Longrightarrow> allowed env w' t signer spender k"
  using approval_covers [OF assms(1), of "en_chainId ntt" None "''Ntt.Approve''" token spender n w ys u w'] assms(2)
  by (auto simp: approveIfNeeded_def approvalsFor_def allowed_def)

lemma feeApproval_covers:
  assumes "erc20Laws env signer" "feeApproval env ntt signer spender q m w = (ys, Inr u, w')"
  shows "approvalsFor spender ys"
    and "feeTokenOf q = Some token \<Longrightarrow> \<not> m \<Longrightarrow> allowed env w' token signer spender (eq_estimatedCost q)"
  using assms approveIfNeeded_covers [OF assms(1), of ntt spender token "eq_estimatedCost q" w ys u w']
    approveIfNeeded_covers(2) [OF assms(1), of ntt spender _ "eq_estimatedCost q" w ys u w']
  by (auto simp: feeApproval_def process_simps approvalsFor_def split: option.splits if_splits)

lemma approvalsFor_append [simp]: "approvalsFor s (xs @ ys) \<longleftrightarrow> approvalsFor s xs \<and> approvalsFor s ys"
  by (simp add: approvalsFor_def)

lemma approvalsFor_Nil [simp]: "approvalsFor s []"
  by (simp add: approvalsFor_def)

text \<open>The arguments the shim is called with.\<close>

definition shimArgs :: "('w, 'a) evm_env \<Rightarrow> evm_ntt \<Rightarrow> string \<Rightarrow> 'a chain_address \<Rightarrow> ('a, 'q) exec_quote \<Rightarrow> bool
    \<Rightarrow> shim_args \<Rightarrow> bool" where
  "shimArgs env ntt signer dst q wrap args \<longleftrightarrow>
     sh_nttManager args = en_managerAddress ntt \<and> sh_amount args = eq_remainingAmount q \<and>
     sh_recipientChain args = ev_toChainId env (rt_chain dst) \<and>
     ev_universal env (rt_address dst) = Inr (sh_recipient args) \<and>
     encodeTransceiverInstructions (ev_serializeIx env) (encodeOptions ntt shimOptions) = Inr (sh_encodedInstructions args) \<and>
     sh_executorArgs args = executorArgs q signer \<and>
     fa_transferTokenFee (sh_feeArgs args) = (if wrap then 0 else eq_transferTokenFee q) \<and>
     fa_nativeTokenFee (sh_feeArgs args) = eq_nativeTokenFee q + (if wrap then eq_transferTokenFee q else 0) \<and>
     fa_payee (sh_feeArgs args) = ev_text env (rt_address (eq_referrer q))"

definition shimValue :: "('a, 'q) exec_quote \<Rightarrow> bool \<Rightarrow> int \<Rightarrow> int" where
  "shimValue q wrap price = price + (if feeTokenOf q = None then eq_estimatedCost q else 0) + eq_nativeTokenFee q +
     (if wrap then eq_transferTokenFee q + eq_remainingAmount q else 0)"

lemma shimArgs_commonArgs:
  assumes "ev_universal env (rt_address dst) = Inr recipient"
    and "encodeTransceiverInstructions (ev_serializeIx env) (encodeOptions ntt shimOptions) = Inr ixs"
    and "fa_transferTokenFee f = (if wrap then 0 else eq_transferTokenFee q)"
    and "fa_nativeTokenFee f = eq_nativeTokenFee q + (if wrap then eq_transferTokenFee q else 0)"
    and "fa_payee f = ev_text env (rt_address (eq_referrer q))"
  shows "shimArgs env ntt signer dst q wrap (commonArgs env ntt dst q recipient refund ixs (executorArgs q signer) f)"
  using assms by (simp add: shimArgs_def commonArgs_def)

text \<open>The call of the shim, with the fee arguments of the two paths.\<close>

definition feeArgsOf :: "('w, 'a) evm_env \<Rightarrow> ('a, 'q) exec_quote \<Rightarrow> bool \<Rightarrow> fee_args" where
  "feeArgsOf env q wrap =
     \<lparr>fa_transferTokenFee = (if wrap then 0 else eq_transferTokenFee q),
      fa_nativeTokenFee = eq_nativeTokenFee q + (if wrap then eq_transferTokenFee q else 0),
      fa_payee = ev_text env (rt_address (eq_referrer q))\<rparr>"

lemma xa_value_executorArgs:
  "xa_value (executorArgs q s) = (if feeTokenOf q = None then eq_estimatedCost q else 0)"
  by (simp add: executorArgs_def)

lemma payAndCall_Inr:
  assumes "payAndCall env ntt signer shim q wrap price args w = (ys, Inr (), w')"
  obtains as w1 bs w2 where
    "feeApproval env ntt signer shim q (sameTokenAsFee q ntt \<and> \<not> wrap) w = (as, Inr (), w1)"
    "if wrap then bs = [] \<and> w2 = w1
     else approveIfNeeded env ntt signer shim (en_tokenAddress ntt) (eq_remainingAmount q + eq_transferTokenFee q +
       (if sameTokenAsFee q ntt then eq_estimatedCost q else 0)) w1 = (bs, Inr (), w2)"
    "ys = (as @ bs) @ [createUnsignedTx ntt shim
       ((if wrap then ShimTransferETH else ShimTransfer) (args (executorArgs q signer) (feeArgsOf env q wrap)))
       (shimValue q wrap price) None (txDescription (feeTokenOf q \<noteq> None) wrap)]"
proof (cases wrap)
  case True
  with assms show thesis
    by (auto simp: payAndCall_def Let_def process_simps shimTx_Inr shimValue_def xa_value_executorArgs feeArgsOf_def add.assoc
        intro!: that [of _ _ "[]"])
next
  case False
  with assms show thesis
    by (auto simp: payAndCall_def Let_def process_simps shimTx_Inr shimValue_def xa_value_executorArgs feeArgsOf_def add.assoc
        intro!: that)
qed

lemma shimTransfer_Inr:
  assumes "ev_address env sender = Inr signer"
    and "shimTransfer env rd x sender dst q ntt0 wrap w = (ys, Inr (), w')"
  obtains shim ntt price recipient refund ixs where
    "requireShimAddress x q = Inr shim" "ntt = initTransceiverIndices rd w ntt0"
    "priceOf env rd w ntt (rt_chain dst) shimOptions price"
    "shimArgs env ntt signer dst q wrap (commonArgs env ntt dst q recipient refund ixs (executorArgs q signer) (feeArgsOf env q wrap))"
    "payAndCall env ntt signer shim q wrap price (commonArgs env ntt dst q recipient refund ixs) w = (ys, Inr (), w')"
  using assms
  by (auto simp: shimTransfer_def process_simps feeArgsOf_def dest!: quoteDeliveryPrice_Inr
      intro!: that shimArgs_commonArgs)

lemma shimTransfer_pays:
  assumes laws: "erc20Laws env signer" and sender: "ev_address env sender = Inr signer"
    and run: "shimTransfer env rd x sender dst q ntt0 wrap w = (ys, Inr (), w')"
  obtains shim ntt price args pre t where
    "requireShimAddress x q = Inr shim" "ntt = initTransceiverIndices rd w ntt0"
    "priceOf env rd w ntt (rt_chain dst) shimOptions price" "shimArgs env ntt signer dst q wrap args"
    "ys = pre @ [t]" "approvalsFor shim pre" "tx_to t = shim" "tx_value t = shimValue q wrap price"
    "tx_call t = (if wrap then ShimTransferETH args else ShimTransfer args)"
    "\<not> wrap \<Longrightarrow> allowed env (fold (ev_deliver env) pre w) (en_tokenAddress ntt) signer shim
       (eq_remainingAmount q + eq_transferTokenFee q + (if sameTokenAsFee q ntt then eq_estimatedCost q else 0))"
    "\<And>token. feeTokenOf q = Some token \<Longrightarrow> wrap \<or> \<not> sameTokenAsFee q ntt \<Longrightarrow>
       allowed env (fold (ev_deliver env) pre w) token signer shim (eq_estimatedCost q)"
proof (rule shimTransfer_Inr [OF sender run])
  fix shim ntt price recipient refund ixs
  let ?args = "commonArgs env ntt dst q recipient refund ixs (executorArgs q signer) (feeArgsOf env q wrap)"
  let ?t = "createUnsignedTx ntt shim ((if wrap then ShimTransferETH else ShimTransfer) ?args) (shimValue q wrap price) None
    (txDescription (feeTokenOf q \<noteq> None) wrap)"
  assume top: "requireShimAddress x q = Inr shim" "ntt = initTransceiverIndices rd w ntt0"
    "priceOf env rd w ntt (rt_chain dst) shimOptions price" "shimArgs env ntt signer dst q wrap ?args"
  assume "payAndCall env ntt signer shim q wrap price (commonArgs env ntt dst q recipient refund ixs) w = (ys, Inr (), w')"
  then obtain as w1 bs w2 where
    fee: "feeApproval env ntt signer shim q (sameTokenAsFee q ntt \<and> \<not> wrap) w = (as, Inr (), w1)" and
    bridged: "if wrap then bs = [] \<and> w2 = w1
     else approveIfNeeded env ntt signer shim (en_tokenAddress ntt) (eq_remainingAmount q + eq_transferTokenFee q +
       (if sameTokenAsFee q ntt then eq_estimatedCost q else 0)) w1 = (bs, Inr (), w2)" and
    ys: "ys = (as @ bs) @ [?t]"
    by (rule payAndCall_Inr)
  have w2: "w2 = fold (ev_deliver env) (as @ bs) w"
    using delivers_world [OF delivers_feeApproval fee] bridged
      delivers_world [OF delivers_approveIfNeeded, of env ntt signer shim "en_tokenAddress ntt"]
    by (auto split: if_splits)
  have bs: "approvalsFor shim bs"
    using bridged approveIfNeeded_covers(2) [OF laws, of ntt shim "en_tokenAddress ntt" _ w1 bs "()" w2]
    by (auto split: if_splits)
  have keep: "allowed env w1 token signer shim n \<Longrightarrow> allowed env w2 token signer shim n"
    if "wrap \<or> \<not> sameAddress token (en_tokenAddress ntt)" for token n
    using bridged that approveIfNeeded_covers(3) [OF laws, of ntt shim "en_tokenAddress ntt" _ w1 bs "()" w2]
    by (auto split: if_splits)
  show thesis
  proof (rule that [OF top ys])
    show "approvalsFor shim (as @ bs)" using feeApproval_covers(1) [OF laws fee] bs by simp
    show "\<not> wrap \<Longrightarrow> allowed env (fold (ev_deliver env) (as @ bs) w) (en_tokenAddress ntt) signer shim
        (eq_remainingAmount q + eq_transferTokenFee q + (if sameTokenAsFee q ntt then eq_estimatedCost q else 0))"
      using bridged approveIfNeeded_covers(1) [OF laws, of ntt shim "en_tokenAddress ntt" _ w1 bs "()" w2]
      by (simp add: w2)
    fix token assume t: "feeTokenOf q = Some token" "wrap \<or> \<not> sameTokenAsFee q ntt"
    then have "allowed env w1 token signer shim (eq_estimatedCost q)"
      using feeApproval_covers(2) [OF laws fee] by blast
    then show "allowed env (fold (ev_deliver env) (as @ bs) w) token signer shim (eq_estimatedCost q)"
      using t keep by (auto simp: w2 sameTokenAsFee_def sameAddress_def)
  qed (simp_all add: createUnsignedTx_def)
qed


section \<open>An example transfer\<close>

definition optionText :: "string option \<Rightarrow> string" where
  "optionText a = (case a of None \<Rightarrow> ''native'' | Some s \<Rightarrow> s)"

definition exampleShim :: executor_object where
  "exampleShim = \<lparr>xo_network = ''Mainnet'', xo_chain = ''Ethereum'', xo_executorAddress = None,
     xo_executorWithTokenAddress = Some ''0x5a''\<rparr>"

definition exampleShimTransfer :: "evm_tx list \<times> (evm_error + unit) \<times> ledger" where
  "exampleShimTransfer = shimTransfer (ledgerEnv optionText) exampleReads exampleShim (Some ''0x11'')
     \<lparr>rt_chain = ''Base'', rt_address = Some ''bob''\<rparr> exampleQuote exampleNtt False (\<lambda>_ _. 40)"

lemma exampleQuote_fee: "feeTokenOf exampleQuote = Some ''0xef''"
  by (simp add: feeTokenOf_def exampleQuote_def)

lemma exampleQuote_amounts:
  "eq_remainingAmount exampleQuote = 5000" "eq_transferTokenFee exampleQuote = 0" "eq_nativeTokenFee exampleQuote = 0"
  "eq_estimatedCost exampleQuote = 7"
  by (simp_all add: exampleQuote_def)

lemma exampleQuote_separate: "\<not> sameTokenAsFee exampleQuote exampleNtt"
proof -
  have "toLowerCase ''0xef'' \<noteq> toLowerCase ''0x70''" by code_simp
  then show ?thesis by (simp add: sameTokenAsFee_def exampleQuote_fee)
qed

lemma exampleShimTransfer_returns: "exampleShimTransfer = (fst exampleShimTransfer, Inr (), snd (snd exampleShimTransfer))"
proof -
  have "\<exists>ys w'. exampleShimTransfer = (ys, Inr (), w')"
    unfolding exampleShimTransfer_def shimTransfer_def payAndCall_def feeApproval_def approveIfNeeded_def approval_def
      shimTx_def
    by (simp add: process_simps example_price example_instructions thrownE_def requireShimAddress_def truthyText_def
        exampleQuote_fee exampleQuote_separate exampleQuote_amounts exampleShim_def shimOptions_def example_address
        Let_def)
  then show ?thesis by (metis fst_conv snd_conv)
qed


end
