(* ===== verification/Route_Multi.thy ===== *)
theory Route_Multi
  imports Route_Track
begin

text \<open>
  The multi-token routes, the namespace \<open>MultiTokenNttRoute\<close> of \<open>sdk/route/src/types.ts\<close>: tokens on
  the other chain, gas limits, rate limits, completing and finalizing a transfer, resuming one from
  its transaction, and the tracking loop over several transceivers. The protocol handle of a chain
  is \<open>'n\<close>, an address \<open>'a\<close>, an original token id \<open>'o\<close> (\<open>None\<close> stands for \<open>null\<close>), the metadata of
  a token \<open>'m\<close> and a VAA \<open>'v\<close>. Each pass of the loop reads the world through a record of answers.
\<close>

section \<open>Contracts and tokens\<close>

datatype gas_multiplier = AutoMultiplier | Multiplier rat

record multi_contracts =
  mc_chain :: string
  mc_manager :: string
  mc_gmpManager :: string
  mc_axelarGasMultiplier :: "gas_multiplier option"

datatype multi_error =
    MultiThrown string
  | NoMultiContracts string
  | NotOnSourceChain
  | NotWrapped
  | InvalidSourceManager
  | SourceTokenNotFound
  | MultiTrack track_error

text \<open>What the routes call on the protocol handle of a chain.\<close>

record ('n, 'a, 'o, 'm, 'v) multi_ntt =
  mn_protocol :: "string \<Rightarrow> multi_contracts \<Rightarrow> string + 'n"
  mn_wrappedNative :: "'n \<Rightarrow> string + 'a route_token"
  mn_originalToken :: "'n \<Rightarrow> 'a route_token \<Rightarrow> string + 'o option"
  mn_localToken :: "'n \<Rightarrow> 'o option \<Rightarrow> string + 'a route_token option"
  mn_tokenMeta :: "'n \<Rightarrow> 'a route_token \<Rightarrow> string + 'm"
  mn_localAddress :: "'n \<Rightarrow> 'o option \<Rightarrow> 'm \<Rightarrow> string + 'a"
  mn_estimateGasLimit :: "'n \<Rightarrow> 'o option \<Rightarrow> string + int"
  mn_inboundLimit :: "'n \<Rightarrow> 'o option \<Rightarrow> string \<Rightarrow> string + int option"
  mn_inboundCapacity :: "'n \<Rightarrow> 'o option \<Rightarrow> string \<Rightarrow> string + int"
  mn_isWrappedToken :: "'n \<Rightarrow> 'a route_token \<Rightarrow> string + bool"
  mn_sameToken :: "'a route_token \<Rightarrow> 'a route_token \<Rightarrow> bool"
  mn_metaDecimals :: "'m \<Rightarrow> nat"
  mn_addressText :: "'a \<Rightarrow> string"
  mn_originalChain :: "'o \<Rightarrow> string"
  mn_originalNative :: "'o \<Rightarrow> 'a"
  mn_sendTransceivers :: "'n \<Rightarrow> string \<Rightarrow> string + (string \<times> nat) list"

definition thrownM :: "string + 'x \<Rightarrow> multi_error + 'x" where
  "thrownM r = (case r of Inl e \<Rightarrow> Inl (MultiThrown e) | Inr v \<Rightarrow> Inr v)"

definition resolveMultiChains :: "multi_contracts list \<Rightarrow> string list" where
  "resolveMultiChains contracts = map mc_chain contracts"

definition resolveContracts :: "multi_contracts list \<Rightarrow> string \<Rightarrow> multi_error + multi_contracts" where
  "resolveContracts contracts chain =
     (case find (\<lambda>c. mc_chain c = chain) contracts of
        None \<Rightarrow> Inl (NoMultiContracts chain)
      | Some cfg \<Rightarrow> Inr cfg)"

definition protocolOn :: "('n, 'a, 'o, 'm, 'v) multi_ntt \<Rightarrow> multi_contracts list \<Rightarrow> string \<Rightarrow> multi_error + 'n" where
  "protocolOn api contracts chain =
     andThen (resolveContracts contracts chain) (\<lambda>c. thrownM (mn_protocol api chain c))"

datatype 'a destination_token =
    LocalToken "'a route_token"
  | UnattestedToken string 'a nat "string \<times> string"

definition getDestinationTokenId :: "'a route_sdk \<Rightarrow> ('n, 'a, 'o, 'm, 'v) multi_ntt \<Rightarrow> 'a route_token
    \<Rightarrow> string \<Rightarrow> string \<Rightarrow> multi_contracts list \<Rightarrow> 'o option \<Rightarrow> multi_error + 'a destination_token" where
  "getDestinationTokenId sdk api sourceToken fromChain toChain contracts originalToken =
     (if rt_chain sourceToken \<noteq> fromChain then Inl NotOnSourceChain
      else
        andThen (protocolOn api contracts fromChain) (\<lambda>sourceNtt.
        andThen (protocolOn api contracts toChain) (\<lambda>destinationNtt.
        andThen (if isNative sdk (rt_address sourceToken) then thrownM (mn_wrappedNative api sourceNtt)
                 else Inr sourceToken) (\<lambda>sourceToken.
        andThen (case originalToken of
                   Some o1 \<Rightarrow> Inr (Some o1)
                 | None \<Rightarrow> thrownM (mn_originalToken api sourceNtt sourceToken)) (\<lambda>originalToken.
        andThen (thrownM (mn_localToken api destinationNtt originalToken)) (\<lambda>destinationToken.
        case destinationToken of
          Some dst \<Rightarrow>
            andThen (thrownM (mn_wrappedNative api destinationNtt)) (\<lambda>wrappedNativeToken.
            Inr (LocalToken (if mn_sameToken api wrappedNativeToken dst then nativeTokenId sdk toChain else dst)))
        | None \<Rightarrow>
            andThen (thrownM (mn_tokenMeta api sourceNtt sourceToken)) (\<lambda>tokenMeta.
            andThen (thrownM (mn_localAddress api destinationNtt originalToken tokenMeta)) (\<lambda>address.
            Inr (UnattestedToken toChain address (mn_metaDecimals api tokenMeta)
                   (rt_chain sourceToken, mn_addressText api (rt_address sourceToken)))))))))))"

text \<open>
  Overrides of the gas limit, by chain and by the canonical address of the destination token; an
  entry may leave the limit out.
\<close>

type_synonym gas_overrides = "(string \<times> (string \<times> int option) list) list"

definition overriddenGasLimit :: "gas_overrides option \<Rightarrow> string \<Rightarrow> string \<Rightarrow> int option" where
  "overriddenGasLimit overrides chain address =
     Option.bind overrides (\<lambda>o1. Option.bind (map_of o1 chain) (\<lambda>m. Option.bind (map_of m address) id))"

definition estimateGasLimit :: "'a route_sdk \<Rightarrow> ('n, 'a, 'o, 'm, 'v) multi_ntt \<Rightarrow> 'a route_token \<Rightarrow> string
    \<Rightarrow> 'o option \<Rightarrow> multi_contracts list \<Rightarrow> gas_overrides option \<Rightarrow> multi_error + int" where
  "estimateGasLimit sdk api destination toChain originalTokenId contracts overrides =
     (case overriddenGasLimit overrides (rt_chain destination) (canonicalToken sdk destination) of
        Some gasLimit \<Rightarrow> Inr gasLimit
      | None \<Rightarrow>
          andThen (protocolOn api contracts toChain) (\<lambda>destinationNtt.
          thrownM (mn_estimateGasLimit api destinationNtt originalTokenId)))"

record 'm rate_limit =
  rl_delay :: "int option"
  rl_currentCapacity :: "'m option"

text \<open>\<open>rl_delay\<close> is the delay of the \<open>DestinationCapacityWarning\<close>, if there is one.\<close>

definition checkRateLimit :: "'x amount_sdk \<Rightarrow> ('n, 'a, 'o, 'm, 'v) multi_ntt \<Rightarrow> 'n \<Rightarrow> string \<Rightarrow> 'o option
    \<Rightarrow> 'x \<Rightarrow> int \<Rightarrow> multi_error + 'x rate_limit" where
  "checkRateLimit amt api destinationNtt fromChain originalTokenId receivedAmount duration =
     (if 0 < duration
      then andThen (thrownM (mn_inboundLimit api destinationNtt originalTokenId fromChain)) (\<lambda>inboundLimit.
           case inboundLimit of
             None \<Rightarrow> Inr \<lparr>rl_delay = None, rl_currentCapacity = None\<rparr>
           | Some _ \<Rightarrow>
               andThen (thrownM (mn_inboundCapacity api destinationNtt originalTokenId fromChain)) (\<lambda>capacity.
               Inr \<lparr>rl_delay = (if isCapacityThresholdExceeded (amountUnits amt receivedAmount) capacity
                               then Some duration else None),
                    rl_currentCapacity =
                      Some (fromBaseUnits amt capacity (amountDecimals amt receivedAmount))\<rparr>))
      else Inr \<lparr>rl_delay = None, rl_currentCapacity = None\<rparr>)"

definition isWrappedToken :: "('n, 'a, 'o, 'm, 'v) multi_ntt \<Rightarrow> string \<Rightarrow> 'a route_token
    \<Rightarrow> multi_contracts list \<Rightarrow> multi_error + bool" where
  "isWrappedToken api chain token contracts =
     andThen (protocolOn api contracts chain) (\<lambda>ntt. thrownM (mn_isWrappedToken api ntt token))"

definition getOriginalToken :: "('n, 'a, 'o, 'm, 'v) multi_ntt \<Rightarrow> string \<Rightarrow> 'a route_token
    \<Rightarrow> multi_contracts list \<Rightarrow> multi_error + 'a route_token" where
  "getOriginalToken api chain token contracts =
     andThen (protocolOn api contracts chain) (\<lambda>ntt.
     andThen (thrownM (mn_originalToken api ntt token)) (\<lambda>originalToken.
     case originalToken of
       None \<Rightarrow> Inl NotWrapped
     | Some o1 \<Rightarrow> Inr \<lparr>rt_chain = mn_originalChain api o1, rt_address = mn_originalNative api o1\<rparr>))"

section \<open>Receipts\<close>

record transceiver_meta =
  tm_type :: string
  tm_index :: nat

text \<open>A receipt with the transceivers of the transfer and the record of those that attested.\<close>

record 'v multi_receipt = "'v receipt" +
  mr_sendTransceivers :: "transceiver_meta list"
  mr_transceiverAttested :: "(string \<times> bool) list"

definition attestedBy :: "('v, 'z) multi_receipt_scheme \<Rightarrow> string \<Rightarrow> bool" where
  "attestedBy r t = (map_of (mr_transceiverAttested r) t = Some True)"

definition markAttested :: "string \<Rightarrow> 'v multi_receipt \<Rightarrow> 'v multi_receipt" where
  "markAttested t r = r\<lparr>mr_transceiverAttested := AList.update t True (mr_transceiverAttested r)\<rparr>"

definition typeOf :: "transceiver_meta \<Rightarrow> string" where
  "typeOf t = toLowerCase (tm_type t)"

text \<open>The answers of the world during one pass.\<close>

record ('n, 'v) multi_env =
  me_message :: "string \<Rightarrow> string \<Rightarrow> string + string option"
  me_vaa :: "string \<Rightarrow> string + 'v option"
  me_destination :: "string \<Rightarrow> string + 'n"
  me_relays :: relay_api
  me_isApproved :: "'n \<Rightarrow> 'v \<Rightarrow> string + bool"
  me_attested :: "'n \<Rightarrow> string \<Rightarrow> 'v \<Rightarrow> nat \<Rightarrow> string + bool"
  me_queuedUntil :: "'n \<Rightarrow> 'v \<Rightarrow> string + nat option"
  me_isExecuted :: "'n \<Rightarrow> 'v \<Rightarrow> string + bool"

definition buildMultiComplete :: "state_tests \<Rightarrow> ('n, 'v) multi_env \<Rightarrow> ('n \<Rightarrow> 'v \<Rightarrow> 'x) \<Rightarrow> 'v multi_receipt
    \<Rightarrow> track_error + 'x option" where
  "buildMultiComplete T env redeem r =
     (if \<not> isAttested T (rc_state r) \<and> \<not> isFailed T (rc_state r)
      then (if isRedeemed T (rc_state r) then Inr None else Inl NotFinalized)
      else (case rc_attestation r of
              None \<Rightarrow> Inl NoAttestation
            | Some vaa \<Rightarrow>
                (case me_destination env (rc_to r) of
                   Inl e \<Rightarrow> Inl (TrackThrown e)
                 | Inr ntt \<Rightarrow>
                     (case find (\<lambda>t. typeOf t = ''wormhole'') (mr_sendTransceivers r) of
                        None \<Rightarrow> Inl NoWormholeTransceiverMeta
                      | Some wormhole \<Rightarrow>
                          (case me_attested env ntt (rc_from r) vaa (tm_index wormhole) of
                             Inl e \<Rightarrow> Inl (TrackThrown e)
                           | Inr attested \<Rightarrow> Inr (if attested then None else Some (redeem ntt vaa)))))))"

definition multiComplete :: "state_tests \<Rightarrow> ('n, 'v) multi_env \<Rightarrow> ('n \<Rightarrow> 'v \<Rightarrow> 'x) \<Rightarrow> ('x \<Rightarrow> string option)
    \<Rightarrow> 'v multi_receipt \<Rightarrow> track_error + 'v multi_receipt" where
  "multiComplete T env redeem send r =
     andThen (buildMultiComplete T env redeem r) (\<lambda>xfer.
     case xfer of
       None \<Rightarrow> Inr r
     | Some x \<Rightarrow> (case send x of Some e \<Rightarrow> Inl (TrackThrown e) | None \<Rightarrow> Inr r))"

definition multiFinalize :: "state_tests \<Rightarrow> ('n, 'v) multi_env \<Rightarrow> ('n \<Rightarrow> 'v \<Rightarrow> 'x)
    \<Rightarrow> ('x \<Rightarrow> string + string list) \<Rightarrow> 'v multi_receipt \<Rightarrow> track_error + 'v multi_receipt" where
  "multiFinalize T env completeQueued send r =
     (if \<not> isDestinationQueued T (rc_state r) then Inl NotQueued
      else (case rc_attestation r of
              None \<Rightarrow> Inl NoAttestation
            | Some vaa \<Rightarrow>
                (case me_destination env (rc_to r) of
                   Inl e \<Rightarrow> Inl (TrackThrown e)
                 | Inr ntt \<Rightarrow>
                     (case send (completeQueued ntt vaa) of
                        Inl e \<Rightarrow> Inl (TrackThrown e)
                      | Inr txids \<Rightarrow>
                          Inr (r\<lparr>rc_state := DestinationFinalized,
                                 rc_destinationTxs := Some (case rc_destinationTxs r of None \<Rightarrow> txids | Some old \<Rightarrow> old @ txids)\<rparr>)))))"

section \<open>The tracking loop\<close>

definition multiAttestStage :: "state_tests \<Rightarrow> ('n, 'v) multi_env \<Rightarrow> 'v multi_receipt
    \<Rightarrow> ('v multi_receipt, 'v multi_receipt) run" where
  "multiAttestStage T env r =
     (if isSourceInitiated T (rc_state r) \<or> isSourceFinalized T (rc_state r)
      then (if rc_originTxs r = [] then silent (Inl NoOriginTx)
            else (let txid = last (rc_originTxs r) in
              yielding (asking (me_message env (rc_from r) txid)) (\<lambda>msg.
              case msg of
                None \<Rightarrow> silent (Inl NoMessage)
              | Some m \<Rightarrow>
                  yielding (asking (me_vaa env m)) (\<lambda>vaa.
                  case vaa of
                    None \<Rightarrow> silent (Inl (NoVaa txid))
                  | Some v \<Rightarrow> emit (r\<lparr>rc_state := Attested, rc_attestation := Some v\<rparr>)))))
      else silent (Inr r))"

text \<open>\<open>sortedTransceivers\<close>: a stable sort that puts the Wormhole transceiver last.\<close>

definition sortedTransceivers :: "transceiver_meta list \<Rightarrow> transceiver_meta list" where
  "sortedTransceivers ts =
     filter (\<lambda>t. typeOf t \<noteq> ''wormhole'') ts @ filter (\<lambda>t. typeOf t = ''wormhole'') ts"

fun transceiverLoop :: "state_tests \<Rightarrow> ('n, 'v) multi_env \<Rightarrow> bool \<Rightarrow> 'n \<Rightarrow> 'v \<Rightarrow> transceiver_meta list
    \<Rightarrow> 'v multi_receipt \<Rightarrow> ('v multi_receipt, 'v multi_receipt) run" where
  "transceiverLoop T env isManual ntt vaa [] r = silent (Inr r)"
| "transceiverLoop T env isManual ntt vaa (t # ts) r =
     (if attestedBy r (typeOf t) then transceiverLoop T env isManual ntt vaa ts r
      else
        yielding (asking (me_attested env ntt (rc_from r) vaa (tm_index t))) (\<lambda>attested.
        if attested
        then (let r = markAttested (typeOf t) r in
          if isFailed T (rc_state r)
          then yielding (emit (r\<lparr>rc_state := Attested\<rparr>)) (transceiverLoop T env isManual ntt vaa ts)
          else transceiverLoop T env isManual ntt vaa ts r)
        else if typeOf t = ''wormhole''
        then yielding (silent (if isManual then Inr r else trackExecutor T (me_relays env) r)) emit
        else if typeOf t = ''axelar''
        then yielding (silent (trackAxelar T (me_relays env) r)) emit
        else silent (Inl (UnsupportedTransceiver (tm_type t)))))"

definition multiApprovedStage :: "state_tests \<Rightarrow> ('n, 'v) multi_env \<Rightarrow> bool \<Rightarrow> 'n \<Rightarrow> 'v multi_receipt
    \<Rightarrow> ('v multi_receipt, 'v multi_receipt) run" where
  "multiApprovedStage T env isManual ntt r =
     (if isAttested T (rc_state r) \<or> isFailed T (rc_state r)
      then (case rc_attestation r of
              None \<Rightarrow> silent (Inl NoAttestation)
            | Some vaa \<Rightarrow>
                yielding (asking (me_isApproved env ntt vaa)) (\<lambda>approved.
                if approved then emit (r\<lparr>rc_state := DestinationInitiated\<rparr>)
                else transceiverLoop T env isManual ntt vaa (sortedTransceivers (mr_sendTransceivers r)) r))
      else silent (Inr r))"

definition multiRedeemStage :: "state_tests \<Rightarrow> ('n, 'v) multi_env \<Rightarrow> 'n \<Rightarrow> 'v multi_receipt
    \<Rightarrow> ('v multi_receipt, 'v multi_receipt) run" where
  "multiRedeemStage T env ntt r =
     (if isRedeemed T (rc_state r) \<or> isDestinationQueued T (rc_state r)
      then (case rc_attestation r of
              None \<Rightarrow> silent (Inl NoAttestation)
            | Some vaa \<Rightarrow>
                yielding (asking (me_queuedUntil env ntt vaa)) (\<lambda>queued.
                case queued of
                  Some expiry \<Rightarrow>
                    silent (Inr (r\<lparr>rc_state := DestinationQueued, rc_queueReleaseTime := Some (expiry * 1000)\<rparr>))
                | None \<Rightarrow>
                    yielding (asking (me_isExecuted env ntt vaa)) (\<lambda>executed.
                    silent (Inr (if executed then r\<lparr>rc_state := DestinationFinalized\<rparr> else r)))))
      else silent (Inr r))"

definition multiPass :: "state_tests \<Rightarrow> ('n, 'v) multi_env \<Rightarrow> bool \<Rightarrow> 'v multi_receipt
    \<Rightarrow> ('v multi_receipt, 'v multi_receipt) run" where
  "multiPass T env isManual receipt =
     yielding (multiAttestStage T env receipt) (\<lambda>r.
     yielding (asking (me_destination env (rc_to r))) (\<lambda>ntt.
     yielding (multiApprovedStage T env isManual ntt r) (\<lambda>r.
     yielding (multiRedeemStage T env ntt r) emit)))"

text \<open>
  \<open>passes\<close> holds, for each pass, the answers it reads and the milliseconds it takes, its pause
  included. The loop ends with \<open>None\<close> when these run out before it is done.
\<close>

fun trackLoop :: "state_tests \<Rightarrow> bool \<Rightarrow> (('n, 'v) multi_env \<times> int) list \<Rightarrow> int \<Rightarrow> 'v multi_receipt
    \<Rightarrow> ('v multi_receipt, 'v multi_receipt option) run" where
  "trackLoop T isManual passes leftover r =
     (if \<not> (0 < leftover \<and> \<not> isCompleted T (rc_state r)) then silent (Inr (Some r))
      else (case passes of
              [] \<Rightarrow> silent (Inr None)
            | (env, elapsed) # rest \<Rightarrow>
                yielding (multiPass T env isManual r) (trackLoop T isManual rest (leftover - elapsed))))"

declare trackLoop.simps [simp del]

definition trackBudget :: "int option \<Rightarrow> int" where
  "trackBudget timeout =
     (case timeout of None \<Rightarrow> 60 * 60 * 1000 | Some t \<Rightarrow> if t = 0 then 60 * 60 * 1000 else t)"

definition trackMulti :: "state_tests \<Rightarrow> bool \<Rightarrow> int option \<Rightarrow> (('n, 'v) multi_env \<times> int) list
    \<Rightarrow> 'v multi_receipt \<Rightarrow> ('v multi_receipt, 'v multi_receipt option) run" where
  "trackMulti T isManual timeout passes r = trackLoop T isManual passes (trackBudget timeout) r"

section \<open>Wormhole comes last\<close>

definition wormholeLast :: "'v multi_receipt \<Rightarrow> bool" where
  "wormholeLast r \<longleftrightarrow>
     (if attestedBy r ''wormhole'' then list_all (\<lambda>t. attestedBy r (typeOf t)) (mr_sendTransceivers r)
      else True)"

text \<open>The answers of a pass that justify the receipts it yields.\<close>

definition multiAnswered :: "('n, 'v) multi_env \<Rightarrow> 'v multi_receipt \<Rightarrow> ('n \<Rightarrow> 'v \<Rightarrow> bool) \<Rightarrow> bool" where
  "multiAnswered env r P =
     (case (me_destination env (rc_to r), rc_attestation r) of (Inr n, Some v) \<Rightarrow> P n v | _ \<Rightarrow> False)"

definition relayHasFailed :: "relay_api \<Rightarrow> 'v multi_receipt \<Rightarrow> bool" where
  "relayHasFailed api r \<longleftrightarrow>
     (case fetchStatus api (last (rc_originTxs r)) (rc_from r) of
        Inr (Some s) \<Rightarrow> isRelayStatusFailed s | _ \<Rightarrow> False) \<or>
     (case axelarError api (rc_from r) (last (rc_originTxs r)) of Inr (Some _) \<Rightarrow> True | _ \<Rightarrow> False)"

definition stateJustified :: "('n, 'v) multi_env \<Rightarrow> 'v multi_receipt \<Rightarrow> 'v multi_receipt \<Rightarrow> bool" where
  "stateJustified env r0 r \<longleftrightarrow> rc_state r = rc_state r0 \<or>
     (case rc_state r of
        Attested \<Rightarrow> rc_state r0 \<in> {SourceInitiated, SourceFinalized, Failed}
      | Failed \<Rightarrow> relayHasFailed (me_relays env) r
      | DestinationInitiated \<Rightarrow> multiAnswered env r (\<lambda>n v. me_isApproved env n v = Inr True)
      | DestinationQueued \<Rightarrow>
          multiAnswered env r (\<lambda>n v. \<exists>t. me_queuedUntil env n v = Inr (Some t) \<and> rc_queueReleaseTime r = Some (t * 1000))
      | DestinationFinalized \<Rightarrow> multiAnswered env r (\<lambda>n v. me_isExecuted env n v = Inr True)
      | _ \<Rightarrow> False)"

definition attestedJustified :: "('n, 'v) multi_env \<Rightarrow> 'v multi_receipt \<Rightarrow> 'v multi_receipt \<Rightarrow> bool" where
  "attestedJustified env r0 r \<longleftrightarrow>
     (\<forall>t. (attestedBy r0 t \<longrightarrow> attestedBy r t) \<and>
       (attestedBy r t \<longrightarrow> attestedBy r0 t \<or> multiAnswered env r (\<lambda>n v.
          list_ex (\<lambda>m. typeOf m = t \<and> me_attested env n (rc_from r) v (tm_index m) = Inr True) (mr_sendTransceivers r))))"

definition passJustified :: "('n, 'v) multi_env \<Rightarrow> 'v multi_receipt \<Rightarrow> 'v multi_receipt \<Rightarrow> bool" where
  "passJustified env r0 r \<longleftrightarrow>
     rc_from r = rc_from r0 \<and> rc_to r = rc_to r0 \<and> rc_originTxs r = rc_originTxs r0 \<and>
     mr_sendTransceivers r = mr_sendTransceivers r0 \<and> wormholeLast r \<and>
     stateJustified env r0 r \<and> attestedJustified env r0 r"

lemma attestedBy_mark [simp]: "attestedBy (markAttested t r) u \<longleftrightarrow> u = t \<or> attestedBy r u"
  by (simp add: attestedBy_def markAttested_def update_conv)

lemma attestedBy_update [simp]:
  "attestedBy (r\<lparr>rc_state := s\<rparr>) = attestedBy r" "attestedBy (r\<lparr>rc_error := e\<rparr>) = attestedBy r"
  "attestedBy (r\<lparr>rc_attestation := a\<rparr>) = attestedBy r"
  "attestedBy (r\<lparr>rc_queueReleaseTime := q\<rparr>) = attestedBy r"
  by (simp_all add: attestedBy_def fun_eq_iff)

lemma markAttested_fields [simp]:
  "rc_from (markAttested t r) = rc_from r" "rc_to (markAttested t r) = rc_to r"
  "rc_originTxs (markAttested t r) = rc_originTxs r" "rc_state (markAttested t r) = rc_state r"
  "rc_attestation (markAttested t r) = rc_attestation r"
  "mr_sendTransceivers (markAttested t r) = mr_sendTransceivers r"
  by (simp_all add: markAttested_def)

lemma wormholeLast_update [simp]:
  "wormholeLast (r\<lparr>rc_state := s\<rparr>) = wormholeLast r" "wormholeLast (r\<lparr>rc_error := e\<rparr>) = wormholeLast r"
  "wormholeLast (r\<lparr>rc_attestation := a\<rparr>) = wormholeLast r"
  "wormholeLast (r\<lparr>rc_queueReleaseTime := q\<rparr>) = wormholeLast r"
  by (simp_all add: wormholeLast_def)

text \<open>
  What the loop over the transceivers keeps: those it has passed have attested, and behind a
  Wormhole transceiver only Wormhole ones follow.
\<close>

definition loopReady :: "transceiver_meta list \<Rightarrow> 'v multi_receipt \<Rightarrow> bool" where
  "loopReady ts r \<longleftrightarrow>
     (\<forall>t \<in> set (mr_sendTransceivers r). t \<in> set ts \<or> attestedBy r (typeOf t)) \<and>
     (\<forall>t \<in> set ts. t \<in> set (mr_sendTransceivers r)) \<and>
     (\<exists>as bs. ts = as @ bs \<and> (\<forall>t \<in> set as. typeOf t \<noteq> ''wormhole'') \<and> (\<forall>t \<in> set bs. typeOf t = ''wormhole''))"

lemma loopReady_sorted: "loopReady (sortedTransceivers (mr_sendTransceivers r)) r"
  unfolding loopReady_def sortedTransceivers_def
  by (intro conjI exI [of _ "filter (\<lambda>t. typeOf t \<noteq> ''wormhole'') (mr_sendTransceivers r)"]
        exI [of _ "filter (\<lambda>t. typeOf t = ''wormhole'') (mr_sendTransceivers r)"]) auto

lemma loopReady_ConsD:
  assumes "loopReady (t # ts) r"
  shows "attestedBy r (typeOf t) \<Longrightarrow> loopReady ts r" and "loopReady ts (markAttested (typeOf t) r)"
    and "typeOf t = ''wormhole'' \<Longrightarrow> wormholeLast (markAttested (typeOf t) r)"
    and "t \<in> set (mr_sendTransceivers r)"
proof -
  obtain as bs where s: "t # ts = as @ bs" "\<forall>t \<in> set as. typeOf t \<noteq> ''wormhole''"
    "\<forall>t \<in> set bs. typeOf t = ''wormhole''"
    using assms by (auto simp: loopReady_def)
  have split: "\<exists>as bs. ts = as @ bs \<and> (\<forall>t \<in> set as. typeOf t \<noteq> ''wormhole'') \<and> (\<forall>t \<in> set bs. typeOf t = ''wormhole'')"
  proof (cases as)
    case Nil
    with s show ?thesis by (intro exI [of _ "[]"] exI [of _ ts]) auto
  next
    case (Cons a as')
    with s show ?thesis by (intro exI [of _ as'] exI [of _ bs]) auto
  qed
  show "attestedBy r (typeOf t) \<Longrightarrow> loopReady ts r"
    using assms split by (auto simp: loopReady_def)
  show "loopReady ts (markAttested (typeOf t) r)"
    using assms split by (auto simp: loopReady_def)
  show "t \<in> set (mr_sendTransceivers r)" using assms by (simp add: loopReady_def)
  assume w: "typeOf t = ''wormhole''"
  then have "as = []" using s by (cases as) auto
  then show "wormholeLast (markAttested (typeOf t) r)"
    using s assms w by (auto simp: wormholeLast_def loopReady_def list_all_iff)
qed

lemma wormholeLast_mark: "typeOf t \<noteq> ''wormhole'' \<Longrightarrow> wormholeLast r \<Longrightarrow> wormholeLast (markAttested (typeOf t) r)"
  by (auto simp: wormholeLast_def list_all_iff split: if_splits)

lemma attestedJustified_mark:
  assumes "attestedJustified env r0 r" "t \<in> set (mr_sendTransceivers r)"
    "me_destination env (rc_to r) = Inr n" "rc_attestation r = Some v"
    "me_attested env n (rc_from r) v (tm_index t) = Inr True"
  shows "attestedJustified env r0 (markAttested (typeOf t) r)"
  using assms unfolding attestedJustified_def multiAnswered_def by (auto simp: list_ex_iff)

lemma multiAnswered_update [simp]:
  "multiAnswered env (r\<lparr>rc_state := s\<rparr>) = multiAnswered env r"
  "multiAnswered env (r\<lparr>rc_error := e\<rparr>) = multiAnswered env r"
  by (simp_all add: multiAnswered_def fun_eq_iff)

lemma attestedJustified_update [simp]:
  "attestedJustified env r0 (r\<lparr>rc_state := s\<rparr>) = attestedJustified env r0 r"
  "attestedJustified env r0 (r\<lparr>rc_error := e\<rparr>) = attestedJustified env r0 r"
  by (simp_all add: attestedJustified_def)

lemma passJustified_state:
  "passJustified env r0 r \<Longrightarrow> stateJustified env r0 (r\<lparr>rc_state := s\<rparr>) \<Longrightarrow> passJustified env r0 (r\<lparr>rc_state := s\<rparr>)"
  by (simp add: passJustified_def)

text \<open>The receipts reached inside a pass before its relays are read.\<close>

definition beforeRelays :: "('n, 'v) multi_env \<Rightarrow> 'v multi_receipt \<Rightarrow> 'v multi_receipt \<Rightarrow> bool" where
  "beforeRelays env r0 r \<longleftrightarrow> passJustified env r0 r \<and> (rc_state r = Failed \<longrightarrow> rc_state r0 = Failed)"

lemma trackers_result:
  assumes "testsByName T" "trackExecutor T api r = Inr r' \<or> trackAxelar T api r = Inr r'"
  shows "r' = r \<or> (\<exists>m. r' = r\<lparr>rc_state := Failed, rc_error := Some m\<rparr> \<and> relayHasFailed api r) \<or>
    (rc_state r = Failed \<and> r' = r\<lparr>rc_state := Attested, rc_error := None\<rparr>)"
  using assms
  by (auto simp: trackExecutor_def trackAxelar_def clearFailure_def relayHasFailed_def testsByName_def
      split: if_splits sum.splits option.splits)

lemma justified_mark [simp]:
  "multiAnswered env (markAttested t r) = multiAnswered env r"
  "relayHasFailed api (markAttested t r) = relayHasFailed api r"
  "stateJustified env r0 (markAttested t r) = stateJustified env r0 r"
proof -
  show m: "multiAnswered env (markAttested t r) = multiAnswered env r"
    by (simp add: multiAnswered_def fun_eq_iff)
  show h: "relayHasFailed api (markAttested t r) = relayHasFailed api r"
    for api by (simp add: relayHasFailed_def)
  have q: "rc_queueReleaseTime (markAttested t r) = rc_queueReleaseTime r" by (simp add: markAttested_def)
  show "stateJustified env r0 (markAttested t r) = stateJustified env r0 r"
    unfolding stateJustified_def m h q markAttested_fields ..
qed

lemma passJustified_tracked:
  assumes "testsByName T" "beforeRelays env r0 r"
    "trackExecutor T (me_relays env) r = Inr r' \<or> trackAxelar T (me_relays env) r = Inr r'"
  shows "passJustified env r0 r'"
  using trackers_result [OF assms(1,3)] assms(2)
  by (auto simp: beforeRelays_def passJustified_def stateJustified_def relayHasFailed_def)

lemma multiAttestStage_every:
  assumes "testsByName T" "wormholeLast r0"
  shows "every (passJustified env r0) (multiAttestStage T env r0) (beforeRelays env r0)"
  using assms
  by (auto simp: multiAttestStage_def Let_def testsByName_def beforeRelays_def passJustified_def
      stateJustified_def attestedJustified_def
      intro!: every_silent every_asking every_emit split: option.split)

lemma beforeRelays_mark:
  assumes "beforeRelays env r0 r" "loopReady (t # ts) r" "me_destination env (rc_to r) = Inr n"
    "rc_attestation r = Some v" "me_attested env n (rc_from r) v (tm_index t) = Inr True"
  shows "beforeRelays env r0 (markAttested (typeOf t) r)"
    and "rc_state r = Failed \<Longrightarrow> beforeRelays env r0 (markAttested (typeOf t) r\<lparr>rc_state := Attested\<rparr>)"
proof -
  note step = loopReady_ConsD [OF assms(2)]
  have "wormholeLast (markAttested (typeOf t) r)"
    using step(3) wormholeLast_mark assms(1)
    by (cases "typeOf t = ''wormhole''") (auto simp: passJustified_def beforeRelays_def)
  then show m: "beforeRelays env r0 (markAttested (typeOf t) r)"
    using assms(1) attestedJustified_mark [OF _ step(4) assms(3-5)]
    by (auto simp: beforeRelays_def passJustified_def)
  show "rc_state r = Failed \<Longrightarrow> beforeRelays env r0 (markAttested (typeOf t) r\<lparr>rc_state := Attested\<rparr>)"
    using m by (auto simp: beforeRelays_def stateJustified_def intro!: passJustified_state)
qed

lemma transceiverLoop_every:
  assumes "testsByName T" "beforeRelays env r0 r" "loopReady ts r" "me_destination env (rc_to r) = Inr n"
    "rc_attestation r = Some v"
  shows "every (passJustified env r0) (transceiverLoop T env isManual n v ts r) (passJustified env r0)"
  using assms(2-5)
proof (induction ts arbitrary: r)
  case Nil
  then show ?case by (auto simp: beforeRelays_def intro!: every_silent)
next
  case (Cons t ts)
  note step = loopReady_ConsD [OF Cons.prems(2)]
  have J: "passJustified env r0 r" using Cons.prems(1) by (simp add: beforeRelays_def)
  let ?J = "passJustified env r0" and ?loop = "transceiverLoop T env isManual n v"
  show ?case
  proof (cases "attestedBy r (typeOf t)")
    case True
    then show ?thesis using Cons.IH [OF Cons.prems(1) step(1) Cons.prems(3,4)] by simp
  next
    case False
    let ?m = "markAttested (typeOf t) r"
    note marked = beforeRelays_mark [OF Cons.prems]
    have ready: "loopReady ts (?m\<lparr>rc_state := Attested\<rparr>)"
      using step(2) by (simp add: loopReady_def)
    have tests: "isFailed T = (\<lambda>s. s = Failed)" using assms(1) by (simp add: testsByName_def)
    show ?thesis
      unfolding transceiverLoop.simps(2) if_not_P [OF False]
    proof (rule every_asking)
      fix a assume answer: "me_attested env n (rc_from r) v (tm_index t) = Inr a"
      show "every ?J (if a then let r = ?m in if isFailed T (rc_state r)
            then yielding (emit (r\<lparr>rc_state := Attested\<rparr>)) (?loop ts) else ?loop ts r
          else if typeOf t = ''wormhole''
          then yielding (silent (if isManual then Inr r else trackExecutor T (me_relays env) r)) emit
          else if typeOf t = ''axelar'' then yielding (silent (trackAxelar T (me_relays env) r)) emit
          else silent (Inl (UnsupportedTransceiver (tm_type t)))) ?J"
      proof (cases a)
        case True
        have "every ?J (?loop ts ?m) ?J"
          using Cons.prems(3,4) marked(1) step(2) answer True by (intro Cons.IH) auto
        moreover have "every ?J (?loop ts (?m\<lparr>rc_state := Attested\<rparr>)) ?J" if "rc_state r = Failed"
          using Cons.prems(3,4) marked(2) that ready answer True by (intro Cons.IH) auto
        ultimately show ?thesis
          using marked(2) answer True by (simp add: Let_def tests every_Cons beforeRelays_def)
      next
        case False
        then show ?thesis
          using J passJustified_tracked [OF assms(1) Cons.prems(1)]
          by (auto intro!: every_silent every_emit every_yielding [OF every_silent [where Q = ?J]])
      qed
    qed
  qed
qed

lemma multiApprovedStage_every:
  assumes "testsByName T" "beforeRelays env r0 r" "me_destination env (rc_to r) = Inr n"
  shows "every (passJustified env r0) (multiApprovedStage T env isManual n r) (passJustified env r0)"
proof -
  have J: "passJustified env r0 r" using assms(2) by (simp add: beforeRelays_def)
  have "passJustified env r0 (r\<lparr>rc_state := DestinationInitiated\<rparr>)"
    if "rc_attestation r = Some v" "me_isApproved env n v = Inr True" for v
    using that assms(3) by (intro passJustified_state [OF J]) (simp add: stateJustified_def multiAnswered_def)
  then show ?thesis
    using J transceiverLoop_every [OF assms(1,2) loopReady_sorted assms(3)]
    by (auto simp: multiApprovedStage_def intro!: every_silent every_asking every_emit split: option.split)
qed

lemma multiRedeemStage_every:
  assumes "testsByName T" "passJustified env r0 r" "me_destination env (rc_to r) = Inr n"
  shows "every (passJustified env r0) (multiRedeemStage T env n r) (passJustified env r0)"
proof -
  have "passJustified env r0 (r\<lparr>rc_state := DestinationFinalized\<rparr>)"
    if "rc_attestation r = Some v" "me_isExecuted env n v = Inr True" for v
    using that assms(3) by (intro passJustified_state [OF assms(2)]) (simp add: stateJustified_def multiAnswered_def)
  moreover have "passJustified env r0 (r\<lparr>rc_state := DestinationQueued, rc_queueReleaseTime := Some (t * 1000)\<rparr>)"
    if "rc_attestation r = Some v" "me_queuedUntil env n v = Inr (Some t)" for v t
    using that assms(2,3) by (auto simp: passJustified_def stateJustified_def multiAnswered_def attestedJustified_def)
  ultimately show ?thesis
    using assms(2)
    by (auto simp: multiRedeemStage_def intro!: every_silent every_asking split: option.split)
qed

lemma multiPass_every:
  assumes "testsByName T" "wormholeLast r0"
  shows "every (passJustified env r0) (multiPass T env isManual r0) (passJustified env r0)"
  unfolding multiPass_def
proof (rule every_yielding [OF multiAttestStage_every [OF assms]], rule every_asking, rule every_yielding)
  fix r n
  assume r: "beforeRelays env r0 r" and n: "me_destination env (rc_to r) = Inr n"
  have "rc_to r = rc_to r0" using r by (simp add: beforeRelays_def passJustified_def)
  with n have n0: "me_destination env (rc_to r0) = Inr n" by simp
  show "every (passJustified env r0) (multiApprovedStage T env isManual n r) (passJustified env r0)"
    by (rule multiApprovedStage_every [OF assms(1) r n])
  fix r' assume r': "passJustified env r0 r'"
  then have "me_destination env (rc_to r') = Inr n" using n0 by (simp add: passJustified_def)
  then show "every (passJustified env r0) (yielding (multiRedeemStage T env n r') emit) (passJustified env r0)"
    by (intro every_yielding [OF multiRedeemStage_every [OF assms(1) r']] every_emit)
qed

text \<open>
  C32. One pass of the multi-token tracking loop yields only receipts that the answers of that pass
  justify: the chains, the transactions and the transceivers are those of the transfer, a new state
  has its reason (approval, queue entry, execution, a failed relay), a transceiver is recorded as
  attested only if it was before or the destination says so, and the Wormhole transceiver is never
  recorded as attested while another one is not.
\<close>

theorem multiPass_justified:
  assumes "testsByName T" "wormholeLast r0"
  shows "list_all (passJustified env r0) (fst (multiPass T env isManual r0)) \<and>
    (case snd (multiPass T env isManual r0) of Inl _ \<Rightarrow> True | Inr r \<Rightarrow> passJustified env r0 r)"
  using multiPass_every [OF assms] by (simp add: every_def)

section \<open>The loop ends\<close>

definition sameTransfer :: "'v multi_receipt \<Rightarrow> 'v multi_receipt \<Rightarrow> bool" where
  "sameTransfer r0 r \<longleftrightarrow> rc_from r = rc_from r0 \<and> rc_to r = rc_to r0 \<and> rc_originTxs r = rc_originTxs r0 \<and>
     mr_sendTransceivers r = mr_sendTransceivers r0 \<and> wormholeLast r \<and>
     list_all (\<lambda>t. attestedBy r0 (fst t) \<longrightarrow> attestedBy r (fst t)) (mr_transceiverAttested r0)"

lemma attestedBy_listed: "attestedBy r t \<Longrightarrow> \<exists>b. (t, b) \<in> set (mr_transceiverAttested r)"
  by (auto simp: attestedBy_def dest: map_of_SomeD)

lemma sameTransfer_pass: "sameTransfer r0 r \<Longrightarrow> passJustified env r r' \<Longrightarrow> sameTransfer r0 r'"
  by (auto simp: sameTransfer_def passJustified_def attestedJustified_def list_all_iff)

lemma trackLoop_every:
  assumes "testsByName T" "sameTransfer r0 r"
  shows "every (sameTransfer r0) (trackLoop T isManual passes left r)
    (\<lambda>o1. case o1 of None \<Rightarrow> True | Some r \<Rightarrow> sameTransfer r0 r)"
  using assms(2)
proof (induction passes arbitrary: left r)
  case Nil
  then show ?case by (auto simp: trackLoop.simps [of _ _ "[]"] intro!: every_silent)
next
  case (Cons p passes)
  have "every (sameTransfer r0) (multiPass T (fst p) isManual r) (sameTransfer r0)"
  proof (rule every_weaken)
    show "every (passJustified (fst p) r) (multiPass T (fst p) isManual r) (passJustified (fst p) r)"
      using Cons.prems by (intro multiPass_every [OF assms(1)]) (simp add: sameTransfer_def)
  qed (blast intro: sameTransfer_pass [OF Cons.prems])+
  then have "every (sameTransfer r0)
      (yielding (multiPass T (fst p) isManual r) (trackLoop T isManual passes (left - snd p)))
      (\<lambda>o1. case o1 of None \<Rightarrow> True | Some r \<Rightarrow> sameTransfer r0 r)"
    by (rule every_yielding) (rule Cons.IH)
  then show ?case
    using Cons.prems by (auto simp: trackLoop.simps [of _ _ "p # passes"] split_def intro!: every_silent)
qed

lemma yielding_result:
  assumes "snd (yielding m k) = Inr b"
  shows "\<exists>ys a. m = (ys, Inr a) \<and> snd (k a) = Inr b"
  using assms by (cases m; cases "snd m") auto

lemma trackLoop_ends:
  assumes "list_all (\<lambda>p. 5000 \<le> snd p) passes" "left \<le> 5000 * int (length passes)"
  shows "snd (trackLoop T isManual passes left r) \<noteq> Inr None"
  using assms
proof (induction passes arbitrary: left r)
  case Nil
  then show ?case by (simp add: trackLoop.simps [of _ _ "[]"] silent_def)
next
  case (Cons p passes)
  then have "snd (trackLoop T isManual passes (left - snd p) r') \<noteq> Inr None" for r'
    by (intro Cons.IH) auto
  then show ?case
    by (auto simp: trackLoop.simps [of _ _ "p # passes"] split_def silent_def dest: yielding_result)
qed

lemma trackLoop_result:
  assumes "list_all (\<lambda>p. 0 \<le> snd p) passes" "snd (trackLoop T isManual passes left r) = Inr (Some r')"
  shows "isCompleted T (rc_state r') \<or> left \<le> sum_list (map snd passes)"
  using assms
proof (induction passes arbitrary: left r)
  case Nil
  then show ?case by (auto simp: trackLoop.simps [of _ _ "[]"] silent_def split: if_splits)
next
  case (Cons p passes)
  have pos: "0 \<le> sum_list (map snd passes)"
    using Cons.prems(1) by (induction passes) auto
  show ?case
  proof (cases "0 < left \<and> \<not> isCompleted T (rc_state r)")
    case False
    then show ?thesis
      using Cons.prems pos by (auto simp: trackLoop.simps [of _ _ "p # passes"] silent_def)
  next
    case True
    with Cons.prems(2) obtain r'' where
      "snd (trackLoop T isManual passes (left - snd p) r'') = Inr (Some r')"
      by (auto simp: trackLoop.simps [of _ _ "p # passes"] split_def dest: yielding_result)
    from Cons.IH [OF _ this] Cons.prems(1) show ?thesis by auto
  qed
qed

text \<open>
  C34. Tracking is over after finitely many passes: each pass takes at least the five seconds of its
  pause, so enough of them to cover the time limit (an hour by default, also for a limit of 0) end the
  loop, with an error or with a receipt that is completed unless the time was used up.
\<close>

theorem trackMulti_ends:
  assumes "list_all (\<lambda>p. 5000 \<le> snd p) passes" "trackBudget timeout \<le> 5000 * int (length passes)"
  shows "case snd (trackMulti T isManual timeout passes r) of
      Inl e \<Rightarrow> True
    | Inr None \<Rightarrow> False
    | Inr (Some r') \<Rightarrow> isCompleted T (rc_state r') \<or> trackBudget timeout \<le> sum_list (map snd passes)"
proof -
  have "list_all (\<lambda>p. 0 \<le> snd p) passes" using assms(1) by (auto simp: list_all_iff)
  then show ?thesis
    using trackLoop_ends [OF assms] trackLoop_result [of passes T isManual "trackBudget timeout" r]
    unfolding trackMulti_def by (auto split: sum.split option.split)
qed

text \<open>
  C33. Over a whole run of the multi-token tracking loop every receipt yielded keeps the chains, the
  transactions and the transceivers of the transfer, forgets no attestation, and never records the
  Wormhole transceiver as attested before the others.
\<close>

theorem trackMulti_invariant:
  assumes "testsByName T" "wormholeLast r0"
  shows "list_all (sameTransfer r0) (fst (trackMulti T isManual timeout passes r0)) \<and>
    (case snd (trackMulti T isManual timeout passes r0) of
       Inr (Some r) \<Rightarrow> sameTransfer r0 r | _ \<Rightarrow> True)"
proof -
  have "sameTransfer r0 r0" using assms(2) by (simp add: sameTransfer_def list_all_iff)
  from trackLoop_every [OF assms(1) this, of isManual passes "trackBudget timeout"]
  show ?thesis by (auto simp: trackMulti_def every_def split: sum.splits option.splits)
qed

section \<open>A transfer with two transceivers\<close>

text \<open>
  The Axelar relay of the example fails first and recovers in the second pass; then both transceivers
  have attested and the transfer is executed.
\<close>

definition exampleMeta :: "transceiver_meta list" where
  "exampleMeta = [\<lparr>tm_type = ''Wormhole'', tm_index = 0\<rparr>, \<lparr>tm_type = ''axelar'', tm_index = 1\<rparr>]"

definition exampleMulti :: "nat multi_receipt" where
  "exampleMulti = \<lparr>rc_from = ''Base'', rc_to = ''Monad'', rc_state = SourceInitiated, rc_originTxs = [''b''],
     rc_attestation = None, rc_error = None, rc_queueReleaseTime = None, rc_destinationTxs = None,
     mr_sendTransceivers = exampleMeta, mr_transceiverAttested = []\<rparr>"

definition exampleWorld :: "nat \<Rightarrow> (unit, nat) multi_env" where
  "exampleWorld k = \<lparr>me_message = (\<lambda>c t. Inr (Some t)), me_vaa = (\<lambda>m. Inr (Some 7)),
     me_destination = (\<lambda>c. Inr ()),
     me_relays = \<lparr>fetchStatus = (\<lambda>t c. Inr (Some ''pending'')),
       axelarError = (\<lambda>c t. Inr (if k = 0 then Some ''out of gas'' else None))\<rparr>,
     me_isApproved = (\<lambda>n v. Inr (2 \<le> k)),
     me_attested = (\<lambda>n c v i. Inr (i < k)),
     me_queuedUntil = (\<lambda>n v. Inr None), me_isExecuted = (\<lambda>n v. Inr True)\<rparr>"

lemma multiPass_justified_witness:
  "testsByName sdkTests \<and> wormholeLast exampleMulti \<and>
   map rc_state (fst (multiPass sdkTests (exampleWorld 0) False exampleMulti)) = [Attested, Failed, Failed] \<and>
   list_all (passJustified (exampleWorld 0) exampleMulti) (fst (multiPass sdkTests (exampleWorld 0) False exampleMulti))"
proof -
  have w: "wormholeLast exampleMulti"
    by (simp add: wormholeLast_def attestedBy_def exampleMulti_def)
  have "map rc_state (fst (multiPass sdkTests (exampleWorld 0) False exampleMulti)) = [Attested, Failed, Failed]"
    by code_simp
  then show ?thesis
    using w multiPass_justified [OF sdkTests_ok w, of "exampleWorld 0" False] by simp
qed

definition examplePasses :: "((unit, nat) multi_env \<times> int) list" where
  "examplePasses = [(exampleWorld 0, 5100), (exampleWorld 1, 5200), (exampleWorld 2, 5000)]"

lemma trackMulti_ends_witness:
  "map_sum id (map_option rc_state) (snd (trackMulti sdkTests False (Some 15000) examplePasses exampleMulti)) =
     Inr (Some DestinationFinalized) \<and>
   (case snd (trackMulti sdkTests False (Some 15000) examplePasses exampleMulti) of
      Inl e \<Rightarrow> True
    | Inr None \<Rightarrow> False
    | Inr (Some r') \<Rightarrow> isCompleted sdkTests (rc_state r') \<or> trackBudget (Some 15000) \<le> sum_list (map snd examplePasses))"
proof -
  have "list_all (\<lambda>p. 5000 \<le> snd p) examplePasses"
    and "trackBudget (Some 15000) \<le> 5000 * int (length examplePasses)"
    by (simp_all add: examplePasses_def trackBudget_def)
  note trackMulti_ends [OF this, of sdkTests False exampleMulti]
  moreover have "map_sum id (map_option rc_state)
      (snd (trackMulti sdkTests False (Some 15000) examplePasses exampleMulti)) = Inr (Some DestinationFinalized)"
    by code_simp
  ultimately show ?thesis by blast
qed

lemma trackMulti_invariant_witness:
  "testsByName sdkTests \<and> wormholeLast exampleMulti \<and>
   map rc_state (fst (trackMulti sdkTests False None examplePasses exampleMulti)) =
     [Attested, Failed, Failed, Attested, Attested, DestinationInitiated, DestinationFinalized] \<and>
   list_all (sameTransfer exampleMulti) (fst (trackMulti sdkTests False None examplePasses exampleMulti))"
proof -
  have w: "wormholeLast exampleMulti"
    by (simp add: wormholeLast_def attestedBy_def exampleMulti_def)
  have "map rc_state (fst (trackMulti sdkTests False None examplePasses exampleMulti)) =
      [Attested, Failed, Failed, Attested, Attested, DestinationInitiated, DestinationFinalized]"
    by code_simp
  then show ?thesis
    using w trackMulti_invariant [OF sdkTests_ok w, of False None examplePasses] by simp
qed

end
