(* ===== verification/Axelar.thy ===== *)
theory Axelar
  imports Route_Multi Js_Numbers
begin

text \<open>
  The client of the Axelar network, \<open>sdk/definitions/src/axelar.ts\<close>: the fee of a delivery and the
  status of a transaction. A request is what is posted to the service; \<open>post\<close> answers it, or throws (the
  network, or the abort after the timeout).
\<close>

section \<open>Chains and status\<close>

definition axelarChains :: "(string \<times> string) list" where
  "axelarChains = [(''Ethereum'', ''ethereum''), (''Monad'', ''monad''), (''Sepolia'', ''ethereum-sepolia'')]"

datatype gmp_status =
    SRC_GATEWAY_CALLED | DEST_GATEWAY_APPROVED | DEST_EXECUTED | EXPRESS_EXECUTED | DEST_EXECUTE_ERROR
  | DEST_EXECUTING | APPROVING | FORECALLED | FORECALLED_WITHOUT_GAS_PAID | NOT_EXECUTED
  | NOT_EXECUTED_WITHOUT_GAS_PAID | INSUFFICIENT_FEE | UNKNOWN_ERROR | CANNOT_FETCH_STATUS | SRC_GATEWAY_CONFIRMED

text \<open>A member of the enumeration is its text at run time.\<close>

fun gmpStatusText :: "gmp_status \<Rightarrow> string" where
  "gmpStatusText SRC_GATEWAY_CALLED = ''source_gateway_called''"
| "gmpStatusText DEST_GATEWAY_APPROVED = ''destination_gateway_approved''"
| "gmpStatusText DEST_EXECUTED = ''destination_executed''"
| "gmpStatusText EXPRESS_EXECUTED = ''express_executed''"
| "gmpStatusText DEST_EXECUTE_ERROR = ''error''"
| "gmpStatusText DEST_EXECUTING = ''executing''"
| "gmpStatusText APPROVING = ''approving''"
| "gmpStatusText FORECALLED = ''forecalled''"
| "gmpStatusText FORECALLED_WITHOUT_GAS_PAID = ''forecalled_without_gas_paid''"
| "gmpStatusText NOT_EXECUTED = ''not_executed''"
| "gmpStatusText NOT_EXECUTED_WITHOUT_GAS_PAID = ''not_executed_without_gas_paid''"
| "gmpStatusText INSUFFICIENT_FEE = ''insufficient_fee''"
| "gmpStatusText UNKNOWN_ERROR = ''unknown_error''"
| "gmpStatusText CANNOT_FETCH_STATUS = ''cannot_fetch_status''"
| "gmpStatusText SRC_GATEWAY_CONFIRMED = ''confirmed''"

record gmp_error =
  ge_txHash :: "string option"
  ge_chain :: "string option"
  ge_message :: string

datatype axelar_error =
    UnsupportedAxelarChain string
  | AxelarThrown string
  | AxelarRefused nat string
  | NotABigInt string
  | InvalidGasFee int
  | NoTransactionDetails
  | NoCall

definition getAxelarApiUrl :: "string \<Rightarrow> string" where
  "getAxelarApiUrl network =
     (if network = ''Mainnet'' then ''https://api.axelarscan.io'' else ''https://testnet.api.axelarscan.io'')"

definition getAxelarExplorerUrl :: "string \<Rightarrow> string \<Rightarrow> string" where
  "getAxelarExplorerUrl network txHash =
     (if network = ''Mainnet'' then ''https://axelarscan.io/gmp/'' else ''https://testnet.axelarscan.io/gmp/'') @ txHash"

definition getAxelarChain :: "string \<Rightarrow> axelar_error + string" where
  "getAxelarChain chain =
     (case map_of axelarChains chain of
        None \<Rightarrow> Inl (UnsupportedAxelarChain chain)
      | Some axelarChain \<Rightarrow> if axelarChain = [] then Inl (UnsupportedAxelarChain chain) else Inr axelarChain)"

section \<open>Requests\<close>

record 'j http_answer =
  ha_ok :: bool
  ha_status :: nat
  ha_text :: "string + string"
  ha_json :: "string + 'j"

definition axelarThrown :: "string + 'x \<Rightarrow> axelar_error + 'x" where
  "axelarThrown x = (case x of Inl e \<Rightarrow> Inl (AxelarThrown e) | Inr v \<Rightarrow> Inr v)"

definition answerJson :: "'j http_answer \<Rightarrow> axelar_error + 'j" where
  "answerJson response =
     (if \<not> ha_ok response
      then andThen (axelarThrown (ha_text response)) (\<lambda>errorText. Inl (AxelarRefused (ha_status response) errorText))
      else axelarThrown (ha_json response))"

record fee_request =
  fq_url :: string
  fq_sourceChain :: string
  fq_destinationChain :: string
  fq_gasMultiplier :: gas_multiplier
  fq_gasLimit :: string

text \<open>The fee arrives as a text, a number or another JSON value, of which \<open>BigInt\<close> makes an integer or throws.\<close>

datatype fee_answer = FeeText string | FeeNumber js_number | FeeOther "string + int"

definition bigIntOfFee :: "fee_answer \<Rightarrow> axelar_error + int" where
  "bigIntOfFee a =
     (case a of
        FeeText s \<Rightarrow> (case parseBigInt s of None \<Rightarrow> Inl (NotABigInt s) | Some n \<Rightarrow> Inr n)
      | FeeNumber n \<Rightarrow> axelarThrown (bigintOf n)
      | FeeOther r \<Rightarrow> axelarThrown r)"

definition getAxelarGasFee :: "(fee_request \<Rightarrow> string + fee_answer http_answer) \<Rightarrow> string \<Rightarrow> string \<Rightarrow> string \<Rightarrow> int
    \<Rightarrow> gas_multiplier \<Rightarrow> axelar_error + int" where
  "getAxelarGasFee post network sourceChain destinationChain gasLimit gasMultiplier =
     andThen (getAxelarChain sourceChain) (\<lambda>axelarSourceChain.
     andThen (getAxelarChain destinationChain) (\<lambda>axelarDestinationChain.
     andThen (axelarThrown (post \<lparr>fq_url = getAxelarApiUrl network @ ''/gmp/estimateGasFee'',
         fq_sourceChain = axelarSourceChain, fq_destinationChain = axelarDestinationChain,
         fq_gasMultiplier = gasMultiplier, fq_gasLimit = dec_of_int gasLimit\<rparr>)) (\<lambda>response.
     andThen (answerJson response) (\<lambda>result.
     andThen (bigIntOfFee result) (\<lambda>parsedFee.
     if parsedFee \<le> 0 then Inl (InvalidGasFee parsedFee) else Inr parsedFee)))))"

text \<open>
  The details of a transaction: the fields of its error that are read, whether the fee was insufficient,
  and hash and chain of the call.
\<close>

record gmp_details =
  gd_status :: "string option"
  gd_error :: "(string option \<times> string option) option"
  gd_is_insufficient_fee :: bool
  gd_call :: "(string option \<times> string option) option"

definition parseGMPStatus :: "gmp_details \<Rightarrow> string option" where
  "parseGMPStatus response =
     (if gd_status response = Some ''error''
      then (if gd_error response \<noteq> None then Some (gmpStatusText DEST_EXECUTE_ERROR) else gd_status response)
      else if gd_status response = Some ''executed'' then Some (gmpStatusText DEST_EXECUTED)
      else if gd_status response = Some ''approved'' then Some (gmpStatusText DEST_GATEWAY_APPROVED)
      else if gd_status response = Some ''called'' then Some (gmpStatusText SRC_GATEWAY_CALLED)
      else if gd_status response = Some ''executing'' then Some (gmpStatusText DEST_EXECUTING)
      else gd_status response)"

definition parseGMPError :: "gmp_details \<Rightarrow> axelar_error + gmp_error option" where
  "parseGMPError response =
     (case gd_error response of
        Some (sourceTransactionHash, chain) \<Rightarrow>
          Inr (Some \<lparr>ge_txHash = sourceTransactionHash, ge_chain = chain, ge_message = ''Transfer failed''\<rparr>)
      | None \<Rightarrow>
          if gd_is_insufficient_fee response
          then (case gd_call response of
              None \<Rightarrow> Inl NoCall
            | Some (hash, chain) \<Rightarrow> Inr (Some \<lparr>ge_txHash = hash, ge_chain = chain, ge_message = ''Insufficient gas''\<rparr>))
          else Inr None)"

record status_request =
  sq_url :: string
  sq_sourceChain :: string
  sq_txHash :: string

definition getAxelarTransactionStatus :: "(status_request \<Rightarrow> string + gmp_details list option http_answer) \<Rightarrow> string
    \<Rightarrow> string \<Rightarrow> string \<Rightarrow> axelar_error + string option \<times> gmp_error option" where
  "getAxelarTransactionStatus post network sourceChain txHash =
     andThen (getAxelarChain sourceChain) (\<lambda>axelarSourceChain.
     andThen (axelarThrown (post \<lparr>sq_url = getAxelarApiUrl network @ ''/gmp/searchGMP'',
         sq_sourceChain = axelarSourceChain, sq_txHash = txHash\<rparr>)) (\<lambda>response.
     andThen (answerJson response) (\<lambda>result.
     case result of
       None \<Rightarrow> Inl NoTransactionDetails
     | Some [] \<Rightarrow> Inl NoTransactionDetails
     | Some (txDetails # _) \<Rightarrow>
         andThen (parseGMPError txDetails) (\<lambda>error. Inr (parseGMPStatus txDetails, error)))))"

section \<open>The tracker of the route on this client\<close>

text \<open>\<open>message\<close> renders an error. The tracker only looks at the error of the status.\<close>

definition axelarRelays :: "(status_request \<Rightarrow> string + gmp_details list option http_answer) \<Rightarrow> (axelar_error \<Rightarrow> string)
    \<Rightarrow> string \<Rightarrow> (string \<Rightarrow> string \<Rightarrow> string + string option) \<Rightarrow> relay_api" where
  "axelarRelays post message network status =
     \<lparr>fetchStatus = status,
      axelarError = (\<lambda>from txid.
        case getAxelarTransactionStatus post network from txid of
          Inl e \<Rightarrow> Inl (message e)
        | Inr (_, error) \<Rightarrow> Inr (map_option ge_message error))\<rparr>"

lemma getAxelarGasFee_positive: "getAxelarGasFee post network s d g m = Inr fee \<Longrightarrow> 0 < fee"
  by (auto simp: getAxelarGasFee_def andThen_eq_Inr split: if_splits)

text \<open>The service answers with the details of one transaction or more.\<close>

definition searchAnswers :: "(status_request \<Rightarrow> string + gmp_details list option http_answer) \<Rightarrow> string \<Rightarrow> string \<Rightarrow> string
    \<Rightarrow> gmp_details \<Rightarrow> bool" where
  "searchAnswers post network chain txHash details \<longleftrightarrow>
     (case getAxelarChain chain of
        Inl _ \<Rightarrow> False
      | Inr c \<Rightarrow>
          (case post \<lparr>sq_url = getAxelarApiUrl network @ ''/gmp/searchGMP'', sq_sourceChain = c, sq_txHash = txHash\<rparr> of
             Inl _ \<Rightarrow> False
           | Inr response \<Rightarrow> ha_ok response \<and> (case ha_json response of Inr (Some (d # _)) \<Rightarrow> d = details | _ \<Rightarrow> False)))"

lemma searchAnswers_status:
  "searchAnswers post network chain txHash details \<Longrightarrow>
     getAxelarTransactionStatus post network chain txHash =
       andThen (parseGMPError details) (\<lambda>error. Inr (parseGMPStatus details, error))"
  by (auto simp: searchAnswers_def getAxelarTransactionStatus_def answerJson_def axelarThrown_def
      split: sum.splits option.splits list.splits)

text \<open>
  A transfer that waits for Axelar is shown as failed exactly when its transaction on Axelar has an
  error or too small a fee. For an attested or failed receipt whose last origin transaction the service
  finds, and details that hold the call when the fee is insufficient: the tracker returns the receipt
  with nothing changed but its state and error; it is failed, with the message of the error, when there is
  one of the two, and otherwise attested without an error when it was failed, and unchanged when it was not.
\<close>

theorem trackAxelar_exact:
  assumes "testsByName T" and "rc_state r \<in> {Attested, Failed}" and "rc_originTxs r \<noteq> []"
    and "searchAnswers post network (rc_from r) (last (rc_originTxs r)) details"
    and "gd_is_insufficient_fee details \<longrightarrow> gd_error details \<noteq> None \<or> gd_call details \<noteq> None"
  shows "trackAxelar T (axelarRelays post message network status) r = Inr
    (if gd_error details \<noteq> None then r\<lparr>rc_state := Failed, rc_error := Some ''Axelar error: Transfer failed''\<rparr>
     else if gd_is_insufficient_fee details then r\<lparr>rc_state := Failed, rc_error := Some ''Axelar error: Insufficient gas''\<rparr>
     else if rc_state r = Failed then r\<lparr>rc_state := Attested, rc_error := None\<rparr> else r)"
  using assms
  by (auto simp: trackAxelar_def axelarRelays_def searchAnswers_status testsByName_def clearFailure_def parseGMPError_def
      split: option.splits)

definition exampleDetails :: gmp_details where
  "exampleDetails = \<lparr>gd_status = Some ''executed'', gd_error = None, gd_is_insufficient_fee = True,
     gd_call = Some (Some ''0xaa'', Some ''monad'')\<rparr>"

definition exampleSearch :: "status_request \<Rightarrow> string + gmp_details list option http_answer" where
  "exampleSearch q = Inr \<lparr>ha_ok = sq_sourceChain q = ''monad'', ha_status = 200, ha_text = Inr [], ha_json = Inr (Some [exampleDetails])\<rparr>"

definition exampleWaiting :: "nat receipt" where
  "exampleWaiting = (exampleReceipt Attested ''Ethereum'')\<lparr>rc_from := ''Monad''\<rparr>"

lemma trackAxelar_exact_witness:
  "trackAxelar sdkTests (axelarRelays exampleSearch (\<lambda>_. ''error'') ''Testnet'' (\<lambda>_ _. Inr None)) exampleWaiting =
     Inr (exampleWaiting\<lparr>rc_state := Failed, rc_error := Some ''Axelar error: Insufficient gas''\<rparr>)"
proof -
  have "getAxelarChain ''Monad'' = Inr ''monad''"
    by (simp add: getAxelarChain_def axelarChains_def)
  then have s: "searchAnswers exampleSearch ''Testnet'' (rc_from exampleWaiting) (last (rc_originTxs exampleWaiting))
      exampleDetails"
    by (simp add: searchAnswers_def exampleSearch_def exampleReceipt_def exampleWaiting_def)
  show ?thesis
    using trackAxelar_exact [OF _ _ _ s, of sdkTests "\<lambda>_. ''error''" "\<lambda>_ _. Inr None"]
    by (simp add: exampleDetails_def exampleReceipt_def exampleWaiting_def testsByName_def sdkTests_def)
qed

end
