(* ===== verification/Route_Multi_Executor.thy ===== *)
theory Route_Multi_Executor
  imports Route_Multi Route_Executor
begin

text \<open>
  Starting and resuming a transfer on the multi-token routes: the executor route
  (\<open>sdk/route/src/executor/multiToken.ts\<close>), the manual one (\<open>sdk/route/src/multiTokenManual.ts\<close>) and
  \<open>MultiTokenNttRoute.resume\<close> (\<open>sdk/route/src/types.ts\<close>). The services are those of the executor
  route, the protocol handle of a chain is \<open>'n\<close> as in the tracking loop. \<open>'x\<close> is the type of
  amounts, \<open>'o\<close> of original token ids, \<open>'i\<close> of transceiver instructions.
\<close>

section \<open>Configuration\<close>

record token_override =
  ov_referrerFeeDbps :: "int option"
  ov_gasLimit :: "int option"

record referrer_config =
  rg_feeDbps :: int
  rg_referrerAddresses :: "(string \<times> string) list"
  rg_perTokenOverrides :: "(string \<times> (string \<times> token_override) list) list option"

record multi_config =
  mx_contracts :: "multi_contracts list"
  mx_referrerFee :: "referrer_config option"
  mx_axelarGasMultiplier :: "gas_multiplier option"

datatype mx_error = MxExec exec_error | MxMulti multi_error

record ('a, 'o, 'x) multi_params =
  mu_amount :: string
  mu_trimmedAmount :: 'x
  mu_sourceContracts :: multi_contracts
  mu_destinationContracts :: multi_contracts
  mu_sourceTokenId :: "'a route_token"
  mu_destinationTokenId :: "'a destination_token"
  mu_originalTokenId :: "'o option"
  mu_sendTransceivers :: "transceiver_meta list"
  mu_gasLimit :: int
  mu_referrerFeeDbps :: "int option"
  mu_nativeGas :: "js_number option"

record ('n, 'i) delivery_api =
  dl_instructions :: "'n \<Rightarrow> string \<Rightarrow> int \<Rightarrow> gas_multiplier option \<Rightarrow> string + 'i"
  dl_price :: "'n \<Rightarrow> string \<Rightarrow> 'i \<Rightarrow> string + int"
  dl_duration :: "'n \<Rightarrow> string + int"

definition execM :: "exec_error + 'y \<Rightarrow> mx_error + 'y" where
  "execM = map_sum MxExec id"

definition multiM :: "multi_error + 'y \<Rightarrow> mx_error + 'y" where
  "multiM = map_sum MxMulti id"

definition gasOverrides :: "referrer_config option \<Rightarrow> gas_overrides option" where
  "gasOverrides fee = Option.bind fee (\<lambda>f. map_option
     (map (\<lambda>(chain, m). (chain, map (\<lambda>(a, ov). (a, ov_gasLimit ov)) m))) (rg_perTokenOverrides f))"

definition getReferrerFeeDbps :: "'a route_sdk \<Rightarrow> multi_config \<Rightarrow> 'a transfer_request \<Rightarrow> int" where
  "getReferrerFeeDbps sdk config request =
     (case mx_referrerFee config of
        None \<Rightarrow> 0
      | Some fee \<Rightarrow>
          (case Option.bind (rg_perTokenOverrides fee) (\<lambda>o1.
              Option.bind (map_of o1 (rt_chain (rq_source request))) (\<lambda>m.
              Option.bind (map_of m (canonicalToken sdk (rq_source request))) ov_referrerFeeDbps)) of
             Some d \<Rightarrow> d
           | None \<Rightarrow> rg_feeDbps fee))"

definition getReferrerAddress :: "('a, 'x, 'u, 'q) exec_api \<Rightarrow> multi_config \<Rightarrow> string
    \<Rightarrow> exec_error + 'a chain_address" where
  "getReferrerAddress api config chain =
     andThen (getDefaultReferrerAddress api chain) (\<lambda>referrer.
     case mx_referrerFee config of
       None \<Rightarrow> Inr referrer
     | Some fee \<Rightarrow>
         (case nonEmptyText (map_of (rg_referrerAddresses fee) (ea_platform api chain)) of
            None \<Rightarrow> Inr referrer
          | Some address \<Rightarrow> thrownX (ea_chainAddress api chain address)))"

section \<open>Validation\<close>

datatype 'p multi_validation = SameChain | InvalidGas | ValidMulti 'p

definition sendTransceiversTo :: "('n, 'a, 'o, 'm, 'v) multi_ntt \<Rightarrow> 'n \<Rightarrow> string \<Rightarrow> multi_error + transceiver_meta list" where
  "sendTransceiversTo api ntt chain =
     andThen (thrownM (mn_sendTransceivers api ntt chain)) (\<lambda>ts.
     Inr (map (\<lambda>(t, i). \<lparr>tm_type = t, tm_index = i\<rparr>) ts))"

text \<open>The part of \<open>validate\<close> that both multi-token routes share.\<close>

definition normalizeMulti :: "('a, 'x, 'u, 'q) exec_api \<Rightarrow> ('n, 'a, 'o, 'm, 'v) multi_ntt \<Rightarrow> multi_contracts list
    \<Rightarrow> gas_overrides option \<Rightarrow> int option \<Rightarrow> 'a transfer_request \<Rightarrow> string \<Rightarrow> js_number option
    \<Rightarrow> mx_error + ('a, 'o, 'x) multi_params" where
  "normalizeMulti api ntts contracts overrides dbps request amountText nativeGas =
     andThen (execM (thrownX (ea_parse api amountText (rq_sourceDecimals request)))) (\<lambda>parsedAmount.
     let trimmedAmount = trimAmount (ea_amounts api) parsedAmount (rq_destinationDecimals request) in
     andThen (multiM (resolveContracts contracts (rq_fromChain request))) (\<lambda>sourceContracts.
     andThen (multiM (resolveContracts contracts (rq_toChain request))) (\<lambda>destinationContracts.
     andThen (multiM (thrownM (mn_protocol ntts (rq_fromChain request) sourceContracts))) (\<lambda>sourceNtt.
     andThen (multiM (if isNative (ea_sdk api) (rt_address (rq_source request))
                      then thrownM (mn_wrappedNative ntts sourceNtt) else Inr (rq_source request))) (\<lambda>sourceToken.
     andThen (multiM (thrownM (mn_originalToken ntts sourceNtt sourceToken))) (\<lambda>originalTokenId.
     andThen (multiM (sendTransceiversTo ntts sourceNtt (rq_toChain request))) (\<lambda>sendTransceivers.
     andThen (multiM (estimateGasLimit (ea_sdk api) ntts (rq_destination request) (rq_toChain request)
        originalTokenId contracts overrides)) (\<lambda>gasLimit.
     Inr \<lparr>mu_amount = amountText, mu_trimmedAmount = trimmedAmount, mu_sourceContracts = sourceContracts,
       mu_destinationContracts = destinationContracts, mu_sourceTokenId = rq_source request,
       mu_destinationTokenId = LocalToken (rq_destination request), mu_originalTokenId = originalTokenId,
       mu_sendTransceivers = sendTransceivers, mu_gasLimit = gasLimit, mu_referrerFeeDbps = dbps,
       mu_nativeGas = nativeGas\<rparr>))))))))"

text \<open>\<open>opts\<close> is the option \<open>nativeGas\<close> of the options, if the caller gave any.\<close>

definition multiValidate :: "('a, 'x, 'u, 'q) exec_api \<Rightarrow> ('n, 'a, 'o, 'm, 'v) multi_ntt \<Rightarrow> multi_config
    \<Rightarrow> 'a transfer_request \<Rightarrow> string \<Rightarrow> js_number option option
    \<Rightarrow> mx_error + ('a, 'o, 'x) multi_params multi_validation" where
  "multiValidate api ntts config request amountText opts =
     (let nativeGas = (case opts of None \<Rightarrow> Some (jsInt 0) | Some g \<Rightarrow> g) in
      if rq_fromChain request = rq_toChain request then Inr SameChain
      else if (case nativeGas of None \<Rightarrow> False | Some g \<Rightarrow> ltInt g 0 \<or> gtInt g 1) then Inr InvalidGas
      else andThen (normalizeMulti api ntts (mx_contracts config) (gasOverrides (mx_referrerFee config))
             (Some (getReferrerFeeDbps (ea_sdk api) config request)) request amountText nativeGas) (\<lambda>p.
           Inr (ValidMulti p)))"

definition multiManualValidate :: "('a, 'x, 'u, 'q) exec_api \<Rightarrow> ('n, 'a, 'o, 'm, 'v) multi_ntt \<Rightarrow> multi_contracts list
    \<Rightarrow> gas_overrides option \<Rightarrow> 'a transfer_request \<Rightarrow> string \<Rightarrow> js_number option option
    \<Rightarrow> mx_error + ('a, 'o, 'x) multi_params multi_validation" where
  "multiManualValidate api ntts contracts overrides request amountText opts =
     (if rq_fromChain request = rq_toChain request then Inr SameChain
      else andThen (normalizeMulti api ntts contracts overrides None request amountText
             (case opts of None \<Rightarrow> None | Some g \<Rightarrow> g)) (\<lambda>p. Inr (ValidMulti p)))"

section \<open>Quotes\<close>

record ('a, 'q) multi_exec_quote =
  me_signedQuote :: bytes
  me_relayInstructions :: bytes
  me_estimatedCost :: int
  me_payeeAddress :: 'q
  me_referrer :: "'a chain_address"
  me_remainingAmount :: int
  me_referrerFeeDbps :: int
  me_expires :: nat
  me_gasDropOff :: int

record ('a, 'q, 'i, 'x) multi_details = "('a, 'q) multi_exec_quote" +
  me_deliveryPrice :: int
  me_transceiverInstructions :: 'i
  me_currentInboundCapacity :: "'x option"

definition validateCapabilities :: "('a, 'x, 'u, 'q) exec_api \<Rightarrow> string \<Rightarrow> string
    \<Rightarrow> exec_error + relay_capabilities \<times> relay_capabilities" where
  "validateCapabilities api fromChain toChain =
     andThen (thrownX (ea_capabilities api)) (\<lambda>capabilities.
     andThen (sourceCapabilities api capabilities fromChain) (\<lambda>source.
     andThen (destinationCapabilities api capabilities toChain) (\<lambda>destination.
     Inr (source, destination))))"

definition multiExecutorQuote :: "('a, 'x, 'u, 'q) exec_api \<Rightarrow> multi_config \<Rightarrow> 'a transfer_request
    \<Rightarrow> ('a, 'o, 'x) multi_params \<Rightarrow> exec_error + ('a, 'q) multi_exec_quote" where
  "multiExecutorQuote api config request params =
     andThen (getReferrerAddress api config (rq_fromChain request)) (\<lambda>referrer.
     andThen (routeX (calculateReferrerFee (ea_amounts api) (mu_trimmedAmount params)
        (case mu_referrerFeeDbps params of None \<Rightarrow> 0 | Some d \<Rightarrow> d) (rq_destinationDecimals request))) (\<lambda>fee.
     if rf_remainingAmount fee \<le> 0 then Inl AmountAfterFee
     else
       andThen (validateCapabilities api (rq_fromChain request) (rq_toChain request)) (\<lambda>(sourceCaps, destinationCaps).
       andThen (bigIntText (cp_gasDropOffLimit destinationCaps)) (\<lambda>gasDropOffLimit.
       andThen (thrownX (calculateGasDropOff gasDropOffLimit (mu_nativeGas params))) (\<lambda>gasDropOff.
       andThen (thrownX (ea_serialize api
          (relayRequests api (mu_gasLimit params) 0 gasDropOff (rq_recipient request)))) (\<lambda>relayInstructions.
       andThen (thrownX (ea_signedQuote api (ea_toChainId api (rq_fromChain request))
          (ea_toChainId api (rq_toChain request)) relayInstructions None)) (\<lambda>response.
       case nonEmptyText (qp_estimatedCost response) of
         None \<Rightarrow> Inl NoEstimatedCost
       | Some cost \<Rightarrow>
           andThen (bigIntText cost) (\<lambda>estimatedCost.
           andThen (thrownX (ea_hexDecode api (qp_signedQuote response))) (\<lambda>signedQuoteBytes.
           andThen (thrownX (ea_readQuote api signedQuoteBytes)) (\<lambda>(payeeAddress, expiryTime).
           Inr \<lparr>me_signedQuote = signedQuoteBytes, me_relayInstructions = relayInstructions,
             me_estimatedCost = estimatedCost, me_payeeAddress = payeeAddress, me_referrer = referrer,
             me_remainingAmount = rf_remainingAmount fee, me_referrerFeeDbps = rf_referrerFeeDbps fee,
             me_expires = expiryTime, me_gasDropOff = gasDropOff\<rparr>))))))))))"

definition deliveryPriceAndInstructions :: "('n, 'a, 'o, 'm, 'v) multi_ntt \<Rightarrow> ('n, 'i) delivery_api
    \<Rightarrow> multi_config \<Rightarrow> 'a transfer_request \<Rightarrow> ('a, 'o, 'x) multi_params \<Rightarrow> multi_error + int \<times> 'i" where
  "deliveryPriceAndInstructions ntts delivery config request params =
     andThen (thrownM (mn_protocol ntts (rq_fromChain request) (mu_sourceContracts params))) (\<lambda>sourceNtt.
     andThen (thrownM (dl_instructions delivery sourceNtt (rq_toChain request) (mu_gasLimit params)
        (mx_axelarGasMultiplier config))) (\<lambda>instructions.
     andThen (thrownM (dl_price delivery sourceNtt (rq_toChain request) instructions)) (\<lambda>price.
     Inr (price, instructions))))"

record ('a, 'o, 'q, 'i, 'x) multi_quote =
  mv_params :: "('a, 'o, 'x) multi_params"
  mv_sourceToken :: "'a route_token \<times> 'x"
  mv_destinationToken :: "'a route_token \<times> 'x"
  mv_relayFee :: "('a route_token \<times> 'x) option"
  mv_destinationNativeGas :: "'x option"
  mv_eta :: rat
  mv_expires :: "nat option"
  mv_details :: "('a, 'q, 'i, 'x) multi_details option"
  mv_delay :: "int option"

definition multiEta :: "('a, 'x, 'u, 'q) exec_api \<Rightarrow> string \<Rightarrow> rat" where
  "multiEta api fromChain = (if fromChain = ''Monad'' then 3 * 60 * 1000 else ea_defaultEta api fromChain)"

text \<open>The rate limit of the destination for an amount that arrives there.\<close>

definition multiRateLimit :: "('a, 'x, 'u, 'q) exec_api \<Rightarrow> ('n, 'a, 'o, 'm, 'v) multi_ntt \<Rightarrow> ('n, 'i) delivery_api
    \<Rightarrow> 'a transfer_request \<Rightarrow> ('a, 'o, 'x) multi_params \<Rightarrow> 'x \<Rightarrow> multi_error + 'x rate_limit" where
  "multiRateLimit api ntts delivery request params receivedAmount =
     andThen (thrownM (mn_protocol ntts (rq_toChain request) (mu_destinationContracts params))) (\<lambda>destinationNtt.
     andThen (thrownM (dl_duration delivery destinationNtt)) (\<lambda>duration.
     checkRateLimit (ea_amounts api) ntts destinationNtt (rq_fromChain request) (mu_originalTokenId params)
       receivedAmount duration))"

definition multiQuote :: "('a, 'x, 'u, 'q) exec_api \<Rightarrow> ('n, 'a, 'o, 'm, 'v) multi_ntt \<Rightarrow> ('n, 'i) delivery_api
    \<Rightarrow> multi_config \<Rightarrow> 'a transfer_request \<Rightarrow> ('a, 'o, 'x) multi_params
    \<Rightarrow> mx_error + ('a, 'o, 'q, 'i, 'x) multi_quote" where
  "multiQuote api ntts delivery config request params =
     andThen (execM (multiExecutorQuote api config request params)) (\<lambda>q.
     andThen (multiM (deliveryPriceAndInstructions ntts delivery config request params)) (\<lambda>(deliveryPrice, instructions).
     let amt = ea_amounts api;
         receivedAmount = ea_scale api (fromBaseUnits amt (me_remainingAmount q) (rq_sourceDecimals request))
           (rq_destinationDecimals request) in
     andThen (multiM (multiRateLimit api ntts delivery request params receivedAmount)) (\<lambda>limit.
     Inr \<lparr>mv_params = params, mv_sourceToken = (rq_source request, mu_trimmedAmount params),
       mv_destinationToken = (rq_destination request, receivedAmount),
       mv_relayFee = Some (nativeTokenId (ea_sdk api) (rq_fromChain request),
         fromBaseUnits amt (me_estimatedCost q + deliveryPrice) (ea_nativeDecimals api (rq_fromChain request))),
       mv_destinationNativeGas = Some (fromBaseUnits amt (me_gasDropOff q) (ea_nativeDecimals api (rq_toChain request))),
       mv_eta = multiEta api (rq_fromChain request), mv_expires = Some (me_expires q),
       mv_details = Some (multi_exec_quote.extend q
         \<lparr>me_deliveryPrice = deliveryPrice, me_transceiverInstructions = instructions,
          me_currentInboundCapacity = rl_currentCapacity limit\<rparr>),
       mv_delay = rl_delay limit\<rparr>)))"

definition multiManualQuote :: "('a, 'x, 'u, 'q) exec_api \<Rightarrow> ('n, 'a, 'o, 'm, 'v) multi_ntt \<Rightarrow> ('n, 'i) delivery_api
    \<Rightarrow> 'a transfer_request \<Rightarrow> ('a, 'o, 'x) multi_params \<Rightarrow> mx_error + ('a, 'o, 'q, 'i, 'x) multi_quote" where
  "multiManualQuote api ntts delivery request params =
     (let dstAmount = ea_scale api (mu_trimmedAmount params) (rq_destinationDecimals request) in
      andThen (multiM (multiRateLimit api ntts delivery request params dstAmount)) (\<lambda>limit.
      Inr \<lparr>mv_params = params, mv_sourceToken = (rq_source request, mu_trimmedAmount params),
        mv_destinationToken = (rq_destination request, dstAmount), mv_relayFee = None,
        mv_destinationNativeGas = None, mv_eta = multiEta api (rq_fromChain request), mv_expires = None,
        mv_details = None, mv_delay = rl_delay limit\<rparr>))"

section \<open>Starting and resuming a transfer\<close>

record ('a, 'q, 'i, 'x) multi_call =
  ml_sender :: "'a chain_address"
  ml_destination :: "'a chain_address"
  ml_token :: "'a route_token"
  ml_amount :: int
  ml_details :: "('a, 'q, 'i, 'x) multi_details"
  ml_contracts :: multi_contracts

definition multiInitiateXfer :: "('a, 'x, 'u, 'q) exec_api \<Rightarrow> 'a transfer_request \<Rightarrow> 'a chain_address
    \<Rightarrow> 'a chain_address \<Rightarrow> ('a, 'o, 'q, 'i, 'x) multi_quote \<Rightarrow> exec_error + ('a, 'q, 'i, 'x) multi_call" where
  "multiInitiateXfer api request sender dst q =
     (case mv_details q of
        None \<Rightarrow> Inl MissingDetails
      | Some details \<Rightarrow>
          andThen (thrownX (ea_deserialize api (me_relayInstructions details))) (\<lambda>relayInstructions.
          if \<not> recipientsMatch (ea_universal api (rt_address dst)) relayInstructions then Inl RecipientMismatch
          else Inr \<lparr>ml_sender = sender, ml_destination = dst, ml_token = rq_source request,
            ml_amount = amountUnits (ea_amounts api) (mu_trimmedAmount (mv_params q)),
            ml_details = details, ml_contracts = mu_sourceContracts (mv_params q)\<rparr>))"

record ('v, 'p) multi_transfer_receipt = "'v multi_receipt" +
  xm_params :: 'p

definition startedReceipt :: "string \<Rightarrow> string \<Rightarrow> string list \<Rightarrow> ('a, 'o, 'x) multi_params
    \<Rightarrow> ('v, ('a, 'o, 'x) multi_params) multi_transfer_receipt" where
  "startedReceipt fromChain toChain txids params =
     \<lparr>rc_from = fromChain, rc_to = toChain, rc_state = SourceInitiated, rc_originTxs = txids,
      rc_attestation = None, rc_error = None, rc_queueReleaseTime = None, rc_destinationTxs = None,
      mr_sendTransceivers = mu_sendTransceivers params, mr_transceiverAttested = [], xm_params = params\<rparr>"

definition multiInitiate :: "('a, 'x, 'u, 'q) exec_api \<Rightarrow> (('a, 'q, 'i, 'x) multi_call \<Rightarrow> string + string list)
    \<Rightarrow> 'a transfer_request \<Rightarrow> 'a chain_address \<Rightarrow> ('a, 'o, 'q, 'i, 'x) multi_quote \<Rightarrow> 'a chain_address
    \<Rightarrow> exec_error + ('v, ('a, 'o, 'x) multi_params) multi_transfer_receipt" where
  "multiInitiate api send request sender q dst =
     andThen (multiInitiateXfer api request sender dst q) (\<lambda>xfer.
     andThen (thrownX (send xfer)) (\<lambda>txids.
     Inr (startedReceipt (rq_fromChain request) (rt_chain dst) txids (mv_params q))))"

record 'a multi_manual_call =
  mm_sender :: "'a chain_address"
  mm_token :: 'a
  mm_amount :: int
  mm_destination :: "'a chain_address"
  mm_gasLimit :: int
  mm_multiplier :: "gas_multiplier option"
  mm_contracts :: multi_contracts

definition multiManualInitiate :: "('a, 'x, 'u, 'q) exec_api \<Rightarrow> ('a multi_manual_call \<Rightarrow> string + string list)
    \<Rightarrow> gas_multiplier option \<Rightarrow> 'a transfer_request \<Rightarrow> 'a chain_address \<Rightarrow> ('a, 'o, 'q, 'i, 'x) multi_quote
    \<Rightarrow> 'a chain_address \<Rightarrow> exec_error + ('v, ('a, 'o, 'x) multi_params) multi_transfer_receipt" where
  "multiManualInitiate api send multiplier request sender q dst =
     (let params = mv_params q in
      andThen (thrownX (send \<lparr>mm_sender = sender, mm_token = rt_address (mu_sourceTokenId params),
        mm_amount = amountUnits (ea_amounts api) (mu_trimmedAmount params), mm_destination = dst,
        mm_gasLimit = mu_gasLimit params, mm_multiplier = multiplier, mm_contracts = mu_sourceContracts params\<rparr>)) (\<lambda>txids.
      Inr (startedReceipt (rq_fromChain request) (rt_chain dst) txids params)))"

text \<open>What \<open>resume\<close> reads of a VAA; \<open>'u\<close> is the universal address of the sender.\<close>

record ('u, 'o) multi_vaa =
  va_emitterChain :: string
  va_sender :: 'u
  va_toChain :: string
  va_amount :: int
  va_decimals :: nat
  va_originalToken :: 'o

definition multiResume :: "('a, 'x, 'u, 'q) exec_api \<Rightarrow> ('n, 'a, 'o, 'm, 'w) multi_ntt \<Rightarrow> multi_contracts list
    \<Rightarrow> (string \<Rightarrow> string \<Rightarrow> string + string option) \<Rightarrow> (string \<Rightarrow> string + ('u, 'o) multi_vaa option)
    \<Rightarrow> (string \<Rightarrow> string \<Rightarrow> 'u) \<Rightarrow> string \<Rightarrow> string
    \<Rightarrow> mx_error + (('u, 'o) multi_vaa, ('a, 'o, 'x) multi_params) multi_transfer_receipt" where
  "multiResume api ntts contracts parseTransaction getVaa universalOf chain txid =
     andThen (execM (thrownX (parseTransaction chain txid))) (\<lambda>msg.
     case msg of
       None \<Rightarrow> Inl (MxMulti (MultiTrack NoMessage))
     | Some m \<Rightarrow>
         andThen (execM (thrownX (getVaa m))) (\<lambda>found.
         case found of
           None \<Rightarrow> Inl (MxExec (NoVaaFor txid))
         | Some vaa \<Rightarrow>
             andThen (multiM (resolveContracts contracts chain)) (\<lambda>sourceContracts.
             if va_sender vaa \<noteq> universalOf chain (mc_manager sourceContracts) then Inl (MxMulti InvalidSourceManager)
             else
               andThen (multiM (resolveContracts contracts (va_toChain vaa))) (\<lambda>destinationContracts.
               let amt = fromBaseUnits (ea_amounts api) (va_amount vaa) (va_decimals vaa) in
               andThen (multiM (thrownM (mn_protocol ntts chain sourceContracts))) (\<lambda>sourceNtt.
               andThen (multiM (thrownM (mn_localToken ntts sourceNtt (Some (va_originalToken vaa))))) (\<lambda>localToken.
               case localToken of
                 None \<Rightarrow> Inl (MxMulti SourceTokenNotFound)
               | Some token \<Rightarrow>
                   andThen (multiM (thrownM (mn_wrappedNative ntts sourceNtt))) (\<lambda>wrapped.
                   let sourceTokenId = (if mn_sameToken ntts wrapped token then nativeTokenId (ea_sdk api) chain else token) in
                   andThen (multiM (getDestinationTokenId (ea_sdk api) ntts sourceTokenId chain (va_toChain vaa)
                      contracts (Some (va_originalToken vaa)))) (\<lambda>destinationTokenId.
                   andThen (multiM (sendTransceiversTo ntts sourceNtt (va_toChain vaa))) (\<lambda>sendTransceivers.
                   Inr \<lparr>rc_from = va_emitterChain vaa, rc_to = va_toChain vaa, rc_state = Attested,
                     rc_originTxs = [txid], rc_attestation = Some vaa, rc_error = None, rc_queueReleaseTime = None,
                     rc_destinationTxs = None, mr_sendTransceivers = sendTransceivers, mr_transceiverAttested = [],
                     xm_params = \<lparr>mu_amount = ea_display api amt, mu_trimmedAmount = amt,
                       mu_sourceContracts = sourceContracts, mu_destinationContracts = destinationContracts,
                       mu_sourceTokenId = sourceTokenId, mu_destinationTokenId = destinationTokenId,
                       mu_originalTokenId = Some (va_originalToken vaa), mu_sendTransceivers = sendTransceivers,
                       mu_gasLimit = 0, mu_referrerFeeDbps = None, mu_nativeGas = None\<rparr>\<rparr>)))))))))"

text \<open>\<open>resume\<close> of the executor route first asks for the status of the transaction: an error ends it.\<close>

definition multiExecutorResume :: "(string \<Rightarrow> string + string option)
    \<Rightarrow> (string \<Rightarrow> mx_error + 'r) \<Rightarrow> string \<Rightarrow> mx_error + 'r" where
  "multiExecutorResume status resumeTx txid =
     andThen (execM (thrownX (status txid))) (\<lambda>_. resumeTx txid)"
section \<open>Properties\<close>

lemma lifted_Inr [simp]: "execM r1 = Inr v1 \<longleftrightarrow> r1 = Inr v1" "multiM r2 = Inr v2 \<longleftrightarrow> r2 = Inr v2"
  by (cases r1; simp add: execM_def) (cases r2; simp add: multiM_def)

lemma multiValidate_nativeGas:
  assumes "multiValidate api ntts config request text opts = Inr (ValidMulti p)"
  shows "case mu_nativeGas p of None \<Rightarrow> True | Some g \<Rightarrow> \<not> ltInt g 0 \<and> \<not> gtInt g 1"
  using assms
  by (auto simp: multiValidate_def normalizeMulti_def Let_def andThen_eq_Inr split: if_splits option.splits)

lemma multiExecutorQuote_Inr:
  assumes "multiExecutorQuote api config request params = Inr q"
  shows "0 < me_remainingAmount q"
    and "\<exists>limit. relayTo api (rq_toChain request) limit \<and>
      calculateGasDropOff limit (mu_nativeGas params) = Inr (me_gasDropOff q)"
    and "ea_serialize api (relayRequests api (mu_gasLimit params) 0 (me_gasDropOff q) (rq_recipient request)) =
      Inr (me_relayInstructions q)"
proof -
  obtain caps dc limit where
    "ea_capabilities api = Inr caps" "map_of caps (ea_toChainId api (rq_toChain request)) = Some dc"
    "''ERN1'' \<in> set (cp_requestPrefixes dc)" "parseBigInt (cp_gasDropOffLimit dc) = Some limit"
    "calculateGasDropOff limit (mu_nativeGas params) = Inr (me_gasDropOff q)"
    "ea_serialize api (relayRequests api (mu_gasLimit params) 0 (me_gasDropOff q) (rq_recipient request)) =
      Inr (me_relayInstructions q)"
    "0 < me_remainingAmount q"
    using assms
    by (auto simp: multiExecutorQuote_def validateCapabilities_def andThen_eq_Inr quote_stages_Inr
        split: if_splits option.splits)
  note parts = this
  show "0 < me_remainingAmount q"
    "ea_serialize api (relayRequests api (mu_gasLimit params) 0 (me_gasDropOff q) (rq_recipient request)) =
      Inr (me_relayInstructions q)"
    using parts by blast+
  show "\<exists>limit. relayTo api (rq_toChain request) limit \<and>
      calculateGasDropOff limit (mu_nativeGas params) = Inr (me_gasDropOff q)"
    using parts by (intro exI [of _ limit]) (simp add: relayTo_def)
qed

lemma multiQuote_details:
  assumes "multiQuote api ntts delivery config request params = Inr mq"
  obtains q details where "multiExecutorQuote api config request params = Inr q" "mv_details mq = Some details"
    "mv_params mq = params" "me_gasDropOff details = me_gasDropOff q"
    "me_relayInstructions details = me_relayInstructions q" "me_remainingAmount details = me_remainingAmount q"
  using assms
  by (force simp: multiQuote_def andThen_eq_Inr Let_def multi_exec_quote.extend_def)

text \<open>
  C28. The promises of a quote hold on the multi-token route too: a transfer validated and quoted there has
  a positive amount left after the fee and drops gas within the limit of a chain the relay serves; and
  once it starts, gas is dropped at the recipient the quote was made for or not at all.
\<close>

theorem multi_transfer_keeps_quote:
  assumes "codec (ea_serialize api) (ea_deserialize api)"
    and "multiValidate api ntts config request text opts = Inr (ValidMulti params)"
    and "multiQuote api ntts delivery config request params = Inr mq"
    and "multiInitiate api send request' sender mq dst = Inr r"
  shows "case mv_details mq of None \<Rightarrow> False | Some details \<Rightarrow>
      0 < me_remainingAmount details \<and>
      (\<exists>limit. relayTo api (rq_toChain request) limit \<and> 0 \<le> me_gasDropOff details \<and>
         me_gasDropOff details \<le> max 0 limit) \<and>
      (if 0 < me_gasDropOff details
       then ea_universal api (rt_address dst) =
         (case rq_recipient request of Some a \<Rightarrow> ea_universal api (rt_address a) | None \<Rightarrow> ea_zeroAddress api)
       else True) \<and>
      mr_sendTransceivers r = mu_sendTransceivers params \<and> wormholeLast (multi_receipt.truncate r)"
proof -
  obtain q details where q: "multiExecutorQuote api config request params = Inr q" "mv_details mq = Some details"
    "mv_params mq = params" "me_gasDropOff details = me_gasDropOff q"
    "me_relayInstructions details = me_relayInstructions q" "me_remainingAmount details = me_remainingAmount q"
    by (rule multiQuote_details [OF assms(3)])
  note parts = multiExecutorQuote_Inr [OF q(1)]
  have decoded: "ea_deserialize api (me_relayInstructions details) =
      Inr (relayRequests api (mu_gasLimit params) 0 (me_gasDropOff q) (rq_recipient request))"
    using parts(3) q(5) by (simp add: codec.dec_enc [OF assms(1)])
  have bounds: "\<exists>limit. relayTo api (rq_toChain request) limit \<and> 0 \<le> me_gasDropOff q \<and> me_gasDropOff q \<le> max 0 limit"
    using parts(2) calculateGasDropOff_bounds multiValidate_nativeGas [OF assms(2)] by blast
  have started: "r = startedReceipt (rq_fromChain request') (rt_chain dst) (rc_originTxs r) params"
    "recipientsMatch (ea_universal api (rt_address dst))
       (relayRequests api (mu_gasLimit params) 0 (me_gasDropOff q) (rq_recipient request))"
    using assms(4) decoded q(2,3)
    by (auto simp: multiInitiate_def multiInitiateXfer_def andThen_eq_Inr startedReceipt_def split: if_splits)
  have "mr_sendTransceivers r = mu_sendTransceivers params \<and> wormholeLast (multi_receipt.truncate r)"
    by (subst (1 2) started(1)) (simp add: startedReceipt_def wormholeLast_def attestedBy_def multi_receipt.truncate_def)
  moreover have "ea_universal api (rt_address dst) =
      (case rq_recipient request of Some a \<Rightarrow> ea_universal api (rt_address a) | None \<Rightarrow> ea_zeroAddress api)"
    if "0 < me_gasDropOff q"
    using started(2) unfolding relayRequests_recipient [OF that] .
  ultimately show ?thesis
    using parts(1) bounds unfolding q(2) option.case q(4,6) by simp
qed

text \<open>
  Only transfers of this deployment are resumed: \<open>resume\<close> succeeds only for a VAA that was sent by the
  manager configured for the chain of the transaction and that goes to a configured chain; the receipt
  is for that VAA, names the token the source manager has for the original one, with the native token
  in place of its wrapped form, and is in a state from which tracking keeps its invariant.
\<close>

theorem multiResume_checked:
  assumes "multiResume api ntts contracts parseTransaction getVaa universalOf chain txid = Inr r"
  shows "\<exists>m vaa sc dc ntt token.
      parseTransaction chain txid = Inr (Some m) \<and> getVaa m = Inr (Some vaa) \<and>
      resolveContracts contracts chain = Inr sc \<and> va_sender vaa = universalOf chain (mc_manager sc) \<and>
      resolveContracts contracts (va_toChain vaa) = Inr dc \<and>
      mn_protocol ntts chain sc = Inr ntt \<and> mn_localToken ntts ntt (Some (va_originalToken vaa)) = Inr (Some token) \<and>
      rc_attestation r = Some vaa \<and> rc_to r = va_toChain vaa \<and> rc_state r = Attested \<and> rc_originTxs r = [txid] \<and>
      mu_sourceTokenId (xm_params r) \<in> {token, nativeTokenId (ea_sdk api) chain} \<and>
      wormholeLast (multi_receipt.truncate r)"
  using assms
  by (force simp: multiResume_def andThen_eq_Inr Let_def thrownM_def wormholeLast_def attestedBy_def
      multi_receipt.truncate_def split: option.splits if_splits sum.splits)

section \<open>A deployment on two chains\<close>

definition exampleNtts :: "(string, string option, string, nat, unit) multi_ntt" where
  "exampleNtts = \<lparr>mn_protocol = (\<lambda>c k. Inr c), mn_wrappedNative = (\<lambda>c. Inr \<lparr>rt_chain = c, rt_address = Some ''w''\<rparr>),
     mn_originalToken = (\<lambda>c t. Inr (Some ''o'')), mn_localToken = (\<lambda>c o1. Inr (Some \<lparr>rt_chain = c, rt_address = Some ''w''\<rparr>)),
     mn_tokenMeta = (\<lambda>c t. Inr 18), mn_localAddress = (\<lambda>c o1 m. Inr None), mn_estimateGasLimit = (\<lambda>c o1. Inr 100),
     mn_inboundLimit = (\<lambda>c o1 f. Inr None), mn_inboundCapacity = (\<lambda>c o1 f. Inr 0), mn_isWrappedToken = (\<lambda>c t. Inr True),
     mn_sameToken = (=), mn_metaDecimals = id, mn_addressText = (\<lambda>a. []), mn_originalChain = (\<lambda>o1. ''Ethereum''),
     mn_originalNative = (\<lambda>o1. None), mn_sendTransceivers = (\<lambda>c d. Inr [(''wormhole'', 0)])\<rparr>"

definition exampleMultiContracts :: "string \<Rightarrow> multi_contracts" where
  "exampleMultiContracts chain =
     \<lparr>mc_chain = chain, mc_manager = ''m'' @ chain, mc_gmpManager = ''g'', mc_axelarGasMultiplier = None\<rparr>"

definition exampleMultiConfig :: multi_config where
  "exampleMultiConfig = \<lparr>mx_contracts = [exampleMultiContracts ''Ethereum'', exampleMultiContracts ''Base''],
     mx_referrerFee = None, mx_axelarGasMultiplier = None\<rparr>"

definition exampleDelivery :: "(string, unit) delivery_api" where
  "exampleDelivery = \<lparr>dl_instructions = (\<lambda>c d g m. Inr ()), dl_price = (\<lambda>c d i. Inr 9), dl_duration = (\<lambda>c. Inr 0)\<rparr>"

definition exampleMultiParams :: "(string option, string, int \<times> nat) multi_params" where
  "exampleMultiParams = \<lparr>mu_amount = ''5'', mu_trimmedAmount = (5000, 3),
     mu_sourceContracts = exampleMultiContracts ''Ethereum'', mu_destinationContracts = exampleMultiContracts ''Base'',
     mu_sourceTokenId = rq_source exampleRequest, mu_destinationTokenId = LocalToken (rq_destination exampleRequest),
     mu_originalTokenId = Some ''o'', mu_sendTransceivers = [\<lparr>tm_type = ''wormhole'', tm_index = 0\<rparr>],
     mu_gasLimit = 100, mu_referrerFeeDbps = Some 0, mu_nativeGas = Some (Finite (1 / 2))\<rparr>"

lemmas example_multi =
  exampleNtts_def exampleMultiContracts_def exampleMultiConfig_def exampleDelivery_def exampleMultiParams_def
  execM_def multiM_def thrownX_def thrownM_def routeX_def

lemma exampleMultiParams_valid:
  "multiValidate exampleExecutor exampleNtts exampleMultiConfig exampleRequest ''5'' (Some (Some (Finite (1 / 2)))) =
     Inr (ValidMulti exampleMultiParams)"
  by (simp add: multiValidate_def normalizeMulti_def ltInt_def gtInt_def resolveContracts_def sendTransceiversTo_def
      estimateGasLimit_def protocolOn_def overriddenGasLimit_def gasOverrides_def getReferrerFeeDbps_def
      trimAmount_def TRIMMED_DECIMALS_def example_multi example_executor)

definition exampleMultiExecutorQuote :: "(string option, unit) multi_exec_quote" where
  "exampleMultiExecutorQuote = \<lparr>me_signedQuote = [0], me_relayInstructions = [1, 100, 0, 2, 50, 3], me_estimatedCost = 7,
     me_payeeAddress = (), me_referrer = eq_referrer exampleQuote, me_remainingAmount = 5000, me_referrerFeeDbps = 0,
     me_expires = 1700000000, me_gasDropOff = 50\<rparr>"

lemma exampleMultiQuote_fetched:
  "multiExecutorQuote exampleExecutor exampleMultiConfig exampleRequest exampleMultiParams = Inr exampleMultiExecutorQuote"
proof -
  have n: "parseBigInt ''100'' = Some 100" "parseBigInt ''7'' = Some 7" by code_simp+
  have ref: "getReferrerAddress exampleExecutor exampleMultiConfig ''Ethereum'' = Inr (eq_referrer exampleQuote)"
    by (simp add: getReferrerAddress_def getDefaultReferrerAddress_def exampleExecutor_def exampleQuote_def
        exampleMultiConfig_def thrownX_def)
  show ?thesis
    using ref
    by (simp add: multiExecutorQuote_def validateCapabilities_def n exampleDropOff calculateReferrerFee_def
        sourceCapabilities_def destinationCapabilities_def bigIntText_def nonEmptyText_def relayRequests_def
        writeRequests_def writeRequest_def exampleMultiExecutorQuote_def example_multi example_executor)
qed

lemma multi_transfer_keeps_quote_witness:
  "\<exists>mq (r :: (nat, (string option, string, int \<times> nat) multi_params) multi_transfer_receipt).
     multiQuote exampleExecutor exampleNtts exampleDelivery exampleMultiConfig exampleRequest exampleMultiParams = Inr mq \<and>
     multiInitiate exampleExecutor (\<lambda>c. Inr [''tx'']) exampleRequest bob mq bob = Inr r \<and>
     map_option me_gasDropOff (mv_details mq) = Some 50 \<and> wormholeLast (multi_receipt.truncate r)"
proof -
  obtain mq where mq: "multiQuote exampleExecutor exampleNtts exampleDelivery exampleMultiConfig exampleRequest
      exampleMultiParams = Inr mq"
    "mv_details mq = Some (multi_exec_quote.extend exampleMultiExecutorQuote
       \<lparr>me_deliveryPrice = 9, me_transceiverInstructions = (), me_currentInboundCapacity = None\<rparr>)"
    unfolding multiQuote_def exampleMultiQuote_fetched
    by (simp add: Let_def deliveryPriceAndInstructions_def multiRateLimit_def checkRateLimit_def example_multi
        exampleRequest_def)
  obtain r :: "(nat, (string option, string, int \<times> nat) multi_params) multi_transfer_receipt" where
    r: "multiInitiate exampleExecutor (\<lambda>c. Inr [''tx'']) exampleRequest bob mq bob = Inr r"
    using mq(2)
    by (simp add: multiInitiate_def multiInitiateXfer_def exampleMultiExecutorQuote_def multi_exec_quote.extend_def
        bob_def thrownX_def recipientsMatch_def example_executor)
  have "codec (ea_serialize exampleExecutor) (ea_deserialize exampleExecutor)"
    using relay_instructions.codec_axioms by (simp add: exampleExecutor_def)
  from multi_transfer_keeps_quote [OF this exampleMultiParams_valid mq(1) r] mq r show ?thesis
    by (simp add: multi_exec_quote.extend_def exampleMultiExecutorQuote_def)
qed

definition exampleMultiVaa :: "(byte, string) multi_vaa" where
  "exampleMultiVaa = \<lparr>va_emitterChain = ''Ethereum'', va_sender = 9, va_toChain = ''Base'', va_amount = 5000,
     va_decimals = 3, va_originalToken = ''o''\<rparr>"

lemma multiResume_checked_witness:
  "\<exists>r. multiResume exampleExecutor exampleNtts (mx_contracts exampleMultiConfig) (\<lambda>c t. Inr (Some t))
     (\<lambda>m. Inr (Some exampleMultiVaa)) (\<lambda>c t. of_nat (length t)) ''Ethereum'' ''tx'' = Inr r \<and>
   rc_to r = ''Base'' \<and> rc_attestation r = Some exampleMultiVaa \<and> wormholeLast (multi_receipt.truncate r)"
proof -
  obtain r where r: "multiResume exampleExecutor exampleNtts (mx_contracts exampleMultiConfig) (\<lambda>c t. Inr (Some t))
     (\<lambda>m. Inr (Some exampleMultiVaa)) (\<lambda>c t. of_nat (length t)) ''Ethereum'' ''tx'' = Inr r"
    by (simp add: multiResume_def resolveContracts_def getDestinationTokenId_def protocolOn_def sendTransceiversTo_def
        exampleMultiVaa_def Let_def example_multi example_executor)
  from multiResume_checked [OF r] r show ?thesis
    by (auto simp: exampleMultiVaa_def)
qed

end
