(* ===== verification/Evm_Multi_Token.thy ===== *)
theory Evm_Multi_Token
  imports Evm_Ntt Axelar Route_Multi_Executor
begin

text \<open>
  The protocols \<open>MultiTokenNtt\<close> and \<open>MultiTokenNttWithExecutor\<close> on an EVM chain,
  \<open>evm/ts/src/multiTokenNtt.ts\<close> and \<open>evm/ts/src/multiTokenNttWithExecutor.ts\<close>. One manager serves all
  tokens; a message manager (\<open>gmp\<close>) knows the transceivers of each chain.
\<close>

section \<open>The object\<close>

record multi_evm_contracts =
  mc_evmChain :: string
  mc_evmManager :: string
  mc_gmpManager :: string

record multi_evm =
  ml_network :: string
  ml_chain :: string
  ml_chainId :: nat
  ml_manager :: string
  ml_gmpManager :: string
  ml_abi :: string

text \<open>The single version of the interface (\<open>multiTokenNttBindings.ts\<close>).\<close>

definition multiAbiVersions :: "(string \<times> string) list" where
  "multiAbiVersions = [(''1.1.0'', ''1.1.0'')]"

definition newMultiEvm :: "string \<Rightarrow> string \<Rightarrow> nat \<Rightarrow> multi_evm_contracts option \<Rightarrow> string \<Rightarrow> evm_error + multi_evm" where
  "newMultiEvm network chain chainId contracts version =
     (case contracts of
        None \<Rightarrow> Inl NoNttContracts
      | Some c \<Rightarrow>
          andThen (case loadAbiVersion multiAbiVersions version of Inl e \<Rightarrow> Inl (EvmAbi e) | Inr abi \<Rightarrow> Inr abi) (\<lambda>abi.
          Inr \<lparr>ml_network = network, ml_chain = chain, ml_chainId = chainId, ml_manager = mc_evmManager c,
               ml_gmpManager = mc_gmpManager c, ml_abi = abi\<rparr>))"

text \<open>
  The version of a manager is read once: \<open>cache\<close> is \<open>versionCache\<close>, keyed by chain and manager. The
  cache is returned as it is after the call.
\<close>

definition getMultiVersion :: "('w \<Rightarrow> string \<Rightarrow> string + string) \<Rightarrow> 'w \<Rightarrow> (string \<times> string) list \<Rightarrow> multi_evm_contracts option
    \<Rightarrow> (evm_error + string) \<times> (string \<times> string) list" where
  "getMultiVersion managerVersion w cache contracts =
     (case contracts of
        None \<Rightarrow> (Inl NoMultiManager, cache)
      | Some c \<Rightarrow>
          (let cacheKey = mc_evmChain c @ ''-'' @ mc_evmManager c;
               fetch = (case managerVersion w (mc_evmManager c) of
                   Inl e \<Rightarrow> (Inl (EvmThrown e), cache)
                 | Inr abiVersion \<Rightarrow>
                     if abiVersion = [] then (Inl VersionMissing, cache)
                     else (Inr abiVersion, AList.update cacheKey abiVersion cache)) in
           case map_of cache cacheKey of
             Some cached \<Rightarrow> if cached \<noteq> [] then (Inr cached, cache) else fetch
           | None \<Rightarrow> fetch))"

text \<open>What is read of the contracts; tokens are named by chain id and address.\<close>

record 'w multi_reads =
  gm_sendTransceivers :: "'w \<Rightarrow> string \<Rightarrow> nat \<Rightarrow> string + (string \<times> int) list"
  gm_receiveTransceivers :: "'w \<Rightarrow> string \<Rightarrow> nat \<Rightarrow> string + (string \<times> int) list"
  gm_transceiverType :: "'w \<Rightarrow> string \<Rightarrow> string + string"
  gm_deliveryPrice :: "'w \<Rightarrow> string \<Rightarrow> nat \<Rightarrow> bytes \<Rightarrow> string + int"
  gm_isMessageExecuted :: "'w \<Rightarrow> string \<Rightarrow> bytes \<Rightarrow> string + bool"
  gm_isMessageApprovedForChain :: "'w \<Rightarrow> string \<Rightarrow> nat \<Rightarrow> bytes \<Rightarrow> string + bool"
  gm_transceiverAttested :: "'w \<Rightarrow> string \<Rightarrow> bytes \<Rightarrow> int \<Rightarrow> string + bool"
  mm_inboundQueued :: "'w \<Rightarrow> string \<Rightarrow> bytes \<Rightarrow> string + nat \<times> int"
  mm_rateLimitDuration :: "'w \<Rightarrow> string \<Rightarrow> string + int"
  mm_tokenId :: "'w \<Rightarrow> string \<Rightarrow> string \<Rightarrow> string + nat \<times> bytes"
  mm_token :: "'w \<Rightarrow> string \<Rightarrow> nat \<times> bytes \<Rightarrow> string + string"
  mm_outboundLimitParams :: "'w \<Rightarrow> string \<Rightarrow> nat \<times> bytes \<Rightarrow> string + int"
  mm_inboundLimitParams :: "'w \<Rightarrow> string \<Rightarrow> nat \<times> bytes \<Rightarrow> nat \<Rightarrow> string + int"
  mm_outboundCapacity :: "'w \<Rightarrow> string \<Rightarrow> nat \<times> bytes \<Rightarrow> string + int"
  mm_inboundCapacity :: "'w \<Rightarrow> string \<Rightarrow> nat \<times> bytes \<Rightarrow> nat \<Rightarrow> string + int"
  mm_weth :: "'w \<Rightarrow> string \<Rightarrow> string + string"
  mm_meta :: "'w \<Rightarrow> string \<Rightarrow> string + string \<times> string \<times> int"
  mm_toChain :: "nat \<Rightarrow> string + string"
  mm_toUniversal :: "string \<Rightarrow> bytes \<Rightarrow> string + bytes"
  mm_gasFee :: "fee_request \<Rightarrow> string + fee_answer http_answer"
  mm_toBytes :: "int \<Rightarrow> nat \<Rightarrow> string + bytes"

section \<open>Transceivers and instructions\<close>

record evm_transceiver =
  et_address :: string
  et_index :: int
  et_type :: string

definition withTypes :: "'w multi_reads \<Rightarrow> 'w \<Rightarrow> (string \<times> int) list \<Rightarrow> evm_error + evm_transceiver list" where
  "withTypes rd w = mapR (\<lambda>(a, i). andThen (thrownE (gm_transceiverType rd w a)) (\<lambda>t.
     Inr \<lparr>et_address = a, et_index = i, et_type = t\<rparr>))"

definition getSendTransceivers :: "('w, 'a) evm_env \<Rightarrow> 'w multi_reads \<Rightarrow> 'w \<Rightarrow> multi_evm \<Rightarrow> string
    \<Rightarrow> evm_error + evm_transceiver list" where
  "getSendTransceivers env rd w m destinationChain =
     andThen (thrownE (gm_sendTransceivers rd w (ml_gmpManager m) (ev_toChainId env destinationChain))) (withTypes rd w)"

definition getReceiveTransceivers :: "('w, 'a) evm_env \<Rightarrow> 'w multi_reads \<Rightarrow> 'w \<Rightarrow> multi_evm \<Rightarrow> string
    \<Rightarrow> evm_error + evm_transceiver list" where
  "getReceiveTransceivers env rd w m sourceChain =
     andThen (thrownE (gm_receiveTransceivers rd w (ml_gmpManager m) (ev_toChainId env sourceChain))) (withTypes rd w)"

definition axelarE :: "axelar_error + 'x \<Rightarrow> evm_error + 'x" where
  "axelarE x = (case x of Inl _ \<Rightarrow> Inl (EvmThrown ''axelar'') | Inr v \<Rightarrow> Inr v)"

definition instructionOf :: "'w multi_reads \<Rightarrow> multi_evm \<Rightarrow> string \<Rightarrow> int \<Rightarrow> gas_multiplier \<Rightarrow> evm_transceiver
    \<Rightarrow> evm_error + transceiver_ix" where
  "instructionOf rd m dstChain gasLimit axelarGasMultiplier t =
     (let kind = toLowerCase (et_type t) in
      if kind = ''wormhole'' then Inr \<lparr>ix_index = et_index t, ix_payload = [1]\<rparr>
      else if kind = ''axelar''
      then
        andThen (axelarE (getAxelarGasFee (mm_gasFee rd) (ml_network m) (ml_chain m) dstChain gasLimit axelarGasMultiplier)) (\<lambda>gasFee.
        andThen (thrownE (mm_toBytes rd gasFee 32)) (\<lambda>payload.
        Inr \<lparr>ix_index = et_index t, ix_payload = payload\<rparr>))
      else Inl (UnsupportedTransceiverAt (et_type t) (et_index t)))"

definition createTransceiverInstructions :: "('w, 'a) evm_env \<Rightarrow> 'w multi_reads \<Rightarrow> 'w \<Rightarrow> multi_evm \<Rightarrow> string \<Rightarrow> int
    \<Rightarrow> gas_multiplier \<Rightarrow> evm_error + transceiver_ix list" where
  "createTransceiverInstructions env rd w m dstChain gasLimit axelarGasMultiplier =
     andThen (getSendTransceivers env rd w m dstChain) (\<lambda>sendTransceivers.
     andThen (mapR (instructionOf rd m dstChain gasLimit axelarGasMultiplier) sendTransceivers) (\<lambda>instructions.
     Inr (sort_key ix_index instructions)))"

definition multiDeliveryPrice :: "('w, 'a) evm_env \<Rightarrow> 'w multi_reads \<Rightarrow> 'w \<Rightarrow> multi_evm \<Rightarrow> string \<Rightarrow> transceiver_ix list
    \<Rightarrow> evm_error + int" where
  "multiDeliveryPrice env rd w m dstChain instructions =
     andThen (encodeInstructions env instructions) (\<lambda>encoded.
     thrownE (gm_deliveryPrice rd w (ml_gmpManager m) (ev_toChainId env dstChain) encoded))"

section \<open>Transfers\<close>

definition multiTx :: "multi_evm \<Rightarrow> string \<Rightarrow> evm_call \<Rightarrow> int \<Rightarrow> string option \<Rightarrow> string \<Rightarrow> evm_tx" where
  "multiTx m to' call val from description =
     \<lparr>tx_to = to', tx_call = call, tx_value = val, tx_from = from, tx_chainId = ml_chainId m, tx_description = description\<rparr>"

definition multiTransferArgs :: "('w, 'a) evm_env \<Rightarrow> int \<Rightarrow> 'a chain_address \<Rightarrow> bytes \<Rightarrow> bytes \<Rightarrow> multi_transfer_args" where
  "multiTransferArgs env amount destination receiver instructions =
     \<lparr>mt_amount = amount, mt_recipientChain = ev_toChainId env (rt_chain destination), mt_recipient = receiver,
      mt_refundAddress = receiver, mt_shouldQueue = False, mt_instructions = instructions, mt_additionalPayload = []\<rparr>"

text \<open>\<open>native\<close> is \<open>isNative(token)\<close>.\<close>

definition multiTransfer :: "('w, 'a) evm_env \<Rightarrow> 'w multi_reads \<Rightarrow> ('a \<Rightarrow> bool) \<Rightarrow> multi_evm \<Rightarrow> 'a \<Rightarrow> 'a \<Rightarrow> int \<Rightarrow> 'a chain_address
    \<Rightarrow> int \<Rightarrow> gas_multiplier \<Rightarrow> ('w, evm_tx, evm_error, unit) process" where
  "multiTransfer env rd native m sender token amount destination destinationGasLimit axelarGasMultiplier =
     proceed (returning (thrownE (ev_address env sender))) (\<lambda>senderAddress.
     proceed (reading (\<lambda>w. createTransceiverInstructions env rd w m (rt_chain destination) destinationGasLimit
         axelarGasMultiplier)) (\<lambda>transceiverInstructions.
     proceed (reading (\<lambda>w. multiDeliveryPrice env rd w m (rt_chain destination) transceiverInstructions)) (\<lambda>totalPrice.
     proceed (returning (thrownE (ev_universal env (rt_address destination)))) (\<lambda>receiver.
     proceed (if native token then returning (Inr ())
              else approval env (ml_chainId m) (Some senderAddress) ''Ntt.Approve'' (ev_text env token) senderAddress
                     (ml_manager m) amount) (\<lambda>_.
     proceed (returning (encodeInstructions env transceiverInstructions)) (\<lambda>encoded.
     let args = multiTransferArgs env amount destination receiver encoded in
     proceed (populate env (if native token then WrapAndTransferGasToken args else MultiTransfer (ev_text env token) args)) (\<lambda>call.
     sending (ev_deliver env) (multiTx m (ml_manager m) call (if native token then amount + totalPrice else totalPrice)
       (Some senderAddress) ''Ntt.transfer''))))))))"

record multi_attestation =
  ma_emitterChain :: string
  ma_digest :: bytes
  ma_serialized :: bytes

definition multiRedeem :: "('w, 'a) evm_env \<Rightarrow> 'w multi_reads \<Rightarrow> multi_evm \<Rightarrow> multi_attestation
    \<Rightarrow> ('w, evm_tx, evm_error, unit) process" where
  "multiRedeem env rd m attestation =
     proceed (reading (\<lambda>w. getReceiveTransceivers env rd w m (ma_emitterChain attestation))) (\<lambda>transceivers.
     case find (\<lambda>t. et_type t = ''wormhole'') transceivers of
       None \<Rightarrow> returning (Inl NoWormholeXcvr)
     | Some t \<Rightarrow>
         proceed (populate env (ReceiveMessage (ma_serialized attestation))) (\<lambda>call.
         sending (ev_deliver env) (multiTx m (et_address t) call 0 None ''NttTransceiver.receiveMessage'')))"

section \<open>What is read\<close>

definition multiQueued :: "'w multi_reads \<Rightarrow> 'w \<Rightarrow> multi_evm \<Rightarrow> bytes \<Rightarrow> evm_error + (string \<times> js_number) option" where
  "multiQueued rd w m digest =
     andThen (thrownE (mm_inboundQueued rd w (ml_manager m) digest)) (\<lambda>(sourceChainId, txTimestamp).
     if txTimestamp > 0
     then
       andThen (thrownE (mm_rateLimitDuration rd w (ml_manager m))) (\<lambda>duration.
       andThen (thrownE (mm_toChain rd sourceChainId)) (\<lambda>chain.
       Inr (Some (chain, double_of_rat (of_int (txTimestamp + duration))))))
     else Inr None)"

definition multiIsTransferInboundQueued :: "'w multi_reads \<Rightarrow> 'w \<Rightarrow> multi_evm \<Rightarrow> multi_attestation \<Rightarrow> evm_error + bool" where
  "multiIsTransferInboundQueued rd w m attestation =
     andThen (multiQueued rd w m (ma_digest attestation)) (\<lambda>q. Inr (q \<noteq> None))"

definition multiIsExecuted :: "'w multi_reads \<Rightarrow> 'w \<Rightarrow> multi_evm \<Rightarrow> multi_attestation \<Rightarrow> evm_error + bool" where
  "multiIsExecuted rd w m attestation =
     andThen (thrownE (gm_isMessageExecuted rd w (ml_gmpManager m) (ma_digest attestation))) (\<lambda>isExecuted.
     if isExecuted then andThen (multiIsTransferInboundQueued rd w m attestation) (\<lambda>queued. Inr (\<not> queued)) else Inr False)"

definition multiIsApproved :: "('w, 'a) evm_env \<Rightarrow> 'w multi_reads \<Rightarrow> 'w \<Rightarrow> multi_evm \<Rightarrow> multi_attestation \<Rightarrow> evm_error + bool" where
  "multiIsApproved env rd w m attestation =
     thrownE (gm_isMessageApprovedForChain rd w (ml_gmpManager m) (ev_toChainId env (ma_emitterChain attestation))
       (ma_digest attestation))"

definition multiOriginalToken :: "'w multi_reads \<Rightarrow> 'w \<Rightarrow> multi_evm \<Rightarrow> string \<Rightarrow> evm_error + string \<times> bytes" where
  "multiOriginalToken rd w m localToken =
     andThen (thrownE (mm_tokenId rd w (ml_manager m) localToken)) (\<lambda>(chainId, tokenAddress).
     andThen (thrownE (mm_toChain rd chainId)) (\<lambda>chain.
     andThen (thrownE (mm_toUniversal rd chain tokenAddress)) (\<lambda>address. Inr (chain, address))))"

definition multiIsWrappedToken :: "'w multi_reads \<Rightarrow> 'w \<Rightarrow> multi_evm \<Rightarrow> string \<Rightarrow> evm_error + bool" where
  "multiIsWrappedToken rd w m localToken =
     andThen (multiOriginalToken rd w m localToken) (\<lambda>(chain, _). Inr (chain \<noteq> ml_chain m))"

definition zeroAddress :: string where
  "zeroAddress = ''0x0000000000000000000000000000000000000000''"

definition multiLocalToken :: "('w, 'a) evm_env \<Rightarrow> 'w multi_reads \<Rightarrow> 'w \<Rightarrow> multi_evm \<Rightarrow> string \<times> bytes \<Rightarrow> evm_error + string option" where
  "multiLocalToken env rd w m = (\<lambda>(chain, address).
     andThen (thrownE (mm_token rd w (ml_manager m) (ev_toChainId env chain, address))) (\<lambda>localToken.
     Inr (if localToken = zeroAddress then None else Some localToken)))"

definition multiOutboundLimit :: "('w, 'a) evm_env \<Rightarrow> 'w multi_reads \<Rightarrow> 'w \<Rightarrow> multi_evm \<Rightarrow> string \<Rightarrow> evm_error + int" where
  "multiOutboundLimit env rd w m localToken =
     andThen (multiOriginalToken rd w m localToken) (\<lambda>(chain, address).
     andThen (thrownE (mm_outboundLimitParams rd w (ml_manager m) (ev_toChainId env chain, address))) (\<lambda>encoded.
     andThen (thrownE (mm_meta rd w localToken)) (\<lambda>(_, _, decimals).
     Inr (untrim (decodeTrimmedAmount encoded) decimals))))"

definition multiInboundLimit :: "('w, 'a) evm_env \<Rightarrow> 'w multi_reads \<Rightarrow> 'w \<Rightarrow> multi_evm \<Rightarrow> string \<times> bytes \<Rightarrow> string
    \<Rightarrow> evm_error + int option" where
  "multiInboundLimit env rd w m originalToken fromChain =
     andThen (multiLocalToken env rd w m originalToken) (\<lambda>localToken.
     case localToken of
       None \<Rightarrow> Inr None
     | Some token \<Rightarrow>
         andThen (thrownE (mm_inboundLimitParams rd w (ml_manager m)
           (ev_toChainId env (fst originalToken), snd originalToken) (ev_toChainId env fromChain))) (\<lambda>encoded.
         let trimmedAmount = decodeTrimmedAmount encoded in
         if ta_amount trimmedAmount = 0 \<and> ta_decimals trimmedAmount = 0 then Inr None
         else andThen (thrownE (mm_meta rd w token)) (\<lambda>(_, _, decimals). Inr (Some (untrim trimmedAmount decimals)))))"

definition multiGasLimit :: "('w, 'a) evm_env \<Rightarrow> 'w multi_reads \<Rightarrow> 'w \<Rightarrow> multi_evm \<Rightarrow> string \<times> bytes \<Rightarrow> evm_error + int" where
  "multiGasLimit env rd w m originalToken =
     andThen (multiLocalToken env rd w m originalToken) (\<lambda>existingToken.
     Inr (if existingToken = None then 1000000 else if ml_chain m = ''Monad'' then 1000000 else 650000))"

record queued_message =
  qm_trimmedAmount :: trimmed_amount
  qm_name :: bytes
  qm_symbol :: bytes
  qm_decimals :: nat
  qm_chain :: string
  qm_tokenAddress :: string
  qm_sender :: string
  qm_to :: string

definition multiCompleteQueued :: "('w, 'a) evm_env \<Rightarrow> multi_evm \<Rightarrow> bytes \<Rightarrow> queued_message
    \<Rightarrow> ('w, evm_tx, evm_error, unit) process" where
  "multiCompleteQueued env m digest message =
     proceed (returning (case encodeTrimmedAmount (qm_trimmedAmount message) of
         Inl e \<Rightarrow> Inl (AmountNotTrimmed e) | Inr n \<Rightarrow> Inr n)) (\<lambda>encoded.
     proceed (populate env (CompleteMultiQueuedTransfer digest
         \<lparr>qs_amount = encoded, qs_name = qm_name message, qs_symbol = qm_symbol message, qs_decimals = qm_decimals message,
          qs_chainId = ev_toChainId env (qm_chain message), qs_tokenAddress = qm_tokenAddress message,
          qs_sender = qm_sender message, qs_to = qm_to message, qs_additionalPayload = []\<rparr>)) (\<lambda>call.
     sending (ev_deliver env) (multiTx m (ml_manager m) call 0 None ''Ntt.completeInboundQueuedTransfer'')))"

section \<open>Addresses of tokens to come\<close>

definition multiOutboundCapacity :: "('w, 'a) evm_env \<Rightarrow> 'w multi_reads \<Rightarrow> 'w \<Rightarrow> multi_evm \<Rightarrow> string \<Rightarrow> evm_error + int" where
  "multiOutboundCapacity env rd w m localToken =
     andThen (multiOriginalToken rd w m localToken) (\<lambda>(chain, address).
     thrownE (mm_outboundCapacity rd w (ml_manager m) (ev_toChainId env chain, address)))"

definition multiInboundCapacity :: "('w, 'a) evm_env \<Rightarrow> 'w multi_reads \<Rightarrow> 'w \<Rightarrow> multi_evm \<Rightarrow> string \<times> bytes \<Rightarrow> string
    \<Rightarrow> evm_error + int" where
  "multiInboundCapacity env rd w m originalToken fromChain =
     thrownE (mm_inboundCapacity rd w (ml_manager m) (ev_toChainId env (fst originalToken), snd originalToken)
       (ev_toChainId env fromChain))"

text \<open>The functions of \<open>ethers\<close> that encode and hash, and what the manager says of its token contracts.\<close>

record 'w create2_api =
  c2_implementation :: "'w \<Rightarrow> string \<Rightarrow> string + string"
  c2_creationCode :: "'w \<Rightarrow> string \<Rightarrow> string + bytes"
  c2_id :: "string \<Rightarrow> bytes"
  c2_encodeMeta :: "string \<Rightarrow> string \<Rightarrow> int \<Rightarrow> string + bytes"
  c2_encodeArgs :: "string \<Rightarrow> bytes \<Rightarrow> string + bytes"
  c2_packedKeccak :: "nat \<Rightarrow> bytes \<Rightarrow> bytes"
  c2_keccak :: "bytes \<Rightarrow> bytes"
  c2_address :: "string \<Rightarrow> bytes \<Rightarrow> bytes \<Rightarrow> string"

definition calculateLocalTokenAddress :: "('w, 'a) evm_env \<Rightarrow> 'w create2_api \<Rightarrow> 'w \<Rightarrow> multi_evm \<Rightarrow> string \<times> bytes
    \<Rightarrow> string \<times> string \<times> int \<Rightarrow> evm_error + string" where
  "calculateLocalTokenAddress env c2 w m originalToken = (\<lambda>(name, symbol, decimals).
     andThen (thrownE (c2_implementation c2 w (ml_manager m))) (\<lambda>tokenImplementation.
     let initializeSelector = take 4 (c2_id c2 ''initialize(string,string,uint8)'') in
     andThen (thrownE (c2_encodeMeta c2 (take 32 name) (take 32 symbol) decimals)) (\<lambda>meta.
     andThen (thrownE (c2_encodeArgs c2 tokenImplementation (initializeSelector @ meta))) (\<lambda>constructorArgs.
     andThen (thrownE (c2_creationCode c2 w (ml_manager m))) (\<lambda>creationCode.
     let initCodeHash = c2_keccak c2 (creationCode @ constructorArgs);
         salt = c2_packedKeccak c2 (ev_toChainId env (fst originalToken)) (snd originalToken) in
     Inr (c2_address c2 (ml_manager m) salt initCodeHash))))))"

section \<open>The executor\<close>

definition multiTokenNttWithExecutorAddresses :: "(string \<times> (string \<times> string) list) list" where
  "multiTokenNttWithExecutorAddresses = [
   (''Mainnet'', [
     (''Ethereum'', ''0x03dB430D830601DB368991eE55DAa9A708df7912''),
     (''Monad'', ''0xFEA937F7124E19124671f1685671d3f04a9Af4E4'')]),
   (''Testnet'', [
     (''Sepolia'', ''0x70b1CD25Aa1DEbEf2BCa0eDbc11228C5EB4dAD0F''),
     (''Monad'', ''0xFEA937F7124E19124671f1685671d3f04a9Af4E4'')])]"

record multi_executor =
  mw_chainId :: nat
  mw_managerAddress :: string
  mw_executorAddress :: string

definition newMultiExecutor :: "string \<Rightarrow> string \<Rightarrow> nat \<Rightarrow> multi_evm_contracts option \<Rightarrow> evm_error + multi_executor" where
  "newMultiExecutor network chain chainId contracts =
     (case map_option mc_evmManager contracts of
        None \<Rightarrow> Inl NoMultiManager
      | Some managerAddress \<Rightarrow>
          if managerAddress = [] then Inl NoMultiManager
          else
            (case Option.bind (map_of multiTokenNttWithExecutorAddresses network) (\<lambda>row. map_of row chain) of
               None \<Rightarrow> Inl NoMultiExecutor
             | Some executor \<Rightarrow>
                 if executor = [] then Inl NoMultiExecutor
                 else Inr \<lparr>mw_chainId = chainId, mw_managerAddress = managerAddress, mw_executorAddress = executor\<rparr>))"

definition multiShimTx :: "multi_executor \<Rightarrow> string \<Rightarrow> evm_call \<Rightarrow> int \<Rightarrow> bool \<Rightarrow> evm_tx" where
  "multiShimTx x senderAddress call msgValue isNativeToken =
     \<lparr>tx_to = mw_executorAddress x, tx_call = call, tx_value = msgValue, tx_from = Some senderAddress,
      tx_chainId = mw_chainId x,
      tx_description = (if isNativeToken then ''MultiTokenNttWithExecutor.transferETH'' else ''MultiTokenNttWithExecutor.transfer'')\<rparr>"

definition dbpsArgs :: "('w, 'a) evm_env \<Rightarrow> multi_executor \<Rightarrow> string \<Rightarrow> 'a chain_address \<Rightarrow> string option \<Rightarrow> int
    \<Rightarrow> ('a, 'q, transceiver_ix list, 'x) multi_details \<Rightarrow> bytes \<Rightarrow> bytes \<Rightarrow> bytes \<Rightarrow> dbps_args" where
  "dbpsArgs env x senderAddress destination token amount details recipient refundAddress instructions =
     \<lparr>da_multiTokenNtt = mw_managerAddress x, da_token = token, da_amount = amount,
      da_recipientChain = ev_toChainId env (rt_chain destination), da_recipient = recipient,
      da_refundAddress = refundAddress, da_instructions = instructions,
      da_executorArgs = \<lparr>xa_value = me_estimatedCost details, xa_feeToken = None, xa_refundAddress = senderAddress,
        xa_signedQuote = me_signedQuote details, xa_instructions = me_relayInstructions details\<rparr>,
      da_dbps = me_referrerFeeDbps details, da_payee = ev_text env (rt_address (me_referrer details))\<rparr>"

definition multiShimTransfer :: "('w, 'a) evm_env \<Rightarrow> ('a \<Rightarrow> bool) \<Rightarrow> multi_executor \<Rightarrow> 'a \<Rightarrow> 'a chain_address \<Rightarrow> 'a \<Rightarrow> int
    \<Rightarrow> ('a, 'q, transceiver_ix list, 'x) multi_details \<Rightarrow> ('w, evm_tx, evm_error, unit) process" where
  "multiShimTransfer env native x sender destination token amount details =
     proceed (returning (thrownE (ev_address env sender))) (\<lambda>senderAddress.
     proceed (returning (thrownE (ev_universal env (rt_address destination)))) (\<lambda>recipient.
     proceed (returning (thrownE (ev_universal env sender))) (\<lambda>refundAddress.
     if native token
     then
       proceed (returning (encodeInstructions env (me_transceiverInstructions details))) (\<lambda>instructions.
       proceed (populate env (DbpsTransferETH
           (dbpsArgs env x senderAddress destination None amount details recipient refundAddress instructions))) (\<lambda>call.
       sending (ev_deliver env) (multiShimTx x senderAddress call
         (me_estimatedCost details + me_deliveryPrice details + amount) True)))
     else
       proceed (returning (thrownE (ev_address env token))) (\<lambda>tokenAddress.
       proceed (approval env (mw_chainId x) None ''MultiTokenNttWithExecutor.Approve'' tokenAddress senderAddress
           (mw_executorAddress x) amount) (\<lambda>_.
       proceed (returning (encodeInstructions env (me_transceiverInstructions details))) (\<lambda>instructions.
       proceed (populate env (DbpsTransfer
           (dbpsArgs env x senderAddress destination (Some tokenAddress) amount details recipient refundAddress instructions))) (\<lambda>call.
       sending (ev_deliver env) (multiShimTx x senderAddress call
         (me_estimatedCost details + me_deliveryPrice details) False))))))))"

section \<open>The route on an EVM chain\<close>

text \<open>What the route asks of the protocol for a quote, on a chain in the state \<open>w\<close>; \<open>message\<close> renders an error.\<close>

definition evmDelivery :: "('w, 'a) evm_env \<Rightarrow> 'w multi_reads \<Rightarrow> (evm_error \<Rightarrow> string) \<Rightarrow> 'w
    \<Rightarrow> (multi_evm, transceiver_ix list) delivery_api" where
  "evmDelivery env rd message w =
     \<lparr>dl_instructions = (\<lambda>m dstChain gasLimit multiplier.
        map_sum message id (createTransceiverInstructions env rd w m dstChain gasLimit
          (case multiplier of None \<Rightarrow> AutoMultiplier | Some x \<Rightarrow> x))),
      dl_price = (\<lambda>m dstChain instructions. map_sum message id (multiDeliveryPrice env rd w m dstChain instructions)),
      dl_duration = (\<lambda>m. mm_rateLimitDuration rd w (ml_manager m))\<rparr>"

lemma map_sum_eq_Inr: "map_sum f id x = Inr y \<longleftrightarrow> x = Inr y"
  by (cases x) auto

lemma thrownM_eq_Inr: "thrownM x = Inr y \<longleftrightarrow> x = Inr y"
  by (auto simp: thrownM_def split: sum.splits)

lemma multiM_eq_Inr: "multiM x = Inr y \<longleftrightarrow> x = Inr y" "execM z = Inr u \<longleftrightarrow> z = Inr u"
  by (simp_all add: multiM_def execM_def map_sum_eq_Inr)

lemma multiQuote_delivery:
  assumes "multiQuote api ntts (evmDelivery env rd message w) config request params = Inr mq"
    and "mv_details mq = Some details"
  obtains m where "mn_protocol ntts (rq_fromChain request) (mu_sourceContracts params) = Inr m"
    "createTransceiverInstructions env rd w m (rq_toChain request) (mu_gasLimit params)
       (case mx_axelarGasMultiplier config of None \<Rightarrow> AutoMultiplier | Some x \<Rightarrow> x) = Inr (me_transceiverInstructions details)"
    "multiDeliveryPrice env rd w m (rq_toChain request) (me_transceiverInstructions details) = Inr (me_deliveryPrice details)"
    "mv_relayFee mq = Some (nativeTokenId (ea_sdk api) (rq_fromChain request), fromBaseUnits (ea_amounts api)
       (me_estimatedCost details + me_deliveryPrice details) (ea_nativeDecimals api (rq_fromChain request)))"
  using assms
  by (auto simp: multiQuote_def andThen_eq_Inr Let_def multi_exec_quote.extend_def deliveryPriceAndInstructions_def
      evmDelivery_def map_sum_eq_Inr thrownM_eq_Inr multiM_eq_Inr)

lemma createTransceiverInstructions_sorted:
  "createTransceiverInstructions env rd w m chain g k = Inr ixs \<Longrightarrow> sorted (map ix_index ixs)"
  by (auto simp: createTransceiverInstructions_def andThen_eq_Inr)

lemma multiShimTransfer_Inr:
  assumes laws: "erc20Laws env signer" and sender: "ev_address env sender = Inr signer"
    and run: "multiShimTransfer env native x sender dst token amount details w = (ys, Inr (), w')"
  obtains pre t args where "ys = pre @ [t]" "tx_to t = mw_executorAddress x" "tx_from t = Some signer"
    "tx_call t = (if native token then DbpsTransferETH args else DbpsTransfer args)"
    "da_amount args = amount" "ev_universal env (rt_address dst) = Inr (da_recipient args)"
    "xa_value (da_executorArgs args) = me_estimatedCost details"
    "encodeTransceiverInstructions (ev_serializeIx env) (me_transceiverInstructions details) = Inr (da_instructions args)"
    "tx_value t = me_estimatedCost details + me_deliveryPrice details + (if native token then amount else 0)"
    "if native token then pre = [] else \<exists>tokenAddress. ev_address env token = Inr tokenAddress \<and>
       da_token args = Some tokenAddress \<and>
       allowed env (fold (ev_deliver env) pre w) tokenAddress signer (mw_executorAddress x) amount"
proof (cases "native token")
  case True
  with run sender show thesis
    by (auto simp: multiShimTransfer_def process_simps multiShimTx_def dbpsArgs_def intro!: that [of "[]"])
next
  case False
  with run sender obtain tokenAddress recipient refund as w1 ixs where
    parts: "ev_address env token = Inr tokenAddress" "ev_universal env (rt_address dst) = Inr recipient"
      "encodeTransceiverInstructions (ev_serializeIx env) (me_transceiverInstructions details) = Inr ixs"
    and a: "approval env (mw_chainId x) None ''MultiTokenNttWithExecutor.Approve'' tokenAddress signer
       (mw_executorAddress x) amount w = (as, Inr (), w1)"
    and ys: "ys = as @ [multiShimTx x signer (DbpsTransfer
       (dbpsArgs env x signer dst (Some tokenAddress) amount details recipient refund ixs))
       (me_estimatedCost details + me_deliveryPrice details) False]"
    by (auto simp: multiShimTransfer_def process_simps)
  have "w1 = fold (ev_deliver env) as w" by (rule delivers_world [OF delivers_approval a])
  then have "allowed env (fold (ev_deliver env) as w) tokenAddress signer (mw_executorAddress x) amount"
    using approval_covers(1) [OF laws a] by simp
  with False parts ys show thesis
    by (intro that [of as _ "dbpsArgs env x signer dst (Some tokenAddress) amount details recipient refund ixs"])
      (auto simp: multiShimTx_def dbpsArgs_def)
qed

text \<open>
  C13. The relay fee a multi-token quote shows is what the transfer on it pays. For a quote made with the
  instructions and the price of the EVM protocol: the transfer's last transaction calls the executor with the
  amount, the recipient and these instructions, sorted by index; its value is the relay cost and the
  delivery price, which are the relay fee of the quote, and the amount on top for the native token. For
  another token the executor is allowed to take the amount when it is called; for the native one there is no
  other transaction.
\<close>

theorem multiShimTransfer_pays_quote:
  assumes "erc20Laws env signer" "ev_address env sender = Inr signer"
    and "multiQuote api ntts (evmDelivery env rd message w0) config request params = Inr mq" "mv_details mq = Some details"
    and "multiShimTransfer env native x sender dst token amount details w = (ys, Inr (), w')"
  shows "\<exists>m ixs price pre t args.
    mn_protocol ntts (rq_fromChain request) (mu_sourceContracts params) = Inr m \<and>
    createTransceiverInstructions env rd w0 m (rq_toChain request) (mu_gasLimit params)
      (case mx_axelarGasMultiplier config of None \<Rightarrow> AutoMultiplier | Some k \<Rightarrow> k) = Inr ixs \<and>
    sorted (map ix_index ixs) \<and> multiDeliveryPrice env rd w0 m (rq_toChain request) ixs = Inr price \<and>
    ys = pre @ [t] \<and> tx_to t = mw_executorAddress x \<and> tx_from t = Some signer \<and>
    tx_call t = (if native token then DbpsTransferETH args else DbpsTransfer args) \<and>
    da_amount args = amount \<and> ev_universal env (rt_address dst) = Inr (da_recipient args) \<and>
    encodeTransceiverInstructions (ev_serializeIx env) ixs = Inr (da_instructions args) \<and>
    (\<exists>fee. tx_value t = fee + (if native token then amount else 0) \<and> fee = xa_value (da_executorArgs args) + price \<and>
       mv_relayFee mq = Some (nativeTokenId (ea_sdk api) (rq_fromChain request),
         fromBaseUnits (ea_amounts api) fee (ea_nativeDecimals api (rq_fromChain request)))) \<and>
    (if native token then pre = []
     else \<exists>tokenAddress. ev_address env token = Inr tokenAddress \<and> da_token args = Some tokenAddress \<and>
       allowed env (fold (ev_deliver env) pre w) tokenAddress signer (mw_executorAddress x) amount)"
proof (rule multiQuote_delivery [OF assms(3,4)], rule multiShimTransfer_Inr [OF assms(1,2,5)])
  fix m pre t args
  assume q: "mn_protocol ntts (rq_fromChain request) (mu_sourceContracts params) = Inr m"
    "createTransceiverInstructions env rd w0 m (rq_toChain request) (mu_gasLimit params)
       (case mx_axelarGasMultiplier config of None \<Rightarrow> AutoMultiplier | Some x \<Rightarrow> x) = Inr (me_transceiverInstructions details)"
    "multiDeliveryPrice env rd w0 m (rq_toChain request) (me_transceiverInstructions details) = Inr (me_deliveryPrice details)"
    and fee: "mv_relayFee mq = Some (nativeTokenId (ea_sdk api) (rq_fromChain request), fromBaseUnits (ea_amounts api)
       (me_estimatedCost details + me_deliveryPrice details) (ea_nativeDecimals api (rq_fromChain request)))"
    and t: "ys = pre @ [t]" "tx_to t = mw_executorAddress x" "tx_from t = Some signer"
      "tx_call t = (if native token then DbpsTransferETH args else DbpsTransfer args)"
      "da_amount args = amount" "ev_universal env (rt_address dst) = Inr (da_recipient args)"
    and cost: "xa_value (da_executorArgs args) = me_estimatedCost details"
    and e: "encodeTransceiverInstructions (ev_serializeIx env) (me_transceiverInstructions details) = Inr (da_instructions args)"
    and v: "tx_value t = me_estimatedCost details + me_deliveryPrice details + (if native token then amount else 0)"
    and paid: "if native token then pre = []
     else \<exists>tokenAddress. ev_address env token = Inr tokenAddress \<and> da_token args = Some tokenAddress \<and>
       allowed env (fold (ev_deliver env) pre w) tokenAddress signer (mw_executorAddress x) amount"
  show ?thesis
    by (intro exI [of _ m] exI [of _ "me_transceiverInstructions details"] exI [of _ "me_deliveryPrice details"]
        exI [of _ pre] exI [of _ t] exI [of _ args] exI [of _ "me_estimatedCost details + me_deliveryPrice details"]
        conjI q createTransceiverInstructions_sorted [OF q(2)] t e paid v fee)
      (simp only: cost)
qed

section \<open>An example deployment\<close>

definition exampleMulti :: multi_evm where
  "exampleMulti = \<lparr>ml_network = ''Testnet'', ml_chain = ''Sepolia'', ml_chainId = 11, ml_manager = ''0x71'',
     ml_gmpManager = ''0x72'', ml_abi = ''1.1.0''\<rparr>"

definition exampleMultiReads :: "ledger multi_reads" where
  "exampleMultiReads = \<lparr>gm_sendTransceivers = (\<lambda>_ _ _. Inr [(''0xb'', 2), (''0xa'', 1)]),
     gm_receiveTransceivers = (\<lambda>_ _ _. Inr []), gm_transceiverType = (\<lambda>_ _. Inr ''wormhole''),
     gm_deliveryPrice = (\<lambda>_ _ _ b. Inr (int (length b))), gm_isMessageExecuted = (\<lambda>_ _ _. Inr False),
     gm_isMessageApprovedForChain = (\<lambda>_ _ _ _. Inr False), gm_transceiverAttested = (\<lambda>_ _ _ _. Inr False),
     mm_inboundQueued = (\<lambda>_ _ _. Inr (0, 0)), mm_rateLimitDuration = (\<lambda>_ _. Inr 0),
     mm_tokenId = (\<lambda>_ _ _. Inr (0, [])), mm_token = (\<lambda>_ _ _. Inr ''0x70''), mm_outboundLimitParams = (\<lambda>_ _ _. Inr 0),
     mm_inboundLimitParams = (\<lambda>_ _ _ _. Inr 0), mm_outboundCapacity = (\<lambda>_ _ _. Inr 0),
     mm_inboundCapacity = (\<lambda>_ _ _ _. Inr 0), mm_weth = (\<lambda>_ _. Inr ''0x73''), mm_meta = (\<lambda>_ _. Inr ([], [], 18)),
     mm_toChain = (\<lambda>_. Inr ''Sepolia''), mm_toUniversal = (\<lambda>_ b. Inr b), mm_gasFee = (\<lambda>_. Inl ''offline''),
     mm_toBytes = (\<lambda>n k. Inr (be_bytes k (nat n)))\<rparr>"

definition evmNtts :: "(multi_evm, string option, string, nat, unit) multi_ntt" where
  "evmNtts = \<lparr>mn_protocol = (\<lambda>c k. Inr exampleMulti), mn_wrappedNative = (\<lambda>m. Inr \<lparr>rt_chain = [], rt_address = Some ''w''\<rparr>),
     mn_originalToken = (\<lambda>m t. Inr (Some ''o'')), mn_localToken = (\<lambda>m o1. Inr (Some \<lparr>rt_chain = [], rt_address = Some ''w''\<rparr>)),
     mn_tokenMeta = (\<lambda>m t. Inr 18), mn_localAddress = (\<lambda>m o1 k. Inr None), mn_estimateGasLimit = (\<lambda>m o1. Inr 100),
     mn_inboundLimit = (\<lambda>m o1 f. Inr None), mn_inboundCapacity = (\<lambda>m o1 f. Inr 0), mn_isWrappedToken = (\<lambda>m t. Inr True),
     mn_sameToken = (=), mn_metaDecimals = id, mn_addressText = (\<lambda>a. []), mn_originalChain = (\<lambda>o1. ''Ethereum''),
     mn_originalNative = (\<lambda>o1. None), mn_sendTransceivers = (\<lambda>m d. Inr [(''wormhole'', 0)])\<rparr>"

lemma exampleMulti_instructions:
  "createTransceiverInstructions (ledgerEnv text) exampleMultiReads w0 exampleMulti c g k =
     Inr [\<lparr>ix_index = 1, ix_payload = [1]\<rparr>, \<lparr>ix_index = 2, ix_payload = [1]\<rparr>]"
proof -
  have "toLowerCase ''wormhole'' = ''wormhole''" by code_simp
  then show ?thesis
    by (simp add: createTransceiverInstructions_def getSendTransceivers_def withTypes_def instructionOf_def
        exampleMultiReads_def thrownE_def)
qed

lemma exampleMulti_encoded:
  "encodeInstructions (ledgerEnv text) [\<lparr>ix_index = 1, ix_payload = [1]\<rparr>, \<lparr>ix_index = 2, ix_payload = [1]\<rparr>] =
     Inr [2, 1, 1, 1, 2, 1, 1]"
  by (simp add: encodeInstructions_def encodeTransceiverInstructions_def ledgerEnv_def)

abbreviation senderEnv :: "(ledger, string option) evm_env" where
  "senderEnv \<equiv> ledgerEnv (\<lambda>_. ''0x11'')"

abbreviation exampleEvmDelivery :: "(multi_evm, transceiver_ix list) delivery_api" where
  "exampleEvmDelivery \<equiv> evmDelivery senderEnv exampleMultiReads (\<lambda>_. ''error'') (\<lambda>_ _. 40)"

definition exampleMultiDetails :: "(string option, unit, transceiver_ix list, int \<times> nat) multi_details" where
  "exampleMultiDetails = multi_exec_quote.extend exampleMultiExecutorQuote
     \<lparr>me_deliveryPrice = 7, me_transceiverInstructions = [\<lparr>ix_index = 1, ix_payload = [1]\<rparr>, \<lparr>ix_index = 2, ix_payload = [1]\<rparr>],
      me_currentInboundCapacity = None\<rparr>"

lemma exampleEvmQuote:
  obtains mq where "multiQuote exampleExecutor evmNtts exampleEvmDelivery exampleMultiConfig exampleRequest exampleMultiParams = Inr mq"
    "mv_details mq = Some exampleMultiDetails"
proof -
  have d: "deliveryPriceAndInstructions evmNtts exampleEvmDelivery exampleMultiConfig exampleRequest exampleMultiParams =
      Inr (7, [\<lparr>ix_index = 1, ix_payload = [1]\<rparr>, \<lparr>ix_index = 2, ix_payload = [1]\<rparr>])"
    by (simp add: deliveryPriceAndInstructions_def evmDelivery_def exampleMulti_instructions multiDeliveryPrice_def
        exampleMulti_encoded evmNtts_def thrownM_def thrownE_def) (simp add: exampleMultiReads_def)
  show thesis
    using that unfolding multiQuote_def exampleMultiQuote_fetched d
    by (simp add: Let_def multiRateLimit_def checkRateLimit_def example_multi evmNtts_def evmDelivery_def
        exampleMultiReads_def exampleMultiDetails_def exampleRequest_def)
qed

definition exampleMultiShim :: multi_executor where
  "exampleMultiShim = \<lparr>mw_chainId = 11, mw_managerAddress = ''0x71'', mw_executorAddress = ''0x74''\<rparr>"

definition exampleMultiTransfer :: "evm_tx list \<times> (evm_error + unit) \<times> ledger" where
  "exampleMultiTransfer = multiShimTransfer senderEnv (\<lambda>a. a = None) exampleMultiShim (Some ''0x11'')
     \<lparr>rt_chain = ''Base'', rt_address = Some ''bob''\<rparr> (Some ''0x11'') 100 exampleMultiDetails (\<lambda>_ _. 40)"

lemma exampleMultiTransfer_returns:
  "exampleMultiTransfer = (fst exampleMultiTransfer, Inr (), snd (snd exampleMultiTransfer))"
proof -
  have i: "me_transceiverInstructions exampleMultiDetails =
      [\<lparr>ix_index = 1, ix_payload = [1]\<rparr>, \<lparr>ix_index = 2, ix_payload = [1]\<rparr>]"
    by (simp add: exampleMultiDetails_def multi_exec_quote.extend_def)
  have "\<exists>ys w'. exampleMultiTransfer = (ys, Inr (), w')"
    unfolding exampleMultiTransfer_def multiShimTransfer_def approval_def
    by (simp add: process_simps thrownE_def i exampleMulti_encoded)
  then show ?thesis by (metis fst_conv snd_conv)
qed

lemma multiShimTransfer_pays_quote_witness:
  "\<exists>pre t args. fst exampleMultiTransfer = pre @ [t] \<and> tx_call t = DbpsTransfer args \<and>
     tx_value t = xa_value (da_executorArgs args) + 7 \<and>
     allowed senderEnv (fold ledgerDeliver pre (\<lambda>_ _. 40)) ''0x11'' ''0x11'' ''0x74'' 100"
proof (rule exampleEvmQuote)
  fix mq
  assume q: "multiQuote exampleExecutor evmNtts exampleEvmDelivery exampleMultiConfig exampleRequest exampleMultiParams = Inr mq"
    "mv_details mq = Some exampleMultiDetails"
  have a: "ev_address senderEnv (Some ''0x11'') = Inr ''0x11''" by simp
  have p: "multiDeliveryPrice senderEnv exampleMultiReads w exampleMulti c
      [\<lparr>ix_index = 1, ix_payload = [1]\<rparr>, \<lparr>ix_index = 2, ix_payload = [1]\<rparr>] = Inr 7" for w c
    by (simp add: multiDeliveryPrice_def exampleMulti_encoded thrownE_def) (simp add: exampleMultiReads_def)
  from multiShimTransfer_pays_quote [OF ledgerEnv_laws a q exampleMultiTransfer_returns [unfolded exampleMultiTransfer_def]]
  show ?thesis
    by (fold exampleMultiTransfer_def) (auto simp: evmNtts_def exampleMulti_instructions p exampleMultiShim_def)
qed

end
