(* ===== verification/Sui_Ptb.thy ===== *)
theory Sui_Ptb
  imports Config_Diff Js_Numbers
begin

text \<open>
  Transactions on Sui. A programmable transaction is a list of commands; a command refers to the results
  of earlier ones by their position. \<open>sui/ts\<close> builds it with the class \<open>Transaction\<close> of \<open>@mysten/sui\<close>: every
  call appends a command and returns a reference to its results. The code that builds is a computation on
  the state of the protocol object and the commands so far, which may throw.
\<close>

named_theorems builder_simps \<open>what a computation that returns has done\<close>
named_theorems builds_rules \<open>one step of a computation that builds a lawful transaction\<close>
named_theorems quiet_rules \<open>computations that leave the commands alone\<close>
named_theorems scope_simps \<open>references that exist and are not used yet\<close>

section \<open>Commands\<close>

datatype ptb_arg =
    GasCoin
  | ObjectArg string
  | PureUInt nat int
  | PureBool bool
  | PureBytes bytes
  | PureNoBytes
  | PureAddress string
  | Result nat
  | NestedResult nat nat

datatype ptb_command =
    MoveCall string "string list" "ptb_arg list"
  | SplitCoins ptb_arg "ptb_arg list"
  | MergeCoins ptb_arg "ptb_arg list"
  | TransferObjects "ptb_arg list" ptb_arg

type_synonym ptb = "ptb_command list"

section \<open>The protocol object and its errors\<close>

record sui_contracts =
  sc_token :: string
  sc_manager :: string
  sc_transceiver :: "(string \<times> string) list option"

record sui_ntt =
  su_network :: string
  su_chain :: string
  su_contracts :: sui_contracts
  su_coreBridge :: string
  su_coreBridgeStateId :: string
  su_adminCapId :: "string option"
  su_packageId :: "string option"
  su_nttCommonPackageId :: "string option"

datatype sui_error =
    SuiThrown string
  | SuiNoContracts | SuiNoCoreBridge | SuiNetworkMismatch string string | SuiNetworkUnsupported string
  | ReadOfUndefined string
  | NoObject string
  | NoObjectType string
  | NoPackageInType string
  | NoGenericType string
  | NttStateFailed sui_error
  | InvalidMode
  | NoAdminCap | NoUpgradeCap | NoAdminCapOwner | UnexpectedOwner
  | OwnerFailed sui_error
  | NoCoinMetadata string
  | InvalidObjectId string
  | NoCurrentPackage | NoPackageValue
  | NoTransceivers
  | NoInboxField | NoCommonPackage
  | OutOfRange nat int
  | SetPeerFailed sui_error
  | OnlyWormholeIndex | NoWormholeState
  | TransceiverPeerFailed sui_error
  | NoDestinationBytes sui_error
  | NoAddressMethods
  | NoCoins string
  | SetPauserUnsupported
  | IsPaused | NoAttestations | NoWormholeAttestation
  | PayloadFailed sui_error
  | NoPeerFor string
  | InboundCapacityFailed string sui_error
  | SetInboundFailed sui_error
  | NoEmitterChain | NoManagerPayload
  | NoCommandResults | InvalidResultFormat
  | IndexNotSupported int | NoTransceiverType
  | NotImplementedOnSui
  | QuoteExpired | DestinationUnsupported

record sui_ctx =
  cx_ntt :: sui_ntt
  cx_txb :: ptb

type_synonym 'a sui = "sui_ctx \<Rightarrow> (sui_error + 'a) \<times> sui_ctx"

definition bindS :: "'a sui \<Rightarrow> ('a \<Rightarrow> 'b sui) \<Rightarrow> 'b sui" where
  "bindS m k cx = (case m cx of (Inl e, cx') \<Rightarrow> (Inl e, cx') | (Inr a, cx') \<Rightarrow> k a cx')"

definition liftS :: "sui_error + 'a \<Rightarrow> 'a sui" where
  "liftS x cx = (x, cx)"

text \<open>\<open>try m catch e: throw f e\<close>; what the body has changed stays changed.\<close>

definition rethrowS :: "(sui_error \<Rightarrow> sui_error) \<Rightarrow> 'a sui \<Rightarrow> 'a sui" where
  "rethrowS f m cx = (case m cx of (Inl e, cx') \<Rightarrow> (Inl (f e), cx') | (Inr a, cx') \<Rightarrow> (Inr a, cx'))"

definition getNtt :: "sui_ntt sui" where
  "getNtt cx = (Inr (cx_ntt cx), cx)"

definition modifyNtt :: "(sui_ntt \<Rightarrow> sui_ntt) \<Rightarrow> unit sui" where
  "modifyNtt f cx = (Inr (), cx\<lparr>cx_ntt := f (cx_ntt cx)\<rparr>)"

fun eachS :: "('x \<Rightarrow> unit sui) \<Rightarrow> 'x list \<Rightarrow> unit sui" where
  "eachS f [] = liftS (Inr ())"
| "eachS f (x # xs) = bindS (f x) (\<lambda>_. eachS f xs)"

section \<open>The builder\<close>

definition newTransaction :: "unit sui" where
  "newTransaction cx = (Inr (), cx\<lparr>cx_txb := []\<rparr>)"

text \<open>The position of the command that is appended.\<close>

definition command :: "ptb_command \<Rightarrow> nat sui" where
  "command c cx = (Inr (length (cx_txb cx)), cx\<lparr>cx_txb := cx_txb cx @ [c]\<rparr>)"

text \<open>A number of 8, 16 or 64 bits: the serializer throws for one that does not fit.\<close>

definition pureUInt :: "nat \<Rightarrow> int \<Rightarrow> ptb_arg sui" where
  "pureUInt bits n = liftS (if 0 \<le> n \<and> n < 2 ^ bits then Inr (PureUInt bits n) else Inl (OutOfRange bits n))"

definition moveCall :: "string \<Rightarrow> string list \<Rightarrow> ptb_arg list \<Rightarrow> nat sui" where
  "moveCall target types args = command (MoveCall target types args)"

definition splitCoins :: "ptb_arg \<Rightarrow> int \<Rightarrow> ptb_arg sui" where
  "splitCoins coin amount =
     bindS (pureUInt 64 amount) (\<lambda>a. bindS (command (SplitCoins coin [a])) (\<lambda>i. liftS (Inr (NestedResult i 0))))"

definition mergeCoins :: "ptb_arg \<Rightarrow> ptb_arg list \<Rightarrow> unit sui" where
  "mergeCoins coin others = bindS (command (MergeCoins coin others)) (\<lambda>_. liftS (Inr ()))"

definition transferObjects :: "ptb_arg list \<Rightarrow> string \<Rightarrow> unit sui" where
  "transferObjects objects recipient =
     bindS (command (TransferObjects objects (PureAddress recipient))) (\<lambda>_. liftS (Inr ()))"

section \<open>Computations that return\<close>

lemma bindS_eq_Inr [builder_simps]:
  "bindS m k cx = (Inr b, cx') \<longleftrightarrow> (\<exists>a cy. m cx = (Inr a, cy) \<and> k a cy = (Inr b, cx'))"
  by (auto simp: bindS_def split: prod.splits sum.splits)

lemma liftS_eq_Inr [builder_simps]: "liftS x cx = (Inr b, cx') \<longleftrightarrow> x = Inr b \<and> cx' = cx"
  by (auto simp: liftS_def)

lemma rethrowS_eq_Inr [builder_simps]: "rethrowS f m cx = (Inr b, cx') \<longleftrightarrow> m cx = (Inr b, cx')"
  by (auto simp: rethrowS_def split: prod.splits sum.splits)

lemma getNtt_eq_Inr [builder_simps]: "getNtt cx = (Inr b, cx') \<longleftrightarrow> b = cx_ntt cx \<and> cx' = cx"
  by (auto simp: getNtt_def)

lemma modifyNtt_eq_Inr [builder_simps]:
  "modifyNtt f cx = (Inr u, cx') \<longleftrightarrow> cx' = cx\<lparr>cx_ntt := f (cx_ntt cx)\<rparr>"
  by (auto simp: modifyNtt_def)

lemma newTransaction_eq_Inr [builder_simps]: "newTransaction cx = (Inr u, cx') \<longleftrightarrow> cx' = cx\<lparr>cx_txb := []\<rparr>"
  by (auto simp: newTransaction_def)

lemma command_eq_Inr [builder_simps]:
  "command c cx = (Inr i, cx') \<longleftrightarrow> i = length (cx_txb cx) \<and> cx' = cx\<lparr>cx_txb := cx_txb cx @ [c]\<rparr>"
  by (auto simp: command_def)

lemma pureUInt_eq_Inr [builder_simps]:
  "pureUInt bits n cx = (Inr a, cx') \<longleftrightarrow> 0 \<le> n \<and> n < 2 ^ bits \<and> a = PureUInt bits n \<and> cx' = cx"
  by (auto simp: pureUInt_def liftS_def)

lemma if_builder_eq [builder_simps]: "(if P then m else n) cx = r \<longleftrightarrow> (if P then m cx = r else n cx = r)"
  by simp

section \<open>Lawful transactions\<close>

text \<open>
  A reference exists when its command comes earlier; a command that splits coins has as many results as
  amounts. How many results a Move function has is declared in the packages on the chain. The single
  result of a command is its first one.
\<close>

fun argExists :: "ptb \<Rightarrow> ptb_arg \<Rightarrow> bool" where
  "argExists cmds (Result i) \<longleftrightarrow>
     i < length cmds \<and> (case cmds ! i of MoveCall _ _ _ \<Rightarrow> True | SplitCoins _ amounts \<Rightarrow> length amounts = 1 | _ \<Rightarrow> False)"
| "argExists cmds (NestedResult i j) \<longleftrightarrow>
     i < length cmds \<and> (case cmds ! i of MoveCall _ _ _ \<Rightarrow> True | SplitCoins _ amounts \<Rightarrow> j < length amounts | _ \<Rightarrow> False)"
| "argExists cmds (PureUInt bits n) \<longleftrightarrow> 0 \<le> n \<and> n < 2 ^ bits"
| "argExists cmds a \<longleftrightarrow> True"

fun slots :: "ptb_arg \<Rightarrow> (nat \<times> nat) list" where
  "slots (Result i) = [(i, 0)]"
| "slots (NestedResult i j) = [(i, j)]"
| "slots a = []"

fun commandArgs :: "ptb_command \<Rightarrow> ptb_arg list" where
  "commandArgs (MoveCall _ _ args) = args"
| "commandArgs (SplitCoins c amounts) = c # amounts"
| "commandArgs (MergeCoins c others) = c # others"
| "commandArgs (TransferObjects objects recipient) = objects @ [recipient]"

definition commandSlots :: "ptb_command \<Rightarrow> (nat \<times> nat) list" where
  "commandSlots c = concat (map slots (commandArgs c))"

definition usedSlots :: "ptb \<Rightarrow> (nat \<times> nat) list" where
  "usedSlots cmds = concat (map commandSlots cmds)"

text \<open>
  A transaction is lawful when every argument is in range or refers to an earlier result, and no result is
  used twice: tickets, balances and coins must be consumed once.
\<close>

definition wellFormed :: "ptb \<Rightarrow> bool" where
  "wellFormed cmds \<longleftrightarrow> (\<forall>i < length cmds. \<forall>a \<in> set (commandArgs (cmds ! i)). argExists (take i cmds) a)"

definition lawful :: "ptb \<Rightarrow> bool" where
  "lawful cmds \<longleftrightarrow> wellFormed cmds \<and> distinct (usedSlots cmds)"

lemma wellFormed_snoc:
  "wellFormed (cmds @ [c]) \<longleftrightarrow> wellFormed cmds \<and> (\<forall>a \<in> set (commandArgs c). argExists cmds a)"
  by (auto simp: wellFormed_def nth_append less_Suc_eq)

lemma usedSlots_simps [simp]:
  "usedSlots [] = []" "usedSlots (cmds @ [c]) = usedSlots cmds @ commandSlots c"
  by (simp_all add: usedSlots_def)

lemma lawful_Nil [simp]: "lawful []"
  by (simp add: lawful_def wellFormed_def)

lemma argExists_slots: "argExists cmds a \<Longrightarrow> (i, j) \<in> set (slots a) \<Longrightarrow> i < length cmds"
  by (cases a) auto

lemma wellFormed_slots: "wellFormed cmds \<Longrightarrow> (i, j) \<in> set (usedSlots cmds) \<Longrightarrow> i < length cmds"
proof (induction cmds rule: rev_induct)
  case (snoc c cmds)
  then show ?case
    by (auto simp: wellFormed_snoc commandSlots_def dest: argExists_slots less_SucI)
qed simp

lemma lawful_fresh [scope_simps]: "lawful cmds \<Longrightarrow> length cmds \<le> i \<Longrightarrow> (i, j) \<notin> set (usedSlots cmds)"
  by (auto simp: lawful_def dest: wellFormed_slots)

lemma usedSlots_append [scope_simps]: "usedSlots (cmds @ cs) = usedSlots cmds @ usedSlots cs"
  by (simp add: usedSlots_def)

lemma usedSlots_Cons [scope_simps]: "usedSlots (c # cs) = commandSlots c @ usedSlots cs"
  by (simp add: usedSlots_def)

declare commandSlots_def [scope_simps] nth_append [scope_simps]

lemma lawful_snoc:
  "lawful (cmds @ [c]) \<longleftrightarrow> lawful cmds \<and> (\<forall>a \<in> set (commandArgs c). argExists cmds a) \<and>
     distinct (commandSlots c) \<and> set (commandSlots c) \<inter> set (usedSlots cmds) = {}"
  by (auto simp: lawful_def wellFormed_snoc)

text \<open>
  \<open>builds cmds m P\<close>: started after the commands \<open>cmds\<close>, a computation that returns leaves a lawful transaction,
  and its value has the property \<open>P\<close> there. There is one rule per construct, for the computation that
  continues with \<open>k\<close>.
\<close>

definition builds :: "ptb \<Rightarrow> 'a sui \<Rightarrow> (ptb \<Rightarrow> 'a \<Rightarrow> bool) \<Rightarrow> bool" where
  "builds cmds m P \<longleftrightarrow>
     (\<forall>cx x cx'. cx_txb cx = cmds \<longrightarrow> m cx = (Inr x, cx') \<longrightarrow> lawful (cx_txb cx') \<and> P (cx_txb cx') x)"

lemma buildsD:
  "builds cmds m P \<Longrightarrow> cx_txb cx = cmds \<Longrightarrow> m cx = (Inr x, cx') \<Longrightarrow> lawful (cx_txb cx') \<and> P (cx_txb cx') x"
  by (auto simp: builds_def)

lemma builds_bind:
  assumes "builds cmds m P" "\<And>cmds' a. lawful cmds' \<Longrightarrow> P cmds' a \<Longrightarrow> builds cmds' (k a) Q"
  shows "builds cmds (bindS m k) Q"
  using assms unfolding builds_def bindS_eq_Inr by blast

lemma bindS_assoc: "bindS (bindS m k) h = bindS m (\<lambda>a. bindS (k a) h)"
  by (rule ext) (auto simp: bindS_def split: prod.splits sum.splits)

lemma bindS_return: "bindS (liftS (Inr a)) k = k a"
  by (rule ext) (simp add: bindS_def liftS_def)

lemma builds_assoc [builds_rules]: "builds cmds (bindS m (\<lambda>a. bindS (k a) h)) P \<Longrightarrow> builds cmds (bindS (bindS m k) h) P"
  by (simp add: bindS_assoc)

lemma bindS_return_right: "bindS m (\<lambda>a. liftS (Inr a)) = m"
  by (rule ext) (auto simp: bindS_def liftS_def split: prod.splits sum.splits)

lemma builds_weaken: "builds cmds m P \<Longrightarrow> (\<And>cmds' x. P cmds' x \<Longrightarrow> Q cmds' x) \<Longrightarrow> builds cmds m Q"
  unfolding builds_def by blast

lemma builds_rethrow [builds_rules]: "builds cmds m P \<Longrightarrow> builds cmds (rethrowS f m) P"
  by (auto simp: builds_def rethrowS_eq_Inr)

lemma builds_return [builds_rules]: "lawful cmds \<Longrightarrow> P cmds a \<Longrightarrow> builds cmds (liftS (Inr a)) P"
  by (auto simp: builds_def liftS_def)

lemma builds_throw [builds_rules]: "builds cmds (liftS (Inl e)) P"
  by (auto simp: builds_def liftS_def)

lemma builds_lift [builds_rules]: "(\<And>a. x = Inr a \<Longrightarrow> builds cmds (k a) P) \<Longrightarrow> builds cmds (bindS (liftS x) k) P"
  by (auto simp: builds_def bindS_eq_Inr liftS_eq_Inr)

lemma builds_if [builds_rules]: "(b \<Longrightarrow> builds cmds m P) \<Longrightarrow> (\<not> b \<Longrightarrow> builds cmds n P) \<Longrightarrow> builds cmds (if b then m else n) P"
  by simp

lemma builds_bind_if [builds_rules]:
  "(b \<Longrightarrow> builds cmds (bindS m k) P) \<Longrightarrow> (\<not> b \<Longrightarrow> builds cmds (bindS n k) P) \<Longrightarrow> builds cmds (bindS (if b then m else n) k) P"
  by simp

lemma builds_option [builds_rules]:
  "(x = None \<Longrightarrow> builds cmds m P) \<Longrightarrow> (\<And>a. x = Some a \<Longrightarrow> builds cmds (f a) P) \<Longrightarrow>
     builds cmds (case x of None \<Rightarrow> m | Some a \<Rightarrow> f a) P"
  by (cases x) auto

lemma builds_list [builds_rules]:
  "(xs = [] \<Longrightarrow> builds cmds m P) \<Longrightarrow> (\<And>y ys. xs = y # ys \<Longrightarrow> builds cmds (f y ys) P) \<Longrightarrow>
     builds cmds (case xs of [] \<Rightarrow> m | y # ys \<Rightarrow> f y ys) P"
  by (cases xs) auto

lemma builds_bind_list [builds_rules]:
  "(xs = [] \<Longrightarrow> builds cmds (bindS m k) P) \<Longrightarrow> (\<And>y ys. xs = y # ys \<Longrightarrow> builds cmds (bindS (f y ys) k) P) \<Longrightarrow>
     builds cmds (bindS (case xs of [] \<Rightarrow> m | y # ys \<Rightarrow> f y ys) k) P"
  by (cases xs) auto

lemma builds_new [builds_rules]:
  assumes "builds [] (k ()) P"
  shows "builds cmds (bindS newTransaction k) P"
  unfolding builds_def
proof (intro allI impI)
  fix cx x cx'
  assume "bindS newTransaction k cx = (Inr x, cx')"
  then have "k () (cx\<lparr>cx_txb := []\<rparr>) = (Inr x, cx')" by (simp add: bindS_eq_Inr newTransaction_eq_Inr)
  from buildsD [OF assms _ this] show "lawful (cx_txb cx') \<and> P (cx_txb cx') x" by simp
qed

lemma builds_pure [builds_rules]: "(0 \<le> n \<Longrightarrow> n < 2 ^ bits \<Longrightarrow> builds cmds (k (PureUInt bits n)) P) \<Longrightarrow>
  builds cmds (bindS (pureUInt bits n) k) P"
  by (auto simp: builds_def bindS_eq_Inr pureUInt_eq_Inr)

lemma builds_command:
  assumes "lawful cmds" "\<And>a. a \<in> set (commandArgs c) \<Longrightarrow> argExists cmds a" "distinct (commandSlots c)"
    "set (commandSlots c) \<inter> set (usedSlots cmds) = {}"
    "lawful (cmds @ [c]) \<Longrightarrow> builds (cmds @ [c]) (k (length cmds)) P"
  shows "builds cmds (bindS (command c) k) P"
  unfolding builds_def
proof (intro allI impI)
  fix cx x cx'
  assume "cx_txb cx = cmds" "bindS (command c) k cx = (Inr x, cx')"
  then have run: "k (length cmds) (cx\<lparr>cx_txb := cmds @ [c]\<rparr>) = (Inr x, cx')"
    by (simp add: bindS_eq_Inr command_eq_Inr)
  have "lawful (cmds @ [c])" using assms by (auto simp: lawful_snoc)
  from buildsD [OF assms(5) [OF this] _ run] show "lawful (cx_txb cx') \<and> P (cx_txb cx') x" by simp
qed

text \<open>Computations that leave the commands alone.\<close>

definition quiet :: "'a sui \<Rightarrow> bool" where
  "quiet m \<longleftrightarrow> (\<forall>cx. cx_txb (snd (m cx)) = cx_txb cx)"

lemma quietD: "quiet m \<Longrightarrow> m cx = (x, cx') \<Longrightarrow> cx_txb cx' = cx_txb cx"
  by (metis quiet_def snd_conv)

lemma builds_quiet: "quiet m \<Longrightarrow> (\<And>a. builds cmds (k a) P) \<Longrightarrow> builds cmds (bindS m k) P"
  unfolding builds_def bindS_eq_Inr by (metis quietD)

lemma quiet_lift [quiet_rules]: "quiet (liftS x)"
  by (simp add: quiet_def liftS_def)

lemma quiet_getNtt [quiet_rules]: "quiet getNtt"
  by (simp add: quiet_def getNtt_def)

lemma quiet_modifyNtt [quiet_rules]: "quiet (modifyNtt f)"
  by (simp add: quiet_def modifyNtt_def)

lemma quiet_bind [quiet_rules]:
  assumes m: "quiet m" and k: "\<And>a. quiet (k a)"
  shows "quiet (bindS m k)"
proof -
  have "cx_txb (snd (bindS m k cx)) = cx_txb cx" for cx
  proof (cases "m cx")
    case (Pair x cy)
    then have "cx_txb cy = cx_txb cx" by (rule quietD [OF m])
    then show ?thesis using Pair k by (cases x) (auto simp: bindS_def quiet_def)
  qed
  then show ?thesis by (simp add: quiet_def)
qed

lemma quiet_if [quiet_rules]: "quiet m \<Longrightarrow> quiet n \<Longrightarrow> quiet (if P then m else n)"
  by simp

lemmas builds_getNtt [builds_rules] = builds_quiet [OF quiet_getNtt]

section \<open>Calls and coins\<close>

lemma builds_moveCall [builds_rules]:
  assumes "lawful cmds" "\<forall>a \<in> set args. argExists cmds a" "distinct (concat (map slots args))"
    "set (concat (map slots args)) \<inter> set (usedSlots cmds) = {}"
    "lawful (cmds @ [MoveCall target types args]) \<Longrightarrow> builds (cmds @ [MoveCall target types args]) (k (length cmds)) P"
  shows "builds cmds (bindS (moveCall target types args) k) P"
  unfolding moveCall_def
  by (rule builds_command) (use assms in \<open>simp_all only: commandArgs.simps commandSlots_def\<close>)

lemma builds_splitCoins [builds_rules]:
  assumes "lawful cmds" "argExists cmds coin" "set (slots coin) \<inter> set (usedSlots cmds) = {}"
    "lawful (cmds @ [SplitCoins coin [PureUInt 64 amount]]) \<Longrightarrow>
       builds (cmds @ [SplitCoins coin [PureUInt 64 amount]]) (k (NestedResult (length cmds) 0)) P"
  shows "builds cmds (bindS (splitCoins coin amount) k) P"
  unfolding splitCoins_def bindS_assoc bindS_return using assms
  by (cases coin) (auto intro!: builds_pure builds_command simp: commandSlots_def)

lemma builds_mergeCoins [builds_rules]:
  assumes "lawful cmds" "\<forall>a \<in> set (coin # others). argExists cmds a" "distinct (concat (map slots (coin # others)))"
    "set (concat (map slots (coin # others))) \<inter> set (usedSlots cmds) = {}"
    "lawful (cmds @ [MergeCoins coin others]) \<Longrightarrow> builds (cmds @ [MergeCoins coin others]) (k ()) P"
  shows "builds cmds (bindS (mergeCoins coin others) k) P"
  unfolding mergeCoins_def bindS_assoc bindS_return
  by (rule builds_command) (use assms in \<open>simp_all only: commandArgs.simps commandSlots_def\<close>)

lemma builds_transferObjects [builds_rules]:
  assumes "lawful cmds" "\<forall>a \<in> set objects. argExists cmds a" "distinct (concat (map slots objects))"
    "set (concat (map slots objects)) \<inter> set (usedSlots cmds) = {}"
    "lawful (cmds @ [TransferObjects objects (PureAddress r)]) \<Longrightarrow>
       builds (cmds @ [TransferObjects objects (PureAddress r)]) (k ()) P"
  shows "builds cmds (bindS (transferObjects objects r) k) P"
  unfolding transferObjects_def bindS_assoc bindS_return using assms
  by (intro builds_command) (auto simp: commandSlots_def)

text \<open>The same at the end of a computation.\<close>

lemma builds_tail: "builds cmds (bindS m (\<lambda>a. liftS (Inr a))) P \<Longrightarrow> builds cmds m P"
  by (simp add: bindS_return_right)

lemmas builds_tails [builds_rules] =
  builds_moveCall [THEN builds_tail] builds_splitCoins [THEN builds_tail] builds_mergeCoins [THEN builds_tail]
  builds_transferObjects [THEN builds_tail]

lemma slots_objects [scope_simps]: "concat (map (slots \<circ> (\<lambda>x. ObjectArg (f x))) xs) = []"
  by simp

lemma builds_eachS:
  assumes "\<And>x cmds. lawful cmds \<Longrightarrow> builds cmds (f x) (\<lambda>_ _. True)"
  shows "lawful cmds \<Longrightarrow> builds cmds (eachS f xs) (\<lambda>_ _. True)"
proof (induction xs arbitrary: cmds)
  case Nil
  then show ?case by (simp add: builds_return)
next
  case (Cons x xs)
  show ?case unfolding eachS.simps
    by (rule builds_bind [OF assms [OF Cons.prems]]) (rule Cons.IH)
qed

end
