(* ===== verification/Sui_Utils.thy ===== *)
theory Sui_Utils
  imports Sui_Ptb
begin

text \<open>
  Reading Sui, \<open>sui/ts/src/utils.ts\<close>, \<open>constants.ts\<close> and \<open>bcs-types.ts\<close>: objects and their types, the packages
  they belong to, the transceiver registry, the votes on a message. The node and the packages \<open>@mysten/sui\<close>,
  \<open>@mysten/bcs\<close> and the Wormhole SDK are fields of \<open>sui_env\<close>; the chain does not change while a transaction is
  being built. Object contents are JSON values; one that has another type than the code declares makes the
  read fail.
\<close>

section \<open>The chain\<close>

datatype sui_owner = AddressOwner string | ObjectOwner string | OtherOwner

record sui_object =
  ob_type :: "string option"
  ob_json :: "json option"
  ob_owner :: "sui_owner option"

record dynamic_field =
  df_type :: string
  df_fieldId :: string

datatype signature = Signature "string option" "signature list"

datatype release_status = NotApproved | ReleaseAfter nat | Released

record native_transfer =
  nx_amount :: nat
  nx_decimals :: nat
  nx_source_token :: bytes
  nx_to :: bytes
  nx_to_chain :: nat
  nx_payload :: "bytes option"

record inbox_item =
  ii_bitmap :: nat
  ii_release_status :: release_status
  ii_data :: native_transfer

record sui_coin =
  co_coinType :: string
  co_coinObjectId :: string

text \<open>
  \<open>se_pages\<close> are the answers to the requests for the dynamic fields of an object that follow the cursor, the
  first one for a request without. A field of a table is looked up by a chain id. \<open>se_simulate\<close> gives the
  returned values of each command, \<open>se_now\<close> is \<open>Date.now()\<close>.
\<close>

record 'p sui_env =
  se_getObject :: "string \<Rightarrow> string + sui_object option"
  se_pages :: "string \<Rightarrow> (string + dynamic_field list) list"
  se_getDynamicField :: "string \<Rightarrow> nat \<Rightarrow> string + string option"
  se_getDatatype :: "string \<Rightarrow> string \<Rightarrow> string \<Rightarrow> string + (string \<times> signature) list option"
  se_coinMetadata :: "string \<Rightarrow> string + nat option"
  se_coinMetadataIds :: "string \<Rightarrow> string \<Rightarrow> string + string list"
  se_getCoins :: "string \<Rightarrow> string \<Rightarrow> string + sui_coin list"
  se_simulate :: "ptb \<Rightarrow> string + bytes option list list option"
  se_parseBytes :: "bytes \<Rightarrow> string + bytes"
  se_parseInboxItem :: "bytes \<Rightarrow> string + inbox_item"
  se_parseText :: "bytes \<Rightarrow> string + string"
  se_isValidSuiAddress :: "string \<Rightarrow> bool"
  se_chainToChainId :: "string \<Rightarrow> nat"
  se_fromBase64 :: "string \<Rightarrow> string + bytes"
  se_toUniversal :: "string \<Rightarrow> bytes \<Rightarrow> string + bytes"
  se_universalOfText :: "string \<Rightarrow> string \<Rightarrow> string + bytes"
  se_coinType :: "string \<Rightarrow> string + string"
  se_nativeToken :: "string \<Rightarrow> string \<Rightarrow> string"
  se_serializeTransfer :: "'p \<Rightarrow> string + bytes"
  se_now :: int

definition thrownS :: "string + 'a \<Rightarrow> sui_error + 'a" where
  "thrownS x = (case x of Inl e \<Rightarrow> Inl (SuiThrown e) | Inr v \<Rightarrow> Inr v)"

lemma thrownS_eq_Inr [simp, builder_simps]: "thrownS x = Inr v \<longleftrightarrow> x = Inr v"
  by (auto simp: thrownS_def split: sum.splits)

text \<open>\<open>x.k\<close> and \<open>x?.k\<close> on a value that may be \<open>undefined\<close>, and whether a value counts as true.\<close>

definition jget :: "json option \<Rightarrow> string \<Rightarrow> sui_error + json option" where
  "jget x k =
     (case x of
        None \<Rightarrow> Inl (ReadOfUndefined k)
      | Some (JPrim JNull) \<Rightarrow> Inl (ReadOfUndefined k)
      | Some (JObj m) \<Rightarrow> Inr (map_of m k)
      | _ \<Rightarrow> Inr None)"

definition jmaybe :: "json option \<Rightarrow> string \<Rightarrow> json option" where
  "jmaybe x k = (case x of Some (JObj m) \<Rightarrow> map_of m k | _ \<Rightarrow> None)"

definition truthy :: "json option \<Rightarrow> bool" where
  "truthy x =
     (case x of
        None \<Rightarrow> False
      | Some (JPrim (JStr s)) \<Rightarrow> s \<noteq> []
      | Some (JPrim (JNum q)) \<Rightarrow> q \<noteq> 0
      | Some (JPrim (JBool b)) \<Rightarrow> b
      | Some (JPrim JNull) \<Rightarrow> False
      | _ \<Rightarrow> True)"

definition asText :: "json option \<Rightarrow> sui_error + string" where
  "asText x = (case x of Some (JPrim (JStr s)) \<Rightarrow> Inr s | _ \<Rightarrow> Inl (SuiThrown ''not a text''))"

definition asBool :: "json option \<Rightarrow> sui_error + bool" where
  "asBool x = (case x of Some (JPrim (JBool b)) \<Rightarrow> Inr b | _ \<Rightarrow> Inl (SuiThrown ''not a boolean''))"

section \<open>Constants\<close>

record sui_addresses =
  sa_coreBridgeStateId :: string
  sa_executorId :: string
  sa_executorRequestsId :: string

definition SUI_ADDRESSES :: "(string \<times> sui_addresses) list" where
  "SUI_ADDRESSES = [
     (''Mainnet'', \<lparr>
        sa_coreBridgeStateId = ''0xaeab97f96cf9877fee2883315d459552b2b921edc16d7ceac6eab944dd88919c'',
        sa_executorId = ''0xdb0fe8bb1e2b5be628adbea0636063325073e1070ee11e4281457dfd7f158235'',
        sa_executorRequestsId = ''0xa55f6f81649b071b5967dc56227bbee289e4c411ab610caeec7abce499e262b8''\<rparr>),
     (''Testnet'', \<lparr>
        sa_coreBridgeStateId = ''0x31358d198147da50db32eda2562951d53973a0c0ad5ed738e9b17d88b213d790'',
        sa_executorId = ''0x4000cfe2955d8355b3d3cf186f854fea9f787a457257056926fde1ec977670eb'',
        sa_executorRequestsId = ''0x8e5ec98738885325294060fd067fde47e10313bedc531d0500b24a752be41788''\<rparr>)]"

definition RATE_LIMIT_DURATION :: int where
  "RATE_LIMIT_DURATION = 24 * 60 * 60 * 1000"

definition NATIVE_TOKEN_IDENTIFIERS :: "string list" where
  "NATIVE_TOKEN_IDENTIFIERS = [''native'', ''0x2::sui::SUI'']"

definition isNativeToken :: "string \<Rightarrow> bool" where
  "isNativeToken token = List.member NATIVE_TOKEN_IDENTIFIERS token"

section \<open>Types and packages\<close>

text \<open>\<open>s.split("::")\<close> and \<open>s.includes(p)\<close>.\<close>

fun splitColons :: "string \<Rightarrow> string list" where
  "splitColons [] = [[]]"
| "splitColons [c] = [[c]]"
| "splitColons (c # d # s) =
     (if c = CHR '':'' \<and> d = CHR '':'' then [] # splitColons s
      else (case splitColons (d # s) of [] \<Rightarrow> [[c]] | w # ws \<Rightarrow> (c # w) # ws))"

definition includesText :: "string \<Rightarrow> string \<Rightarrow> bool" where
  "includesText s p = list_ex (\<lambda>i. startsWith (drop i s) p) [0..<Suc (length s)]"

definition endsWith :: "string \<Rightarrow> string \<Rightarrow> bool" where
  "endsWith s p = startsWith (rev s) (rev p)"

record move_object =
  mo_type :: "string option"
  mo_fields :: json

text \<open>The answer of the node, or the object in it.\<close>

definition getFieldsFromObjectResponse :: "json option \<Rightarrow> json option" where
  "getFieldsFromObjectResponse x =
     (let inner = jmaybe x ''object'';
          obj = (if inner = None \<or> inner = Some (JPrim JNull) then x else inner);
          json = jmaybe obj ''json''
      in if json = Some (JPrim JNull) then None else json)"

definition getObjectFields :: "'p sui_env \<Rightarrow> string \<Rightarrow> sui_error + json option" where
  "getObjectFields env objectId =
     (if \<not> se_isValidSuiAddress env objectId then Inl (InvalidObjectId objectId)
      else andThen (thrownS (se_getObject env objectId)) (\<lambda>obj.
           Inr (Option.bind obj ob_json)))"

definition getSuiObject :: "'p sui_env \<Rightarrow> string \<Rightarrow> sui_error + move_object" where
  "getSuiObject env objectId =
     andThen (thrownS (se_getObject env objectId)) (\<lambda>obj.
     case obj of
       None \<Rightarrow> Inl (NoObject objectId)
     | Some x \<Rightarrow>
         if truthy (ob_json x) then Inr \<lparr>mo_type = ob_type x, mo_fields = the (ob_json x)\<rparr>
         else Inl (NoObject objectId))"

definition packageOfType :: "string option \<Rightarrow> sui_error + string" where
  "packageOfType typ =
     (case typ of
        None \<Rightarrow> Inl (ReadOfUndefined ''split'')
      | Some t \<Rightarrow>
          (let packageId = hd (splitColons t) in
           if packageId = [] \<or> \<not> startsWith packageId ''0x'' then Inl (NoPackageInType t) else Inr packageId))"

definition getPackageIdFields :: "'p sui_env \<Rightarrow> string \<Rightarrow> sui_error + string \<times> json" where
  "getPackageIdFields env stateId =
     andThen (getSuiObject env stateId) (\<lambda>obj.
     andThen (packageOfType (mo_type obj)) (\<lambda>packageId. Inr (packageId, mo_fields obj)))"

text \<open>The package an object was introduced in, and the latest one when the object names an upgrade cap.\<close>

definition getPackageIdFromObject :: "'p sui_env \<Rightarrow> string \<Rightarrow> sui_error + string \<times> string" where
  "getPackageIdFromObject env objectId =
     andThen (getSuiObject env objectId) (\<lambda>obj.
     andThen (packageOfType (mo_type obj)) (\<lambda>packageId.
     andThen (jget (Some (mo_fields obj)) ''upgrade_cap_id'') (\<lambda>cap.
     if truthy cap
     then andThen (asText cap) (\<lambda>capId.
          andThen (getSuiObject env capId) (\<lambda>upgradeCap.
          andThen (jget (Some (mo_fields upgradeCap)) ''cap'') (\<lambda>c.
          andThen (jget c ''package'') (\<lambda>p.
          andThen (asText p) (\<lambda>current. Inr (packageId, current))))))
     else Inr (packageId, packageId))))"

text \<open>\<open>/^(0x[a-f0-9]+)::/i\<close>\<close>

definition getOriginalPackageId :: "'p sui_env \<Rightarrow> string \<Rightarrow> sui_error + string" where
  "getOriginalPackageId env objectId =
     andThen (thrownS (se_getObject env objectId)) (\<lambda>obj.
     case Option.bind obj ob_type of
       None \<Rightarrow> Inl (NoObjectType objectId)
     | Some t \<Rightarrow>
         if t = [] then Inl (NoObjectType objectId)
         else (let hex = takeWhile isHex (drop 2 t) in
               if startsWith (toLowerCase t) ''0x'' \<and> hex \<noteq> [] \<and> startsWith (drop (2 + length hex) t) ''::''
               then Inr (take (2 + length hex) t)
               else Inl (NoPackageInType t)))"

text \<open>The type parameter: what is between the first \<open><\<close> and the last \<open>>\<close>; \<open>substring\<close> swaps its arguments.\<close>

definition indexOf :: "char \<Rightarrow> string \<Rightarrow> nat option" where
  "indexOf c s = (if c \<in> set s then Some (length (takeWhile (\<lambda>x. x \<noteq> c) s)) else None)"

definition lastIndexOf :: "char \<Rightarrow> string \<Rightarrow> nat option" where
  "lastIndexOf c s = map_option (\<lambda>i. length s - 1 - i) (indexOf c (rev s))"

definition substring :: "nat \<Rightarrow> nat \<Rightarrow> string \<Rightarrow> string" where
  "substring a b s = take (max a b - min a b) (drop (min a b) s)"

definition extractTokenTypeFromSuiState :: "'p sui_env \<Rightarrow> string \<Rightarrow> sui_error + string" where
  "extractTokenTypeFromSuiState env stateObjectId =
     andThen (thrownS (se_getObject env stateObjectId)) (\<lambda>obj.
     case Option.bind obj ob_type of
       None \<Rightarrow> Inl (NoObjectType stateObjectId)
     | Some t \<Rightarrow>
         if t = [] then Inl (NoObjectType stateObjectId)
         else (case (indexOf CHR ''<'' t, lastIndexOf CHR ''>'' t) of
                 (Some genericStart, Some genericEnd) \<Rightarrow> Inr (substring (genericStart + 1) genericEnd t)
               | _ \<Rightarrow> Inl (NoGenericType t)))"

text \<open>\<open>/<([^>]+)>/\<close>: the first \<open><\<close> that is followed by a text up to a \<open>>\<close>.\<close>

fun extractGenericType :: "string \<Rightarrow> string option" where
  "extractGenericType [] = None"
| "extractGenericType (c # s) =
     (let inner = takeWhile (\<lambda>x. x \<noteq> CHR ''>'') s in
      if c = CHR ''<'' \<and> inner \<noteq> [] \<and> length inner < length s then Some inner else extractGenericType s)"

text \<open>\<open>"<(.+)>"\<close> on one line reaches from the first \<open><\<close> to the last \<open>>\<close>.\<close>

definition extractNttCommonPackageId :: "string \<Rightarrow> sui_error + string" where
  "extractNttCommonPackageId inboxType =
     (case (indexOf CHR ''<'' inboxType, lastIndexOf CHR ''>'' inboxType) of
        (Some a, Some b) \<Rightarrow>
          (let package = hd (splitColons (drop (a + 1) (take b inboxType))) in
           if b \<le> a + 1 \<or> package = [] then Inl (NoPackageInType inboxType) else Inr package)
      | _ \<Rightarrow> Inl (NoPackageInType inboxType))"

section \<open>The core bridge and the shared package\<close>

text \<open>The loop over the pages stops at the first one that has the field.\<close>

fun findCurrentPackage :: "(string + dynamic_field list) list \<Rightarrow> sui_error + dynamic_field" where
  "findCurrentPackage [] = Inl NoCurrentPackage"
| "findCurrentPackage (page # pages) =
     andThen (thrownS page) (\<lambda>fields.
     case find (\<lambda>f. endsWith (df_type f) ''CurrentPackage'') fields of
       Some f \<Rightarrow> Inr f
     | None \<Rightarrow> findCurrentPackage pages)"

definition getWormholePackageId :: "'p sui_env \<Rightarrow> string \<Rightarrow> sui_error + string" where
  "getWormholePackageId env coreBridgeStateId =
     andThen (findCurrentPackage (se_pages env coreBridgeStateId)) (\<lambda>currentPackage.
     andThen (getObjectFields env (df_fieldId currentPackage)) (\<lambda>fields.
     let packageId = jmaybe (jmaybe fields ''value'') ''package'' in
     if truthy packageId then asText packageId else Inl NoPackageValue))"

text \<open>A signature is walked depth first; an empty package name does not count as found.\<close>

fun walk :: "signature \<Rightarrow> string option" and walkAll :: "signature list \<Rightarrow> string option" where
  "walk (Signature typeName args) =
     (case typeName of
        Some tn \<Rightarrow>
          if tn \<noteq> [] \<and> (includesText tn ''ntt_manager_message::NttManagerMessage'' \<or>
            includesText tn ''native_token_transfer::NativeTokenTransfer'')
          then Some (hd (splitColons tn))
          else walkAll args
      | None \<Rightarrow> walkAll args)"
| "walkAll [] = None"
| "walkAll (tp # tps) =
     (case walk tp of
        Some r \<Rightarrow> if r \<noteq> [] then Some r else walkAll tps
      | None \<Rightarrow> walkAll tps)"

definition commonPackageId :: "'p sui_env \<Rightarrow> string \<Rightarrow> sui_error + string" where
  "commonPackageId env managerStateId =
     andThen (thrownS (se_getObject env managerStateId)) (\<lambda>obj.
     case Option.bind obj ob_type of
       None \<Rightarrow> Inl (NoObjectType managerStateId)
     | Some t \<Rightarrow>
         (let parts = splitColons t in
          if t = [] then Inl (NoObjectType managerStateId)
          else if length parts < 3 then Inl (ReadOfUndefined ''split'')
          else andThen (thrownS (se_getDatatype env (parts ! 0) (parts ! 1) (hd (split_on CHR ''<'' (parts ! 2))))) (\<lambda>fields.
               case Option.bind fields (\<lambda>fs. map_of fs ''inbox'') of
                 None \<Rightarrow> Inl NoInboxField
               | Some inbox \<Rightarrow>
                   (case walk inbox of
                      None \<Rightarrow> Inl NoCommonPackage
                    | Some pkg \<Rightarrow> if pkg = [] then Inl NoCommonPackage else Inr pkg))))"

section \<open>The transceiver registry\<close>

text \<open>\<open>Number(x)\<close> on the identifier of an entry, an integer or its numeral.\<close>

definition isZeroNumber :: "json option \<Rightarrow> bool" where
  "isZeroNumber x =
     (case x of
        Some (JPrim (JNum q)) \<Rightarrow> q = 0
      | Some (JPrim (JStr s)) \<Rightarrow> parseBigInt s = Some 0
      | Some (JPrim JNull) \<Rightarrow> True
      | Some (JPrim (JBool b)) \<Rightarrow> \<not> b
      | _ \<Rightarrow> False)"

text \<open>The state of the transceiver an entry registers at index 0; whatever fails only skips the entry.\<close>

definition registryEntry :: "'p sui_env \<Rightarrow> dynamic_field \<Rightarrow> json option option" where
  "registryEntry env field =
     (case se_getObject env (df_fieldId field) of
        Inr (Some obj) \<Rightarrow>
          (let info = jmaybe (ob_json obj) ''value''
           in if truthy (ob_json obj) \<and> truthy info \<and> isZeroNumber (jmaybe info ''id'')
              then Some (jmaybe info ''state_object_id'') else None)
      | _ \<Rightarrow> None)"

definition isRegistryKey :: "dynamic_field \<Rightarrow> bool" where
  "isRegistryKey field = includesText (df_type field) ''transceiver_registry::Key''"

definition firstPage :: "'p sui_env \<Rightarrow> string \<Rightarrow> sui_error + dynamic_field list" where
  "firstPage env parentId = (case se_pages env parentId of [] \<Rightarrow> Inl (SuiThrown ''no answer'') | p # _ \<Rightarrow> thrownS p)"

fun firstEntry :: "'p sui_env \<Rightarrow> dynamic_field list \<Rightarrow> json option option" where
  "firstEntry env [] = None"
| "firstEntry env (f # fs) =
     (if isRegistryKey f \<and> registryEntry env f \<noteq> None then registryEntry env f else firstEntry env fs)"

definition getTransceivers :: "'p sui_env \<Rightarrow> string \<Rightarrow> sui_error + json option" where
  "getTransceivers env transceiverRegistryId =
     andThen (firstPage env transceiverRegistryId) (\<lambda>fields.
     case firstEntry env fields of None \<Rightarrow> Inl NoTransceivers | Some s \<Rightarrow> Inr s)"

definition getCoinMetadataId :: "'p sui_env \<Rightarrow> string \<Rightarrow> string \<Rightarrow> sui_error + string" where
  "getCoinMetadataId env network coinType =
     andThen (thrownS (se_coinMetadataIds env network coinType)) (\<lambda>ids.
     case ids of [] \<Rightarrow> Inl (NoCoinMetadata coinType)
     | i # _ \<Rightarrow> if i = [] then Inl (NoCoinMetadata coinType) else Inr i)"

section \<open>Votes\<close>

text \<open>
  \<open>parseInt(s)\<close>: white space, a sign and a prefix \<open>0x\<close> are read first, then the digits up to another
  character; the prefix is not special in \<open>parseInt(s, 10)\<close>.
\<close>

definition parseIntAny :: "bool \<Rightarrow> string \<Rightarrow> js_number" where
  "parseIntAny anyRadix s =
     (let t = dropWhile isSpace s;
          negative = (t \<noteq> [] \<and> hd t = CHR ''-'');
          u = (if t \<noteq> [] \<and> (hd t = CHR ''-'' \<or> hd t = CHR ''+'') then tl t else t);
          hex = (anyRadix \<and> startsWith (toLowerCase u) ''0x'');
          ds = (if hex then takeWhile isHex (drop 2 u) else takeWhile isDigit u);
          n = (if hex then digits_val 16 (map (\<lambda>c. the (hexval c)) ds) else nat_of_dec ds)
      in if ds = [] then NaN
         else (case double_of_nat n of Finite q \<Rightarrow> Finite (if negative then - q else q) | Infty _ \<Rightarrow> Infty negative | NaN \<Rightarrow> NaN))"

definition parseInt :: "string \<Rightarrow> js_number" where
  "parseInt s = parseIntAny True s"

definition parseInt10 :: "string \<Rightarrow> js_number" where
  "parseInt10 s = parseIntAny False s"

lemma parseInt_dec: "parseInt (dec_of_nat n) = double_of_nat n"
proof -
  have d: "list_all isDigit (dec_of_nat n)" "dec_of_nat n \<noteq> []"
    using all_digits_dec_of_nat [of n] by (simp_all add: all_digits_def)
  then obtain c s where cs: "dec_of_nat n = c # s" by (cases "dec_of_nat n") auto
  have c: "isDigit c" "\<not> isSpace c" "c \<noteq> CHR ''-''" "c \<noteq> CHR ''+''"
    using d cs isDigit_not_space [of c] by (auto simp: isDigit_def)
  have "\<not> startsWith (toLowerCase (dec_of_nat n)) ''0x''"
  proof
    assume x: "startsWith (toLowerCase (dec_of_nat n)) ''0x''"
    then have "CHR ''x'' \<in> set (toLowerCase (dec_of_nat n))"
      by (auto simp: startsWith_def dest: in_set_takeD) (metis in_set_takeD list.set_intros)
    then obtain d where "d \<in> set (dec_of_nat n)" "lower_char d = CHR ''x''"
      by (auto simp: toLowerCase_def)
    moreover then have "isDigit d" using d(1) by (simp add: list_all_iff)
    moreover have "lower_char d = d" using \<open>isDigit d\<close> by (auto simp: lower_char_def isDigit_def Let_def)
    ultimately show False by (auto simp: isDigit_def)
  qed
  moreover have tw: "takeWhile isDigit (dec_of_nat n) = dec_of_nat n"
    using d(1) by (simp add: list_all_iff)
  moreover have "dropWhile isSpace (dec_of_nat n) = dec_of_nat n" using c cs by simp
  moreover have "hd (dec_of_nat n) \<noteq> CHR ''-''" "hd (dec_of_nat n) \<noteq> CHR ''+''" using c cs by simp_all
  ultimately have "parseInt (dec_of_nat n) = (case double_of_nat n of Finite q \<Rightarrow> Finite q | Infty _ \<Rightarrow> Infty False | NaN \<Rightarrow> NaN)"
    using d(2) by (cases "double_of_nat n") (simp_all add: parseInt_def parseIntAny_def tw)
  then show ?thesis
    by (simp add: double_of_nat_def Let_def jsInt_def split: if_splits)
qed

text \<open>
  The operator \<open>&\<close> sees its operands modulo \<open>2 ^ 32\<close> and gives a signed number; the loop ends because the
  result is smaller as an unsigned word.
\<close>

definition andInt32 :: "int \<Rightarrow> int \<Rightarrow> int" where
  "andInt32 a b = sint (and (word_of_int a) (word_of_int b) :: 32 word)"

lemma and_pred_less: "w \<noteq> 0 \<Longrightarrow> unat (and w (w - 1) :: 32 word) < unat w"
proof -
  assume w: "w \<noteq> 0"
  then have nz: "unat w \<noteq> 0" by (simp add: unsigned_eq_0_iff)
  have "and w (w - 1) \<le> w - 1" by (rule word_and_le1)
  then have "unat (and w (w - 1)) \<le> unat (w - 1)" by (simp add: word_le_nat_alt)
  also have "\<dots> < unat w" using nz by (simp add: unat_minus_one w)
  finally show ?thesis .
qed

definition loopMeasure :: "int \<Rightarrow> nat" where
  "loopMeasure n = (if sint (word_of_int n :: 32 word) = n then unat (word_of_int n :: 32 word) else 2 ^ 32)"

lemma loopMeasure_decreases: "n \<noteq> 0 \<Longrightarrow> loopMeasure (andInt32 n (n - 1)) < loopMeasure n"
proof -
  assume n: "n \<noteq> 0"
  let ?w = "word_of_int n :: 32 word"
  have m: "loopMeasure (andInt32 n (n - 1)) = unat (and ?w (?w - 1))"
    by (simp add: loopMeasure_def andInt32_def)
  show ?thesis
  proof (cases "sint ?w = n")
    case True
    then have "?w \<noteq> 0" using n by auto
    then show ?thesis using and_pred_less [of ?w] True m by (simp add: loopMeasure_def)
  next
    case False
    have "unat (and ?w (?w - 1)) < 2 ^ 32" using unsigned_less [of "and ?w (?w - 1)"] by simp
    then show ?thesis using False m by (simp add: loopMeasure_def)
  qed
qed

function countSetBits :: "int \<Rightarrow> nat" where
  "countSetBits n = (if n \<noteq> 0 then countSetBits (andInt32 n (n - 1)) + 1 else 0)"
  by auto
termination by (relation "measure loopMeasure") (auto simp: loopMeasure_decreases)

declare countSetBits.simps [simp del]

text \<open>The number of ones in the binary numeral.\<close>

fun ones :: "nat \<Rightarrow> nat" where
  "ones n = (if n = 0 then 0 else n mod 2 + ones (n div 2))"

declare ones.simps [simp del]

lemma ones_0 [simp]: "ones 0 = 0"
  by (simp add: ones.simps)

lemma ones_double: "ones (2 * n) = ones n" "ones (Suc (2 * n)) = Suc (ones n)"
  by (subst ones.simps; simp)+

text \<open>Taking away one and keeping the common bits clears the last one.\<close>

lemma ones_and_pred: "n \<noteq> 0 \<Longrightarrow> Suc (ones (and n (n - 1))) = ones n"
proof (induction n rule: less_induct)
  case (less n)
  show ?case
  proof (cases "even n")
    case True
    then obtain m where m: "n = 2 * m" by auto
    with less.prems have "m \<noteq> 0" by simp
    then have "n - 1 = Suc (2 * (m - 1))" using m by simp
    then have "and n (n - 1) = 2 * and m (m - 1)"
      using m and_nat_rec [of "2 * m" "Suc (2 * (m - 1))"] by simp
    then show ?thesis using less.IH [of m] \<open>m \<noteq> 0\<close> m by (simp add: ones_double)
  next
    case False
    then obtain m where m: "n = Suc (2 * m)" using oddE by fastforce
    then have "and n (n - 1) = 2 * m"
      using and_nat_rec [of "Suc (2 * m)" "2 * m"] by simp
    then show ?thesis using m by (simp add: ones_double)
  qed
qed

lemma sint_nonzero: "(w :: 32 word) \<noteq> 0 \<Longrightarrow> sint w \<noteq> 0"
  by (metis signed_0 signed_word_eqI)

lemma countSetBits_word: "countSetBits (sint (w :: 32 word)) = ones (unat w)"
proof (induction "unat w" arbitrary: w rule: less_induct)
  case less
  show ?case
  proof (cases "w = 0")
    case True
    then show ?thesis by (simp add: countSetBits.simps)
  next
    case False
    then have nz: "sint w \<noteq> 0" by (rule sint_nonzero)
    have "countSetBits (sint w) = countSetBits (sint (and w (w - 1))) + 1"
      using False nz by (subst countSetBits.simps) (simp add: andInt32_def)
    also have "\<dots> = ones (unat (and w (w - 1))) + 1"
      using less [OF and_pred_less [OF False]] by simp
    also have "unat (and w (w - 1)) = and (unat w) (unat w - 1)"
      using False by (simp add: unsigned_and_eq unat_minus_one)
    finally show ?thesis using ones_and_pred [of "unat w"] False by (simp add: unsigned_eq_0_iff)
  qed
qed

text \<open>
  The votes are counted exactly when the bitmap has no vote beyond index 31. Votes at higher indices
  are lost: with two of them and no other, the count is 1.
\<close>

lemma countSetBits_eq:
  assumes "0 < n"
  shows "countSetBits n = max 1 (ones (nat n mod 2 ^ 32))"
    and "n < 2 ^ 32 \<Longrightarrow> countSetBits n = ones (nat n)"
proof -
  let ?w = "word_of_int n :: 32 word"
  have u: "unat ?w = nat n mod 2 ^ 32"
    using assms by (simp add: unsigned_of_int take_bit_eq_mod nat_mod_distrib)
  have step: "countSetBits n = countSetBits (sint (and ?w (?w - 1))) + 1"
    using assms by (subst countSetBits.simps) (simp add: andInt32_def)
  show a: "countSetBits n = max 1 (ones (nat n mod 2 ^ 32))"
  proof (cases "?w = 0")
    case True
    then show ?thesis using step u by (simp add: countSetBits.simps)
  next
    case False
    then have "countSetBits n = countSetBits (sint ?w)"
      using step sint_nonzero [OF False] by (subst (2) countSetBits.simps) (simp add: andInt32_def)
    also have "\<dots> = ones (nat n mod 2 ^ 32)" by (simp add: countSetBits_word u)
    finally have c: "countSetBits n = ones (nat n mod 2 ^ 32)" .
    have "unat ?w \<noteq> 0" using False by (simp add: unsigned_eq_0_iff)
    then have "1 \<le> ones (nat n mod 2 ^ 32)" using ones_and_pred [of "unat ?w"] u by simp
    then show ?thesis using c by simp
  qed
  show "countSetBits n = ones (nat n)" if "n < 2 ^ 32"
  proof -
    have "nat n < 2 ^ 32" using that assms by (simp add: nat_less_iff)
    moreover have "1 \<le> ones (nat n)" using ones_and_pred [of "nat n"] assms by simp
    ultimately show ?thesis using a by simp
  qed
qed

section \<open>Messages and inbox items\<close>

record 'p ntt_message =
  nm_id :: bytes
  nm_sender :: bytes
  nm_payload :: 'p

text \<open>The calls that make the message object, from its payload, identifier and sender.\<close>

definition createNttManagerMessageObjects :: "string \<Rightarrow> string \<Rightarrow> bytes \<Rightarrow> bytes \<Rightarrow> bytes \<Rightarrow> ptb_arg sui" where
  "createNttManagerMessageObjects nttCommonPackageId wormholeCoreBridgePackageId messageBytes messageId senderAddress =
     bindS (moveCall (nttCommonPackageId @ ''::native_token_transfer::parse'') [] [PureBytes messageBytes]) (\<lambda>native_token_transfer.
     bindS (moveCall (wormholeCoreBridgePackageId @ ''::bytes32::from_bytes'') [] [PureBytes messageId]) (\<lambda>id.
     bindS (moveCall (wormholeCoreBridgePackageId @ ''::external_address::from_address'') []
       [PureAddress (''0x'' @ toHex senderAddress)]) (\<lambda>sender.
     bindS (moveCall (nttCommonPackageId @ ''::ntt_manager_message::new'')
       [nttCommonPackageId @ ''::native_token_transfer::NativeTokenTransfer'']
       [NestedResult id 0, NestedResult sender 0, NestedResult native_token_transfer 0]) (\<lambda>manager_message.
     liftS (Inr (NestedResult manager_message 0))))))"

text \<open>The first value the last command returned, unwrapped and read as an inbox item.\<close>

definition parseInboxItemResult :: "'p sui_env \<Rightarrow> bytes option list list option \<Rightarrow> sui_error + inbox_item" where
  "parseInboxItemResult env inspectResult =
     (case inspectResult of
        None \<Rightarrow> Inl NoCommandResults
      | Some [] \<Rightarrow> Inl NoCommandResults
      | Some results \<Rightarrow>
          (case last results of
             Some serialized # _ \<Rightarrow>
               andThen (thrownS (se_parseBytes env serialized)) (\<lambda>inner. thrownS (se_parseInboxItem env inner))
           | _ \<Rightarrow> Inl InvalidResultFormat))"

text \<open>The same from a value in base 64.\<close>

definition parseInboxItemNative :: "'p sui_env \<Rightarrow> string \<Rightarrow> sui_error + inbox_item" where
  "parseInboxItemNative env base64VecU8 =
     andThen (thrownS (se_fromBase64 env base64VecU8)) (\<lambda>outer.
     andThen (thrownS (se_parseBytes env outer)) (\<lambda>inner. thrownS (se_parseInboxItem env inner)))"

end
