(* ===== verification/Sui_Ntt.thy ===== *)
theory Sui_Ntt
  imports Sui_Utils Ntt_Definitions "HOL-Library.Signed_Division"
begin

text \<open>
  The Sui protocol of a deployment, \<open>sui/ts/src/ntt.ts\<close>: what is read from the state object, the caches of the
  protocol object, and the transactions. Every generator yields at most one transaction, as the last thing
  it does, so it is a computation that returns the transaction or throws before it has yielded anything.
\<close>

record sui_tx =
  sx_commands :: ptb
  sx_description :: string

definition SUI_CLOCK :: ptb_arg where
  "SUI_CLOCK = ObjectArg ''0x6''"

definition unsignedTx :: "string \<Rightarrow> sui_tx sui" where
  "unsignedTx description cx = (Inr \<lparr>sx_commands = cx_txb cx, sx_description = description\<rparr>, cx)"

lemma unsignedTx_eq_Inr [builder_simps]:
  "unsignedTx d cx = (Inr t, cx') \<longleftrightarrow> t = \<lparr>sx_commands = cx_txb cx, sx_description = d\<rparr> \<and> cx' = cx"
  by (auto simp: unsignedTx_def)

section \<open>The object\<close>

definition newSuiNtt :: "string \<Rightarrow> string \<Rightarrow> sui_contracts option \<Rightarrow> string option \<Rightarrow> sui_error + sui_ntt" where
  "newSuiNtt network chain ntt coreBridge =
     (case ntt of
        None \<Rightarrow> Inl SuiNoContracts
      | Some contracts \<Rightarrow>
          (case coreBridge of
             None \<Rightarrow> Inl SuiNoCoreBridge
           | Some bridge \<Rightarrow>
               if bridge = [] then Inl SuiNoCoreBridge
               else
                 (case map_of SUI_ADDRESSES network of
                    None \<Rightarrow> Inl (ReadOfUndefined ''coreBridgeStateId'')
                  | Some addresses \<Rightarrow> Inr \<lparr>su_network = network, su_chain = chain, su_contracts = contracts,
                      su_coreBridge = bridge, su_coreBridgeStateId = sa_coreBridgeStateId addresses,
                      su_adminCapId = None, su_packageId = None, su_nttCommonPackageId = None\<rparr>)))"

definition suiFromRpc :: "string + string \<times> string \<Rightarrow> (string \<Rightarrow> string \<times> sui_contracts option \<times> string option)
    \<Rightarrow> sui_error + sui_ntt" where
  "suiFromRpc chainFromRpc config =
     andThen (thrownS chainFromRpc) (\<lambda>(network, chain).
       let (confNetwork, ntt, coreBridge) = config chain in
       if confNetwork \<noteq> network then Inl (SuiNetworkMismatch confNetwork network)
       else if ntt = None then Inl SuiNoContracts
       else newSuiNtt network chain ntt coreBridge)"

definition managerOf :: "sui_ntt \<Rightarrow> string" where
  "managerOf ntt = sc_manager (su_contracts ntt)"

definition tokenOf :: "sui_ntt \<Rightarrow> string" where
  "tokenOf ntt = sc_token (su_contracts ntt)"

definition failingWith :: "(sui_error \<Rightarrow> sui_error) \<Rightarrow> sui_error + 'a \<Rightarrow> sui_error + 'a" where
  "failingWith f x = (case x of Inl e \<Rightarrow> Inl (f e) | Inr v \<Rightarrow> Inr v)"

lemma failingWith_eq_Inr [simp, builder_simps]: "failingWith f x = Inr v \<longleftrightarrow> x = Inr v"
  by (auto simp: failingWith_def split: sum.splits)

definition getNttState :: "'p sui_env \<Rightarrow> sui_ntt \<Rightarrow> sui_error + json option" where
  "getNttState env ntt = failingWith NttStateFailed (andThen (getSuiObject env (managerOf ntt)) (\<lambda>o1. Inr (Some (mo_fields o1))))"

section \<open>Reading the state\<close>

definition suiMode :: "'p sui_env \<Rightarrow> sui_ntt \<Rightarrow> sui_error + string" where
  "suiMode env ntt =
     andThen (getNttState env ntt) (\<lambda>state.
     andThen (jget state ''mode'') (\<lambda>modeField.
     let tagged = jmaybe modeField ''@variant'';
         variant = (if tagged = None \<or> tagged = Some (JPrim JNull) then jmaybe modeField ''variant'' else tagged) in
     if variant = Some (JPrim (JStr ''Locking'')) then Inr ''locking''
     else if variant = Some (JPrim (JStr ''Burning'')) then Inr ''burning''
     else Inl InvalidMode))"

definition suiIsPaused :: "'p sui_env \<Rightarrow> sui_ntt \<Rightarrow> sui_error + bool" where
  "suiIsPaused env ntt =
     andThen (getNttState env ntt) (\<lambda>state. andThen (jget state ''paused'') asBool)"

definition getUpgradeCapId :: "'p sui_env \<Rightarrow> sui_ntt \<Rightarrow> sui_error + string" where
  "getUpgradeCapId env ntt =
     andThen (getNttState env ntt) (\<lambda>state.
     andThen (jget state ''upgrade_cap_id'') (\<lambda>cap. if truthy cap then asText cap else Inl NoUpgradeCap))"

text \<open>\<open>String(x)\<close> and \<open>BigInt(x)\<close> on an integer or its numeral.\<close>

definition numeralText :: "json option \<Rightarrow> sui_error + string" where
  "numeralText x =
     (case x of
        Some (JPrim (JStr s)) \<Rightarrow> Inr s
      | Some (JPrim (JNum q)) \<Rightarrow> if of_int \<lfloor>q\<rfloor> = q then Inr (dec_of_int \<lfloor>q\<rfloor>) else Inl (SuiThrown ''not an integer'')
      | _ \<Rightarrow> Inl (SuiThrown ''not a number''))"

definition bigIntOf :: "json option \<Rightarrow> sui_error + int" where
  "bigIntOf x =
     andThen (numeralText x) (\<lambda>s. case parseBigInt s of None \<Rightarrow> Inl (SuiThrown ''SyntaxError'') | Some n \<Rightarrow> Inr n)"

definition suiThreshold :: "'p sui_env \<Rightarrow> sui_ntt \<Rightarrow> sui_error + js_number" where
  "suiThreshold env ntt =
     andThen (getNttState env ntt) (\<lambda>state.
     andThen (jget state ''threshold'') (\<lambda>t. andThen (numeralText t) (\<lambda>s. Inr (parseInt10 s))))"

definition suiTokenDecimals :: "'p sui_env \<Rightarrow> sui_ntt \<Rightarrow> sui_error + nat" where
  "suiTokenDecimals env ntt =
     andThen (thrownS (se_coinMetadata env (tokenOf ntt))) (\<lambda>m.
     case m of None \<Rightarrow> Inl (NoCoinMetadata (tokenOf ntt)) | Some d \<Rightarrow> Inr d)"

section \<open>The caches\<close>

text \<open>A value is fetched once, then kept in the object; an empty one does not count as cached.\<close>

definition cached :: "(sui_ntt \<Rightarrow> string option) \<Rightarrow> (string \<Rightarrow> sui_ntt \<Rightarrow> sui_ntt) \<Rightarrow> (sui_ntt \<Rightarrow> sui_error + string)
    \<Rightarrow> string sui" where
  "cached slot store fetch =
     bindS getNtt (\<lambda>ntt.
       if slot ntt \<noteq> None \<and> slot ntt \<noteq> Some [] then liftS (Inr (the (slot ntt)))
       else bindS (liftS (fetch ntt)) (\<lambda>v.
            bindS (modifyNtt (store v)) (\<lambda>_. liftS (Inr v))))"

definition fetchAdminCap :: "'p sui_env \<Rightarrow> sui_ntt \<Rightarrow> sui_error + string" where
  "fetchAdminCap env ntt =
     andThen (getNttState env ntt) (\<lambda>state.
     andThen (jget state ''admin_cap_id'') (\<lambda>cap. if truthy cap then asText cap else Inl NoAdminCap))"

definition getAdminCapId :: "'p sui_env \<Rightarrow> string sui" where
  "getAdminCapId env = cached su_adminCapId (\<lambda>v ntt. ntt\<lparr>su_adminCapId := Some v\<rparr>) (fetchAdminCap env)"

definition currentPackage :: "'p sui_env \<Rightarrow> string \<Rightarrow> sui_error + string" where
  "currentPackage env objectId = andThen (getPackageIdFromObject env objectId) (\<lambda>(_, current). Inr current)"

definition getPackageId :: "'p sui_env \<Rightarrow> string sui" where
  "getPackageId env = cached su_packageId (\<lambda>v ntt. ntt\<lparr>su_packageId := Some v\<rparr>) (\<lambda>ntt. currentPackage env (managerOf ntt))"

definition getNttCommonPackageId :: "'p sui_env \<Rightarrow> string sui" where
  "getNttCommonPackageId env =
     cached su_nttCommonPackageId (\<lambda>v ntt. ntt\<lparr>su_nttCommonPackageId := Some v\<rparr>) (\<lambda>ntt. commonPackageId env (managerOf ntt))"

definition suiOwner :: "'p sui_env \<Rightarrow> string sui" where
  "suiOwner env =
     bindS (getAdminCapId env) (\<lambda>adminCapId.
     liftS (failingWith OwnerFailed
       (andThen (thrownS (se_getObject env adminCapId)) (\<lambda>obj.
        case Option.bind obj ob_owner of
          None \<Rightarrow> Inl NoAdminCapOwner
        | Some (AddressOwner a) \<Rightarrow> Inr a
        | Some (ObjectOwner a) \<Rightarrow> Inr a
        | Some OtherOwner \<Rightarrow> Inl UnexpectedOwner))))"

definition suiPauser :: "'p sui_env \<Rightarrow> string sui" where
  "suiPauser env = suiOwner env"

definition suiCustodyAddress :: "sui_ntt \<Rightarrow> string" where
  "suiCustodyAddress ntt = managerOf ntt"

section \<open>Peers\<close>

record sui_peer =
  sp_address :: bytes
  sp_tokenDecimals :: js_number
  sp_inboundLimit :: int

definition getPeerValue :: "'p sui_env \<Rightarrow> string \<Rightarrow> nat \<Rightarrow> sui_error + json option" where
  "getPeerValue env parentId chainId =
     (case se_getDynamicField env parentId chainId of
        Inl _ \<Rightarrow> Inr None
      | Inr None \<Rightarrow> Inr None
      | Inr (Some fieldId) \<Rightarrow>
          if fieldId = [] then Inr None
          else andThen (thrownS (se_getObject env fieldId)) (\<lambda>obj.
               let json = Option.bind obj ob_json in
               if \<not> truthy json then Inr None
               else (case jmaybe json ''value'' of Some (JPrim JNull) \<Rightarrow> Inr None | v \<Rightarrow> Inr v)))"

text \<open>\<open>toUniversal(chain, fromBase64(x.value.data))\<close>\<close>

definition externalAddress :: "'p sui_env \<Rightarrow> string \<Rightarrow> json option \<Rightarrow> sui_error + bytes" where
  "externalAddress env chain x =
     andThen (jget x ''value'') (\<lambda>v. andThen (jget v ''data'') (\<lambda>d. andThen (asText d) (\<lambda>s.
     andThen (thrownS (se_fromBase64 env s)) (\<lambda>b. thrownS (se_toUniversal env chain b)))))"

definition readPeer :: "'p sui_env \<Rightarrow> string \<Rightarrow> json option \<Rightarrow> sui_error + sui_peer option" where
  "readPeer env chain peersTable =
     andThen (jget peersTable ''id'') (\<lambda>i. andThen (asText i) (\<lambda>tableId.
     andThen (getPeerValue env tableId (se_chainToChainId env chain)) (\<lambda>peerData.
     if \<not> truthy peerData then Inr None
     else andThen (jget peerData ''address'') (\<lambda>a.
          andThen (externalAddress env chain a) (\<lambda>address.
          andThen (jget peerData ''token_decimals'') (\<lambda>d. andThen (numeralText d) (\<lambda>decimals.
          andThen (jget peerData ''inbound_rate_limit'') (\<lambda>r. andThen (jget r ''limit'') (\<lambda>l. andThen (bigIntOf l) (\<lambda>limit.
          Inr (Some \<lparr>sp_address = address, sp_tokenDecimals = parseInt10 decimals, sp_inboundLimit = limit\<rparr>))))))))))) "

text \<open>An error while the peer is read counts as no peer.\<close>

definition suiPeer :: "'p sui_env \<Rightarrow> sui_ntt \<Rightarrow> string \<Rightarrow> sui_error + sui_peer option" where
  "suiPeer env ntt chain =
     andThen (getNttState env ntt) (\<lambda>state.
     andThen (jget state ''peers'') (\<lambda>peersTable.
     Inr (case readPeer env chain peersTable of Inl _ \<Rightarrow> None | Inr p \<Rightarrow> p)))"

section \<open>Rate limits\<close>

text \<open>\<open>BigInt\<close> division rounds towards zero.\<close>

definition currentCapacity :: "int \<Rightarrow> int \<Rightarrow> int \<Rightarrow> int \<Rightarrow> int" where
  "currentCapacity currentTime limit capacityAtLastTx lastTxTimestamp =
     (let timePassed = currentTime - lastTxTimestamp;
          additionalCapacity = (timePassed * limit) sdiv RATE_LIMIT_DURATION;
          currentCapacity = capacityAtLastTx + additionalCapacity
      in if limit < currentCapacity then limit else currentCapacity)"

definition capacityOf :: "'p sui_env \<Rightarrow> json option \<Rightarrow> sui_error + int" where
  "capacityOf env rateLimit =
     andThen (andThen (jget rateLimit ''limit'') bigIntOf) (\<lambda>limit.
     andThen (andThen (jget rateLimit ''capacity_at_last_tx'') bigIntOf) (\<lambda>capacityAtLastTx.
     andThen (andThen (jget rateLimit ''last_tx_timestamp'') bigIntOf) (\<lambda>lastTxTimestamp.
     Inr (currentCapacity (se_now env) limit capacityAtLastTx lastTxTimestamp))))"

definition outboxRateLimit :: "'p sui_env \<Rightarrow> sui_ntt \<Rightarrow> sui_error + json option" where
  "outboxRateLimit env ntt =
     andThen (getSuiObject env (managerOf ntt)) (\<lambda>state.
     andThen (jget (Some (mo_fields state)) ''outbox'') (\<lambda>outbox. jget outbox ''rate_limit''))"

definition suiOutboundCapacity :: "'p sui_env \<Rightarrow> sui_ntt \<Rightarrow> sui_error + int" where
  "suiOutboundCapacity env ntt = andThen (outboxRateLimit env ntt) (capacityOf env)"

definition suiOutboundLimit :: "'p sui_env \<Rightarrow> sui_ntt \<Rightarrow> sui_error + int" where
  "suiOutboundLimit env ntt =
     andThen (outboxRateLimit env ntt) (\<lambda>r. andThen (jget r ''limit'') bigIntOf)"

definition suiInboundCapacity :: "'p sui_env \<Rightarrow> sui_ntt \<Rightarrow> string \<Rightarrow> sui_error + int" where
  "suiInboundCapacity env ntt fromChain =
     andThen (getNttState env ntt) (\<lambda>state.
     andThen (jget state ''peers'') (\<lambda>peersTable.
     failingWith (InboundCapacityFailed fromChain)
       (andThen (jget peersTable ''id'') (\<lambda>i. andThen (asText i) (\<lambda>tableId.
        andThen (getPeerValue env tableId (se_chainToChainId env fromChain)) (\<lambda>peerData.
        if \<not> truthy peerData then Inl (NoPeerFor fromChain)
        else andThen (jget peerData ''inbound_rate_limit'') (capacityOf env)))))))"

definition suiInboundLimit :: "'p sui_env \<Rightarrow> sui_ntt \<Rightarrow> string \<Rightarrow> sui_error + int" where
  "suiInboundLimit env ntt fromChain =
     andThen (suiPeer env ntt fromChain) (\<lambda>peer.
     case peer of None \<Rightarrow> Inl (NoPeerFor fromChain) | Some p \<Rightarrow> Inr (sp_inboundLimit p))"

definition suiRateLimitDuration :: int where
  "suiRateLimitDuration = RATE_LIMIT_DURATION"

section \<open>Administration\<close>

text \<open>A number that is not an integer makes the serializer throw.\<close>

definition integerOf :: "js_number \<Rightarrow> sui_error + int" where
  "integerOf n = (case n of Finite q \<Rightarrow> if of_int \<lfloor>q\<rfloor> = q then Inr \<lfloor>q\<rfloor> else Inl (OutOfRange 8 \<lfloor>q\<rfloor>) | _ \<Rightarrow> Inl (OutOfRange 8 0))"

definition pureNumber :: "nat \<Rightarrow> js_number \<Rightarrow> ptb_arg sui" where
  "pureNumber bits n = bindS (liftS (integerOf n)) (\<lambda>i. pureUInt bits i)"

text \<open>A call of the package's module \<open>state\<close> with the admin cap and the state, and further arguments.\<close>

definition stateCall :: "'p sui_env \<Rightarrow> string \<Rightarrow> ptb_arg sui list \<Rightarrow> string \<Rightarrow> sui_tx sui" where
  "stateCall env function args description =
     bindS (getAdminCapId env) (\<lambda>adminCapId.
     bindS (getPackageId env) (\<lambda>packageId.
     bindS newTransaction (\<lambda>_.
     bindS getNtt (\<lambda>ntt.
     bindS (foldr (\<lambda>a acc. bindS a (\<lambda>x. bindS acc (\<lambda>xs. liftS (Inr (x # xs))))) args (liftS (Inr []))) (\<lambda>values.
     bindS (moveCall (packageId @ ''::state::'' @ function) [tokenOf ntt]
       ([ObjectArg adminCapId, ObjectArg (managerOf ntt)] @ values)) (\<lambda>_.
     unsignedTx description))))))"

definition suiPause :: "'p sui_env \<Rightarrow> sui_tx sui" where
  "suiPause env = stateCall env ''pause'' [] ''Pause Contract''"

definition suiUnpause :: "'p sui_env \<Rightarrow> sui_tx sui" where
  "suiUnpause env = stateCall env ''unpause'' [] ''Unpause Contract''"

definition suiSetThreshold :: "'p sui_env \<Rightarrow> js_number \<Rightarrow> sui_tx sui" where
  "suiSetThreshold env threshold = stateCall env ''set_threshold'' [pureNumber 8 threshold] ''Set Threshold''"

definition suiSetOutboundLimit :: "'p sui_env \<Rightarrow> int \<Rightarrow> sui_tx sui" where
  "suiSetOutboundLimit env limit =
     stateCall env ''set_outbound_rate_limit'' [pureUInt 64 limit, liftS (Inr SUI_CLOCK)] ''Set Outbound Limit''"

definition suiSetOwner :: "'p sui_env \<Rightarrow> string \<Rightarrow> sui_tx sui" where
  "suiSetOwner env newOwner =
     bindS newTransaction (\<lambda>_.
     bindS (getAdminCapId env) (\<lambda>adminCapId.
     bindS getNtt (\<lambda>ntt.
     bindS (liftS (getUpgradeCapId env ntt)) (\<lambda>upgradeCapId.
     bindS (transferObjects [ObjectArg adminCapId, ObjectArg upgradeCapId] newOwner) (\<lambda>_.
     unsignedTx ''Transfer Ownership'')))))"

definition suiSetPauser :: "sui_tx sui" where
  "suiSetPauser = liftS (Inl SetPauserUnsupported)"

text \<open>The object of an address of another chain, from its bytes.\<close>

definition newExternalAddress :: "string \<Rightarrow> bytes \<Rightarrow> ptb_arg sui" where
  "newExternalAddress wormholePackageId addressBytes =
     bindS (moveCall (wormholePackageId @ ''::bytes32::from_bytes'') [] [PureBytes addressBytes]) (\<lambda>bytes32.
     bindS (moveCall (wormholePackageId @ ''::external_address::new'') [] [Result bytes32]) (\<lambda>external.
     liftS (Inr (Result external))))"

definition setPeerCalls :: "'p sui_env \<Rightarrow> string \<Rightarrow> string \<Rightarrow> string \<Rightarrow> bytes \<Rightarrow> js_number \<Rightarrow> int \<Rightarrow> unit sui" where
  "setPeerCalls env adminCapId packageId chain addressBytes tokenDecimals inboundLimit =
     bindS getNtt (\<lambda>ntt.
     bindS (liftS (currentPackage env (su_coreBridge ntt))) (\<lambda>wormholePackageId.
     bindS (newExternalAddress wormholePackageId addressBytes) (\<lambda>external.
     bindS (pureUInt 16 (int (se_chainToChainId env chain))) (\<lambda>chainId.
     bindS (pureNumber 8 tokenDecimals) (\<lambda>decimals.
     bindS (pureUInt 64 inboundLimit) (\<lambda>limit.
     bindS (moveCall (packageId @ ''::state::set_peer'') [tokenOf ntt]
       [ObjectArg adminCapId, ObjectArg (managerOf ntt), chainId, external, decimals, limit, SUI_CLOCK]) (\<lambda>_.
     liftS (Inr ()))))))))"

definition suiSetPeer :: "'p sui_env \<Rightarrow> string \<Rightarrow> bytes \<Rightarrow> js_number \<Rightarrow> int \<Rightarrow> sui_tx sui" where
  "suiSetPeer env chain addressBytes tokenDecimals inboundLimit =
     bindS (getAdminCapId env) (\<lambda>adminCapId.
     bindS (getPackageId env) (\<lambda>packageId.
     bindS newTransaction (\<lambda>_.
     bindS (rethrowS SetPeerFailed (setPeerCalls env adminCapId packageId chain addressBytes tokenDecimals inboundLimit)) (\<lambda>_.
     unsignedTx ''Set Peer''))))"

definition suiSetInboundLimit :: "'p sui_env \<Rightarrow> string \<Rightarrow> int \<Rightarrow> sui_tx sui" where
  "suiSetInboundLimit env fromChain limit =
     bindS (getAdminCapId env) (\<lambda>adminCapId.
     bindS (getPackageId env) (\<lambda>packageId.
     bindS getNtt (\<lambda>ntt.
     bindS (liftS (suiPeer env ntt fromChain)) (\<lambda>existingPeer.
     case existingPeer of
       None \<Rightarrow> liftS (Inl (NoPeerFor fromChain))
     | Some peer \<Rightarrow>
         bindS newTransaction (\<lambda>_.
         bindS (rethrowS SetInboundFailed
           (setPeerCalls env adminCapId packageId fromChain (sp_address peer) (sp_tokenDecimals peer) limit)) (\<lambda>_.
         unsignedTx ''Set Inbound Limit''))))))"

definition wormholeStateOf :: "sui_ntt \<Rightarrow> string option" where
  "wormholeStateOf ntt =
     (case Option.bind (sc_transceiver (su_contracts ntt)) (\<lambda>m. map_of m ''wormhole'') of
        None \<Rightarrow> None | Some s \<Rightarrow> if s = [] then None else Some s)"

definition transceiverPeerCalls :: "'p sui_env \<Rightarrow> string \<Rightarrow> string \<Rightarrow> string \<Rightarrow> string \<Rightarrow> bytes \<Rightarrow> unit sui" where
  "transceiverPeerCalls env stateId transceiverPackageId adminCapId chain addressBytes =
     bindS getNtt (\<lambda>ntt.
     bindS (liftS (currentPackage env (su_coreBridge ntt))) (\<lambda>wormholePackageId.
     bindS (newExternalAddress wormholePackageId addressBytes) (\<lambda>external.
     bindS (getPackageId env) (\<lambda>nttPackageId.
     bindS (pureUInt 16 (int (se_chainToChainId env chain))) (\<lambda>chainId.
     bindS (moveCall (transceiverPackageId @ ''::wormhole_transceiver::set_peer'') [nttPackageId @ ''::auth::ManagerAuth'']
       [ObjectArg adminCapId, ObjectArg stateId, chainId, external]) (\<lambda>messageTicket.
     bindS (splitCoins GasCoin 0) (\<lambda>messageFee.
     bindS (moveCall (wormholePackageId @ ''::publish_message::publish_message'') []
       [ObjectArg (su_coreBridge ntt), messageFee, Result messageTicket, SUI_CLOCK]) (\<lambda>_.
     liftS (Inr ())))))))))"

definition suiSetTransceiverPeer :: "'p sui_env \<Rightarrow> int \<Rightarrow> string \<Rightarrow> bytes \<Rightarrow> sui_tx sui" where
  "suiSetTransceiverPeer env ix chain addressBytes =
     (if ix \<noteq> 0 then liftS (Inl OnlyWormholeIndex)
      else bindS getNtt (\<lambda>ntt.
        case wormholeStateOf ntt of
          None \<Rightarrow> liftS (Inl NoWormholeState)
        | Some stateId \<Rightarrow>
            bindS (liftS (currentPackage env stateId)) (\<lambda>transceiverPackageId.
            bindS (liftS (andThen (getSuiObject env stateId) (\<lambda>s. andThen (jget (Some (mo_fields s)) ''admin_cap_id'') asText))) (\<lambda>adminCapId.
            bindS newTransaction (\<lambda>_.
            bindS (rethrowS TransceiverPeerFailed
              (transceiverPeerCalls env stateId transceiverPackageId adminCapId chain addressBytes)) (\<lambda>_.
            unsignedTx ''Set Transceiver Peer''))))))"

section \<open>Transfers\<close>

text \<open>The coin that is transferred: split from the gas, or from the sender's coins merged into the first.\<close>

definition coinToTransfer :: "'p sui_env \<Rightarrow> bool \<Rightarrow> string \<Rightarrow> string \<Rightarrow> int \<Rightarrow> ptb_arg sui" where
  "coinToTransfer env native sender tokenId amount =
     (if native then splitCoins GasCoin amount
      else bindS (liftS (thrownS (se_getCoins env sender tokenId))) (\<lambda>coins.
        case coins of
          [] \<Rightarrow> liftS (Inl (NoCoins tokenId))
        | primaryCoin # others \<Rightarrow>
            bindS (if others \<noteq> [] then mergeCoins (ObjectArg (co_coinObjectId primaryCoin))
                     (map (\<lambda>c. ObjectArg (co_coinObjectId c)) others)
                   else liftS (Inr ())) (\<lambda>_.
            splitCoins (ObjectArg (co_coinObjectId primaryCoin)) amount)))"

definition tokenIdOf :: "'p sui_env \<Rightarrow> sui_ntt \<Rightarrow> sui_error + string" where
  "tokenIdOf env ntt =
     thrownS (se_coinType env (if isNativeToken (tokenOf ntt) then se_nativeToken env (su_network ntt) (su_chain ntt)
       else tokenOf ntt))"

text \<open>From the message of the manager to its publication.\<close>

definition releaseOutbound :: "sui_ntt \<Rightarrow> string \<Rightarrow> string \<Rightarrow> string \<Rightarrow> string \<Rightarrow> string \<Rightarrow> ptb_arg \<Rightarrow> unit sui" where
  "releaseOutbound ntt packageId transceiverPackageId transceiverStateId wormholePackageId tokenId sequence =
     bindS (moveCall (packageId @ ''::state::create_transceiver_message'')
       [transceiverPackageId @ ''::wormhole_transceiver::TransceiverAuth'', tokenId]
       [ObjectArg (managerOf ntt), sequence, SUI_CLOCK]) (\<lambda>transceiverMessage.
     bindS (moveCall (transceiverPackageId @ ''::wormhole_transceiver::release_outbound'') [packageId @ ''::auth::ManagerAuth'']
       [ObjectArg transceiverStateId, NestedResult transceiverMessage 0]) (\<lambda>messageTicket.
     bindS (splitCoins GasCoin 0) (\<lambda>feeCoin.
     bindS (moveCall (wormholePackageId @ ''::publish_message::publish_message'') []
       [ObjectArg (su_coreBridgeStateId ntt), feeCoin, NestedResult messageTicket 0, SUI_CLOCK]) (\<lambda>_.
     liftS (Inr ())))))"

text \<open>The dust goes back to the gas, or to the sender.\<close>

definition returnDust :: "bool \<Rightarrow> string \<Rightarrow> string \<Rightarrow> ptb_arg \<Rightarrow> unit sui" where
  "returnDust native tokenId sender dust =
     bindS (moveCall ''0x2::coin::from_balance'' [tokenId] [dust]) (\<lambda>dustCoin.
     if native then mergeCoins GasCoin [NestedResult dustCoin 0]
     else transferObjects [NestedResult dustCoin 0] sender)"

definition prepareTransfer :: "sui_ntt \<Rightarrow> string \<Rightarrow> string \<Rightarrow> ptb_arg \<Rightarrow> string \<Rightarrow> nat \<Rightarrow> bytes \<Rightarrow> bool \<Rightarrow> nat sui" where
  "prepareTransfer ntt packageId tokenId coin coinMetadataId chainId recipient shouldQueue =
     bindS (pureUInt 16 (int chainId)) (\<lambda>recipientChain.
     moveCall (packageId @ ''::ntt::prepare_transfer'') [tokenId]
       [ObjectArg (managerOf ntt), coin, ObjectArg coinMetadataId, recipientChain, PureBytes recipient, PureNoBytes,
        PureBool shouldQueue])"

definition suiTransfer :: "'p sui_env \<Rightarrow> string \<Rightarrow> int \<Rightarrow> string \<Rightarrow> sui_error + bytes \<Rightarrow> bool \<Rightarrow> sui_tx sui" where
  "suiTransfer env sender amount chain destinationBytes queue =
     bindS (getPackageId env) (\<lambda>packageId.
     bindS newTransaction (\<lambda>_.
     bindS (liftS (failingWith NoDestinationBytes destinationBytes)) (\<lambda>recipient.
     bindS getNtt (\<lambda>ntt.
     bindS (liftS (getCoinMetadataId env (su_network ntt) (tokenOf ntt))) (\<lambda>coinMetadataId.
     bindS (liftS (tokenIdOf env ntt)) (\<lambda>tokenId.
     bindS (coinToTransfer env (isNativeToken (tokenOf ntt)) sender tokenId amount) (\<lambda>coin.
     bindS (moveCall (packageId @ ''::upgrades::new_version_gated'') [] []) (\<lambda>versionGated.
     bindS (prepareTransfer ntt packageId tokenId coin coinMetadataId (se_chainToChainId env chain) recipient queue) (\<lambda>prepared.
     bindS (moveCall (packageId @ ''::state::get_next_sequence'') [tokenId] [ObjectArg (managerOf ntt)]) (\<lambda>sequence.
     bindS (liftS (getWormholePackageId env (su_coreBridgeStateId ntt))) (\<lambda>wormholePackageId.
     bindS (moveCall (packageId @ ''::ntt::transfer_tx_sender'') [tokenId]
       [ObjectArg (managerOf ntt), NestedResult versionGated 0, ObjectArg coinMetadataId, NestedResult prepared 0,
        SUI_CLOCK]) (\<lambda>_.
     case wormholeStateOf ntt of
       None \<Rightarrow> liftS (Inl NoWormholeState)
     | Some transceiverStateId \<Rightarrow>
         bindS (liftS (currentPackage env transceiverStateId)) (\<lambda>transceiverPackageId.
         bindS (releaseOutbound ntt packageId transceiverPackageId transceiverStateId wormholePackageId tokenId
           (NestedResult sequence 0)) (\<lambda>_.
         bindS (returnDust (isNativeToken (tokenOf ntt)) tokenId sender (NestedResult prepared 1)) (\<lambda>_.
         unsignedTx ''NTT Transfer'')))))))))))))))"

section \<open>Redeeming\<close>

record 'p sui_attestation =
  sa_emitterChain :: "string option"
  sa_payloadName :: "string option"
  sa_nttManagerPayload :: "'p ntt_message option"
  sa_serialized :: "string + bytes"

definition addRedeemCall :: "'p sui_env \<Rightarrow> 'p sui_attestation \<Rightarrow> string \<Rightarrow> string \<Rightarrow> unit sui" where
  "addRedeemCall env attestation packageId coinMetadataId =
     bindS getNtt (\<lambda>ntt.
     case wormholeStateOf ntt of
       None \<Rightarrow> liftS (Inl NoWormholeState)
     | Some stateId \<Rightarrow>
         bindS (liftS (currentPackage env stateId)) (\<lambda>transceiverPackageId.
         bindS (liftS (getWormholePackageId env (su_coreBridgeStateId ntt))) (\<lambda>coreBridgePackageId.
         bindS (liftS (thrownS (sa_serialized attestation))) (\<lambda>vaa.
         bindS (moveCall (coreBridgePackageId @ ''::vaa::parse_and_verify'') []
           [ObjectArg (su_coreBridgeStateId ntt), PureBytes vaa, SUI_CLOCK]) (\<lambda>parsedVAA.
         bindS (getPackageId env) (\<lambda>nttPackageId.
         bindS (moveCall (transceiverPackageId @ ''::wormhole_transceiver::validate_message'') [nttPackageId @ ''::auth::ManagerAuth'']
           [ObjectArg stateId, NestedResult parsedVAA 0]) (\<lambda>validatedMessage.
         bindS (moveCall (packageId @ ''::upgrades::new_version_gated'') [] []) (\<lambda>versionGated.
         bindS (moveCall (packageId @ ''::ntt::redeem'')
           [tokenOf ntt, transceiverPackageId @ ''::wormhole_transceiver::TransceiverAuth'']
           [ObjectArg (managerOf ntt), Result versionGated, ObjectArg coinMetadataId, NestedResult validatedMessage 0,
            SUI_CLOCK]) (\<lambda>_.
         liftS (Inr ()))))))))))"

definition addReleaseCall :: "'p sui_env \<Rightarrow> 'p sui_attestation list \<Rightarrow> string \<Rightarrow> string \<Rightarrow> unit sui" where
  "addReleaseCall env attestations packageId coinMetadataId =
     (case find (\<lambda>a. sa_payloadName a = Some ''WormholeTransfer'') attestations of
        None \<Rightarrow> liftS (Inl NoWormholeAttestation)
      | Some wormholeAttestation \<Rightarrow>
          (case sa_nttManagerPayload wormholeAttestation of
             None \<Rightarrow> liftS (Inl (PayloadFailed (ReadOfUndefined ''payload'')))
           | Some nttPayload \<Rightarrow>
               bindS (liftS (failingWith PayloadFailed (thrownS (se_serializeTransfer env (nm_payload nttPayload))))) (\<lambda>payloadBytes.
               bindS (getNttCommonPackageId env) (\<lambda>nttCommonPackageId.
               bindS getNtt (\<lambda>ntt.
               bindS (liftS (getWormholePackageId env (su_coreBridgeStateId ntt))) (\<lambda>wormholeCoreBridgePackageId.
               bindS (createNttManagerMessageObjects nttCommonPackageId wormholeCoreBridgePackageId payloadBytes
                 (nm_id nttPayload) (nm_sender nttPayload)) (\<lambda>manager_message.
               bindS (moveCall (packageId @ ''::upgrades::new_version_gated'') [] []) (\<lambda>versionGated.
               case sa_emitterChain wormholeAttestation of
                 None \<Rightarrow> liftS (Inl NoEmitterChain)
               | Some chain \<Rightarrow>
                   bindS (pureUInt 16 (int (se_chainToChainId env chain))) (\<lambda>chainId.
                   bindS (moveCall (packageId @ ''::ntt::release'') [tokenOf ntt]
                     [ObjectArg (managerOf ntt), NestedResult versionGated 0, chainId, manager_message,
                      ObjectArg coinMetadataId, SUI_CLOCK]) (\<lambda>_.
                   liftS (Inr ()))))))))))) "

definition suiRedeem :: "'p sui_env \<Rightarrow> 'p sui_attestation list \<Rightarrow> sui_tx sui" where
  "suiRedeem env attestations =
     bindS getNtt (\<lambda>ntt.
     bindS (liftS (suiIsPaused env ntt)) (\<lambda>isPaused.
     if isPaused then liftS (Inl IsPaused)
     else if attestations = [] then liftS (Inl NoAttestations)
     else bindS (getPackageId env) (\<lambda>packageId.
          bindS (liftS (getCoinMetadataId env (su_network ntt) (tokenOf ntt))) (\<lambda>coinMetadataId.
          bindS newTransaction (\<lambda>_.
          bindS (eachS (\<lambda>a. addRedeemCall env a packageId coinMetadataId) attestations) (\<lambda>_.
          bindS (addReleaseCall env attestations packageId coinMetadataId) (\<lambda>_.
          unsignedTx ''Redeem NTT Transfer'')))))))"

text \<open>
  The attestation made up for a queued transfer: it holds the chain and the message only. \<open>serialized\<close> is
  what the SDK's \<open>serialize\<close> makes of such an object.
\<close>

definition queuedAttestation :: "string \<Rightarrow> 'p ntt_message \<Rightarrow> string + bytes \<Rightarrow> 'p sui_attestation" where
  "queuedAttestation fromChain message serialized =
     \<lparr>sa_emitterChain = Some fromChain, sa_payloadName = None, sa_nttManagerPayload = Some message,
      sa_serialized = serialized\<rparr>"

definition suiCompleteQueued :: "'p sui_env \<Rightarrow> string \<Rightarrow> 'p ntt_message \<Rightarrow> string + bytes \<Rightarrow> sui_tx sui" where
  "suiCompleteQueued env fromChain message serialized =
     bindS getNtt (\<lambda>ntt.
     bindS (liftS (suiIsPaused env ntt)) (\<lambda>isPaused.
     if isPaused then liftS (Inl IsPaused)
     else suiRedeem env [queuedAttestation fromChain message serialized]))"

text \<open>Nobody relays from Sui with this protocol.\<close>

definition suiIsRelayingAvailable :: "string \<Rightarrow> bool" where
  "suiIsRelayingAvailable destination = False"

definition suiQuoteDeliveryPrice :: "string \<Rightarrow> sui_error + int" where
  "suiQuoteDeliveryPrice destination = Inl NotImplementedOnSui"

section \<open>The status of a message\<close>

definition getInboxItem :: "'p sui_env \<Rightarrow> 'p sui_attestation \<Rightarrow> (inbox_item \<times> js_number) sui" where
  "getInboxItem env attestation =
     bindS getNtt (\<lambda>ntt.
     bindS (liftS (andThen (getNttState env ntt) (\<lambda>state. andThen (jget state ''threshold'') numeralText))) (\<lambda>threshold.
     bindS (getNttCommonPackageId env) (\<lambda>nttCommonPackageId.
     case sa_emitterChain attestation of
       None \<Rightarrow> liftS (Inl NoEmitterChain)
     | Some sourceChain \<Rightarrow>
         bindS (getPackageId env) (\<lambda>nttPackageId.
         case sa_nttManagerPayload attestation of
           None \<Rightarrow> liftS (Inl NoManagerPayload)
         | Some payload \<Rightarrow>
             bindS (liftS (failingWith PayloadFailed (thrownS (se_serializeTransfer env (nm_payload payload))))) (\<lambda>messageBytes.
             bindS newTransaction (\<lambda>_.
             bindS (liftS (getWormholePackageId env (su_coreBridge ntt))) (\<lambda>wormholeCoreBridgePackageId.
             bindS (createNttManagerMessageObjects nttCommonPackageId wormholeCoreBridgePackageId messageBytes
               (nm_id payload) (nm_sender payload)) (\<lambda>manager_message.
             bindS (pureUInt 16 (int (se_chainToChainId env sourceChain))) (\<lambda>sourceChainId.
             bindS (moveCall (nttPackageId @ ''::state::borrow_inbox_item'') [tokenOf ntt]
               [ObjectArg (managerOf ntt), sourceChainId, manager_message]) (\<lambda>inboxItemRef.
             bindS (moveCall ''0x2::bcs::to_bytes''
               [nttPackageId @ ''::inbox::InboxItem<'' @ nttCommonPackageId @ ''::native_token_transfer::NativeTokenTransfer>'']
               [NestedResult inboxItemRef 0]) (\<lambda>_.
             bindS (unsignedTx '''') (\<lambda>txb.
             bindS (liftS (thrownS (se_simulate env (sx_commands txb)))) (\<lambda>inspectResult.
             liftS (andThen (parseInboxItemResult env inspectResult) (\<lambda>item. Inr (item, parseInt threshold))))))))))))))))"

text \<open>The bits of a number that \<open>parseInt\<close> gave: infinity loses all of them in the first round.\<close>

definition bitsOfNumber :: "js_number \<Rightarrow> nat" where
  "bitsOfNumber n = (case n of Finite q \<Rightarrow> countSetBits \<lfloor>q\<rfloor> | Infty _ \<Rightarrow> 1 | NaN \<Rightarrow> 0)"

definition suiIsApproved :: "'p sui_env \<Rightarrow> 'p sui_attestation \<Rightarrow> bool sui" where
  "suiIsApproved env attestation =
     bindS (getInboxItem env attestation) (\<lambda>(item, threshold).
     let voteCount = bitsOfNumber (parseInt (dec_of_nat (ii_bitmap item)))
     in liftS (Inr (numLe threshold (jsInt (int voteCount)))))"

definition releaseStatus :: "'p sui_env \<Rightarrow> 'p sui_attestation \<Rightarrow> release_status sui" where
  "releaseStatus env attestation =
     bindS (getInboxItem env attestation) (\<lambda>(item, _). liftS (Inr (ii_release_status item)))"

definition suiIsExecuted :: "'p sui_env \<Rightarrow> 'p sui_attestation \<Rightarrow> bool sui" where
  "suiIsExecuted env attestation = bindS (releaseStatus env attestation) (\<lambda>s. liftS (Inr (s = Released)))"

definition isReleaseAfter :: "release_status \<Rightarrow> bool" where
  "isReleaseAfter s = (case s of ReleaseAfter _ \<Rightarrow> True | _ \<Rightarrow> False)"

definition suiIsQueued :: "'p sui_env \<Rightarrow> 'p sui_attestation \<Rightarrow> bool sui" where
  "suiIsQueued env attestation = bindS (releaseStatus env attestation) (\<lambda>s. liftS (Inr (isReleaseAfter s)))"

record sui_queued =
  sq_recipient :: bytes
  sq_amount :: int
  sq_rateLimitExpiryTimestamp :: js_number

text \<open>
  \<open>recipient\<close> and \<open>amount\<close> are the fields of the message's payload, where it has them; the item of the inbox has
  no field of the names the code falls back to, and its amount is an object that is no numeral.
\<close>

definition suiQueuedTransfer :: "'p sui_env \<Rightarrow> ('p \<Rightarrow> bytes option) \<Rightarrow> ('p \<Rightarrow> int option) \<Rightarrow> string \<Rightarrow> 'p ntt_message
    \<Rightarrow> string + bytes \<Rightarrow> sui_queued option sui" where
  "suiQueuedTransfer env recipient amount fromChain message serialized =
     bindS (releaseStatus env (queuedAttestation fromChain message serialized)) (\<lambda>status.
     case status of
       ReleaseAfter t \<Rightarrow>
         bindS (getInboxItem env (queuedAttestation fromChain message serialized)) (\<lambda>_.
         case recipient (nm_payload message) of
           None \<Rightarrow> liftS (Inr None)
         | Some r \<Rightarrow>
             (case amount (nm_payload message) of
                None \<Rightarrow> liftS (Inl (SuiThrown ''SyntaxError''))
              | Some n \<Rightarrow> liftS (Inr (Some \<lparr>sq_recipient = r, sq_amount = n,
                  sq_rateLimitExpiryTimestamp =
                    (case double_of_nat t of Finite q \<Rightarrow> double_of_rat (q / 1000) | other \<Rightarrow> other)\<rparr>))))
     | _ \<Rightarrow> liftS (Inr None))"

section \<open>Transceivers and addresses\<close>

text \<open>The object \<open>getTransceiver\<close> returns: its state, its address, its peers.\<close>

definition suiTransceiver :: "sui_ntt \<Rightarrow> int \<Rightarrow> string option" where
  "suiTransceiver ntt ix = (if ix \<noteq> 0 then None else wormholeStateOf ntt)"

definition suiTransceiverAddress :: "'p sui_env \<Rightarrow> sui_ntt \<Rightarrow> string \<Rightarrow> sui_error + bytes" where
  "suiTransceiverAddress env ntt stateId =
     andThen (getSuiObject env stateId) (\<lambda>state.
     andThen (jget (Some (mo_fields state)) ''emitter_cap'') (\<lambda>cap. andThen (jget cap ''id'') (\<lambda>i. andThen (asText i) (\<lambda>s.
     thrownS (se_universalOfText env (su_chain ntt) s)))))"

definition suiTransceiverSetPeer :: "'p sui_env \<Rightarrow> string \<Rightarrow> bytes \<Rightarrow> sui_tx sui" where
  "suiTransceiverSetPeer env chain addressBytes = suiSetTransceiverPeer env 0 chain addressBytes"

definition suiTransceiverSetPauser :: "sui_tx sui" where
  "suiTransceiverSetPauser = liftS (Inl NotImplementedOnSui)"

definition suiTransceiverReceive :: "sui_tx sui" where
  "suiTransceiverReceive = liftS (Inl NotImplementedOnSui)"

definition suiTransceiverPeer :: "'p sui_env \<Rightarrow> sui_ntt \<Rightarrow> int \<Rightarrow> string \<Rightarrow> bytes option" where
  "suiTransceiverPeer env ntt ix targetChain =
     (if ix \<noteq> 0 then None
      else (case wormholeStateOf ntt of
        None \<Rightarrow> None
      | Some stateId \<Rightarrow>
          (case (andThen (thrownS (se_getObject env stateId)) (\<lambda>obj.
                 let json = Option.bind obj ob_json in
                 if \<not> truthy json then Inr None
                 else andThen (jget json ''peers'') (\<lambda>peersTable.
                      andThen (andThen (jget peersTable ''id'') asText) (\<lambda>tableId.
                      andThen (getPeerValue env tableId (se_chainToChainId env targetChain)) (\<lambda>peerValue.
                      if \<not> truthy peerValue then Inr None
                      else andThen (externalAddress env targetChain peerValue) (\<lambda>a. Inr (Some a))))))) of
             Inl _ \<Rightarrow> None
           | Inr p \<Rightarrow> p)))"

definition suiTransceiverType :: "'p sui_env \<Rightarrow> sui_ntt \<Rightarrow> int \<Rightarrow> sui_error + string" where
  "suiTransceiverType env ntt transceiverIndex =
     (if transceiverIndex \<noteq> 0 then Inl (IndexNotSupported transceiverIndex)
      else (case wormholeStateOf ntt of
        None \<Rightarrow> Inl NoWormholeState
      | Some stateId \<Rightarrow>
          andThen (thrownS (se_getObject env stateId)) (\<lambda>obj.
          case Option.bind obj ob_type of
            None \<Rightarrow> Inl (NoObjectType stateId)
          | Some t \<Rightarrow>
              if t = [] then Inl (NoObjectType stateId)
              else andThen (thrownS (se_simulate env
                     [MoveCall (hd (splitColons t) @ ''::transceiver::get_transceiver_type'') [] []])) (\<lambda>results.
                   case results of
                     Some ((Some bcs # _) # _) \<Rightarrow> thrownS (se_parseText env bcs)
                   | _ \<Rightarrow> Inl NoTransceiverType))))"

text \<open>\<open>null\<close> stands for a key that is set to \<open>undefined\<close>: it equals a key that is not there.\<close>

definition sameValue :: "json option \<Rightarrow> json option \<Rightarrow> bool" where
  "sameValue v w =
     (case (v, w) of
        (Some (JPrim JNull), None) \<Rightarrow> True
      | (Some x, Some y) \<Rightarrow> strictEq x y
      | _ \<Rightarrow> False)"

fun deleteSame :: "json_obj \<Rightarrow> json_obj \<Rightarrow> json_obj" where
  "deleteSame [] b = []"
| "deleteSame ((k, v) # a) b =
     (case (v, map_of b k) of
        (JObj m, Some (JObj n)) \<Rightarrow> (if deleteSame m n = [] then [] else [(k, JObj (deleteSame m n))])
      | (_, w) \<Rightarrow> if sameValue (Some v) w then [] else [(k, v)]) @ deleteSame a b"

text \<open>The registered Wormhole transceiver: of several entries at index 0 the last one is kept.\<close>

definition registeredWormhole :: "'p sui_env \<Rightarrow> dynamic_field list \<Rightarrow> json_obj" where
  "registeredWormhole env dynamicFields =
     (case filter (\<lambda>e. e \<noteq> None) (map (registryEntry env) (filter isRegistryKey dynamicFields)) of
        [] \<Rightarrow> []
      | entries \<Rightarrow>
          [(''wormhole'', (case the (last entries) of None \<Rightarrow> JPrim JNull | Some v \<Rightarrow> v))])"

definition suiVerifyAddresses :: "'p sui_env \<Rightarrow> sui_ntt \<Rightarrow> json_obj option" where
  "suiVerifyAddresses env ntt =
     (case (andThen (thrownS (se_getObject env (managerOf ntt))) (\<lambda>obj.
            let json = Option.bind obj ob_json in
            if \<not> truthy json then Inr None
            else andThen (jget json ''transceivers'') (\<lambda>registry.
                 andThen (andThen (jget registry ''id'') asText) (\<lambda>registryId.
                 andThen (firstPage env registryId) (\<lambda>fields.
                 andThen (extractTokenTypeFromSuiState env (managerOf ntt)) (\<lambda>token.
                 let remote = [(''manager'', JPrim (JStr (managerOf ntt))), (''token'', JPrim (JStr token)),
                       (''transceiver'', JObj (registeredWormhole env fields))];
                     local = [(''manager'', JPrim (JStr (managerOf ntt))), (''token'', JPrim (JStr (tokenOf ntt))),
                       (''transceiver'', JObj (map (\<lambda>(k, a). (k, JPrim (JStr a)))
                          (case sc_transceiver (su_contracts ntt) of None \<Rightarrow> [] | Some m \<Rightarrow> m)))];
                     result = deleteSame remote local
                 in Inr (if result = [] then None else Some result))))))) of
        Inl _ \<Rightarrow> None
      | Inr r \<Rightarrow> r)"

end
