(* ===== verification/Sui_Lawful.thy ===== *)
theory Sui_Lawful
  imports Sui_Ntt
begin

text \<open>
  What the transactions of \<open>sui/ts/src/ntt.ts\<close> look like: the commands only use results that exist, and each
  result once.
\<close>

section \<open>Every transaction is lawful\<close>

lemma quiet_cached: "quiet (cached slot store fetch)"
  unfolding cached_def by (intro quiet_rules)

lemma quiet_caches [quiet_rules]:
  "quiet (getPackageId env)" "quiet (getNttCommonPackageId env)" "quiet (getAdminCapId env)"
  by (simp_all add: getPackageId_def getNttCommonPackageId_def getAdminCapId_def quiet_cached)

lemmas builds_caches [builds_rules] = quiet_caches [THEN builds_quiet]

lemma builds_tx [builds_rules]: "lawful cmds \<Longrightarrow> builds cmds (unsignedTx d) (\<lambda>cmds t. sx_commands t = cmds)"
  by (auto simp: builds_def unsignedTx_eq_Inr)

definition yieldsLawful :: "sui_tx sui \<Rightarrow> bool" where
  "yieldsLawful m \<longleftrightarrow> (\<forall>cmds. builds cmds m (\<lambda>cmds t. sx_commands t = cmds))"

lemma yieldsLawfulD: "yieldsLawful m \<Longrightarrow> m cx = (Inr t, cx') \<Longrightarrow> lawful (sx_commands t)"
  by (auto simp: yieldsLawful_def builds_def)

lemma yieldsLawfulI: "(\<And>cmds. builds cmds m (\<lambda>cmds t. sx_commands t = cmds)) \<Longrightarrow> yieldsLawful m"
  by (simp add: yieldsLawful_def)

lemmas ptb_scope = scope_simps SUI_CLOCK_def

lemma lawful_stateCalls:
  "yieldsLawful (suiPause env)" "yieldsLawful (suiUnpause env)" "yieldsLawful (suiSetThreshold env threshold)"
  "yieldsLawful (suiSetOutboundLimit env limit)"
  unfolding suiPause_def suiUnpause_def suiSetThreshold_def suiSetOutboundLimit_def stateCall_def
  by (rule yieldsLawfulI; auto intro!: builds_rules simp: ptb_scope pureNumber_def)+

lemma lawful_setOwner: "yieldsLawful (suiSetOwner env newOwner)"
  unfolding suiSetOwner_def by (rule yieldsLawfulI) (auto intro!: builds_rules simp: ptb_scope)

text \<open>The calls of a peer, appended to any lawful transaction.\<close>

lemma builds_setPeerCalls:
  "lawful cmds \<Longrightarrow> builds cmds (setPeerCalls env adminCapId packageId chain addressBytes decimals limit) (\<lambda>_ _. True)"
  unfolding setPeerCalls_def newExternalAddress_def pureNumber_def
  by (auto intro!: builds_rules simp: ptb_scope)

lemma builds_transceiverPeerCalls:
  "lawful cmds \<Longrightarrow> builds cmds (transceiverPeerCalls env stateId package adminCapId chain addressBytes) (\<lambda>_ _. True)"
  unfolding transceiverPeerCalls_def newExternalAddress_def
  by (auto intro!: builds_rules simp: ptb_scope)

lemma builds_step:
  assumes "\<And>cmds. lawful cmds \<Longrightarrow> builds cmds m (\<lambda>_ _. True)" "lawful cmds" "\<And>cmds a. lawful cmds \<Longrightarrow> builds cmds (k a) P"
  shows "builds cmds (bindS m k) P"
  by (rule builds_bind [OF assms(1) [OF assms(2)]]) (rule assms(3))

lemmas peer_rules = builds_step [OF builds_rethrow [OF builds_setPeerCalls]]
  builds_step [OF builds_rethrow [OF builds_transceiverPeerCalls]]

lemma lawful_setPeer: "yieldsLawful (suiSetPeer env chain addressBytes decimals limit)"
  unfolding suiSetPeer_def by (rule yieldsLawfulI) (auto intro!: peer_rules builds_rules)

lemma lawful_setInboundLimit: "yieldsLawful (suiSetInboundLimit env chain limit)"
  unfolding suiSetInboundLimit_def by (rule yieldsLawfulI) (auto intro!: peer_rules builds_rules)

lemma lawful_setTransceiverPeer: "yieldsLawful (suiSetTransceiverPeer env ix chain addressBytes)"
  unfolding suiSetTransceiverPeer_def by (rule yieldsLawfulI) (auto intro!: peer_rules builds_rules)

text \<open>A transfer: the coin, the message, the dust. A result is available when it exists and is not used yet.\<close>

definition available :: "ptb \<Rightarrow> ptb_arg \<Rightarrow> bool" where
  "available cmds a \<longleftrightarrow> argExists cmds a \<and> set (slots a) \<inter> set (usedSlots cmds) = {}"

lemma builds_coinToTransfer:
  "lawful cmds \<Longrightarrow> builds cmds (coinToTransfer env native sender tokenId amount)
     (\<lambda>cmds coin. \<exists>i. coin = NestedResult i 0 \<and> available cmds coin)"
  unfolding coinToTransfer_def
  by (auto intro!: builds_rules simp: ptb_scope available_def)

lemma builds_releaseOutbound:
  "lawful cmds \<Longrightarrow> available cmds (NestedResult i j) \<Longrightarrow> available cmds (NestedResult p q) \<Longrightarrow> (i, j) \<noteq> (p, q) \<Longrightarrow>
     builds cmds (releaseOutbound ntt packageId transceiverPackageId stateId wormholePackageId tokenId (NestedResult i j))
       (\<lambda>cmds _. available cmds (NestedResult p q))"
  unfolding releaseOutbound_def by (auto intro!: builds_rules simp: ptb_scope available_def)

lemma builds_returnDust:
  "lawful cmds \<Longrightarrow> available cmds (NestedResult p q) \<Longrightarrow>
     builds cmds (returnDust native tokenId sender (NestedResult p q)) (\<lambda>_ _. True)"
  unfolding returnDust_def
  by (auto intro!: builds_rules simp: ptb_scope available_def)

lemma lawful_transfer: "yieldsLawful (suiTransfer env sender amount chain destination queue)"
proof (rule yieldsLawfulI)
  have after_coin: "builds cmds
      (bindS (coinToTransfer env native sender tokenId amount) k) P"
    if "lawful cmds" "\<And>cmds i. lawful cmds \<Longrightarrow> available cmds (NestedResult i 0) \<Longrightarrow> builds cmds (k (NestedResult i 0)) P"
    for cmds native sender tokenId k and P :: "ptb \<Rightarrow> sui_tx \<Rightarrow> bool"
    by (rule builds_bind [OF builds_coinToTransfer [OF that(1)]]) (use that(2) in auto)
  have after_release: "builds cmds
      (bindS (releaseOutbound ntt packageId transceiverPackageId stateId wormholePackageId tokenId (NestedResult i j))
        (\<lambda>_. bindS (returnDust native tokenId sender (NestedResult p q)) k)) P"
    if "lawful cmds" "available cmds (NestedResult i j)" "available cmds (NestedResult p q)" "(i, j) \<noteq> (p, q)"
      "\<And>cmds. lawful cmds \<Longrightarrow> builds cmds (k ()) P"
    for cmds ntt packageId transceiverPackageId stateId wormholePackageId tokenId i j native sender p q k
      and P :: "ptb \<Rightarrow> sui_tx \<Rightarrow> bool"
    by (rule builds_bind [OF builds_releaseOutbound [OF that(1-4)]], rule builds_bind [OF builds_returnDust])
      (use that(5) in auto)
  show "builds cmds (suiTransfer env sender amount chain destination queue) (\<lambda>cmds t. sx_commands t = cmds)" for cmds
    unfolding suiTransfer_def prepareTransfer_def
    by (intro after_coin after_release builds_rules lawful_Nil) (auto simp: ptb_scope available_def)
qed

text \<open>Redeeming runs over any number of attestations.\<close>

lemma builds_addRedeemCall:
  "lawful cmds \<Longrightarrow> builds cmds (addRedeemCall env attestation packageId coinMetadataId) (\<lambda>_ _. True)"
  unfolding addRedeemCall_def by (auto intro!: builds_rules simp: ptb_scope)

lemma builds_addReleaseCall:
  "lawful cmds \<Longrightarrow> builds cmds (addReleaseCall env attestations packageId coinMetadataId) (\<lambda>_ _. True)"
  unfolding addReleaseCall_def createNttManagerMessageObjects_def
  by (auto intro!: builds_rules simp: ptb_scope)

lemma lawful_redeem: "yieldsLawful (suiRedeem env attestations)"
  unfolding suiRedeem_def
  by (rule yieldsLawfulI)
    (auto intro!: builds_step [OF builds_eachS [OF builds_addRedeemCall]] builds_step [OF builds_addReleaseCall] builds_rules)

text \<open>
  C22. Every transaction an operation of the Sui protocol yields is lawful: its numbers fit their width,
  it only uses results of earlier commands that have such a result, and it uses none twice, so that every
  coin, ticket and message is consumed at most once. A redemption may have any number of attestations.
\<close>

theorem sui_transactions_lawful:
  assumes "operation \<in> {suiPause env, suiUnpause env, suiSetThreshold env threshold, suiSetOutboundLimit env limit,
      suiSetOwner env account, suiSetPeer env chain address decimals limit, suiSetInboundLimit env chain limit,
      suiSetTransceiverPeer env ix chain address, suiTransfer env account amount chain destination queue,
      suiRedeem env attestations}"
    and "operation cx = (Inr t, cx')"
  shows "lawful (sx_commands t)"
proof -
  have "yieldsLawful operation"
    using assms(1) lawful_stateCalls lawful_setOwner lawful_setPeer lawful_setInboundLimit lawful_setTransceiverPeer
      lawful_transfer lawful_redeem by auto
  then show ?thesis using assms(2) by (rule yieldsLawfulD)
qed

text \<open>A deployment of the native token on a chain that has one page of fields and two kinds of objects.\<close>

definition sampleState :: sui_object where
  "sampleState = \<lparr>ob_type = Some ''0x1::ntt::State<0x2::sui::SUI>'',
     ob_json = Some (JObj [(''threshold'', JPrim (JStr ''1'')), (''paused'', JPrim (JBool False)),
       (''transceivers'', JObj [(''id'', JPrim (JStr ''R''))])]), ob_owner = None\<rparr>"

definition samplePackage :: sui_object where
  "samplePackage = \<lparr>ob_type = Some ''0x7::state::State'',
     ob_json = Some (JObj [(''value'', JObj [(''package'', JPrim (JStr ''0x7'')), (''id'', JPrim (JNum 0)),
       (''state_object_id'', JPrim (JStr ''W''))])]), ob_owner = None\<rparr>"

definition sampleItem :: "nat \<Rightarrow> inbox_item" where
  "sampleItem bitmap = \<lparr>ii_bitmap = bitmap, ii_release_status = NotApproved,
     ii_data = \<lparr>nx_amount = 1, nx_decimals = 8, nx_source_token = [], nx_to = [], nx_to_chain = 2, nx_payload = None\<rparr>\<rparr>"

definition sampleSui :: "nat \<Rightarrow> unit sui_env" where
  "sampleSui bitmap = \<lparr>se_getObject = (\<lambda>i. Inr (Some (if i = ''M'' then sampleState else samplePackage))),
     se_pages = (\<lambda>_. [Inr [\<lparr>df_type = ''CurrentPackage'', df_fieldId = ''F''\<rparr>, \<lparr>df_type = ''transceiver_registry::Key'', df_fieldId = ''K''\<rparr>]]),
     se_getDynamicField = (\<lambda>_ _. Inr None), se_getDatatype = (\<lambda>_ _ _. Inr None), se_coinMetadata = (\<lambda>_. Inr None),
     se_coinMetadataIds = (\<lambda>_ _. Inr [''D'']), se_getCoins = (\<lambda>_ _. Inr []),
     se_simulate = (\<lambda>_. Inr (Some [[Some []]])), se_parseBytes = Inr, se_parseInboxItem = (\<lambda>_. Inr (sampleItem bitmap)),
     se_parseText = (\<lambda>_. Inl ''no text''), se_isValidSuiAddress = (\<lambda>_. True), se_chainToChainId = (\<lambda>_. 2),
     se_fromBase64 = (\<lambda>_. Inr []), se_toUniversal = (\<lambda>_ b. Inr b), se_universalOfText = (\<lambda>_ _. Inr []), se_coinType = Inr, se_nativeToken = (\<lambda>_ _. ''0x2::sui::SUI''),
     se_serializeTransfer = (\<lambda>_. Inr []), se_now = 0\<rparr>"

definition sampleSuiNtt :: sui_ctx where
  "sampleSuiNtt = \<lparr>cx_ntt = \<lparr>su_network = ''Testnet'', su_chain = ''Sui'',
     su_contracts = \<lparr>sc_token = ''native'', sc_manager = ''M'', sc_transceiver = Some [(''wormhole'', ''W'')]\<rparr>,
     su_coreBridge = ''B'', su_coreBridgeStateId = ''B'', su_adminCapId = None, su_packageId = Some ''0x1'',
     su_nttCommonPackageId = Some ''0x9''\<rparr>, cx_txb = []\<rparr>"

lemmas sample_simps = sampleState_def samplePackage_def sampleItem_def sampleSui_def sampleSuiNtt_def

lemmas run_simps = bindS_def liftS_def getNtt_def modifyNtt_def newTransaction_def command_def moveCall_def splitCoins_def
  mergeCoins_def transferObjects_def pureUInt_def unsignedTx_def rethrowS_def andThen_def thrownS_def failingWith_def

lemma sample_package: "currentPackage (sampleSui bitmap) ''W'' = Inr ''0x7''"
  by (simp add: currentPackage_def getPackageIdFromObject_def getSuiObject_def packageOfType_def startsWith_def truthy_def
      jget_def sample_simps andThen_def thrownS_def)

lemma sample_wormhole: "getWormholePackageId (sampleSui bitmap) ''B'' = Inr ''0x7''"
  by (simp add: getWormholePackageId_def endsWith_def startsWith_def getObjectFields_def truthy_def jmaybe_def asText_def
      sample_simps andThen_def thrownS_def)

lemma sui_transactions_lawful_witness:
  "\<exists>t cx. suiTransfer (sampleSui 0) ''0xA'' 5 ''Ethereum'' (Inr []) False sampleSuiNtt = (Inr t, cx) \<and>
     length (sx_commands t) = 11 \<and> lawful (sx_commands t)"
proof -
  let ?run = "suiTransfer (sampleSui 0) ''0xA'' 5 ''Ethereum'' (Inr []) False"
  have "\<exists>t cx. ?run sampleSuiNtt = (Inr t, cx) \<and> length (sx_commands t) = 11"
    using sample_package [of 0] sample_wormhole [of 0]
    by (simp add: suiTransfer_def getPackageId_def cached_def getCoinMetadataId_def tokenIdOf_def coinToTransfer_def
        isNativeToken_def NATIVE_TOKEN_IDENTIFIERS_def List.member_iff prepareTransfer_def releaseOutbound_def returnDust_def
        wormholeStateOf_def tokenOf_def managerOf_def run_simps sampleSui_def sampleSuiNtt_def)
  then obtain t cx where "?run sampleSuiNtt = (Inr t, cx)" "length (sx_commands t) = 11" by blast
  then show ?thesis
    using sui_transactions_lawful [of ?run "sampleSui 0" _ _ "''0xA''" "''Ethereum''" _ _ _ 5 "Inr []" False _ sampleSuiNtt t cx]
    by blast
qed

section \<open>A queued transfer cannot be completed\<close>

text \<open>
  C25. \<open>completeInboundQueuedTransfer\<close> never yields a transaction: the attestation it makes up has no
  \<open>payloadName\<close>, and the release is only added for an attestation of the name \<open>WormholeTransfer\<close>. Whatever
  the chain answers and whatever the message is, the call throws.
\<close>

theorem suiCompleteQueued_never_yields:
  "\<exists>e cx'. suiCompleteQueued env fromChain message serialized cx = (Inl e, cx')"
proof (cases "suiCompleteQueued env fromChain message serialized cx")
  case (Pair r cx')
  have "r \<noteq> Inr t" for t
  proof
    assume "r = Inr t"
    with Pair show False
      by (auto simp: suiCompleteQueued_def suiRedeem_def addReleaseCall_def queuedAttestation_def builder_simps
          split: if_splits)
  qed
  then show ?thesis using Pair by (cases r) auto
qed

section \<open>Votes\<close>

lemma bitsOfNumber_dec:
  assumes "b < 2 ^ 53"
  shows "bitsOfNumber (parseInt (dec_of_nat b)) = (if b = 0 then 0 else max 1 (ones (b mod 2 ^ 32)))"
  using assms countSetBits_eq(1) [of "int b"]
  by (auto simp: parseInt_dec double_of_nat_small bitsOfNumber_def jsInt_def countSetBits.simps [of 0])

text \<open>
  C24. \<open>getIsApproved\<close> compares the threshold with the votes in the bitmap of the inbox item as long as they are
  at indices below 32. The bitwise operators of the language lose the higher ones: a bitmap with votes only
  there counts as one vote. The bitmap is assumed to be below \<open>2 ^ 53\<close>, which a number of the language holds exactly.
\<close>

theorem suiIsApproved_counts:
  assumes "getInboxItem env attestation cx = (Inr (item, threshold), cx')" and "ii_bitmap item < 2 ^ 53"
  shows "suiIsApproved env attestation cx =
     (Inr (numLe threshold (jsInt (if ii_bitmap item < 2 ^ 32 then int (ones (ii_bitmap item))
        else max 1 (int (ones (ii_bitmap item mod 2 ^ 32)))))), cx')"
proof -
  have "1 \<le> ones n" if "n \<noteq> 0" for n using ones_and_pred [OF that] by simp
  then have "int (bitsOfNumber (parseInt (dec_of_nat (ii_bitmap item)))) =
      (if ii_bitmap item < 2 ^ 32 then int (ones (ii_bitmap item)) else max 1 (int (ones (ii_bitmap item mod 2 ^ 32))))"
    using bitsOfNumber_dec [OF assms(2)] by (cases "ii_bitmap item = 0") (auto simp: max_def)
  then show ?thesis by (simp add: suiIsApproved_def bindS_def liftS_def assms(1))
qed

definition sampleAttestation :: "unit sui_attestation" where
  "sampleAttestation = \<lparr>sa_emitterChain = Some ''Ethereum'', sa_payloadName = Some ''WormholeTransfer'',
     sa_nttManagerPayload = Some \<lparr>nm_id = [], nm_sender = [], nm_payload = ()\<rparr>, sa_serialized = Inr []\<rparr>"

lemma sample_inbox:
  "\<exists>cx. getInboxItem (sampleSui bitmap) sampleAttestation sampleSuiNtt = (Inr (sampleItem bitmap, jsInt 1), cx)"
proof -
  have "dec_of_nat 1 = ''1''" by code_simp
  then have "parseInt ''1'' = jsInt 1" using parseInt_dec [of 1] by (simp add: double_of_nat_small)
  then show ?thesis
    using sample_wormhole [of bitmap]
    by (simp add: getInboxItem_def getNttState_def getSuiObject_def truthy_def jget_def numeralText_def getPackageId_def
        getNttCommonPackageId_def cached_def createNttManagerMessageObjects_def parseInboxItemResult_def tokenOf_def managerOf_def
        sampleAttestation_def run_simps sample_simps)
qed

text \<open>Two votes at the indices 40 and 41 count as one.\<close>

lemma suiIsApproved_counts_witness:
  "\<exists>cx. suiIsApproved (sampleSui (2 ^ 40 + 2 ^ 41)) sampleAttestation sampleSuiNtt =
     (Inr (numLe (jsInt 1) (jsInt 1)), cx)"
proof -
  obtain cx where "getInboxItem (sampleSui (2 ^ 40 + 2 ^ 41)) sampleAttestation sampleSuiNtt =
      (Inr (sampleItem (2 ^ 40 + 2 ^ 41), jsInt 1), cx)" using sample_inbox by blast
  from suiIsApproved_counts [OF this] show ?thesis by (simp add: sampleItem_def)
qed

section \<open>Rate limits\<close>

text \<open>
  Between two transfers the capacity grows from what the last one left to the limit, which it reaches after
  24 hours.
\<close>

lemma currentCapacity_bounds:
  assumes "0 \<le> left" "left \<le> limit" "since \<le> now"
  shows "left \<le> currentCapacity now limit left since" "currentCapacity now limit left since \<le> limit"
    "RATE_LIMIT_DURATION \<le> now - since \<Longrightarrow> currentCapacity now limit left since = limit"
proof -
  have nonneg: "0 \<le> (now - since) * limit" using assms by simp
  then have s: "((now - since) * limit) sdiv RATE_LIMIT_DURATION = ((now - since) * limit) div RATE_LIMIT_DURATION"
    by (simp add: signed_divide_int_def RATE_LIMIT_DURATION_def sgn_if)
  have "0 \<le> ((now - since) * limit) div RATE_LIMIT_DURATION"
    using nonneg by (simp add: RATE_LIMIT_DURATION_def pos_imp_zdiv_nonneg_iff)
  then show "left \<le> currentCapacity now limit left since" "currentCapacity now limit left since \<le> limit"
    using assms by (simp_all add: currentCapacity_def Let_def s)
  assume "RATE_LIMIT_DURATION \<le> now - since"
  then have "RATE_LIMIT_DURATION * limit \<le> (now - since) * limit" using assms by (simp add: mult_right_mono)
  then have "limit \<le> ((now - since) * limit) div RATE_LIMIT_DURATION"
    by (simp add: RATE_LIMIT_DURATION_def)
  then show "currentCapacity now limit left since = limit"
    using assms by (simp add: currentCapacity_def Let_def s)
qed

end
