(* ===== verification/Sui_Executor.thy ===== *)
theory Sui_Executor
  imports Sui_Lawful Route_Executor
begin

text \<open>
  The protocol \<open>NttWithExecutor\<close> on Sui, \<open>sui/ts/src/nttWithExecutor.ts\<close>: one transaction transfers, pays the
  referrer and requests the relay. The quote is that of the executor route. The protocol object and the
  \<open>SuiNtt\<close> it is given ask the same node.
\<close>

record sui_executor =
  ex_network :: string
  ex_chain :: string
  ex_executorId :: string
  ex_executorRequestsId :: string
  ex_coreBridgeStateId :: string
  ex_nttContracts :: "sui_contracts option"

text \<open>
  What is used of the SDK: whether coin types are the same, the platform of a chain, an address as bytes, as
  universal bytes where it has the method, and as text, and the bytes of a Solana key.
\<close>

record 'a sui_exec_sdk =
  xs_isSameType :: "string \<Rightarrow> string \<Rightarrow> bool"
  xs_platform :: "string \<Rightarrow> string"
  xs_bytes :: "'a \<Rightarrow> string + bytes"
  xs_universalBytes :: "'a \<Rightarrow> (string + bytes) option"
  xs_text :: "'a \<Rightarrow> string"
  xs_publicKey :: "string \<Rightarrow> string + bytes"

definition newSuiExecutor :: "string \<Rightarrow> string \<Rightarrow> sui_contracts option \<Rightarrow> sui_error + sui_executor" where
  "newSuiExecutor network chain ntt =
     (case map_of SUI_ADDRESSES network of
        None \<Rightarrow> Inl (SuiNetworkUnsupported network)
      | Some addresses \<Rightarrow> Inr \<lparr>ex_network = network, ex_chain = chain, ex_executorId = sa_executorId addresses,
          ex_executorRequestsId = sa_executorRequestsId addresses, ex_coreBridgeStateId = sa_coreBridgeStateId addresses,
          ex_nttContracts = ntt\<rparr>)"

definition suiExecutorFromRpc :: "string + string \<times> string \<Rightarrow> (string \<Rightarrow> string \<times> sui_contracts option)
    \<Rightarrow> sui_error + sui_executor" where
  "suiExecutorFromRpc chainFromRpc config =
     andThen (thrownS chainFromRpc) (\<lambda>(network, chain).
       let (confNetwork, ntt) = config chain in
       if confNetwork \<noteq> network then Inl (SuiNetworkMismatch confNetwork network)
       else newSuiExecutor network chain ntt)"

definition isSupportedDestinationChain :: "'a sui_exec_sdk \<Rightarrow> string \<Rightarrow> bool" where
  "isSupportedDestinationChain sdk chain = (xs_platform sdk chain = ''Solana'' \<or> xs_platform sdk chain = ''Evm'')"

definition suiEstimateMsgValueAndGasLimit :: "int \<times> int" where
  "suiEstimateMsgValueAndGasLimit = (0, 20000000)"

section \<open>The transfer\<close>

definition hexAddress :: "bytes \<Rightarrow> string" where
  "hexAddress b = ''0x'' @ toHex b"

text \<open>The coin everything in the token is split from: the gas, or the sender's coins of the type, merged.\<close>

definition executorSource :: "'p sui_env \<Rightarrow> 'a sui_exec_sdk \<Rightarrow> bool \<Rightarrow> bytes \<Rightarrow> string \<Rightarrow> ptb_arg sui" where
  "executorSource env sdk native sender coinType =
     (if native then liftS (Inr GasCoin)
      else bindS (liftS (thrownS (se_getCoins env (hexAddress sender) coinType))) (\<lambda>coins.
        case filter (\<lambda>c. xs_isSameType sdk (co_coinType c) coinType) coins of
          [] \<Rightarrow> liftS (Inl (NoCoins coinType))
        | primaryCoin # others \<Rightarrow>
            bindS (if others \<noteq> [] then mergeCoins (ObjectArg (co_coinObjectId primaryCoin))
                     (map (\<lambda>c. ObjectArg (co_coinObjectId c)) others)
                   else liftS (Inr ())) (\<lambda>_.
            liftS (Inr (ObjectArg (co_coinObjectId primaryCoin))))))"

text \<open>The transfer itself, up to the dust; returned are the positions of the source chain and of the sequence.\<close>

definition executorTransferCalls :: "'p sui_env \<Rightarrow> sui_executor \<Rightarrow> sui_ntt \<Rightarrow> string \<Rightarrow> string \<Rightarrow> string \<Rightarrow> string \<Rightarrow> string
    \<Rightarrow> nat \<Rightarrow> bytes \<Rightarrow> bytes \<Rightarrow> ptb_arg \<Rightarrow> (nat \<times> nat) sui" where
  "executorTransferCalls env ex ntt packageId coinType coinMetadataId transceiverStateId transceiverId destinationChainId
     destinationBytes sender coin =
     bindS (moveCall (packageId @ ''::upgrades::new_version_gated'') [] []) (\<lambda>versionGated.
     bindS (prepareTransfer ntt packageId coinType coin coinMetadataId destinationChainId destinationBytes False) (\<lambda>prepared.
     bindS (moveCall (packageId @ ''::state::get_chain_id'') [coinType] [ObjectArg (managerOf ntt)]) (\<lambda>sourceChain.
     bindS (moveCall (packageId @ ''::state::get_next_sequence'') [coinType] [ObjectArg (managerOf ntt)]) (\<lambda>sequenceBytes32.
     bindS (liftS (getWormholePackageId env (ex_coreBridgeStateId ex))) (\<lambda>coreBridgePackageId.
     bindS (moveCall (coreBridgePackageId @ ''::bytes32::to_bytes'') [] [NestedResult sequenceBytes32 0]) (\<lambda>sequence.
     bindS (moveCall (packageId @ ''::ntt::transfer_tx_sender'') [coinType]
       [ObjectArg (managerOf ntt), NestedResult versionGated 0, ObjectArg coinMetadataId, NestedResult prepared 0,
        SUI_CLOCK]) (\<lambda>_.
     bindS (moveCall (packageId @ ''::state::create_transceiver_message'')
       [transceiverId @ ''::wormhole_transceiver::TransceiverAuth'', coinType]
       [ObjectArg (managerOf ntt), NestedResult sequenceBytes32 0, SUI_CLOCK]) (\<lambda>transceiverMessage.
     bindS (moveCall (transceiverId @ ''::wormhole_transceiver::release_outbound'') [packageId @ ''::auth::ManagerAuth'']
       [ObjectArg transceiverStateId, NestedResult transceiverMessage 0]) (\<lambda>messageTicket.
     bindS (splitCoins GasCoin 0) (\<lambda>feeCoin.
     bindS (moveCall (coreBridgePackageId @ ''::publish_message::publish_message'') []
       [ObjectArg (ex_coreBridgeStateId ex), feeCoin, NestedResult messageTicket 0, SUI_CLOCK]) (\<lambda>_.
     bindS (returnDust (isNativeToken (tokenOf ntt)) coinType (hexAddress sender) (NestedResult prepared 1)) (\<lambda>_.
     liftS (Inr (sourceChain, sequence))))))))))))))"

definition payReferrer :: "'a sui_exec_sdk \<Rightarrow> ptb_arg \<Rightarrow> int \<Rightarrow> 'a \<Rightarrow> unit sui" where
  "payReferrer sdk source fee referrer =
     (if 0 < fee
      then bindS (liftS (thrownS (xs_bytes sdk referrer))) (\<lambda>b.
           bindS (splitCoins source fee) (\<lambda>coin. transferObjects [coin] (hexAddress b)))
      else liftS (Inr ()))"

definition executorDestination :: "'a sui_exec_sdk \<Rightarrow> string \<Rightarrow> 'a \<Rightarrow> sui_error + string" where
  "executorDestination sdk chain address =
     (if chain = ''Solana'' then andThen (thrownS (xs_publicKey sdk (xs_text sdk address))) (\<lambda>key. Inr (hexAddress key))
      else Inr (if startsWith (xs_text sdk address) ''0x'' then xs_text sdk address else ''0x'' @ xs_text sdk address))"

text \<open>The request: it is addressed to the peer of the manager, or to the recipient when no peer is found.\<close>

definition executorRequest :: "'p sui_env \<Rightarrow> 'a sui_exec_sdk \<Rightarrow> sui_executor \<Rightarrow> sui_ntt \<Rightarrow> bytes \<Rightarrow> string \<Rightarrow> 'a
    \<Rightarrow> ('a, 'q) exec_quote \<Rightarrow> nat \<Rightarrow> nat \<Rightarrow> unit sui" where
  "executorRequest env sdk ex ntt sender chain address offer sourceChain sequence =
     bindS (moveCall (ex_executorRequestsId ex @ ''::executor_requests::make_ntt_v1_request'') []
       [NestedResult sourceChain 0, PureBytes (fromHex (drop 2 (managerOf ntt))), NestedResult sequence 0]) (\<lambda>request.
     bindS (splitCoins GasCoin (eq_estimatedCost offer)) (\<lambda>executorCoin.
     bindS (liftS (executorDestination sdk chain address)) (\<lambda>destinationAddress.
     bindS (liftS (suiPeer env ntt chain)) (\<lambda>peer.
     bindS (pureUInt 16 (int (se_chainToChainId env chain))) (\<lambda>chainId.
     bindS (moveCall (ex_executorId ex @ ''::executor::request_execution'') []
       [executorCoin, SUI_CLOCK, chainId,
        PureAddress (case peer of Some p \<Rightarrow> hexAddress (sp_address p) | None \<Rightarrow> destinationAddress),
        PureAddress (hexAddress sender), PureBytes (eq_signedQuote offer), NestedResult request 0,
        PureBytes (eq_relayInstructions offer)]) (\<lambda>_.
     liftS (Inr ())))))))"

definition executorCalls :: "'p sui_env \<Rightarrow> 'a sui_exec_sdk \<Rightarrow> sui_executor \<Rightarrow> sui_ntt \<Rightarrow> bytes \<Rightarrow> string \<Rightarrow> 'a
    \<Rightarrow> ('a, 'q) exec_quote \<Rightarrow> unit sui" where
  "executorCalls env sdk ex ntt sender chain address offer =
     (let native = isNativeToken (tokenOf ntt) in
      bindS (liftS (thrownS (se_coinType env (if native then se_nativeToken env (ex_network ex) (ex_chain ex) else tokenOf ntt)))) (\<lambda>coinType.
      bindS (liftS (getPackageIdFields env (managerOf ntt))) (\<lambda>(packageId, fields1).
      bindS (liftS (andThen (jget (Some fields1) ''transceivers'') (\<lambda>r. andThen (jget r ''id'') asText))) (\<lambda>registryId.
      bindS (liftS (getTransceivers env registryId)) (\<lambda>transceiver.
      if \<not> truthy transceiver then liftS (Inl NoTransceivers)
      else bindS (liftS (asText transceiver)) (\<lambda>transceiverStateId.
      bindS (liftS (getPackageIdFields env transceiverStateId)) (\<lambda>(transceiverId, _).
      bindS (liftS (failingWith NoDestinationBytes (thrownS
        (case xs_universalBytes sdk address of Some b \<Rightarrow> b | None \<Rightarrow> xs_bytes sdk address)))) (\<lambda>destinationBytes.
      bindS (liftS (case ex_nttContracts ex of None \<Rightarrow> Inl (ReadOfUndefined ''token'')
        | Some contracts \<Rightarrow> getCoinMetadataId env (ex_network ex) (sc_token contracts))) (\<lambda>coinMetadataId.
      bindS (executorSource env sdk native sender coinType) (\<lambda>source.
      bindS (splitCoins source (eq_remainingAmount offer)) (\<lambda>coin.
      bindS (executorTransferCalls env ex ntt packageId coinType coinMetadataId transceiverStateId transceiverId
        (se_chainToChainId env chain) destinationBytes sender coin) (\<lambda>(sourceChain, sequence).
      bindS (payReferrer sdk source (eq_transferTokenFee offer) (rt_address (eq_referrer offer))) (\<lambda>_.
      bindS (payReferrer sdk GasCoin (eq_nativeTokenFee offer) (rt_address (eq_referrer offer))) (\<lambda>_.
      executorRequest env sdk ex ntt sender chain address offer sourceChain sequence))))))))))))))"

text \<open>
  The quote expires at a time in seconds. The argument \<open>amount\<close> is not used: what is transferred is the remaining
  amount of the quote.
\<close>

definition suiExecutorTransfer :: "'p sui_env \<Rightarrow> 'a sui_exec_sdk \<Rightarrow> sui_executor \<Rightarrow> bytes \<Rightarrow> string \<Rightarrow> 'a \<Rightarrow> int
    \<Rightarrow> ('a, 'q) exec_quote \<Rightarrow> sui_tx sui" where
  "suiExecutorTransfer env sdk ex sender chain address amount offer =
     (if 1000 * int (eq_expires offer) < se_now env then liftS (Inl QuoteExpired)
      else if \<not> isSupportedDestinationChain sdk chain then liftS (Inl DestinationUnsupported)
      else bindS newTransaction (\<lambda>_.
           bindS getNtt (\<lambda>ntt.
           bindS (executorCalls env sdk ex ntt sender chain address offer) (\<lambda>_.
           unsignedTx ''NTT Transfer with Executor''))))"

section \<open>What is split from the coins\<close>

text \<open>The sum a transaction splits from the coins that satisfy \<open>P\<close>.\<close>

fun pureValue :: "ptb_arg \<Rightarrow> int" where
  "pureValue (PureUInt _ n) = n"
| "pureValue _ = 0"

fun splitOf :: "(ptb_arg \<Rightarrow> bool) \<Rightarrow> ptb_command \<Rightarrow> int" where
  "splitOf P (SplitCoins coin amounts) = (if P coin then sum_list (map pureValue amounts) else 0)"
| "splitOf P _ = 0"

definition splitTotal :: "(ptb_arg \<Rightarrow> bool) \<Rightarrow> ptb \<Rightarrow> int" where
  "splitTotal P cmds = sum_list (map (splitOf P) cmds)"

definition splits :: "(ptb_arg \<Rightarrow> bool) \<Rightarrow> 'a sui \<Rightarrow> int \<Rightarrow> ('a \<Rightarrow> bool) \<Rightarrow> bool" where
  "splits P m n Q \<longleftrightarrow>
     (\<forall>cx x cx'. m cx = (Inr x, cx') \<longrightarrow> splitTotal P (cx_txb cx') = splitTotal P (cx_txb cx) + n \<and> Q x)"

named_theorems split_rules \<open>one step of a computation that splits a known sum\<close>

lemma splits_bind:
  assumes "splits P m n Q" "\<And>a. Q a \<Longrightarrow> splits P (k a) (n' - n) R"
  shows "splits P (bindS m k) n' R"
  unfolding splits_def
proof (intro allI impI)
  fix cx x cx'
  assume "bindS m k cx = (Inr x, cx')"
  then obtain a cy where "m cx = (Inr a, cy)" "k a cy = (Inr x, cx')" by (auto simp: bindS_eq_Inr)
  then show "splitTotal P (cx_txb cx') = splitTotal P (cx_txb cx) + n' \<and> R x"
    using assms by (fastforce simp: splits_def)
qed

lemma splits_return [split_rules]: "n = 0 \<Longrightarrow> Q a \<Longrightarrow> splits P (liftS (Inr a)) n Q"
  by (auto simp: splits_def liftS_def)

lemma splits_throw [split_rules]: "splits P (liftS (Inl e)) n Q"
  by (auto simp: splits_def liftS_def)

lemma splits_lift: "splits P (liftS x) 0 (\<lambda>a. x = Inr a)"
  by (auto simp: splits_def liftS_def)

lemma splits_pure: "splits P (pureUInt bits m) 0 (\<lambda>_. True)"
  by (auto simp: splits_def pureUInt_eq_Inr)

lemma splits_command: "splits P (command c) (splitOf P c) (\<lambda>_. True)"
  by (auto simp: splits_def command_eq_Inr splitTotal_def)

lemma splits_moveCall: "splits P (moveCall target types args) 0 (\<lambda>_. True)"
  using splits_command [of P "MoveCall target types args"] by (simp add: moveCall_def)

lemma splits_splitCoins:
  "splits P (splitCoins coin amount) (if P coin then amount else 0) (\<lambda>_. 0 \<le> amount)"
  by (auto simp: splits_def splitCoins_def builder_simps splitTotal_def)

lemma splits_mergeCoins: "splits P (mergeCoins coin others) 0 (\<lambda>_. True)"
  by (auto simp: splits_def mergeCoins_def builder_simps splitTotal_def)

lemma splits_transferObjects: "splits P (transferObjects objects recipient) 0 (\<lambda>_. True)"
  by (auto simp: splits_def transferObjects_def builder_simps splitTotal_def)

lemmas splits_steps [split_rules] =
  splits_bind [OF splits_lift] splits_bind [OF splits_pure] splits_bind [OF splits_moveCall]
  splits_bind [OF splits_splitCoins] splits_bind [OF splits_mergeCoins] splits_bind [OF splits_transferObjects]

lemma splits_weaken: "splits P m n Q \<Longrightarrow> n = n' \<Longrightarrow> (\<And>a. Q a \<Longrightarrow> R a) \<Longrightarrow> splits P m n' R"
  by (auto simp: splits_def)

lemmas splits_tails [split_rules] =
  splits_weaken [OF splits_moveCall] splits_weaken [OF splits_mergeCoins] splits_weaken [OF splits_transferObjects]

lemma splits_assoc [split_rules]: "splits P (bindS m (\<lambda>a. bindS (k a) h)) n Q \<Longrightarrow> splits P (bindS (bindS m k) h) n Q"
  by (simp add: bindS_assoc)

lemma splits_if [split_rules]:
  "(b \<Longrightarrow> splits P m n Q) \<Longrightarrow> (\<not> b \<Longrightarrow> splits P m' n Q) \<Longrightarrow> splits P (if b then m else m') n Q"
  by simp

lemma splits_bind_if [split_rules]:
  "(b \<Longrightarrow> splits P (bindS m k) n Q) \<Longrightarrow> (\<not> b \<Longrightarrow> splits P (bindS m' k) n Q) \<Longrightarrow> splits P (bindS (if b then m else m') k) n Q"
  by simp

lemma splits_pair [split_rules]: "(\<And>a b. x = (a, b) \<Longrightarrow> splits P (f a b) n Q) \<Longrightarrow> splits P (case x of (a, b) \<Rightarrow> f a b) n Q"
  by (cases x) auto

lemma splits_list [split_rules]:
  "(xs = [] \<Longrightarrow> splits P m n Q) \<Longrightarrow> (\<And>y ys. xs = y # ys \<Longrightarrow> splits P (f y ys) n Q) \<Longrightarrow>
     splits P (case xs of [] \<Rightarrow> m | y # ys \<Rightarrow> f y ys) n Q"
  by (cases xs) auto

text \<open>The parts of the executor's transaction.\<close>

lemma splits_executorSource:
  "splits P (executorSource env sdk native sender coinType) 0 (\<lambda>source. source = GasCoin \<longleftrightarrow> native)"
  unfolding executorSource_def by (intro split_rules) auto

lemma splits_executorTransferCalls:
  "splits P (executorTransferCalls env ex ntt packageId coinType meta stateId transceiverId chainId destination sender coin)
     0 (\<lambda>_. True)"
  unfolding executorTransferCalls_def prepareTransfer_def returnDust_def by (intro split_rules) auto

lemma splits_payReferrer:
  "splits P (payReferrer sdk source fee referrer) (if P source then max 0 fee else 0) (\<lambda>_. True)"
  unfolding payReferrer_def by (intro split_rules) auto

lemma splits_executorRequest:
  "splits P (executorRequest env sdk ex ntt sender chain address offer sourceChain sequence)
     (if P GasCoin then eq_estimatedCost offer else 0) (\<lambda>_. True)"
  unfolding executorRequest_def by (intro split_rules) auto

lemmas executor_rules =
  splits_bind [OF splits_executorSource] splits_bind [OF splits_executorTransferCalls] splits_bind [OF splits_payReferrer]
  splits_weaken [OF splits_executorRequest]

lemma splits_executorCalls:
  assumes "P = (\<lambda>_. True) \<or> P = (\<lambda>c. c = GasCoin)"
  shows "splits P (executorCalls env sdk ex ntt sender chain address offer)
     ((if P GasCoin then max 0 (eq_nativeTokenFee offer) + eq_estimatedCost offer else 0) +
      (if P = (\<lambda>_. True) \<or> isNativeToken (tokenOf ntt)
       then eq_remainingAmount offer + max 0 (eq_transferTokenFee offer) else 0)) (\<lambda>_. True)"
  unfolding executorCalls_def Let_def
  by (intro executor_rules split_rules) (use assms in \<open>auto dest: fun_cong\<close>)

lemma executorRequest_calls:
  assumes "executorRequest env sdk ex ntt sender chain address offer sourceChain sequence cx = (Inr u, cx')"
  shows "\<exists>target request. last (cx_txb cx') = MoveCall (ex_executorId ex @ ''::executor::request_execution'') []
       [NestedResult (length (cx_txb cx') - 2) 0, SUI_CLOCK, PureUInt 16 (int (se_chainToChainId env chain)), PureAddress target,
        PureAddress (hexAddress sender), PureBytes (eq_signedQuote offer), request, PureBytes (eq_relayInstructions offer)] \<and>
     cx_txb cx' ! (length (cx_txb cx') - 2) = SplitCoins GasCoin [PureUInt 64 (eq_estimatedCost offer)]"
  using assms by (auto simp: executorRequest_def moveCall_def splitCoins_def builder_simps nth_append)

lemma executorCalls_end:
  assumes "executorCalls env sdk ex ntt sender chain address offer cx = (Inr u, cx')"
  obtains sourceChain sequence cy
  where "executorRequest env sdk ex ntt sender chain address offer sourceChain sequence cy = (Inr u, cx')"
  using assms unfolding executorCalls_def Let_def
  by (fastforce simp: bindS_eq_Inr if_builder_eq liftS_eq_Inr split: prod.splits if_splits)

text \<open>
  C23. A transfer with the executor splits exactly what the quote says. From the gas come the fee in the native
  token, the cost of the relay and, when the gas is the token, the amount and the fee in it; together with
  the token's own coin that is all. The last command requests the execution with the coin of the cost, the
  signed quote and the relay instructions.
\<close>

theorem suiExecutorTransfer_pays_quote:
  assumes "suiExecutorTransfer env sdk ex sender chain address amount offer cx = (Inr t, cx')"
  shows "splitTotal (\<lambda>c. c = GasCoin) (sx_commands t) =
      (if isNativeToken (tokenOf (cx_ntt cx)) then eq_remainingAmount offer + max 0 (eq_transferTokenFee offer) else 0) +
      max 0 (eq_nativeTokenFee offer) + eq_estimatedCost offer \<and>
    splitTotal (\<lambda>_. True) (sx_commands t) = eq_remainingAmount offer + max 0 (eq_transferTokenFee offer) +
      max 0 (eq_nativeTokenFee offer) + eq_estimatedCost offer \<and>
    (\<exists>i target request. last (sx_commands t) = MoveCall (ex_executorId ex @ ''::executor::request_execution'') []
       [NestedResult i 0, SUI_CLOCK, PureUInt 16 (int (se_chainToChainId env chain)), PureAddress target,
        PureAddress (hexAddress sender), PureBytes (eq_signedQuote offer), request, PureBytes (eq_relayInstructions offer)] \<and>
     sx_commands t ! i = SplitCoins GasCoin [PureUInt 64 (eq_estimatedCost offer)])"
proof -
  let ?calls = "executorCalls env sdk ex (cx_ntt cx) sender chain address offer"
  have run: "?calls (cx\<lparr>cx_txb := []\<rparr>) = (Inr (), cx')" and t: "sx_commands t = cx_txb cx'"
    using assms by (auto simp: suiExecutorTransfer_def builder_simps split: if_splits)
  have total: "splitTotal P (sx_commands t) =
      (if P GasCoin then max 0 (eq_nativeTokenFee offer) + eq_estimatedCost offer else 0) +
      (if P = (\<lambda>_. True) \<or> isNativeToken (tokenOf (cx_ntt cx))
       then eq_remainingAmount offer + max 0 (eq_transferTokenFee offer) else 0)"
    if "P = (\<lambda>_. True) \<or> P = (\<lambda>c. c = GasCoin)" for P
    using splits_executorCalls [OF that, of env sdk ex "cx_ntt cx" sender chain address offer] run t
    by (fastforce simp: splits_def splitTotal_def)
  have other: "(\<lambda>c. c = GasCoin) \<noteq> (\<lambda>_. True)" by (metis ptb_arg.distinct(1))
  obtain sourceChain sequence cy
    where "executorRequest env sdk ex (cx_ntt cx) sender chain address offer sourceChain sequence cy = (Inr (), cx')"
    using executorCalls_end [OF run] .
  from executorRequest_calls [OF this] t show ?thesis
    using total [of "\<lambda>_. True"] total [of "\<lambda>c. c = GasCoin"] other by auto
qed

definition sampleExecutor :: sui_executor where
  "sampleExecutor = \<lparr>ex_network = ''Testnet'', ex_chain = ''Sui'', ex_executorId = ''0xe'', ex_executorRequestsId = ''0xf'',
     ex_coreBridgeStateId = ''B'', ex_nttContracts = Some (su_contracts (cx_ntt sampleSuiNtt))\<rparr>"

definition sampleExecSdk :: "(string option) sui_exec_sdk" where
  "sampleExecSdk = \<lparr>xs_isSameType = (\<lambda>a b. a = b), xs_platform = (\<lambda>_. ''Evm''), xs_bytes = (\<lambda>_. Inr []),
     xs_universalBytes = (\<lambda>_. None), xs_text = (\<lambda>_. ''0xAb''), xs_publicKey = (\<lambda>_. Inl ''no key'')\<rparr>"

lemma sample_registry: "getTransceivers (sampleSui bitmap) ''R'' = Inr (Some (JPrim (JStr ''W'')))"
  by (simp add: getTransceivers_def firstPage_def isRegistryKey_def registryEntry_def includesText_def upt_rec isZeroNumber_def
      startsWith_def truthy_def jmaybe_def andThen_def thrownS_def sample_simps)

lemma suiExecutorTransfer_pays_quote_witness:
  "\<exists>t cx. suiExecutorTransfer (sampleSui 0) sampleExecSdk sampleExecutor [] ''Ethereum'' None 9 exampleQuote sampleSuiNtt = (Inr t, cx) \<and>
     splitTotal (\<lambda>c. c = GasCoin) (sx_commands t) = 5007"
proof -
  let ?run = "suiExecutorTransfer (sampleSui 0) sampleExecSdk sampleExecutor [] ''Ethereum'' None 9 exampleQuote sampleSuiNtt"
  have "\<exists>t cx. ?run = (Inr t, cx)"
    using sample_registry [of 0] sample_wormhole [of 0]
    by (simp add: suiExecutorTransfer_def executorCalls_def executorSource_def executorTransferCalls_def payReferrer_def
        executorRequest_def executorDestination_def prepareTransfer_def returnDust_def getPackageIdFields_def getSuiObject_def
        packageOfType_def startsWith_def truthy_def jget_def asText_def getCoinMetadataId_def isSupportedDestinationChain_def
        isNativeToken_def NATIVE_TOKEN_IDENTIFIERS_def suiPeer_def getNttState_def readPeer_def
        tokenOf_def managerOf_def run_simps sample_simps sampleExecutor_def sampleExecSdk_def exampleQuote_def Let_def)
  then obtain t cx where run: "?run = (Inr t, cx)" by blast
  have "isNativeToken (tokenOf (cx_ntt sampleSuiNtt))"
    by (simp add: isNativeToken_def NATIVE_TOKEN_IDENTIFIERS_def tokenOf_def sampleSuiNtt_def)
  then show ?thesis using suiExecutorTransfer_pays_quote [OF run] run by (auto simp: exampleQuote_def)
qed

end
