(* ===== verification/Solana_Accounts.thy ===== *)
theory Solana_Accounts
  imports Ntt_Definitions
begin

text \<open>
  Addresses on Solana, \<open>solana/ts/lib/utils.ts\<close> and the two families of derived accounts (\<open>pdas\<close>,
  \<open>transceiverPdas\<close>) of \<open>solana/ts/lib/ntt.ts\<close>. A key is a list of 32 bytes. The address of a derived account
  is a hash of its program and of its seeds, put one after the other, which \<open>@solana/web3.js\<close> computes
  together with a bump.
\<close>

type_synonym pubkey = bytes

record 'm sol_keys =
  sk_findProgramAddress :: "bytes list \<Rightarrow> pubkey \<Rightarrow> pubkey \<times> nat"
  sk_keccak256 :: "bytes \<Rightarrow> bytes"
  sk_serializeMessage :: "'m \<Rightarrow> bytes"
  sk_toChainId :: "string \<Rightarrow> nat"

section \<open>Utilities (\<open>utils.ts\<close>)\<close>

text \<open>\<open>encoding.bytes.encode(s)\<close> on ASCII.\<close>

definition textBytes :: "string \<Rightarrow> bytes" where
  "textBytes s = map of_char s"

definition derivePda :: "'m sol_keys \<Rightarrow> bytes list \<Rightarrow> pubkey \<Rightarrow> pubkey" where
  "derivePda keys seeds programId = fst (sk_findProgramAddress keys seeds programId)"

definition BPF_LOADER_UPGRADEABLE_PROGRAM_ID :: string where
  "BPF_LOADER_UPGRADEABLE_PROGRAM_ID = ''BPFLoaderUpgradeab1e11111111111111111111111''"

text \<open>The loader is the key of \<open>BPF_LOADER_UPGRADEABLE_PROGRAM_ID\<close>.\<close>

definition programDataAddress :: "'m sol_keys \<Rightarrow> pubkey \<Rightarrow> pubkey \<Rightarrow> pubkey" where
  "programDataAddress keys loader programId = derivePda keys [programId] loader"

definition chainIdBytes :: "nat \<Rightarrow> bytes" where
  "chainIdBytes chainId = be_bytes 2 chainId"

definition chainToBytes :: "'m sol_keys \<Rightarrow> string \<Rightarrow> bytes" where
  "chainToBytes keys chain = chainIdBytes (sk_toChainId keys chain)"

datatype sol_util_error =
    InvalidVersionString string
  | InvalidVaa
  | WordOutOfRange nat
  | PadRange nat nat

text \<open>
  \<open>Number(s)\<close> for a text without a decimal point: white space around it, a sign, digits and an exponent, or a
  radix.
\<close>

definition decimalNumber :: "string \<Rightarrow> js_number" where
  "decimalNumber u =
     (let ds = takeWhile isDigit u; r = dropWhile isDigit u in
      if ds = [] then NaN
      else (case r of
          [] \<Rightarrow> double_of_nat (nat_of_dec ds)
        | c # e \<Rightarrow>
            (let signed = (e \<noteq> [] \<and> (hd e = CHR ''-'' \<or> hd e = CHR ''+'')); es = (if signed then tl e else e) in
             if (c = CHR ''e'' \<or> c = CHR ''E'') \<and> all_digits es
             then (if signed \<and> hd e = CHR ''-'' then double_of_rat (of_nat (nat_of_dec ds) / 10 ^ nat_of_dec es)
                   else double_of_rat (of_nat (nat_of_dec ds) * 10 ^ nat_of_dec es))
             else NaN)))"

definition radixNumber :: "nat \<Rightarrow> string \<Rightarrow> js_number" where
  "radixNumber radix s =
     (if s \<noteq> [] \<and> list_all (\<lambda>c. case hexval c of None \<Rightarrow> False | Some d \<Rightarrow> d < radix) s
      then double_of_nat (digits_val radix (map (\<lambda>c. the (hexval c)) s)) else NaN)"

definition negated :: "js_number \<Rightarrow> js_number" where
  "negated n = (case n of Finite q \<Rightarrow> Finite (- q) | Infty neg \<Rightarrow> Infty (\<not> neg) | NaN \<Rightarrow> NaN)"

definition numberOfText :: "string \<Rightarrow> js_number" where
  "numberOfText s =
     (let t = trim s;
          prefix = toLowerCase (take 2 t) in
      if t = [] then Finite 0
      else if prefix = ''0x'' then radixNumber 16 (drop 2 t)
      else if prefix = ''0o'' then radixNumber 8 (drop 2 t)
      else if prefix = ''0b'' then radixNumber 2 (drop 2 t)
      else let u = (if hd t = CHR ''-'' \<or> hd t = CHR ''+'' then tl t else t);
               n = (if u = ''Infinity'' then Infty False else decimalNumber u)
           in if hd t = CHR ''-'' then negated n else n)"

definition parseSolVersion :: "string \<Rightarrow> sol_util_error + js_number \<times> js_number \<times> js_number \<times> string" where
  "parseSolVersion version =
     (let components = split_on CHR ''.'' version in
      if length components < 3 then Inl (InvalidVersionString version)
      else let patchVersion = components ! 2;
               patchNumber = takeWhile isDigit patchVersion;
               patchLabel = drop (length patchNumber) patchVersion
           in Inr (numberOfText (components ! 0), numberOfText (components ! 1), numberOfText patchNumber, patchLabel))"

lemma digit_facts:
  assumes "isDigit c"
  shows "\<not> isSpace c" "c \<noteq> CHR ''-''" "c \<noteq> CHR ''+''" "c \<noteq> CHR ''I''" "lower_char c \<notin> {CHR ''x'', CHR ''o'', CHR ''b''}" "c \<noteq> CHR ''.''"
  using assms by (auto simp: isDigit_def isSpace_def lower_char_def Let_def)

lemma trim_digits: "all_digits s \<Longrightarrow> trim s = s"
proof -
  assume s: "all_digits s"
  have "dropWhile isSpace u = u" if "list_all isDigit u" for u
    using that by (cases u) (simp_all add: digit_facts(1))
  then show ?thesis using s by (simp add: trim_def all_digits_def)
qed

text \<open>On digits the conversion reads the numeral.\<close>

lemma numberOfText_digits: "all_digits s \<Longrightarrow> numberOfText s = double_of_nat (nat_of_dec s)"
proof -
  assume s: "all_digits s"
  then obtain c r where cr: "s = c # r" "isDigit c" "list_all isDigit r" by (cases s) (auto simp: all_digits_def)
  have "toLowerCase (take 2 s) \<noteq> ''0'' @ [x]" if "x \<in> {CHR ''x'', CHR ''o'', CHR ''b''}" for x
    using cr digit_facts(5) that by (cases r) (auto simp: toLowerCase_def)
  moreover have "takeWhile isDigit s = s" "dropWhile isDigit s = []"
    using s by (simp_all add: all_digits_def list_all_iff)
  then have "decimalNumber s = double_of_nat (nat_of_dec s)" using cr(1) by (simp add: decimalNumber_def)
  ultimately show ?thesis
    using s cr digit_facts [OF cr(2)] by (auto simp: numberOfText_def trim_digits Let_def)
qed

lemma parseSolVersion_digits:
  assumes "all_digits a" "all_digits b" "all_digits c" "CHR ''.'' \<notin> set label" "label \<noteq> [] \<Longrightarrow> \<not> isDigit (hd label)"
  shows "parseSolVersion (a @ ''.'' @ b @ ''.'' @ c @ label) =
    Inr (double_of_nat (nat_of_dec a), double_of_nat (nat_of_dec b), double_of_nat (nat_of_dec c), label)"
proof -
  have dot: "CHR ''.'' \<notin> set s" if "all_digits s" for s
    using that digit_facts(6) by (auto simp: all_digits_def list_all_iff)
  then have "split_on CHR ''.'' (a @ ''.'' @ b @ ''.'' @ c @ label) = [a, b, c @ label]"
    using assms by (simp add: split_on_append split_on_none)
  moreover have "takeWhile isDigit (c @ label) = c"
    using assms(3,5) by (cases label) (simp_all add: all_digits_def list_all_iff)
  ultimately show ?thesis
    using assms(1-3) by (simp add: parseSolVersion_def numberOfText_digits Let_def)
qed

text \<open>The signed part of a VAA; one without signatures is refused.\<close>

definition vaaBody :: "bytes \<Rightarrow> sol_util_error + bytes" where
  "vaaBody vaa =
     (if length vaa < 6 \<or> vaa ! 5 = 0 then Inl InvalidVaa
      else Inr (drop (6 + 66 * unat (vaa ! 5)) vaa))"

lemma vaaBody_envelope:
  assumes "length header = 5" "n \<noteq> 0" "length signatures = 66 * unat n"
  shows "vaaBody (header @ [n] @ signatures @ body) = Inr body"
  using assms by (simp add: vaaBody_def nth_append)

text \<open>
  \<open>BN\<close>: the bytes of a number, without leading zeros (one byte for zero), and \<open>zpad\<close>, which throws for
  more bytes than asked for.
\<close>

fun bnArray :: "nat \<Rightarrow> bytes" where
  "bnArray n = (if n < 256 then [word_of_nat n] else bnArray (n div 256) @ [word_of_nat n])"

declare bnArray.simps [simp del]

definition zpad :: "bytes \<Rightarrow> nat \<Rightarrow> sol_util_error + bytes" where
  "zpad b w = (if length b \<le> w then Inr (replicate (w - length b) 0 @ b) else Inl (PadRange (length b) w))"

section \<open>Governance (\<open>utils.ts\<close>)\<close>

record sol_meta =
  am_pubkey :: pubkey
  am_isSigner :: bool
  am_isWritable :: bool

record raw_ix =
  ri_programId :: pubkey
  ri_keys :: "sol_meta list"
  ri_data :: bytes

definition writeUInt16BE :: "nat \<Rightarrow> sol_util_error + bytes" where
  "writeUInt16BE n = (if n < 65536 then Inr (be_bytes 2 n) else Inl (WordOutOfRange n))"

definition serializeMeta :: "sol_meta \<Rightarrow> bytes" where
  "serializeMeta a = am_pubkey a @ [if am_isSigner a then 1 else 0] @ [if am_isWritable a then 1 else 0]"

definition serializeInstruction :: "raw_ix \<Rightarrow> sol_util_error + bytes" where
  "serializeInstruction ix =
     andThen (writeUInt16BE (length (ri_keys ix))) (\<lambda>accountsLen.
     andThen (writeUInt16BE (length (ri_data ix))) (\<lambda>dataLen.
     Inr (ri_programId ix @ accountsLen @ concat (map serializeMeta (ri_keys ix)) @ dataLen @ ri_data ix)))"

definition governanceModule :: bytes where
  "governanceModule = replicate 8 0 @ textBytes ''GeneralPurposeGovernance''"

definition appendGovernanceHeader :: "bytes \<Rightarrow> pubkey \<Rightarrow> bytes" where
  "appendGovernanceHeader ixData governanceProgramId = governanceModule @ [2] @ [0, 1] @ governanceProgramId @ ixData"

definition OWNER :: pubkey where
  "OWNER = textBytes ''owner'' @ replicate 27 0"

definition PAYER :: pubkey where
  "PAYER = textBytes ''payer'' @ replicate 27 0"

text \<open>What a reader of the message gets back: the program, the accounts, the data.\<close>

fun readMetas :: "nat \<Rightarrow> bytes \<Rightarrow> sol_meta list \<times> bytes" where
  "readMetas 0 b = ([], b)"
| "readMetas (Suc n) b =
     (let (metas, rest) = readMetas n (drop 34 b)
      in (\<lparr>am_pubkey = take 32 b, am_isSigner = b ! 32 = 1, am_isWritable = b ! 33 = 1\<rparr> # metas, rest))"

definition readInstruction :: "bytes \<Rightarrow> raw_ix" where
  "readInstruction b =
     (let (metas, rest) = readMetas (be_nat (subarray b 32 34)) (drop 34 b)
      in \<lparr>ri_programId = take 32 b, ri_keys = metas, ri_data = take (be_nat (take 2 rest)) (drop 2 rest)\<rparr>)"

lemma length_serializeMeta: "length (am_pubkey a) = 32 \<Longrightarrow> length (serializeMeta a) = 34"
  by (simp add: serializeMeta_def)

lemma readMetas_step:
  assumes "length (am_pubkey a) = 32"
  shows "readMetas (Suc n) (serializeMeta a @ b) = (let (metas, rest) = readMetas n b in (a # metas, rest))"
proof -
  have "drop 34 (serializeMeta a @ b) = b" using assms by (simp add: length_serializeMeta)
  moreover have "take 32 (serializeMeta a @ b) = am_pubkey a" "(serializeMeta a @ b) ! 32 = (if am_isSigner a then 1 else 0)"
    "(serializeMeta a @ b) ! 33 = (if am_isWritable a then 1 else 0)"
    using assms by (simp_all add: serializeMeta_def nth_append)
  moreover have "\<lparr>am_pubkey = am_pubkey a, am_isSigner = (if am_isSigner a then 1 else 0) = (1 :: byte),
      am_isWritable = (if am_isWritable a then 1 else 0) = (1 :: byte)\<rparr> = a" by (cases a) simp
  ultimately show ?thesis by (simp only: readMetas.simps)
qed

lemma readMetas_serializeMeta:
  "list_all (\<lambda>a. length (am_pubkey a) = 32) metas \<Longrightarrow>
     readMetas (length metas) (concat (map serializeMeta metas) @ rest) = (metas, rest)"
  by (induction metas) (simp_all add: readMetas_step del: readMetas.simps(2))

text \<open>
  A governance message carries its instruction: behind the header of 67 bytes a reader finds the program, the
  accounts with their rights, and the data. Instructions with more accounts or data than two bytes can
  count are refused.
\<close>

theorem governance_instruction_reads_back:
  assumes "length (ri_programId ix) = 32" "list_all (\<lambda>a. length (am_pubkey a) = 32) (ri_keys ix)"
    and "length governanceProgramId = 32"
  shows "(case serializeInstruction ix of
      Inr b \<Rightarrow> readInstruction (drop 67 (appendGovernanceHeader b governanceProgramId)) = ix
    | Inl e \<Rightarrow> 65536 \<le> max (length (ri_keys ix)) (length (ri_data ix)))"
proof (cases "length (ri_keys ix) < 65536 \<and> length (ri_data ix) < 65536")
  case False
  then show ?thesis by (auto simp: serializeInstruction_def writeUInt16BE_def andThen_def)
next
  case True
  let ?accounts = "concat (map serializeMeta (ri_keys ix))"
  let ?b = "ri_programId ix @ be_bytes 2 (length (ri_keys ix)) @ ?accounts @ be_bytes 2 (length (ri_data ix)) @ ri_data ix"
  have two: "be_nat (be_bytes 2 (length (ri_keys ix))) = length (ri_keys ix)"
    "be_nat (be_bytes 2 (length (ri_data ix))) = length (ri_data ix)"
    using True by (simp_all add: be_nat_be_bytes_id)
  have "subarray ?b 32 34 = be_bytes 2 (length (ri_keys ix))"
    using assms(1) by (intro subarray_at) simp_all
  moreover have "drop 34 ?b = ?accounts @ be_bytes 2 (length (ri_data ix)) @ ri_data ix"
    using assms(1) by (simp add: be_bytes_2)
  ultimately have "readInstruction ?b = ix"
    using assms(1) two readMetas_serializeMeta [OF assms(2)]
    by (cases ix) (simp add: readInstruction_def be_bytes_2)
  moreover have "drop 67 (appendGovernanceHeader ?b governanceProgramId) = ?b"
    using assms(3) by (simp add: appendGovernanceHeader_def governanceModule_def textBytes_def)
  ultimately show ?thesis
    using True by (simp add: serializeInstruction_def writeUInt16BE_def andThen_def)
qed

lemma governance_instruction_reads_back_witness:
  "readInstruction (drop 67 (appendGovernanceHeader (projr (serializeInstruction
     \<lparr>ri_programId = OWNER, ri_keys = [\<lparr>am_pubkey = PAYER, am_isSigner = True, am_isWritable = False\<rparr>], ri_data = [7]\<rparr>)) PAYER)) =
   \<lparr>ri_programId = OWNER, ri_keys = [\<lparr>am_pubkey = PAYER, am_isSigner = True, am_isWritable = False\<rparr>], ri_data = [7]\<rparr>"
  using governance_instruction_reads_back [of "\<lparr>ri_programId = OWNER,
      ri_keys = [\<lparr>am_pubkey = PAYER, am_isSigner = True, am_isWritable = False\<rparr>], ri_data = [7]\<rparr>" PAYER]
  by (simp add: OWNER_def PAYER_def textBytes_def serializeInstruction_def writeUInt16BE_def andThen_def)

section \<open>The accounts of the manager and of its transceiver (\<open>ntt.ts\<close>)\<close>

text \<open>
  The families of accounts, each with what identifies a member. The digest of a message and of the arguments
  of a transfer are hashes. Up to version 2 the transceiver is part of the manager, so that one program
  derives all of them.
\<close>

datatype pda =
    ConfigAccount | OutboxRateLimitAccount | InboxRateLimitAccount nat | InboxItemAccount bytes | UpgradeLock
  | SessionAuthority pubkey bytes | TokenAuthority | PendingTokenAuthority | PeerAccount nat
  | RegisteredTransceiver pubkey | LutAccount | LutAuthority
  | EmitterAccount | OutboxItemSigner | TransceiverPeerAccount nat | TransceiverMessageAccount nat bytes
  | UnverifiedMessageAccount pubkey nat | WormholeMessageAccount pubkey

fun pdaSeeds :: "pda \<Rightarrow> bytes list" where
  "pdaSeeds ConfigAccount = [textBytes ''config'']"
| "pdaSeeds OutboxRateLimitAccount = [textBytes ''outbox_rate_limit'']"
| "pdaSeeds (InboxRateLimitAccount chain) = [textBytes ''inbox_rate_limit'', chainIdBytes chain]"
| "pdaSeeds (InboxItemAccount digest) = [textBytes ''inbox_item'', digest]"
| "pdaSeeds UpgradeLock = [textBytes ''upgrade_lock'']"
| "pdaSeeds (SessionAuthority sender digest) = [textBytes ''session_authority'', sender, digest]"
| "pdaSeeds TokenAuthority = [textBytes ''token_authority'']"
| "pdaSeeds PendingTokenAuthority = [textBytes ''pending_token_authority'']"
| "pdaSeeds (PeerAccount chain) = [textBytes ''peer'', chainIdBytes chain]"
| "pdaSeeds (RegisteredTransceiver transceiver) = [textBytes ''registered_transceiver'', transceiver]"
| "pdaSeeds LutAccount = [textBytes ''lut'']"
| "pdaSeeds LutAuthority = [textBytes ''lut_authority'']"
| "pdaSeeds EmitterAccount = [textBytes ''emitter'']"
| "pdaSeeds OutboxItemSigner = [textBytes ''outbox_item_signer'']"
| "pdaSeeds (TransceiverPeerAccount chain) = [textBytes ''transceiver_peer'', chainIdBytes chain]"
| "pdaSeeds (TransceiverMessageAccount chain i) = [textBytes ''transceiver_message'', chainIdBytes chain, i]"
| "pdaSeeds (UnverifiedMessageAccount payer seed) = [textBytes ''vaa_body'', payer, bnArray seed]"
| "pdaSeeds (WormholeMessageAccount outboxItem) = [textBytes ''message'', outboxItem]"

definition pdaOf :: "'m sol_keys \<Rightarrow> pubkey \<Rightarrow> pda \<Rightarrow> pubkey" where
  "pdaOf keys programId a = derivePda keys (pdaSeeds a) programId"

definition inboxItemAccount :: "'m sol_keys \<Rightarrow> pubkey \<Rightarrow> string \<Rightarrow> 'm \<Rightarrow> pubkey" where
  "inboxItemAccount keys programId chain nttMessage =
     pdaOf keys programId (InboxItemAccount
       (messageDigest (sk_keccak256 keys) (sk_serializeMessage keys) (sk_toChainId keys) chain nttMessage))"

record transfer_args =
  tg_amount :: nat
  tg_recipientChain :: nat
  tg_recipientAddress :: bytes
  tg_shouldQueue :: bool

definition sessionDigest :: "'m sol_keys \<Rightarrow> transfer_args \<Rightarrow> sol_util_error + bytes" where
  "sessionDigest keys args =
     andThen (zpad (bnArray (tg_amount args)) 8) (\<lambda>amount.
     Inr (sk_keccak256 keys (amount @ chainIdBytes (tg_recipientChain args) @ tg_recipientAddress args @
       [if tg_shouldQueue args then 1 else 0])))"

definition sessionAuthority :: "'m sol_keys \<Rightarrow> pubkey \<Rightarrow> pubkey \<Rightarrow> transfer_args \<Rightarrow> sol_util_error + pubkey" where
  "sessionAuthority keys programId sender args =
     andThen (sessionDigest keys args) (\<lambda>digest. Inr (pdaOf keys programId (SessionAuthority sender digest)))"

text \<open>The account the shim posts the transceiver's messages to.\<close>

definition wormholeMessageWithShimAccount :: "'m sol_keys \<Rightarrow> pubkey \<Rightarrow> pubkey \<Rightarrow> pubkey" where
  "wormholeMessageWithShimAccount keys programId postMessageShim =
     derivePda keys [pdaOf keys programId EmitterAccount] postMessageShim"

section \<open>Accounts do not collide\<close>

lemma length_bnArray: "n < 256 ^ Suc w \<Longrightarrow> length (bnArray n) \<le> Suc w"
proof (induction w arbitrary: n)
  case (Suc w)
  then have "n div 256 < 256 ^ Suc w" by (simp add: less_mult_imp_div_less mult.commute)
  then show ?case using Suc.IH [of "n div 256"] by (subst bnArray.simps) simp
qed (simp add: bnArray.simps)

lemma be_nat_bnArray: "be_nat (bnArray n) = n"
proof (induction n rule: bnArray.induct)
  case (1 n)
  then show ?case
    by (subst bnArray.simps) (auto simp: be_nat_append unsigned_of_nat take_bit_eq_mod)
qed

lemma bnArray_inj: "bnArray m = bnArray n \<longleftrightarrow> m = n"
  by (metis be_nat_bnArray)

lemma length_bnArray_pos: "0 < length (bnArray n)"
  by (subst bnArray.simps) simp

text \<open>Padding gives the number's bytes at the width, as long as it fits.\<close>

lemma bnArray_pad: "length (bnArray n) \<le> w \<Longrightarrow> replicate (w - length (bnArray n)) 0 @ bnArray n = be_bytes w n"
proof -
  assume len: "length (bnArray n) \<le> w"
  let ?b = "replicate (w - length (bnArray n)) 0 @ bnArray n"
  have "be_nat (replicate k 0) = 0" for k by (induction k) (simp_all add: be_nat_append be_nat_def digits_val_def)
  then have "be_nat ?b = n" by (simp add: be_nat_append be_nat_bnArray)
  then show ?thesis using be_bytes_be_nat [of ?b] len by simp
qed

lemma zpad_bnArray: "n < 2 ^ 64 \<Longrightarrow> zpad (bnArray n) 8 = Inr (be_bytes 8 n)"
  using length_bnArray [of n 7] bnArray_pad [of n 8] by (simp add: zpad_def)

lemma zpad_bnArray_large: "2 ^ 64 \<le> n \<Longrightarrow> \<exists>e. zpad (bnArray n) 8 = Inl e"
proof -
  assume "2 ^ 64 \<le> n"
  then have "\<not> be_nat (bnArray n) < 256 ^ 8" by (simp add: be_nat_bnArray)
  then have "\<not> length (bnArray n) \<le> 8"
    using be_nat_bound [of "bnArray n"] power_increasing [of "length (bnArray n)" 8 "256 :: nat"] by fastforce
  then show ?thesis by (simp add: zpad_def)
qed

lemma be_bytes_inj: "m < 256 ^ w \<Longrightarrow> n < 256 ^ w \<Longrightarrow> be_bytes w m = be_bytes w n \<longleftrightarrow> m = n"
  by (metis be_nat_be_bytes_id)

definition pdaFits :: "pda \<Rightarrow> bool" where
  "pdaFits a =
     (case a of
        InboxRateLimitAccount chain \<Rightarrow> chain < 65536
      | InboxItemAccount digest \<Rightarrow> length digest = 32
      | SessionAuthority sender digest \<Rightarrow> length sender = 32 \<and> length digest = 32
      | PeerAccount chain \<Rightarrow> chain < 65536
      | RegisteredTransceiver transceiver \<Rightarrow> length transceiver = 32
      | TransceiverPeerAccount chain \<Rightarrow> chain < 65536
      | TransceiverMessageAccount chain i \<Rightarrow> chain < 65536 \<and> length i = 32
      | UnverifiedMessageAccount payer seed \<Rightarrow> length payer = 32 \<and> seed < 2 ^ 64
      | WormholeMessageAccount outboxItem \<Rightarrow> length outboxItem = 32
      | _ \<Rightarrow> True)"

lemma chainIdBytes_eq: "chainIdBytes m = [word_of_nat (m div 256), word_of_nat m]"
  by (simp add: chainIdBytes_def be_bytes_2)

text \<open>The label of a family and the number of bytes of what follows it.\<close>

definition pdaLabel :: "pda \<Rightarrow> bytes" where
  "pdaLabel a = hd (pdaSeeds a)"

definition pdaData :: "pda \<Rightarrow> bytes" where
  "pdaData a = concat (tl (pdaSeeds a))"

lemma pda_split: "concat (pdaSeeds a) = pdaLabel a @ pdaData a"
  by (cases a) (simp_all add: pdaLabel_def pdaData_def)

lemma pda_labels: "concat (pdaSeeds a) = concat (pdaSeeds b) \<Longrightarrow> pdaLabel a = pdaLabel b"
  by (cases a; cases b; simp add: pdaLabel_def textBytes_def)

lemma pda_data: "pdaLabel a = pdaLabel b \<Longrightarrow> pdaData a = pdaData b \<Longrightarrow> pdaFits a \<Longrightarrow> pdaFits b \<Longrightarrow> a = b"
  by (cases a; cases b; simp add: pdaLabel_def textBytes_def pdaData_def pdaFits_def chainIdBytes_def be_bytes_inj bnArray_inj)

text \<open>
  C19. The accounts of a program do not collide: two accounts whose seeds give the same bytes are the same member
  of the same family, over all families of the manager and of its transceiver. No seed is longer than the
  32 bytes that the address function accepts.
\<close>

theorem pda_seeds_distinct:
  assumes "pdaFits a" "pdaFits b"
  shows "(concat (pdaSeeds a) = concat (pdaSeeds b) \<longleftrightarrow> a = b) \<and> list_all (\<lambda>s. length s \<le> 32) (pdaSeeds a)"
proof -
  have "a = b" if "concat (pdaSeeds a) = concat (pdaSeeds b)"
    using pda_labels [OF that] pda_data [OF _ _ assms] that by (simp add: pda_split)
  moreover have "length (bnArray n) \<le> 32" if "n < 2 ^ 64" for n
    using that length_bnArray [of n 7] by simp
  then have "list_all (\<lambda>s. length s \<le> 32) (pdaSeeds a)"
    using assms(1) by (cases a) (simp_all add: pdaFits_def textBytes_def chainIdBytes_eq)
  ultimately show ?thesis by blast
qed

lemma pda_seeds_distinct_witness:
  "concat (pdaSeeds (PeerAccount 2)) \<noteq> concat (pdaSeeds (TransceiverPeerAccount 2))"
  using pda_seeds_distinct [of "PeerAccount 2" "TransceiverPeerAccount 2"] by (simp add: pdaFits_def)

text \<open>
  C21. The account of an unverified message is the one the program derives, from the 8 big-endian bytes of the
  seed, exactly when the first of these bytes is not zero: the seed is put in without its leading zeros.
\<close>

theorem unverifiedMessage_seed:
  assumes "seed < 2 ^ 64" "length payer = 32"
  shows "concat (pdaSeeds (UnverifiedMessageAccount payer seed)) = textBytes ''vaa_body'' @ payer @ be_bytes 8 seed \<longleftrightarrow>
     2 ^ 56 \<le> seed"
proof -
  have "bnArray seed = be_bytes 8 seed \<longleftrightarrow> length (bnArray seed) = 8"
    using bnArray_pad [of seed 8] by (metis append_Nil diff_self_eq_0 le_refl length_be_bytes replicate_0)
  also have "\<dots> \<longleftrightarrow> 2 ^ 56 \<le> seed"
  proof
    assume len: "length (bnArray seed) = 8"
    show "2 ^ 56 \<le> seed"
    proof (rule ccontr)
      assume "\<not> 2 ^ 56 \<le> seed"
      then have "length (bnArray seed) \<le> 7" using length_bnArray [of seed 6] by simp
      then show False using len by simp
    qed
  next
    assume "2 ^ 56 \<le> seed"
    then have "\<not> be_nat (bnArray seed) < 256 ^ 7" by (simp add: be_nat_bnArray)
    then have "\<not> length (bnArray seed) \<le> 7"
      using be_nat_bound [of "bnArray seed"] power_increasing [of "length (bnArray seed)" 7 "256 :: nat"] by fastforce
    moreover have "length (bnArray seed) \<le> 8" using assms(1) length_bnArray [of seed 7] by simp
    ultimately show "length (bnArray seed) = 8" by simp
  qed
  finally show ?thesis by simp
qed

lemma unverifiedMessage_seed_witness:
  "concat (pdaSeeds (UnverifiedMessageAccount PAYER 1)) \<noteq> textBytes ''vaa_body'' @ PAYER @ be_bytes 8 1"
  using unverifiedMessage_seed [of 1 PAYER] by (simp add: PAYER_def textBytes_def)

text \<open>The digest of a transfer's arguments is of the bytes the program hashes.\<close>

lemma sessionDigest_eq:
  "tg_amount args < 2 ^ 64 \<Longrightarrow> sessionDigest keys args = Inr (sk_keccak256 keys
     (be_bytes 8 (tg_amount args) @ chainIdBytes (tg_recipientChain args) @ tg_recipientAddress args @
      [if tg_shouldQueue args then 1 else 0]))"
  by (simp add: sessionDigest_def zpad_bnArray andThen_def)

lemma sessionDigest_large: "2 ^ 64 \<le> tg_amount args \<Longrightarrow> \<exists>e. sessionDigest keys args = Inl e"
  using zpad_bnArray_large [of "tg_amount args"] by (auto simp: sessionDigest_def andThen_def)

end
