(* ===== verification/Solana_Instructions.thy ===== *)
theory Solana_Instructions
  imports Solana_Accounts Js_Generators
begin

text \<open>
  The instructions of the manager, \<open>solana/ts/lib/ntt.ts\<close> and \<open>bindings.ts\<close>. An instruction that Anchor builds from the
  interface of a program (the generated IDL) is kept as the method called, its arguments and the accounts
  named in the call, with the list of keys Anchor makes of them; a nested account has a dotted name. What is
  read from the node depends on the world \<open>'w\<close>, which delivered transactions and waiting change.
\<close>

section \<open>Instructions and transactions\<close>

datatype sol_arg =
    ArgNum int | ArgBool bool | ArgBytes bytes | ArgName string | ArgRecord "(string \<times> sol_arg) list"
  | ArgList "sol_arg list"

type_synonym named_accounts = "(string \<times> pubkey option) list"

datatype sol_ix =
    Anchor (ix_program: pubkey) (ix_method: string) (ix_args: "sol_arg list") (ix_accounts: named_accounts)
      (ix_keys: "sol_meta list")
  | Approve pubkey pubkey pubkey nat pubkey
  | CreateAta bool pubkey pubkey pubkey pubkey pubkey
  | SystemTransfer pubkey pubkey nat
  | SyncNative pubkey
  | TransferChecked pubkey pubkey pubkey pubkey nat nat pubkey

record sol_lut =
  lt_key :: pubkey
  lt_addresses :: "pubkey list"

text \<open>A transaction with its lookup tables; the size limit of a transaction is not modelled.\<close>

record sol_tx =
  sx_payer :: pubkey
  sx_instructions :: "sol_ix list"
  sx_signers :: "pubkey list"
  sx_luts :: "sol_lut list"
  sx_title :: string

record sol_program =
  pg_id :: pubkey
  pg_idl :: string
  pg_version :: string

datatype sol_error =
    SolThrown string
  | SolUtil sol_util_error
  | SolAbi abi_error
  | SolPaused
  | NoNttContractsOnSolana
  | SolNetworkMismatch string string
  | UnsupportedSolTransceiver string
  | NoPostMessageShim | NoVerifyVaaShim
  | InvalidAttestationPayload
  | MissingGuardianSignatures
  | BadChunks
  | NoTransceiverTypeFound
  | MissingWormholeMessage
  | SolNotImplemented
  | NoMintAccount
  | SolTransceiverNotFound
  | AutomaticUnsupported
  | NotNativeMint
  | NotEnoughAttestations
  | InvalidPayloadName
  | LutMissing | LutNotFetched | LutPointerMissing
  | VersionNotFetched
  | MissingRequiredAccount
  | WordRange int

section \<open>What is read and computed outside\<close>

record sol_config =
  cf_owner :: pubkey
  cf_mint :: pubkey
  cf_tokenProgram :: pubkey
  cf_custody :: pubkey
  cf_locking :: bool
  cf_paused :: bool
  cf_threshold :: int

datatype sol_release = SolNotApproved | SolReleaseAfter nat | SolReleased

record sol_inbox_item =
  si_init :: bool
  si_recipientAddress :: pubkey
  si_amount :: nat
  si_releaseStatus :: sol_release

record sol_mint =
  mi_mintAuthority :: "pubkey option"
  mi_transferHook :: "pubkey option"
  mi_decimals :: nat

record wormhole_accounts =
  wa_bridge :: pubkey
  wa_feeCollector :: pubkey
  wa_sequence :: pubkey
  wa_emitter :: pubkey

record 'p sol_message =
  ms_id :: bytes
  ms_recipientAddress :: bytes
  ms_rest :: 'p

record 'p sol_vaa =
  va_payloadName :: string
  va_emitterChain :: string
  va_guardianSet :: nat
  va_signatures :: "(nat \<times> bytes) list"
  va_hash :: bytes
  va_serialized :: bytes
  va_message :: "'p sol_message"

text \<open>
  The keys of \<open>sv_known\<close> are constants of the packages: \<open>system\<close>, \<open>associatedToken\<close>, \<open>loader\<close>, \<open>lutProgram\<close>,
  \<open>nativeMint\<close>, \<open>tokenProgram\<close>, \<open>clock\<close>, \<open>rent\<close>. A fetch of an account that is not there fails or gives nothing.
\<close>

record ('w, 'p) sol_env =
  sv_keys :: "'p sol_message sol_keys"
  sv_known :: "string \<Rightarrow> pubkey"
  sv_publicKey :: "string \<Rightarrow> string + pubkey"
  sv_toBase58 :: "pubkey \<Rightarrow> string"
  sv_toChain :: "nat \<Rightarrow> string + string"
  sv_anchor :: "sol_program \<Rightarrow> string \<Rightarrow> sol_arg list \<Rightarrow> named_accounts \<Rightarrow> string + sol_meta list"
  sv_ata :: "pubkey \<Rightarrow> pubkey \<Rightarrow> pubkey \<Rightarrow> pubkey"
  sv_wormholeAccounts :: "pubkey \<Rightarrow> string \<Rightarrow> wormhole_accounts"
  sv_extraMetaAddress :: "pubkey \<Rightarrow> pubkey \<Rightarrow> pubkey"
  sv_createLookupTable :: "pubkey \<Rightarrow> pubkey \<Rightarrow> int \<Rightarrow> pubkey"
  sv_toUniversal :: "string \<Rightarrow> bytes \<Rightarrow> string + bytes"
  sv_toUniversalText :: "string \<Rightarrow> string \<Rightarrow> string + bytes"
  sv_endpoint :: string
  sv_devnetEndpoint :: string
  sv_config :: "'w \<Rightarrow> pubkey \<Rightarrow> string + sol_config"
  sv_inboxItem :: "'w \<Rightarrow> pubkey \<Rightarrow> string + sol_inbox_item"
  sv_rateLimit :: "'w \<Rightarrow> pubkey \<Rightarrow> string + nat \<times> nat"
  sv_peer :: "'w \<Rightarrow> pubkey \<Rightarrow> string + (bytes \<times> nat) option"
  sv_transceiverPeer :: "'w \<Rightarrow> pubkey \<Rightarrow> string + bytes option"
  sv_mint :: "'w \<Rightarrow> pubkey \<Rightarrow> pubkey \<Rightarrow> string + sol_mint"
  sv_accountOwner :: "'w \<Rightarrow> pubkey \<Rightarrow> string + pubkey option"
  sv_extraMetas :: "'w \<Rightarrow> pubkey \<Rightarrow> string + bytes list option"
  sv_resolveExtraMeta :: "'w \<Rightarrow> bytes \<Rightarrow> sol_meta list \<Rightarrow> pubkey \<Rightarrow> string + sol_meta"
  sv_lutPointer :: "'w \<Rightarrow> pubkey \<Rightarrow> string + pubkey option"
  sv_lookupTable :: "'w \<Rightarrow> pubkey \<Rightarrow> string + sol_lut option"
  sv_slot :: "'w \<Rightarrow> string + int"
  sv_blockhash :: "'w \<Rightarrow> string + string"
  sv_simulate :: "'w \<Rightarrow> pubkey \<Rightarrow> sol_ix \<Rightarrow> string + bytes option \<times> bool"
  sv_minimumRent :: "'w \<Rightarrow> string + nat"
  sv_tokenDecimals :: "'w \<Rightarrow> pubkey \<Rightarrow> string + nat"
  sv_postedVaa :: "string \<Rightarrow> bytes \<Rightarrow> pubkey"
  sv_postVaa :: "pubkey \<Rightarrow> 'p sol_vaa \<Rightarrow> 'w \<Rightarrow> sol_tx list \<times> (string + unit) \<times> 'w"
  sv_deliver :: "sol_tx \<Rightarrow> 'w \<Rightarrow> 'w"
  sv_wait :: "'w \<Rightarrow> 'w"

definition thrownV :: "string + 'a \<Rightarrow> sol_error + 'a" where
  "thrownV x = (case x of Inl e \<Rightarrow> Inl (SolThrown e) | Inr v \<Rightarrow> Inr v)"

definition utilV :: "sol_util_error + 'a \<Rightarrow> sol_error + 'a" where
  "utilV x = (case x of Inl e \<Rightarrow> Inl (SolUtil e) | Inr v \<Rightarrow> Inr v)"

lemma thrownV_eq_Inr [simp]: "thrownV x = Inr v \<longleftrightarrow> x = Inr v"
  by (auto simp: thrownV_def split: sum.splits)

lemma utilV_eq_Inr [simp]: "utilV x = Inr v \<longleftrightarrow> x = Inr v"
  by (auto simp: utilV_def split: sum.splits)

definition pdaIn :: "('w, 'p) sol_env \<Rightarrow> sol_program \<Rightarrow> pda \<Rightarrow> pubkey" where
  "pdaIn env program a = pdaOf (sv_keys env) (pg_id program) a"

definition peerAccountOf :: "('w, 'p) sol_env \<Rightarrow> sol_program \<Rightarrow> string \<Rightarrow> pubkey" where
  "peerAccountOf env program chain = pdaIn env program (PeerAccount (sk_toChainId (sv_keys env) chain))"

definition inboxRateLimitOf :: "('w, 'p) sol_env \<Rightarrow> sol_program \<Rightarrow> string \<Rightarrow> pubkey" where
  "inboxRateLimitOf env program chain = pdaIn env program (InboxRateLimitAccount (sk_toChainId (sv_keys env) chain))"

definition inboxItemOf :: "('w, 'p) sol_env \<Rightarrow> sol_program \<Rightarrow> string \<Rightarrow> 'p sol_message \<Rightarrow> pubkey" where
  "inboxItemOf env program chain nttMessage = inboxItemAccount (sv_keys env) (pg_id program) chain nttMessage"

definition anchorIx :: "('w, 'p) sol_env \<Rightarrow> sol_program \<Rightarrow> string \<Rightarrow> sol_arg list \<Rightarrow> named_accounts \<Rightarrow> sol_error + sol_ix" where
  "anchorIx env program method args accounts =
     andThen (thrownV (sv_anchor env program method args accounts)) (\<lambda>keys.
     Inr (Anchor (pg_id program) method args accounts keys))"

lemma anchorIx_eq_Inr:
  "anchorIx env program method args accounts = Inr ix \<longleftrightarrow>
     (\<exists>keys. sv_anchor env program method args accounts = Inr keys \<and> ix = Anchor (pg_id program) method args accounts keys)"
  by (auto simp: anchorIx_def andThen_eq_Inr)

section \<open>Versions (\<open>bindings.ts\<close>, \<open>getVersion\<close>)\<close>

definition IdlVersions :: "string list" where
  "IdlVersions = [''3.0.0'', ''2.0.0'', ''1.0.0'']"

definition loadIdlVersion :: "string \<Rightarrow> sol_error + string" where
  "loadIdlVersion targetVersion =
     (case loadAbiVersion (map (\<lambda>v. (v, v)) IdlVersions) targetVersion of Inl e \<Rightarrow> Inl (SolAbi e) | Inr v \<Rightarrow> Inr v)"

definition getNttProgram :: "('w, 'p) sol_env \<Rightarrow> string \<Rightarrow> string \<Rightarrow> sol_error + sol_program" where
  "getNttProgram env address version =
     andThen (loadIdlVersion version) (\<lambda>idl.
     andThen (thrownV (sv_publicKey env address)) (\<lambda>key. Inr \<lparr>pg_id = key, pg_idl = ''ntt'', pg_version = idl\<rparr>))"

definition getTransceiverProgram :: "('w, 'p) sol_env \<Rightarrow> string \<Rightarrow> string \<Rightarrow> bool \<Rightarrow> sol_error + sol_program" where
  "getTransceiverProgram env address version useLegacy =
     andThen (loadIdlVersion version) (\<lambda>idl.
     andThen (thrownV (sv_publicKey env address)) (\<lambda>key.
     Inr \<lparr>pg_id = key, pg_idl = (if useLegacy then ''transceiverLegacy'' else ''transceiver''), pg_version = idl\<rparr>))"

definition majorOf :: "string \<Rightarrow> sol_error + js_number" where
  "majorOf version = andThen (utilV (parseSolVersion version)) (\<lambda>(major, _). Inr major)"

text \<open>The account that pays for a simulation.\<close>

definition simulationSender :: "('w, 'p) sol_env \<Rightarrow> string" where
  "simulationSender env =
     (if sv_endpoint env = sv_devnetEndpoint env then ''6sbzC1eH4FTujJXWj51eQe25cYvr4xfXbJ1vAj7j2k5J''
      else if startsWith (sv_endpoint env) ''http://localhost'' then ''98evdAiWr7ey9MAQzoQQMwFQkTsSR6KkWQuFqKrgwNwb''
      else ''Hk3SdYTJFpawrvRz4qRztuEt2SqoCG7BGj2yJfDJSFbJ'')"

text \<open>The version is a text behind a length of 4 bytes, which is not checked.\<close>

definition getSolVersion :: "('w, 'p) sol_env \<Rightarrow> string \<Rightarrow> pubkey option \<Rightarrow> 'w \<Rightarrow> sol_error + string" where
  "getSolVersion env programId sender w =
     andThen (case sender of Some s \<Rightarrow> Inr s | None \<Rightarrow> thrownV (sv_publicKey env (simulationSender env))) (\<lambda>payer.
     andThen (getNttProgram env programId ''1.0.0'') (\<lambda>program.
     andThen (anchorIx env program ''version'' [] []) (\<lambda>ix.
     andThen (thrownV (sv_blockhash env w)) (\<lambda>_.
     andThen (thrownV (sv_simulate env w payer ix)) (\<lambda>(returnData, failed).
     case (if failed then None else returnData) of
       None \<Rightarrow> Inl VersionNotFetched
     | Some returned \<Rightarrow>
         if length returned < 4 then Inl (SolThrown ''layout'')
         else loadIdlVersion (map (\<lambda>b. char_of (unat b)) (drop 4 returned)))))))"

section \<open>Accounts of a transfer hook\<close>

text \<open>An account that is added gets no right that none of the accounts before it with the same key has.\<close>

definition deEscalateAccountMeta :: "sol_meta \<Rightarrow> sol_meta list \<Rightarrow> sol_meta" where
  "deEscalateAccountMeta accountMeta accountMetas =
     (let same = filter (\<lambda>x. am_pubkey x = am_pubkey accountMeta) accountMetas in
      if same = [] then accountMeta
      else accountMeta\<lparr>am_isSigner := (list_ex am_isSigner same \<and> am_isSigner accountMeta),
                       am_isWritable := (list_ex am_isWritable same \<and> am_isWritable accountMeta)\<rparr>)"

fun resolveExtraMetas :: "('w, 'p) sol_env \<Rightarrow> 'w \<Rightarrow> pubkey \<Rightarrow> bytes list \<Rightarrow> sol_meta list \<Rightarrow> sol_error + sol_meta list" where
  "resolveExtraMetas env w programId [] keys = Inr keys"
| "resolveExtraMetas env w programId (extraAccountMeta # rest) keys =
     andThen (thrownV (sv_resolveExtraMeta env w extraAccountMeta keys programId)) (\<lambda>meta.
     resolveExtraMetas env w programId rest (keys @ [deEscalateAccountMeta meta keys]))"

definition readOnly :: "pubkey \<Rightarrow> sol_meta" where
  "readOnly key = \<lparr>am_pubkey = key, am_isSigner = False, am_isWritable = False\<rparr>"

fun addKeys :: "sol_ix \<Rightarrow> sol_meta list \<Rightarrow> sol_ix" where
  "addKeys (Anchor program method args accounts keys) metas = Anchor program method args accounts (keys @ metas)"
| "addKeys ix metas = ix"

fun metasOf :: "sol_ix \<Rightarrow> sol_meta list" where
  "metasOf (Anchor program method args accounts keys) = keys"
| "metasOf _ = []"

definition addExtraAccountMetasForExecute :: "('w, 'p) sol_env \<Rightarrow> 'w \<Rightarrow> sol_ix \<Rightarrow> pubkey \<Rightarrow> pubkey \<Rightarrow> pubkey \<Rightarrow> pubkey \<Rightarrow> pubkey
    \<Rightarrow> sol_error + sol_ix" where
  "addExtraAccountMetasForExecute env w ix programId source mint destination owner =
     (let validateStatePubkey = sv_extraMetaAddress env mint programId in
      andThen (thrownV (sv_extraMetas env w validateStatePubkey)) (\<lambda>validateStateAccount.
      case validateStateAccount of
        None \<Rightarrow> Inr ix
      | Some validateStateData \<Rightarrow>
          if \<not> list_all (\<lambda>key. list_ex (\<lambda>meta. am_pubkey meta = key) (metasOf ix)) [source, mint, destination, owner]
          then Inl MissingRequiredAccount
          else andThen (resolveExtraMetas env w programId validateStateData
                 (map readOnly [source, mint, destination, owner, validateStatePubkey])) (\<lambda>keys.
               Inr (addKeys ix (drop 5 keys @ [readOnly programId, readOnly validateStatePubkey])))))"

text \<open>The accounts of the mint's hook, if it has one.\<close>

definition withTransferHook :: "('w, 'p) sol_env \<Rightarrow> 'w \<Rightarrow> sol_mint \<Rightarrow> sol_ix \<Rightarrow> pubkey \<Rightarrow> pubkey \<Rightarrow> pubkey \<Rightarrow> pubkey
    \<Rightarrow> sol_error + sol_ix" where
  "withTransferHook env w mintInfo ix source mint destination owner =
     (case mi_transferHook mintInfo of
        None \<Rightarrow> Inr ix
      | Some programId \<Rightarrow> addExtraAccountMetasForExecute env w ix programId source mint destination owner)"

text \<open>
  What a hook adds never gives its program more than the transfer needs: an added account that is the source, the
  mint, the destination, the owner or the list of extra accounts is neither a signer nor writable.
\<close>

lemma resolveExtraMetas_rights:
  assumes "resolveExtraMetas env w programId extras keys = Inr result"
    and "\<forall>m \<in> set keys. am_pubkey m = key \<longrightarrow> \<not> am_isSigner m \<and> \<not> am_isWritable m"
    and "\<exists>m \<in> set keys. am_pubkey m = key"
  shows "\<forall>m \<in> set result. am_pubkey m = key \<longrightarrow> \<not> am_isSigner m \<and> \<not> am_isWritable m"
  using assms
proof (induction extras arbitrary: keys)
  case (Cons extra extras)
  then obtain meta where run: "resolveExtraMetas env w programId extras (keys @ [deEscalateAccountMeta meta keys]) = Inr result"
    by (auto simp: andThen_eq_Inr)
  have key: "am_pubkey (deEscalateAccountMeta meta keys) = am_pubkey meta"
    by (simp add: deEscalateAccountMeta_def Let_def)
  have "am_pubkey meta = key \<Longrightarrow> filter (\<lambda>x. am_pubkey x = am_pubkey meta) keys \<noteq> []"
    using Cons.prems(3) by (auto simp: filter_empty_conv)
  then have "am_pubkey meta = key \<Longrightarrow> \<not> am_isSigner (deEscalateAccountMeta meta keys) \<and>
      \<not> am_isWritable (deEscalateAccountMeta meta keys)"
    using Cons.prems(2) by (auto simp: deEscalateAccountMeta_def Let_def list_ex_iff)
  with Cons.prems(2,3) key show ?case by (intro Cons.IH [OF run]) auto
qed simp

lemma extraAccounts_rights:
  assumes "addExtraAccountMetasForExecute env w ix programId source mint destination owner = Inr ix'"
    and "key \<in> {source, mint, destination, owner, sv_extraMetaAddress env mint programId}"
  shows "\<exists>added. metasOf ix' = metasOf ix @ added \<and>
     (\<forall>m \<in> set added. am_pubkey m = key \<longrightarrow> \<not> am_isSigner m \<and> \<not> am_isWritable m)"
proof (cases "metasOf ix' = metasOf ix")
  case True
  then show ?thesis by auto
next
  case False
  let ?base = "map readOnly [source, mint, destination, owner, sv_extraMetaAddress env mint programId]"
  obtain extras keys where run: "resolveExtraMetas env w programId extras ?base = Inr keys"
    and ix': "ix' = addKeys ix (drop 5 keys @ [readOnly programId, readOnly (sv_extraMetaAddress env mint programId)])"
    using assms(1) False by (auto simp: addExtraAccountMetasForExecute_def Let_def andThen_eq_Inr split: option.splits if_splits)
  have "\<forall>m \<in> set keys. am_pubkey m = key \<longrightarrow> \<not> am_isSigner m \<and> \<not> am_isWritable m"
    by (rule resolveExtraMetas_rights [OF run]) (use assms(2) in \<open>auto simp: readOnly_def\<close>)
  then have "\<forall>m \<in> set (drop 5 keys @ [readOnly programId, readOnly (sv_extraMetaAddress env mint programId)]).
      am_pubkey m = key \<longrightarrow> \<not> am_isSigner m \<and> \<not> am_isWritable m"
    by (auto simp: readOnly_def dest: in_set_dropD)
  moreover have "metasOf ix' = metasOf ix @ drop 5 keys @ [readOnly programId, readOnly (sv_extraMetaAddress env mint programId)]"
    using ix' False by (cases ix) simp_all
  ultimately show ?thesis by blast
qed

section \<open>Set-up\<close>

definition custodyAccountAddress :: "('w, 'p) sol_env \<Rightarrow> sol_program \<Rightarrow> pubkey \<Rightarrow> pubkey \<Rightarrow> pubkey" where
  "custodyAccountAddress env program mint tokenProgram = sv_ata env mint (pdaIn env program TokenAuthority) tokenProgram"

definition programData :: "('w, 'p) sol_env \<Rightarrow> sol_program \<Rightarrow> pubkey" where
  "programData env program = programDataAddress (sv_keys env) (sv_known env ''loader'') (pg_id program)"

text \<open>From version 3 the accounts name a multisig that holds the token authority.\<close>

definition multisigAccounts :: "sol_program \<Rightarrow> pubkey option \<Rightarrow> sol_error + named_accounts" where
  "multisigAccounts program multisig =
     andThen (majorOf (pg_version program)) (\<lambda>major.
     Inr (if numLe (jsInt 3) major then [(''multisigTokenAuthority'', multisig)] else []))"

definition createInitializeInstruction :: "('w, 'p) sol_env \<Rightarrow> sol_program \<Rightarrow> pubkey \<Rightarrow> pubkey \<Rightarrow> string \<Rightarrow> pubkey \<Rightarrow> int
    \<Rightarrow> pubkey \<Rightarrow> bool \<Rightarrow> pubkey option \<Rightarrow> sol_error + sol_ix" where
  "createInitializeInstruction env program payer owner chain mint outboundLimit tokenProgram burning multisig =
     andThen (multisigAccounts program multisig) (\<lambda>multisigNamed.
     anchorIx env program ''initialize''
       [ArgRecord [(''chainId'', ArgNum (int (sk_toChainId (sv_keys env) chain))), (''limit'', ArgNum outboundLimit),
         (''mode'', ArgName (if burning then ''burning'' else ''locking''))]]
       ([(''payer'', Some payer), (''deployer'', Some owner), (''programData'', Some (programData env program)),
         (''config'', Some (pdaIn env program ConfigAccount)), (''mint'', Some mint),
         (''rateLimit'', Some (pdaIn env program OutboxRateLimitAccount)), (''tokenProgram'', Some tokenProgram),
         (''tokenAuthority'', Some (pdaIn env program TokenAuthority))] @ multisigNamed @
        [(''custody'', Some (custodyAccountAddress env program mint tokenProgram)),
         (''bpfLoaderUpgradeableProgram'', Some (sv_known env ''loader'')),
         (''associatedTokenProgram'', Some (sv_known env ''associatedToken'')),
         (''systemProgram'', Some (sv_known env ''system''))]))"

text \<open>The keys a lookup table should have, in the order of the entries.\<close>

definition lutEntries :: "('w, 'p) sol_env \<Rightarrow> sol_program \<Rightarrow> sol_config \<Rightarrow> pubkey \<Rightarrow> pubkey \<Rightarrow> named_accounts" where
  "lutEntries env program config whTransceiver wormholeId =
     (let whAccs = sv_wormholeAccounts env whTransceiver (sv_toBase58 env wormholeId) in
      [(''entries.config'', Some (pdaIn env program ConfigAccount)), (''entries.custody'', Some (cf_custody config)),
       (''entries.tokenProgram'', Some (cf_tokenProgram config)), (''entries.mint'', Some (cf_mint config)),
       (''entries.tokenAuthority'', Some (pdaIn env program TokenAuthority)),
       (''entries.outboxRateLimit'', Some (pdaIn env program OutboxRateLimitAccount)),
       (''entries.wormhole.bridge'', Some (wa_bridge whAccs)), (''entries.wormhole.feeCollector'', Some (wa_feeCollector whAccs)),
       (''entries.wormhole.sequence'', Some (wa_sequence whAccs)), (''entries.wormhole.program'', Some wormholeId),
       (''entries.wormhole.systemProgram'', Some (sv_known env ''system'')), (''entries.wormhole.clock'', Some (sv_known env ''clock'')),
       (''entries.wormhole.rent'', Some (sv_known env ''rent''))])"

definition collectPubkeys :: "named_accounts \<Rightarrow> pubkey list" where
  "collectPubkeys entries = List.map_filter snd entries"

definition getAddressLookupTable :: "('w, 'p) sol_env \<Rightarrow> sol_program \<Rightarrow> 'w \<Rightarrow> sol_error + sol_lut option" where
  "getAddressLookupTable env program w =
     andThen (majorOf (pg_version program)) (\<lambda>major.
     if ltInt major 2 then Inr None
     else andThen (thrownV (sv_lutPointer env w (pdaIn env program LutAccount))) (\<lambda>lut.
          case lut of
            None \<Rightarrow> Inr None
          | Some address \<Rightarrow>
              andThen (thrownV (sv_lookupTable env w address)) (\<lambda>response.
              case response of None \<Rightarrow> Inl LutNotFetched | Some table \<Rightarrow> Inr (Some table))))"

text \<open>\<open>None\<close> when there is nothing to do.\<close>

definition initializeOrUpdateLUT :: "('w, 'p) sol_env \<Rightarrow> sol_program \<Rightarrow> sol_config \<Rightarrow> pubkey \<Rightarrow> pubkey \<Rightarrow> pubkey \<Rightarrow> pubkey \<Rightarrow> 'w
    \<Rightarrow> sol_error + sol_ix option" where
  "initializeOrUpdateLUT env program config whTransceiver payer owner wormholeId w =
     andThen (majorOf (pg_version program)) (\<lambda>major.
     if ltInt major 2 then Inr None
     else andThen (thrownV (sv_slot env w)) (\<lambda>currentSlot.
          let slot = currentSlot - 1;
              lutAddress = sv_createLookupTable env (pdaIn env program LutAuthority) payer slot;
              entries = lutEntries env program config whTransceiver wormholeId
          in andThen (getAddressLookupTable env program w) (\<lambda>existingLut.
             if (case existingLut of None \<Rightarrow> False
                 | Some table \<Rightarrow> filter (\<lambda>pk. pk \<notin> set (lt_addresses table)) (collectPubkeys entries) = [])
             then Inr None
             else andThen (anchorIx env program ''initializeLut'' [ArgNum slot]
                    ([(''payer'', Some payer), (''owner'', Some owner), (''authority'', Some (pdaIn env program LutAuthority)),
                      (''lutAddress'', Some lutAddress), (''lut'', Some (pdaIn env program LutAccount)),
                      (''lutProgram'', Some (sv_known env ''lutProgram'')), (''systemProgram'', Some (sv_known env ''system''))] @
                     entries)) (\<lambda>ix. Inr (Some ix)))))"

text \<open>\<open>NTT.getConfig\<close> and \<open>NTT.getInboxItem\<close>.\<close>

definition fetchConfig :: "('w, 'p) sol_env \<Rightarrow> sol_program \<Rightarrow> 'w \<Rightarrow> sol_error + sol_config" where
  "fetchConfig env program w = thrownV (sv_config env w (pdaIn env program ConfigAccount))"

definition fetchInboxItem :: "('w, 'p) sol_env \<Rightarrow> sol_program \<Rightarrow> string \<Rightarrow> 'p sol_message \<Rightarrow> 'w \<Rightarrow> sol_error + sol_inbox_item" where
  "fetchInboxItem env program fromChain nttMessage w =
     thrownV (sv_inboxItem env w (inboxItemOf env program fromChain nttMessage))"

section \<open>Sending\<close>

definition transferArgs :: "('w, 'p) sol_env \<Rightarrow> nat \<Rightarrow> string \<times> bytes \<Rightarrow> bool \<Rightarrow> transfer_args" where
  "transferArgs env amount recipient shouldQueue =
     \<lparr>tg_amount = amount, tg_recipientChain = sk_toChainId (sv_keys env) (fst recipient), tg_recipientAddress = snd recipient,
      tg_shouldQueue = shouldQueue\<rparr>"

definition transferArgsArg :: "transfer_args \<Rightarrow> sol_arg" where
  "transferArgsArg args =
     ArgRecord [(''amount'', ArgNum (int (tg_amount args))),
       (''recipientChain'', ArgRecord [(''id'', ArgNum (int (tg_recipientChain args)))]),
       (''recipientAddress'', ArgBytes (tg_recipientAddress args)), (''shouldQueue'', ArgBool (tg_shouldQueue args))]"

record tx_args =
  ta_payer :: pubkey
  ta_from :: pubkey
  ta_fromAuthority :: pubkey
  ta_transferArgs :: transfer_args
  ta_outboxItem :: pubkey

definition custodyOf :: "('w, 'p) sol_env \<Rightarrow> sol_program \<Rightarrow> sol_config \<Rightarrow> pubkey" where
  "custodyOf env program config = custodyAccountAddress env program (cf_mint config) (cf_tokenProgram config)"

definition mintInfoOf :: "('w, 'p) sol_env \<Rightarrow> 'w \<Rightarrow> sol_config \<Rightarrow> sol_error + sol_mint" where
  "mintInfoOf env w config = thrownV (sv_mint env w (cf_mint config) (cf_tokenProgram config))"

definition transferCommon :: "('w, 'p) sol_env \<Rightarrow> sol_program \<Rightarrow> sol_config \<Rightarrow> tx_args \<Rightarrow> named_accounts" where
  "transferCommon env program config args =
     [(''common.payer'', Some (ta_payer args)), (''common.config.config'', Some (pdaIn env program ConfigAccount)),
      (''common.mint'', Some (cf_mint config)), (''common.from'', Some (ta_from args)),
      (''common.tokenProgram'', Some (cf_tokenProgram config)), (''common.outboxItem'', Some (ta_outboxItem args)),
      (''common.outboxRateLimit'', Some (pdaIn env program OutboxRateLimitAccount)),
      (''common.systemProgram'', Some (sv_known env ''system'')), (''common.custody'', Some (custodyOf env program config))]"

text \<open>The key a transfer's arguments delegate to.\<close>

definition sessionAuthorityOf :: "('w, 'p) sol_env \<Rightarrow> sol_program \<Rightarrow> pubkey \<Rightarrow> transfer_args \<Rightarrow> sol_error + pubkey" where
  "sessionAuthorityOf env program sender args = utilV (sessionAuthority (sv_keys env) (pg_id program) sender args)"

definition createTransferBurnInstruction :: "('w, 'p) sol_env \<Rightarrow> sol_program \<Rightarrow> sol_config \<Rightarrow> tx_args \<Rightarrow> 'w \<Rightarrow> sol_error + sol_ix" where
  "createTransferBurnInstruction env program config args w =
     (let custody = custodyOf env program config in
      andThen (thrownV (sv_toChain env (tg_recipientChain (ta_transferArgs args)))) (\<lambda>recipientChain.
      andThen (sessionAuthorityOf env program (ta_fromAuthority args) (ta_transferArgs args)) (\<lambda>authority.
      andThen (anchorIx env program ''transferBurn'' [transferArgsArg (ta_transferArgs args)]
        (transferCommon env program config args @
         [(''peer'', Some (peerAccountOf env program recipientChain)),
          (''inboxRateLimit'', Some (inboxRateLimitOf env program recipientChain)),
          (''sessionAuthority'', Some authority), (''tokenAuthority'', Some (pdaIn env program TokenAuthority))])) (\<lambda>transferIx.
      andThen (mintInfoOf env w config) (\<lambda>mintInfo.
      withTransferHook env w mintInfo transferIx (ta_from args) (cf_mint config) custody authority)))))"

definition createTransferLockInstruction :: "('w, 'p) sol_env \<Rightarrow> sol_program \<Rightarrow> sol_config \<Rightarrow> tx_args \<Rightarrow> 'w \<Rightarrow> sol_error + sol_ix" where
  "createTransferLockInstruction env program config args w =
     (if cf_paused config then Inl SolPaused
      else let custody = custodyOf env program config in
      andThen (thrownV (sv_toChain env (tg_recipientChain (ta_transferArgs args)))) (\<lambda>chain.
      andThen (sessionAuthorityOf env program (ta_fromAuthority args) (ta_transferArgs args)) (\<lambda>authority.
      andThen (anchorIx env program ''transferLock'' [transferArgsArg (ta_transferArgs args)]
        (transferCommon env program config args @
         [(''peer'', Some (peerAccountOf env program chain)), (''inboxRateLimit'', Some (inboxRateLimitOf env program chain)),
          (''sessionAuthority'', Some authority), (''custody'', Some custody)])) (\<lambda>transferIx.
      andThen (mintInfoOf env w config) (\<lambda>mintInfo.
      withTransferHook env w mintInfo transferIx (ta_from args) (cf_mint config) custody authority)))))"

section \<open>Receiving\<close>

record 'p release_args =
  re_payer :: pubkey
  re_chain :: string
  re_nttMessage :: "'p sol_message"
  re_revertWhenNotReady :: bool
  re_recipient :: "pubkey option"

text \<open>\<open>revertOnDelay\<close> is what programs below version 3 read, \<open>revertWhenNotReady\<close> what the others read.\<close>

definition releaseFlags :: "'p release_args \<Rightarrow> sol_arg" where
  "releaseFlags args = ArgRecord [(''revertOnDelay'', ArgBool (re_revertWhenNotReady args)),
     (''revertWhenNotReady'', ArgBool (re_revertWhenNotReady args))]"

definition recipientOf :: "('w, 'p) sol_env \<Rightarrow> sol_program \<Rightarrow> 'p release_args \<Rightarrow> 'w \<Rightarrow> sol_error + pubkey" where
  "recipientOf env program args w =
     (case re_recipient args of
        Some recipient \<Rightarrow> Inr recipient
      | None \<Rightarrow> andThen (fetchInboxItem env program (re_chain args) (re_nttMessage args) w)
                  (\<lambda>item. Inr (si_recipientAddress item)))"

definition recipientAccount :: "('w, 'p) sol_env \<Rightarrow> sol_config \<Rightarrow> pubkey \<Rightarrow> pubkey" where
  "recipientAccount env config recipientAddress = sv_ata env (cf_mint config) recipientAddress (cf_tokenProgram config)"

definition releaseCommon :: "('w, 'p) sol_env \<Rightarrow> sol_program \<Rightarrow> sol_config \<Rightarrow> 'p release_args \<Rightarrow> pubkey \<Rightarrow> named_accounts" where
  "releaseCommon env program config args recipientAddress =
     [(''common.payer'', Some (re_payer args)), (''common.config.config'', Some (pdaIn env program ConfigAccount)),
      (''common.inboxItem'', Some (inboxItemOf env program (re_chain args) (re_nttMessage args))),
      (''common.recipient'', Some (recipientAccount env config recipientAddress)), (''common.mint'', Some (cf_mint config)),
      (''common.tokenAuthority'', Some (pdaIn env program TokenAuthority)), (''common.tokenProgram'', Some (cf_tokenProgram config)),
      (''common.custody'', Some (custodyOf env program config))]"

text \<open>The multisig that may mint: the authority of the mint, unless that is the manager's own.\<close>

definition multisigOfMint :: "('w, 'p) sol_env \<Rightarrow> sol_program \<Rightarrow> sol_mint \<Rightarrow> pubkey option" where
  "multisigOfMint env program mintInfo =
     (if mi_mintAuthority mintInfo = Some (pdaIn env program TokenAuthority) then None else mi_mintAuthority mintInfo)"

definition createReleaseInboundMintInstruction :: "('w, 'p) sol_env \<Rightarrow> sol_program \<Rightarrow> sol_config \<Rightarrow> 'p release_args \<Rightarrow> 'w
    \<Rightarrow> sol_error + sol_ix" where
  "createReleaseInboundMintInstruction env program config args w =
     andThen (majorOf (pg_version program)) (\<lambda>_.
     andThen (mintInfoOf env w config) (\<lambda>mintInfo.
     andThen (recipientOf env program args w) (\<lambda>recipientAddress.
     andThen (multisigAccounts program (multisigOfMint env program mintInfo)) (\<lambda>multisig.
     andThen (anchorIx env program ''releaseInboundMint'' [releaseFlags args]
        (releaseCommon env program config args recipientAddress @ multisig)) (\<lambda>transferIx.
     withTransferHook env w mintInfo transferIx (custodyOf env program config) (cf_mint config)
       (recipientAccount env config recipientAddress) (pdaIn env program TokenAuthority))))))"

definition createReleaseInboundUnlockInstruction :: "('w, 'p) sol_env \<Rightarrow> sol_program \<Rightarrow> sol_config \<Rightarrow> 'p release_args \<Rightarrow> 'w
    \<Rightarrow> sol_error + sol_ix" where
  "createReleaseInboundUnlockInstruction env program config args w =
     andThen (recipientOf env program args w) (\<lambda>recipientAddress.
     andThen (anchorIx env program ''releaseInboundUnlock'' [releaseFlags args]
        (releaseCommon env program config args recipientAddress @ [(''custody'', Some (custodyOf env program config))]))
       (\<lambda>transferIx.
     andThen (mintInfoOf env w config) (\<lambda>mintInfo.
     withTransferHook env w mintInfo transferIx (custodyOf env program config) (cf_mint config)
       (recipientAccount env config recipientAddress) (pdaIn env program TokenAuthority))))"

definition createRedeemInstruction :: "('w, 'p) sol_env \<Rightarrow> sol_program \<Rightarrow> sol_config \<Rightarrow> sol_program \<Rightarrow> pubkey \<Rightarrow> 'p sol_vaa
    \<Rightarrow> sol_error + sol_ix" where
  "createRedeemInstruction env program config transceiver payer vaa =
     (let nttMessage = va_message vaa; chain = va_emitterChain vaa in
      anchorIx env program ''redeem'' [ArgRecord []]
        [(''payer'', Some payer), (''config'', Some (pdaIn env program ConfigAccount)), (''peer'', Some (peerAccountOf env program chain)),
         (''transceiverMessage'', Some (pdaIn env transceiver
            (TransceiverMessageAccount (sk_toChainId (sv_keys env) chain) (ms_id nttMessage)))),
         (''transceiver'', Some (pdaIn env program (RegisteredTransceiver (pg_id transceiver)))),
         (''mint'', Some (cf_mint config)), (''inboxItem'', Some (inboxItemOf env program chain nttMessage)),
         (''inboxRateLimit'', Some (inboxRateLimitOf env program chain)),
         (''outboxRateLimit'', Some (pdaIn env program OutboxRateLimitAccount))])"

section \<open>Administration\<close>

definition transferOwnershipAccounts :: "('w, 'p) sol_env \<Rightarrow> sol_program \<Rightarrow> pubkey \<Rightarrow> pubkey \<Rightarrow> named_accounts" where
  "transferOwnershipAccounts env program owner newOwner =
     [(''config'', Some (pdaIn env program ConfigAccount)), (''owner'', Some owner), (''newOwner'', Some newOwner),
      (''upgradeLock'', Some (pdaIn env program UpgradeLock)), (''programData'', Some (programData env program)),
      (''bpfLoaderUpgradeableProgram'', Some (sv_known env ''loader''))]"

definition createTransferOwnershipOneStepUncheckedInstruction :: "('w, 'p) sol_env \<Rightarrow> sol_program \<Rightarrow> pubkey \<Rightarrow> pubkey
    \<Rightarrow> sol_error + sol_ix" where
  "createTransferOwnershipOneStepUncheckedInstruction env program owner newOwner =
     anchorIx env program ''transferOwnershipOneStepUnchecked'' [] (transferOwnershipAccounts env program owner newOwner)"

definition createTransferOwnershipInstruction :: "('w, 'p) sol_env \<Rightarrow> sol_program \<Rightarrow> pubkey \<Rightarrow> pubkey \<Rightarrow> sol_error + sol_ix" where
  "createTransferOwnershipInstruction env program owner newOwner =
     anchorIx env program ''transferOwnership'' [] (transferOwnershipAccounts env program owner newOwner)"

definition createClaimOwnershipInstruction :: "('w, 'p) sol_env \<Rightarrow> sol_program \<Rightarrow> pubkey \<Rightarrow> sol_error + sol_ix" where
  "createClaimOwnershipInstruction env program newOwner =
     anchorIx env program ''claimOwnership'' []
       [(''config'', Some (pdaIn env program ConfigAccount)), (''newOwner'', Some newOwner),
        (''upgradeLock'', Some (pdaIn env program UpgradeLock)), (''programData'', Some (programData env program)),
        (''bpfLoaderUpgradeableProgram'', Some (sv_known env ''loader''))]"

text \<open>Additional signers of a multisig are appended to the keys of the instruction.\<close>

definition signerMeta :: "pubkey \<Rightarrow> sol_meta" where
  "signerMeta key = \<lparr>am_pubkey = key, am_isSigner = True, am_isWritable = False\<rparr>"

definition withSigners :: "pubkey list \<Rightarrow> sol_error + sol_ix \<Rightarrow> sol_error + sol_ix" where
  "withSigners additionalSigners ix = andThen ix (\<lambda>built. Inr (addKeys built (map signerMeta additionalSigners)))"

definition acceptCommon :: "('w, 'p) sol_env \<Rightarrow> sol_program \<Rightarrow> sol_config \<Rightarrow> pubkey option \<Rightarrow> named_accounts" where
  "acceptCommon env program config multisig =
     [(''common.config'', Some (pdaIn env program ConfigAccount)), (''common.mint'', Some (cf_mint config)),
      (''common.tokenProgram'', Some (cf_tokenProgram config)), (''common.tokenAuthority'', Some (pdaIn env program TokenAuthority)),
      (''common.multisigTokenAuthority'', multisig)]"

definition createAcceptTokenAuthorityInstruction :: "('w, 'p) sol_env \<Rightarrow> sol_program \<Rightarrow> sol_config \<Rightarrow> pubkey \<Rightarrow> pubkey option
    \<Rightarrow> sol_error + sol_ix" where
  "createAcceptTokenAuthorityInstruction env program config currentAuthority multisig =
     anchorIx env program ''acceptTokenAuthority'' []
       (acceptCommon env program config multisig @ [(''currentAuthority'', Some currentAuthority)])"

definition createAcceptTokenAuthorityFromMultisigInstruction :: "('w, 'p) sol_env \<Rightarrow> sol_program \<Rightarrow> sol_config \<Rightarrow> pubkey
    \<Rightarrow> pubkey list \<Rightarrow> pubkey option \<Rightarrow> sol_error + sol_ix" where
  "createAcceptTokenAuthorityFromMultisigInstruction env program config currentMultisigAuthority additionalSigners multisig =
     withSigners additionalSigners (anchorIx env program ''acceptTokenAuthorityFromMultisig'' []
       (acceptCommon env program config multisig @ [(''currentMultisigAuthority'', Some currentMultisigAuthority)]))"

definition setTokenCommon :: "('w, 'p) sol_env \<Rightarrow> sol_program \<Rightarrow> sol_config \<Rightarrow> pubkey \<Rightarrow> pubkey \<Rightarrow> pubkey option \<Rightarrow> named_accounts" where
  "setTokenCommon env program config owner newAuthority multisig =
     [(''common.config'', Some (pdaIn env program ConfigAccount)), (''common.tokenAuthority'', Some (pdaIn env program TokenAuthority)),
      (''common.mint'', Some (cf_mint config)), (''common.owner'', Some owner), (''common.newAuthority'', Some newAuthority),
      (''common.multisigTokenAuthority'', multisig)]"

definition createSetTokenAuthorityOneStepUncheckedInstruction :: "('w, 'p) sol_env \<Rightarrow> sol_program \<Rightarrow> sol_config \<Rightarrow> pubkey
    \<Rightarrow> pubkey \<Rightarrow> pubkey option \<Rightarrow> sol_error + sol_ix" where
  "createSetTokenAuthorityOneStepUncheckedInstruction env program config owner newAuthority multisig =
     anchorIx env program ''setTokenAuthorityOneStepUnchecked'' []
       (setTokenCommon env program config owner newAuthority multisig @ [(''tokenProgram'', Some (cf_tokenProgram config))])"

definition createSetTokenAuthorityInstruction :: "('w, 'p) sol_env \<Rightarrow> sol_program \<Rightarrow> sol_config \<Rightarrow> pubkey \<Rightarrow> pubkey \<Rightarrow> pubkey
    \<Rightarrow> pubkey option \<Rightarrow> sol_error + sol_ix" where
  "createSetTokenAuthorityInstruction env program config rentPayer owner newAuthority multisig =
     anchorIx env program ''setTokenAuthority'' []
       (setTokenCommon env program config owner newAuthority multisig @
        [(''rentPayer'', Some rentPayer), (''pendingTokenAuthority'', Some (pdaIn env program PendingTokenAuthority)),
         (''systemProgram'', Some (sv_known env ''system''))])"

definition claimCommon :: "('w, 'p) sol_env \<Rightarrow> sol_program \<Rightarrow> sol_config \<Rightarrow> pubkey \<Rightarrow> pubkey option \<Rightarrow> named_accounts" where
  "claimCommon env program config rentPayer multisig =
     [(''common.config'', Some (pdaIn env program ConfigAccount)), (''common.mint'', Some (cf_mint config)),
      (''common.tokenAuthority'', Some (pdaIn env program TokenAuthority)), (''common.tokenProgram'', Some (cf_tokenProgram config)),
      (''common.systemProgram'', Some (sv_known env ''system'')), (''common.rentPayer'', Some rentPayer),
      (''common.pendingTokenAuthority'', Some (pdaIn env program PendingTokenAuthority)),
      (''common.multisigTokenAuthority'', multisig)]"

definition createRevertTokenAuthorityInstruction :: "('w, 'p) sol_env \<Rightarrow> sol_program \<Rightarrow> sol_config \<Rightarrow> pubkey \<Rightarrow> pubkey
    \<Rightarrow> pubkey option \<Rightarrow> sol_error + sol_ix" where
  "createRevertTokenAuthorityInstruction env program config rentPayer owner multisig =
     anchorIx env program ''revertTokenAuthority'' [] (claimCommon env program config rentPayer multisig @ [(''owner'', Some owner)])"

definition createClaimTokenAuthorityInstruction :: "('w, 'p) sol_env \<Rightarrow> sol_program \<Rightarrow> sol_config \<Rightarrow> pubkey \<Rightarrow> pubkey
    \<Rightarrow> pubkey option \<Rightarrow> sol_error + sol_ix" where
  "createClaimTokenAuthorityInstruction env program config rentPayer newAuthority multisig =
     anchorIx env program ''claimTokenAuthority'' []
       (claimCommon env program config rentPayer multisig @ [(''newAuthority'', Some newAuthority)])"

definition createClaimTokenAuthorityToMultisigInstruction :: "('w, 'p) sol_env \<Rightarrow> sol_program \<Rightarrow> sol_config \<Rightarrow> pubkey \<Rightarrow> pubkey
    \<Rightarrow> pubkey list \<Rightarrow> pubkey option \<Rightarrow> sol_error + sol_ix" where
  "createClaimTokenAuthorityToMultisigInstruction env program config rentPayer newMultisigAuthority additionalSigners multisig =
     withSigners additionalSigners (anchorIx env program ''claimTokenAuthorityToMultisig'' []
       (claimCommon env program config rentPayer multisig @ [(''newMultisigAuthority'', Some newMultisigAuthority)]))"

definition createSetPeerInstruction :: "('w, 'p) sol_env \<Rightarrow> sol_program \<Rightarrow> pubkey \<Rightarrow> pubkey \<Rightarrow> string \<Rightarrow> bytes \<Rightarrow> nat \<Rightarrow> nat
    \<Rightarrow> sol_error + sol_ix" where
  "createSetPeerInstruction env program payer owner chain address limit tokenDecimals =
     anchorIx env program ''setPeer''
       [ArgRecord [(''chainId'', ArgRecord [(''id'', ArgNum (int (sk_toChainId (sv_keys env) chain)))]), (''address'', ArgBytes address),
         (''limit'', ArgNum (int limit)), (''tokenDecimals'', ArgNum (int tokenDecimals))]]
       [(''payer'', Some payer), (''owner'', Some owner), (''config'', Some (pdaIn env program ConfigAccount)),
        (''peer'', Some (peerAccountOf env program chain)), (''inboxRateLimit'', Some (inboxRateLimitOf env program chain))]"

definition ownerAccounts :: "('w, 'p) sol_env \<Rightarrow> sol_program \<Rightarrow> pubkey \<Rightarrow> named_accounts" where
  "ownerAccounts env program owner = [(''owner'', Some owner), (''config'', Some (pdaIn env program ConfigAccount))]"

definition createSetPausedInstruction :: "('w, 'p) sol_env \<Rightarrow> sol_program \<Rightarrow> pubkey \<Rightarrow> bool \<Rightarrow> sol_error + sol_ix" where
  "createSetPausedInstruction env program owner paused =
     anchorIx env program ''setPaused'' [ArgBool paused] (ownerAccounts env program owner)"

definition createSetThresholdInstruction :: "('w, 'p) sol_env \<Rightarrow> sol_program \<Rightarrow> pubkey \<Rightarrow> int \<Rightarrow> sol_error + sol_ix" where
  "createSetThresholdInstruction env program owner threshold =
     anchorIx env program ''setThreshold'' [ArgNum threshold] (ownerAccounts env program owner)"

definition createSetOutboundLimitInstruction :: "('w, 'p) sol_env \<Rightarrow> sol_program \<Rightarrow> pubkey \<Rightarrow> nat \<Rightarrow> sol_error + sol_ix" where
  "createSetOutboundLimitInstruction env program owner limit =
     anchorIx env program ''setOutboundLimit'' [ArgRecord [(''limit'', ArgNum (int limit))]]
       (ownerAccounts env program owner @ [(''rateLimit'', Some (pdaIn env program OutboxRateLimitAccount))])"

definition createSetInboundLimitInstruction :: "('w, 'p) sol_env \<Rightarrow> sol_program \<Rightarrow> pubkey \<Rightarrow> string \<Rightarrow> nat \<Rightarrow> sol_error + sol_ix" where
  "createSetInboundLimitInstruction env program owner chain limit =
     anchorIx env program ''setInboundLimit''
       [ArgRecord [(''chainId'', ArgRecord [(''id'', ArgNum (int (sk_toChainId (sv_keys env) chain)))]), (''limit'', ArgNum (int limit))]]
       (ownerAccounts env program owner @ [(''rateLimit'', Some (inboxRateLimitOf env program chain))])"

end
