(* ===== verification/Solana_Transceiver.thy ===== *)
theory Solana_Transceiver
  imports Solana_Instructions
begin

text \<open>
  The Wormhole transceiver, \<open>SolanaNttWormholeTransceiver\<close> of \<open>solana/ts/sdk/ntt.ts\<close>. A generator is a process on the
  world and the caches of the protocol object; the addresses given to it are keys, and keys it generates
  are arguments.
\<close>

section \<open>The protocol object\<close>

record sol_shims =
  sh_postMessageShimOverride :: "string option"
  sh_verifyVaaShimOverride :: "string option"

record sol_contracts =
  sn_manager :: string
  sn_token :: string
  sn_transceiver :: "(string \<times> string) list"
  sn_svmShims :: "sol_shims option"

record sol_ntt =
  so_network :: string
  so_chain :: string
  so_contracts :: sol_contracts
  so_version :: string
  so_program :: sol_program
  so_transceivers :: "sol_program list"
  so_core :: string
  so_coreProgram :: pubkey

text \<open>What the object remembers.\<close>

record sol_cache =
  ca_config :: "sol_config option"
  ca_lut :: "sol_lut option"

type_synonym ('w, 'a) sol_run = "('w \<times> sol_cache, sol_tx, sol_error, 'a) process"

definition readingW :: "('w \<Rightarrow> sol_error + 'a) \<Rightarrow> ('w, 'a) sol_run" where
  "readingW f = reading (\<lambda>(w, _). f w)"

definition yieldTx :: "('w, 'p) sol_env \<Rightarrow> sol_tx \<Rightarrow> ('w, unit) sol_run" where
  "yieldTx env tx = sending (\<lambda>tx (w, c). (sv_deliver env tx w, c)) tx"

definition solTx :: "pubkey \<Rightarrow> sol_ix list \<Rightarrow> pubkey list \<Rightarrow> sol_lut list \<Rightarrow> string \<Rightarrow> sol_tx" where
  "solTx payer ixs signers luts description =
     \<lparr>sx_payer = payer, sx_instructions = ixs, sx_signers = signers, sx_luts = luts, sx_title = description\<rparr>"

definition unsignedSol :: "('w, 'p) sol_env \<Rightarrow> pubkey \<Rightarrow> sol_ix list \<Rightarrow> pubkey list \<Rightarrow> sol_lut list \<Rightarrow> string \<Rightarrow> ('w, unit) sol_run" where
  "unsignedSol env payer ixs signers luts description = yieldTx env (solTx payer ixs signers luts description)"

lemma solTx_sel [simp]:
  "sx_payer (solTx payer ixs signers luts description) = payer" "sx_instructions (solTx payer ixs signers luts description) = ixs"
  "sx_signers (solTx payer ixs signers luts description) = signers" "sx_luts (solTx payer ixs signers luts description) = luts"
  "sx_title (solTx payer ixs signers luts description) = description"
  by (simp_all add: solTx_def)

lemma yieldTx_eq_Inr [process_simps]:
  "yieldTx env tx wc = (ys, Inr b, wc') \<longleftrightarrow> ys = [tx] \<and> wc' = (sv_deliver env tx (fst wc), snd wc)"
  by (cases wc) (auto simp: yieldTx_def process_simps)

lemma readingW_eq_Inr [process_simps]: "readingW f wc = (ys, Inr b, wc') \<longleftrightarrow> f (fst wc) = Inr b \<and> ys = [] \<and> wc' = wc"
  by (cases wc) (auto simp: readingW_def process_simps)

lemma unsignedSol_eq_Inr [process_simps]:
  "unsignedSol env payer ixs signers luts description wc = (ys, Inr b, wc') \<longleftrightarrow>
     ys = [solTx payer ixs signers luts description] \<and> wc' = (sv_deliver env (solTx payer ixs signers luts description) (fst wc), snd wc)"
  by (simp add: unsignedSol_def process_simps)

section \<open>The transceiver\<close>

definition DEFAULT_SVM_SHIM_ADDRESSES :: "(string \<times> string \<times> string) list" where
  "DEFAULT_SVM_SHIM_ADDRESSES =
     [(''Solana'', ''EtZMZM22ViKMo4r5y4Anovs3wKQ2owUmDpjygnMMcdEX'', ''EFaNWErqAtVWufdNb7yofSHHfWFos843DFpu4JBw24at''),
      (''Fogo'', ''EtZMZM22ViKMo4r5y4Anovs3wKQ2owUmDpjygnMMcdEX'', ''EFaNWErqAtVWufdNb7yofSHHfWFos843DFpu4JBw24at'')]"

record sol_xcvr =
  xc_program :: sol_program
  xc_version :: string
  xc_postMessageShim :: "sol_program option"
  xc_verifyVaaShim :: "sol_program option"

text \<open>The address of a shim: the one of the configuration, or the default of the chain; an empty one counts as none.\<close>

definition shimProgram :: "('w, 'p) sol_env \<Rightarrow> string \<Rightarrow> sol_error \<Rightarrow> string option \<Rightarrow> string option \<Rightarrow> sol_error + sol_program" where
  "shimProgram env idl missing override preset =
     (case (if override = None then preset else override) of
        None \<Rightarrow> Inl missing
      | Some address \<Rightarrow>
          if address = [] then Inl missing
          else andThen (thrownV (sv_publicKey env address)) (\<lambda>key. Inr \<lparr>pg_id = key, pg_idl = idl, pg_version = []\<rparr>))"

definition newSolXcvr :: "('w, 'p) sol_env \<Rightarrow> string \<Rightarrow> sol_program \<Rightarrow> string \<Rightarrow> sol_shims option \<Rightarrow> sol_error + sol_xcvr" where
  "newSolXcvr env chain program version svmShims =
     (case svmShims of
        None \<Rightarrow> Inr \<lparr>xc_program = program, xc_version = version, xc_postMessageShim = None, xc_verifyVaaShim = None\<rparr>
      | Some shims \<Rightarrow>
          (let presets = map_of DEFAULT_SVM_SHIM_ADDRESSES chain in
           andThen (shimProgram env ''postMessageShim'' NoPostMessageShim (sh_postMessageShimOverride shims)
             (map_option fst presets)) (\<lambda>postMessageShim.
           andThen (shimProgram env ''verifyVaaShim'' NoVerifyVaaShim (sh_verifyVaaShimOverride shims)
             (map_option snd presets)) (\<lambda>verifyVaaShim.
           Inr \<lparr>xc_program = program, xc_version = version, xc_postMessageShim = Some postMessageShim,
             xc_verifyVaaShim = Some verifyVaaShim\<rparr>))))"

definition xcvrPauser :: "sol_xcvr \<Rightarrow> pubkey option" where
  "xcvrPauser this = None"

definition xcvrSetPauser :: "sol_xcvr \<Rightarrow> pubkey \<Rightarrow> ('w, unit) sol_run" where
  "xcvrSetPauser this newPauser = returning (Inl SolNotImplemented)"

text \<open>Accounts of the transceiver and of its manager, as the instructions use them.\<close>

definition managerConfig :: "('w, 'p) sol_env \<Rightarrow> sol_ntt \<Rightarrow> pubkey" where
  "managerConfig env ntt = pdaIn env (so_program ntt) ConfigAccount"

definition transceiverPeerOf :: "('w, 'p) sol_env \<Rightarrow> sol_xcvr \<Rightarrow> string \<Rightarrow> pubkey" where
  "transceiverPeerOf env this chain = pdaIn env (xc_program this) (TransceiverPeerAccount (sk_toChainId (sv_keys env) chain))"

definition transceiverMessageOf :: "('w, 'p) sol_env \<Rightarrow> sol_xcvr \<Rightarrow> 'p sol_vaa \<Rightarrow> pubkey" where
  "transceiverMessageOf env this vaa = pdaIn env (xc_program this)
     (TransceiverMessageAccount (sk_toChainId (sv_keys env) (va_emitterChain vaa)) (ms_id (va_message vaa)))"

text \<open>The last 8 bytes of the hash, as a number.\<close>

definition messageSeed :: "'p sol_vaa \<Rightarrow> nat" where
  "messageSeed vaa = be_nat (drop (length (va_hash vaa) - 8) (va_hash vaa))"

definition writeUInt32BE :: "nat \<Rightarrow> sol_error + bytes" where
  "writeUInt32BE n = (if n < 2 ^ 32 then Inr (be_bytes 4 n) else Inl (WordRange (int n)))"

definition createReceiveIx :: "('w, 'p) sol_env \<Rightarrow> sol_ntt \<Rightarrow> sol_xcvr \<Rightarrow> 'p sol_vaa \<Rightarrow> pubkey \<Rightarrow> pubkey option \<Rightarrow> bool
    \<Rightarrow> sol_error + sol_ix" where
  "createReceiveIx env ntt this attestation payer guardianSignatures useMessageAccount =
     (let shared = [(''payer'', Some payer), (''config.config'', Some (managerConfig env ntt)),
            (''peer'', Some (transceiverPeerOf env this (va_emitterChain attestation)))];
          message = [(''transceiverMessage'', Some (transceiverMessageOf env this attestation))] in
      case xc_verifyVaaShim this of
        Some verifyVaaShim \<Rightarrow>
          (case guardianSignatures of
             None \<Rightarrow> Inl MissingGuardianSignatures
           | Some signatures \<Rightarrow>
               andThen (writeUInt32BE (va_guardianSet attestation)) (\<lambda>indexBuffer.
               let (guardianSet, bump) = sk_findProgramAddress (sv_keys env) [textBytes ''GuardianSet'', indexBuffer] (so_coreProgram ntt);
                   guardians = [(''guardianSet'', Some guardianSet), (''guardianSignatures'', Some signatures),
                     (''verifyVaaShim'', Some (pg_id verifyVaaShim))] in
               if \<not> useMessageAccount
               then andThen (utilV (vaaBody (va_serialized attestation))) (\<lambda>body.
                    anchorIx env (xc_program this) ''receiveWormholeMessageInstructionData''
                      [ArgNum (int bump), ArgRecord [(''span'', ArgBytes body)]] (shared @ message @ guardians))
               else anchorIx env (xc_program this) ''receiveWormholeMessageAccount'' [ArgNum (int bump), ArgNum (int (messageSeed attestation))]
                      (shared @ [(''message'', Some (pdaIn env (xc_program this) (UnverifiedMessageAccount payer (messageSeed attestation))))] @
                       message @ guardians)))
      | None \<Rightarrow>
          anchorIx env (xc_program this) ''receiveWormholeMessage'' []
            (shared @ [(''vaa'', Some (sv_postedVaa env (so_core ntt) (va_hash attestation)))] @ message))"

definition xcvrReceive :: "('w, 'p) sol_env \<Rightarrow> sol_ntt \<Rightarrow> sol_xcvr \<Rightarrow> 'p sol_vaa \<Rightarrow> pubkey \<Rightarrow> ('w, unit) sol_run" where
  "xcvrReceive env ntt this attestation payer =
     (if va_payloadName attestation \<noteq> ''WormholeTransfer'' then returning (Inl InvalidAttestationPayload)
      else proceed (returning (createReceiveIx env ntt this attestation payer None False)) (\<lambda>ix.
           unsignedSol env payer [ix] [] [] ''Ntt.Redeem''))"

section \<open>Messages posted in parts\<close>

definition postChunkIx :: "('w, 'p) sol_env \<Rightarrow> sol_xcvr \<Rightarrow> pubkey \<Rightarrow> nat \<Rightarrow> nat \<Rightarrow> nat \<Rightarrow> bytes \<Rightarrow> sol_error + sol_ix" where
  "postChunkIx env this payer seed messageSize offset chunk =
     anchorIx env (xc_program this) ''postUnverifiedWormholeMessageAccount''
       [ArgRecord [(''seed'', ArgNum (int seed)), (''offset'', ArgNum (int offset)), (''chunk'', ArgBytes chunk),
         (''messageSize'', ArgNum (int messageSize))]]
       [(''payer'', Some payer), (''message'', Some (pdaIn env (xc_program this) (UnverifiedMessageAccount payer seed)))]"

definition postBatch :: "('w, 'p) sol_env \<Rightarrow> pubkey \<Rightarrow> (sol_error + sol_ix) list \<Rightarrow> ('w, unit) sol_run" where
  "postBatch env payer instructions =
     proceed (returning (mapR (\<lambda>x. x) instructions)) (\<lambda>ixs.
     unsignedSol env payer ixs [] [] ''Ntt.PostUnverifiedWormholeMessageAccount'')"

function postChunks :: "('w, 'p) sol_env \<Rightarrow> sol_xcvr \<Rightarrow> pubkey \<Rightarrow> nat \<Rightarrow> bytes \<Rightarrow> nat \<Rightarrow> nat \<Rightarrow> nat
    \<Rightarrow> (sol_error + sol_ix) list \<Rightarrow> ('w, unit) sol_run" where
  "postChunks env this payer seed message chunkSize batchSize offset instructions =
     (if chunkSize = 0 \<or> length message \<le> offset
      then (if instructions \<noteq> [] then postBatch env payer instructions else returning (Inr ()))
      else let chunk = take chunkSize (drop offset message);
               pending = instructions @ [postChunkIx env this payer seed (length message) offset chunk] in
           if length pending = batchSize
           then proceed (postBatch env payer pending) (\<lambda>_.
                postChunks env this payer seed message chunkSize batchSize (offset + chunkSize) [])
           else postChunks env this payer seed message chunkSize batchSize (offset + chunkSize) pending)"
  by pat_completeness auto

termination
  by (relation "measure (\<lambda>(_, _, _, _, message, _, _, offset, _). length message - offset)") auto

declare postChunks.simps [simp del]

definition postUnverifiedMessageAccount :: "('w, 'p) sol_env \<Rightarrow> sol_xcvr \<Rightarrow> 'p sol_vaa \<Rightarrow> pubkey \<Rightarrow> int \<Rightarrow> int \<Rightarrow> ('w, unit) sol_run" where
  "postUnverifiedMessageAccount env this attestation payer chunkSize batchSize =
     (if chunkSize \<le> 0 \<or> batchSize \<le> 0 then returning (Inl BadChunks)
      else proceed (returning (utilV (vaaBody (va_serialized attestation)))) (\<lambda>message.
           postChunks env this payer (messageSeed attestation) message (nat chunkSize) (nat batchSize) 0 []))"

definition closeUnverifiedMessageAccount :: "('w, 'p) sol_env \<Rightarrow> sol_xcvr \<Rightarrow> pubkey \<Rightarrow> 'p sol_vaa \<Rightarrow> ('w, unit) sol_run" where
  "closeUnverifiedMessageAccount env this payer attestation =
     proceed (returning (anchorIx env (xc_program this) ''closeUnverifiedWormholeMessageAccount'' [ArgNum (int (messageSeed attestation))]
       [(''payer'', Some payer),
        (''message'', Some (pdaIn env (xc_program this) (UnverifiedMessageAccount payer (messageSeed attestation))))])) (\<lambda>ix.
     unsignedSol env payer [ix] [] [] ''Ntt.CloseUnverifiedWormholeMessageAccount'')"

section \<open>Reads and peers\<close>

text \<open>The type is a text behind its length, 4 bytes in little-endian order.\<close>

definition readUInt32LE :: "bytes \<Rightarrow> sol_error + nat" where
  "readUInt32LE b = (if length b < 4 then Inl (WordRange (int (length b))) else Inr (be_nat (rev (take 4 b))))"

definition xcvrType :: "('w, 'p) sol_env \<Rightarrow> sol_xcvr \<Rightarrow> pubkey \<Rightarrow> 'w \<Rightarrow> sol_error + string" where
  "xcvrType env this payer w =
     andThen (majorOf (xc_version this)) (\<lambda>major.
     if ltInt major 3 then Inr ''wormhole''
     else andThen (anchorIx env (xc_program this) ''transceiverType'' [] []) (\<lambda>ix.
          andThen (thrownV (sv_blockhash env w)) (\<lambda>_.
          andThen (thrownV (sv_simulate env w payer ix)) (\<lambda>(returnData, _).
          case returnData of
            None \<Rightarrow> Inl NoTransceiverTypeFound
          | Some buffer \<Rightarrow>
              if buffer = [] then Inl NoTransceiverTypeFound
              else andThen (readUInt32LE buffer) (\<lambda>len.
                   Inr (map (\<lambda>b. char_of (unat b)) (take len (drop 4 buffer))))))))"

definition emitterText :: "('w, 'p) sol_env \<Rightarrow> sol_program \<Rightarrow> string" where
  "emitterText env program = sv_toBase58 env (pdaIn env program EmitterAccount)"

definition xcvrAddress :: "('w, 'p) sol_env \<Rightarrow> sol_ntt \<Rightarrow> sol_xcvr \<Rightarrow> sol_error + string \<times> bytes" where
  "xcvrAddress env ntt this =
     andThen (thrownV (sv_toUniversalText env (so_chain ntt) (emitterText env (xc_program this)))) (\<lambda>address. Inr (so_chain ntt, address))"

text \<open>The accounts of the core bridge, and of the shim that posts messages when there is one.\<close>

definition wormholeNamed :: "('w, 'p) sol_env \<Rightarrow> sol_ntt \<Rightarrow> sol_xcvr \<Rightarrow> named_accounts" where
  "wormholeNamed env ntt this =
     (let whAccs = sv_wormholeAccounts env (pg_id (xc_program this)) (so_core ntt) in
      [(''emitter'', Some (wa_emitter whAccs)), (''wormhole.bridge'', Some (wa_bridge whAccs)),
       (''wormhole.feeCollector'', Some (wa_feeCollector whAccs)), (''wormhole.sequence'', Some (wa_sequence whAccs)),
       (''wormhole.program'', Some (so_coreProgram ntt))] @
      (case xc_postMessageShim this of
         None \<Rightarrow> []
       | Some shim \<Rightarrow> [(''wormhole.postMessageShim'', Some (pg_id shim)),
           (''wormhole.wormholePostMessageShimEa'', Some (derivePda (sv_keys env) [textBytes ''__event_authority''] (pg_id shim)))]))"

definition wormholeMessageOf :: "('w, 'p) sol_env \<Rightarrow> sol_xcvr \<Rightarrow> pubkey option \<Rightarrow> sol_error + pubkey" where
  "wormholeMessageOf env this wormholeMessage =
     (case (xc_postMessageShim this, wormholeMessage) of
        (Some shim, _) \<Rightarrow> Inr (wormholeMessageWithShimAccount (sv_keys env) (pg_id (xc_program this)) (pg_id shim))
      | (None, Some message) \<Rightarrow> Inr message
      | (None, None) \<Rightarrow> Inl MissingWormholeMessage)"

definition createBroadcastWormholeIdIx :: "('w, 'p) sol_env \<Rightarrow> sol_ntt \<Rightarrow> sol_xcvr \<Rightarrow> pubkey \<Rightarrow> sol_config \<Rightarrow> pubkey option
    \<Rightarrow> sol_error + sol_ix" where
  "createBroadcastWormholeIdIx env ntt this payer config wormholeMessage =
     andThen (wormholeMessageOf env this wormholeMessage) (\<lambda>message.
     anchorIx env (xc_program this) ''broadcastWormholeId'' []
       ([(''payer'', Some payer), (''config'', Some (managerConfig env ntt)), (''mint'', Some (cf_mint config)),
         (''wormholeMessage'', Some message)] @ wormholeNamed env ntt this))"

definition createBroadcastWormholePeerIx :: "('w, 'p) sol_env \<Rightarrow> sol_ntt \<Rightarrow> sol_xcvr \<Rightarrow> string \<Rightarrow> pubkey \<Rightarrow> pubkey option
    \<Rightarrow> sol_error + sol_ix" where
  "createBroadcastWormholePeerIx env ntt this chain payer wormholeMessage =
     andThen (wormholeMessageOf env this wormholeMessage) (\<lambda>message.
     anchorIx env (xc_program this) ''broadcastWormholePeer''
       [ArgRecord [(''chainId'', ArgNum (int (sk_toChainId (sv_keys env) chain)))]]
       ([(''payer'', Some payer), (''config'', Some (managerConfig env ntt)), (''peer'', Some (transceiverPeerOf env this chain)),
         (''wormholeMessage'', Some message)] @ wormholeNamed env ntt this))"

definition createReleaseWormholeOutboundIx :: "('w, 'p) sol_env \<Rightarrow> sol_ntt \<Rightarrow> sol_xcvr \<Rightarrow> pubkey \<Rightarrow> pubkey \<Rightarrow> bool
    \<Rightarrow> sol_error + sol_ix" where
  "createReleaseWormholeOutboundIx env ntt this payer outboxItem revertOnDelay =
     andThen (majorOf (xc_version this)) (\<lambda>major.
     let wormholeMessage = (case xc_postMessageShim this of
           Some shim \<Rightarrow> wormholeMessageWithShimAccount (sv_keys env) (pg_id (xc_program this)) (pg_id shim)
         | None \<Rightarrow> pdaIn env (xc_program this) (WormholeMessageAccount outboxItem)) in
     anchorIx env (xc_program this) ''releaseWormholeOutbound'' [ArgRecord [(''revertOnDelay'', ArgBool revertOnDelay)]]
       ([(''payer'', Some payer), (''config.config'', Some (managerConfig env ntt)), (''outboxItem'', Some outboxItem),
         (''wormholeMessage'', Some wormholeMessage),
         (''transceiver'', Some (pdaIn env (so_program ntt) (RegisteredTransceiver (pg_id (xc_program this)))))] @
        wormholeNamed env ntt this @
        (if numLe (jsInt 3) major
         then [(''manager'', Some (pg_id (so_program ntt))), (''outboxItemSigner'', Some (pdaIn env (xc_program this) OutboxItemSigner))]
         else [])))"

text \<open>\<open>fresh\<close> is the key generated for the message when no shim posts it.\<close>

definition xcvrSetPeer :: "('w, 'p) sol_env \<Rightarrow> sol_ntt \<Rightarrow> sol_xcvr \<Rightarrow> string \<times> bytes \<Rightarrow> pubkey \<Rightarrow> pubkey \<Rightarrow> ('w, unit) sol_run" where
  "xcvrSetPeer env ntt this peer sender fresh =
     (let wormholeMessage = (if xc_postMessageShim this = None then Some fresh else None) in
      proceed (returning (anchorIx env (xc_program this) ''setWormholePeer''
        [ArgRecord [(''chainId'', ArgRecord [(''id'', ArgNum (int (sk_toChainId (sv_keys env) (fst peer))))]), (''address'', ArgBytes (snd peer))]]
        [(''payer'', Some sender), (''owner'', Some sender), (''config'', Some (managerConfig env ntt)),
         (''peer'', Some (transceiverPeerOf env this (fst peer)))])) (\<lambda>ix.
      proceed (returning (createBroadcastWormholePeerIx env ntt this (fst peer) sender wormholeMessage)) (\<lambda>broadcastIx.
      unsignedSol env sender [ix, broadcastIx] (case wormholeMessage of None \<Rightarrow> [] | Some key \<Rightarrow> [key]) []
        ''Ntt.SetWormholeTransceiverPeer'')))"

definition xcvrPeer :: "('w, 'p) sol_env \<Rightarrow> sol_xcvr \<Rightarrow> string \<Rightarrow> 'w \<Rightarrow> sol_error + (string \<times> bytes) option" where
  "xcvrPeer env this chain w =
     andThen (thrownV (sv_transceiverPeer env w (transceiverPeerOf env this chain))) (\<lambda>peer.
     case peer of
       None \<Rightarrow> Inr None
     | Some address \<Rightarrow> andThen (thrownV (sv_toUniversal env chain address)) (\<lambda>universal. Inr (Some (chain, universal))))"

end
