(* ===== verification/Solana_Parts.thy ===== *)
theory Solana_Parts
  imports Solana_Transceiver
begin

text \<open>
  A message too large for one instruction is posted in parts (\<open>postUnverifiedMessageAccount\<close>). What the parts amount to
  is shown against what the program does with each of them.
\<close>
section \<open>What the posted parts amount to\<close>

text \<open>
  What the program does with an instruction (\<open>unverified_message_account.rs\<close>): it refuses an empty part and one that
  ends behind the announced size, makes the account as long as the part needs, and writes the part at its offset.
\<close>

definition writeAt :: "nat \<times> bytes \<Rightarrow> bytes \<Rightarrow> bytes" where
  "writeAt p b =
     (let ending = fst p + length (snd p); longer = b @ replicate (ending - length b) 0
      in take (fst p) longer @ snd p @ drop ending longer)"

fun postedPart :: "sol_ix \<Rightarrow> ((nat \<times> bytes) \<times> nat) option" where
  "postedPart (Anchor program method [ArgRecord [seed, (_, ArgNum offset), (_, ArgBytes part), (_, ArgNum messageSize)]] accounts keys) =
     Some ((nat offset, part), nat messageSize)"
| "postedPart _ = None"

definition applyPost :: "sol_ix \<Rightarrow> bytes \<Rightarrow> bytes option" where
  "applyPost ix b =
     (case postedPart ix of
        None \<Rightarrow> None
      | Some (p, messageSize) \<Rightarrow>
          if snd p = [] \<or> messageSize < fst p + length (snd p) then None else Some (writeAt p b))"

fun landAll :: "sol_ix list \<Rightarrow> bytes \<Rightarrow> bytes option" where
  "landAll [] b = Some b"
| "landAll (ix # ixs) b = Option.bind (applyPost ix b) (landAll ixs)"

text \<open>The parts of a message, each with its offset.\<close>

function partsFrom :: "nat \<Rightarrow> bytes \<Rightarrow> nat \<Rightarrow> (nat \<times> bytes) list" where
  "partsFrom n message offset =
     (if n = 0 \<or> length message \<le> offset then []
      else (offset, take n (drop offset message)) # partsFrom n message (offset + n))"
  by pat_completeness auto

termination
  by (relation "measure (\<lambda>(_, message, offset). length message - offset)") auto

declare partsFrom.simps [simp del]

lemma partsFrom_slice: "(o', part) \<in> set (partsFrom n message offset) \<Longrightarrow> o' < length message \<and> part = take n (drop o' message)"
proof (induction n message offset rule: partsFrom.induct)
  case (1 n message offset)
  then show ?case using partsFrom.simps [of n message offset] by (auto split: if_splits)
qed

definition coversAt :: "nat \<Rightarrow> nat \<times> bytes \<Rightarrow> bool" where
  "coversAt i p \<longleftrightarrow> fst p \<le> i \<and> i < fst p + length (snd p)"

lemma partsFrom_covers:
  "0 < n \<Longrightarrow> offset \<le> i \<Longrightarrow> i < length message \<Longrightarrow> \<exists>p \<in> set (partsFrom n message offset). coversAt i p"
proof (induction n message offset rule: partsFrom.induct)
  case (1 n message offset)
  show ?case
  proof (cases "i < offset + n")
    case True
    then show ?thesis using "1.prems" partsFrom.simps [of n message offset] by (auto simp: coversAt_def min_def)
  next
    case False
    then show ?thesis using "1.IH" "1.prems" partsFrom.simps [of n message offset] by simp
  qed
qed

text \<open>Parts of the same message do not disturb each other, so their order does not matter.\<close>

definition partOf :: "bytes \<Rightarrow> nat \<times> bytes \<Rightarrow> bool" where
  "partOf message p \<longleftrightarrow> snd p \<noteq> [] \<and> fst p + length (snd p) \<le> length message \<and>
     (\<forall>i < length (snd p). snd p ! i = message ! (fst p + i))"

definition written :: "bytes \<Rightarrow> (nat \<times> bytes) set \<Rightarrow> bytes \<Rightarrow> bool" where
  "written message ps b \<longleftrightarrow> length b \<le> length message \<and>
     (\<forall>i p. p \<in> ps \<longrightarrow> coversAt i p \<longrightarrow> i < length b \<and> b ! i = message ! i)"

lemma partsFrom_partOf: "0 < n \<Longrightarrow> p \<in> set (partsFrom n message offset) \<Longrightarrow> partOf message p"
proof -
  assume n: "0 < n" and p: "p \<in> set (partsFrom n message offset)"
  have "fst p < length message" "snd p = take n (drop (fst p) message)"
    using partsFrom_slice [of "fst p" "snd p" n message offset] p by simp_all
  then show ?thesis using n by (auto simp: partOf_def min_def)
qed

lemma writeAt_written:
  assumes "partOf message p" "written message ps b"
  shows "written message (insert p ps) (writeAt p b)"
proof -
  define longer where "longer = b @ replicate (fst p + length (snd p) - length b) 0"
  have ending: "fst p + length (snd p) \<le> length longer" by (simp add: longer_def)
  have w: "writeAt p b = take (fst p) longer @ snd p @ drop (fst p + length (snd p)) longer"
    by (simp add: writeAt_def longer_def Let_def)
  have len: "length (writeAt p b) = length longer" using ending by (simp add: w)
  have at: "writeAt p b ! i = (if coversAt i p then message ! i else longer ! i)" if "i < length longer" for i
    using that ending assms(1) by (auto simp: w coversAt_def partOf_def nth_append min_def)
  have "length longer \<le> length message" using assms by (auto simp: longer_def written_def partOf_def)
  moreover have "i < length longer \<and> writeAt p b ! i = message ! i" if "q \<in> insert p ps" "coversAt i q" for i q
  proof (cases "coversAt i p")
    case True
    then have "i < length longer" using ending by (simp add: coversAt_def)
    then show ?thesis using at True by simp
  next
    case False
    then have "q \<in> ps" using that by auto
    then have "i < length b" "b ! i = message ! i" using that(2) assms(2) unfolding written_def by blast+
    then show ?thesis using at [of i] False by (simp add: longer_def nth_append)
  qed
  ultimately show ?thesis unfolding written_def len by blast
qed

lemma landAll_written:
  assumes "\<forall>ix \<in> set ixs. \<exists>p. postedPart ix = Some (p, length message) \<and> partOf message p" "written message ps b"
  shows "\<exists>b'. landAll ixs b = Some b' \<and> written message (ps \<union> {p. \<exists>ix \<in> set ixs. postedPart ix = Some (p, length message)}) b'"
  using assms
proof (induction ixs arbitrary: ps b)
  case (Cons ix ixs)
  then obtain p where p: "postedPart ix = Some (p, length message)" "partOf message p" by auto
  then have "applyPost ix b = Some (writeAt p b)" by (auto simp: applyPost_def partOf_def)
  moreover from Cons.IH [OF _ writeAt_written [OF p(2) Cons.prems(2)]] Cons.prems(1)
  obtain b' where "landAll ixs (writeAt p b) = Some b'"
    "written message (insert p ps \<union> {p. \<exists>ix \<in> set ixs. postedPart ix = Some (p, length message)}) b'" by auto
  moreover have "ps \<union> {q. \<exists>i \<in> set (ix # ixs). postedPart i = Some (q, length message)} =
      insert p ps \<union> {q. \<exists>i \<in> set ixs. postedPart i = Some (q, length message)}" using p(1) by auto
  ultimately show ?case by simp
qed auto

lemma parts_reassemble:
  assumes "0 < n" "postedPart ` set ixs = (\<lambda>p. Some (p, length message)) ` set (partsFrom n message 0)"
  shows "landAll ixs [] = Some message"
proof -
  have posted: "\<exists>p. postedPart ix = Some (p, length message) \<and> partOf message p" if "ix \<in> set ixs" for ix
  proof -
    have "postedPart ix \<in> (\<lambda>p. Some (p, length message)) ` set (partsFrom n message 0)"
      using that assms(2) by blast
    then show ?thesis using partsFrom_partOf [OF assms(1)] by auto
  qed
  have "written message {} []" by (simp add: written_def)
  with landAll_written [of ixs message "{}" "[]"] posted obtain b where b: "landAll ixs [] = Some b"
    and w: "written message {p. \<exists>ix \<in> set ixs. postedPart ix = Some (p, length message)} b" by auto
  have "i < length b \<and> b ! i = message ! i" if i: "i < length message" for i
  proof -
    obtain p where p: "p \<in> set (partsFrom n message 0)" "coversAt i p"
      using partsFrom_covers [OF assms(1), of 0 i message] i by blast
    then have "Some (p, length message) \<in> postedPart ` set ixs" unfolding assms(2) by blast
    then obtain ix where "ix \<in> set ixs" "postedPart ix = Some (p, length message)" by force
    then have "p \<in> {p. \<exists>ix \<in> set ixs. postedPart ix = Some (p, length message)}" by blast
    then show ?thesis using w p(2) unfolding written_def by blast
  qed
  moreover have "length b \<le> length message" using w by (simp add: written_def)
  ultimately have "b = message" by (metis le_neq_implies_less less_irrefl nth_equalityI)
  then show ?thesis using b by simp
qed

lemma postedPart_postChunkIx:
  "postChunkIx env this payer seed messageSize offset part = Inr ix \<Longrightarrow> postedPart ix = Some ((offset, part), messageSize)"
  by (auto simp: postChunkIx_def anchorIx_eq_Inr)

definition postsParts :: "('w, 'p) sol_env \<Rightarrow> sol_xcvr \<Rightarrow> bool" where
  "postsParts env this \<longleftrightarrow> (\<forall>args accounts. \<exists>keys. sv_anchor env (xc_program this) ''postUnverifiedWormholeMessageAccount'' args accounts = Inr keys)"

lemma postChunkIx_Inr: "postsParts env this \<Longrightarrow> \<exists>ix. postChunkIx env this payer seed messageSize offset part = Inr ix"
  by (auto simp: postsParts_def postChunkIx_def anchorIx_eq_Inr)

lemma mapR_Inr: "mapR (\<lambda>x. x) (map Inr ixs) = Inr ixs"
  by (induction ixs) (simp_all add: andThen_def)

abbreviation postTx :: "pubkey \<Rightarrow> sol_ix list \<Rightarrow> sol_tx" where
  "postTx payer ixs \<equiv> solTx payer ixs [] [] ''Ntt.PostUnverifiedWormholeMessageAccount''"

lemma postBatch_Inr:
  "postBatch env payer (map Inr ixs) wc = ([postTx payer ixs], Inr (), (sv_deliver env (postTx payer ixs) (fst wc), snd wc))"
  by (cases wc) (simp add: postBatch_def proceed_def returning_def mapR_Inr unsignedSol_def yieldTx_def sending_def)

definition fitsBatch :: "pubkey \<Rightarrow> nat \<Rightarrow> sol_tx \<Rightarrow> bool" where
  "fitsBatch payer batchSize tx \<longleftrightarrow> sx_payer tx = payer \<and> sx_instructions tx \<noteq> [] \<and> length (sx_instructions tx) \<le> batchSize"

lemma postChunks_parts:
  assumes "postsParts env this" "0 < chunkSize" "length ixs < batchSize"
  shows "\<exists>txs wc' new. postChunks env this payer seed message chunkSize batchSize offset (map Inr ixs) wc = (txs, Inr (), wc') \<and>
    concat (map sx_instructions txs) = ixs @ new \<and> map postedPart new = map (\<lambda>p. Some (p, length message)) (partsFrom chunkSize message offset) \<and>
    list_all (fitsBatch payer batchSize) txs"
  using assms(3)
proof (induction "length message - offset" arbitrary: offset ixs wc rule: less_induct)
  case less
  show ?case
  proof (cases "length message \<le> offset")
    case True
    then show ?thesis using assms(2) less.prems
      by (subst postChunks.simps, subst partsFrom.simps) (auto simp: postBatch_Inr returning_def fitsBatch_def)
  next
    case False
    let ?part = "take chunkSize (drop offset message)"
    obtain ix where ix: "postChunkIx env this payer seed (length message) offset ?part = Inr ix"
      using postChunkIx_Inr [OF assms(1)] by blast
    have pending: "map Inr ixs @ [postChunkIx env this payer seed (length message) offset ?part] = map Inr (ixs @ [ix])"
      by (simp add: ix)
    have smaller: "length message - (offset + chunkSize) < length message - offset" using False assms(2) by simp
    have parts: "partsFrom chunkSize message offset = (offset, ?part) # partsFrom chunkSize message (offset + chunkSize)"
      using False assms(2) by (subst partsFrom.simps) simp
    show ?thesis
    proof (cases "Suc (length ixs) = batchSize")
      case True
      let ?tx = "postTx payer (ixs @ [ix])"
      obtain txs wc' new where
        rest: "postChunks env this payer seed message chunkSize batchSize (offset + chunkSize) [] (sv_deliver env ?tx (fst wc), snd wc) = (txs, Inr (), wc')"
        and new: "concat (map sx_instructions txs) = new" "map postedPart new = map (\<lambda>p. Some (p, length message)) (partsFrom chunkSize message (offset + chunkSize))"
          "list_all (fitsBatch payer batchSize) txs"
        using less.hyps [OF smaller, of "[]"] less.prems True by fastforce
      have "postChunks env this payer seed message chunkSize batchSize offset (map Inr ixs) wc = (?tx # txs, Inr (), wc')"
        using False assms(2) True rest
        by (subst postChunks.simps) (simp add: pending [simplified] ix postBatch_Inr [of _ _ "ixs @ [ix]", simplified] proceed_def Let_def)
      then show ?thesis using new parts True postedPart_postChunkIx [OF ix]
        by (intro exI [of _ "?tx # txs"] exI [of _ wc'] exI [of _ "ix # new"]) (simp add: fitsBatch_def)
    next
      case fresh: False
      then have "length (ixs @ [ix]) < batchSize" using less.prems by simp
      from less.hyps [OF smaller this] obtain txs wc' new where
        rest: "postChunks env this payer seed message chunkSize batchSize (offset + chunkSize) (map Inr (ixs @ [ix])) wc = (txs, Inr (), wc')"
        and new: "concat (map sx_instructions txs) = (ixs @ [ix]) @ new" "map postedPart new = map (\<lambda>p. Some (p, length message)) (partsFrom chunkSize message (offset + chunkSize))"
          "list_all (fitsBatch payer batchSize) txs" by blast
      have "postChunks env this payer seed message chunkSize batchSize offset (map Inr ixs) wc = (txs, Inr (), wc')"
        using False assms(2) fresh rest by (subst postChunks.simps) (simp add: ix Let_def)
      then show ?thesis using new parts postedPart_postChunkIx [OF ix]
        by (intro exI [of _ txs] exI [of _ wc'] exI [of _ "ix # new"]) simp
    qed
  qed
qed


end
