(* ===== verification/Solana_Ntt.thy ===== *)
theory Solana_Ntt
  imports Solana_Parts
begin

text \<open>
  The Solana protocol of a deployment, \<open>SolanaNtt\<close> of \<open>solana/ts/sdk/ntt.ts\<close>: its caches, what it reads, and its
  transactions. Results of \<open>Promise.all\<close> are awaited in the order of the list.
\<close>

section \<open>The object\<close>

definition transceiverOf :: "('w, 'p) sol_env \<Rightarrow> string \<Rightarrow> sol_contracts \<Rightarrow> string \<Rightarrow> string \<Rightarrow> sol_error + sol_program" where
  "transceiverOf env chain contracts version address =
     (let useLegacy = (sn_svmShims contracts = None) in
      andThen (thrownV (sv_publicKey env (sn_manager contracts))) (\<lambda>managerKey.
      andThen (thrownV (sv_publicKey env address)) (\<lambda>transceiverKey.
      if pdaOf (sv_keys env) managerKey EmitterAccount = transceiverKey \<or> managerKey = transceiverKey
      then andThen (getTransceiverProgram env (sn_manager contracts) version useLegacy) (\<lambda>program.
           andThen (newSolXcvr env chain program version (sn_svmShims contracts)) (\<lambda>whTransceiver.
           Inr (xc_program whTransceiver)))
      else getTransceiverProgram env address version useLegacy)))"

definition transceiversOf :: "('w, 'p) sol_env \<Rightarrow> string \<Rightarrow> sol_contracts \<Rightarrow> string \<Rightarrow> sol_error + sol_program list" where
  "transceiversOf env chain contracts version =
     (case map_of (sn_transceiver contracts) ''wormhole'' of
        None \<Rightarrow> Inr []
      | Some address \<Rightarrow>
          if address = [] then Inr []
          else andThen (transceiverOf env chain contracts version address) (\<lambda>program.
               case filter (\<lambda>t. t \<noteq> ''wormhole'') (map fst (sn_transceiver contracts)) of
                 [] \<Rightarrow> Inr [program]
               | transceiverType # _ \<Rightarrow> Inl (UnsupportedSolTransceiver transceiverType)))"

definition newSolanaNtt :: "('w, 'p) sol_env \<Rightarrow> string \<Rightarrow> string \<Rightarrow> sol_contracts option \<Rightarrow> string option \<Rightarrow> string \<Rightarrow> sol_error + sol_ntt" where
  "newSolanaNtt env network chain ntt coreBridge version =
     (case ntt of
        None \<Rightarrow> Inl NoNttContractsOnSolana
      | Some contracts \<Rightarrow>
          andThen (getNttProgram env (sn_manager contracts) version) (\<lambda>program.
          andThen (transceiversOf env chain contracts version) (\<lambda>transceivers.
          case coreBridge of
            None \<Rightarrow> Inl (SolThrown ''coreBridge'')
          | Some core \<Rightarrow>
              andThen (thrownV (sv_publicKey env core)) (\<lambda>coreProgram.
              Inr \<lparr>so_network = network, so_chain = chain, so_contracts = contracts, so_version = version, so_program = program,
                so_transceivers = transceivers, so_core = core, so_coreProgram = coreProgram\<rparr>))))"

definition emptyCache :: sol_cache where
  "emptyCache = \<lparr>ca_config = None, ca_lut = None\<rparr>"

text \<open>A version that cannot be read is taken to be the newest.\<close>

definition solVersion :: "('w, 'p) sol_env \<Rightarrow> sol_contracts \<Rightarrow> pubkey option \<Rightarrow> 'w \<Rightarrow> string" where
  "solVersion env contracts sender w =
     (case andThen (thrownV (sv_publicKey env (sn_manager contracts))) (\<lambda>_. getSolVersion env (sn_manager contracts) sender w) of
        Inl _ \<Rightarrow> ''3.0.0''
      | Inr version \<Rightarrow> version)"

definition solFromRpc :: "('w, 'p) sol_env \<Rightarrow> string + string \<times> string \<Rightarrow> (string \<Rightarrow> string \<times> sol_contracts option \<times> string option) \<Rightarrow> 'w
    \<Rightarrow> sol_error + sol_ntt" where
  "solFromRpc env chainFromRpc config w =
     andThen (thrownV chainFromRpc) (\<lambda>(network, chain).
       let (confNetwork, ntt, coreBridge) = config chain in
       if confNetwork \<noteq> network then Inl (SolNetworkMismatch confNetwork network)
       else case ntt of
          None \<Rightarrow> Inl NoNttContractsOnSolana
        | Some contracts \<Rightarrow> newSolanaNtt env network chain ntt coreBridge (solVersion env contracts None w))"

definition solTransceiver :: "('w, 'p) sol_env \<Rightarrow> sol_ntt \<Rightarrow> nat \<Rightarrow> sol_error + sol_xcvr option" where
  "solTransceiver env ntt ix =
     (if length (so_transceivers ntt) \<le> ix then Inr None
      else if ix = 0
      then andThen (newSolXcvr env (so_chain ntt) (so_transceivers ntt ! ix) (so_version ntt) (sn_svmShims (so_contracts ntt)))
             (\<lambda>xcvr. Inr (Some xcvr))
      else Inr None)"

definition requireXcvr :: "('w, 'p) sol_env \<Rightarrow> sol_ntt \<Rightarrow> nat \<Rightarrow> sol_error + sol_xcvr" where
  "requireXcvr env ntt ix =
     andThen (solTransceiver env ntt ix) (\<lambda>transceiver.
     case transceiver of None \<Rightarrow> Inl SolTransceiverNotFound | Some xcvr \<Rightarrow> Inr xcvr)"

section \<open>Caches and reads\<close>

definition attemptRun :: "('w, 'r, 'e, 'a) process \<Rightarrow> ('w, 'r, 'f, 'e + 'a) process" where
  "attemptRun m w = (case m w of (ys, r, w') \<Rightarrow> (ys, Inr r, w'))"

text \<open>The configuration is read once.\<close>

definition solConfig :: "('w, 'p) sol_env \<Rightarrow> sol_ntt \<Rightarrow> ('w, sol_config) sol_run" where
  "solConfig env ntt = (\<lambda>(w, c).
     case ca_config c of
       Some config \<Rightarrow> ([], Inr config, (w, c))
     | None \<Rightarrow>
         (case fetchConfig env (so_program ntt) w of
            Inl e \<Rightarrow> ([], Inl e, (w, c))
          | Inr config \<Rightarrow> ([], Inr config, (w, c\<lparr>ca_config := Some config\<rparr>))))"

definition solLookupTable :: "('w, 'p) sol_env \<Rightarrow> sol_ntt \<Rightarrow> bool \<Rightarrow> ('w, sol_lut) sol_run" where
  "solLookupTable env ntt useCache = (\<lambda>(w, c).
     case (if useCache then ca_lut c else None) of
       Some table \<Rightarrow> ([], Inr table, (w, c))
     | None \<Rightarrow>
         (case getAddressLookupTable env (so_program ntt) w of
            Inl e \<Rightarrow> ([], Inl e, (w, c))
          | Inr alut \<Rightarrow>
              (let c' = (case alut of None \<Rightarrow> c | Some table \<Rightarrow> c\<lparr>ca_lut := Some table\<rparr>) in
               case ca_lut c' of None \<Rightarrow> ([], Inl LutMissing, (w, c')) | Some table \<Rightarrow> ([], Inr table, (w, c')))))"

text \<open>The tables a transaction is compiled with: none when it could not be fetched.\<close>

definition lutsOrNone :: "('w, 'p) sol_env \<Rightarrow> sol_ntt \<Rightarrow> ('w, sol_lut list) sol_run" where
  "lutsOrNone env ntt =
     proceed (attemptRun (solLookupTable env ntt True)) (\<lambda>r. returning (Inr (case r of Inl _ \<Rightarrow> [] | Inr table \<Rightarrow> [table])))"

definition solMode :: "('w, 'p) sol_env \<Rightarrow> sol_ntt \<Rightarrow> ('w, string) sol_run" where
  "solMode env ntt = proceed (solConfig env ntt) (\<lambda>config.
     returning (Inr (if cf_locking config then ''locking'' else ''burning'')))"

definition solIsPaused :: "('w, 'p) sol_env \<Rightarrow> sol_ntt \<Rightarrow> ('w, bool) sol_run" where
  "solIsPaused env ntt = proceed (solConfig env ntt) (\<lambda>config. returning (Inr (cf_paused config)))"

definition solThreshold :: "('w, 'p) sol_env \<Rightarrow> sol_ntt \<Rightarrow> ('w, int) sol_run" where
  "solThreshold env ntt = proceed (solConfig env ntt) (\<lambda>config. returning (Inr (cf_threshold config)))"

definition solOwner :: "('w, 'p) sol_env \<Rightarrow> sol_ntt \<Rightarrow> ('w, pubkey) sol_run" where
  "solOwner env ntt = proceed (solConfig env ntt) (\<lambda>config. returning (Inr (cf_owner config)))"

definition solPauser :: "sol_ntt \<Rightarrow> pubkey option" where
  "solPauser ntt = None"

definition solTokenDecimals :: "('w, 'p) sol_env \<Rightarrow> sol_ntt \<Rightarrow> ('w, nat) sol_run" where
  "solTokenDecimals env ntt = proceed (solConfig env ntt) (\<lambda>config. readingW (\<lambda>w. thrownV (sv_tokenDecimals env w (cf_mint config))))"

definition solCustodyAddress :: "('w, 'p) sol_env \<Rightarrow> sol_ntt \<Rightarrow> ('w, string) sol_run" where
  "solCustodyAddress env ntt = proceed (solConfig env ntt) (\<lambda>config. returning (Inr (sv_toBase58 env (cf_custody config))))"

definition rateLimitOf :: "('w, 'p) sol_env \<Rightarrow> sol_ntt \<Rightarrow> string option \<Rightarrow> 'w \<Rightarrow> sol_error + nat \<times> nat" where
  "rateLimitOf env ntt fromChain w =
     thrownV (sv_rateLimit env w (case fromChain of
        None \<Rightarrow> pdaIn env (so_program ntt) OutboxRateLimitAccount
      | Some chain \<Rightarrow> inboxRateLimitOf env (so_program ntt) chain))"

definition solOutboundCapacity :: "('w, 'p) sol_env \<Rightarrow> sol_ntt \<Rightarrow> 'w \<Rightarrow> sol_error + nat" where
  "solOutboundCapacity env ntt w = andThen (rateLimitOf env ntt None w) (\<lambda>(capacityAtLastTx, _). Inr capacityAtLastTx)"

definition solOutboundLimit :: "('w, 'p) sol_env \<Rightarrow> sol_ntt \<Rightarrow> 'w \<Rightarrow> sol_error + nat" where
  "solOutboundLimit env ntt w = andThen (rateLimitOf env ntt None w) (\<lambda>(_, limit). Inr limit)"

definition solInboundCapacity :: "('w, 'p) sol_env \<Rightarrow> sol_ntt \<Rightarrow> string \<Rightarrow> 'w \<Rightarrow> sol_error + nat" where
  "solInboundCapacity env ntt fromChain w =
     andThen (rateLimitOf env ntt (Some fromChain) w) (\<lambda>(capacityAtLastTx, _). Inr capacityAtLastTx)"

definition solInboundLimit :: "('w, 'p) sol_env \<Rightarrow> sol_ntt \<Rightarrow> string \<Rightarrow> 'w \<Rightarrow> sol_error + nat" where
  "solInboundLimit env ntt fromChain w = andThen (rateLimitOf env ntt (Some fromChain) w) (\<lambda>(_, limit). Inr limit)"

definition solRateLimitDuration :: nat where
  "solRateLimitDuration = 24 * 60 * 60"

record sol_peer =
  pe_chain :: string
  pe_address :: bytes
  pe_tokenDecimals :: nat
  pe_inboundLimit :: nat

definition solPeer :: "('w, 'p) sol_env \<Rightarrow> sol_ntt \<Rightarrow> string \<Rightarrow> 'w \<Rightarrow> sol_error + sol_peer option" where
  "solPeer env ntt chain w =
     andThen (thrownV (sv_peer env w (peerAccountOf env (so_program ntt) chain))) (\<lambda>peer.
     case peer of
       None \<Rightarrow> Inr None
     | Some (address, tokenDecimals) \<Rightarrow>
         andThen (thrownV (sv_toUniversal env chain address)) (\<lambda>universal.
         andThen (solInboundLimit env ntt chain w) (\<lambda>limit.
         Inr (Some \<lparr>pe_chain = chain, pe_address = universal, pe_tokenDecimals = tokenDecimals, pe_inboundLimit = limit\<rparr>))))"

section \<open>Administration\<close>

definition sendOne :: "('w, 'p) sol_env \<Rightarrow> pubkey \<Rightarrow> sol_error + sol_ix \<Rightarrow> string \<Rightarrow> ('w, unit) sol_run" where
  "sendOne env payer ix description = proceed (returning ix) (\<lambda>built. unsignedSol env payer [built] [] [] description)"

definition solPause :: "('w, 'p) sol_env \<Rightarrow> sol_ntt \<Rightarrow> pubkey \<Rightarrow> ('w, unit) sol_run" where
  "solPause env ntt sender = sendOne env sender (createSetPausedInstruction env (so_program ntt) sender True) ''Ntt.Pause''"

definition solUnpause :: "('w, 'p) sol_env \<Rightarrow> sol_ntt \<Rightarrow> pubkey \<Rightarrow> ('w, unit) sol_run" where
  "solUnpause env ntt sender = sendOne env sender (createSetPausedInstruction env (so_program ntt) sender False) ''Ntt.Unpause''"

definition thresholdIx :: "('w, 'p) sol_env \<Rightarrow> sol_ntt \<Rightarrow> pubkey \<Rightarrow> int \<Rightarrow> sol_error + sol_ix" where
  "thresholdIx env ntt owner threshold =
     anchorIx env (so_program ntt) ''setThreshold'' [ArgNum threshold] (ownerAccounts env (so_program ntt) owner)"

definition solSetThreshold :: "('w, 'p) sol_env \<Rightarrow> sol_ntt \<Rightarrow> int \<Rightarrow> pubkey \<Rightarrow> ('w, unit) sol_run" where
  "solSetThreshold env ntt threshold sender = sendOne env sender (thresholdIx env ntt sender threshold) ''Ntt.SetThreshold''"

definition solSetOwner :: "('w, 'p) sol_env \<Rightarrow> sol_ntt \<Rightarrow> pubkey \<Rightarrow> pubkey \<Rightarrow> ('w, unit) sol_run" where
  "solSetOwner env ntt newOwner sender = proceed (solOwner env ntt) (\<lambda>owner.
     sendOne env sender (createTransferOwnershipInstruction env (so_program ntt) owner newOwner) ''Ntt.SetOwner'')"

definition solSetPauser :: "sol_ntt \<Rightarrow> pubkey \<Rightarrow> ('w, unit) sol_run" where
  "solSetPauser ntt newPauser = returning (Inl SolNotImplemented)"

definition solQuoteDeliveryPrice :: "sol_ntt \<Rightarrow> string \<Rightarrow> sol_error + nat" where
  "solQuoteDeliveryPrice ntt destination = Inl AutomaticUnsupported"

definition solSetPeer :: "('w, 'p) sol_env \<Rightarrow> sol_ntt \<Rightarrow> string \<times> bytes \<Rightarrow> nat \<Rightarrow> nat \<Rightarrow> pubkey \<Rightarrow> ('w, unit) sol_run" where
  "solSetPeer env ntt peer tokenDecimals inboundLimit sender =
     sendOne env sender (createSetPeerInstruction env (so_program ntt) sender sender (fst peer) (snd peer) inboundLimit tokenDecimals) ''Ntt.SetPeer''"

definition solSetOutboundLimit :: "('w, 'p) sol_env \<Rightarrow> sol_ntt \<Rightarrow> nat \<Rightarrow> pubkey \<Rightarrow> ('w, unit) sol_run" where
  "solSetOutboundLimit env ntt limit sender =
     sendOne env sender (createSetOutboundLimitInstruction env (so_program ntt) sender limit) ''Ntt.SetOutboundLimit''"

definition solSetInboundLimit :: "('w, 'p) sol_env \<Rightarrow> sol_ntt \<Rightarrow> string \<Rightarrow> nat \<Rightarrow> pubkey \<Rightarrow> ('w, unit) sol_run" where
  "solSetInboundLimit env ntt fromChain limit sender =
     sendOne env sender (createSetInboundLimitInstruction env (so_program ntt) sender fromChain limit) ''Ntt.SetInboundLimit''"

definition solInitializeOrUpdateLUT :: "('w, 'p) sol_env \<Rightarrow> sol_ntt \<Rightarrow> pubkey \<Rightarrow> pubkey \<Rightarrow> ('w, unit) sol_run" where
  "solInitializeOrUpdateLUT env ntt payer owner =
     proceed (solConfig env ntt) (\<lambda>config.
     proceed (returning (requireXcvr env ntt 0)) (\<lambda>whTransceiver.
     proceed (readingW (initializeOrUpdateLUT env (so_program ntt) config (pg_id (xc_program whTransceiver)) payer owner (so_coreProgram ntt)))
       (\<lambda>ix. case ix of
          None \<Rightarrow> returning (Inr ())
        | Some built \<Rightarrow> unsignedSol env payer [built] [] [] ''Ntt.InitializeLUT'')))"

definition solInitialize :: "('w, 'p) sol_env \<Rightarrow> sol_ntt \<Rightarrow> pubkey \<Rightarrow> pubkey \<Rightarrow> bool \<Rightarrow> int \<Rightarrow> pubkey option \<Rightarrow> ('w, unit) sol_run" where
  "solInitialize env ntt payer mint burning outboundLimit multisig =
     proceed (readingW (\<lambda>w. thrownV (sv_accountOwner env w mint))) (\<lambda>mintInfo.
     case mintInfo of
       None \<Rightarrow> returning (Inl NoMintAccount)
     | Some tokenProgram \<Rightarrow>
         proceed (sendOne env payer (createInitializeInstruction env (so_program ntt) payer payer (so_chain ntt) mint outboundLimit
           tokenProgram burning multisig) ''Ntt.Initialize'') (\<lambda>_.
         solInitializeOrUpdateLUT env ntt payer payer))"

definition createRegisterTransceiverIx :: "('w, 'p) sol_env \<Rightarrow> sol_ntt \<Rightarrow> nat \<Rightarrow> pubkey \<Rightarrow> pubkey \<Rightarrow> sol_error + sol_ix" where
  "createRegisterTransceiverIx env ntt ix payer owner =
     andThen (requireXcvr env ntt ix) (\<lambda>transceiver.
     let transceiverProgramId = pg_id (xc_program transceiver) in
     anchorIx env (so_program ntt) ''registerTransceiver'' []
       [(''payer'', Some payer), (''owner'', Some owner), (''config'', Some (managerConfig env ntt)),
        (''transceiver'', Some transceiverProgramId),
        (''registeredTransceiver'', Some (pdaIn env (so_program ntt) (RegisteredTransceiver transceiverProgramId))),
        (''systemProgram'', Some (sv_known env ''system''))])"

definition createDeregisterTransceiverIx :: "('w, 'p) sol_env \<Rightarrow> sol_ntt \<Rightarrow> nat \<Rightarrow> pubkey \<Rightarrow> sol_error + sol_ix" where
  "createDeregisterTransceiverIx env ntt ix owner =
     andThen (requireXcvr env ntt ix) (\<lambda>transceiver.
     anchorIx env (so_program ntt) ''deregisterTransceiver'' []
       [(''owner'', Some owner), (''config'', Some (managerConfig env ntt)),
        (''registeredTransceiver'', Some (pdaIn env (so_program ntt) (RegisteredTransceiver (pg_id (xc_program transceiver)))))])"

definition solRegisterWormholeTransceiver :: "('w, 'p) sol_env \<Rightarrow> sol_ntt \<Rightarrow> pubkey \<Rightarrow> pubkey \<Rightarrow> pubkey \<Rightarrow> ('w, unit) sol_run" where
  "solRegisterWormholeTransceiver env ntt payer owner fresh =
     proceed (solConfig env ntt) (\<lambda>config.
     if cf_paused config then returning (Inl SolPaused)
     else proceed (returning (createRegisterTransceiverIx env ntt 0 payer owner)) (\<lambda>ix.
          proceed (returning (requireXcvr env ntt 0)) (\<lambda>whTransceiver.
          let wormholeMessage = (if xc_postMessageShim whTransceiver = None then Some fresh else None) in
          proceed (returning (createBroadcastWormholeIdIx env ntt whTransceiver payer config wormholeMessage)) (\<lambda>broadcastIx.
          unsignedSol env payer [ix, broadcastIx] (case wormholeMessage of None \<Rightarrow> [] | Some key \<Rightarrow> [key]) [] ''Ntt.RegisterTransceiver''))))"

definition solSetTransceiverPeer :: "('w, 'p) sol_env \<Rightarrow> sol_ntt \<Rightarrow> nat \<Rightarrow> string \<times> bytes \<Rightarrow> pubkey \<Rightarrow> pubkey \<Rightarrow> ('w, unit) sol_run" where
  "solSetTransceiverPeer env ntt ix peer payer fresh =
     proceed (returning (requireXcvr env ntt ix)) (\<lambda>transceiver. xcvrSetPeer env ntt transceiver peer payer fresh)"

definition solSetWormholeTransceiverPeer :: "('w, 'p) sol_env \<Rightarrow> sol_ntt \<Rightarrow> string \<times> bytes \<Rightarrow> pubkey \<Rightarrow> pubkey \<Rightarrow> ('w, unit) sol_run" where
  "solSetWormholeTransceiverPeer env ntt peer payer fresh = solSetTransceiverPeer env ntt 0 peer payer fresh"

section \<open>Sending a transfer\<close>

record sol_options =
  op_queue :: bool
  op_automatic :: bool
  op_wrapNative :: bool

definition tokenAccountOf :: "('w, 'p) sol_env \<Rightarrow> sol_config \<Rightarrow> pubkey \<Rightarrow> pubkey" where
  "tokenAccountOf env config sender = sv_ata env (cf_mint config) sender (cf_tokenProgram config)"

definition transferLamports :: "pubkey \<Rightarrow> pubkey \<Rightarrow> nat \<Rightarrow> sol_error + sol_ix" where
  "transferLamports source destination lamports =
     (if lamports < 2 ^ 64 then Inr (SystemTransfer source destination lamports) else Inl (WordRange (int lamports)))"

definition solWrapNative :: "('w, 'p) sol_env \<Rightarrow> sol_ntt \<Rightarrow> pubkey \<Rightarrow> nat \<Rightarrow> ('w, unit) sol_run" where
  "solWrapNative env ntt payer amount =
     (let nativeMint = sv_known env ''nativeMint'';
          associatedTokenAccount = sv_ata env nativeMint payer (sv_known env ''tokenProgram'') in
      if sn_token (so_contracts ntt) \<noteq> sv_toBase58 env nativeMint then returning (Inl NotNativeMint)
      else proceed (readingW (\<lambda>w. thrownV (sv_accountOwner env w associatedTokenAccount))) (\<lambda>accountExists.
           proceed (returning (transferLamports payer associatedTokenAccount amount)) (\<lambda>fund.
           let instructions = (if accountExists = None
                 then [CreateAta False payer associatedTokenAccount payer nativeMint (sv_known env ''tokenProgram'')] else []) @
               [fund, SyncNative associatedTokenAccount] in
           proceed (readingW (\<lambda>w. thrownV (sv_blockhash env w))) (\<lambda>_.
           unsignedSol env payer instructions [] [] ''Ntt.WrapNative''))))"

definition wrapFirst :: "('w, 'p) sol_env \<Rightarrow> sol_ntt \<Rightarrow> bool \<Rightarrow> pubkey \<Rightarrow> nat \<Rightarrow> ('w, unit) sol_run" where
  "wrapFirst env ntt wanted payer amount = (if wanted then solWrapNative env ntt payer amount else returning (Inr ()))"

text \<open>The instruction that locks or burns, by the mode of the manager.\<close>

definition createTransferIx :: "('w, 'p) sol_env \<Rightarrow> sol_program \<Rightarrow> sol_config \<Rightarrow> tx_args \<Rightarrow> 'w \<Rightarrow> sol_error + sol_ix" where
  "createTransferIx env program config args w =
     (if cf_locking config then createTransferLockInstruction env program config args w
      else createTransferBurnInstruction env program config args w)"

definition releaseIxs :: "('w, 'p) sol_env \<Rightarrow> sol_ntt \<Rightarrow> pubkey \<Rightarrow> pubkey \<Rightarrow> bool \<Rightarrow> sol_error + sol_ix list" where
  "releaseIxs env ntt payer outboxItem revertOnDelay =
     (if so_transceivers ntt = [] then Inr []
      else andThen (requireXcvr env ntt 0) (\<lambda>whTransceiver.
           andThen (createReleaseWormholeOutboundIx env ntt whTransceiver payer outboxItem revertOnDelay) (\<lambda>ix. Inr [ix])))"

text \<open>
  \<open>outboxItem\<close> is the key given or generated. The transaction that transfers is the last one; what the generator does
  before it yields it is \<open>transferTx\<close>, so that a caller can change it.
\<close>

definition transferTx :: "('w, 'p) sol_env \<Rightarrow> sol_ntt \<Rightarrow> pubkey \<Rightarrow> nat \<Rightarrow> string \<times> bytes \<Rightarrow> sol_options \<Rightarrow> pubkey \<Rightarrow> ('w, sol_tx) sol_run" where
  "transferTx env ntt payer amount destination options outboxItem =
     proceed (solConfig env ntt) (\<lambda>config.
     if cf_paused config then returning (Inl SolPaused)
     else if op_automatic options then returning (Inl AutomaticUnsupported)
     else let source = tokenAccountOf env config payer in
     proceed (wrapFirst env ntt (op_wrapNative options) payer amount) (\<lambda>_.
     let args = transferArgs env amount destination (op_queue options);
         txArgs = \<lparr>ta_payer = payer, ta_from = source, ta_fromAuthority = payer, ta_transferArgs = args, ta_outboxItem = outboxItem\<rparr> in
     proceed (returning (sessionAuthorityOf env (so_program ntt) payer args)) (\<lambda>delegate.
     proceed (readingW (createTransferIx env (so_program ntt) config txArgs)) (\<lambda>transferIx.
     proceed (returning (releaseIxs env ntt payer outboxItem (\<not> op_queue options))) (\<lambda>releases.
     proceed (lutsOrNone env ntt) (\<lambda>luts.
     proceed (readingW (\<lambda>w. thrownV (sv_blockhash env w))) (\<lambda>_.
     returning (Inr (solTx payer (Approve source delegate payer amount (cf_tokenProgram config) # transferIx # releases)
       [outboxItem] luts ''Ntt.Transfer'')))))))))"

definition solTransfer :: "('w, 'p) sol_env \<Rightarrow> sol_ntt \<Rightarrow> pubkey \<Rightarrow> nat \<Rightarrow> string \<times> bytes \<Rightarrow> sol_options \<Rightarrow> pubkey \<Rightarrow> ('w, unit) sol_run" where
  "solTransfer env ntt payer amount destination options outboxItem =
     proceed (transferTx env ntt payer amount destination options outboxItem) (yieldTx env)"

section \<open>Redeeming\<close>

definition createAta :: "('w, 'p) sol_env \<Rightarrow> sol_ntt \<Rightarrow> pubkey \<Rightarrow> ('w, unit) sol_run" where
  "createAta env ntt sender =
     proceed (solConfig env ntt) (\<lambda>config.
     let ata = tokenAccountOf env config sender in
     proceed (readingW (\<lambda>w. thrownV (sv_accountOwner env w ata))) (\<lambda>acctInfo.
     if acctInfo = None
     then unsignedSol env sender [CreateAta False sender ata sender (cf_mint config) (cf_tokenProgram config)] [] [] ''Redeem.CreateATA''
     else returning (Inr ())))"

definition postSignaturesIx :: "('w, 'p) sol_env \<Rightarrow> sol_program \<Rightarrow> 'p sol_vaa \<Rightarrow> pubkey \<Rightarrow> pubkey \<Rightarrow> sol_error + sol_ix" where
  "postSignaturesIx env verifyVaaShim vaa payer guardianSignatures =
     anchorIx env verifyVaaShim ''postSignatures''
       [ArgNum (int (va_guardianSet vaa)), ArgNum (int (length (va_signatures vaa))),
        ArgList (map (\<lambda>(guardianIndex, signature). ArgBytes (word_of_nat guardianIndex # signature)) (va_signatures vaa))]
       [(''payer'', Some payer), (''guardianSignatures'', Some guardianSignatures)]"

definition closeSignaturesIx :: "('w, 'p) sol_env \<Rightarrow> sol_program \<Rightarrow> pubkey \<Rightarrow> pubkey \<Rightarrow> sol_error + sol_ix" where
  "closeSignaturesIx env verifyVaaShim guardianSignatures refundRecipient =
     anchorIx env verifyVaaShim ''closeSignatures'' []
       [(''guardianSignatures'', Some guardianSignatures), (''refundRecipient'', Some refundRecipient)]"

definition postingVaa :: "('w, 'p) sol_env \<Rightarrow> pubkey \<Rightarrow> 'p sol_vaa \<Rightarrow> ('w, unit) sol_run" where
  "postingVaa env payer vaa = (\<lambda>(w, c). case sv_postVaa env payer vaa w of (ys, r, w') \<Rightarrow> (ys, thrownV r, (w', c)))"

text \<open>The instructions that hand the VAA to the transceiver; \<open>fresh\<close> is the key generated for the signatures.\<close>

definition receiveIxs :: "('w, 'p) sol_env \<Rightarrow> sol_ntt \<Rightarrow> sol_xcvr \<Rightarrow> 'p sol_vaa \<Rightarrow> pubkey \<Rightarrow> pubkey \<Rightarrow> ('w, sol_ix list) sol_run" where
  "receiveIxs env ntt whTransceiver wormholeNTT sender fresh =
     (case xc_verifyVaaShim whTransceiver of
        Some verifyVaaShim \<Rightarrow>
          proceed (returning (postSignaturesIx env verifyVaaShim wormholeNTT sender fresh)) (\<lambda>ix.
          proceed (unsignedSol env sender [ix] [fresh] [] ''VerifyVAAShim.PostSignature'') (\<lambda>_.
          returning (andThen (createReceiveIx env ntt whTransceiver wormholeNTT sender (Some fresh) False) (\<lambda>receive.
            andThen (closeSignaturesIx env verifyVaaShim fresh sender) (\<lambda>close. Inr [receive, close])))))
      | None \<Rightarrow>
          proceed (postingVaa env sender wormholeNTT) (\<lambda>_.
          returning (andThen (createReceiveIx env ntt whTransceiver wormholeNTT sender None False) (\<lambda>receive. Inr [receive]))))"

definition releaseArgsOf :: "pubkey \<Rightarrow> string \<Rightarrow> 'p sol_message \<Rightarrow> 'p release_args" where
  "releaseArgsOf payer chain nttMessage =
     \<lparr>re_payer = payer, re_chain = chain, re_nttMessage = nttMessage, re_revertWhenNotReady = False,
      re_recipient = Some (ms_recipientAddress nttMessage)\<rparr>"

definition createReleaseIx :: "('w, 'p) sol_env \<Rightarrow> sol_program \<Rightarrow> sol_config \<Rightarrow> 'p release_args \<Rightarrow> 'w \<Rightarrow> sol_error + sol_ix" where
  "createReleaseIx env program config args w =
     (if cf_locking config then createReleaseInboundUnlockInstruction env program config args w
      else createReleaseInboundMintInstruction env program config args w)"

definition redeemFirst :: "('w, 'p) sol_env \<Rightarrow> sol_ntt \<Rightarrow> sol_config \<Rightarrow> 'p sol_vaa \<Rightarrow> pubkey \<Rightarrow> pubkey \<Rightarrow> ('w, unit) sol_run" where
  "redeemFirst env ntt config wormholeNTT sender fresh =
     (if va_payloadName wormholeNTT \<noteq> ''WormholeTransfer'' then returning (Inl InvalidAttestationPayload)
      else proceed (returning (requireXcvr env ntt 0)) (\<lambda>whTransceiver.
     proceed (createAta env ntt sender) (\<lambda>_.
     proceed (receiveIxs env ntt whTransceiver wormholeNTT sender fresh) (\<lambda>receives.
     proceed (returning (createRedeemInstruction env (so_program ntt) config (xc_program whTransceiver) sender wormholeNTT)) (\<lambda>redeemIx.
     proceed (readingW (createReleaseIx env (so_program ntt) config
       (releaseArgsOf sender (va_emitterChain wormholeNTT) (va_message wormholeNTT)))) (\<lambda>releaseIx.
     proceed (lutsOrNone env ntt) (\<lambda>luts.
     proceed (readingW (\<lambda>w. thrownV (sv_blockhash env w))) (\<lambda>_.
     unsignedSol env sender (receives @ [redeemIx, releaseIx]) [] luts ''Ntt.Redeem''))))))))"

text \<open>Only the first attestation is redeemed.\<close>

definition solRedeem :: "('w, 'p) sol_env \<Rightarrow> sol_ntt \<Rightarrow> 'p sol_vaa list \<Rightarrow> pubkey \<Rightarrow> pubkey \<Rightarrow> ('w, unit) sol_run" where
  "solRedeem env ntt attestations payer fresh =
     proceed (solConfig env ntt) (\<lambda>config.
     if cf_paused config then returning (Inl SolPaused)
     else if length attestations \<noteq> length (so_transceivers ntt) then returning (Inl NotEnoughAttestations)
     else case attestations of
        [] \<Rightarrow> returning (Inr ())
      | wormholeNTT # _ \<Rightarrow> redeemFirst env ntt config wormholeNTT payer fresh)"

definition solCompleteQueued :: "('w, 'p) sol_env \<Rightarrow> sol_ntt \<Rightarrow> string \<Rightarrow> 'p sol_message \<Rightarrow> pubkey \<Rightarrow> ('w, unit) sol_run" where
  "solCompleteQueued env ntt fromChain transceiverMessage sender =
     proceed (solConfig env ntt) (\<lambda>config.
     if cf_paused config then returning (Inl SolPaused)
     else proceed (readingW (createReleaseIx env (so_program ntt) config (releaseArgsOf sender fromChain transceiverMessage))) (\<lambda>ix.
          unsignedSol env sender [ix] [] [] ''Ntt.CompleteInboundTransfer''))"

section \<open>Status of a transfer\<close>

definition textIncludes :: "string \<Rightarrow> string \<Rightarrow> bool" where
  "textIncludes s t \<longleftrightarrow> list_ex (\<lambda>i. startsWith (drop i s) t) [0..<Suc (length s)]"

text \<open>The inbox item, \<open>None\<close> when the account does not exist; other failures are thrown.\<close>

definition inboxItemIfAny :: "('w, 'p) sol_env \<Rightarrow> sol_ntt \<Rightarrow> string \<Rightarrow> 'p sol_message \<Rightarrow> 'w \<Rightarrow> sol_error + sol_inbox_item option" where
  "inboxItemIfAny env ntt chain nttMessage w =
     (case sv_inboxItem env w (inboxItemOf env (so_program ntt) chain nttMessage) of
        Inr item \<Rightarrow> Inr (Some item)
      | Inl e \<Rightarrow> if textIncludes e ''Account does not exist'' then Inr None else Inl (SolThrown e))"

definition solIsExecuted :: "('w, 'p) sol_env \<Rightarrow> sol_ntt \<Rightarrow> 'p sol_vaa \<Rightarrow> 'w \<Rightarrow> sol_error + bool" where
  "solIsExecuted env ntt attestation w =
     (if va_payloadName attestation \<noteq> ''WormholeTransfer'' then Inr False
      else andThen (inboxItemIfAny env ntt (va_emitterChain attestation) (va_message attestation) w) (\<lambda>item.
           Inr (case item of None \<Rightarrow> False | Some i \<Rightarrow> si_releaseStatus i = SolReleased)))"

definition solIsQueued :: "('w, 'p) sol_env \<Rightarrow> sol_ntt \<Rightarrow> 'p sol_vaa \<Rightarrow> 'w \<Rightarrow> sol_error + bool" where
  "solIsQueued env ntt attestation w =
     (if va_payloadName attestation \<noteq> ''WormholeTransfer'' then Inr False
      else andThen (inboxItemIfAny env ntt (va_emitterChain attestation) (va_message attestation) w) (\<lambda>item.
           Inr (case item of None \<Rightarrow> False | Some i \<Rightarrow> (case si_releaseStatus i of SolReleaseAfter _ \<Rightarrow> True | _ \<Rightarrow> False))))"

definition solIsApproved :: "('w, 'p) sol_env \<Rightarrow> sol_ntt \<Rightarrow> 'p sol_vaa \<Rightarrow> 'w \<Rightarrow> sol_error + bool" where
  "solIsApproved env ntt attestation w =
     (if va_payloadName attestation \<noteq> ''WormholeTransfer'' then Inl InvalidPayloadName
      else andThen (inboxItemIfAny env ntt (va_emitterChain attestation) (va_message attestation) w) (\<lambda>item.
           Inr (case item of None \<Rightarrow> False | Some i \<Rightarrow> si_init i)))"

record sol_queued =
  qt_recipient :: pubkey
  qt_amount :: nat
  qt_rateLimitExpiryTimestamp :: nat

text \<open>\<open>toNumber\<close> throws for a number that a double does not hold exactly.\<close>

definition toNumber :: "nat \<Rightarrow> sol_error + nat" where
  "toNumber n = (if n < 2 ^ 53 then Inr n else Inl (WordRange (int n)))"

definition solQueuedTransfer :: "('w, 'p) sol_env \<Rightarrow> sol_ntt \<Rightarrow> string \<Rightarrow> 'p sol_message \<Rightarrow> 'w \<Rightarrow> sol_error + sol_queued option" where
  "solQueuedTransfer env ntt chain nttMessage w =
     andThen (inboxItemIfAny env ntt chain nttMessage w) (\<lambda>item.
     case item of
       None \<Rightarrow> Inr None
     | Some inboxItem \<Rightarrow>
         (case si_releaseStatus inboxItem of
            SolReleaseAfter time \<Rightarrow>
              andThen (toNumber time) (\<lambda>rateLimitExpiry.
              Inr (Some \<lparr>qt_recipient = si_recipientAddress inboxItem, qt_amount = si_amount inboxItem,
                qt_rateLimitExpiryTimestamp = rateLimitExpiry\<rparr>))
          | _ \<Rightarrow> Inr None))"

section \<open>Addresses\<close>

datatype sol_tree = Leaf string | Node "(string \<times> sol_tree) list"

text \<open>
  \<open>deleteMatching(a, b)\<close>: what differs from \<open>b\<close> is kept. On the trees below, a node of \<open>a\<close> has a node of \<open>b\<close> beside it.
\<close>

fun deleteEqual :: "(string \<times> sol_tree) list \<Rightarrow> (string \<times> sol_tree) list \<Rightarrow> (string \<times> sol_tree) list" where
  "deleteEqual [] b = []"
| "deleteEqual ((k, Leaf s) # a) b = (if map_of b k = Some (Leaf s) then [] else [(k, Leaf s)]) @ deleteEqual a b"
| "deleteEqual ((k, Node m) # a) b =
     (let kept = deleteEqual m (case map_of b k of Some (Node n) \<Rightarrow> n | _ \<Rightarrow> [])
      in (if kept = [] then [] else [(k, Node kept)])) @ deleteEqual a b"

definition addressTree :: "string \<Rightarrow> string \<Rightarrow> string option \<Rightarrow> (string \<times> sol_tree) list" where
  "addressTree manager token wormhole =
     [(''manager'', Leaf manager), (''token'', Leaf token),
      (''transceiver'', Node (case wormhole of None \<Rightarrow> [] | Some a \<Rightarrow> [(''wormhole'', Leaf a)]))]"

definition solVerifyAddresses :: "('w, 'p) sol_env \<Rightarrow> sol_ntt \<Rightarrow> ('w, (string \<times> sol_tree) list option) sol_run" where
  "solVerifyAddresses env ntt =
     proceed (returning (solTransceiver env ntt 0)) (\<lambda>whTransceiver.
     let contracts = so_contracts ntt;
         local = addressTree (sn_manager contracts) (sn_token contracts)
           (map_option (\<lambda>xcvr. emitterText env (xc_program xcvr)) whTransceiver) in
     proceed (solConfig env ntt) (\<lambda>config.
     let remote = addressTree (sv_toBase58 env (pg_id (so_program ntt))) (sv_toBase58 env (cf_mint config))
           (Some (emitterText env (so_program ntt)));
         wrong = deleteEqual remote local in
     returning (Inr (if wrong = [] then None else Some wrong))))"

end
