(* ===== verification/Solana_Lawful.thy ===== *)
theory Solana_Lawful
  imports Solana_Ntt
begin

text \<open>
  What the transactions of the Solana protocol look like: the accounts that the instructions of one transaction name
  agree, and what is delegated is what the transfer asks for.
\<close>

section \<open>Instructions\<close>

fun namedKey :: "sol_ix \<Rightarrow> string \<Rightarrow> pubkey option" where
  "namedKey (Anchor program method args accounts keys) name = (case map_of accounts name of Some (Some k) \<Rightarrow> Some k | _ \<Rightarrow> None)"
| "namedKey _ name = None"

fun calls :: "sol_ix \<Rightarrow> pubkey \<Rightarrow> string \<Rightarrow> bool" where
  "calls (Anchor program method args accounts keys) p m \<longleftrightarrow> program = p \<and> method = m"
| "calls _ p m \<longleftrightarrow> False"

fun argsOf :: "sol_ix \<Rightarrow> sol_arg list" where
  "argsOf (Anchor program method args accounts keys) = args"
| "argsOf _ = []"

lemma addKeys_sel [simp]:
  "namedKey (addKeys ix metas) name = namedKey ix name" "calls (addKeys ix metas) p m = calls ix p m"
  "argsOf (addKeys ix metas) = argsOf ix"
  by (cases ix; simp)+

text \<open>The accounts of a hook are only appended to the keys.\<close>

lemma addKeys_Nil: "addKeys ix [] = ix"
  by (cases ix) simp_all

lemma withTransferHook_Inr:
  assumes "withTransferHook env w mintInfo ix source mint destination owner = Inr ix'"
  obtains metas where "ix' = addKeys ix metas"
proof -
  have "\<exists>metas. ix' = addKeys ix metas"
  proof (cases "ix' = ix")
    case True
    then show ?thesis by (metis addKeys_Nil)
  next
    case False
    then show ?thesis using assms
      by (auto simp: withTransferHook_def addExtraAccountMetasForExecute_def Let_def andThen_eq_Inr split: option.splits if_splits)
  qed
  then show thesis using that by blast
qed

definition chainLaws :: "('w, 'p) sol_env \<Rightarrow> bool" where
  "chainLaws env \<longleftrightarrow> (\<forall>n chain. sv_toChain env n = Inr chain \<longrightarrow> sk_toChainId (sv_keys env) chain = n)"

section \<open>Sending\<close>

text \<open>The instruction that spends: it names the delegate, the account the tokens come from and the peer of the destination.\<close>

definition spends :: "('w, 'p) sol_env \<Rightarrow> sol_program \<Rightarrow> sol_config \<Rightarrow> tx_args \<Rightarrow> pubkey \<Rightarrow> sol_ix \<Rightarrow> bool" where
  "spends env program config args delegate ix \<longleftrightarrow>
     calls ix (pg_id program) (if cf_locking config then ''transferLock'' else ''transferBurn'') \<and>
     argsOf ix = [transferArgsArg (ta_transferArgs args)] \<and>
     namedKey ix ''sessionAuthority'' = Some delegate \<and> namedKey ix ''common.from'' = Some (ta_from args) \<and>
     namedKey ix ''common.outboxItem'' = Some (ta_outboxItem args) \<and> namedKey ix ''common.mint'' = Some (cf_mint config) \<and>
     namedKey ix ''common.custody'' = Some (custodyOf env program config) \<and>
     namedKey ix ''peer'' = Some (pdaIn env program (PeerAccount (tg_recipientChain (ta_transferArgs args)))) \<and>
     namedKey ix ''inboxRateLimit'' = Some (pdaIn env program (InboxRateLimitAccount (tg_recipientChain (ta_transferArgs args))))"

lemma createTransferIx_spends:
  assumes "chainLaws env" "createTransferIx env program config args w = Inr ix"
  shows "\<exists>delegate. sessionAuthorityOf env program (ta_fromAuthority args) (ta_transferArgs args) = Inr delegate \<and>
    spends env program config args delegate ix"
proof -
  have chain: "sk_toChainId (sv_keys env) chain = tg_recipientChain (ta_transferArgs args)"
    if "sv_toChain env (tg_recipientChain (ta_transferArgs args)) = Inr chain" for chain
    using that assms(1) by (simp add: chainLaws_def)
  show ?thesis
    using assms(2)
    by (auto simp: createTransferIx_def createTransferLockInstruction_def createTransferBurnInstruction_def Let_def andThen_eq_Inr
        anchorIx_eq_Inr spends_def transferCommon_def peerAccountOf_def inboxRateLimitOf_def dest: chain elim!: withTransferHook_Inr split: if_splits)
qed

lemma sessionAuthorityOf_Inr:
  "sessionAuthorityOf env program sender args = Inr delegate \<longleftrightarrow> tg_amount args < 2 ^ 64 \<and>
     delegate = pdaIn env program (SessionAuthority sender (sk_keccak256 (sv_keys env)
       (be_bytes 8 (tg_amount args) @ chainIdBytes (tg_recipientChain args) @ tg_recipientAddress args @
        [if tg_shouldQueue args then 1 else 0])))"
proof (cases "tg_amount args < 2 ^ 64")
  case True
  then show ?thesis
    by (auto simp: sessionAuthorityOf_def sessionAuthority_def sessionDigest_eq andThen_def utilV_def pdaIn_def)
next
  case False
  then obtain e where "sessionDigest (sv_keys env) args = Inl e" using sessionDigest_large [of args "sv_keys env"] by auto
  then show ?thesis using False by (simp add: sessionAuthorityOf_def sessionAuthority_def andThen_def utilV_def)
qed

lemma solConfig_Inr:
  assumes "solConfig env ntt wc = (ys, Inr config, wc')"
  shows "ys = [] \<and> fst wc' = fst wc \<and> ca_config (snd wc') = Some config \<and>
    (ca_config (snd wc) = Some config \<or> ca_config (snd wc) = None \<and> fetchConfig env (so_program ntt) (fst wc) = Inr config)"
  using assms by (cases wc) (auto simp: solConfig_def split: option.splits sum.splits)

lemma lutsOrNone_Inr:
  assumes "lutsOrNone env ntt wc = (ys, Inr luts, wc')"
  shows "ys = [] \<and> fst wc' = fst wc \<and> ca_config (snd wc') = ca_config (snd wc) \<and> length luts \<le> 1"
  using assms
  by (cases wc) (auto simp: lutsOrNone_def proceed_def attemptRun_def solLookupTable_def returning_def Let_def split: option.splits sum.splits if_splits)

lemma wrapFirst_Inr:
  assumes "wrapFirst env ntt wanted payer amount wc = (ys, Inr u, wc')"
  shows "list_all (\<lambda>t. sx_title t = ''Ntt.WrapNative'') ys \<and> snd wc' = snd wc"
  using assms by (auto simp: wrapFirst_def solWrapNative_def Let_def process_simps split: if_splits)

lemma releaseIxs_outbox:
  assumes "releaseIxs env ntt payer outboxItem revertOnDelay = Inr releases"
  shows "list_all (\<lambda>r. namedKey r ''outboxItem'' = Some outboxItem) releases \<and> (releases = [] \<longleftrightarrow> so_transceivers ntt = [])"
  using assms
  by (auto simp: releaseIxs_def andThen_eq_Inr createReleaseWormholeOutboundIx_def Let_def anchorIx_eq_Inr split: if_splits)

definition txArgsOf :: "('w, 'p) sol_env \<Rightarrow> sol_config \<Rightarrow> pubkey \<Rightarrow> nat \<Rightarrow> string \<times> bytes \<Rightarrow> bool \<Rightarrow> pubkey \<Rightarrow> tx_args" where
  "txArgsOf env config payer amount destination queue outboxItem =
     \<lparr>ta_payer = payer, ta_from = tokenAccountOf env config payer, ta_fromAuthority = payer,
      ta_transferArgs = transferArgs env amount destination queue, ta_outboxItem = outboxItem\<rparr>"

definition transferOf :: "('w, 'p) sol_env \<Rightarrow> sol_ntt \<Rightarrow> pubkey \<Rightarrow> nat \<Rightarrow> string \<times> bytes \<Rightarrow> bool \<Rightarrow> pubkey \<Rightarrow> sol_config \<Rightarrow> sol_tx \<Rightarrow> bool" where
  "transferOf env ntt payer amount destination queue outboxItem config tx \<longleftrightarrow>
     sx_title tx = ''Ntt.Transfer'' \<and> sx_payer tx = payer \<and> sx_signers tx = [outboxItem] \<and> \<not> cf_paused config \<and> amount < 2 ^ 64 \<and>
     (\<exists>delegate transferIx releases.
        sx_instructions tx = Approve (tokenAccountOf env config payer) delegate payer amount (cf_tokenProgram config) # transferIx # releases \<and>
        sessionAuthorityOf env (so_program ntt) payer (transferArgs env amount destination queue) = Inr delegate \<and>
        spends env (so_program ntt) config (txArgsOf env config payer amount destination queue outboxItem) delegate transferIx \<and>
        list_all (\<lambda>r. namedKey r ''outboxItem'' = Some outboxItem) releases \<and> (releases = [] \<longleftrightarrow> so_transceivers ntt = []))"

definition readConfig :: "('w, 'p) sol_env \<Rightarrow> sol_ntt \<Rightarrow> 'w \<times> sol_cache \<Rightarrow> sol_config \<Rightarrow> bool" where
  "readConfig env ntt wc config \<longleftrightarrow>
     ca_config (snd wc) = Some config \<or> ca_config (snd wc) = None \<and> fetchConfig env (so_program ntt) (fst wc) = Inr config"

lemma transferTx_transfers:
  assumes "chainLaws env" "transferTx env ntt payer amount destination options outboxItem wc = (ys, Inr tx, wc')"
  shows "\<exists>config. readConfig env ntt wc config \<and> ca_config (snd wc') = Some config \<and>
    list_all (\<lambda>t. sx_title t = ''Ntt.WrapNative'') ys \<and>
    transferOf env ntt payer amount destination (op_queue options) outboxItem config tx"
proof -
  from assms(2) obtain config wc1 where config: "solConfig env ntt wc = ([], Inr config, wc1)" and unpaused: "\<not> cf_paused config"
    by (auto simp: transferTx_def process_simps dest: solConfig_Inr split: if_splits)
  let ?args = "txArgsOf env config payer amount destination (op_queue options) outboxItem"
  from assms(2) config obtain us wc2 delegate transferIx releases luts vs wc3 where
    wrap: "wrapFirst env ntt (op_wrapNative options) payer amount wc1 = (us, Inr (), wc2)"
    and delegate: "sessionAuthorityOf env (so_program ntt) payer (transferArgs env amount destination (op_queue options)) = Inr delegate"
    and transferIx: "createTransferIx env (so_program ntt) config ?args (fst wc2) = Inr transferIx"
    and releases: "releaseIxs env ntt payer outboxItem (\<not> op_queue options) = Inr releases"
    and luts: "lutsOrNone env ntt wc2 = (vs, Inr luts, wc3)"
    and ends: "ys = us @ vs" "wc' = wc3"
      "tx = solTx payer (Approve (tokenAccountOf env config payer) delegate payer amount (cf_tokenProgram config) # transferIx # releases)
        [outboxItem] luts ''Ntt.Transfer''"
    unfolding transferTx_def txArgsOf_def proceed_eq_Inr [of "solConfig env ntt"]
    by (auto simp: Let_def process_simps split: if_splits)
  have "tg_amount (transferArgs env amount destination (op_queue options)) = amount" by (simp add: transferArgs_def)
  then have amount: "amount < 2 ^ 64" using delegate by (simp add: sessionAuthorityOf_Inr)
  have "ta_fromAuthority ?args = payer" "ta_transferArgs ?args = transferArgs env amount destination (op_queue options)"
    by (simp_all add: txArgsOf_def)
  then have "spends env (so_program ntt) config ?args delegate transferIx"
    using createTransferIx_spends [OF assms(1) transferIx] delegate by auto
  then have "transferOf env ntt payer amount destination (op_queue options) outboxItem config tx"
    using releaseIxs_outbox [OF releases] delegate unpaused amount by (simp add: transferOf_def ends(3))
  moreover have "readConfig env ntt wc config" "ca_config (snd wc1) = Some config"
    using solConfig_Inr [OF config] by (simp_all add: readConfig_def)
  ultimately show ?thesis
    using wrapFirst_Inr [OF wrap] lutsOrNone_Inr [OF luts] ends by auto
qed


section \<open>Redeeming\<close>

lemma createReceiveIx_message:
  assumes "createReceiveIx env ntt this vaa payer signatures useMessageAccount = Inr ix"
  shows "namedKey ix ''transceiverMessage'' = Some (transceiverMessageOf env this vaa)"
    and "\<exists>m. calls ix (pg_id (xc_program this)) m"
proof -
  have "namedKey ix ''transceiverMessage'' = Some (transceiverMessageOf env this vaa) \<and> (\<exists>m. calls ix (pg_id (xc_program this)) m)"
    using assms
    by (auto simp: createReceiveIx_def Let_def andThen_eq_Inr anchorIx_eq_Inr case_prod_unfold split: option.splits if_splits)
  then show "namedKey ix ''transceiverMessage'' = Some (transceiverMessageOf env this vaa)" "\<exists>m. calls ix (pg_id (xc_program this)) m"
    by auto
qed

lemma receiveIxs_Inr:
  assumes "receiveIxs env ntt this vaa sender fresh wc = (ys, Inr ixs, wc')"
  shows "\<exists>receive rest signatures. ixs = receive # rest \<and> createReceiveIx env ntt this vaa sender signatures False = Inr receive"
  using assms by (auto simp: receiveIxs_def process_simps andThen_eq_Inr split: option.splits)

lemma createRedeemInstruction_Inr:
  assumes "createRedeemInstruction env program config transceiver payer vaa = Inr ix"
  shows "calls ix (pg_id program) ''redeem''"
    and "namedKey ix ''transceiverMessage'' = Some (pdaIn env transceiver
           (TransceiverMessageAccount (sk_toChainId (sv_keys env) (va_emitterChain vaa)) (ms_id (va_message vaa))))"
    and "namedKey ix ''transceiver'' = Some (pdaIn env program (RegisteredTransceiver (pg_id transceiver)))"
    and "namedKey ix ''inboxItem'' = Some (inboxItemOf env program (va_emitterChain vaa) (va_message vaa))"
    and "namedKey ix ''peer'' = Some (peerAccountOf env program (va_emitterChain vaa))"
  using assms by (auto simp: createRedeemInstruction_def Let_def anchorIx_eq_Inr)

text \<open>The instruction that releases a message: by the mode of the manager, to the token account of the message's recipient.\<close>

definition releases :: "('w, 'p) sol_env \<Rightarrow> sol_program \<Rightarrow> sol_config \<Rightarrow> string \<Rightarrow> 'p sol_message \<Rightarrow> sol_ix \<Rightarrow> bool" where
  "releases env program config chain nttMessage ix \<longleftrightarrow>
     calls ix (pg_id program) (if cf_locking config then ''releaseInboundUnlock'' else ''releaseInboundMint'') \<and>
     namedKey ix ''common.inboxItem'' = Some (inboxItemOf env program chain nttMessage) \<and>
     namedKey ix ''common.recipient'' = Some (tokenAccountOf env config (ms_recipientAddress nttMessage)) \<and>
     namedKey ix ''common.custody'' = Some (custodyOf env program config) \<and>
     namedKey ix ''common.mint'' = Some (cf_mint config) \<and>
     argsOf ix = [ArgRecord [(''revertOnDelay'', ArgBool False), (''revertWhenNotReady'', ArgBool False)]]"

lemma createReleaseIx_releases:
  assumes "createReleaseIx env program config (releaseArgsOf payer chain nttMessage) w = Inr ix"
  shows "releases env program config chain nttMessage ix"
  using assms
  by (auto simp: createReleaseIx_def createReleaseInboundUnlockInstruction_def createReleaseInboundMintInstruction_def Let_def
      andThen_eq_Inr anchorIx_eq_Inr releases_def releaseCommon_def releaseFlags_def recipientOf_def releaseArgsOf_def
      recipientAccount_def tokenAccountOf_def elim!: withTransferHook_Inr split: if_splits)

text \<open>The last transaction receives the message, redeems it and releases it.\<close>

definition redeemsOf :: "('w, 'p) sol_env \<Rightarrow> sol_ntt \<Rightarrow> sol_config \<Rightarrow> 'p sol_vaa \<Rightarrow> pubkey \<Rightarrow> sol_tx \<Rightarrow> bool" where
  "redeemsOf env ntt config vaa payer tx \<longleftrightarrow> sx_title tx = ''Ntt.Redeem'' \<and> sx_payer tx = payer \<and>
     (\<exists>receive rest redeemIx releaseIx transceiver m.
        sx_instructions tx = receive # rest @ [redeemIx, releaseIx] \<and>
        calls receive transceiver m \<and> calls redeemIx (pg_id (so_program ntt)) ''redeem'' \<and>
        namedKey redeemIx ''transceiver'' = Some (pdaIn env (so_program ntt) (RegisteredTransceiver transceiver)) \<and>
        namedKey redeemIx ''transceiverMessage'' \<noteq> None \<and>
        namedKey receive ''transceiverMessage'' = namedKey redeemIx ''transceiverMessage'' \<and>
        namedKey redeemIx ''inboxItem'' = namedKey releaseIx ''common.inboxItem'' \<and>
        namedKey redeemIx ''peer'' = Some (peerAccountOf env (so_program ntt) (va_emitterChain vaa)) \<and>
        releases env (so_program ntt) config (va_emitterChain vaa) (va_message vaa) releaseIx)"

lemma redeemFirst_Inr:
  assumes "redeemFirst env ntt config vaa payer fresh wc = (txs, Inr (), wc')"
  shows "va_payloadName vaa = ''WormholeTransfer'' \<and> (\<exists>pre tx. txs = pre @ [tx] \<and> redeemsOf env ntt config vaa payer tx)"
proof -
  from assms have name: "va_payloadName vaa = ''WormholeTransfer''"
    by (auto simp: redeemFirst_def process_simps split: if_splits)
  from assms obtain this wc1 us receives wc2 redeemIx w2 releaseIx vs luts where
    receives: "receiveIxs env ntt this vaa payer fresh wc1 = (us, Inr receives, wc2)"
    and redeemIx: "createRedeemInstruction env (so_program ntt) config (xc_program this) payer vaa = Inr redeemIx"
    and releaseIx: "createReleaseIx env (so_program ntt) config (releaseArgsOf payer (va_emitterChain vaa) (va_message vaa)) w2 = Inr releaseIx"
    and txs: "\<exists>pre. txs = pre @ [solTx payer (receives @ [redeemIx, releaseIx]) [] luts ''Ntt.Redeem'']"
    by (auto simp: redeemFirst_def name process_simps)
  from receiveIxs_Inr [OF receives] obtain receive rest signatures where receive: "receives = receive # rest"
    "createReceiveIx env ntt this vaa payer signatures False = Inr receive" by blast
  obtain m where "calls receive (pg_id (xc_program this)) m" using createReceiveIx_message(2) [OF receive(2)] by blast
  moreover have "releases env (so_program ntt) config (va_emitterChain vaa) (va_message vaa) releaseIx"
    by (rule createReleaseIx_releases [OF releaseIx])
  ultimately have "redeemsOf env ntt config vaa payer (solTx payer (receives @ [redeemIx, releaseIx]) [] luts ''Ntt.Redeem'')"
    unfolding redeemsOf_def
    using createReceiveIx_message(1) [OF receive(2)] createRedeemInstruction_Inr [OF redeemIx] receive(1)
    by (simp add: transceiverMessageOf_def releases_def) blast
  then show ?thesis using name txs by blast
qed


text \<open>Completing a queued transfer releases the same item to the same account.\<close>

lemma solCompleteQueued_releases:
  assumes "solCompleteQueued env ntt fromChain nttMessage payer wc = (txs, Inr (), wc')"
  shows "\<exists>tx ix config. txs = [tx] \<and> readConfig env ntt wc config \<and> \<not> cf_paused config \<and> sx_instructions tx = [ix] \<and>
    releases env (so_program ntt) config fromChain nttMessage ix"
proof -
  from assms obtain config wc1 where config: "solConfig env ntt wc = ([], Inr config, wc1)"
    by (auto simp: solCompleteQueued_def process_simps dest: solConfig_Inr)
  with assms show ?thesis using solConfig_Inr [OF config]
    by (auto simp: solCompleteQueued_def process_simps readConfig_def dest: createReleaseIx_releases split: if_splits)
qed

section \<open>What the object remembers\<close>

text \<open>Once the configuration has been read, the world does not matter: a pause or an upgrade is not seen.\<close>

lemma solIsPaused_cached: "ca_config c = Some config \<Longrightarrow> solIsPaused env ntt (w, c) = ([], Inr (cf_paused config), (w, c))"
  by (simp add: solIsPaused_def proceed_def solConfig_def returning_def)

section \<open>Lookup tables\<close>

text \<open>The table is left alone only when it has every key it should have.\<close>

lemma initializeOrUpdateLUT_None:
  assumes "initializeOrUpdateLUT env program config transceiver payer owner wormholeId w = Inr None"
    and "majorOf (pg_version program) = Inr major" "\<not> ltInt major 2"
  shows "\<exists>table. getAddressLookupTable env program w = Inr (Some table) \<and>
    set (collectPubkeys (lutEntries env program config transceiver wormholeId)) \<subseteq> set (lt_addresses table)"
  using assms
  by (auto simp: initializeOrUpdateLUT_def andThen_eq_Inr Let_def filter_empty_conv split: option.splits if_splits)

section \<open>Verified addresses\<close>

text \<open>What the object was made with is compared with what its program has.\<close>

lemma solVerifyAddresses_cases:
  assumes "solConfig env ntt wc = ([], Inr config, wc1)" "solTransceiver env ntt 0 = Inr xcvr"
  shows "solVerifyAddresses env ntt wc = ([], Inr
    (let wrong =
       (if sv_toBase58 env (pg_id (so_program ntt)) = sn_manager (so_contracts ntt) then []
        else [(''manager'', Leaf (sv_toBase58 env (pg_id (so_program ntt))))]) @
       (if sv_toBase58 env (cf_mint config) = sn_token (so_contracts ntt) then [] else [(''token'', Leaf (sv_toBase58 env (cf_mint config)))]) @
       (if map_option (\<lambda>x. emitterText env (xc_program x)) xcvr = Some (emitterText env (so_program ntt)) then []
        else [(''transceiver'', Node [(''wormhole'', Leaf (emitterText env (so_program ntt)))])])
     in if wrong = [] then None else Some wrong), wc1)"
  using assms
  by (cases xcvr) (auto simp: solVerifyAddresses_def proceed_def returning_def addressTree_def Let_def)

section \<open>An example\<close>

text \<open>Addresses are what is hashed, and every account is found; the world counts the transactions.\<close>

definition exampleKeys :: "unit sol_message sol_keys" where
  "exampleKeys = \<lparr>sk_findProgramAddress = (\<lambda>seeds p. (concat seeds @ p, 255)), sk_keccak256 = (\<lambda>b. b), sk_serializeMessage = ms_id,
     sk_toChainId = (\<lambda>c. if c = ''Solana'' then 1 else 2)\<rparr>"

definition exampleSolConfig :: sol_config where
  "exampleSolConfig = \<lparr>cf_owner = OWNER, cf_mint = [7], cf_tokenProgram = [8], cf_custody = [9], cf_locking = True, cf_paused = False,
     cf_threshold = 1\<rparr>"

definition exampleTable :: sol_lut where
  "exampleTable = \<lparr>lt_key = [3], lt_addresses = []\<rparr>"

definition exampleSol :: "(nat, unit) sol_env" where
  "exampleSol = \<lparr>sv_keys = exampleKeys, sv_known = textBytes, sv_publicKey = (\<lambda>s. Inr (textBytes s)),
     sv_toBase58 = map (\<lambda>b. char_of (unat b)), sv_toChain = (\<lambda>n. if n = 1 then Inr ''Solana'' else if n = 2 then Inr ''Ethereum'' else Inl ''chain''),
     sv_anchor = (\<lambda>_ _ _ accounts. Inr (map readOnly (collectPubkeys accounts))), sv_ata = (\<lambda>mint owner p. mint @ owner @ p),
     sv_wormholeAccounts = (\<lambda>p _. \<lparr>wa_bridge = [], wa_feeCollector = [], wa_sequence = [], wa_emitter = p\<rparr>),
     sv_extraMetaAddress = (\<lambda>mint p. mint @ p), sv_createLookupTable = (\<lambda>a p _. a @ p), sv_toUniversal = (\<lambda>_ b. Inr b),
     sv_toUniversalText = (\<lambda>_ s. Inr (textBytes s)), sv_endpoint = [], sv_devnetEndpoint = [],
     sv_config = (\<lambda>_ _. Inr exampleSolConfig), sv_inboxItem = (\<lambda>_ _. Inl ''Account does not exist''), sv_rateLimit = (\<lambda>_ _. Inr (10, 20)),
     sv_peer = (\<lambda>_ _. Inr None), sv_transceiverPeer = (\<lambda>_ _. Inr None),
     sv_mint = (\<lambda>_ _ _. Inr \<lparr>mi_mintAuthority = None, mi_transferHook = None, mi_decimals = 9\<rparr>), sv_accountOwner = (\<lambda>_ _. Inr (Some [8])),
     sv_extraMetas = (\<lambda>_ _. Inr (Some [[1]])), sv_resolveExtraMeta = (\<lambda>_ b _ _. Inr \<lparr>am_pubkey = b, am_isSigner = True, am_isWritable = True\<rparr>),
     sv_lutPointer = (\<lambda>w _. Inr (if w < 2 then None else Some [3])), sv_lookupTable = (\<lambda>_ _. Inr (Some exampleTable)), sv_slot = (\<lambda>_. Inr 100),
     sv_blockhash = (\<lambda>_. Inr ''hash''), sv_simulate = (\<lambda>_ _ _. Inr (None, True)), sv_minimumRent = (\<lambda>_. Inr 2039280),
     sv_tokenDecimals = (\<lambda>_ _. Inr 9), sv_postedVaa = (\<lambda>_ hash. hash), sv_postVaa = (\<lambda>_ _ w. ([], Inr (), w)),
     sv_deliver = (\<lambda>_ w. w + 1), sv_wait = (\<lambda>w. w)\<rparr>"

definition exampleProgram :: sol_program where
  "exampleProgram = \<lparr>pg_id = [1], pg_idl = ''ntt'', pg_version = ''3.0.0''\<rparr>"

definition exampleSolNtt :: sol_ntt where
  "exampleSolNtt = \<lparr>so_network = ''Mainnet'', so_chain = ''Solana'',
     so_contracts = \<lparr>sn_manager = ''M'', sn_token = ''T'', sn_transceiver = [(''wormhole'', ''X'')], sn_svmShims = None\<rparr>,
     so_version = ''3.0.0'', so_program = exampleProgram, so_transceivers = [\<lparr>pg_id = [2], pg_idl = ''transceiver'', pg_version = ''3.0.0''\<rparr>],
     so_core = ''C'', so_coreProgram = [4]\<rparr>"

definition exampleSolVaa :: "unit sol_vaa" where
  "exampleSolVaa = \<lparr>va_payloadName = ''WormholeTransfer'', va_emitterChain = ''Ethereum'', va_guardianSet = 4, va_signatures = [], va_hash = replicate 32 5,
     va_serialized = [1, 0, 0, 0, 4, 1] @ replicate 66 0 @ [10, 11, 12, 13, 14],
     va_message = \<lparr>ms_id = replicate 32 6, ms_recipientAddress = PAYER, ms_rest = ()\<rparr>\<rparr>"

lemma exampleSol_laws: "chainLaws exampleSol"
  by (simp add: chainLaws_def exampleSol_def exampleKeys_def)

lemma major_3: "majorOf ''3.0.0'' = Inr (jsInt 3)"
proof -
  have digits: "all_digits ''3''" "all_digits ''0''" "nat_of_dec ''3'' = 3" by code_simp+
  have "parseSolVersion (''3'' @ ''.'' @ ''0'' @ ''.'' @ ''0'' @ []) =
      Inr (double_of_nat (nat_of_dec ''3''), double_of_nat (nat_of_dec ''0''), double_of_nat (nat_of_dec ''0''), [])"
    by (rule parseSolVersion_digits) (simp_all add: digits)
  then show ?thesis by (simp add: majorOf_def utilV_def andThen_def digits(3) double_of_nat_small)
qed

lemma exampleSol_xcvr: "requireXcvr exampleSol exampleSolNtt 0 = Inr \<lparr>xc_program = \<lparr>pg_id = [2], pg_idl = ''transceiver'', pg_version = ''3.0.0''\<rparr>,
    xc_version = ''3.0.0'', xc_postMessageShim = None, xc_verifyVaaShim = None\<rparr>"
  by (simp add: requireXcvr_def solTransceiver_def exampleSolNtt_def newSolXcvr_def andThen_def)

text \<open>A transfer and a redemption on this chain.\<close>

abbreviation exampleDestination :: "string \<times> bytes" where
  "exampleDestination \<equiv> (''Ethereum'', PAYER)"

abbreviation plainOptions :: sol_options where
  "plainOptions \<equiv> \<lparr>op_queue = False, op_automatic = False, op_wrapNative = False\<rparr>"

lemma exampleSol_sel:
  "sv_keys exampleSol = exampleKeys" "sv_known exampleSol s = textBytes s"
  "sv_toChain exampleSol n = (if n = 1 then Inr ''Solana'' else if n = 2 then Inr ''Ethereum'' else Inl ''chain'')"
  "sv_anchor exampleSol p m args accounts = Inr (map readOnly (collectPubkeys accounts))"
  "sv_config exampleSol w a = Inr exampleSolConfig" "sv_accountOwner exampleSol w a = Inr (Some [8])"
  "sv_mint exampleSol w a b = Inr \<lparr>mi_mintAuthority = None, mi_transferHook = None, mi_decimals = 9\<rparr>"
  "sv_blockhash exampleSol w = Inr ''hash''" "sv_deliver exampleSol tx w = w + 1" "sv_postVaa exampleSol a v w = ([], Inr (), w)"
  "sk_toChainId exampleKeys chain = (if chain = ''Solana'' then 1 else 2)"
  by (simp_all add: exampleSol_def exampleKeys_def)

lemma example_config: "solConfig exampleSol exampleSolNtt (w, emptyCache) = ([], Inr exampleSolConfig, (w, emptyCache\<lparr>ca_config := Some exampleSolConfig\<rparr>))"
  by (simp add: solConfig_def emptyCache_def fetchConfig_def thrownV_def exampleSol_sel)

lemma lutsOrNone_total: "\<exists>luts wc'. lutsOrNone env ntt wc = ([], Inr luts, wc') \<and> fst wc' = fst wc"
  by (cases wc) (auto simp: lutsOrNone_def proceed_def attemptRun_def solLookupTable_def returning_def Let_def split: option.splits sum.splits)

lemma example_releases: "\<exists>ixs. releaseIxs exampleSol exampleSolNtt payer outboxItem b = Inr ixs"
  by (simp add: releaseIxs_def exampleSol_xcvr createReleaseWormholeOutboundIx_def major_3 anchorIx_def exampleSol_sel thrownV_def andThen_def Let_def)

lemma example_transferIx:
  assumes "tg_recipientChain (ta_transferArgs args) = 2" "tg_amount (ta_transferArgs args) < 2 ^ 64"
  shows "\<exists>ix. createTransferIx exampleSol program exampleSolConfig args w = Inr ix"
proof -
  obtain delegate where "sessionAuthorityOf exampleSol program (ta_fromAuthority args) (ta_transferArgs args) = Inr delegate"
    using assms(2) by (auto simp: sessionAuthorityOf_Inr)
  then show ?thesis
    using assms(1) by (simp add: createTransferIx_def createTransferLockInstruction_def exampleSolConfig_def exampleSol_sel thrownV_def andThen_def
        anchorIx_def mintInfoOf_def withTransferHook_def Let_def)
qed

lemma example_transferTx:
  assumes "amount < 2 ^ 64"
  shows "\<exists>tx wc'. transferTx exampleSol exampleSolNtt payer amount exampleDestination \<lparr>op_queue = queue, op_automatic = False, op_wrapNative = False\<rparr>
      outboxItem (w, emptyCache) = ([], Inr tx, wc') \<and> fst wc' = w"
proof -
  let ?args = "txArgsOf exampleSol exampleSolConfig payer amount exampleDestination queue outboxItem"
  let ?wc = "(w, emptyCache\<lparr>ca_config := Some exampleSolConfig\<rparr>)"
  have args: "tg_recipientChain (transferArgs exampleSol amount exampleDestination queue) = 2"
    "tg_amount (transferArgs exampleSol amount exampleDestination queue) = amount"
    by (simp_all add: transferArgs_def exampleSol_sel)
  obtain delegate where delegate: "sessionAuthorityOf exampleSol (so_program exampleSolNtt) payer (transferArgs exampleSol amount exampleDestination queue) = Inr delegate"
    using assms by (auto simp: sessionAuthorityOf_Inr args)
  obtain ix where ix: "createTransferIx exampleSol (so_program exampleSolNtt) exampleSolConfig ?args w = Inr ix"
    using example_transferIx [of ?args] args assms by (auto simp: txArgsOf_def)
  obtain ixs where ixs: "releaseIxs exampleSol exampleSolNtt payer outboxItem (\<not> queue) = Inr ixs" using example_releases by blast
  obtain luts wc' where luts: "lutsOrNone exampleSol exampleSolNtt ?wc = ([], Inr luts, wc')" "fst wc' = w"
    using lutsOrNone_total [of exampleSol exampleSolNtt ?wc] by auto
  have unpaused: "\<not> cf_paused exampleSolConfig" by (simp add: exampleSolConfig_def)
  have hash: "readingW (\<lambda>w. thrownV (sv_blockhash exampleSol w)) wc' = ([], Inr ''hash'', wc')"
    by (cases wc') (simp add: readingW_def reading_def exampleSol_sel thrownV_def)
  show ?thesis
    using delegate ix ixs luts hash
    by (simp add: transferTx_def proceed_def example_config unpaused wrapFirst_def returning_def readingW_def reading_def txArgsOf_def Let_def)
qed


lemma example_redeem:
  "\<exists>txs wc'. solRedeem exampleSol exampleSolNtt [exampleSolVaa] PAYER OWNER (0, emptyCache) = (txs, Inr (), wc')"
proof -
  let ?xcvr = "\<lparr>xc_program = \<lparr>pg_id = [2], pg_idl = ''transceiver'', pg_version = ''3.0.0''\<rparr>,
    xc_version = ''3.0.0'', xc_postMessageShim = None, xc_verifyVaaShim = None\<rparr>"
  let ?wc = "(0, emptyCache\<lparr>ca_config := Some exampleSolConfig\<rparr>)"
  let ?release = "releaseArgsOf PAYER (va_emitterChain exampleSolVaa) (va_message exampleSolVaa)"
  have name: "va_payloadName exampleSolVaa = ''WormholeTransfer''" by (simp add: exampleSolVaa_def)
  have count: "length (so_transceivers exampleSolNtt) = 1" by (simp add: exampleSolNtt_def)
  have unpaused: "\<not> cf_paused exampleSolConfig" by (simp add: exampleSolConfig_def)
  have config: "solConfig exampleSol exampleSolNtt ?wc = ([], Inr exampleSolConfig, ?wc)" by (simp add: solConfig_def)
  have ata: "createAta exampleSol exampleSolNtt PAYER ?wc = ([], Inr (), ?wc)"
    by (simp add: createAta_def proceed_def config readingW_def reading_def returning_def thrownV_def exampleSol_sel Let_def)
  obtain receives where receives: "receiveIxs exampleSol exampleSolNtt ?xcvr exampleSolVaa PAYER OWNER ?wc = ([], Inr receives, ?wc)"
    by (simp add: receiveIxs_def proceed_def postingVaa_def returning_def createReceiveIx_def anchorIx_def exampleSol_sel thrownV_def
        andThen_def Let_def)
  obtain redeemIx where redeemIx: "createRedeemInstruction exampleSol (so_program exampleSolNtt) exampleSolConfig (xc_program ?xcvr) PAYER exampleSolVaa = Inr redeemIx"
    by (simp add: createRedeemInstruction_def anchorIx_def exampleSol_sel thrownV_def andThen_def Let_def)
  obtain releaseIx where releaseIx: "createReleaseIx exampleSol (so_program exampleSolNtt) exampleSolConfig ?release 0 = Inr releaseIx"
    by (simp add: createReleaseIx_def exampleSolConfig_def createReleaseInboundUnlockInstruction_def recipientOf_def releaseArgsOf_def anchorIx_def
        exampleSol_sel thrownV_def andThen_def mintInfoOf_def withTransferHook_def)
  obtain luts wc' where luts: "lutsOrNone exampleSol exampleSolNtt ?wc = ([], Inr luts, wc')" using lutsOrNone_total by blast
  have "\<exists>txs wc'. redeemFirst exampleSol exampleSolNtt exampleSolConfig exampleSolVaa PAYER OWNER ?wc = (txs, Inr (), wc')"
    using ata receives redeemIx releaseIx luts
    by (cases wc') (simp add: redeemFirst_def name proceed_def returning_def exampleSol_xcvr readingW_def reading_def unsignedSol_def yieldTx_def sending_def exampleSol_sel(8) thrownV_def)
  then show ?thesis
    by (auto simp: solRedeem_def proceed_def example_config unpaused count)
qed



text \<open>
  C20. The accounts that a transfer hook adds never have more rights than the transfer gave: an added account that is
  the source, the mint, the destination, the owner or the list of extra accounts is neither a signer nor writable,
  and what the instruction had before is kept.
\<close>

theorem extraAccounts_never_escalate:
  assumes "addExtraAccountMetasForExecute env w ix programId source mint destination owner = Inr ix'"
    and "key \<in> {source, mint, destination, owner, sv_extraMetaAddress env mint programId}"
  shows "\<exists>added. metasOf ix' = metasOf ix @ added \<and>
     (\<forall>m \<in> set added. am_pubkey m = key \<longrightarrow> \<not> am_isSigner m \<and> \<not> am_isWritable m)"
  by (rule extraAccounts_rights [OF assms])

text \<open>The hook of the example asks for a signature of the source, and does not get it.\<close>

lemma extraAccounts_never_escalate_witness:
  "\<exists>ix' added. addExtraAccountMetasForExecute exampleSol 0 (Anchor [9] ''m'' [] [] (map readOnly [[1], [2], [3], [4]])) [8] [1] [2] [3] [4] = Inr ix' \<and>
     metasOf ix' = map readOnly [[1], [2], [3], [4]] @ added \<and> (\<forall>m \<in> set added. am_pubkey m = [1] \<longrightarrow> \<not> am_isSigner m)"
proof -
  let ?ix = "Anchor [9] ''m'' [] [] (map readOnly [[1], [2], [3], [4]])"
  obtain ix' where run: "addExtraAccountMetasForExecute exampleSol 0 ?ix [8] [1] [2] [3] [4] = Inr ix'"
    by (simp add: addExtraAccountMetasForExecute_def exampleSol_def thrownV_def andThen_def readOnly_def Let_def)
  from extraAccounts_never_escalate [OF run, of "[1]"] show ?thesis using run by auto
qed

end
