(* ===== verification/Solana_Executor.thy ===== *)
theory Solana_Executor
  imports Solana_Lawful Route_Executor
begin

text \<open>
  The transfer that is paid to a relayer, \<open>solana/ts/sdk/nttWithExecutor.ts\<close>: the transaction of \<open>SolanaNtt.transfer\<close> is
  taken apart, gets the payments of the quote and the request to the relayer, and is compiled again. Amounts of
  a quote are not negative. The keys \<open>nttWithExecutor\<close>, \<open>nttLut\<close> and \<open>executor\<close> of \<open>sv_known\<close> are the programs.
\<close>

record ('a, 'q) sol_exec_env =
  xe_addressKey :: "'a \<Rightarrow> string + pubkey"
  xe_universal :: "'a \<Rightarrow> bytes"
  xe_payeeKey :: "'q \<Rightarrow> string + pubkey"

definition executorProgram :: "('w, 'p) sol_env \<Rightarrow> string \<Rightarrow> sol_program" where
  "executorProgram env name = \<lparr>pg_id = sv_known env name, pg_idl = name, pg_version = []\<rparr>"

definition solExecutorFromRpc :: "string + string \<times> string \<Rightarrow> (string \<Rightarrow> string \<times> sol_contracts option) \<Rightarrow>
    sol_error + string \<times> string \<times> sol_contracts option" where
  "solExecutorFromRpc chainFromRpc config =
     andThen (thrownV chainFromRpc) (\<lambda>(network, chain).
       let (confNetwork, ntt) = config chain in
       if confNetwork \<noteq> network then Inl (SolNetworkMismatch confNetwork network) else Inr (network, chain, ntt))"

text \<open>What the referrer gets of the token.\<close>

definition payReferrerToken :: "('w, 'p) sol_env \<Rightarrow> ('a, 'q) sol_exec_env \<Rightarrow> sol_ntt \<Rightarrow> pubkey \<Rightarrow> ('a, 'q) exec_quote \<Rightarrow> ('w, sol_ix list) sol_run" where
  "payReferrerToken env xenv ntt sender q =
     (if eq_transferTokenFee q \<le> 0 then returning (Inr [])
      else proceed (returning (thrownV (xe_addressKey xenv (rt_address (eq_referrer q))))) (\<lambda>referrer.
     proceed (solConfig env ntt) (\<lambda>config.
     let mint = cf_mint config; tokenProgram = cf_tokenProgram config;
         referrerAta = sv_ata env mint referrer tokenProgram; senderAta = sv_ata env mint sender tokenProgram in
     proceed (readingW (\<lambda>w. thrownV (sv_accountOwner env w referrerAta))) (\<lambda>referrerAtaAccount.
     proceed (readingW (\<lambda>w. mintInfoOf env w config)) (\<lambda>mintInfo.
     if 2 ^ 64 \<le> eq_transferTokenFee q then returning (Inl (WordRange (eq_transferTokenFee q)))
     else returning (Inr ((if referrerAtaAccount = None then [CreateAta True sender referrerAta referrer mint tokenProgram] else []) @
       [TransferChecked senderAta mint referrerAta sender (nat (eq_transferTokenFee q)) (mi_decimals mintInfo) tokenProgram])))))))"

definition payReferrerNative :: "('a, 'q) sol_exec_env \<Rightarrow> pubkey \<Rightarrow> ('a, 'q) exec_quote \<Rightarrow> sol_error + sol_ix list" where
  "payReferrerNative xenv sender q =
     (if eq_nativeTokenFee q \<le> 0 then Inr []
      else andThen (thrownV (xe_addressKey xenv (rt_address (eq_referrer q)))) (\<lambda>referrer.
           andThen (transferLamports sender referrer (nat (eq_nativeTokenFee q))) (\<lambda>ix. Inr [ix])))"

definition managerKeyOf :: "('w, 'p) sol_env \<Rightarrow> sol_contracts \<Rightarrow> sol_error + pubkey" where
  "managerKeyOf env contracts = thrownV (sv_publicKey env (sn_manager contracts))"

text \<open>The method has this name in the interface of the program.\<close>

definition relayNttMessageIx :: "('w, 'p) sol_env \<Rightarrow> ('a, 'q) sol_exec_env \<Rightarrow> pubkey \<Rightarrow> pubkey \<Rightarrow> string \<Rightarrow> ('a, 'q) exec_quote \<Rightarrow> pubkey
    \<Rightarrow> sol_error + sol_ix" where
  "relayNttMessageIx env xenv nttProgramId sender chain q outboxItem =
     andThen (thrownV (xe_payeeKey xenv (eq_payeeAddress q))) (\<lambda>payee.
     anchorIx env (executorProgram env ''nttWithExecutor'') ''relayNttMesage''
       [ArgRecord [(''execAmount'', ArgNum (eq_estimatedCost q)), (''recipientChain'', ArgNum (int (sk_toChainId (sv_keys env) chain))),
         (''signedQuoteBytes'', ArgBytes (eq_signedQuote q)), (''relayInstructions'', ArgBytes (eq_relayInstructions q))]]
       [(''payer'', Some sender), (''payee'', Some payee), (''nttProgramId'', Some nttProgramId),
        (''nttPeer'', Some (derivePda (sv_keys env) [textBytes ''peer'', chainToBytes (sv_keys env) chain] nttProgramId)),
        (''nttMessage'', Some outboxItem), (''executorProgram'', Some (sv_known env ''executor''))])"

section \<open>The helper's lookup table\<close>

definition helperLut :: "('w, 'p) sol_env \<Rightarrow> pubkey \<Rightarrow> pubkey" where
  "helperLut env nttProgramId = derivePda (sv_keys env) [textBytes ''lut'', nttProgramId] (sv_known env ''nttLut'')"

definition helperLutIx :: "('w, 'p) sol_env \<Rightarrow> pubkey \<Rightarrow> pubkey \<Rightarrow> int \<Rightarrow> sol_error + sol_ix" where
  "helperLutIx env nttProgramId sender recentSlot =
     (let authority = derivePda (sv_keys env) [textBytes ''lut_authority''] (sv_known env ''nttLut'') in
      if recentSlot < 0 \<or> 2 ^ 53 \<le> recentSlot then Inl (WordRange recentSlot)
      else anchorIx env (executorProgram env ''nttLut'') ''initializeLut'' [ArgNum recentSlot]
        [(''nttProgramId'', Some nttProgramId), (''nttConfig'', Some (derivePda (sv_keys env) [textBytes ''config''] nttProgramId)),
         (''authority'', Some authority),
         (''lutAddress'', Some (derivePda (sv_keys env) [authority, rev (be_bytes 8 (nat recentSlot))] (sv_known env ''lutProgram''))),
         (''lut'', Some (helperLut env nttProgramId)), (''lutProgram'', Some (sv_known env ''lutProgram'')),
         (''systemProgram'', Some (sv_known env ''system'')), (''payer'', Some sender)])"

text \<open>The pointer is read until it is there, at most \<open>retries\<close> times, each after a pause.\<close>

fun waitForLut :: "('w, 'p) sol_env \<Rightarrow> pubkey \<Rightarrow> nat \<Rightarrow> ('w, pubkey option) sol_run" where
  "waitForLut env lutPointerAddress 0 = returning (Inr None)"
| "waitForLut env lutPointerAddress (Suc retries) =
     proceed (\<lambda>(w, c). ([], Inr (), (sv_wait env w, c))) (\<lambda>_.
     proceed (readingW (\<lambda>w. thrownV (sv_lutPointer env w lutPointerAddress))) (\<lambda>lutPointer.
     if lutPointer = None then waitForLut env lutPointerAddress retries else returning (Inr lutPointer)))"

definition initializeHelperLut :: "('w, 'p) sol_env \<Rightarrow> pubkey \<Rightarrow> pubkey \<Rightarrow> ('w, pubkey option) sol_run" where
  "initializeHelperLut env nttProgramId sender =
     proceed (readingW (\<lambda>w. thrownV (sv_slot env w))) (\<lambda>slot.
     proceed (returning (helperLutIx env nttProgramId sender (slot - 10))) (\<lambda>ix.
     proceed (readingW (\<lambda>w. thrownV (sv_blockhash env w))) (\<lambda>_.
     proceed (unsignedSol env sender [ix] [] [] ''NttSvmLut.InitializeLut'') (\<lambda>_.
     waitForLut env (helperLut env nttProgramId) 10))))"

definition lutPointerOf :: "('w, 'p) sol_env \<Rightarrow> pubkey \<Rightarrow> pubkey \<Rightarrow> ('w, pubkey option) sol_run" where
  "lutPointerOf env nttProgramId sender =
     proceed (readingW (\<lambda>w. thrownV (sv_lutPointer env w (helperLut env nttProgramId)))) (\<lambda>found.
     case found of None \<Rightarrow> initializeHelperLut env nttProgramId sender | Some address \<Rightarrow> returning (Inr (Some address)))"

text \<open>A pointer that is still missing after the pauses is dereferenced all the same, which throws.\<close>

definition helperTable :: "('w, 'p) sol_env \<Rightarrow> pubkey \<Rightarrow> pubkey \<Rightarrow> ('w, sol_lut) sol_run" where
  "helperTable env nttProgramId sender =
     proceed (lutPointerOf env nttProgramId sender) (\<lambda>lutPointer.
     proceed (returning (case lutPointer of None \<Rightarrow> Inl LutPointerMissing | Some address \<Rightarrow> Inr address)) (\<lambda>address.
     proceed (readingW (\<lambda>w. thrownV (sv_lookupTable env w address))) (\<lambda>response.
     returning (case response of None \<Rightarrow> Inl LutNotFetched | Some table \<Rightarrow> Inr table))))"

definition relayTables :: "('w, 'p) sol_env \<Rightarrow> pubkey \<Rightarrow> pubkey \<Rightarrow> sol_lut list \<Rightarrow> ('w, sol_lut list) sol_run" where
  "relayTables env nttProgramId sender luts =
     (case luts of
        [] \<Rightarrow> proceed (helperTable env nttProgramId sender) (\<lambda>table. returning (Inr [table]))
      | _ \<Rightarrow> returning (Inr luts))"

section \<open>The transfer\<close>

definition relayOptions :: "bool \<Rightarrow> sol_options" where
  "relayOptions wrap = \<lparr>op_queue = False, op_automatic = False, op_wrapNative = wrap\<rparr>"

definition solExecutorTransfer :: "('w, 'p) sol_env \<Rightarrow> ('a, 'q) sol_exec_env \<Rightarrow> sol_contracts \<Rightarrow> pubkey \<Rightarrow> 'a chain_address
    \<Rightarrow> ('a, 'q) exec_quote \<Rightarrow> sol_ntt \<Rightarrow> bool \<Rightarrow> pubkey \<Rightarrow> ('w, unit) sol_run" where
  "solExecutorTransfer env xenv contracts sender destination q ntt wrap outboxItem =
     proceed (transferTx env ntt sender (nat (eq_remainingAmount q)) (rt_chain destination, xe_universal xenv (rt_address destination))
       (relayOptions wrap) outboxItem) (\<lambda>tx.
     proceed (lutsOrNone env ntt) (\<lambda>luts.
     proceed (payReferrerToken env xenv ntt sender q) (\<lambda>tokenFee.
     proceed (returning (payReferrerNative xenv sender q)) (\<lambda>nativeFee.
     proceed (returning (managerKeyOf env contracts)) (\<lambda>nttProgramId.
     proceed (returning (relayNttMessageIx env xenv nttProgramId sender (rt_chain destination) q outboxItem)) (\<lambda>relayIx.
     proceed (relayTables env nttProgramId sender luts) (\<lambda>tables.
     yieldTx env (tx\<lparr>sx_instructions := sx_instructions tx @ tokenFee @ nativeFee @ [relayIx], sx_luts := tables\<rparr>))))))))"

section \<open>Estimates\<close>

text \<open>\<open>cached\<close> is the static field that remembers the rent of a token account; zero counts as not there.\<close>

definition solEstimateMsgValueAndGasLimit :: "('w, 'p) sol_env \<Rightarrow> ('a, 'q) sol_exec_env \<Rightarrow> sol_contracts \<Rightarrow> 'a chain_address option
    \<Rightarrow> nat option \<Rightarrow> 'w \<Rightarrow> sol_error + (nat \<times> nat) \<times> nat option" where
  "solEstimateMsgValueAndGasLimit env xenv contracts recipient cached w =
     (let msgValue = (2 * 5000 + 7 * 5000 + 1400000) + (2 * 5000 + 7 * 5000) + (5000 + 3200000) + (5000 + 5000000) + 5000 in
      case recipient of
        None \<Rightarrow> Inr ((msgValue, 250000), cached)
      | Some r \<Rightarrow>
          andThen (thrownV (xe_addressKey xenv (rt_address r))) (\<lambda>recipientPk.
          andThen (thrownV (sv_publicKey env (sn_token contracts))) (\<lambda>mint.
          andThen (thrownV (sv_accountOwner env w mint)) (\<lambda>mintInfo.
          case mintInfo of
            None \<Rightarrow> Inl NoMintAccount
          | Some tokenProgram \<Rightarrow>
              andThen (thrownV (sv_accountOwner env w (sv_ata env mint recipientPk tokenProgram))) (\<lambda>account.
              if account \<noteq> None then Inr ((msgValue, 250000), cached)
              else andThen (case cached of
                     Some rent \<Rightarrow> if rent = 0 then thrownV (sv_minimumRent env w) else Inr rent
                   | None \<Rightarrow> thrownV (sv_minimumRent env w)) (\<lambda>rent.
                   Inr ((msgValue + rent, 250000), Some rent)))))))"

section \<open>What a relayed transfer pays\<close>

fun tokenPayment :: "sol_ix \<Rightarrow> (pubkey \<times> pubkey \<times> nat) list" where
  "tokenPayment (TransferChecked source mint destination owner amount decimals tokenProgram) = [(source, destination, amount)]"
| "tokenPayment _ = []"

fun nativePayment :: "sol_ix \<Rightarrow> (pubkey \<times> pubkey \<times> nat) list" where
  "nativePayment (SystemTransfer source destination lamports) = [(source, destination, lamports)]"
| "nativePayment _ = []"

definition referrerOf :: "('a, 'q) sol_exec_env \<Rightarrow> ('a, 'q) exec_quote \<Rightarrow> pubkey" where
  "referrerOf xenv q = projr (xe_addressKey xenv (rt_address (eq_referrer q)))"

lemma payReferrerToken_pays:
  assumes "payReferrerToken env xenv ntt sender q wc = (ys, Inr ixs, wc')" "ca_config (snd wc) = Some config"
  shows "ys = []" "concat (map nativePayment ixs) = []"
    and "concat (map tokenPayment ixs) = (if 0 < eq_transferTokenFee q
      then [(tokenAccountOf env config sender, tokenAccountOf env config (referrerOf xenv q), nat (eq_transferTokenFee q))] else [])"
proof -
  have "ys = [] \<and> concat (map nativePayment ixs) = [] \<and> concat (map tokenPayment ixs) = (if 0 < eq_transferTokenFee q
      then [(tokenAccountOf env config sender, tokenAccountOf env config (referrerOf xenv q), nat (eq_transferTokenFee q))] else [])"
    using assms
    by (auto simp: payReferrerToken_def Let_def process_simps tokenAccountOf_def referrerOf_def dest!: solConfig_Inr split: if_splits)
  then show "ys = []" "concat (map nativePayment ixs) = []"
    "concat (map tokenPayment ixs) = (if 0 < eq_transferTokenFee q
      then [(tokenAccountOf env config sender, tokenAccountOf env config (referrerOf xenv q), nat (eq_transferTokenFee q))] else [])"
    by simp_all
qed

lemma payReferrerNative_pays:
  assumes "payReferrerNative xenv sender q = Inr ixs"
  shows "concat (map tokenPayment ixs) = []"
    and "concat (map nativePayment ixs) = (if 0 < eq_nativeTokenFee q then [(sender, referrerOf xenv q, nat (eq_nativeTokenFee q))] else [])"
proof -
  have "concat (map tokenPayment ixs) = [] \<and>
      concat (map nativePayment ixs) = (if 0 < eq_nativeTokenFee q then [(sender, referrerOf xenv q, nat (eq_nativeTokenFee q))] else [])"
    using assms by (auto simp: payReferrerNative_def andThen_eq_Inr transferLamports_def referrerOf_def split: if_splits)
  then show "concat (map tokenPayment ixs) = []"
    "concat (map nativePayment ixs) = (if 0 < eq_nativeTokenFee q then [(sender, referrerOf xenv q, nat (eq_nativeTokenFee q))] else [])"
    by simp_all
qed

lemma waitForLut_silent: "waitForLut env address retries wc = (ys, Inr found, wc') \<Longrightarrow> ys = []"
proof (induction retries arbitrary: wc ys)
  case 0
  then show ?case by (simp add: process_simps)
next
  case (Suc retries)
  then show ?case by (cases wc) (auto simp: process_simps split: if_splits)
qed

lemma initializeHelperLut_titles:
  assumes "initializeHelperLut env nttProgramId sender wc = (ys, Inr found, wc')"
  shows "list_all (\<lambda>t. sx_title t = ''NttSvmLut.InitializeLut'') ys"
proof -
  from assms obtain tx vs wc1 where "ys = tx # vs" "sx_title tx = ''NttSvmLut.InitializeLut''"
    and wait: "waitForLut env (helperLut env nttProgramId) 10 wc1 = (vs, Inr found, wc')"
    unfolding initializeHelperLut_def process_simps by (clarsimp simp del: waitForLut.simps)
  then show ?thesis using waitForLut_silent [OF wait] by simp
qed

lemma lutPointerOf_titles:
  "lutPointerOf env nttProgramId sender wc = (ys, Inr found, wc') \<Longrightarrow> list_all (\<lambda>t. sx_title t = ''NttSvmLut.InitializeLut'') ys"
  by (auto simp: lutPointerOf_def process_simps dest: initializeHelperLut_titles split: option.splits)

lemma helperTable_titles:
  "helperTable env nttProgramId sender wc = (ys, Inr table, wc') \<Longrightarrow> list_all (\<lambda>t. sx_title t = ''NttSvmLut.InitializeLut'') ys"
  by (auto simp: helperTable_def process_simps dest: lutPointerOf_titles)

lemma relayTables_Inr:
  assumes "relayTables env nttProgramId sender luts wc = (ys, Inr tables, wc')" "length luts \<le> 1"
  shows "list_all (\<lambda>t. sx_title t = ''NttSvmLut.InitializeLut'') ys \<and> length tables = 1"
  using assms by (cases luts) (auto simp: relayTables_def process_simps dest: helperTable_titles)

definition requestsSolRelay :: "('w, 'p) sol_env \<Rightarrow> ('a, 'q) sol_exec_env \<Rightarrow> pubkey \<Rightarrow> string \<Rightarrow> ('a, 'q) exec_quote \<Rightarrow> pubkey \<Rightarrow> sol_ix \<Rightarrow> bool" where
  "requestsSolRelay env xenv sender chain q outboxItem ix \<longleftrightarrow>
     calls ix (sv_known env ''nttWithExecutor'') ''relayNttMesage'' \<and>
     argsOf ix = [ArgRecord [(''execAmount'', ArgNum (eq_estimatedCost q)), (''recipientChain'', ArgNum (int (sk_toChainId (sv_keys env) chain))),
       (''signedQuoteBytes'', ArgBytes (eq_signedQuote q)), (''relayInstructions'', ArgBytes (eq_relayInstructions q))]] \<and>
     namedKey ix ''payer'' = Some sender \<and> namedKey ix ''nttMessage'' = Some outboxItem \<and>
     (\<exists>payee. xe_payeeKey xenv (eq_payeeAddress q) = Inr payee \<and> namedKey ix ''payee'' = Some payee)"

lemma relayNttMessageIx_requests:
  "relayNttMessageIx env xenv nttProgramId sender chain q outboxItem = Inr ix \<Longrightarrow> requestsSolRelay env xenv sender chain q outboxItem ix"
  by (auto simp: relayNttMessageIx_def andThen_eq_Inr anchorIx_eq_Inr requestsSolRelay_def executorProgram_def)

text \<open>
  C16. A relayed transfer pays what was quoted, in one transaction. That transaction begins with the transfer of the
  remaining amount, which spends exactly what it delegates; the instructions added to it pay the referrer the fee in
  the token and the fee in native tokens, both once and no more than quoted, and the last one asks for the relay of the
  same outbox item, with the signed quote, its instructions and its cost, to be paid to the payee of the quote. It is
  compiled with exactly one lookup table; what comes before it wraps native tokens or creates that table.
\<close>

theorem solExecutorTransfer_pays_quote:
  assumes "chainLaws env" "solExecutorTransfer env xenv contracts sender destination q ntt wrap outboxItem wc = (txs, Inr (), wc')"
  shows "\<exists>pre tx base added relayIx config. txs = pre @ [tx] \<and>
    list_all (\<lambda>t. sx_title t \<in> {''Ntt.WrapNative'', ''NttSvmLut.InitializeLut''}) pre \<and> readConfig env ntt wc config \<and>
    transferOf env ntt sender (nat (eq_remainingAmount q)) (rt_chain destination, xe_universal xenv (rt_address destination)) False outboxItem config base \<and>
    sx_instructions tx = sx_instructions base @ added @ [relayIx] \<and> sx_payer tx = sx_payer base \<and> sx_signers tx = sx_signers base \<and>
    sx_title tx = sx_title base \<and> length (sx_luts tx) = 1 \<and>
    concat (map tokenPayment added) = (if 0 < eq_transferTokenFee q
      then [(tokenAccountOf env config sender, tokenAccountOf env config (referrerOf xenv q), nat (eq_transferTokenFee q))] else []) \<and>
    concat (map nativePayment added) = (if 0 < eq_nativeTokenFee q then [(sender, referrerOf xenv q, nat (eq_nativeTokenFee q))] else []) \<and>
    requestsSolRelay env xenv sender (rt_chain destination) q outboxItem relayIx"
proof -
  from assms(2) obtain us base wc1 vs luts wc2 fs tokenFee wc3 nativeFee nttProgramId relayIx gs tables wc4 where
    base: "transferTx env ntt sender (nat (eq_remainingAmount q)) (rt_chain destination, xe_universal xenv (rt_address destination))
      (relayOptions wrap) outboxItem wc = (us, Inr base, wc1)"
    and luts: "lutsOrNone env ntt wc1 = (vs, Inr luts, wc2)"
    and token: "payReferrerToken env xenv ntt sender q wc2 = (fs, Inr tokenFee, wc3)"
    and native: "payReferrerNative xenv sender q = Inr nativeFee"
    and relay: "relayNttMessageIx env xenv nttProgramId sender (rt_chain destination) q outboxItem = Inr relayIx"
    and tables: "relayTables env nttProgramId sender luts wc3 = (gs, Inr tables, wc4)"
    and txs: "txs = us @ vs @ fs @ gs @ [base\<lparr>sx_instructions := sx_instructions base @ tokenFee @ nativeFee @ [relayIx], sx_luts := tables\<rparr>]"
    by (auto simp: solExecutorTransfer_def process_simps split: if_splits)
  obtain config where config: "readConfig env ntt wc config" "ca_config (snd wc1) = Some config"
    "list_all (\<lambda>t. sx_title t = ''Ntt.WrapNative'') us"
    "transferOf env ntt sender (nat (eq_remainingAmount q)) (rt_chain destination, xe_universal xenv (rt_address destination)) False outboxItem config base"
    using transferTx_transfers [OF assms(1) base] by (auto simp: relayOptions_def)
  have wc2: "ca_config (snd wc2) = Some config" "vs = []" "length luts \<le> 1" using lutsOrNone_Inr [OF luts] config(2) by simp_all
  have gs: "list_all (\<lambda>t. sx_title t = ''NttSvmLut.InitializeLut'') gs" "length tables = 1"
    using relayTables_Inr [OF tables wc2(3)] by simp_all
  let ?tx = "base\<lparr>sx_instructions := sx_instructions base @ (tokenFee @ nativeFee) @ [relayIx], sx_luts := tables\<rparr>"
  have "list_all (\<lambda>t. sx_title t \<in> {''Ntt.WrapNative'', ''NttSvmLut.InitializeLut''}) (us @ gs)"
    using config(3) gs(1) by (auto simp: list_all_iff)
  moreover have "txs = (us @ gs) @ [?tx]" using txs wc2(2) payReferrerToken_pays(1) [OF token wc2(1)] by simp
  ultimately show ?thesis
    using config(1,4) gs(2) payReferrerToken_pays(2,3) [OF token wc2(1)] payReferrerNative_pays [OF native]
      relayNttMessageIx_requests [OF relay]
    by (intro exI [of _ "us @ gs"] exI [of _ ?tx] exI [of _ base] exI [of _ "tokenFee @ nativeFee"] exI [of _ relayIx] exI [of _ config]) simp
qed

text \<open>A relayed transfer of the example's chain, where the helper's table is already there.\<close>

definition exampleXenv :: "(string, bytes) sol_exec_env" where
  "exampleXenv = \<lparr>xe_addressKey = (\<lambda>s. Inr (textBytes s)), xe_universal = (\<lambda>_. PAYER), xe_payeeKey = Inr\<rparr>"

definition exampleSolQuote :: "(string, bytes) exec_quote" where
  "exampleSolQuote = \<lparr>eq_signedQuote = [1], eq_relayInstructions = [2], eq_estimatedCost = 70, eq_payeeAddress = [3],
     eq_referrer = \<lparr>rt_chain = ''Solana'', rt_address = ''R''\<rparr>, eq_transferTokenFee = 5, eq_nativeTokenFee = 6, eq_remainingAmount = 95,
     eq_expires = 0, eq_gasDropOff = 0, eq_feeToken = None\<rparr>"

abbreviation exampleReceiver :: "string chain_address" where
  "exampleReceiver \<equiv> \<lparr>rt_chain = ''Ethereum'', rt_address = ''A''\<rparr>"

lemma exampleSol_lut:
  "sv_lutPointer exampleSol w a = Inr (if w < 2 then None else Some [3])" "sv_lookupTable exampleSol w a = Inr (Some exampleTable)"
  "sv_publicKey exampleSol s = Inr (textBytes s)"
  by (simp_all add: exampleSol_def)

lemma example_relayTables: "2 \<le> fst wc \<Longrightarrow> \<exists>tables. relayTables exampleSol p sender luts wc = ([], Inr tables, wc)"
  by (cases wc; cases luts) (simp_all add: relayTables_def helperTable_def lutPointerOf_def proceed_def readingW_def reading_def returning_def
      thrownV_def exampleSol_lut)

lemma example_tokenFee: "\<exists>ixs. payReferrerToken exampleSol exampleXenv exampleSolNtt sender exampleSolQuote wc = ([], Inr ixs, wc)"
  if "ca_config (snd wc) = Some exampleSolConfig"
  using that
  by (cases wc) (simp add: payReferrerToken_def exampleSolQuote_def exampleXenv_def proceed_def returning_def readingW_def reading_def
      solConfig_def thrownV_def exampleSol_sel mintInfoOf_def Let_def)

lemma example_nativeFee: "\<exists>ixs. payReferrerNative exampleXenv sender exampleSolQuote = Inr ixs"
  by (simp add: payReferrerNative_def exampleSolQuote_def exampleXenv_def thrownV_def andThen_def transferLamports_def)

lemma example_relayIx: "\<exists>ix. relayNttMessageIx exampleSol exampleXenv p sender chain exampleSolQuote outboxItem = Inr ix"
  by (simp add: relayNttMessageIx_def exampleXenv_def thrownV_def andThen_def anchorIx_def exampleSol_sel)

definition exampleSolRelayed :: "sol_tx list \<times> (sol_error + unit) \<times> nat \<times> sol_cache" where
  "exampleSolRelayed = solExecutorTransfer exampleSol exampleXenv (so_contracts exampleSolNtt) PAYER exampleReceiver exampleSolQuote
     exampleSolNtt False OWNER (5, emptyCache)"

lemma example_read: "readConfig exampleSol exampleSolNtt (w, emptyCache) config \<longleftrightarrow> config = exampleSolConfig"
  by (auto simp: readConfig_def emptyCache_def fetchConfig_def thrownV_def exampleSol_sel)

lemma example_quote: "nat (eq_remainingAmount exampleSolQuote) = 95" "eq_nativeTokenFee exampleSolQuote = 6"
    "xe_universal exampleXenv a = PAYER" "referrerOf exampleXenv exampleSolQuote = textBytes ''R''"
    "managerKeyOf exampleSol (so_contracts exampleSolNtt) = Inr (textBytes ''M'')"
  by (simp_all add: exampleSolQuote_def exampleXenv_def referrerOf_def managerKeyOf_def exampleSolNtt_def exampleSol_lut thrownV_def)

lemma exampleSolRelayed_returns: "\<exists>txs wc'. exampleSolRelayed = (txs, Inr (), wc')"
proof -
  obtain base wc1 where base: "transferTx exampleSol exampleSolNtt PAYER 95 exampleDestination (relayOptions False) OWNER (5, emptyCache) = ([], Inr base, wc1)"
    and w: "fst wc1 = 5" using example_transferTx [of 95 PAYER False OWNER 5] by (auto simp: relayOptions_def)
  have cached: "ca_config (snd wc1) = Some exampleSolConfig" using transferTx_transfers [OF exampleSol_laws base] by (auto simp: example_read)
  obtain luts wc2 where luts: "lutsOrNone exampleSol exampleSolNtt wc1 = ([], Inr luts, wc2)" "fst wc2 = 5"
    using lutsOrNone_total [of exampleSol exampleSolNtt wc1] w by auto
  then have "ca_config (snd wc2) = Some exampleSolConfig" using lutsOrNone_Inr [OF luts(1)] cached by simp
  then obtain tokenFee where "payReferrerToken exampleSol exampleXenv exampleSolNtt PAYER exampleSolQuote wc2 = ([], Inr tokenFee, wc2)"
    using example_tokenFee by blast
  moreover obtain nativeFee where "payReferrerNative exampleXenv PAYER exampleSolQuote = Inr nativeFee" using example_nativeFee by blast
  moreover obtain ix where "relayNttMessageIx exampleSol exampleXenv (textBytes ''M'') PAYER ''Ethereum'' exampleSolQuote OWNER = Inr ix"
    using example_relayIx by blast
  moreover obtain tables where "relayTables exampleSol (textBytes ''M'') PAYER luts wc2 = ([], Inr tables, wc2)"
    using example_relayTables [of wc2 "textBytes ''M''" PAYER luts] luts(2) by auto
  ultimately show ?thesis
    using base luts(1)
    by (cases wc2) (simp add: exampleSolRelayed_def solExecutorTransfer_def example_quote proceed_def returning_def yieldTx_def sending_def)
qed

lemma solExecutorTransfer_pays_quote_witness:
  "\<exists>pre tx base added relayIx. fst exampleSolRelayed = pre @ [tx] \<and> sx_instructions tx = sx_instructions base @ added @ [relayIx] \<and>
     transferOf exampleSol exampleSolNtt PAYER 95 exampleDestination False OWNER exampleSolConfig base \<and>
     concat (map nativePayment added) = [(PAYER, textBytes ''R'', 6)] \<and>
     requestsSolRelay exampleSol exampleXenv PAYER ''Ethereum'' exampleSolQuote OWNER relayIx"
proof -
  obtain txs wc' where run: "exampleSolRelayed = (txs, Inr (), wc')" using exampleSolRelayed_returns by blast
  show ?thesis
    using solExecutorTransfer_pays_quote [OF exampleSol_laws run [unfolded exampleSolRelayed_def]]
    unfolding run fst_conv example_read example_quote route_token.select_convs by fastforce
qed

end
