(* ===== verification/Spec2Isabelle.thy ===== *)
theory Spec2Isabelle
  imports Ntt_Definitions Limit_Format Inbound_Limits Config_Check Task_Pool Pull Push
    Missing_Config Xrpl_Helpers Xrpl_Builders Xrpl_Transfer Route_Manual Evm_Executor Evm_Multi_Token Sui_Executor
    Solana_Executor
begin

text \<open>
  Native Token Transfers (NTT) moves a token between chains: on every chain a manager contract locks or
  burns, and transceivers carry messages (VAAs of Wormhole, or of another network) to the manager of
  the other chain. This development models the hand-written TypeScript of the repository: the shared
  definitions (\<open>src/sdk/definitions\<close>), the routes that send and follow a transfer (\<open>src/sdk/route\<close>), the
  protocols of the chains they call (\<open>src/evm/ts\<close>, \<open>src/solana/ts\<close>, \<open>src/sui/ts\<close>, \<open>src/xrpl/ts\<close>) and the command line tool that operates a
  deployment (\<open>src/cli\<close>). A definition has the name of the function or type it translates, with a prefix
  where two protocols have a method of the same name.

  \<^bold>\<open>The language.\<close> \<open>Js_Prelude\<close>: results of code that may throw (\<open>andThen\<close>, \<open>mapR\<close>, \<open>foldR\<close> on sums).
  \<open>Js_Strings\<close>: strings, numerals, \<open>BigInt\<close> of a text. \<open>Js_Bytes\<close>: buffers as lists of 8-bit words, big-endian
  integers, hexadecimal, and the locales \<open>codec\<close> and \<open>fixed_codec\<close> of an encoder with its decoder. \<open>Js_Utf8\<close>:
  UTF-8 as a codec. \<open>Js_Numbers\<close>: the type \<open>number\<close>, comparisons, rounding to doubles, \<open>Math.round\<close>. \<open>Js_Objects\<close>:
  objects as association lists in insertion order, and the locale \<open>keyed_store\<close> of stores that are written
  key by key, interpreted on plain objects, on the limits of a configuration (\<open>Inbound_Limits\<close>) and on
  the file being pulled (\<open>Pull\<close>). \<open>Js_Generators\<close>: asynchronous generators of transactions as processes on a
  world that each delivered transaction changes. \<open>Byte_Layouts\<close>: the layouts of the package \<open>binary-layout\<close>.

  \<^bold>\<open>Shared definitions.\<close> \<open>Trimmed_Amount\<close> (\<open>trimmedAmount.ts\<close>): packing, scaling and untrimming of amounts.
  \<open>Ntt_Definitions\<close> (\<open>layouts/transfer.ts\<close>, \<open>ntt.ts\<close>, \<open>evm/ts/src/bindings.ts\<close>): the optional payload of a
  transfer, message digests, versions of the contracts' interfaces.

  \<^bold>\<open>Operating a deployment.\<close> The deployment file is the record \<open>deployments_config\<close> (\<open>Deployments\<close>), read and
  written as JSON where it is compared (\<open>Config_Diff\<close>, \<open>diff.ts\<close>). \<open>Limit_Format\<close> (\<open>limitFormatting.ts\<close>): rate
  limits as decimal texts. \<open>Inbound_Limits\<close> (\<open>limits.ts\<close>, \<open>prompts.ts\<close>): which limits are missing and the dialogue
  that fills them in. \<open>Config_Check\<close> (\<open>configErrors.ts\<close>). \<open>Task_Pool\<close> (\<open>utils/concurrency.ts\<close>): the workers that
  run the queries, as a step relation. \<open>Ntt_Api\<close>: what is asked of a contract, and the retries.
  \<open>Pull\<close> (\<open>query.ts\<close> and \<open>pullDeployments\<close>, \<open>pullChainConfig\<close> of \<open>config-mgmt.ts\<close>): the chain's state into the file.
  \<open>Push\<close> (\<open>pushDeployment\<close>): the file's state onto the chain, through the difference of the two.
  \<open>Missing_Config\<close> (\<open>validation.ts\<close>): the registrations a deployment misses, which the pool collects.

  \<^bold>\<open>XRPL.\<close> \<open>Xrpl_Token\<close> (\<open>tokenId.ts\<close>), \<open>Xrpl_Payload\<close> (\<open>payloads.ts\<close>: the parsers and the VAA envelope),
  \<open>Xrpl_Builders\<close> (\<open>admin.ts\<close>, \<open>onboarding.ts\<close>: what is published, read back by the parsers),
  \<open>Xrpl_Helpers\<close> (\<open>helpers.ts\<close>, \<open>manager-set.ts\<close>: flags, submission, the signer list).

  \<^bold>\<open>Routes.\<close> \<open>Route_Resolve\<close> (\<open>NttRoute\<close> of \<open>types.ts\<close>): tokens, contracts, trimmed amounts, the referrer fee.
  \<open>Route_Executor\<close> (\<open>executor.ts\<close>, \<open>consts.ts\<close>): validate, quote, initiate, resume. \<open>Route_Track\<close> (\<open>track\<close>,
  \<open>complete\<close>, \<open>finalize\<close> of \<open>executor.ts\<close>, \<open>tracking.ts\<close>): a generator is a run, the receipts it yields and how
  it ends. \<open>Route_Manual\<close> (\<open>manual.ts\<close>): the route nobody relays, with the last stage of tracking shared.
  \<open>Route_Multi\<close> (\<open>MultiTokenNttRoute\<close> of \<open>types.ts\<close>): tokens on the other chain, and the tracking loop.
  \<open>Route_Multi_Executor\<close> (\<open>executor/multiToken.ts\<close>, \<open>multiTokenManual.ts\<close>, and \<open>resume\<close> of \<open>types.ts\<close>): quotes,
  starting and resuming a transfer on the multi-token routes.

  \<^bold>\<open>Protocols of the chains.\<close> \<open>Evm_Tx\<close>: transactions, approvals, and the laws of an ERC-20 token. \<open>Evm_Ntt\<close>
  (\<open>evm/ts/src/ntt.ts\<close>): the manager with its transceivers. \<open>Evm_Executor\<close> (\<open>nttWithExecutor.ts\<close>,
  \<open>executorGasLimits.ts\<close>): the transfer paid to a relayer, as quoted by \<open>Route_Executor\<close>. \<open>Axelar\<close> (\<open>axelar.ts\<close>): the
  relay fee and the status of a message, which \<open>Route_Track\<close> shows. \<open>Evm_Multi_Token\<close> (\<open>multiTokenNtt.ts\<close>,
  \<open>multiTokenNttWithExecutor.ts\<close>): the manager of many tokens, called by \<open>Route_Multi_Executor\<close>.
  \<open>Sui_Ptb\<close>: transactions on Sui as lists of commands that refer to earlier results, built by computations on
  the protocol object that may throw, and the rules for what such a computation builds. \<open>Sui_Utils\<close> (\<open>sui/ts/src\<close>:
  \<open>utils.ts\<close>, \<open>constants.ts\<close>, \<open>bcs-types.ts\<close>): objects, packages, the transceiver registry, votes. \<open>Sui_Ntt\<close> (\<open>ntt.ts\<close>):
  the manager's state, its caches and every transaction. \<open>Sui_Lawful\<close>: what these transactions look like.
  \<open>Sui_Executor\<close> (\<open>nttWithExecutor.ts\<close>): the transfer paid to a relayer in one transaction.
  \<open>Solana_Accounts\<close> (\<open>solana/ts/lib\<close>: \<open>utils.ts\<close> and the derived accounts of \<open>ntt.ts\<close>): keys, seeds, governance messages.
  \<open>Solana_Instructions\<close> (\<open>ntt.ts\<close>, \<open>bindings.ts\<close>): every instruction, with its arguments and named accounts, and the accounts
  of a transfer hook. \<open>Solana_Transceiver\<close> and \<open>Solana_Ntt\<close> (\<open>solana/ts/sdk/ntt.ts\<close>): the transceiver and the manager as
  processes with the caches of the object. \<open>Solana_Parts\<close>: messages posted in parts, against what the program does with
  them, the account it derives included. \<open>Solana_Lawful\<close>: what the transactions look like. \<open>Solana_Executor\<close> (\<open>nttWithExecutor.ts\<close>): the relayed transfer.
  \<open>Xrpl_Transfer\<close> (\<open>xrpl/ts/src\<close>): payments with memos, and the request to the relayer that refers to one.
\<close>

text \<open>
  \<^bold>\<open>State and operations.\<close> What a function reads from a chain, a service or the user is a record of
  functions, a list of answers or a stream of lines, given to the definition; what it writes is
  returned (the new configuration, the actions sent, the receipts yielded). Concurrency is modelled
  where it matters, in \<open>Task_Pool\<close>: the pool is a state with its workers, \<open>pool_reach\<close> relates it to every
  state it can be in after any interleaving of completions, and \<open>runTaskPool_resolves\<close> says what its promise
  can settle with. The callers (\<open>Pull\<close>, \<open>Missing_Config\<close>) take the order in which tasks settle as an argument,
  so that their theorems hold for each.

  \<^bold>\<open>What is shown.\<close> Push: the order of the actions, that what differed has been sent, and that nothing is
  sent when a field cannot be (C1 to C3). Pull and the collection of missing registrations: what they
  write or report is what the contracts answered, for every order of the tasks (C4, C5 and
  \<open>pullDeployments_accounts\<close>). The pool: results in the order of the items, progress until the promise
  settles. The limits: which pairs are reported, that the dialogue writes these and nothing else, and
  that it returns. The difference: what it holds under each key, and that it is empty exactly when the
  two sides agree. Codecs: round trips for amounts, payloads, VAAs, currency codes and everything the
  XRPL builders publish; as lemmas, that the emitters of different kinds never collide and that the signer list is
  read exactly. Routes: a quote keeps
  amounts and bounds, gas is dropped only at the recipient, a resumed transfer is redeemed at the
  configured peer, every state shown while tracking has its reason, and the tracking loop ends.
  Protocols: on an EVM chain the call that transfers comes last, with the approvals it needs before it
  and the value that pays what was quoted, for the manager and for both relayed transfers, which are composed
  with the quotes of the routes; on XRPL the two payments read back as the transfer and its request. On Sui every transaction only uses
  results that exist and each of them at most once, the relayed transfer splits from the coins exactly what the
  quote says, votes are counted below index 32, and a queued transfer can never be completed. On Solana a
  transfer delegates exactly what it spends and a paused manager sends nothing, the instructions that redeem a message
  hand over the VAA and agree on its accounts, parts of a message make up the message in every order where the client
  and the program derive the same account, the accounts of a program do not collide, a hook gets no more
  rights than the transfer has, and the relayed transfer adds to it what was quoted.

  \<^bold>\<open>Bounds and fuel.\<close> Loops over a stream of answers (\<open>askLimit\<close>, \<open>promptLine\<close>) end with \<open>None\<close> when the stream does;
  \<open>configureInboundLimitsForPull_returns\<close> gives the streams for which they return. \<open>trackLoop\<close> reads a list of
  passes; \<open>trackMulti_ends\<close> shows that as many as the time limit holds pauses of five seconds are enough.
  \<open>retryWithExponentialBackoff\<close> counts its attempts. \<open>countSetBits\<close> ends because the number gets smaller as an
  unsigned word of 32 bits; the pages of fields on Sui are the list of the node's answers. \<open>postChunks\<close> ends because the offset grows, and
  \<open>waitForLut\<close> counts its attempts. Every other recursion is structural.

  \<^bold>\<open>Parameters.\<close> The Wormhole SDK (chain names and ids, addresses, amounts, layouts, the protocols of a
  chain), \<open>ethers\<close>, the \<open>xrpl\<close> package, keccak256 and the HTTP services are arguments of the definitions. Where a
  property needs more than their types, it assumes a named law (\<open>sdkLaws\<close>, \<open>amountLaws\<close>, \<open>testsByName\<close>,
  \<open>chainLaws\<close>, \<open>postsParts\<close>, \<open>codec\<close>, \<open>classicAddress\<close>, \<open>erc20Laws\<close>, \<open>layoutLaws\<close>, \<open>xrplSdkLaws\<close>) and a witness satisfies it.

  \<^bold>\<open>Simplifications.\<close> Characters have codes below 256 outside \<open>Js_Utf8\<close>. A thrown error keeps what its
  message depends on, not its text. Objects are their own properties in insertion order: a name of
  \<open>Object.prototype\<close> is only found where the code uses the operator \<open>in\<close> (\<open>parseMptFlags\<close>). On Sui the chain does
  not change while a transaction is being built, and addresses put into a transaction are valid. On Solana addresses are keys, an instruction that Anchor builds is kept with the names of its
  accounts, the size limit of a transaction is left out, and promises awaited together are awaited in order.

  \<^bold>\<open>Not modelled.\<close> The contracts (Solidity, Rust, Move), except for what \<open>Solana_Parts\<close> takes from one of them, and
  the generated bindings;
  the loop of the executor routes that asks for the status of a transfer in the background, which
  only reads; commands that only parse flags, start processes, read files or print.
\<close>

end
